(* ===== verification/AWM_Prelude.thy ===== *)
theory AWM_Prelude
  imports Main "HOL-Library.AList" "HOL-Library.Char_ord" "HOL-Library.List_Lexorder"
begin

text \<open>
  Shared vocabulary of the development: Go slices whose nil-ness is observed, results that
  carry a Go error, the two loop shapes that most of the normalizers of the program have
  (collect into a seen-set and sort; fold into a map by key and emit in key order), the
  locales that state what such loops guarantee, and the lemma collections of the proofs.

  A Go \<open>string\<close> is the list of its bytes. The order of \<open>List_Lexorder\<close> over \<open>Char_ord\<close> is
  the byte order that Go's \<open><\<close> and \<open>sort.Strings\<close> use.
\<close>

named_theorems norm_simps \<open>facts about normalizers, for rewriting\<close>
named_theorems go_string_simps \<open>facts about the Go string library, for rewriting\<close>
named_theorems store_simps \<open>facts about tables and the storage model, for rewriting\<close>

section \<open>Slices and results\<close>

text \<open>\<open>None\<close> is the nil slice; where the code only asks for the length or ranges over the
  slice, \<open>elems\<close> forgets the difference.\<close>

type_synonym 'a slice = "'a list option"

definition elems :: "'a slice \<Rightarrow> 'a list" where
  "elems s = (case s of None \<Rightarrow> [] | Some xs \<Rightarrow> xs)"

lemma elems_simps [simp]: "elems None = []" "elems (Some xs) = xs"
  by (simp_all add: elems_def)

fun bind_res :: "'e + 'a \<Rightarrow> ('a \<Rightarrow> 'e + 'b) \<Rightarrow> 'e + 'b" where
  "bind_res (Inl e) f = Inl e"
| "bind_res (Inr x) f = f x"

lemma bind_res_Inr_iff:
  "bind_res r f = Inr y \<longleftrightarrow> (\<exists>x. r = Inr x \<and> f x = Inr y)"
  by (cases r) auto

lemma bind_res_Inl_iff:
  "bind_res r f = Inl e \<longleftrightarrow> r = Inl e \<or> (\<exists>x. r = Inr x \<and> f x = Inl e)"
  by (cases r) auto

fun map_res :: "('a \<Rightarrow> 'e + 'b) \<Rightarrow> 'a list \<Rightarrow> 'e + 'b list" where
  "map_res f [] = Inr []"
| "map_res f (x # xs) =
     bind_res (f x) (\<lambda>y. bind_res (map_res f xs) (\<lambda>ys. Inr (y # ys)))"

lemma map_res_cong [fundef_cong]:
  "xs = ys \<Longrightarrow> (\<And>x. x \<in> set ys \<Longrightarrow> f x = g x) \<Longrightarrow> map_res f xs = map_res g ys"
  by (induction ys arbitrary: xs) auto

lemma map_res_Inr:
  "map_res f xs = Inr ys \<longleftrightarrow> list_all2 (\<lambda>x y. f x = Inr y) xs ys"
  by (induction xs arbitrary: ys)
     (auto simp: bind_res_Inr_iff list_all2_Cons1 simp del: list_all2_iff)

text \<open>The first error decides: a list of checks run in order until one fails.\<close>

fun first_error :: "'e option list \<Rightarrow> 'e option" where
  "first_error [] = None"
| "first_error (None # cs) = first_error cs"
| "first_error (Some e # cs) = Some e"

lemma first_error_None: "first_error cs = None \<longleftrightarrow> (\<forall>c \<in> set cs. c = None)"
  by (induction cs rule: first_error.induct) auto

lemma first_error_Some_mem: "first_error cs = Some e \<Longrightarrow> Some e \<in> set cs"
  by (induction cs rule: first_error.induct) auto

fun index_from :: "nat \<Rightarrow> 'a list \<Rightarrow> (nat \<times> 'a) list" where
  "index_from n [] = []"
| "index_from n (x # xs) = (n, x) # index_from (Suc n) xs"

lemma index_from_zip: "index_from n xs = zip [n ..< n + length xs] xs"
  by (induction xs arbitrary: n) (simp_all add: upt_rec)

section \<open>The seen-set loop\<close>

text \<open>\<open>for raw { y := f(raw); if y == "" || seen[y] { continue }; seen[y]; append y }\<close>\<close>

fun norm_unique :: "('a \<Rightarrow> string) \<Rightarrow> string list \<Rightarrow> 'a list \<Rightarrow> string list" where
  "norm_unique f seen [] = []"
| "norm_unique f seen (x # xs) =
     (if f x = '''' \<or> f x \<in> set seen then norm_unique f seen xs
      else f x # norm_unique f (f x # seen) xs)"

lemma set_norm_unique: "set (norm_unique f seen xs) = f ` set xs - insert '''' (set seen)"
  by (induction f seen xs rule: norm_unique.induct) auto

lemma distinct_norm_unique: "distinct (norm_unique f seen xs)"
  by (induction f seen xs rule: norm_unique.induct) (auto simp: set_norm_unique)

lemma norm_unique_id:
  assumes "distinct xs" "\<And>x. x \<in> set xs \<Longrightarrow> f x = x" "'''' \<notin> set xs"
    "set xs \<inter> set seen = {}"
  shows "norm_unique f seen xs = xs"
  using assms by (induction f seen xs rule: norm_unique.induct) auto

lemma norm_unique_length: "length (norm_unique f seen xs) \<le> length xs"
  by (induction f seen xs rule: norm_unique.induct) auto

lemma norm_unique_Nil_iff: "norm_unique f [] xs = [] \<longleftrightarrow> (\<forall>x \<in> set xs. f x = '''')"
proof -
  have "norm_unique f [] xs = [] \<longleftrightarrow> set (norm_unique f [] xs) = {}" by simp
  also have "\<dots> \<longleftrightarrow> (\<forall>x \<in> set xs. f x = '''')" by (auto simp: set_norm_unique)
  finally show ?thesis .
qed

text \<open>The loops that also sort: their result is the sorted list of the set of the non-empty
  normalized values. The contract that a client of such a routine uses.\<close>

locale list_normalizer =
  fixes f :: "string \<Rightarrow> string"
    and nl :: "string list \<Rightarrow> string list"
  assumes nl_unfold: "nl xs = sort (norm_unique f [] xs)"
begin

lemma nl_set: "set (nl xs) = f ` set xs - {''''}"
  by (simp add: nl_unfold set_norm_unique)

lemma nl_sorted: "sorted (nl xs)"
  by (simp add: nl_unfold)

lemma nl_distinct: "distinct (nl xs)"
  by (simp add: nl_unfold distinct_norm_unique)

lemma nl_sorted_list_of_set: "nl xs = sorted_list_of_set (f ` set xs - {''''})"
  by (metis nl_set nl_sorted nl_distinct sorted_list_of_set.idem_if_sorted_distinct)

lemma nl_cong_set: "set xs = set ys \<Longrightarrow> nl xs = nl ys"
  by (simp add: nl_sorted_list_of_set)

lemma nl_nonempty: "'''' \<notin> set (nl xs)"
  by (simp add: nl_set)

lemma nl_length: "length (nl xs) \<le> length xs"
  by (simp add: nl_unfold norm_unique_length)

lemma nl_mono: "set xs \<subseteq> set ys \<Longrightarrow> set (nl xs) \<subseteq> set (nl ys)"
  by (auto simp: nl_set)

lemma nl_id:
  assumes "sorted xs" "distinct xs" "'''' \<notin> set xs" "\<And>x. x \<in> set xs \<Longrightarrow> f x = x"
  shows "nl xs = xs"
  using assms by (simp add: nl_unfold norm_unique_id sorted_sort_id)

end

locale idem_normalizer = list_normalizer +
  assumes f_idem: "f (f s) = f s"
begin

lemma nl_fixed: "x \<in> set (nl xs) \<Longrightarrow> f x = x"
  by (auto simp: nl_set f_idem)

lemma nl_idem: "nl (nl xs) = nl xs"
  by (rule nl_id) (auto simp: nl_sorted nl_distinct nl_nonempty nl_fixed)

lemma nl_append_idem: "nl (nl xs @ ys) = nl (xs @ ys)"
proof -
  have "f ` (f ` set xs - {''''}) = f ` set xs - {''''}"
  proof (intro equalityI subsetI)
    fix y assume y: "y \<in> f ` set xs - {''''}"
    then have "f y = y" using f_idem by auto
    then show "y \<in> f ` (f ` set xs - {''''})" using y by (metis imageI)
  qed (use f_idem in auto)
  then have "f ` set (nl xs @ ys) - {''''} = f ` set (xs @ ys) - {''''}"
    by (simp only: nl_set set_append image_Un Un_Diff) simp
  then show ?thesis by (simp only: nl_sorted_list_of_set)
qed

lemma nl_append_nl_right: "nl (xs @ nl ys) = nl (xs @ ys)"
proof -
  have "nl (xs @ nl ys) = nl (nl ys @ xs)" by (rule nl_cong_set) auto
  also have "\<dots> = nl (ys @ xs)" by (rule nl_append_idem)
  also have "\<dots> = nl (xs @ ys)" by (rule nl_cong_set) auto
  finally show ?thesis .
qed

end

section \<open>The map-by-key loop\<close>

text \<open>\<open>for raw { k := key(raw); if k == "" { continue }; byKey[k] = upd(byKey[k], raw) }\<close>,
  then the values in the order of the sorted keys.\<close>

definition fold_by_key ::
  "('a \<Rightarrow> string) \<Rightarrow> ('b option \<Rightarrow> 'a \<Rightarrow> 'b) \<Rightarrow> 'a list \<Rightarrow> (string \<times> 'b) list" where
  "fold_by_key key upd xs =
     foldl (\<lambda>m x. if key x = '''' then m
                  else AList.update (key x) (upd (map_of m (key x)) x) m) [] xs"

definition emit_sorted :: "(string \<times> 'b) list \<Rightarrow> 'b list" where
  "emit_sorted m = map (\<lambda>k. the (map_of m k)) (sort (map fst m))"

lemma fold_by_key_Nil [simp]: "fold_by_key key upd [] = []"
  by (simp add: fold_by_key_def)

lemma fold_by_key_snoc:
  "fold_by_key key upd (xs @ [x]) =
     (let m = fold_by_key key upd xs in
      if key x = '''' then m else AList.update (key x) (upd (map_of m (key x)) x) m)"
  by (simp add: fold_by_key_def Let_def)

lemma fold_by_key_distinct: "distinct (map fst (fold_by_key key upd xs))"
  by (induction xs rule: rev_induct)
     (auto simp: fold_by_key_snoc Let_def intro: distinct_update)

lemma fold_by_key_keys: "fst ` set (fold_by_key key upd xs) = key ` set xs - {''''}"
proof (induction xs rule: rev_induct)
  case (snoc x xs)
  then show ?case
    by (auto simp: fold_by_key_snoc Let_def dom_update[symmetric] simp flip: dom_map_of_conv_image_fst
        simp add: update_conv')
qed simp

text \<open>What is stored under a key depends on the entries with that key only, in their order.\<close>

lemma fold_by_key_lookup:
  assumes "k \<noteq> ''''"
  shows "map_of (fold_by_key key upd xs) k =
     foldl (\<lambda>cur x. Some (upd cur x)) None (filter (\<lambda>x. key x = k) xs)"
  using assms
  by (induction xs rule: rev_induct) (auto simp: fold_by_key_snoc Let_def update_conv')

lemma fold_by_key_lookup_empty: "map_of (fold_by_key key upd xs) '''' = None"
  using fold_by_key_keys[of key upd xs] by (auto simp: map_of_eq_None_iff)

lemma length_emit_sorted [simp]: "length (emit_sorted m) = length m"
  by (simp add: emit_sorted_def)

lemma emit_sorted_Nil_iff [simp]: "emit_sorted m = [] \<longleftrightarrow> m = []"
  by (metis length_emit_sorted length_0_conv)

lemma set_emit_sorted:
  assumes "distinct (map fst m)"
  shows "set (emit_sorted m) = snd ` set m"
proof -
  have "set (emit_sorted m) = (\<lambda>k. the (map_of m k)) ` fst ` set m"
    by (simp add: emit_sorted_def)
  also have "\<dots> = (\<lambda>p. the (map_of m (fst p))) ` set m" by (simp add: image_image)
  also have "\<dots> = snd ` set m"
    by (rule image_cong) (auto simp: map_of_is_SomeI[OF assms])
  finally show ?thesis .
qed

locale keyed_fold =
  fixes key :: "'a \<Rightarrow> string"
    and upd :: "'b option \<Rightarrow> 'a \<Rightarrow> 'b"
    and keyof :: "'b \<Rightarrow> string"
  assumes keyof_upd:
    "key x \<noteq> '''' \<Longrightarrow> (\<And>c. cur = Some c \<Longrightarrow> keyof c = key x) \<Longrightarrow> keyof (upd cur x) = key x"
begin

definition emitted :: "'a list \<Rightarrow> 'b list" where
  "emitted xs = emit_sorted (fold_by_key key upd xs)"

lemma stored_key: "map_of (fold_by_key key upd xs) k = Some y \<Longrightarrow> keyof y = k"
proof (induction xs arbitrary: k y rule: rev_induct)
  case (snoc x xs)
  have "keyof (upd (map_of (fold_by_key key upd xs) (key x)) x) = key x" if "key x \<noteq> ''''"
    using that snoc.IH by (intro keyof_upd) auto
  then show ?case
    using snoc by (auto simp: fold_by_key_snoc Let_def update_conv' split: if_splits)
qed simp

lemma emitted_keys: "map keyof (emitted xs) = sort (map fst (fold_by_key key upd xs))"
proof -
  have "keyof (the (map_of (fold_by_key key upd xs) k)) = k"
    if "k \<in> fst ` set (fold_by_key key upd xs)" for k
    using that stored_key
    by (metis domIff dom_map_of_conv_image_fst option.collapse)
  then have "map (\<lambda>k. keyof (the (map_of (fold_by_key key upd xs) k)))
      (sort (map fst (fold_by_key key upd xs))) = sort (map fst (fold_by_key key upd xs))"
    by (intro map_idI) auto
  then show ?thesis
    by (simp add: emitted_def emit_sorted_def comp_def)
qed

lemma emitted_keys_sorted: "sorted (map keyof (emitted xs))"
  by (simp add: emitted_keys)

lemma emitted_keys_distinct: "distinct (map keyof (emitted xs))"
  by (simp add: emitted_keys fold_by_key_distinct)

lemma emitted_key_set: "keyof ` set (emitted xs) = key ` set xs - {''''}"
  using arg_cong[OF emitted_keys, of set xs] by (simp add: fold_by_key_keys)

lemma emitted_mem:
  "y \<in> set (emitted xs) \<longleftrightarrow>
     keyof y \<noteq> '''' \<and>
     foldl (\<lambda>cur x. Some (upd cur x)) None (filter (\<lambda>x. key x = keyof y) xs) = Some y"
proof -
  let ?m = "fold_by_key key upd xs"
  have "y \<in> set (emitted xs) \<longleftrightarrow> map_of ?m (keyof y) = Some y"
    unfolding emitted_def set_emit_sorted[OF fold_by_key_distinct]
    using stored_key[of xs _ y] fold_by_key_distinct[of key upd xs]
    by (force simp: map_of_eq_Some_iff)
  then show ?thesis
    using fold_by_key_lookup[of "keyof y" key upd xs] fold_by_key_lookup_empty[of key upd xs]
    by (cases "keyof y = ''''") auto
qed

lemma emitted_Nil_iff: "emitted xs = [] \<longleftrightarrow> (\<forall>x \<in> set xs. key x = '''')"
proof -
  have "emitted xs = [] \<longleftrightarrow> keyof ` set (emitted xs) = {}" by simp
  also have "\<dots> \<longleftrightarrow> (\<forall>x \<in> set xs. key x = '''')" by (auto simp: emitted_key_set)
  finally show ?thesis .
qed

text \<open>A list that is already sorted by distinct non-empty keys and whose entries are
  reproduced by the update is left alone.\<close>

lemma fold_by_key_distinct_input:
  assumes "distinct (map key xs)" "'''' \<notin> key ` set xs"
  shows "fold_by_key key upd xs = map (\<lambda>x. (key x, upd None x)) xs"
  using assms
proof (induction xs rule: rev_induct)
  case (snoc x xs)
  then have "key x \<notin> fst ` set (map (\<lambda>x. (key x, upd None x)) xs)" by auto
  moreover have upd: "AList.update k v al = al @ [(k, v)]"
    if "k \<notin> fst ` set al" for k and v :: 'b and al
    using that by (induction al) auto
  moreover have "map_of (map (\<lambda>x. (key x, upd None x)) xs) (key x) = None"
    using calculation(1) by (simp add: map_of_eq_None_iff)
  moreover have "fold_by_key key upd xs = map (\<lambda>x. (key x, upd None x)) xs" "key x \<noteq> ''''"
    using snoc by auto
  moreover have "AList.update (key x) (upd None x) (map (\<lambda>x. (key x, upd None x)) xs) =
      map (\<lambda>x. (key x, upd None x)) xs @ [(key x, upd None x)]"
    by (rule upd) (use calculation(1) in simp)
  ultimately show ?case
    by (simp add: fold_by_key_snoc Let_def)
qed simp

lemma emitted_id:
  assumes "sorted (map key xs)" "distinct (map key xs)" "'''' \<notin> key ` set xs"
    "\<And>x. x \<in> set xs \<Longrightarrow> upd None x = h x"
  shows "emitted xs = map h xs"
proof -
  have "sort (map key xs) = map key xs" using assms(1) by (simp add: sorted_sort_id)
  have look: "map_of (map (\<lambda>x. (key x, upd None x)) xs) (key x) = Some (upd None x)"
    if "x \<in> set xs" for x
    using that assms(2) by (auto intro!: map_of_is_SomeI simp: comp_def)
  have "the (map_of (map (\<lambda>x. (key x, upd None x)) xs) (key x)) = h x"
    if "x \<in> set xs" for x
    using that assms(4) by (simp add: look)
  then show ?thesis
    using assms \<open>sort (map key xs) = map key xs\<close>
    by (simp add: emitted_def fold_by_key_distinct_input emit_sorted_def comp_def)
qed

end

text \<open>The loops whose update keeps the entry of the higher priority, the later one on a tie.\<close>

locale priority_fold = keyed_fold key upd keyof
  for key :: "'a \<Rightarrow> string" and upd :: "'b option \<Rightarrow> 'a \<Rightarrow> 'b" and keyof :: "'b \<Rightarrow> string" +
  fixes norm :: "'a \<Rightarrow> 'b" and prio :: "'b \<Rightarrow> nat"
  assumes upd_None: "upd None x = norm x"
    and upd_Some: "upd (Some c) x = (if prio c \<le> prio (norm x) then norm x else c)"
begin

lemma fold_pick:
  "foldl (\<lambda>cur x. Some (upd cur x)) None xs = Some y \<Longrightarrow>
     y \<in> norm ` set xs \<and> (\<forall>x \<in> set xs. prio (norm x) \<le> prio y)"
proof (induction xs arbitrary: y rule: rev_induct)
  case (snoc x xs)
  show ?case
  proof (cases "foldl (\<lambda>cur x. Some (upd cur x)) None xs")
    case None
    have "xs = []" using None by (cases xs rule: rev_cases) auto
    then show ?thesis using snoc.prems by (auto simp: upd_None)
  next
    case (Some c)
    then show ?thesis using snoc.IH[OF Some] snoc.prems
      by (auto simp: upd_Some split: if_splits intro: order_trans)
  qed
qed simp

lemma emitted_max:
  assumes "y \<in> set (emitted xs)"
  shows "\<exists>x \<in> set xs. key x = keyof y \<and> y = norm x"
    and "\<And>x. x \<in> set xs \<Longrightarrow> key x = keyof y \<Longrightarrow> prio (norm x) \<le> prio y"
  using fold_pick[of "filter (\<lambda>x. key x = keyof y) xs" y] assms by (auto simp: emitted_mem)

end

section \<open>Tables as association lists\<close>

lemma map_of_filter_key: "map_of (filter (\<lambda>(k, v). P k) al) = map_of al |` {k. P k}"
  by (induction al) (auto simp: fun_eq_iff restrict_map_def)

lemma distinct_filter_key:
  "distinct (map fst al) \<Longrightarrow> distinct (map fst (filter P al))"
  by (simp add: distinct_map_filter)

text \<open>A table sorted by key is determined by the map it represents.\<close>

lemma sort_key_fst_normal:
  assumes "distinct (map fst al)"
  shows "sort_key fst al =
    map (\<lambda>k. (k, the (map_of al k))) (sorted_list_of_set (dom (map_of al)))"
proof -
  have dist: "distinct (map fst (sort_key fst al))"
    using assms by (metis distinct_map distinct_sort set_sort)
  have keys: "map fst (sort_key fst al) = sorted_list_of_set (dom (map_of al))"
    using assms by (metis dist dom_map_of_conv_image_fst list.set_map set_sort
        sorted_list_of_set.idem_if_sorted_distinct sorted_sort_key)
  have "p = (fst p, the (map_of al (fst p)))" if "p \<in> set (sort_key fst al)" for p
  proof -
    have "(fst p, snd p) \<in> set al" using that by simp
    then have "map_of al (fst p) = Some (snd p)" using assms by simp
    then show ?thesis by simp
  qed
  then have "sort_key fst al = map (\<lambda>p. (fst p, the (map_of al (fst p)))) (sort_key fst al)"
    by (intro map_idI[symmetric]) simp
  also have "\<dots> = map (\<lambda>k. (k, the (map_of al k))) (map fst (sort_key fst al))"
    by simp
  finally show ?thesis using keys by simp
qed

end
