(* ===== verification/Go_Strings.thy ===== *)
theory Go_Strings
  imports AWM_Prelude
begin

text \<open>
  The part of Go's standard library that the program's string handling uses, on byte lists:
  \<open>strings.TrimSpace\<close>, \<open>ToLower\<close>, \<open>HasPrefix\<close>, \<open>TrimPrefix\<close>, \<open>Contains\<close>, \<open>Index\<close>,
  \<open>ReplaceAll\<close> of one byte, \<open>Split\<close> at one byte, \<open>Join\<close>, \<open>path.Clean\<close> and \<open>strconv.Itoa\<close>.

  \<open>TrimSpace\<close> is exact on every byte list: the white space of Unicode is the listed ASCII
  bytes and the listed two- and three-byte UTF-8 encodings, and no other rune encoding starts
  or ends with one of them. \<open>ToLower\<close> maps the ASCII letters and the two non-ASCII runes whose
  lower case is ASCII (the Kelvin sign and the dotted capital I); other bytes are kept, so its
  result is exact wherever the code compares it with an ASCII constant or tests it against an
  ASCII pattern, which is all the program does with it.
\<close>

abbreviation byte :: "char \<Rightarrow> nat" where
  "byte c \<equiv> of_char c"

section \<open>White space\<close>

definition is_space1 :: "char \<Rightarrow> bool" where
  "is_space1 c \<longleftrightarrow> c \<in> {CHR 0x09, CHR 0x0A, CHR 0x0B, CHR 0x0C, CHR 0x0D, CHR 0x20}"

definition is_space2 :: "char \<Rightarrow> char \<Rightarrow> bool" where
  "is_space2 a b \<longleftrightarrow> a = CHR 0xC2 \<and> (b = CHR 0x85 \<or> b = CHR 0xA0)"

definition is_space3 :: "char \<Rightarrow> char \<Rightarrow> char \<Rightarrow> bool" where
  "is_space3 a b c \<longleftrightarrow>
     a = CHR 0xE1 \<and> b = CHR 0x9A \<and> c = CHR 0x80 \<or>
     a = CHR 0xE2 \<and> b = CHR 0x80 \<and>
       c \<in> {CHR 0x80, CHR 0x81, CHR 0x82, CHR 0x83, CHR 0x84, CHR 0x85, CHR 0x86, CHR 0x87,
            CHR 0x88, CHR 0x89, CHR 0x8A, CHR 0xA8, CHR 0xA9, CHR 0xAF} \<or>
     a = CHR 0xE2 \<and> b = CHR 0x81 \<and> c = CHR 0x9F \<or>
     a = CHR 0xE3 \<and> b = CHR 0x80 \<and> c = CHR 0x80"

fun trim_lead ::
  "(char \<Rightarrow> char \<Rightarrow> bool) \<Rightarrow> (char \<Rightarrow> char \<Rightarrow> char \<Rightarrow> bool) \<Rightarrow> string \<Rightarrow> string" where
  "trim_lead p2 p3 [] = []"
| "trim_lead p2 p3 [a] = (if is_space1 a then [] else [a])"
| "trim_lead p2 p3 [a, b] =
     (if is_space1 a then trim_lead p2 p3 [b] else if p2 a b then [] else [a, b])"
| "trim_lead p2 p3 (a # b # c # s) =
     (if is_space1 a then trim_lead p2 p3 (b # c # s)
      else if p2 a b then trim_lead p2 p3 (c # s)
      else if p3 a b c then trim_lead p2 p3 s
      else a # b # c # s)"

definition TrimSpace :: "string \<Rightarrow> string" where
  "TrimSpace s =
     rev (trim_lead (\<lambda>a b. is_space2 b a) (\<lambda>a b c. is_space3 c b a)
       (rev (trim_lead is_space2 is_space3 s)))"

fun starts_space ::
  "(char \<Rightarrow> char \<Rightarrow> bool) \<Rightarrow> (char \<Rightarrow> char \<Rightarrow> char \<Rightarrow> bool) \<Rightarrow> string \<Rightarrow> bool" where
  "starts_space p2 p3 [] = False"
| "starts_space p2 p3 (a # s) =
     (is_space1 a \<or>
      (case s of [] \<Rightarrow> False
       | b # t \<Rightarrow> p2 a b \<or> (case t of [] \<Rightarrow> False | c # u \<Rightarrow> p3 a b c)))"

lemma trim_lead_not_starts: "\<not> starts_space p2 p3 (trim_lead p2 p3 s)"
  by (induction p2 p3 s rule: trim_lead.induct) auto

lemma trim_lead_fixed: "\<not> starts_space p2 p3 s \<Longrightarrow> trim_lead p2 p3 s = s"
  by (induction p2 p3 s rule: trim_lead.induct) auto

lemma trim_lead_fixed_iff: "trim_lead p2 p3 s = s \<longleftrightarrow> \<not> starts_space p2 p3 s"
  by (metis trim_lead_fixed trim_lead_not_starts)

lemma trim_lead_suffix: "\<exists>p. s = p @ trim_lead p2 p3 s"
proof (induction p2 p3 s rule: trim_lead.induct)
  case (4 p2 p3 a b c s)
  then show ?case
    by (auto intro: exI[of _ "[]"]) (metis append_Cons)+
qed (auto intro: exI[of _ "[]"] exI[of _ "[_]"] exI[of _ "[_, _]"])

lemma starts_space_append: "starts_space p2 p3 s \<Longrightarrow> starts_space p2 p3 (s @ t)"
  by (cases s; cases "tl s"; cases "tl (tl s)") (auto split: list.splits)

lemma TrimSpace_parts:
  "\<not> starts_space is_space2 is_space3 (TrimSpace s)"
  "\<not> starts_space (\<lambda>a b. is_space2 b a) (\<lambda>a b c. is_space3 c b a) (rev (TrimSpace s))"
proof -
  let ?l = "trim_lead is_space2 is_space3 s"
  obtain p where "rev ?l = p @ rev (TrimSpace s)"
    unfolding TrimSpace_def using trim_lead_suffix by (metis rev_rev_ident)
  then have "?l = TrimSpace s @ rev p" by (metis rev_append rev_rev_ident)
  then show "\<not> starts_space is_space2 is_space3 (TrimSpace s)"
    using trim_lead_not_starts[of is_space2 is_space3 s] starts_space_append by metis
  show "\<not> starts_space (\<lambda>a b. is_space2 b a) (\<lambda>a b c. is_space3 c b a) (rev (TrimSpace s))"
    by (simp add: TrimSpace_def trim_lead_not_starts)
qed

lemma TrimSpace_fixed:
  assumes "\<not> starts_space is_space2 is_space3 s"
    "\<not> starts_space (\<lambda>a b. is_space2 b a) (\<lambda>a b c. is_space3 c b a) (rev s)"
  shows "TrimSpace s = s"
  using assms by (simp add: TrimSpace_def trim_lead_fixed)

lemma TrimSpace_idem [simp, norm_simps]: "TrimSpace (TrimSpace s) = TrimSpace s"
  by (rule TrimSpace_fixed) (rule TrimSpace_parts)+

lemma TrimSpace_Nil [simp]: "TrimSpace '''' = ''''"
  by (simp add: TrimSpace_def)

text \<open>ASCII text that neither begins nor ends with white space is not changed.\<close>

definition ascii_graph :: "char \<Rightarrow> bool" where
  "ascii_graph c \<longleftrightarrow> 0x20 < byte c \<and> byte c < 0x7F"

lemma ascii_graph_not_space:
  assumes "ascii_graph a"
  shows "\<not> is_space1 a" "\<not> is_space2 a b" "\<not> is_space2 b a"
    "\<not> is_space3 a b c" "\<not> is_space3 c b a"
  using assms
  by (auto simp: ascii_graph_def is_space1_def is_space2_def is_space3_def)

lemma TrimSpace_graph:
  assumes "s \<noteq> ''''" "ascii_graph (hd s)" "ascii_graph (last s)"
  shows "TrimSpace s = s"
proof (rule TrimSpace_fixed)
  show "\<not> starts_space is_space2 is_space3 s"
    using assms(1,2) by (cases s) (auto simp: ascii_graph_not_space split: list.splits)
  obtain r where "rev s = last s # r" using assms(1)
    by (metis append_butlast_last_id rev.simps(2) rev_rev_ident rev_append append_Cons append_Nil)
  then show "\<not> starts_space (\<lambda>a b. is_space2 b a) (\<lambda>a b c. is_space3 c b a) (rev s)"
    using assms(3) by (simp only:) (auto simp: ascii_graph_not_space split: list.splits)
qed

lemma TrimSpace_all_graph: "list_all ascii_graph s \<Longrightarrow> TrimSpace s = s"
  by (cases "s = ''''") (auto simp: list_all_iff intro: TrimSpace_graph)

lemma TrimSpace_sub: "set (TrimSpace s) \<subseteq> set s"
proof -
  obtain p q where "rev (trim_lead is_space2 is_space3 s) = p @ rev (TrimSpace s)"
    "s = q @ trim_lead is_space2 is_space3 s"
    unfolding TrimSpace_def using trim_lead_suffix by (metis rev_rev_ident)
  then show ?thesis
    by (metis Un_iff set_append set_rev subsetI)
qed

lemma TrimSpace_infix: "\<exists>p q. s = p @ TrimSpace s @ q"
proof -
  obtain p q where "rev (trim_lead is_space2 is_space3 s) = p @ rev (TrimSpace s)"
    "s = q @ trim_lead is_space2 is_space3 s"
    unfolding TrimSpace_def using trim_lead_suffix by (metis rev_rev_ident)
  then have "trim_lead is_space2 is_space3 s = TrimSpace s @ rev p"
    by (metis rev_append rev_rev_ident)
  then show ?thesis using \<open>s = q @ _\<close> by metis
qed

section \<open>Case\<close>

definition lower_char :: "char \<Rightarrow> char" where
  "lower_char c =
     (if 0x41 \<le> byte c \<and> byte c \<le> 0x5A then char_of (byte c + 0x20)
      else c)"

fun ToLower :: "string \<Rightarrow> string" where
  "ToLower [] = []"
| "ToLower [a] = [lower_char a]"
| "ToLower [a, b] =
     (if a = CHR 0xC4 \<and> b = CHR 0xB0 then ''i'' else [lower_char a, lower_char b])"
| "ToLower (a # b # c # s) =
     (if a = CHR 0xC4 \<and> b = CHR 0xB0 then CHR ''i'' # ToLower (c # s)
      else if a = CHR 0xE2 \<and> b = CHR 0x84 \<and> c = CHR 0xAA then CHR ''k'' # ToLower s
      else lower_char a # ToLower (b # c # s))"

lemma lower_char_idem [simp]: "lower_char (lower_char c) = lower_char c"
  by (auto simp: lower_char_def of_char_of)

lemma lower_char_ascii: "byte c < 0x80 \<Longrightarrow> byte (lower_char c) < 0x80"
  by (auto simp: lower_char_def of_char_of)

lemma ToLower_ascii: "\<forall>c \<in> set s. byte c < 0x80 \<Longrightarrow> ToLower s = map lower_char s"
  by (induction s rule: ToLower.induct) auto

lemma ToLower_Nil_iff [simp]: "ToLower s = [] \<longleftrightarrow> s = []"
  by (induction s rule: ToLower.induct) auto

section \<open>Prefixes, search, split and join\<close>

fun HasPrefix :: "string \<Rightarrow> string \<Rightarrow> bool" where
  "HasPrefix s [] = True"
| "HasPrefix [] (p # ps) = False"
| "HasPrefix (c # s) (p # ps) = (c = p \<and> HasPrefix s ps)"

lemma HasPrefix_iff: "HasPrefix s p \<longleftrightarrow> (\<exists>t. s = p @ t)"
  by (induction s p rule: HasPrefix.induct) auto

lemma HasPrefix_append [simp]: "HasPrefix (p @ t) p"
  by (auto simp: HasPrefix_iff)

lemma HasPrefix_refl [simp]: "HasPrefix s s"
  using HasPrefix_append[of s "[]"] by simp

definition HasSuffix :: "string \<Rightarrow> string \<Rightarrow> bool" where
  "HasSuffix s p = HasPrefix (rev s) (rev p)"

definition TrimPrefix :: "string \<Rightarrow> string \<Rightarrow> string" where
  "TrimPrefix s p = (if HasPrefix s p then drop (length p) s else s)"

definition TrimSuffix :: "string \<Rightarrow> string \<Rightarrow> string" where
  "TrimSuffix s p = rev (TrimPrefix (rev s) (rev p))"

lemma TrimPrefix_append [simp]: "TrimPrefix (p @ t) p = t"
  by (simp add: TrimPrefix_def)

fun Contains :: "string \<Rightarrow> string \<Rightarrow> bool" where
  "Contains [] p = (p = [])"
| "Contains (c # s) p = (HasPrefix (c # s) p \<or> Contains s p)"

lemma Contains_iff: "Contains s p \<longleftrightarrow> (\<exists>a b. s = a @ p @ b)"
proof (induction s)
  case (Cons c s)
  have "(\<exists>a b. c # s = a @ p @ b) \<longleftrightarrow> (\<exists>b. c # s = p @ b) \<or> (\<exists>a b. s = a @ p @ b)"
    by (metis append_Cons append_Nil list.exhaust list.inject)
  then show ?case using Cons by (simp add: HasPrefix_iff)
qed auto

definition ReplaceByte :: "char \<Rightarrow> char \<Rightarrow> string \<Rightarrow> string" where
  "ReplaceByte x y s = map (\<lambda>c. if c = x then y else c) s"

fun split_on :: "char \<Rightarrow> string \<Rightarrow> string list" where
  "split_on d [] = [[]]"
| "split_on d (c # s) =
     (if c = d then [] # split_on d s
      else (case split_on d s of [] \<Rightarrow> [[c]] | w # ws \<Rightarrow> (c # w) # ws))"

fun join :: "string \<Rightarrow> string list \<Rightarrow> string" where
  "join sep [] = []"
| "join sep [w] = w"
| "join sep (w # ws) = w @ sep @ join sep ws"

lemma split_on_not_Nil [simp]: "split_on d s \<noteq> []"
  by (induction s) (auto split: list.splits)

lemma join_Cons: "ws \<noteq> [] \<Longrightarrow> join sep (w # ws) = w @ sep @ join sep ws"
  by (cases ws) auto

lemma join_split: "join [d] (split_on d s) = s"
proof (induction s)
  case (Cons c s)
  then show ?case
    by (cases "split_on d s"; cases "tl (split_on d s)") (auto simp: join_Cons)
qed simp

lemma split_on_no_sep: "w \<in> set (split_on d s) \<Longrightarrow> d \<notin> set w"
  by (induction s arbitrary: w) (fastforce split: if_splits list.splits)+

lemma split_on_append_sep:
  "d \<notin> set w \<Longrightarrow> split_on d (w @ d # s) = w # split_on d s"
  by (induction w) auto

lemma split_on_plain: "d \<notin> set w \<Longrightarrow> split_on d w = [w]"
  by (induction w) auto

lemma split_join:
  assumes "ws \<noteq> []" "\<forall>w \<in> set ws. d \<notin> set w"
  shows "split_on d (join [d] ws) = ws"
  using assms
proof (induction ws)
  case (Cons w ws)
  then show ?case
    by (cases "ws = []") (auto simp: join_Cons split_on_append_sep split_on_plain)
qed simp

text \<open>The index of the first occurrence of a byte (\<open>strings.IndexByte\<close> and \<open>strings.Index\<close>
  with a one-byte needle).\<close>

fun index_of :: "char \<Rightarrow> string \<Rightarrow> nat option" where
  "index_of d [] = None"
| "index_of d (c # s) = (if c = d then Some 0 else map_option Suc (index_of d s))"

lemma index_of_None: "index_of d s = None \<longleftrightarrow> d \<notin> set s"
  by (induction s) auto

lemma index_of_Some:
  "index_of d s = Some n \<Longrightarrow> n < length s \<and> s ! n = d \<and> d \<notin> set (take n s)"
  by (induction s arbitrary: n) (auto split: if_splits)

section \<open>\<open>path.Clean\<close>\<close>

text \<open>\<open>clean_step rooted st seg\<close> processes one segment with the output segments so far in
  \<open>st\<close>, last first: empty and \<open>.\<close> are dropped; \<open>..\<close> removes the last real segment, is kept
  at the start of a relative path and dropped at the root.\<close>

definition clean_step :: "bool \<Rightarrow> string list \<Rightarrow> string \<Rightarrow> string list" where
  "clean_step rooted st seg =
     (if seg = '''' \<or> seg = ''.'' then st
      else if seg = ''..'' then
        (case st of
           [] \<Rightarrow> (if rooted then [] else [''..''])
         | hd_seg # rest \<Rightarrow> (if hd_seg = ''..'' then ''..'' # st else rest))
      else seg # st)"

definition path_segs :: "string \<Rightarrow> string list" where
  "path_segs s = rev (foldl (clean_step (HasPrefix s ''/'')) [] (split_on (CHR ''/'') s))"

definition path_Clean :: "string \<Rightarrow> string" where
  "path_Clean s =
     (if HasPrefix s ''/'' then CHR ''/'' # join ''/'' (path_segs s)
      else if path_segs s = [] then ''.'' else join ''/'' (path_segs s))"

text \<open>The shape of the segments of a clean path.\<close>

definition plain_seg :: "string \<Rightarrow> bool" where
  "plain_seg w \<longleftrightarrow> w \<noteq> '''' \<and> w \<noteq> ''.'' \<and> w \<noteq> ''..'' \<and> CHR ''/'' \<notin> set w"

text \<open>\<open>clean_stack rooted st\<close>: read from the top, plain segments, then only \<open>..\<close>, which a
  rooted path does not have.\<close>

fun clean_stack :: "bool \<Rightarrow> string list \<Rightarrow> bool" where
  "clean_stack rooted [] = True"
| "clean_stack rooted (w # ws) =
     (if w = ''..'' then \<not> rooted \<and> (\<forall>v \<in> set ws. v = ''..'')
      else plain_seg w \<and> clean_stack rooted ws)"

lemma all_dd_stack: "\<forall>v \<in> set ws. v = ''..'' \<Longrightarrow> \<not> rooted \<Longrightarrow> clean_stack rooted ws"
  by (induction ws) auto

lemma clean_stack_tl: "clean_stack rooted (w # ws) \<Longrightarrow> clean_stack rooted ws"
  by (auto intro: all_dd_stack split: if_splits)

lemma clean_step_stack:
  assumes "clean_stack rooted st" "CHR ''/'' \<notin> set seg"
  shows "clean_stack rooted (clean_step rooted st seg)"
proof (cases st)
  case Nil
  then show ?thesis using assms(2) by (simp add: clean_step_def plain_seg_def)
next
  case (Cons w ws)
  then have "clean_stack rooted ws" using assms(1) clean_stack_tl by blast
  then show ?thesis
    using assms Cons by (cases "w = ''..''") (simp_all add: clean_step_def plain_seg_def)
qed

lemma foldl_clean_stack:
  assumes "clean_stack rooted st" "\<forall>w \<in> set segs. CHR ''/'' \<notin> set w"
  shows "clean_stack rooted (foldl (clean_step rooted) st segs)"
  using assms by (induction segs arbitrary: st) (auto simp: clean_step_stack)

lemma path_segs_stack: "clean_stack (HasPrefix s ''/'') (rev (path_segs s))"
  unfolding path_segs_def rev_rev_ident
  by (rule foldl_clean_stack) (auto dest: split_on_no_sep)

text \<open>A clean stack is rebuilt segment by segment.\<close>

lemma foldl_clean_rev:
  "clean_stack rooted st \<Longrightarrow> foldl (clean_step rooted) [] (rev st) = st"
proof (induction st)
  case (Cons w ws)
  then have IH: "foldl (clean_step rooted) [] (rev ws) = ws"
    using clean_stack_tl by blast
  have "clean_step rooted ws w = w # ws"
    using Cons.prems by (cases ws) (auto simp: clean_step_def plain_seg_def split: if_splits)
  then show ?case by (simp add: IH)
qed simp

lemma clean_stack_segs:
  "clean_stack rooted st \<Longrightarrow> w \<in> set st \<Longrightarrow>
     w \<noteq> '''' \<and> w \<noteq> ''.'' \<and> CHR ''/'' \<notin> set w \<and> (rooted \<longrightarrow> w \<noteq> ''..'')"
  by (induction st) (fastforce simp: plain_seg_def split: if_splits)+

lemma path_segs_mem:
  "w \<in> set (path_segs s) \<Longrightarrow>
     w \<noteq> '''' \<and> w \<noteq> ''.'' \<and> CHR ''/'' \<notin> set w \<and> (HasPrefix s ''/'' \<longrightarrow> w \<noteq> ''..'')"
  using clean_stack_segs[OF path_segs_stack, of w s] by simp

lemma join_hd_not_slash:
  assumes "ws \<noteq> []" "\<forall>w \<in> set ws. w \<noteq> '''' \<and> CHR ''/'' \<notin> set w"
  shows "\<not> HasPrefix (join ''/'' ws) ''/''"
proof -
  obtain w vs where ws: "ws = w # vs" using assms(1) by (cases ws) auto
  then obtain c t where "w = c # t" "c \<noteq> CHR ''/''" using assms(2) by (cases w) auto
  then show ?thesis using ws by (cases "vs = []") (auto simp: join_Cons)
qed

text \<open>Reading the segments of a clean path back gives them.\<close>

lemma path_segs_join_rel:
  assumes "clean_stack False (rev ws)" "ws \<noteq> []"
  shows "\<not> HasPrefix (join ''/'' ws) ''/''" "path_segs (join ''/'' ws) = ws"
proof -
  have mem: "\<forall>w \<in> set ws. w \<noteq> '''' \<and> CHR ''/'' \<notin> set w"
    using clean_stack_segs[OF assms(1)] by auto
  show *: "\<not> HasPrefix (join ''/'' ws) ''/''" by (rule join_hd_not_slash[OF assms(2) mem])
  show "path_segs (join ''/'' ws) = ws"
    using * foldl_clean_rev[OF assms(1)] split_join[of ws "CHR ''/''"] mem assms(2)
    by (simp add: path_segs_def)
qed

lemma path_segs_join_rooted:
  assumes "clean_stack True (rev ws)"
  shows "path_segs (CHR ''/'' # join ''/'' ws) = ws"
proof (cases "ws = []")
  case True
  then show ?thesis by (simp add: path_segs_def clean_step_def)
next
  case False
  have mem: "\<forall>w \<in> set ws. CHR ''/'' \<notin> set w"
    using clean_stack_segs[OF assms] by auto
  have "clean_step True [] '''' = []" by (simp add: clean_step_def)
  then show ?thesis
    using foldl_clean_rev[OF assms] split_join[OF False mem]
    by (simp add: path_segs_def)
qed

lemma path_Clean_idem [simp, norm_simps]: "path_Clean (path_Clean s) = path_Clean s"
proof (cases "HasPrefix s ''/''")
  case True
  then have "path_segs (CHR ''/'' # join ''/'' (path_segs s)) = path_segs s"
    using path_segs_join_rooted[of "path_segs s"] path_segs_stack[of s] by simp
  then show ?thesis using True by (simp add: path_Clean_def)
next
  case False
  show ?thesis
  proof (cases "path_segs s = []")
    case True
    then show ?thesis using False by (simp add: path_Clean_def path_segs_def clean_step_def)
  next
    case nonempty: False
    then show ?thesis
      using False path_segs_join_rel[of "path_segs s"] path_segs_stack[of s]
      by (simp add: path_Clean_def)
  qed
qed

lemma path_Clean_not_Nil: "path_Clean s \<noteq> ''''"
proof -
  have "join ''/'' (path_segs s) \<noteq> ''''" if "path_segs s \<noteq> []"
    using that path_segs_mem[of "hd (path_segs s)" s]
    by (cases "path_segs s"; cases "tl (path_segs s)") (auto simp: join_Cons)
  then show ?thesis by (auto simp: path_Clean_def)
qed

text \<open>A relative clean path whose first segment is not \<open>..\<close> has plain segments only.\<close>

lemma clean_stack_no_dd:
  "clean_stack False st \<Longrightarrow> st \<noteq> [] \<Longrightarrow> last st \<noteq> ''..'' \<Longrightarrow> w \<in> set st \<Longrightarrow> plain_seg w"
proof (induction st)
  case (Cons v vs)
  show ?case
  proof (cases "v = ''..''")
    case True
    then have "last (v # vs) = ''..''" using Cons.prems(1) by (cases vs rule: rev_cases) auto
    then show ?thesis using Cons.prems(3) by simp
  next
    case False
    then show ?thesis using Cons by (cases "vs = []") auto
  qed
qed simp

lemma path_Clean_rel_segs:
  assumes "\<not> HasPrefix s ''/''" "path_Clean s \<noteq> ''.''"
    "path_Clean s \<noteq> ''..''" "\<not> HasPrefix (path_Clean s) ''../''"
  shows "split_on (CHR ''/'') (path_Clean s) = path_segs s"
    and "path_segs s \<noteq> []" and "list_all plain_seg (path_segs s)"
proof -
  show ne: "path_segs s \<noteq> []" using assms(1,2) by (auto simp: path_Clean_def)
  have eq: "path_Clean s = join ''/'' (path_segs s)" using assms(1) ne by (simp add: path_Clean_def)
  show "split_on (CHR ''/'') (path_Clean s) = path_segs s"
    unfolding eq using path_segs_mem by (intro split_join ne) blast
  have st: "clean_stack False (rev (path_segs s))" using path_segs_stack[of s] assms(1) by simp
  have "hd (path_segs s) \<noteq> ''..''"
  proof
    assume hd: "hd (path_segs s) = ''..''"
    obtain ws where ws: "path_segs s = ''..'' # ws" using ne hd by (cases "path_segs s") auto
    then show False
      using assms(3,4) eq by (cases "ws = []") (auto simp: join_Cons)
  qed
  then have "last (rev (path_segs s)) \<noteq> ''..''" using ne by (simp add: last_rev)
  then have "plain_seg w" if "w \<in> set (path_segs s)" for w
    using clean_stack_no_dd[OF st] ne that by simp
  then show "list_all plain_seg (path_segs s)" by (simp add: list_all_iff)
qed

section \<open>Numbers\<close>

definition digit_char :: "nat \<Rightarrow> char" where
  "digit_char n = char_of (48 + n)"

fun itoa_nat :: "nat \<Rightarrow> string" where
  "itoa_nat n = (if n < 10 then [digit_char n] else itoa_nat (n div 10) @ [digit_char (n mod 10)])"

declare itoa_nat.simps [simp del]

definition itoa :: "int \<Rightarrow> string" where
  "itoa i = (if i < 0 then CHR ''-'' # itoa_nat (nat (- i)) else itoa_nat (nat i))"

lemma itoa_nat_not_Nil [simp]: "itoa_nat n \<noteq> []"
  by (subst itoa_nat.simps) simp

text \<open>The verb \<open>%q\<close>: bytes from 0x80 on are kept (they are, for printable text).\<close>

definition hex_digit :: "nat \<Rightarrow> char" where
  "hex_digit n = (if n < 10 then char_of (48 + n) else char_of (87 + n))"

definition quote_char :: "char \<Rightarrow> string" where
  "quote_char c =
     (if c = CHR 0x22 \<or> c = CHR 0x5C then [CHR 0x5C, c]
      else if c = CHR 0x07 then [CHR 0x5C, CHR ''a'']
      else if c = CHR 0x08 then [CHR 0x5C, CHR ''b'']
      else if c = CHR 0x0C then [CHR 0x5C, CHR ''f'']
      else if c = CHR 0x0A then [CHR 0x5C, CHR ''n'']
      else if c = CHR 0x0D then [CHR 0x5C, CHR ''r'']
      else if c = CHR 0x09 then [CHR 0x5C, CHR ''t'']
      else if c = CHR 0x0B then [CHR 0x5C, CHR ''v'']
      else if byte c < 0x20 \<or> c = CHR 0x7F
        then [CHR 0x5C, CHR ''x'', hex_digit (byte c div 16), hex_digit (byte c mod 16)]
      else [c])"

definition go_quote :: "string \<Rightarrow> string" where
  "go_quote s = CHR 0x22 # concat (map quote_char s) @ [CHR 0x22]"

section \<open>Character classes of the regular expressions\<close>

definition is_lower :: "char \<Rightarrow> bool" where
  "is_lower c \<longleftrightarrow> 0x61 \<le> byte c \<and> byte c \<le> 0x7A"

definition is_upper :: "char \<Rightarrow> bool" where
  "is_upper c \<longleftrightarrow> 0x41 \<le> byte c \<and> byte c \<le> 0x5A"

definition is_digit :: "char \<Rightarrow> bool" where
  "is_digit c \<longleftrightarrow> 0x30 \<le> byte c \<and> byte c \<le> 0x39"

definition is_alnum :: "char \<Rightarrow> bool" where
  "is_alnum c \<longleftrightarrow> is_lower c \<or> is_upper c \<or> is_digit c"

text \<open>\<open>^[first][rest]{lo,hi}$\<close>, the shape of the program's patterns.\<close>

definition match_head_tail ::
  "(char \<Rightarrow> bool) \<Rightarrow> (char \<Rightarrow> bool) \<Rightarrow> nat \<Rightarrow> nat \<Rightarrow> string \<Rightarrow> bool" where
  "match_head_tail p q lo hi s =
     (case s of [] \<Rightarrow> False
      | c # t \<Rightarrow> p c \<and> list_all q t \<and> lo \<le> length t \<and> length t \<le> hi)"

definition match_class :: "(char \<Rightarrow> bool) \<Rightarrow> nat \<Rightarrow> nat \<Rightarrow> string \<Rightarrow> bool" where
  "match_class q lo hi s \<longleftrightarrow> list_all q s \<and> lo \<le> length s \<and> length s \<le> hi"

lemma class_graph:
  "is_lower c \<Longrightarrow> ascii_graph c" "is_upper c \<Longrightarrow> ascii_graph c" "is_digit c \<Longrightarrow> ascii_graph c"
  "is_alnum c \<Longrightarrow> ascii_graph c"
  by (auto simp: is_alnum_def is_lower_def is_upper_def is_digit_def ascii_graph_def)

lemma lower_char_lower [simp]: "is_lower c \<Longrightarrow> lower_char c = c"
  by (auto simp: is_lower_def lower_char_def)

text \<open>\<open>path.Base\<close>\<close>

definition path_Base :: "string \<Rightarrow> string" where
  "path_Base s =
     (if s = '''' then ''.''
      else let t = rev (dropWhile (\<lambda>c. c = CHR ''/'') (rev s)) in
        if t = '''' then ''/'' else last (split_on (CHR ''/'') t))"

text \<open>\<open>path.Ext\<close> and \<open>path.Dir\<close>\<close>

definition path_Ext :: "string \<Rightarrow> string" where
  "path_Ext s =
     (let base = last (split_on (CHR ''/'') s) in
      if CHR ''.'' \<in> set base
      then CHR ''.'' # rev (takeWhile (\<lambda>c. c \<noteq> CHR ''.'') (rev base)) else '''')"

definition path_Dir :: "string \<Rightarrow> string" where
  "path_Dir s = path_Clean (rev (dropWhile (\<lambda>c. c \<noteq> CHR ''/'') (rev s)))"

text \<open>\<open>filepath.Join\<close> of a directory that is not blank and a relative path.\<close>

definition filepath_Join :: "string \<Rightarrow> string \<Rightarrow> string" where
  "filepath_Join dir p = path_Clean (dir @ ''/'' @ p)"

text \<open>\<open>filepath.IsAbs\<close> on the Unix systems the tool runs on.\<close>

definition filepath_IsAbs :: "string \<Rightarrow> bool" where
  "filepath_IsAbs s = HasPrefix s ''/''"

end
