(* ===== verification/Core_Types.thy ===== *)
theory Core_Types
  imports Go_Strings
begin

text \<open>
  The data of \<open>internal/core/repository.go\<close>: one record per Go struct, the fields with the
  names of the source behind a prefix. A \<open>[]string\<close> field is a \<open>slice\<close> (nil is observed by the
  merge of work plans and by JSON), a slice of structs is a list, a pointer is an option,
  a \<open>time.Time\<close> is an integer (nanoseconds since the zero time, so that \<open>IsZero\<close> is \<open>= 0\<close> and
  \<open>UTC()\<close> is the identity), Go's \<open>int\<close> and \<open>int64\<close> are integers (no arithmetic of the modelled
  code comes near their bounds).
\<close>

section \<open>Errors of the repository interface\<close>

datatype go_error =
    GoErr string
  | ErrReceiptScopeNotFound
  | ErrFetchLookupNotFound
  | ErrPointerLookupNotFound
  | ErrWorkPlanNotFound
  | ErrDB string

type_synonym 'a go_result = "go_error + 'a"

section \<open>Status constants\<close>

definition WorkItemStatusPending :: string where
  "WorkItemStatusPending = ''pending''"
definition WorkItemStatusInProgress :: string where
  "WorkItemStatusInProgress = ''in_progress''"
definition WorkItemStatusBlocked :: string where
  "WorkItemStatusBlocked = ''blocked''"
definition WorkItemStatusComplete :: string where
  "WorkItemStatusComplete = ''complete''"
definition WorkItemStatusSuperseded :: string where
  "WorkItemStatusSuperseded = ''superseded''"

definition PlanStatusPending :: string where
  "PlanStatusPending = ''pending''"
definition PlanStatusInProgress :: string where
  "PlanStatusInProgress = ''in_progress''"
definition PlanStatusBlocked :: string where
  "PlanStatusBlocked = ''blocked''"
definition PlanStatusComplete :: string where
  "PlanStatusComplete = ''complete''"
definition PlanStatusSuperseded :: string where
  "PlanStatusSuperseded = ''superseded''"

lemmas status_consts =
  WorkItemStatusPending_def WorkItemStatusInProgress_def WorkItemStatusBlocked_def
  WorkItemStatusComplete_def WorkItemStatusSuperseded_def
  PlanStatusPending_def PlanStatusInProgress_def PlanStatusBlocked_def
  PlanStatusComplete_def PlanStatusSuperseded_def

text \<open>\<open>WorkPlanMode\<close> is a string type; the two named values are its only meaningful ones.\<close>

type_synonym WorkPlanMode = string

definition WorkPlanModeMerge :: WorkPlanMode where
  "WorkPlanModeMerge = ''merge''"
definition WorkPlanModeReplace :: WorkPlanMode where
  "WorkPlanModeReplace = ''replace''"

lemmas mode_consts = WorkPlanModeMerge_def WorkPlanModeReplace_def

section \<open>The structs\<close>

record StaleFilter =
  sf_AllowStale :: bool
  sf_StaleBefore :: "int option"

record CandidatePointerQuery =
  cpq_ProjectID :: string
  cpq_Limit :: int
  cpq_Unbounded :: bool
  cpq_StaleFilter :: StaleFilter

record CandidatePointer =
  cp_Key :: string
  cp_Path :: string
  cp_Anchor :: string
  cp_Kind :: string
  cp_Label :: string
  cp_Description :: string
  cp_Tags :: "string slice"
  cp_IsRule :: bool
  cp_IsStale :: bool
  cp_UpdatedAt :: int

record PointerInventory =
  pi_Path :: string
  pi_IsStale :: bool

record PointerStub =
  ps_PointerKey :: string
  ps_Path :: string
  ps_Kind :: string
  ps_Label :: string
  ps_Description :: string
  ps_Tags :: "string slice"

record VCSInfo =
  vcs_Sha :: string
  vcs_Branch :: string

record Actor =
  ac_Harness :: string
  ac_Model :: string
  ac_SessionID :: string

record RunReceiptSummary =
  rrs_ProjectID :: string
  rrs_RequestID :: string
  rrs_ReceiptID :: string
  rrs_TaskText :: string
  rrs_Phase :: string
  rrs_Status :: string
  rrs_ResolvedTags :: "string slice"
  rrs_PointerKeys :: "string slice"
  rrs_FilesChanged :: "string slice"
  rrs_DefinitionOfDoneIssues :: "string slice"
  rrs_Outcome :: string
  rrs_Actor :: Actor
  rrs_VCS :: VCSInfo

record RunReceiptIDs =
  rri_RunID :: int
  rri_ReceiptID :: string

record ReceiptScopeQuery =
  rsq_ProjectID :: string
  rsq_ReceiptID :: string

record SyncPath =
  sp_Path :: string
  sp_ContentHash :: string
  sp_Deleted :: bool

record ReceiptScope =
  rs_ProjectID :: string
  rs_ReceiptID :: string
  rs_TaskText :: string
  rs_Phase :: string
  rs_ResolvedTags :: "string slice"
  rs_PointerKeys :: "string slice"
  rs_InitialScopePaths :: "string slice"
  rs_BaselineCaptured :: bool
  rs_BaselinePaths :: "SyncPath list"
  rs_Actor :: Actor

record FetchLookupQuery =
  flq_ProjectID :: string
  flq_ReceiptID :: string

record PointerLookupQuery =
  plq_ProjectID :: string
  plq_PointerKey :: string

record WorkItem =
  wi_ItemKey :: string
  wi_Summary :: string
  wi_Status :: string
  wi_ParentTaskKey :: string
  wi_ParentTaskKeyClear :: bool
  wi_DependsOn :: "string slice"
  wi_AcceptanceCriteria :: "string slice"
  wi_References :: "string slice"
  wi_ExternalRefs :: "string slice"
  wi_BlockedReason :: string
  wi_Outcome :: string
  wi_Evidence :: "string slice"
  wi_UpdatedAt :: int

record FetchLookup =
  fl_ProjectID :: string
  fl_ReceiptID :: string
  fl_RunID :: int
  fl_RunStatus :: string
  fl_PlanStatus :: string
  fl_WorkItems :: "WorkItem list"
  fl_UpdatedAt :: int

record SyncApplyInput =
  sai_ProjectID :: string
  sai_Mode :: string
  sai_InsertNewCandidates :: bool
  sai_Paths :: "SyncPath list"

record SyncApplyResult =
  sar_Updated :: int
  sar_MarkedStale :: int
  sar_NewCandidates :: int
  sar_DeletedMarkedStale :: int

record WorkItemsUpsertInput =
  wui_ProjectID :: string
  wui_ReceiptID :: string
  wui_Items :: "WorkItem list"

record WorkPlanStages =
  wps_SpecOutline :: string
  wps_RefinedSpec :: string
  wps_ImplementationPlan :: string

record WorkPlan =
  wp_ProjectID :: string
  wp_PlanKey :: string
  wp_ReceiptID :: string
  wp_Title :: string
  wp_Objective :: string
  wp_Kind :: string
  wp_ParentPlanKey :: string
  wp_Status :: string
  wp_Stages :: WorkPlanStages
  wp_InScope :: "string slice"
  wp_OutOfScope :: "string slice"
  wp_DiscoveredPaths :: "string slice"
  wp_Constraints :: "string slice"
  wp_References :: "string slice"
  wp_ExternalRefs :: "string slice"
  wp_Tasks :: "WorkItem list"
  wp_UpdatedAt :: int

record WorkPlanUpsertInput =
  wpi_ProjectID :: string
  wpi_PlanKey :: string
  wpi_ReceiptID :: string
  wpi_Mode :: WorkPlanMode
  wpi_Title :: string
  wpi_Objective :: string
  wpi_Kind :: string
  wpi_ParentPlanKey :: string
  wpi_Status :: string
  wpi_Stages :: WorkPlanStages
  wpi_InScope :: "string slice"
  wpi_OutOfScope :: "string slice"
  wpi_DiscoveredPaths :: "string slice"
  wpi_Constraints :: "string slice"
  wpi_References :: "string slice"
  wpi_ExternalRefs :: "string slice"
  wpi_Tasks :: "WorkItem list"

record WorkPlanUpsertResult =
  wpr_Plan :: WorkPlan
  wpr_Updated :: int

record WorkPlanLookupQuery =
  wpq_ProjectID :: string
  wpq_PlanKey :: string
  wpq_ReceiptID :: string

record WorkPlanListQuery =
  wlq_ProjectID :: string
  wlq_Scope :: string
  wlq_Query :: string
  wlq_Kind :: string
  wlq_Limit :: int
  wlq_Unbounded :: bool

record WorkPlanSummary =
  wsm_ReceiptID :: string
  wsm_Title :: string
  wsm_Objective :: string
  wsm_PlanKey :: string
  wsm_Summary :: string
  wsm_Status :: string
  wsm_Kind :: string
  wsm_ParentPlanKey :: string
  wsm_ActiveTaskKeys :: "string slice"
  wsm_TaskCountTotal :: int
  wsm_TaskCountPending :: int
  wsm_TaskCountInProgress :: int
  wsm_TaskCountBlocked :: int
  wsm_TaskCountComplete :: int
  wsm_UpdatedAt :: int

record ReceiptHistoryListQuery =
  rhq_ProjectID :: string
  rhq_Query :: string
  rhq_Limit :: int
  rhq_Unbounded :: bool

record ReceiptHistorySummary =
  rhs_ReceiptID :: string
  rhs_TaskText :: string
  rhs_Phase :: string
  rhs_LatestRequestID :: string
  rhs_LatestStatus :: string
  rhs_UpdatedAt :: int

record RunHistoryListQuery =
  unq_ProjectID :: string
  unq_Query :: string
  unq_Limit :: int
  unq_Unbounded :: bool

record RunHistoryLookupQuery =
  ulq_ProjectID :: string
  ulq_RunID :: int

record RunHistorySummary =
  uhs_RunID :: int
  uhs_ReceiptID :: string
  uhs_RequestID :: string
  uhs_TaskText :: string
  uhs_Phase :: string
  uhs_Status :: string
  uhs_FilesChanged :: "string slice"
  uhs_Outcome :: string
  uhs_UpdatedAt :: int
  uhs_Actor :: Actor
  uhs_VCS :: VCSInfo

record ReviewAttempt =
  ra_AttemptID :: int
  ra_ProjectID :: string
  ra_ReceiptID :: string
  ra_PlanKey :: string
  ra_ReviewKey :: string
  ra_Summary :: string
  ra_Fingerprint :: string
  ra_Status :: string
  ra_Passed :: bool
  ra_Outcome :: string
  ra_WorkflowSourcePath :: string
  ra_CommandArgv :: "string slice"
  ra_CommandCWD :: string
  ra_TimeoutSec :: int
  ra_ExitCode :: "int option"
  ra_TimedOut :: bool
  ra_StdoutExcerpt :: string
  ra_StderrExcerpt :: string
  ra_CreatedAt :: int
  ra_Actor :: Actor

record ReviewAttemptListQuery =
  ralq_ProjectID :: string
  ralq_ReceiptID :: string
  ralq_ReviewKey :: string

record VerificationTestRun =
  vtr_BatchRunID :: string
  vtr_ProjectID :: string
  vtr_TestID :: string
  vtr_DefinitionHash :: string
  vtr_Summary :: string
  vtr_CommandArgv :: "string slice"
  vtr_CommandCWD :: string
  vtr_TimeoutSec :: int
  vtr_ExpectedExitCode :: int
  vtr_SelectionReasons :: "string slice"
  vtr_Status :: string
  vtr_ExitCode :: "int option"
  vtr_DurationMS :: int
  vtr_StdoutExcerpt :: string
  vtr_StderrExcerpt :: string
  vtr_StartedAt :: int
  vtr_FinishedAt :: int

record VerificationBatch =
  vb_BatchRunID :: string
  vb_ProjectID :: string
  vb_ReceiptID :: string
  vb_PlanKey :: string
  vb_Phase :: string
  vb_TestsSourcePath :: string
  vb_Status :: string
  vb_Passed :: bool
  vb_SelectedTestIDs :: "string slice"
  vb_Results :: "VerificationTestRun list"
  vb_CreatedAt :: int
  vb_Actor :: Actor

section \<open>Zero values\<close>

definition WorkItem_zero :: WorkItem where
  "WorkItem_zero =
     \<lparr> wi_ItemKey = '''', wi_Summary = '''', wi_Status = '''', wi_ParentTaskKey = '''',
       wi_ParentTaskKeyClear = False, wi_DependsOn = None, wi_AcceptanceCriteria = None,
       wi_References = None, wi_ExternalRefs = None, wi_BlockedReason = '''', wi_Outcome = '''',
       wi_Evidence = None, wi_UpdatedAt = 0 \<rparr>"

definition WorkPlanStages_zero :: WorkPlanStages where
  "WorkPlanStages_zero =
     \<lparr> wps_SpecOutline = '''', wps_RefinedSpec = '''', wps_ImplementationPlan = '''' \<rparr>"

definition WorkPlan_zero :: WorkPlan where
  "WorkPlan_zero =
     \<lparr> wp_ProjectID = '''', wp_PlanKey = '''', wp_ReceiptID = '''', wp_Title = '''',
       wp_Objective = '''', wp_Kind = '''', wp_ParentPlanKey = '''', wp_Status = '''',
       wp_Stages = WorkPlanStages_zero, wp_InScope = None, wp_OutOfScope = None,
       wp_DiscoveredPaths = None, wp_Constraints = None, wp_References = None,
       wp_ExternalRefs = None, wp_Tasks = [], wp_UpdatedAt = 0 \<rparr>"

definition Actor_zero :: Actor where
  "Actor_zero = \<lparr> ac_Harness = '''', ac_Model = '''', ac_SessionID = '''' \<rparr>"

definition VCSInfo_zero :: VCSInfo where
  "VCSInfo_zero = \<lparr> vcs_Sha = '''', vcs_Branch = '''' \<rparr>"

lemmas zero_defs =
  WorkItem_zero_def WorkPlanStages_zero_def WorkPlan_zero_def Actor_zero_def VCSInfo_zero_def

end
