(* ===== verification/Contract_Types.thy ===== *)
theory Contract_Types
  imports Core_Types
begin

text \<open>
  The wire contract of \<open>internal/contracts/v1\<close>: payloads and results of the commands of the
  workflow loop (context, work, verify, review, done), error codes, and the review helpers of
  \<open>review.go\<close>. The named string types (\<open>Phase\<close>, \<open>WorkItemStatus\<close>, \<open>ScopeMode\<close>, ...) are strings.
\<close>

section \<open>Error codes and sources\<close>

definition ErrCodeInvalidPayload :: string where "ErrCodeInvalidPayload = ''INVALID_PAYLOAD''"
definition ErrCodeInvalidRequestID :: string where "ErrCodeInvalidRequestID = ''INVALID_REQUEST_ID''"
definition ErrCodeInvalidInput :: string where "ErrCodeInvalidInput = ''INVALID_INPUT''"
definition ErrCodeInternalError :: string where "ErrCodeInternalError = ''INTERNAL_ERROR''"
definition ErrCodeNotFound :: string where "ErrCodeNotFound = ''NOT_FOUND''"
definition ErrSourceValidation :: string where "ErrSourceValidation = ''validation''"
definition ErrSourceBackend :: string where "ErrSourceBackend = ''backend''"

section \<open>Payloads and results\<close>

record VCSRef =
  vr_Sha :: string
  vr_Branch :: string

record ActorRef =
  aref_Harness :: string
  aref_Model :: string
  aref_SessionID :: string

record ContextPayload =
  ctp_ProjectID :: string
  ctp_TaskText :: string
  ctp_Phase :: string
  ctp_TagsFile :: string
  ctp_InitialScopePaths :: "string slice"
  ctp_Actor :: "ActorRef option"

record DonePayload =
  dp_ProjectID :: string
  dp_ReceiptID :: string
  dp_PlanKey :: string
  dp_TagsFile :: string
  dp_FilesChanged :: "string slice"
  dp_NoFileChanges :: bool
  dp_Outcome :: string
  dp_ScopeMode :: string
  dp_Actor :: "ActorRef option"

record WorkPlanStagesPayload =
  wsp_SpecOutline :: string
  wsp_RefinedSpec :: string
  wsp_ImplementationPlan :: string

record WorkPlanPayload =
  wpp_Title :: string
  wpp_Objective :: string
  wpp_Kind :: string
  wpp_ParentPlanKey :: string
  wpp_Status :: string
  wpp_Stages :: "WorkPlanStagesPayload option"
  wpp_InScope :: "string slice"
  wpp_OutOfScope :: "string slice"
  wpp_DiscoveredPaths :: "string slice"
  wpp_Constraints :: "string slice"
  wpp_References :: "string slice"
  wpp_ExternalRefs :: "string slice"

record WorkTaskPayload =
  wtp_Key :: string
  wtp_Summary :: string
  wtp_Status :: string
  wtp_ParentTaskKey :: "string option"
  wtp_DependsOn :: "string slice"
  wtp_AcceptanceCriteria :: "string slice"
  wtp_References :: "string slice"
  wtp_ExternalRefs :: "string slice"
  wtp_BlockedReason :: string
  wtp_Outcome :: string
  wtp_Evidence :: "string slice"

record WorkPayload =
  wkp_ProjectID :: string
  wkp_PlanKey :: string
  wkp_PlanTitle :: string
  wkp_ReceiptID :: string
  wkp_Mode :: string
  wkp_Plan :: "WorkPlanPayload option"
  wkp_Tasks :: "WorkTaskPayload list"
  wkp_Actor :: "ActorRef option"
  wkp_TaskText :: string
  wkp_Phase :: string

record VerifyPayload =
  vp_ProjectID :: string
  vp_ReceiptID :: string
  vp_PlanKey :: string
  vp_Phase :: string
  vp_TestIDs :: "string slice"
  vp_FilesChanged :: "string slice"
  vp_TestsFile :: string
  vp_TagsFile :: string
  vp_DryRun :: bool
  vp_Actor :: "ActorRef option"

record ContextRule =
  cr_RuleID :: string
  cr_Key :: string
  cr_Summary :: string
  cr_Enforcement :: string
  cr_Content :: string

record ContextPlan =
  cpl_Key :: string
  cpl_Summary :: string
  cpl_Status :: string
  cpl_FetchKeys :: "string slice"

record ContextReceiptMeta =
  crm_ReceiptID :: string
  crm_ProjectID :: string
  crm_TaskText :: string
  crm_Phase :: string
  crm_ResolvedTags :: "string slice"
  crm_BaselineCaptured :: bool

record ContextReceipt =
  crt_Rules :: "ContextRule list"
  crt_Plans :: "ContextPlan list"
  crt_InitialScopePaths :: "string slice"
  crt_Meta :: ContextReceiptMeta

record ContextResult =
  ctr_Status :: string
  ctr_Receipt :: "ContextReceipt option"

record CompletionViolation =
  cv_Path :: string
  cv_Reason :: string

record DoneResult =
  dr_Accepted :: bool
  dr_Violations :: "CompletionViolation list"
  dr_DefinitionOfDoneIssues :: "string slice"
  dr_RunID :: int

record WorkResult =
  wr_PlanKey :: string
  wr_PlanStatus :: string
  wr_Updated :: int
  wr_TaskCount :: int

record VerifySelection =
  vs_TestID :: string
  vs_Summary :: string
  vs_SelectionReasons :: "string slice"

record VerifyTestResult =
  vtt_TestID :: string
  vtt_Status :: string
  vtt_DefinitionHash :: string
  vtt_ExitCode :: "int option"
  vtt_DurationMS :: int
  vtt_StdoutExcerpt :: string
  vtt_StderrExcerpt :: string

record VerifyResult =
  vres_Status :: string
  vres_BatchRunID :: string
  vres_SelectedTestIDs :: "string slice"
  vres_Selected :: "VerifySelection list"
  vres_Passed :: bool
  vres_Results :: "VerifyTestResult list"

record ReviewPayload =
  rp_ProjectID :: string
  rp_ReceiptID :: string
  rp_PlanKey :: string
  rp_Key :: string
  rp_Summary :: string
  rp_Status :: string
  rp_Outcome :: string
  rp_BlockedReason :: string
  rp_Evidence :: "string slice"
  rp_Run :: bool
  rp_TagsFile :: string
  rp_Actor :: "ActorRef option"

record ReviewExecution =
  re_SourcePath :: string
  re_CommandArgv :: "string slice"
  re_CommandCWD :: string
  re_TimeoutSec :: int
  re_ExitCode :: "int option"
  re_TimedOut :: bool
  re_StdoutExcerpt :: string
  re_StderrExcerpt :: string

record ReviewResult =
  rres_PlanKey :: string
  rres_PlanStatus :: string
  rres_Updated :: int
  rres_TaskCount :: int
  rres_ReviewKey :: string
  rres_ReviewStatus :: string
  rres_AttemptsRun :: int
  rres_MaxAttempts :: int
  rres_PassingRuns :: int
  rres_Fingerprint :: string
  rres_SkippedReason :: string
  rres_Executed :: bool
  rres_Execution :: "ReviewExecution option"

section \<open>Review payloads\<close>

definition DefaultReviewTaskKey :: string where
  "DefaultReviewTaskKey = ''review:cross-llm''"

definition defaultReviewSummaryForKey :: "string \<Rightarrow> string" where
  "defaultReviewSummaryForKey key =
     (if TrimSpace key = DefaultReviewTaskKey then ''Cross-LLM review''
      else ''Review gate: '' @ TrimSpace key)"

definition NormalizeReviewPayload :: "ReviewPayload \<Rightarrow> ReviewPayload" where
  "NormalizeReviewPayload p =
     (let key0 = TrimSpace (rp_Key p);
          key = (if key0 = '''' then DefaultReviewTaskKey else key0);
          blocked = TrimSpace (rp_BlockedReason p);
          status0 = TrimSpace (rp_Status p);
          status = (if status0 = '''' then
                      (if blocked \<noteq> '''' then WorkItemStatusBlocked else WorkItemStatusComplete)
                    else status0);
          summary0 = TrimSpace (rp_Summary p);
          summary = (if summary0 = '''' then defaultReviewSummaryForKey key else summary0)
      in \<lparr> rp_ProjectID = TrimSpace (rp_ProjectID p), rp_ReceiptID = TrimSpace (rp_ReceiptID p),
           rp_PlanKey = TrimSpace (rp_PlanKey p), rp_Key = key, rp_Summary = summary,
           rp_Status = status, rp_Outcome = TrimSpace (rp_Outcome p),
           rp_BlockedReason = blocked,
           rp_Evidence =
             (if elems (rp_Evidence p) = [] then None
              else Some (filter (\<lambda>v. v \<noteq> '''') (map TrimSpace (elems (rp_Evidence p))))),
           rp_Run = rp_Run p, rp_TagsFile = TrimSpace (rp_TagsFile p), rp_Actor = rp_Actor p \<rparr>)"

definition ReviewPayloadToWorkPayload :: "ReviewPayload \<Rightarrow> WorkPayload" where
  "ReviewPayloadToWorkPayload p =
     (let n = NormalizeReviewPayload p in
      \<lparr> wkp_ProjectID = rp_ProjectID n, wkp_PlanKey = rp_PlanKey n, wkp_PlanTitle = '''',
        wkp_ReceiptID = rp_ReceiptID n, wkp_Mode = ''merge'', wkp_Plan = None,
        wkp_Tasks =
          [\<lparr> wtp_Key = rp_Key n, wtp_Summary = rp_Summary n, wtp_Status = rp_Status n,
             wtp_ParentTaskKey = None, wtp_DependsOn = None, wtp_AcceptanceCriteria = None,
             wtp_References = None, wtp_ExternalRefs = None,
             wtp_BlockedReason = rp_BlockedReason n, wtp_Outcome = rp_Outcome n,
             wtp_Evidence = (if elems (rp_Evidence n) = [] then None else rp_Evidence n) \<rparr>],
        wkp_Actor = None, wkp_TaskText = '''', wkp_Phase = '''' \<rparr>)"

definition ReviewResultFromWork ::
  "ReviewPayload \<Rightarrow> WorkResult \<Rightarrow> string \<Rightarrow> int \<Rightarrow> int \<Rightarrow> int \<Rightarrow> string \<Rightarrow> string \<Rightarrow>
     ReviewExecution option \<Rightarrow> ReviewResult" where
  "ReviewResultFromWork p work status attemptsRun maxAttempts passingRuns fingerprint
       skippedReason execution =
     (let n = NormalizeReviewPayload p in
      \<lparr> rres_PlanKey = wr_PlanKey work, rres_PlanStatus = wr_PlanStatus work,
        rres_Updated = wr_Updated work, rres_TaskCount = wr_TaskCount work,
        rres_ReviewKey = rp_Key n,
        rres_ReviewStatus = (if status = '''' then rp_Status n else status),
        rres_AttemptsRun = attemptsRun, rres_MaxAttempts = maxAttempts,
        rres_PassingRuns = passingRuns, rres_Fingerprint = TrimSpace fingerprint,
        rres_SkippedReason = TrimSpace skippedReason, rres_Executed = (execution \<noteq> None),
        rres_Execution = execution \<rparr>)"

lemma NormalizeReviewPayload_key: "rp_Key (NormalizeReviewPayload p) \<noteq> ''''"
  by (simp add: NormalizeReviewPayload_def Let_def DefaultReviewTaskKey_def)

end
