(* ===== verification/Domain_Norm.thy ===== *)
theory Domain_Norm
  imports Core_Types "HOL-Library.Product_Lexorder"
begin

text \<open>
  The normalizers of \<open>internal/storage/domain/domain.go\<close> that every storage adapter applies
  before it writes: scalars and statuses, string and path lists, sync paths, candidate
  pointers, and the validated records (run summary, receipt scope, verification batch, review
  attempt, sync input). \<open>time.Now()\<close> is an argument. The lists built through a map and emitted
  in key order are instances of the loops of the prelude, whose locales are interpreted here.
\<close>

section \<open>Scalars\<close>

definition DefaultPhase :: string where
  "DefaultPhase = ''execute''"

definition NormalizeWorkPlanMode :: "WorkPlanMode \<Rightarrow> WorkPlanMode" where
  "NormalizeWorkPlanMode raw =
     (if TrimSpace raw = WorkPlanModeReplace then WorkPlanModeReplace else WorkPlanModeMerge)"

definition NormalizePhase :: "string \<Rightarrow> string" where
  "NormalizePhase raw =
     (let p = ToLower (TrimSpace raw) in
      if p = ''plan'' then ''plan''
      else if p = ''review'' then ''review''
      else if p = ''execute'' then ''execute''
      else DefaultPhase)"

definition NormalizeWorkItemStatus :: "string \<Rightarrow> string" where
  "NormalizeWorkItemStatus raw =
     (let s = ToLower (TrimSpace raw) in
      if s = WorkItemStatusComplete \<or> s = ''completed'' then WorkItemStatusComplete
      else if s = WorkItemStatusSuperseded then WorkItemStatusSuperseded
      else if s = WorkItemStatusInProgress then WorkItemStatusInProgress
      else if s = WorkItemStatusBlocked then WorkItemStatusBlocked
      else WorkItemStatusPending)"

definition StorageWorkItemStatus :: "string \<Rightarrow> string" where
  "StorageWorkItemStatus raw = NormalizeWorkItemStatus raw"

definition NormalizeWorkPlanListScope :: "string \<Rightarrow> string" where
  "NormalizeWorkPlanListScope raw =
     (let s = TrimSpace raw in
      if s = ''current'' then ''current''
      else if s = ''deferred'' then ''deferred''
      else if s = ''completed'' then ''completed''
      else ''all'')"

fun like_escape :: "string \<Rightarrow> string" where
  "like_escape [] = []"
| "like_escape (c # s) =
     (if c = CHR 0x5C \<or> c = CHR ''%'' \<or> c = CHR ''_'' then CHR 0x5C # c # like_escape s
      else c # like_escape s)"

definition WorkPlanListSearchPattern :: "string \<Rightarrow> string" where
  "WorkPlanListSearchPattern raw =
     (let trimmed = ToLower (TrimSpace raw) in
      if trimmed = '''' then '''' else ''%'' @ like_escape trimmed @ ''%'')"

definition NormalizeWorkPlanStages :: "WorkPlanStages \<Rightarrow> WorkPlanStages" where
  "NormalizeWorkPlanStages raw =
     (let out = \<lparr> wps_SpecOutline = NormalizeWorkItemStatus (wps_SpecOutline raw),
                  wps_RefinedSpec = NormalizeWorkItemStatus (wps_RefinedSpec raw),
                  wps_ImplementationPlan = NormalizeWorkItemStatus (wps_ImplementationPlan raw) \<rparr>;
          out = (if TrimSpace (wps_SpecOutline raw) = ''''
                 then out\<lparr>wps_SpecOutline := WorkItemStatusPending\<rparr> else out);
          out = (if TrimSpace (wps_RefinedSpec raw) = ''''
                 then out\<lparr>wps_RefinedSpec := WorkItemStatusPending\<rparr> else out);
          out = (if TrimSpace (wps_ImplementationPlan raw) = ''''
                 then out\<lparr>wps_ImplementationPlan := WorkItemStatusPending\<rparr> else out)
      in out)"

definition NormalizeActor :: "Actor \<Rightarrow> Actor" where
  "NormalizeActor a =
     \<lparr> ac_Harness = TrimSpace (ac_Harness a), ac_Model = TrimSpace (ac_Model a),
       ac_SessionID = TrimSpace (ac_SessionID a) \<rparr>"

section \<open>Lists of strings and paths\<close>

definition NormalizeRepoPath :: "string \<Rightarrow> string" where
  "NormalizeRepoPath raw =
     (let trimmed = TrimSpace raw in
      if trimmed = '''' then ''''
      else let cleaned = path_Clean (ReplaceByte (CHR 0x5C) (CHR ''/'') trimmed) in
        if cleaned = ''.'' then '''' else cleaned)"

definition NormalizeStringList :: "string slice \<Rightarrow> string slice" where
  "NormalizeStringList values =
     (if elems values = [] then None
      else Some (sort (norm_unique TrimSpace [] (elems values))))"

definition NormalizeRepoPathList :: "string slice \<Rightarrow> string slice" where
  "NormalizeRepoPathList values =
     (if elems values = [] then None
      else Some (sort (norm_unique NormalizeRepoPath [] (elems values))))"

definition NormalizeStringListPreserveOrder :: "string slice \<Rightarrow> string slice" where
  "NormalizeStringListPreserveOrder values =
     (let out = filter (\<lambda>t. t \<noteq> '''') (map TrimSpace (elems values)) in
      if out = [] then None else Some out)"

definition sync_path_upd :: "SyncPath option \<Rightarrow> SyncPath \<Rightarrow> SyncPath" where
  "sync_path_upd cur raw =
     \<lparr> sp_Path = NormalizeRepoPath (sp_Path raw),
       sp_ContentHash = (if sp_Deleted raw then '''' else TrimSpace (sp_ContentHash raw)),
       sp_Deleted = sp_Deleted raw \<rparr>"

definition NormalizeSyncPathList :: "SyncPath list \<Rightarrow> SyncPath list" where
  "NormalizeSyncPathList values =
     emit_sorted (fold_by_key (\<lambda>raw. NormalizeRepoPath (sp_Path raw)) sync_path_upd values)"

definition SortAndLimitCandidatePointers ::
  "CandidatePointer list \<Rightarrow> CandidatePointerQuery \<Rightarrow> int \<Rightarrow> CandidatePointer list" where
  "SortAndLimitCandidatePointers candidates input defaultLimit =
     (if candidates = [] then []
      else let limit = (if cpq_Limit input \<le> 0 then defaultLimit else cpq_Limit input);
               sorted = sort_key (\<lambda>c. (TrimSpace (cp_Path c), cp_Key c)) candidates in
        if \<not> cpq_Unbounded input \<and> int (length sorted) > limit then take (nat limit) sorted
        else sorted)"

definition CandidateTagOverlap :: "string list \<Rightarrow> string list \<Rightarrow> nat" where
  "CandidateTagOverlap values targets =
     (if values = [] \<or> targets = [] then 0
      else snd (foldl (\<lambda>(seen, count) v.
             if v \<notin> set targets \<or> v \<in> set seen then (seen, count) else (v # seen, Suc count))
           ([], 0) values))"

section \<open>The validated records\<close>

record NormalizedRunSummary =
  nrs_ProjectID :: string
  nrs_RequestID :: string
  nrs_ReceiptID :: string
  nrs_TaskText :: string
  nrs_Phase :: string
  nrs_Status :: string
  nrs_ResolvedTags :: "string slice"
  nrs_PointerKeys :: "string slice"
  nrs_FilesChanged :: "string slice"
  nrs_DefinitionOfDoneIssues :: "string slice"
  nrs_Outcome :: string
  nrs_Actor :: Actor
  nrs_VCS :: VCSInfo

record NormalizedReceiptScope =
  nsc_ProjectID :: string
  nsc_ReceiptID :: string
  nsc_TaskText :: string
  nsc_Phase :: string
  nsc_ResolvedTags :: "string slice"
  nsc_PointerKeys :: "string slice"
  nsc_InitialScopePaths :: "string slice"
  nsc_BaselineCaptured :: bool
  nsc_BaselinePaths :: "SyncPath list"
  nsc_Actor :: Actor

record NormalizedVerificationBatch =
  nvb_BatchRunID :: string
  nvb_ProjectID :: string
  nvb_ReceiptID :: string
  nvb_PlanKey :: string
  nvb_Phase :: string
  nvb_TestsSourcePath :: string
  nvb_Status :: string
  nvb_Passed :: bool
  nvb_SelectedTestIDs :: "string slice"
  nvb_Results :: "VerificationTestRun list"
  nvb_CreatedAt :: int
  nvb_Actor :: Actor

record NormalizedReviewAttempt =
  nra_ProjectID :: string
  nra_ReceiptID :: string
  nra_PlanKey :: string
  nra_ReviewKey :: string
  nra_Summary :: string
  nra_Fingerprint :: string
  nra_Status :: string
  nra_Passed :: bool
  nra_Outcome :: string
  nra_WorkflowSourcePath :: string
  nra_CommandArgv :: "string slice"
  nra_CommandCWD :: string
  nra_TimeoutSec :: int
  nra_ExitCode :: "int option"
  nra_TimedOut :: bool
  nra_StdoutExcerpt :: string
  nra_StderrExcerpt :: string
  nra_CreatedAt :: int
  nra_Actor :: Actor

definition NormalizeRunReceiptSummary ::
  "RunReceiptSummary \<Rightarrow> NormalizedRunSummary go_result" where
  "NormalizeRunReceiptSummary input =
     (let projectID = TrimSpace (rrs_ProjectID input) in
      if projectID = '''' then Inl (GoErr ''project_id is required'')
      else
        let status0 = TrimSpace (rrs_Status input);
            status = (if status0 = '''' then ''accepted'' else status0);
            phase0 = TrimSpace (rrs_Phase input);
            phase = (if phase0 = '''' then ''execute'' else phase0)
        in Inr \<lparr> nrs_ProjectID = projectID,
              nrs_RequestID = TrimSpace (rrs_RequestID input),
              nrs_ReceiptID = TrimSpace (rrs_ReceiptID input),
              nrs_TaskText = TrimSpace (rrs_TaskText input),
              nrs_Phase = phase,
              nrs_Status = status,
              nrs_ResolvedTags = NormalizeStringList (rrs_ResolvedTags input),
              nrs_PointerKeys = NormalizeStringList (rrs_PointerKeys input),
              nrs_FilesChanged = NormalizeStringList (rrs_FilesChanged input),
              nrs_DefinitionOfDoneIssues = NormalizeStringList (rrs_DefinitionOfDoneIssues input),
              nrs_Outcome = TrimSpace (rrs_Outcome input),
              nrs_Actor = NormalizeActor (rrs_Actor input),
              nrs_VCS = \<lparr> vcs_Sha = TrimSpace (vcs_Sha (rrs_VCS input)),
                          vcs_Branch = TrimSpace (vcs_Branch (rrs_VCS input)) \<rparr> \<rparr>)"

definition NormalizeReceiptScope :: "ReceiptScope \<Rightarrow> NormalizedReceiptScope go_result" where
  "NormalizeReceiptScope input =
     (let projectID = TrimSpace (rs_ProjectID input) in
      if projectID = '''' then Inl (GoErr ''project_id is required'')
      else let receiptID = TrimSpace (rs_ReceiptID input) in
      if receiptID = '''' then Inl (GoErr ''receipt_id is required'')
      else
        let phase0 = TrimSpace (rs_Phase input);
            phase = (if phase0 = '''' then ''execute'' else phase0)
        in Inr \<lparr> nsc_ProjectID = projectID,
              nsc_ReceiptID = receiptID,
              nsc_TaskText = TrimSpace (rs_TaskText input),
              nsc_Phase = phase,
              nsc_ResolvedTags = NormalizeStringList (rs_ResolvedTags input),
              nsc_PointerKeys = NormalizeStringList (rs_PointerKeys input),
              nsc_InitialScopePaths = NormalizeRepoPathList (rs_InitialScopePaths input),
              nsc_BaselineCaptured = rs_BaselineCaptured input,
              nsc_BaselinePaths = NormalizeSyncPathList (rs_BaselinePaths input),
              nsc_Actor = NormalizeActor (rs_Actor input) \<rparr>)"

text \<open>\<open>clock i\<close> is what \<open>time.Now()\<close> returns while result \<open>i\<close> is processed, \<open>clock n\<close> for \<open>n\<close>
  results what it returns for the batch itself.\<close>

definition results_error :: "nat \<Rightarrow> string \<Rightarrow> go_error" where
  "results_error i msg = GoErr (''results['' @ itoa_nat i @ '']'' @ msg)"

definition normalize_test_run ::
  "string \<Rightarrow> string \<Rightarrow> int \<Rightarrow> nat \<Rightarrow> VerificationTestRun \<Rightarrow> VerificationTestRun go_result" where
  "normalize_test_run projectID batchRunID now i raw =
     (let testID = TrimSpace (vtr_TestID raw) in
      if testID = '''' then Inl (results_error i ''.test_id is required'')
      else let definitionHash = TrimSpace (vtr_DefinitionHash raw) in
      if definitionHash = '''' then Inl (results_error i ''.definition_hash is required'')
      else let resultStatus = TrimSpace (vtr_Status raw) in
      if resultStatus \<notin> {''passed'', ''failed'', ''timed_out'', ''errored'', ''skipped''}
        then Inl (results_error i ''.status is invalid'')
      else let timeoutSec = vtr_TimeoutSec raw in
      if timeoutSec \<le> 0 then Inl (results_error i ''.timeout_sec must be > 0'')
      else let expectedExitCode = vtr_ExpectedExitCode raw in
      if expectedExitCode < 0 \<or> expectedExitCode > 255
        then Inl (results_error i ''.expected_exit_code must be 0..255'')
      else
        let durationMS = max (vtr_DurationMS raw) 0;
            startedAt = (if vtr_StartedAt raw = 0 then now else vtr_StartedAt raw);
            finishedAt = (if vtr_FinishedAt raw = 0 \<or> vtr_FinishedAt raw < startedAt
                          then startedAt else vtr_FinishedAt raw)
        in Inr \<lparr> vtr_BatchRunID = batchRunID, vtr_ProjectID = projectID, vtr_TestID = testID,
              vtr_DefinitionHash = definitionHash, vtr_Summary = TrimSpace (vtr_Summary raw),
              vtr_CommandArgv = NormalizeStringListPreserveOrder (vtr_CommandArgv raw),
              vtr_CommandCWD = TrimSpace (vtr_CommandCWD raw), vtr_TimeoutSec = timeoutSec,
              vtr_ExpectedExitCode = expectedExitCode,
              vtr_SelectionReasons = NormalizeStringListPreserveOrder (vtr_SelectionReasons raw),
              vtr_Status = resultStatus, vtr_ExitCode = vtr_ExitCode raw,
              vtr_DurationMS = durationMS, vtr_StdoutExcerpt = TrimSpace (vtr_StdoutExcerpt raw),
              vtr_StderrExcerpt = TrimSpace (vtr_StderrExcerpt raw), vtr_StartedAt = startedAt,
              vtr_FinishedAt = finishedAt \<rparr>)"

definition NormalizeVerificationBatch ::
  "(nat \<Rightarrow> int) \<Rightarrow> VerificationBatch \<Rightarrow> NormalizedVerificationBatch go_result" where
  "NormalizeVerificationBatch clock input =
     (let projectID = TrimSpace (vb_ProjectID input) in
      if projectID = '''' then Inl (GoErr ''project_id is required'')
      else let batchRunID = TrimSpace (vb_BatchRunID input) in
      if batchRunID = '''' then Inl (GoErr ''batch_run_id is required'')
      else let status = TrimSpace (vb_Status input) in
      if status \<noteq> ''passed'' \<and> status \<noteq> ''failed''
        then Inl (GoErr ''status must be passed|failed'')
      else bind_res
        (map_res (\<lambda>(i, raw). normalize_test_run projectID batchRunID (clock i) i raw)
           (index_from 0 (vb_Results input)))
        (\<lambda>results. Inr \<lparr> nvb_BatchRunID = batchRunID, nvb_ProjectID = projectID,
           nvb_ReceiptID = TrimSpace (vb_ReceiptID input),
           nvb_PlanKey = TrimSpace (vb_PlanKey input), nvb_Phase = TrimSpace (vb_Phase input),
           nvb_TestsSourcePath = TrimSpace (vb_TestsSourcePath input), nvb_Status = status,
           nvb_Passed = vb_Passed input,
           nvb_SelectedTestIDs = NormalizeStringListPreserveOrder (vb_SelectedTestIDs input),
           nvb_Results = results,
           nvb_CreatedAt = (if vb_CreatedAt input = 0 then clock (length (vb_Results input))
                            else vb_CreatedAt input),
           nvb_Actor = NormalizeActor (vb_Actor input) \<rparr>))"

definition NormalizeReviewAttempt ::
  "int \<Rightarrow> ReviewAttempt \<Rightarrow> NormalizedReviewAttempt go_result" where
  "NormalizeReviewAttempt now input =
     (let projectID = TrimSpace (ra_ProjectID input) in
      if projectID = '''' then Inl (GoErr ''project_id is required'')
      else let receiptID = TrimSpace (ra_ReceiptID input) in
      if receiptID = '''' then Inl (GoErr ''receipt_id is required'')
      else let reviewKey = TrimSpace (ra_ReviewKey input) in
      if reviewKey = '''' then Inl (GoErr ''review_key is required'')
      else let fingerprint = TrimSpace (ra_Fingerprint input) in
      if fingerprint = '''' then Inl (GoErr ''fingerprint is required'')
      else let status = TrimSpace (ra_Status input) in
      if status \<noteq> ''passed'' \<and> status \<noteq> ''failed''
        then Inl (GoErr ''status must be passed|failed'')
      else let timeoutSec = ra_TimeoutSec input in
      if timeoutSec \<le> 0 then Inl (GoErr ''timeout_sec must be > 0'')
      else if (case ra_ExitCode input of None \<Rightarrow> False
               | Some exitCode \<Rightarrow> exitCode < 0 \<or> exitCode > 255)
        then Inl (GoErr ''exit_code must be 0..255 when provided'')
      else Inr \<lparr> nra_ProjectID = projectID, nra_ReceiptID = receiptID,
          nra_PlanKey = TrimSpace (ra_PlanKey input), nra_ReviewKey = reviewKey,
          nra_Summary = TrimSpace (ra_Summary input), nra_Fingerprint = fingerprint,
          nra_Status = status, nra_Passed = ra_Passed input,
          nra_Outcome = TrimSpace (ra_Outcome input),
          nra_WorkflowSourcePath = TrimSpace (ra_WorkflowSourcePath input),
          nra_CommandArgv = NormalizeStringListPreserveOrder (ra_CommandArgv input),
          nra_CommandCWD = TrimSpace (ra_CommandCWD input), nra_TimeoutSec = timeoutSec,
          nra_ExitCode = ra_ExitCode input, nra_TimedOut = ra_TimedOut input,
          nra_StdoutExcerpt = TrimSpace (ra_StdoutExcerpt input),
          nra_StderrExcerpt = TrimSpace (ra_StderrExcerpt input),
          nra_CreatedAt = (if ra_CreatedAt input = 0 then now else ra_CreatedAt input),
          nra_Actor = NormalizeActor (ra_Actor input) \<rparr>)"

text \<open>The path loop of \<open>NormalizeSyncApplyInput\<close>: a deletion does not override an entry that
  has content, content overrides everything, content without a hash is an error.\<close>

fun sync_apply_paths ::
  "(string \<times> SyncPath) list \<Rightarrow> SyncPath list \<Rightarrow> (string \<times> SyncPath) list go_result" where
  "sync_apply_paths m [] = Inr m"
| "sync_apply_paths m (raw # rest) =
     (let pathKey = NormalizeRepoPath (sp_Path raw) in
      if pathKey = '''' then sync_apply_paths m rest
      else if sp_Deleted raw then
        (case map_of m pathKey of
           Some cur \<Rightarrow>
             (if \<not> sp_Deleted cur then sync_apply_paths m rest
              else sync_apply_paths
                (AList.update pathKey
                  \<lparr> sp_Path = pathKey, sp_ContentHash = '''', sp_Deleted = True \<rparr> m) rest)
         | None \<Rightarrow> sync_apply_paths
             (AList.update pathKey
               \<lparr> sp_Path = pathKey, sp_ContentHash = '''', sp_Deleted = True \<rparr> m) rest)
      else
        let contentHash = TrimSpace (sp_ContentHash raw) in
        if contentHash = ''''
        then Inl (GoErr (''content_hash is required for path '' @ go_quote pathKey))
        else sync_apply_paths
          (AList.update pathKey
            \<lparr> sp_Path = pathKey, sp_ContentHash = contentHash, sp_Deleted = False \<rparr> m) rest)"

definition NormalizeSyncApplyInput :: "SyncApplyInput \<Rightarrow> SyncApplyInput go_result" where
  "NormalizeSyncApplyInput input =
     (let projectID = TrimSpace (sai_ProjectID input) in
      if projectID = '''' then Inl (GoErr ''project_id is required'')
      else
        let mode0 = TrimSpace (sai_Mode input);
            mode = (if mode0 = '''' then ''changed'' else mode0) in
        if mode \<noteq> ''changed'' \<and> mode \<noteq> ''full'' \<and> mode \<noteq> ''working_tree''
          then Inl (GoErr ''mode must be changed|full|working_tree'')
        else bind_res (sync_apply_paths [] (sai_Paths input))
          (\<lambda>m. Inr \<lparr> sai_ProjectID = projectID, sai_Mode = mode,
              sai_InsertNewCandidates = sai_InsertNewCandidates input,
              sai_Paths = emit_sorted m \<rparr>))"

section \<open>Facts about the scalars\<close>

definition work_item_statuses :: "string set" where
  "work_item_statuses =
     {WorkItemStatusPending, WorkItemStatusInProgress, WorkItemStatusBlocked,
      WorkItemStatusComplete, WorkItemStatusSuperseded}"

lemma NormalizeWorkItemStatus_in [simp, norm_simps]:
  "NormalizeWorkItemStatus raw \<in> work_item_statuses"
  by (simp add: NormalizeWorkItemStatus_def work_item_statuses_def Let_def)

lemma NormalizeWorkItemStatus_canon [norm_simps]:
  "NormalizeWorkItemStatus WorkItemStatusPending = WorkItemStatusPending"
  "NormalizeWorkItemStatus WorkItemStatusInProgress = WorkItemStatusInProgress"
  "NormalizeWorkItemStatus WorkItemStatusBlocked = WorkItemStatusBlocked"
  "NormalizeWorkItemStatus WorkItemStatusComplete = WorkItemStatusComplete"
  "NormalizeWorkItemStatus WorkItemStatusSuperseded = WorkItemStatusSuperseded"
  "NormalizeWorkItemStatus '''' = WorkItemStatusPending"
  by (simp_all add: NormalizeWorkItemStatus_def status_consts TrimSpace_def is_space1_def
      is_space2_def is_space3_def lower_char_def)

lemma NormalizeWorkItemStatus_fixed:
  "s \<in> work_item_statuses \<Longrightarrow> NormalizeWorkItemStatus s = s"
  by (auto simp: work_item_statuses_def norm_simps)

lemma NormalizeWorkItemStatus_idem [simp, norm_simps]:
  "NormalizeWorkItemStatus (NormalizeWorkItemStatus raw) = NormalizeWorkItemStatus raw"
  by (rule NormalizeWorkItemStatus_fixed) simp

lemma NormalizeWorkItemStatus_Trim [simp, norm_simps]:
  "NormalizeWorkItemStatus (TrimSpace raw) = NormalizeWorkItemStatus raw"
  by (simp add: NormalizeWorkItemStatus_def)

lemma NormalizeWorkItemStatus_blank:
  "TrimSpace raw = '''' \<Longrightarrow> NormalizeWorkItemStatus raw = WorkItemStatusPending"
  using NormalizeWorkItemStatus_Trim[of raw] by (simp add: norm_simps)

lemma status_not_empty: "s \<in> work_item_statuses \<Longrightarrow> s \<noteq> ''''"
  by (auto simp: work_item_statuses_def status_consts)

lemma status_Trim [norm_simps]: "s \<in> work_item_statuses \<Longrightarrow> TrimSpace s = s"
  by (auto simp: work_item_statuses_def status_consts intro!: TrimSpace_all_graph
      simp: ascii_graph_def)

lemma NormalizeWorkPlanStages_simp [norm_simps]:
  "NormalizeWorkPlanStages raw =
     \<lparr> wps_SpecOutline = NormalizeWorkItemStatus (wps_SpecOutline raw),
       wps_RefinedSpec = NormalizeWorkItemStatus (wps_RefinedSpec raw),
       wps_ImplementationPlan = NormalizeWorkItemStatus (wps_ImplementationPlan raw) \<rparr>"
  by (simp add: NormalizeWorkPlanStages_def Let_def NormalizeWorkItemStatus_blank)

lemma NormalizeActor_idem [simp, norm_simps]: "NormalizeActor (NormalizeActor a) = NormalizeActor a"
  by (simp add: NormalizeActor_def)

section \<open>The list loops as instances of the prelude's interfaces\<close>

interpretation nsl: idem_normalizer TrimSpace "\<lambda>xs. elems (NormalizeStringList (Some xs))"
  by unfold_locales (auto simp: NormalizeStringList_def)

interpretation nrpl: list_normalizer NormalizeRepoPath "\<lambda>xs. elems (NormalizeRepoPathList (Some xs))"
  by unfold_locales (auto simp: NormalizeRepoPathList_def)

interpretation nspl: keyed_fold "\<lambda>raw. NormalizeRepoPath (sp_Path raw)" sync_path_upd sp_Path
  by unfold_locales (simp add: sync_path_upd_def)

lemma NormalizeSyncPathList_emitted: "NormalizeSyncPathList = nspl.emitted"
  by (simp add: fun_eq_iff NormalizeSyncPathList_def nspl.emitted_def)

lemma NormalizeStringList_elems_Some:
  "NormalizeStringList vs = (if elems vs = [] then None
     else Some (elems (NormalizeStringList (Some (elems vs)))))"
  by (simp add: NormalizeStringList_def)

lemma NormalizeStringList_Some: "elems (NormalizeStringList (Some (elems vs))) =
    elems (NormalizeStringList vs)"
  by (simp add: NormalizeStringList_def)

lemma NormalizeStringList_idem [simp, norm_simps]:
  "elems (NormalizeStringList (NormalizeStringList vs)) = elems (NormalizeStringList vs)"
  by (metis NormalizeStringList_Some nsl.nl_idem)

lemma NormalizeStringList_Some_idem:
  assumes "NormalizeStringList vs = Some (x # xs)"
  shows "NormalizeStringList (Some (x # xs)) = Some (x # xs)"
  using NormalizeStringList_idem[of vs] assms
  by (subst NormalizeStringList_elems_Some) simp

lemma set_NormalizeStringList:
  "set (elems (NormalizeStringList vs)) = TrimSpace ` set (elems vs) - {''''}"
  using nsl.nl_set[of "elems vs"] by (simp only: NormalizeStringList_Some)

lemma sorted_NormalizeStringList [simp]:
  "sorted (elems (NormalizeStringList vs))" "distinct (elems (NormalizeStringList vs))"
  using nsl.nl_sorted[of "elems vs"] nsl.nl_distinct[of "elems vs"]
  by (simp_all only: NormalizeStringList_Some)

section \<open>Paths\<close>

text \<open>A normalized path is empty or is a clean path, never \<open>.\<close>; when it also has no outer
  white space, normalizing it again does nothing. Without that it can change: see the root
  theory.\<close>

lemma NormalizeRepoPath_clean:
  "NormalizeRepoPath raw = '''' \<or>
     path_Clean (NormalizeRepoPath raw) = NormalizeRepoPath raw \<and> NormalizeRepoPath raw \<noteq> ''.''"
  by (auto simp: NormalizeRepoPath_def Let_def)

lemma ReplaceByte_absent: "x \<notin> set s \<Longrightarrow> ReplaceByte x y s = s"
  by (auto simp: ReplaceByte_def intro: map_idI)

lemma set_ReplaceByte: "x \<noteq> y \<Longrightarrow> x \<notin> set (ReplaceByte x y s)"
  by (auto simp: ReplaceByte_def)

lemma set_join: "set (join sep ws) \<subseteq> set sep \<union> (\<Union>w \<in> set ws. set w)"
  by (induction sep ws rule: join.induct) auto

lemma set_split_on: "w \<in> set (split_on d s) \<Longrightarrow> set w \<subseteq> set s"
  by (induction s arbitrary: w) (fastforce split: if_splits list.splits)+

lemma set_clean_step: "set (clean_step rooted st seg) \<subseteq> insert seg (insert ''..'' (set st))"
  by (cases st) (auto simp: clean_step_def)

lemma set_foldl_clean:
  "set (foldl (clean_step rooted) st segs) \<subseteq> insert ''..'' (set st \<union> set segs)"
proof (induction segs arbitrary: st)
  case (Cons seg segs)
  show ?case
    using Cons[of "clean_step rooted st seg"] set_clean_step[of rooted st seg] by auto
qed auto

text \<open>No backslash is left.\<close>

lemma path_Clean_bytes: "c \<in> set (path_Clean s) \<Longrightarrow> c \<in> set s \<or> c = CHR ''/'' \<or> c = CHR ''.''"
proof -
  have segs: "c \<in> set s \<or> c = CHR ''.''" if "w \<in> set (path_segs s)" "c \<in> set w" for w
  proof -
    have "w = ''..'' \<or> w \<in> set (split_on (CHR ''/'') s)"
      using that(1) set_foldl_clean[of "HasPrefix s ''/''" "[]" "split_on (CHR ''/'') s"]
      by (auto simp: path_segs_def)
    then show ?thesis using that(2) set_split_on[of w] by auto
  qed
  assume "c \<in> set (path_Clean s)"
  then have "c \<in> set ''/.'' \<or> c \<in> set (join ''/'' (path_segs s))"
    by (auto simp: path_Clean_def split: if_splits)
  then show ?thesis using segs set_join[of "''/''" "path_segs s"] by auto
qed

lemma NormalizeRepoPath_no_backslash: "CHR 0x5C \<notin> set (NormalizeRepoPath raw)"
  using path_Clean_bytes[of "CHR 0x5C" "ReplaceByte (CHR 0x5C) (CHR ''/'') (TrimSpace raw)"]
    set_ReplaceByte[of "CHR 0x5C" "CHR ''/''" "TrimSpace raw"]
  by (auto simp: NormalizeRepoPath_def Let_def)

lemma NormalizeRepoPath_refix:
  assumes "TrimSpace (NormalizeRepoPath raw) = NormalizeRepoPath raw"
  shows "NormalizeRepoPath (NormalizeRepoPath raw) = NormalizeRepoPath raw"
proof (cases "NormalizeRepoPath raw = ''''")
  case False
  have "ReplaceByte (CHR 0x5C) (CHR ''/'') (NormalizeRepoPath raw) = NormalizeRepoPath raw"
    by (rule ReplaceByte_absent) (rule NormalizeRepoPath_no_backslash)
  then show ?thesis
    using False assms NormalizeRepoPath_clean[of raw] NormalizeRepoPath_def[of "NormalizeRepoPath raw"]
    by (simp add: Let_def)
qed (simp add: NormalizeRepoPath_def)

end
