(* ===== verification/Domain_Plan.thy ===== *)
theory Domain_Plan
  imports Domain_Norm
begin

text \<open>
  The work-plan part of \<open>internal/storage/domain/domain.go\<close>: normalizing and deduplicating
  tasks, merging an update into the stored tasks, the next state of a plan under an upsert in
  the two modes, the status of a plan derived from its items.
\<close>

section \<open>Definitions\<close>

text \<open>The \<open>priority\<close> table of the two dedupe loops; a status that is not listed has Go's zero.\<close>

definition status_priority :: "string \<Rightarrow> nat" where
  "status_priority s =
     (if s = WorkItemStatusPending then 1
      else if s = WorkItemStatusInProgress then 2
      else if s = WorkItemStatusBlocked then 3
      else 0)"

definition normalize_plan_task :: "WorkItem \<Rightarrow> WorkItem" where
  "normalize_plan_task raw =
     \<lparr> wi_ItemKey = TrimSpace (wi_ItemKey raw),
       wi_Summary = TrimSpace (wi_Summary raw),
       wi_Status = NormalizeWorkItemStatus (wi_Status raw),
       wi_ParentTaskKey = TrimSpace (wi_ParentTaskKey raw),
       wi_ParentTaskKeyClear = False,
       wi_DependsOn = NormalizeStringList (wi_DependsOn raw),
       wi_AcceptanceCriteria = NormalizeStringList (wi_AcceptanceCriteria raw),
       wi_References = NormalizeStringList (wi_References raw),
       wi_ExternalRefs = NormalizeStringList (wi_ExternalRefs raw),
       wi_BlockedReason = TrimSpace (wi_BlockedReason raw),
       wi_Outcome = TrimSpace (wi_Outcome raw),
       wi_Evidence = NormalizeStringList (wi_Evidence raw),
       wi_UpdatedAt = wi_UpdatedAt raw \<rparr>"

definition plan_task_upd :: "WorkItem option \<Rightarrow> WorkItem \<Rightarrow> WorkItem" where
  "plan_task_upd cur raw =
     (let normalized = normalize_plan_task raw in
      case cur of
        None \<Rightarrow> normalized
      | Some current \<Rightarrow>
          (if status_priority (wi_Status current) \<le> status_priority (wi_Status normalized)
           then normalized else current))"

definition NormalizeWorkPlanTasks :: "WorkItem list \<Rightarrow> WorkItem list" where
  "NormalizeWorkPlanTasks tasks =
     emit_sorted (fold_by_key (\<lambda>raw. TrimSpace (wi_ItemKey raw)) plan_task_upd tasks)"

text \<open>\<open>mergeWorkPlanTask\<close> assigns the fields of a copy of the base one after the other; no
  assignment reads a field that another one writes, so the result is given field by field.\<close>

definition mergeWorkPlanTask :: "WorkItem \<Rightarrow> WorkItem \<Rightarrow> bool \<Rightarrow> WorkItem" where
  "mergeWorkPlanTask current incoming found =
     (let base = (if found then current else WorkItem_zero);
          summary = TrimSpace (wi_Summary incoming);
          status = TrimSpace (wi_Status incoming);
          parent = TrimSpace (wi_ParentTaskKey incoming);
          blocked = TrimSpace (wi_BlockedReason incoming);
          outcome = TrimSpace (wi_Outcome incoming)
      in \<lparr> wi_ItemKey = TrimSpace (wi_ItemKey incoming),
           wi_Summary = (if summary \<noteq> '''' \<or> \<not> found then summary else wi_Summary base),
           wi_Status =
             (if status \<noteq> '''' then NormalizeWorkItemStatus status
              else if \<not> found \<or> TrimSpace (wi_Status base) = '''' then WorkItemStatusPending
              else NormalizeWorkItemStatus (wi_Status base)),
           wi_ParentTaskKey =
             (if wi_ParentTaskKeyClear incoming then ''''
              else if parent \<noteq> '''' then parent else wi_ParentTaskKey base),
           wi_ParentTaskKeyClear = wi_ParentTaskKeyClear base,
           wi_DependsOn =
             (if wi_DependsOn incoming \<noteq> None then NormalizeStringList (wi_DependsOn incoming)
              else wi_DependsOn base),
           wi_AcceptanceCriteria =
             (if wi_AcceptanceCriteria incoming \<noteq> None
              then NormalizeStringList (wi_AcceptanceCriteria incoming)
              else wi_AcceptanceCriteria base),
           wi_References =
             (if wi_References incoming \<noteq> None then NormalizeStringList (wi_References incoming)
              else wi_References base),
           wi_ExternalRefs =
             (if wi_ExternalRefs incoming \<noteq> None then NormalizeStringList (wi_ExternalRefs incoming)
              else wi_ExternalRefs base),
           wi_BlockedReason =
             (if blocked \<noteq> '''' then blocked
              else if TrimSpace (wi_Status incoming) \<noteq> '''' \<and>
                      NormalizeWorkItemStatus (wi_Status incoming) \<noteq> WorkItemStatusBlocked
                then '''' else wi_BlockedReason base),
           wi_Outcome = (if outcome \<noteq> '''' then outcome else wi_Outcome base),
           wi_Evidence =
             (if wi_Evidence incoming \<noteq> None then NormalizeStringList (wi_Evidence incoming)
              else wi_Evidence base),
           wi_UpdatedAt =
             (if wi_UpdatedAt incoming \<noteq> 0 then wi_UpdatedAt incoming
              else if found then wi_UpdatedAt current else wi_UpdatedAt base) \<rparr>)"

text \<open>One step of the merge loop: an entry merged earlier in the same input is the base, else
  the stored task.\<close>

definition merge_task_upd :: "(string \<rightharpoonup> WorkItem) \<Rightarrow> WorkItem option \<Rightarrow> WorkItem \<Rightarrow> WorkItem" where
  "merge_task_upd currentByKey prior raw =
     (case prior of
        Some p \<Rightarrow> mergeWorkPlanTask p raw True
      | None \<Rightarrow>
          (case currentByKey (TrimSpace (wi_ItemKey raw)) of
             Some base \<Rightarrow> mergeWorkPlanTask base raw True
           | None \<Rightarrow> mergeWorkPlanTask WorkItem_zero raw False))"

definition tasks_by_key :: "WorkItem list \<Rightarrow> (string \<rightharpoonup> WorkItem)" where
  "tasks_by_key items = map_of (map (\<lambda>i. (wi_ItemKey i, i)) (NormalizeWorkPlanTasks items))"

definition MergeIncomingWorkPlanTasks ::
  "WorkItem list \<Rightarrow> WorkItem list \<Rightarrow> WorkPlanMode \<Rightarrow> WorkItem list" where
  "MergeIncomingWorkPlanTasks current incoming mode =
     (if mode = WorkPlanModeReplace then NormalizeWorkPlanTasks incoming
      else emit_sorted (fold_by_key (\<lambda>raw. TrimSpace (wi_ItemKey raw))
             (merge_task_upd (tasks_by_key current)) incoming))"

definition MergeWorkPlanStages ::
  "WorkPlanStages \<Rightarrow> WorkPlanStages \<Rightarrow> WorkPlanMode \<Rightarrow> WorkPlanStages" where
  "MergeWorkPlanStages current incoming mode =
     (let out = (if mode = WorkPlanModeReplace then WorkPlanStages_zero else current);
          overlay = (\<lambda>cur inc. if TrimSpace inc \<noteq> '''' \<or> mode = WorkPlanModeReplace
                              then NormalizeWorkItemStatus inc else cur)
      in \<lparr> wps_SpecOutline = overlay (wps_SpecOutline out) (wps_SpecOutline incoming),
           wps_RefinedSpec = overlay (wps_RefinedSpec out) (wps_RefinedSpec incoming),
           wps_ImplementationPlan =
             overlay (wps_ImplementationPlan out) (wps_ImplementationPlan incoming) \<rparr>)"

definition pending_plan :: "string \<Rightarrow> string \<Rightarrow> WorkPlan" where
  "pending_plan projectID planKey =
     WorkPlan_zero\<lparr>wp_ProjectID := projectID, wp_PlanKey := planKey,
       wp_Status := PlanStatusPending,
       wp_Stages := \<lparr> wps_SpecOutline = PlanStatusPending, wps_RefinedSpec = PlanStatusPending,
                     wps_ImplementationPlan = PlanStatusPending \<rparr>\<rparr>"

text \<open>As in \<open>mergeWorkPlanTask\<close>, each field of the next state is computed from the same field of
  the starting state and the input.\<close>

definition BuildNextWorkPlanState ::
  "WorkPlan \<Rightarrow> bool \<Rightarrow> WorkPlanUpsertInput \<Rightarrow> WorkPlanMode \<Rightarrow> WorkPlan" where
  "BuildNextWorkPlanState current found input mode =
     (let projectID = TrimSpace (wpi_ProjectID input);
          planKey = TrimSpace (wpi_PlanKey input);
          replace = (mode = WorkPlanModeReplace);
          next = (if found \<and> \<not> replace then current else pending_plan projectID planKey);
          overlay = (\<lambda>raw cur. if TrimSpace raw \<noteq> '''' \<or> replace then TrimSpace raw else cur);
          overlay_list = (\<lambda>norm raw cur. if raw \<noteq> None \<or> replace then norm raw else cur);
          status = TrimSpace (wpi_Status input);
          stages_in = wpi_Stages input;
          stages =
            (if wps_SpecOutline stages_in \<noteq> '''' \<or> wps_RefinedSpec stages_in \<noteq> '''' \<or>
                wps_ImplementationPlan stages_in \<noteq> '''' \<or> replace
             then MergeWorkPlanStages
                    (if replace then WorkPlanStages_zero else wp_Stages next) stages_in mode
             else wp_Stages next)
      in \<lparr> wp_ProjectID = projectID,
           wp_PlanKey = planKey,
           wp_ReceiptID = overlay (wpi_ReceiptID input) (wp_ReceiptID next),
           wp_Title = overlay (wpi_Title input) (wp_Title next),
           wp_Objective = overlay (wpi_Objective input) (wp_Objective next),
           wp_Kind = (if TrimSpace (wpi_Kind input) \<noteq> '''' \<or> replace
                      then ToLower (TrimSpace (wpi_Kind input)) else wp_Kind next),
           wp_ParentPlanKey = overlay (wpi_ParentPlanKey input) (wp_ParentPlanKey next),
           wp_Status = NormalizeWorkItemStatus
             (if status \<noteq> '''' then NormalizeWorkItemStatus status
              else if replace then PlanStatusPending else wp_Status next),
           wp_Stages = NormalizeWorkPlanStages stages,
           wp_InScope = overlay_list NormalizeStringList (wpi_InScope input) (wp_InScope next),
           wp_OutOfScope =
             overlay_list NormalizeStringList (wpi_OutOfScope input) (wp_OutOfScope next),
           wp_DiscoveredPaths =
             overlay_list NormalizeRepoPathList (wpi_DiscoveredPaths input) (wp_DiscoveredPaths next),
           wp_Constraints =
             overlay_list NormalizeStringList (wpi_Constraints input) (wp_Constraints next),
           wp_References =
             overlay_list NormalizeStringList (wpi_References input) (wp_References next),
           wp_ExternalRefs =
             overlay_list NormalizeStringList (wpi_ExternalRefs input) (wp_ExternalRefs next),
           wp_Tasks = wp_Tasks next,
           wp_UpdatedAt = wp_UpdatedAt next \<rparr>)"

text \<open>\<open>NormalizeWorkItems\<close>: the first item whose key normalizes to nothing is an error.\<close>

definition work_item_upd :: "WorkItem option \<Rightarrow> WorkItem \<Rightarrow> WorkItem" where
  "work_item_upd cur raw =
     (let normalized = WorkItem_zero\<lparr>wi_ItemKey := NormalizeRepoPath (wi_ItemKey raw),
                                     wi_Status := NormalizeWorkItemStatus (wi_Status raw)\<rparr> in
      case cur of
        None \<Rightarrow> normalized
      | Some current \<Rightarrow>
          (if status_priority (wi_Status current) \<le> status_priority (wi_Status normalized)
           then normalized else current))"

definition NormalizeWorkItems :: "WorkItem list \<Rightarrow> WorkItem list go_result" where
  "NormalizeWorkItems items =
     (if list_ex (\<lambda>raw. NormalizeRepoPath (wi_ItemKey raw) = '''') items
      then Inl (GoErr ''work item key is required'')
      else Inr (emit_sorted
        (fold_by_key (\<lambda>raw. NormalizeRepoPath (wi_ItemKey raw)) work_item_upd items)))"

definition DerivePlanStatus :: "WorkItem list \<Rightarrow> string" where
  "DerivePlanStatus items =
     (let has = (\<lambda>s. list_ex (\<lambda>i. NormalizeWorkItemStatus (wi_Status i) = s) items) in
      if items = [] then PlanStatusPending
      else if has WorkItemStatusBlocked then PlanStatusBlocked
      else if has WorkItemStatusInProgress then PlanStatusInProgress
      else if has WorkItemStatusPending then PlanStatusPending
      else if has WorkItemStatusComplete then PlanStatusComplete
      else if has WorkItemStatusSuperseded then PlanStatusSuperseded
      else PlanStatusPending)"

section \<open>The loops as instances of the prelude's interfaces\<close>

lemma normalize_plan_task_sel [simp]:
  "wi_ItemKey (normalize_plan_task raw) = TrimSpace (wi_ItemKey raw)"
  "wi_Status (normalize_plan_task raw) = NormalizeWorkItemStatus (wi_Status raw)"
  "wi_ParentTaskKeyClear (normalize_plan_task raw) = False"
  by (simp_all add: normalize_plan_task_def)

lemma mergeWorkPlanTask_key [simp]:
  "wi_ItemKey (mergeWorkPlanTask current incoming found) = TrimSpace (wi_ItemKey incoming)"
  by (simp add: mergeWorkPlanTask_def Let_def)

lemma WorkItem_zero_sel [simp]:
  "wi_ItemKey WorkItem_zero = ''''" "wi_Summary WorkItem_zero = ''''"
  "wi_Status WorkItem_zero = ''''" "wi_ParentTaskKey WorkItem_zero = ''''"
  "wi_ParentTaskKeyClear WorkItem_zero = False" "wi_DependsOn WorkItem_zero = None"
  "wi_AcceptanceCriteria WorkItem_zero = None" "wi_References WorkItem_zero = None"
  "wi_ExternalRefs WorkItem_zero = None" "wi_BlockedReason WorkItem_zero = ''''"
  "wi_Outcome WorkItem_zero = ''''" "wi_Evidence WorkItem_zero = None"
  "wi_UpdatedAt WorkItem_zero = 0"
  by (simp_all add: WorkItem_zero_def)

text \<open>An update that keeps the stored entry keeps one that has the key it is stored under.\<close>

lemma plan_task_upd_key:
  assumes "\<And>c. cur = Some c \<Longrightarrow> wi_ItemKey c = k" "TrimSpace (wi_ItemKey raw) = k"
  shows "wi_ItemKey (plan_task_upd cur raw) = k"
proof (cases cur)
  case None
  then show ?thesis using assms(2) by (simp add: plan_task_upd_def)
next
  case (Some c)
  have "wi_ItemKey c = k" using assms(1) Some .
  then show ?thesis using assms(2) Some by (simp add: plan_task_upd_def)
qed

lemma merge_task_upd_key: "wi_ItemKey (merge_task_upd m cur raw) = TrimSpace (wi_ItemKey raw)"
  by (simp add: merge_task_upd_def split: option.split)

lemma work_item_upd_key:
  assumes "\<And>c. cur = Some c \<Longrightarrow> wi_ItemKey c = k" "NormalizeRepoPath (wi_ItemKey raw) = k"
  shows "wi_ItemKey (work_item_upd cur raw) = k"
proof (cases cur)
  case None
  then show ?thesis using assms(2) by (simp add: work_item_upd_def)
next
  case (Some c)
  have "wi_ItemKey c = k" using assms(1) Some .
  then show ?thesis using assms(2) Some by (simp add: work_item_upd_def)
qed

interpretation nwt: priority_fold "\<lambda>raw. TrimSpace (wi_ItemKey raw)" plan_task_upd wi_ItemKey
  normalize_plan_task "\<lambda>i. status_priority (wi_Status i)"
proof (unfold_locales, goal_cases)
  case (1 x cur)
  show ?case by (rule plan_task_upd_key) (use 1(2) in auto)
qed (simp_all add: plan_task_upd_def Let_def)

interpretation mwt: keyed_fold "\<lambda>raw. TrimSpace (wi_ItemKey raw)" "merge_task_upd m" wi_ItemKey
  for m :: "string \<rightharpoonup> WorkItem"
  by unfold_locales (rule merge_task_upd_key)

interpretation nwi: priority_fold "\<lambda>raw. NormalizeRepoPath (wi_ItemKey raw)" work_item_upd wi_ItemKey
  "\<lambda>raw. WorkItem_zero\<lparr>wi_ItemKey := NormalizeRepoPath (wi_ItemKey raw),
                      wi_Status := NormalizeWorkItemStatus (wi_Status raw)\<rparr>"
  "\<lambda>i. status_priority (wi_Status i)"
proof (unfold_locales, goal_cases)
  case (1 x cur)
  show ?case by (rule work_item_upd_key) (use 1(2) in auto)
qed (simp_all add: work_item_upd_def Let_def)

lemma NormalizeWorkPlanTasks_emitted: "NormalizeWorkPlanTasks = nwt.emitted"
  by (simp add: fun_eq_iff NormalizeWorkPlanTasks_def nwt.emitted_def)

lemma MergeIncoming_emitted:
  "mode \<noteq> WorkPlanModeReplace \<Longrightarrow>
     MergeIncomingWorkPlanTasks current incoming mode = mwt.emitted (tasks_by_key current) incoming"
  by (simp add: MergeIncomingWorkPlanTasks_def mwt.emitted_def)

section \<open>Well-formed tasks and plans\<close>

text \<open>What storage may assume of a task: a trimmed non-empty key, one of the five statuses,
  lists that are sorted, without duplicates and without blank or padded entries.\<close>

definition norm_list :: "string slice \<Rightarrow> bool" where
  "norm_list s \<longleftrightarrow> sorted (elems s) \<and> distinct (elems s) \<and>
     list_all (\<lambda>x. x \<noteq> '''' \<and> TrimSpace x = x) (elems s)"

definition wf_task :: "WorkItem \<Rightarrow> bool" where
  "wf_task i \<longleftrightarrow> wi_ItemKey i \<noteq> '''' \<and> TrimSpace (wi_ItemKey i) = wi_ItemKey i \<and>
     wi_Status i \<in> work_item_statuses \<and> TrimSpace (wi_Summary i) = wi_Summary i \<and>
     TrimSpace (wi_ParentTaskKey i) = wi_ParentTaskKey i \<and>
     TrimSpace (wi_BlockedReason i) = wi_BlockedReason i \<and>
     TrimSpace (wi_Outcome i) = wi_Outcome i \<and>
     norm_list (wi_DependsOn i) \<and> norm_list (wi_AcceptanceCriteria i) \<and>
     norm_list (wi_References i) \<and> norm_list (wi_ExternalRefs i) \<and> norm_list (wi_Evidence i)"

definition wf_stages :: "WorkPlanStages \<Rightarrow> bool" where
  "wf_stages s \<longleftrightarrow> wps_SpecOutline s \<in> work_item_statuses \<and>
     wps_RefinedSpec s \<in> work_item_statuses \<and> wps_ImplementationPlan s \<in> work_item_statuses"

definition wf_plan :: "WorkPlan \<Rightarrow> bool" where
  "wf_plan p \<longleftrightarrow> TrimSpace (wp_ProjectID p) = wp_ProjectID p \<and>
     TrimSpace (wp_PlanKey p) = wp_PlanKey p \<and> TrimSpace (wp_ReceiptID p) = wp_ReceiptID p \<and>
     wp_Status p \<in> work_item_statuses \<and> wf_stages (wp_Stages p) \<and>
     norm_list (wp_InScope p) \<and> norm_list (wp_OutOfScope p) \<and> norm_list (wp_Constraints p) \<and>
     norm_list (wp_References p) \<and> norm_list (wp_ExternalRefs p)"

lemma norm_list_NormalizeStringList [simp]: "norm_list (NormalizeStringList s)"
  by (auto simp: norm_list_def list_all_iff set_NormalizeStringList)

lemma norm_list_None [simp]: "norm_list None"
  by (simp add: norm_list_def)

lemma norm_list_fixed: "norm_list s \<Longrightarrow> elems (NormalizeStringList s) = elems s"
  using nsl.nl_id[of "elems s"]
  by (auto simp: norm_list_def list_all_iff NormalizeStringList_Some)

lemma wf_normalize_plan_task:
  "TrimSpace (wi_ItemKey raw) \<noteq> '''' \<Longrightarrow> wf_task (normalize_plan_task raw)"
  by (simp add: wf_task_def normalize_plan_task_def)

lemma wf_task_zero_fields:
  "wf_task i \<Longrightarrow> wi_ItemKey i \<noteq> '''' \<and> wi_Status i \<in> work_item_statuses"
  by (simp add: wf_task_def)

lemma NormalizeWorkPlanTasks_wf:
  assumes "t \<in> set (NormalizeWorkPlanTasks tasks)"
  shows "wf_task t" "wi_ParentTaskKeyClear t = False"
proof -
  obtain raw where "raw \<in> set tasks" "TrimSpace (wi_ItemKey raw) = wi_ItemKey t"
    "t = normalize_plan_task raw"
    using nwt.emitted_max(1)[of t tasks] assms by (auto simp: NormalizeWorkPlanTasks_emitted)
  moreover have "wi_ItemKey t \<noteq> ''''"
    using assms by (simp add: NormalizeWorkPlanTasks_emitted nwt.emitted_mem)
  ultimately show "wf_task t" "wi_ParentTaskKeyClear t = False"
    using wf_normalize_plan_task[of raw] by simp_all
qed

lemma tasks_by_key_Some:
  assumes "tasks_by_key items k = Some t"
  shows "t \<in> set (NormalizeWorkPlanTasks items)" "wi_ItemKey t = k"
  using map_of_SomeD[OF assms[unfolded tasks_by_key_def]] by auto

lemma tasks_by_key_lookup:
  assumes "t \<in> set (NormalizeWorkPlanTasks items)"
  shows "tasks_by_key items (wi_ItemKey t) = Some t"
  unfolding tasks_by_key_def using assms nwt.emitted_keys_distinct[of items]
  by (intro map_of_is_SomeI) (auto simp: NormalizeWorkPlanTasks_emitted comp_def)

lemma tasks_by_key_wf: "tasks_by_key items k = Some t \<Longrightarrow> wf_task t"
  using tasks_by_key_Some NormalizeWorkPlanTasks_wf by blast

lemma Pending_status [simp]: "WorkItemStatusPending \<in> work_item_statuses"
  by (simp add: work_item_statuses_def)

lemma mergeWorkPlanTask_wf:
  assumes "TrimSpace (wi_ItemKey raw) \<noteq> ''''" "found \<Longrightarrow> wf_task current"
  shows "wf_task (mergeWorkPlanTask current raw found)"
proof -
  define base where "base = (if found then current else WorkItem_zero)"
  have base: "TrimSpace (wi_Summary base) = wi_Summary base"
    "TrimSpace (wi_ParentTaskKey base) = wi_ParentTaskKey base"
    "TrimSpace (wi_BlockedReason base) = wi_BlockedReason base"
    "TrimSpace (wi_Outcome base) = wi_Outcome base"
    "norm_list (wi_DependsOn base)" "norm_list (wi_AcceptanceCriteria base)"
    "norm_list (wi_References base)" "norm_list (wi_ExternalRefs base)"
    "norm_list (wi_Evidence base)"
    using assms(2) by (cases found; simp add: wf_task_def base_def)+
  show ?thesis
    unfolding wf_task_def mergeWorkPlanTask_def Let_def base_def[symmetric]
    using assms(1) base by (intro conjI) simp_all
qed

lemma merge_task_upd_wf:
  assumes "TrimSpace (wi_ItemKey raw) \<noteq> ''''" "\<And>c. cur = Some c \<Longrightarrow> wf_task c"
    "\<And>k t. m k = Some t \<Longrightarrow> wf_task t"
  shows "wf_task (merge_task_upd m cur raw)"
  using assms by (auto simp: merge_task_upd_def intro!: mergeWorkPlanTask_wf split: option.split)

lemma merge_fold_wf:
  assumes "k \<noteq> ''''" "\<And>k t. m k = Some t \<Longrightarrow> wf_task t"
  shows "foldl (\<lambda>cur x. Some (merge_task_upd m cur x)) None
           (filter (\<lambda>raw. TrimSpace (wi_ItemKey raw) = k) xs) = Some t \<Longrightarrow> wf_task t"
proof (induction xs arbitrary: t rule: rev_induct)
  case (snoc x xs)
  then show ?case
    using assms by (auto split: if_splits intro!: merge_task_upd_wf)
qed simp

lemma MergeIncoming_wf:
  assumes "t \<in> set (MergeIncomingWorkPlanTasks current incoming mode)"
  shows "wf_task t"
proof (cases "mode = WorkPlanModeReplace")
  case True
  then show ?thesis
    using assms NormalizeWorkPlanTasks_wf by (auto simp: MergeIncomingWorkPlanTasks_def)
next
  case False
  then have t: "t \<in> set (mwt.emitted (tasks_by_key current) incoming)"
    using assms by (simp add: MergeIncoming_emitted)
  show ?thesis
    using merge_fold_wf[of "wi_ItemKey t" "tasks_by_key current" incoming t] tasks_by_key_wf t
    by (auto simp: mwt.emitted_mem)
qed

lemma MergeIncoming_keys:
  "sorted (map wi_ItemKey (MergeIncomingWorkPlanTasks current incoming mode))"
  "distinct (map wi_ItemKey (MergeIncomingWorkPlanTasks current incoming mode))"
  "wi_ItemKey ` set (MergeIncomingWorkPlanTasks current incoming mode) =
     (\<lambda>raw. TrimSpace (wi_ItemKey raw)) ` set incoming - {''''}"
  using nwt.emitted_keys_sorted nwt.emitted_keys_distinct nwt.emitted_key_set
    mwt.emitted_keys_sorted mwt.emitted_keys_distinct mwt.emitted_key_set
    MergeIncoming_emitted[of mode current incoming]
  by (cases "mode = WorkPlanModeReplace";
      simp add: MergeIncomingWorkPlanTasks_def NormalizeWorkPlanTasks_emitted)+

text \<open>What the merge computes for a key that one incoming task has.\<close>

lemma MergeIncoming_single:
  assumes "mode \<noteq> WorkPlanModeReplace" "TrimSpace (wi_ItemKey raw) = k" "k \<noteq> ''''"
    "filter (\<lambda>r. TrimSpace (wi_ItemKey r) = k) incoming = [raw]"
  shows "t \<in> set (MergeIncomingWorkPlanTasks current incoming mode) \<and> wi_ItemKey t = k \<longleftrightarrow>
    t = (case tasks_by_key current k of
           Some base \<Rightarrow> mergeWorkPlanTask base raw True
         | None \<Rightarrow> mergeWorkPlanTask WorkItem_zero raw False)"
  using assms
  by (auto simp: MergeIncoming_emitted mwt.emitted_mem merge_task_upd_def split: option.splits)

section \<open>Status derivation\<close>

definition status_rank :: "string \<Rightarrow> nat" where
  "status_rank s =
     (if s = WorkItemStatusBlocked then 4
      else if s = WorkItemStatusInProgress then 3
      else if s = WorkItemStatusPending then 2
      else if s = WorkItemStatusComplete then 1
      else 0)"

lemma plan_status_eqs:
  "PlanStatusPending = WorkItemStatusPending" "PlanStatusBlocked = WorkItemStatusBlocked"
  "PlanStatusInProgress = WorkItemStatusInProgress" "PlanStatusComplete = WorkItemStatusComplete"
  "PlanStatusSuperseded = WorkItemStatusSuperseded"
  by (simp_all add: status_consts)

lemma status_distinct [simp]:
  "WorkItemStatusPending \<noteq> WorkItemStatusInProgress" "WorkItemStatusPending \<noteq> WorkItemStatusBlocked"
  "WorkItemStatusPending \<noteq> WorkItemStatusComplete" "WorkItemStatusPending \<noteq> WorkItemStatusSuperseded"
  "WorkItemStatusInProgress \<noteq> WorkItemStatusBlocked"
  "WorkItemStatusInProgress \<noteq> WorkItemStatusComplete"
  "WorkItemStatusInProgress \<noteq> WorkItemStatusSuperseded"
  "WorkItemStatusBlocked \<noteq> WorkItemStatusComplete"
  "WorkItemStatusBlocked \<noteq> WorkItemStatusSuperseded"
  "WorkItemStatusComplete \<noteq> WorkItemStatusSuperseded"
  by (simp_all add: status_consts)

lemma status_rank_simps [simp]:
  "status_rank WorkItemStatusBlocked = 4" "status_rank WorkItemStatusInProgress = 3"
  "status_rank WorkItemStatusPending = 2" "status_rank WorkItemStatusComplete = 1"
  "status_rank WorkItemStatusSuperseded = 0"
  by (simp_all add: status_rank_def status_distinct[symmetric])

lemma DerivePlanStatus_in: "DerivePlanStatus items \<in> work_item_statuses"
  by (simp add: DerivePlanStatus_def Let_def plan_status_eqs work_item_statuses_def)

lemma status_cases:
  "NormalizeWorkItemStatus raw = WorkItemStatusPending \<or>
   NormalizeWorkItemStatus raw = WorkItemStatusInProgress \<or>
   NormalizeWorkItemStatus raw = WorkItemStatusBlocked \<or>
   NormalizeWorkItemStatus raw = WorkItemStatusComplete \<or>
   NormalizeWorkItemStatus raw = WorkItemStatusSuperseded"
  using NormalizeWorkItemStatus_in[of raw] by (auto simp: work_item_statuses_def)

lemma DerivePlanStatus_max:
  assumes "items \<noteq> []"
  shows "\<exists>i \<in> set items. NormalizeWorkItemStatus (wi_Status i) = DerivePlanStatus items"
    and "i \<in> set items \<Longrightarrow>
      status_rank (NormalizeWorkItemStatus (wi_Status i)) \<le> status_rank (DerivePlanStatus items)"
proof -
  let ?n = "\<lambda>i. NormalizeWorkItemStatus (wi_Status i)"
  obtain i0 where "i0 \<in> set items" using assms by (cases items) auto
  then show "\<exists>i \<in> set items. ?n i = DerivePlanStatus items"
    using assms status_cases[of "wi_Status i0"]
    by (auto simp: DerivePlanStatus_def Let_def plan_status_eqs list_ex_iff)
  assume i: "i \<in> set items"
  then show "status_rank (?n i) \<le> status_rank (DerivePlanStatus items)"
    using assms status_cases[of "wi_Status i"]
    by (auto simp: DerivePlanStatus_def Let_def plan_status_eqs list_ex_iff)
qed

section \<open>The next state of a plan\<close>

lemma WorkPlan_zero_sel [simp]:
  "wp_ReceiptID WorkPlan_zero = ''''" "wp_InScope WorkPlan_zero = None"
  "wp_OutOfScope WorkPlan_zero = None" "wp_DiscoveredPaths WorkPlan_zero = None"
  "wp_Constraints WorkPlan_zero = None" "wp_References WorkPlan_zero = None"
  "wp_ExternalRefs WorkPlan_zero = None" "wp_Tasks WorkPlan_zero = []"
  by (simp_all add: WorkPlan_zero_def)

lemma wf_NormalizeWorkPlanStages [simp]: "wf_stages (NormalizeWorkPlanStages s)"
  by (simp add: wf_stages_def NormalizeWorkPlanStages_simp)

lemma NormalizeWorkPlanStages_fixed: "wf_stages s \<Longrightarrow> NormalizeWorkPlanStages s = s"
  by (simp add: wf_stages_def NormalizeWorkPlanStages_simp NormalizeWorkItemStatus_fixed)

lemma BuildNext_wf:
  assumes "found \<Longrightarrow> wf_plan current"
  shows "wf_plan (BuildNextWorkPlanState current found input mode)"
proof -
  define next0 where "next0 = (if found \<and> mode \<noteq> WorkPlanModeReplace then current
    else pending_plan (TrimSpace (wpi_ProjectID input)) (TrimSpace (wpi_PlanKey input)))"
  have base: "TrimSpace (wp_ReceiptID next0) = wp_ReceiptID next0"
    "norm_list (wp_InScope next0)" "norm_list (wp_OutOfScope next0)"
    "norm_list (wp_Constraints next0)" "norm_list (wp_References next0)"
    "norm_list (wp_ExternalRefs next0)"
    using assms by (cases "found \<and> mode \<noteq> WorkPlanModeReplace";
      simp add: wf_plan_def next0_def pending_plan_def)+
  show ?thesis
    unfolding wf_plan_def BuildNextWorkPlanState_def Let_def next0_def[symmetric]
    using base by (intro conjI) simp_all
qed

lemma BuildNext_ids [simp]:
  "wp_ProjectID (BuildNextWorkPlanState current found input mode) = TrimSpace (wpi_ProjectID input)"
  "wp_PlanKey (BuildNextWorkPlanState current found input mode) = TrimSpace (wpi_PlanKey input)"
  by (simp_all add: BuildNextWorkPlanState_def Let_def)

end
