(* ===== verification/Sqlite_Store.thy ===== *)
theory Sqlite_Store
  imports Domain_Plan
begin

text \<open>
  The state of \<open>internal/adapters/sqlite\<close>: the tables of the schema that \<open>migrations.go\<close> builds
  (the columns that the code reads back), keyed as their UNIQUE constraints say, with the clock
  that \<open>unixepoch()\<close> reads and a fault schedule. Every call to the database consumes one entry
  of the schedule and fails when it is \<open>True\<close>; a transaction that does not commit leaves the
  tables as they were. A JSON column holds the list it encodes; \<open>decodeStringList\<close> normalizes
  what is read.
\<close>

section \<open>Tables\<close>

text \<open>A row of \<open>awm_work_plans\<close> or \<open>awm_work_plan_tasks\<close> is the written struct with the second
  at which it was written; \<open>receipt_id\<close> is NULL when the written value is blank.\<close>

record plan_row =
  pr_plan :: WorkPlan
  pr_receipt_id :: "string option"
  pr_updated_at :: int

record task_row =
  tr_task :: WorkItem
  tr_updated_at :: int

record item_row =
  ir_status :: string
  ir_updated_at :: int

record receipt_row =
  rr_project_id :: string
  rr_task_text :: string
  rr_phase :: string
  rr_resolved_tags :: "string slice"
  rr_pointer_keys :: "string slice"
  rr_initial_scope_paths :: "string slice"
  rr_baseline_captured :: bool
  rr_baseline_paths :: "SyncPath list"
  rr_actor :: Actor
  rr_created_at :: int

record run_row =
  nr_run_id :: int
  nr_project_id :: string
  nr_request_id :: string
  nr_receipt_id :: string
  nr_status :: string
  nr_files_changed :: "string slice"
  nr_dod_issues :: "string slice"
  nr_outcome :: string
  nr_actor :: Actor
  nr_vcs :: VCSInfo
  nr_created_at :: int

record attempt_row =
  ar_attempt_id :: int
  ar_attempt :: NormalizedReviewAttempt
  ar_created_sec :: int

record batch_row =
  br_batch :: NormalizedVerificationBatch

record pointer_row =
  pt_path :: string
  pt_anchor :: string
  pt_kind :: string
  pt_label :: string
  pt_description :: string
  pt_tags :: "string slice"
  pt_is_rule :: bool
  pt_is_stale :: bool
  pt_stale_at :: "int option"
  pt_content_hash :: "string option"
  pt_updated_at :: int

record db =
  db_plans :: "((string \<times> string) \<times> plan_row) list"
  db_tasks :: "((string \<times> string \<times> string) \<times> task_row) list"
  db_items :: "((string \<times> string \<times> string) \<times> item_row) list"
  db_receipts :: "(string \<times> receipt_row) list"
  db_runs :: "run_row list"
  db_attempts :: "attempt_row list"
  db_batches :: "(string \<times> batch_row) list"
  db_pointers :: "((string \<times> string) \<times> pointer_row) list"
  db_candidates :: "((string \<times> string) \<times> string) list"
  db_next_run :: int
  db_next_attempt :: int
  db_clock :: int
  db_faults :: "bool list"

definition db_empty :: db where
  "db_empty =
     \<lparr> db_plans = [], db_tasks = [], db_items = [], db_receipts = [], db_runs = [],
       db_attempts = [], db_batches = [], db_pointers = [], db_candidates = [],
       db_next_run = 1, db_next_attempt = 1, db_clock = 0, db_faults = [] \<rparr>"

section \<open>Operations that may fail\<close>

type_synonym 'a db_op = "db \<Rightarrow> 'a go_result \<times> db"

definition ret_db :: "'a \<Rightarrow> 'a db_op" where
  "ret_db x s = (Inr x, s)"

definition fail_db :: "go_error \<Rightarrow> 'a db_op" where
  "fail_db e s = (Inl e, s)"

definition bind_db :: "'a db_op \<Rightarrow> ('a \<Rightarrow> 'b db_op) \<Rightarrow> 'b db_op" where
  "bind_db m f s = (case m s of (Inl e, s') \<Rightarrow> (Inl e, s') | (Inr x, s') \<Rightarrow> f x s')"

definition get_db :: "(db \<Rightarrow> 'a) \<Rightarrow> 'a db_op" where
  "get_db f s = (Inr (f s), s)"

definition modify_db :: "(db \<Rightarrow> db) \<Rightarrow> unit db_op" where
  "modify_db f s = (Inr (), f s)"

text \<open>One call to the database; \<open>msg\<close> is the prefix under which the code reports its failure.\<close>

definition db_call :: "string \<Rightarrow> unit db_op" where
  "db_call msg s =
     (case db_faults s of
        [] \<Rightarrow> (Inr (), s)
      | b # bs \<Rightarrow> (if b then Inl (ErrDB msg) else Inr (), s\<lparr>db_faults := bs\<rparr>))"

text \<open>\<open>BeginTx\<close>, the statements, \<open>Commit\<close>; on an error the deferred rollback restores the
  tables (not the schedule, which is not part of the database).\<close>

definition in_tx :: "'a db_op \<Rightarrow> 'a db_op" where
  "in_tx body s =
     (case bind_db (db_call ''begin tx'') (\<lambda>_. bind_db body
             (\<lambda>x. bind_db (db_call ''commit tx'') (\<lambda>_. ret_db x))) s of
        (Inl e, s') \<Rightarrow> (Inl e, s\<lparr>db_faults := db_faults s'\<rparr>)
      | (Inr x, s') \<Rightarrow> (Inr x, s'))"

fun each_db :: "('a \<Rightarrow> nat db_op) \<Rightarrow> 'a list \<Rightarrow> nat db_op" where
  "each_db f [] = ret_db 0"
| "each_db f (x # xs) = bind_db (f x) (\<lambda>n. bind_db (each_db f xs) (\<lambda>m. ret_db (n + m)))"

lemmas db_op_defs =
  ret_db_def fail_db_def bind_db_def get_db_def modify_db_def db_call_def

text \<open>The tables without the schedule, to say that an operation has changed nothing.\<close>

definition tables :: "db \<Rightarrow> db" where
  "tables s = s\<lparr>db_faults := []\<rparr>"

lemma tables_faults [simp]: "tables (s\<lparr>db_faults := fs\<rparr>) = tables s"
  by (simp add: tables_def)

text \<open>A call, a transaction that fails and a read leave the tables alone.\<close>

lemma db_call_tables [store_simps]: "tables (snd (db_call msg s)) = tables s"
  by (simp add: db_call_def split: list.split)

lemma in_tx_error_tables:
  "in_tx body s = (Inl e, s') \<Longrightarrow> tables s' = tables s"
  by (auto simp: in_tx_def split: prod.splits sum.splits)

lemma bind_db_ok: "m s = (Inr x, s') \<Longrightarrow> bind_db m f s = f x s'"
  by (simp add: bind_db_def)

lemma db_call_no_faults [store_simps]: "db_faults s = [] \<Longrightarrow> db_call msg s = (Inr (), s)"
  by (simp add: db_call_def)

lemma in_tx_no_faults [store_simps]:
  assumes "db_faults s = []" "body s = (Inr x, s')" "db_faults s' = []"
  shows "in_tx body s = (Inr x, s')"
  using assms by (simp add: in_tx_def bind_db_def db_call_def ret_db_def)

section \<open>Time and stored lists\<close>

text \<open>The zero time is the year 1; the Unix epoch is 62135596800 seconds later.\<close>

definition unixTime :: "int \<Rightarrow> int" where
  "unixTime sec = (62135596800 + (if sec \<le> 0 then 0 else sec)) * 1000000000"

definition unixSeconds :: "int \<Rightarrow> int" where
  "unixSeconds t = t div 1000000000 - 62135596800"

definition decodeStringList :: "string slice \<Rightarrow> string slice" where
  "decodeStringList stored = NormalizeStringList stored"

definition decodeStringListPreserveOrder :: "string slice \<Rightarrow> string slice" where
  "decodeStringListPreserveOrder stored = NormalizeStringListPreserveOrder stored"

definition decodeSyncPathList :: "SyncPath list \<Rightarrow> SyncPath list" where
  "decodeSyncPathList stored = NormalizeSyncPathList stored"

definition nonNilStringList :: "string slice \<Rightarrow> string slice" where
  "nonNilStringList vs = (if elems vs = [] then Some [] else vs)"

lemma elems_nonNil [simp]: "elems (nonNilStringList vs) = elems vs"
  by (cases vs) (auto simp: nonNilStringList_def)

lemma NormalizeStringList_nonNil [simp]:
  "NormalizeStringList (nonNilStringList vs) = NormalizeStringList vs"
  by (simp add: NormalizeStringList_def)

lemma unixTime_pos: "unixTime s > 0"
  by (simp add: unixTime_def)

section \<open>Hoare triples on success\<close>

text \<open>\<open>valid P m Q\<close>: from a state with \<open>P\<close>, when \<open>m\<close> succeeds its result and the new state
  satisfy \<open>Q\<close>. Failing operations sit inside transactions, which undo them.\<close>

definition valid :: "(db \<Rightarrow> bool) \<Rightarrow> 'a db_op \<Rightarrow> ('a \<Rightarrow> db \<Rightarrow> bool) \<Rightarrow> bool" where
  "valid P m Q \<longleftrightarrow> (\<forall>s x s'. P s \<longrightarrow> m s = (Inr x, s') \<longrightarrow> Q x s')"

lemma validI: "(\<And>s x s'. P s \<Longrightarrow> m s = (Inr x, s') \<Longrightarrow> Q x s') \<Longrightarrow> valid P m Q"
  by (simp add: valid_def)

lemma validD: "valid P m Q \<Longrightarrow> P s \<Longrightarrow> m s = (Inr x, s') \<Longrightarrow> Q x s'"
  by (simp add: valid_def)

lemma valid_bind:
  assumes "valid P m R" "\<And>x. valid (R x) (f x) Q"
  shows "valid P (bind_db m f) Q"
  using assms unfolding valid_def bind_db_def by (fastforce split: prod.splits sum.splits)

lemma valid_ret: "(\<And>s. P s \<Longrightarrow> Q x s) \<Longrightarrow> valid P (ret_db x) Q"
  by (simp add: valid_def ret_db_def)

lemma valid_fail: "valid P (fail_db e) Q"
  by (simp add: valid_def fail_db_def)

lemma valid_get: "(\<And>s. P s \<Longrightarrow> Q (f s) s) \<Longrightarrow> valid P (get_db f) Q"
  by (simp add: valid_def get_db_def)

lemma valid_modify: "(\<And>s. P s \<Longrightarrow> Q () (f s)) \<Longrightarrow> valid P (modify_db f) Q"
  by (simp add: valid_def modify_db_def)

text \<open>The assertions are insensitive to the fault schedule.\<close>

definition fault_free :: "(db \<Rightarrow> bool) \<Rightarrow> bool" where
  "fault_free P \<longleftrightarrow> (\<forall>s fs. P (s\<lparr>db_faults := fs\<rparr>) \<longleftrightarrow> P s)"

lemma valid_call: "fault_free P \<Longrightarrow> valid P (db_call msg) (\<lambda>_. P)"
  by (auto simp: valid_def db_call_def fault_free_def split: list.splits if_splits)

lemma valid_call_bind:
  "fault_free P \<Longrightarrow> valid P m Q \<Longrightarrow> valid P (bind_db (db_call msg) (\<lambda>_. m)) Q"
  by (rule valid_bind[OF valid_call])

lemma valid_each:
  assumes "\<And>x. x \<in> set xs \<Longrightarrow> valid P (f x) (\<lambda>_. P)"
  shows "valid P (each_db f xs) (\<lambda>_. P)"
  using assms
proof (induction xs)
  case (Cons x xs)
  have tail: "valid P (each_db f xs) (\<lambda>_. P)" by (rule Cons.IH) (rule Cons.prems, simp)
  show ?case
    unfolding each_db.simps
    by (rule valid_bind[OF Cons.prems], simp) (rule valid_bind[OF tail], rule valid_ret)
qed (auto simp: valid_def ret_db_def)

text \<open>A transaction either fails and changes no table or establishes what its body does.\<close>

lemma in_tx_cases:
  assumes "in_tx body s = (r, s')"
  obtains (error) e where "r = Inl e" "tables s' = tables s"
  | (ok) x s1 s2 where "r = Inr x" "tables s1 = tables s" "body s1 = (Inr x, s2)"
      "tables s' = tables s2"
proof (cases r)
  case (Inl e)
  then show ?thesis using assms in_tx_error_tables error by blast
next
  case (Inr x)
  obtain s1 where s1: "db_call ''begin tx'' s = (Inr (), s1)"
    using assms Inr
    by (auto simp: in_tx_def bind_db_def db_call_def split: prod.splits sum.splits list.splits if_splits)
  obtain s2 where s2: "body s1 = (Inr x, s2)"
    using assms Inr s1
    by (auto simp: in_tx_def bind_db_def ret_db_def db_call_def[of "''commit tx''"]
        split: prod.splits sum.splits list.splits if_splits)
  have "tables s' = tables s2"
    using assms Inr s1 s2
    by (auto simp: in_tx_def bind_db_def ret_db_def db_call_def[of "''commit tx''"]
        split: prod.splits sum.splits list.splits if_splits)
  moreover have "tables s1 = tables s" using s1 db_call_tables by (metis snd_conv)
  ultimately show ?thesis using ok Inr s2 by blast
qed

lemma fault_free_tables:
  assumes "fault_free P" "tables s = tables s'"
  shows "P s = P s'"
proof -
  have "P s = P (tables s)" "P s' = P (tables s')"
    using assms(1) by (simp_all add: fault_free_def tables_def)
  then show ?thesis using assms(2) by simp
qed

lemma valid_in_tx_inv:
  assumes "fault_free P" "valid P body (\<lambda>_. P)" "P s"
  shows "P (snd (in_tx body s))"
proof (cases "in_tx body s")
  case (Pair r s')
  then show ?thesis
  proof (cases rule: in_tx_cases)
    case (error e)
    have "P s' = P s" by (rule fault_free_tables[OF assms(1) error(2)])
    then show ?thesis using assms(3) Pair by simp
  next
    case (ok x s1 s2)
    have "P s1 = P s" by (rule fault_free_tables[OF assms(1) ok(2)])
    then have "P s2" using validD[OF assms(2) _ ok(3)] assms(3) by simp
    moreover have "P s' = P s2" by (rule fault_free_tables[OF assms(1) ok(4)])
    ultimately show ?thesis using Pair by simp
  qed
qed

section \<open>Runs that succeed do not depend on the schedule\<close>

definition det :: "'a db_op \<Rightarrow> bool" where
  "det m \<longleftrightarrow> (\<forall>s x s'. m s = (Inr x, s') \<longrightarrow> m (tables s) = (Inr x, tables s'))"

lemma detD: "det m \<Longrightarrow> m s = (Inr x, s') \<Longrightarrow> m (tables s) = (Inr x, tables s')"
  by (simp add: det_def)

lemma tables_tables [simp]: "tables (tables s) = tables s"
  by (simp add: tables_def)

lemma tables_no_faults [simp]: "db_faults (tables s) = []"
  by (simp add: tables_def)

lemma det_ret: "det (ret_db x)"
  by (simp add: det_def ret_db_def)

lemma det_fail: "det (fail_db e)"
  by (simp add: det_def fail_db_def)

lemma det_get: "(\<And>s. f (tables s) = f s) \<Longrightarrow> det (get_db f)"
  by (simp add: det_def get_db_def)

lemma det_modify: "(\<And>s. f (tables s) = tables (f s)) \<Longrightarrow> det (modify_db f)"
  by (simp add: det_def modify_db_def)

lemma det_call: "det (db_call msg)"
  by (auto simp: det_def db_call_def tables_def split: list.splits if_splits)

lemma det_bind:
  assumes "det m" "\<And>x. det (f x)"
  shows "det (bind_db m f)"
  unfolding det_def
proof (intro allI impI)
  fix s x s' assume "bind_db m f s = (Inr x, s')"
  then obtain y s1 where "m s = (Inr y, s1)" "f y s1 = (Inr x, s')"
    by (auto simp: bind_db_def split: prod.splits sum.splits)
  then show "bind_db m f (tables s) = (Inr x, tables s')"
    using detD[OF assms(1)] detD[OF assms(2)] by (simp add: bind_db_ok[of m])
qed

lemma det_each: "(\<And>x. det (f x)) \<Longrightarrow> det (each_db f xs)"
  by (induction xs) (auto intro!: det_bind det_ret)

lemmas det_rules = det_ret det_fail det_call det_bind det_each

section \<open>Reads\<close>

definition reads :: "'a db_op \<Rightarrow> bool" where
  "reads m \<longleftrightarrow> (\<forall>s. tables (snd (m s)) = tables s)"

lemma readsD: "reads m \<Longrightarrow> m s = (r, s') \<Longrightarrow> tables s' = tables s"
  by (metis reads_def snd_conv)

lemma reads_ret: "reads (ret_db x)" and reads_fail: "reads (fail_db e)"
  and reads_get: "reads (get_db f)" and reads_call: "reads (db_call msg)"
  by (simp_all add: reads_def ret_db_def fail_db_def get_db_def db_call_tables)

lemma reads_bind:
  assumes "reads m" "\<And>x. reads (f x)"
  shows "reads (bind_db m f)"
  using assms unfolding reads_def bind_db_def
  by (auto split: prod.split sum.split) (metis snd_conv)+

lemmas reads_rules = reads_ret reads_fail reads_get reads_call reads_bind

end
