(* ===== verification/Sqlite_Plans.thy ===== *)
theory Sqlite_Plans
  imports Sqlite_Store
begin

text \<open>
  Work items and work plans in \<open>internal/adapters/sqlite/repository.go\<close>: \<open>UpsertWorkItems\<close>,
  \<open>ListWorkItems\<close>, \<open>UpsertWorkPlan\<close>, \<open>LookupWorkPlan\<close>, \<open>ListWorkPlans\<close> and their helpers, on the
  tables of \<open>Sqlite_Store\<close>. Lookups order rows as their ORDER BY clauses do.
\<close>

section \<open>Work items of a receipt\<close>

text \<open>The foreign key of \<open>awm_work_items\<close> asks for the receipt (of any project).\<close>

definition upsert_item_row :: "string \<Rightarrow> string \<Rightarrow> WorkItem \<Rightarrow> nat db_op" where
  "upsert_item_row projectID receiptID item =
     bind_db (db_call ''upsert work item'') (\<lambda>_.
     bind_db (get_db (\<lambda>s. map_of (db_receipts s) receiptID)) (\<lambda>r.
       case r of
         None \<Rightarrow> fail_db (ErrDB ''upsert work item: FOREIGN KEY constraint failed'')
       | Some _ \<Rightarrow>
           bind_db (modify_db (\<lambda>s. s\<lparr>db_items :=
             AList.update (projectID, receiptID, wi_ItemKey item)
               \<lparr> ir_status = StorageWorkItemStatus (wi_Status item), ir_updated_at = db_clock s \<rparr>
               (db_items s)\<rparr>)) (\<lambda>_. ret_db 1)))"

definition UpsertWorkItems :: "WorkItemsUpsertInput \<Rightarrow> nat db_op" where
  "UpsertWorkItems input =
     (let projectID = TrimSpace (wui_ProjectID input) in
      if projectID = '''' then fail_db (GoErr ''project_id is required'')
      else let receiptID = TrimSpace (wui_ReceiptID input) in
      if receiptID = '''' then fail_db (GoErr ''receipt_id is required'')
      else (case NormalizeWorkItems (wui_Items input) of
          Inl e \<Rightarrow> fail_db e
        | Inr items \<Rightarrow>
            (if items = [] then fail_db (GoErr ''work items are required'')
             else in_tx (each_db (upsert_item_row projectID receiptID) items))))"

definition item_rows_of :: "string \<Rightarrow> string \<Rightarrow> db \<Rightarrow> (string \<times> item_row) list" where
  "item_rows_of projectID receiptID s =
     sort_key fst (map (\<lambda>((_, _, k), row). (k, row))
       (filter (\<lambda>((p, r, _), _). p = projectID \<and> r = receiptID) (db_items s)))"

definition item_of_row :: "string \<times> item_row \<Rightarrow> WorkItem" where
  "item_of_row = (\<lambda>(k, row).
     WorkItem_zero\<lparr>wi_ItemKey := NormalizeRepoPath k,
       wi_Status := NormalizeWorkItemStatus (ir_status row),
       wi_UpdatedAt := unixTime (ir_updated_at row)\<rparr>)"

definition ListWorkItems :: "FetchLookupQuery \<Rightarrow> WorkItem list db_op" where
  "ListWorkItems input =
     (let projectID = TrimSpace (flq_ProjectID input) in
      if projectID = '''' then fail_db (GoErr ''project_id is required'')
      else let receiptID = TrimSpace (flq_ReceiptID input) in
      if receiptID = '''' then fail_db (GoErr ''receipt_id is required'')
      else bind_db (db_call ''query work items'') (\<lambda>_.
        get_db (\<lambda>s. map item_of_row
          (filter (\<lambda>(k, _). NormalizeRepoPath k \<noteq> '''') (item_rows_of projectID receiptID s)))))"

section \<open>Work plans\<close>

text \<open>What \<open>upsertWorkPlanRowTx\<close> writes: the scalars trimmed once more, statuses in storage
  form, lists non-nil, a blank receipt as NULL.\<close>

definition stored_plan :: "WorkPlan \<Rightarrow> WorkPlan" where
  "stored_plan plan =
     \<lparr> wp_ProjectID = TrimSpace (wp_ProjectID plan), wp_PlanKey = TrimSpace (wp_PlanKey plan),
       wp_ReceiptID = TrimSpace (wp_ReceiptID plan), wp_Title = TrimSpace (wp_Title plan),
       wp_Objective = TrimSpace (wp_Objective plan),
       wp_Kind = ToLower (TrimSpace (wp_Kind plan)),
       wp_ParentPlanKey = TrimSpace (wp_ParentPlanKey plan),
       wp_Status = StorageWorkItemStatus (wp_Status plan),
       wp_Stages =
         \<lparr> wps_SpecOutline = StorageWorkItemStatus (wps_SpecOutline (wp_Stages plan)),
           wps_RefinedSpec = StorageWorkItemStatus (wps_RefinedSpec (wp_Stages plan)),
           wps_ImplementationPlan =
             StorageWorkItemStatus (wps_ImplementationPlan (wp_Stages plan)) \<rparr>,
       wp_InScope = nonNilStringList (wp_InScope plan),
       wp_OutOfScope = nonNilStringList (wp_OutOfScope plan),
       wp_DiscoveredPaths = nonNilStringList (wp_DiscoveredPaths plan),
       wp_Constraints = nonNilStringList (wp_Constraints plan),
       wp_References = nonNilStringList (wp_References plan),
       wp_ExternalRefs = nonNilStringList (wp_ExternalRefs plan),
       wp_Tasks = [], wp_UpdatedAt = 0 \<rparr>"

definition upsertWorkPlanRow :: "WorkPlan \<Rightarrow> unit db_op" where
  "upsertWorkPlanRow plan =
     bind_db (db_call ''upsert work plan'') (\<lambda>_.
       modify_db (\<lambda>s. s\<lparr>db_plans :=
         AList.update (TrimSpace (wp_ProjectID plan), TrimSpace (wp_PlanKey plan))
           \<lparr> pr_plan = stored_plan plan,
             pr_receipt_id = (if TrimSpace (wp_ReceiptID plan) \<noteq> ''''
                              then Some (TrimSpace (wp_ReceiptID plan)) else None),
             pr_updated_at = db_clock s \<rparr>
           (db_plans s)\<rparr>))"

definition plan_of_row :: "string \<Rightarrow> string \<Rightarrow> plan_row \<Rightarrow> WorkPlan" where
  "plan_of_row projectID planKey row =
     (let p = pr_plan row;
          dec = (\<lambda>l. NormalizeStringList (decodeStringList l)) in
      \<lparr> wp_ProjectID = projectID, wp_PlanKey = planKey,
        wp_ReceiptID = (case pr_receipt_id row of None \<Rightarrow> '''' | Some r \<Rightarrow> TrimSpace r),
        wp_Title = TrimSpace (wp_Title p), wp_Objective = TrimSpace (wp_Objective p),
        wp_Kind = TrimSpace (wp_Kind p), wp_ParentPlanKey = TrimSpace (wp_ParentPlanKey p),
        wp_Status = NormalizeWorkItemStatus (wp_Status p),
        wp_Stages = NormalizeWorkPlanStages (wp_Stages p),
        wp_InScope = dec (wp_InScope p), wp_OutOfScope = dec (wp_OutOfScope p),
        wp_DiscoveredPaths = dec (wp_DiscoveredPaths p),
        wp_Constraints = dec (wp_Constraints p), wp_References = dec (wp_References p),
        wp_ExternalRefs = dec (wp_ExternalRefs p),
        wp_Tasks = [], wp_UpdatedAt = unixTime (pr_updated_at row) \<rparr>)"

definition lookupWorkPlanRow :: "string \<Rightarrow> string \<Rightarrow> WorkPlan option db_op" where
  "lookupWorkPlanRow projectID planKey =
     bind_db (db_call ''query work plan'') (\<lambda>_.
       get_db (\<lambda>s. map_option (plan_of_row projectID planKey)
                    (map_of (db_plans s) (projectID, planKey))))"

text \<open>A task row as written by \<open>UpsertWorkPlan\<close> and as read by \<open>listWorkPlanTasks\<close>.\<close>

definition stored_task :: "WorkItem \<Rightarrow> WorkItem" where
  "stored_task task =
     \<lparr> wi_ItemKey = wi_ItemKey task, wi_Summary = TrimSpace (wi_Summary task),
       wi_Status = StorageWorkItemStatus (wi_Status task),
       wi_ParentTaskKey = TrimSpace (wi_ParentTaskKey task), wi_ParentTaskKeyClear = False,
       wi_DependsOn = nonNilStringList (wi_DependsOn task),
       wi_AcceptanceCriteria = nonNilStringList (wi_AcceptanceCriteria task),
       wi_References = nonNilStringList (wi_References task),
       wi_ExternalRefs = nonNilStringList (wi_ExternalRefs task),
       wi_BlockedReason = TrimSpace (wi_BlockedReason task),
       wi_Outcome = TrimSpace (wi_Outcome task),
       wi_Evidence = nonNilStringList (wi_Evidence task), wi_UpdatedAt = 0 \<rparr>"

definition upsert_task_row :: "string \<Rightarrow> string \<Rightarrow> WorkItem \<Rightarrow> nat db_op" where
  "upsert_task_row projectID planKey task =
     bind_db (db_call ''upsert work plan task'') (\<lambda>_.
     bind_db (get_db (\<lambda>s. map_of (db_plans s) (projectID, planKey))) (\<lambda>p.
       case p of
         None \<Rightarrow> fail_db (ErrDB ''upsert work plan task: FOREIGN KEY constraint failed'')
       | Some _ \<Rightarrow>
           bind_db (modify_db (\<lambda>s. s\<lparr>db_tasks :=
             AList.update (projectID, planKey, wi_ItemKey task)
               \<lparr> tr_task = stored_task task, tr_updated_at = db_clock s \<rparr> (db_tasks s)\<rparr>))
           (\<lambda>_. ret_db 1)))"

definition task_of_row :: "string \<times> task_row \<Rightarrow> WorkItem" where
  "task_of_row = (\<lambda>(k, row).
     let t = tr_task row;
         dec = (\<lambda>l. NormalizeStringList (decodeStringList l)) in
     \<lparr> wi_ItemKey = TrimSpace k, wi_Summary = TrimSpace (wi_Summary t),
       wi_Status = NormalizeWorkItemStatus (wi_Status t),
       wi_ParentTaskKey = TrimSpace (wi_ParentTaskKey t), wi_ParentTaskKeyClear = False,
       wi_DependsOn = dec (wi_DependsOn t), wi_AcceptanceCriteria = dec (wi_AcceptanceCriteria t),
       wi_References = dec (wi_References t), wi_ExternalRefs = dec (wi_ExternalRefs t),
       wi_BlockedReason = TrimSpace (wi_BlockedReason t), wi_Outcome = TrimSpace (wi_Outcome t),
       wi_Evidence = dec (wi_Evidence t), wi_UpdatedAt = unixTime (tr_updated_at row) \<rparr>)"

definition task_rows_of :: "string \<Rightarrow> string \<Rightarrow> db \<Rightarrow> (string \<times> task_row) list" where
  "task_rows_of projectID planKey s =
     sort_key fst (map (\<lambda>((_, _, k), row). (k, row))
       (filter (\<lambda>((p, k, _), _). p = projectID \<and> k = planKey) (db_tasks s)))"

definition listWorkPlanTasks :: "string \<Rightarrow> string \<Rightarrow> WorkItem list db_op" where
  "listWorkPlanTasks projectID planKey =
     bind_db (db_call ''query work plan tasks'') (\<lambda>_.
       get_db (\<lambda>s. map task_of_row
         (filter (\<lambda>(k, _). TrimSpace k \<noteq> '''') (task_rows_of projectID planKey s))))"

definition delete_plan_tasks :: "string \<Rightarrow> string \<Rightarrow> nat db_op" where
  "delete_plan_tasks projectID planKey =
     bind_db (db_call ''delete work plan tasks'') (\<lambda>_.
     bind_db (get_db (\<lambda>s. length (task_rows_of projectID planKey s))) (\<lambda>n.
     bind_db (modify_db (\<lambda>s. s\<lparr>db_tasks :=
         filter (\<lambda>((p, k, _), _). \<not> (p = projectID \<and> k = planKey)) (db_tasks s)\<rparr>)) (\<lambda>_.
     ret_db n)))"

definition update_plan_status :: "string \<Rightarrow> string \<Rightarrow> string \<Rightarrow> unit db_op" where
  "update_plan_status projectID planKey status =
     bind_db (db_call ''update work plan status'') (\<lambda>_.
       modify_db (\<lambda>s. s\<lparr>db_plans :=
         AList.map_entry (projectID, planKey)
           (\<lambda>row. row\<lparr>pr_plan := (pr_plan row)\<lparr>wp_Status := status\<rparr>, pr_updated_at := db_clock s\<rparr>)
           (db_plans s)\<rparr>))"

definition LookupWorkPlan :: "WorkPlanLookupQuery \<Rightarrow> WorkPlan db_op" where
  "LookupWorkPlan input =
     (let projectID = TrimSpace (wpq_ProjectID input);
          planKey0 = TrimSpace (wpq_PlanKey input);
          receiptID = TrimSpace (wpq_ReceiptID input) in
      if projectID = '''' then fail_db (GoErr ''project_id is required'')
      else if planKey0 = '''' \<and> receiptID = ''''
        then fail_db (GoErr ''plan_key or receipt_id is required'')
      else bind_db
        (if planKey0 \<noteq> '''' then ret_db planKey0
         else bind_db (db_call ''query work plan key by receipt'') (\<lambda>_.
           bind_db (get_db (\<lambda>s. sort_key (\<lambda>(k, row). (- pr_updated_at row, k))
               (map (\<lambda>((_, k), row). (k, row))
                 (filter (\<lambda>((p, _), row). p = projectID \<and> pr_receipt_id row = Some receiptID)
                   (db_plans s)))))
             (\<lambda>rows. case rows of
                [] \<Rightarrow> fail_db ErrWorkPlanNotFound
              | (k, _) # _ \<Rightarrow> ret_db k)))
        (\<lambda>planKey.
          bind_db (lookupWorkPlanRow projectID planKey) (\<lambda>found.
            case found of
              None \<Rightarrow> fail_db ErrWorkPlanNotFound
            | Some plan \<Rightarrow>
                bind_db (listWorkPlanTasks projectID planKey) (\<lambda>tasks.
                  ret_db (plan\<lparr>wp_Tasks := tasks\<rparr>)))))"

definition upsert_plan_body ::
  "string \<Rightarrow> string \<Rightarrow> WorkPlanMode \<Rightarrow> WorkPlanUpsertInput \<Rightarrow> nat db_op" where
  "upsert_plan_body projectID planKey mode input =
     bind_db (lookupWorkPlanRow projectID planKey) (\<lambda>looked.
     let found = (looked \<noteq> None);
         current0 = (case looked of None \<Rightarrow> WorkPlan_zero | Some p \<Rightarrow> p) in
     bind_db
       (if found \<and> mode = WorkPlanModeMerge \<and> wpi_Tasks input \<noteq> []
        then bind_db (listWorkPlanTasks projectID planKey)
               (\<lambda>ts. ret_db (current0\<lparr>wp_Tasks := ts\<rparr>))
        else ret_db current0) (\<lambda>current.
     let nextState = BuildNextWorkPlanState current found input mode in
     bind_db (upsertWorkPlanRow nextState) (\<lambda>_.
     let normalizedTasks =
       MergeIncomingWorkPlanTasks (wp_Tasks current) (wpi_Tasks input) mode in
     bind_db
       (if mode = WorkPlanModeReplace then delete_plan_tasks projectID planKey else ret_db 0)
       (\<lambda>deleted.
     bind_db (each_db (upsert_task_row projectID planKey) normalizedTasks) (\<lambda>written.
     bind_db
       (if TrimSpace (wpi_Status input) = ''''
        then bind_db (listWorkPlanTasks projectID planKey) (\<lambda>tasks.
               update_plan_status projectID planKey (StorageWorkItemStatus (DerivePlanStatus tasks)))
        else ret_db ()) (\<lambda>_.
     ret_db (deleted + written)))))))"

definition UpsertWorkPlan :: "WorkPlanUpsertInput \<Rightarrow> WorkPlanUpsertResult db_op" where
  "UpsertWorkPlan input =
     (let projectID = TrimSpace (wpi_ProjectID input);
          planKey = TrimSpace (wpi_PlanKey input);
          mode = NormalizeWorkPlanMode (wpi_Mode input) in
      if projectID = '''' then fail_db (GoErr ''project_id is required'')
      else if planKey = '''' then fail_db (GoErr ''plan_key is required'')
      else bind_db (in_tx (upsert_plan_body projectID planKey mode input)) (\<lambda>updated.
        bind_db (LookupWorkPlan \<lparr> wpq_ProjectID = projectID, wpq_PlanKey = planKey,
                                  wpq_ReceiptID = '''' \<rparr>) (\<lambda>plan.
          ret_db \<lparr> wpr_Plan = plan, wpr_Updated = int updated \<rparr>)))"

section \<open>The view of a plan\<close>

text \<open>The abstract content of the store: for a plan key the plan that a lookup returns, its
  tasks as a finite map from keys to tasks.\<close>

definition task_map :: "db \<Rightarrow> string \<Rightarrow> string \<Rightarrow> (string \<rightharpoonup> WorkItem)" where
  "task_map s p k =
     (\<lambda>t. map_option (\<lambda>row. task_of_row (t, row)) (map_of (db_tasks s) (p, k, t)))"

definition view_tasks :: "db \<Rightarrow> string \<Rightarrow> string \<Rightarrow> WorkItem list" where
  "view_tasks s p k = map task_of_row (filter (\<lambda>(t, _). TrimSpace t \<noteq> '''') (task_rows_of p k s))"

definition plan_view :: "db \<Rightarrow> string \<Rightarrow> string \<Rightarrow> WorkPlan option" where
  "plan_view s p k =
     map_option (\<lambda>row. (plan_of_row p k row)\<lparr>wp_Tasks := view_tasks s p k\<rparr>)
       (map_of (db_plans s) (p, k))"

text \<open>The well-formedness of the plan tables.\<close>

definition key_ok :: "string \<Rightarrow> bool" where
  "key_ok k \<longleftrightarrow> k \<noteq> '''' \<and> TrimSpace k = k"

definition wf_plan_row :: "string \<Rightarrow> string \<Rightarrow> plan_row \<Rightarrow> bool" where
  "wf_plan_row p k row \<longleftrightarrow> key_ok p \<and> key_ok k \<and>
     wp_Status (pr_plan row) \<in> work_item_statuses \<and> wf_stages (wp_Stages (pr_plan row))"

definition wf_task_row :: "string \<Rightarrow> task_row \<Rightarrow> bool" where
  "wf_task_row t row \<longleftrightarrow> wf_task (tr_task row) \<and> wi_ItemKey (tr_task row) = t"

definition wf_db :: "db \<Rightarrow> bool" where
  "wf_db s \<longleftrightarrow>
     distinct (map fst (db_plans s)) \<and> distinct (map fst (db_tasks s)) \<and>
     distinct (map fst (db_items s)) \<and>
     (\<forall>p k row. map_of (db_plans s) (p, k) = Some row \<longrightarrow> wf_plan_row p k row) \<and>
     (\<forall>p k t row. map_of (db_tasks s) (p, k, t) = Some row \<longrightarrow>
        wf_task_row t row \<and> map_of (db_plans s) (p, k) \<noteq> None) \<and>
     (\<forall>p r k row. map_of (db_items s) (p, r, k) = Some row \<longrightarrow>
        k \<noteq> '''' \<and> ir_status row \<in> work_item_statuses \<and> map_of (db_receipts s) r \<noteq> None)"

lemma wf_db_empty: "wf_db db_empty"
  by (simp add: wf_db_def db_empty_def)

lemma fault_free_wf_db: "fault_free wf_db"
  by (simp add: fault_free_def wf_db_def)

lemma wf_dbD:
  assumes "wf_db s"
  shows "distinct (map fst (db_plans s))" "distinct (map fst (db_tasks s))"
    "distinct (map fst (db_items s))"
    "map_of (db_plans s) (p, k) = Some row \<Longrightarrow> wf_plan_row p k row"
    "map_of (db_tasks s) (p, k, t) = Some trow \<Longrightarrow> wf_task_row t trow"
    "map_of (db_tasks s) (p, k, t) = Some trow \<Longrightarrow> map_of (db_plans s) (p, k) \<noteq> None"
  using assms unfolding wf_db_def by blast+

lemma task_rows_of_normal:
  assumes "distinct (map fst (db_tasks s))"
  shows "task_rows_of p k s =
    map (\<lambda>t. (t, the (map_of (db_tasks s) (p, k, t))))
      (sorted_list_of_set {t. map_of (db_tasks s) (p, k, t) \<noteq> None})"
proof -
  define al where "al = map (\<lambda>((_, _, t), row). (t, row))
    (filter (\<lambda>((p', k', _), _). p' = p \<and> k' = k) (db_tasks s))"
  have mem: "(t, row) \<in> set al \<longleftrightarrow> ((p, k, t), row) \<in> set (db_tasks s)" for t row
    unfolding al_def by (force simp: image_iff)
  have uniq: "((p, k, t), r1) \<in> set (db_tasks s) \<Longrightarrow> ((p, k, t), r2) \<in> set (db_tasks s) \<Longrightarrow> r1 = r2"
    for t r1 r2
    using assms by (metis map_of_eq_Some_iff option.inject)
  have "distinct (db_tasks s)" using assms by (simp add: distinct_map)
  then have "distinct al"
    unfolding al_def by (auto simp: distinct_map inj_on_def split: prod.splits)
  then have dist: "distinct (map fst al)"
    unfolding distinct_map inj_on_def using mem uniq by (auto intro: prod_eqI)
  have look: "map_of al t = map_of (db_tasks s) (p, k, t)" for t
  proof (cases "map_of al t")
    case None
    then have "\<forall>row. ((p, k, t), row) \<notin> set (db_tasks s)"
      using mem[of t] by (force simp: map_of_eq_None_iff)
    then show ?thesis using None by (metis map_of_SomeD not_None_eq)
  next
    case (Some row)
    then have "((p, k, t), row) \<in> set (db_tasks s)" using mem map_of_SomeD by metis
    then show ?thesis using Some assms by simp
  qed
  show ?thesis
    unfolding task_rows_of_def al_def[symmetric] sort_key_fst_normal[OF dist]
    by (simp add: look dom_def)
qed

text \<open>The view of the tasks, in the order of their keys, is the task map.\<close>

lemma view_tasks_normal:
  assumes "wf_db s"
  shows "view_tasks s p k =
    map (\<lambda>t. the (task_map s p k t)) (sorted_list_of_set (dom (task_map s p k)))"
proof -
  let ?K = "{t. map_of (db_tasks s) (p, k, t) \<noteq> None}"
  have dom: "dom (task_map s p k) = ?K" by (auto simp: task_map_def)
  have "(\<lambda>t. (t, ())) ` ?K \<subseteq> (\<lambda>((_, _, t), _). (t, ())) ` set (db_tasks s)"
    by (force dest: map_of_SomeD)
  then have "finite ?K"
    by (metis (no_types, lifting) List.finite_set finite_imageD finite_imageI finite_subset
        inj_on_def prod.inject)
  then have fin: "set (sorted_list_of_set ?K) = ?K" by simp
  have ok: "TrimSpace t \<noteq> ''''" if "t \<in> ?K" for t
    using that wf_dbD(5)[OF assms, of p k t] by (auto simp: wf_task_row_def wf_task_def)
  have "filter (\<lambda>(t, _). TrimSpace t \<noteq> '''') (task_rows_of p k s) = task_rows_of p k s"
    unfolding task_rows_of_normal[OF wf_dbD(2)[OF assms]] using fin ok
    by (intro filter_True) auto
  then have "view_tasks s p k = map task_of_row (task_rows_of p k s)"
    by (simp add: view_tasks_def)
  also have "\<dots> = map (\<lambda>t. the (task_map s p k t)) (sorted_list_of_set ?K)"
    unfolding task_rows_of_normal[OF wf_dbD(2)[OF assms]] using fin
    by (auto simp: task_map_def)
  finally show ?thesis by (simp only: dom)
qed

lemma task_map_finite: "finite (dom (task_map s p k))"
proof -
  have "dom (task_map s p k) \<subseteq> (\<lambda>key. snd (snd key)) ` fst ` set (db_tasks s)"
    by (force simp: task_map_def dest: map_of_SomeD)
  then show ?thesis by (rule finite_subset) simp
qed

lemma task_of_row_key:
  "wf_task_row t row \<Longrightarrow> wi_ItemKey (task_of_row (t, row)) = t"
  by (auto simp: wf_task_row_def wf_task_def task_of_row_def Let_def)

lemma task_map_key: "wf_db s \<Longrightarrow> task_map s p k t = Some i \<Longrightarrow> wi_ItemKey i = t"
  using wf_dbD(5) by (auto simp: task_map_def task_of_row_key)

lemma task_of_row_wf: "wf_task_row t row \<Longrightarrow> wf_task (task_of_row (t, row))"
  by (auto simp: wf_task_row_def wf_task_def task_of_row_def Let_def decodeStringList_def)

lemma view_tasks_set: "wf_db s \<Longrightarrow> set (view_tasks s p k) = ran (task_map s p k)"
  using task_map_finite[of s p k]
  by (auto simp: view_tasks_normal ran_def image_iff) (metis domI option.sel)

lemma view_tasks_wf: "wf_db s \<Longrightarrow> i \<in> set (view_tasks s p k) \<Longrightarrow> wf_task i"
  using wf_dbD(5) by (auto simp: view_tasks_set ran_def task_map_def task_of_row_wf)

lemma view_tasks_keys: "wf_db s \<Longrightarrow> map wi_ItemKey (view_tasks s p k) = sorted_list_of_set (dom (task_map s p k))"
  using task_map_finite[of s p k] task_map_key
  by (auto simp: view_tasks_normal comp_def intro!: map_idI)

section \<open>What the operations do when no call fails\<close>

lemma lookupWorkPlanRow_eval [store_simps]:
  "db_faults s = [] \<Longrightarrow> lookupWorkPlanRow p k s =
     (Inr (map_option (plan_of_row p k) (map_of (db_plans s) (p, k))), s)"
  by (simp add: lookupWorkPlanRow_def db_op_defs)

lemma listWorkPlanTasks_eval [store_simps]:
  "db_faults s = [] \<Longrightarrow> listWorkPlanTasks p k s = (Inr (view_tasks s p k), s)"
  by (simp add: listWorkPlanTasks_def db_op_defs view_tasks_def)

lemma LookupWorkPlan_eval:
  assumes "db_faults s = []" "TrimSpace (wpq_ProjectID q) = p" "p \<noteq> ''''"
    "TrimSpace (wpq_PlanKey q) = k" "k \<noteq> ''''"
  shows "LookupWorkPlan q s =
    ((case plan_view s p k of None \<Rightarrow> Inl ErrWorkPlanNotFound | Some plan \<Rightarrow> Inr plan), s)"
  using assms
  by (cases "map_of (db_plans s) (p, k)")
     (simp_all add: LookupWorkPlan_def Let_def bind_db_def ret_db_def lookupWorkPlanRow_eval
       listWorkPlanTasks_eval plan_view_def fail_db_def)

definition task_row_for :: "int \<Rightarrow> WorkItem \<Rightarrow> task_row" where
  "task_row_for clock task = \<lparr> tr_task = stored_task task, tr_updated_at = clock \<rparr>"

definition put_tasks ::
  "string \<Rightarrow> string \<Rightarrow> int \<Rightarrow> WorkItem list \<Rightarrow> ((string \<times> string \<times> string) \<times> task_row) list \<Rightarrow>
     ((string \<times> string \<times> string) \<times> task_row) list" where
  "put_tasks p k clock tasks al =
     foldl (\<lambda>al t. AList.update (p, k, wi_ItemKey t) (task_row_for clock t) al) al tasks"

lemma each_upsert_task_eval:
  assumes "db_faults s = []" "map_of (db_plans s) (p, k) \<noteq> None"
  shows "each_db (upsert_task_row p k) tasks s =
    (Inr (length tasks), s\<lparr>db_tasks := put_tasks p k (db_clock s) tasks (db_tasks s)\<rparr>)"
  using assms
proof (induction tasks arbitrary: s)
  case (Cons t ts)
  obtain row where row: "map_of (db_plans s) (p, k) = Some row" using Cons.prems by auto
  have "upsert_task_row p k t s = (Inr 1, s\<lparr>db_tasks :=
      AList.update (p, k, wi_ItemKey t) (task_row_for (db_clock s) t) (db_tasks s)\<rparr>)"
    using Cons.prems(1) row by (simp add: upsert_task_row_def db_op_defs task_row_for_def)
  then show ?case
    using Cons.IH[of "s\<lparr>db_tasks :=
      AList.update (p, k, wi_ItemKey t) (task_row_for (db_clock s) t) (db_tasks s)\<rparr>"] Cons.prems
    by (simp add: bind_db_def ret_db_def put_tasks_def)
qed (simp add: ret_db_def put_tasks_def)

lemma distinct_put_tasks:
  "distinct (map fst al) \<Longrightarrow> distinct (map fst (put_tasks p k clock tasks al))"
  by (induction tasks rule: rev_induct) (auto simp: put_tasks_def intro: distinct_update)

lemma map_of_put_tasks_other:
  "\<not> (p' = p \<and> k' = k \<and> t \<in> wi_ItemKey ` set tasks) \<Longrightarrow>
     map_of (put_tasks p k clock tasks al) (p', k', t) = map_of al (p', k', t)"
  by (induction tasks rule: rev_induct) (auto simp: put_tasks_def update_conv')

lemma map_of_put_tasks_mem:
  assumes "distinct (map wi_ItemKey tasks)" "x \<in> set tasks"
  shows "map_of (put_tasks p k clock tasks al) (p, k, wi_ItemKey x) = Some (task_row_for clock x)"
  using assms
proof (induction tasks rule: rev_induct)
  case (snoc y ys)
  have step: "put_tasks p k clock (ys @ [y]) al = AList.update (p, k, wi_ItemKey y)
      (task_row_for clock y) (put_tasks p k clock ys al)"
    by (simp add: put_tasks_def)
  show ?case
  proof (cases "x = y")
    case False
    then have "x \<in> set ys" using snoc.prems by auto
    moreover have "wi_ItemKey y \<notin> wi_ItemKey ` set ys" "distinct (map wi_ItemKey ys)"
      using snoc.prems(1) by auto
    moreover have "wi_ItemKey x \<noteq> wi_ItemKey y"
      using calculation by (metis image_eqI)
    ultimately show ?thesis
      using snoc.IH by (simp add: step update_conv')
  qed (simp add: step update_conv')
qed simp

text \<open>The state that a successful upsert leaves.\<close>

definition current_for_merge ::
  "db \<Rightarrow> string \<Rightarrow> string \<Rightarrow> WorkPlanMode \<Rightarrow> WorkPlanUpsertInput \<Rightarrow> WorkPlan" where
  "current_for_merge s p k mode input =
     (case map_of (db_plans s) (p, k) of
        None \<Rightarrow> WorkPlan_zero
      | Some row \<Rightarrow>
          (if mode = WorkPlanModeMerge \<and> wpi_Tasks input \<noteq> []
           then (plan_of_row p k row)\<lparr>wp_Tasks := view_tasks s p k\<rparr> else plan_of_row p k row))"

definition next_plan_row ::
  "db \<Rightarrow> string \<Rightarrow> string \<Rightarrow> WorkPlanMode \<Rightarrow> WorkPlanUpsertInput \<Rightarrow> plan_row" where
  "next_plan_row s p k mode input =
     (let plan = BuildNextWorkPlanState (current_for_merge s p k mode input)
                   (map_of (db_plans s) (p, k) \<noteq> None) input mode in
      \<lparr> pr_plan = stored_plan plan,
        pr_receipt_id = (if TrimSpace (wp_ReceiptID plan) \<noteq> ''''
                         then Some (TrimSpace (wp_ReceiptID plan)) else None),
        pr_updated_at = db_clock s \<rparr>)"

definition written_tasks ::
  "db \<Rightarrow> string \<Rightarrow> string \<Rightarrow> WorkPlanMode \<Rightarrow> WorkPlanUpsertInput \<Rightarrow> WorkItem list" where
  "written_tasks s p k mode input =
     MergeIncomingWorkPlanTasks (wp_Tasks (current_for_merge s p k mode input))
       (wpi_Tasks input) mode"

definition kept_task_table ::
  "db \<Rightarrow> string \<Rightarrow> string \<Rightarrow> WorkPlanMode \<Rightarrow> ((string \<times> string \<times> string) \<times> task_row) list" where
  "kept_task_table s p k mode =
     (if mode = WorkPlanModeReplace
      then filter (\<lambda>((p', k', _), _). \<not> (p' = p \<and> k' = k)) (db_tasks s) else db_tasks s)"

definition db_with_tasks ::
  "db \<Rightarrow> string \<Rightarrow> string \<Rightarrow> WorkPlanMode \<Rightarrow> WorkPlanUpsertInput \<Rightarrow> db" where
  "db_with_tasks s p k mode input =
     s\<lparr>db_plans := AList.update (p, k) (next_plan_row s p k mode input) (db_plans s),
       db_tasks := put_tasks p k (db_clock s) (written_tasks s p k mode input)
                     (kept_task_table s p k mode)\<rparr>"

definition upserted_db ::
  "db \<Rightarrow> string \<Rightarrow> string \<Rightarrow> WorkPlanMode \<Rightarrow> WorkPlanUpsertInput \<Rightarrow> db" where
  "upserted_db s p k mode input =
     (let s2 = db_with_tasks s p k mode input in
      if TrimSpace (wpi_Status input) = ''''
      then s2\<lparr>db_plans := AList.map_entry (p, k)
             (\<lambda>row. row\<lparr>pr_plan := (pr_plan row)\<lparr>wp_Status :=
                 StorageWorkItemStatus (DerivePlanStatus (view_tasks s2 p k))\<rparr>,
               pr_updated_at := db_clock s\<rparr>) (db_plans s2)\<rparr>
      else s2)"

lemma db_with_tasks_faults [simp]: "db_faults (db_with_tasks s p k mode input) = db_faults s"
  by (simp add: db_with_tasks_def)

lemma db_with_tasks_clock [simp]: "db_clock (db_with_tasks s p k mode input) = db_clock s"
  by (simp add: db_with_tasks_def)

lemma upserted_db_faults [simp]: "db_faults (upserted_db s p k mode input) = db_faults s"
  by (simp add: upserted_db_def Let_def)

lemma upsert_plan_body_eval:
  assumes nf: "db_faults s = []"
    and ids: "TrimSpace (wpi_ProjectID input) = p" "TrimSpace (wpi_PlanKey input) = k"
  shows "\<exists>n. upsert_plan_body p k mode input s = (Inr n, upserted_db s p k mode input)"
proof -
  define looked where "looked = map_option (plan_of_row p k) (map_of (db_plans s) (p, k))"
  define cur where "cur = current_for_merge s p k mode input"
  define nxt where "nxt = BuildNextWorkPlanState cur (looked \<noteq> None) input mode"
  define ts where "ts = MergeIncomingWorkPlanTasks (wp_Tasks cur) (wpi_Tasks input) mode"
  define m1 where "m1 = (if (looked \<noteq> None) \<and> mode = WorkPlanModeMerge \<and> wpi_Tasks input \<noteq> []
        then bind_db (listWorkPlanTasks p k) (\<lambda>ts. ret_db
          ((case looked of None \<Rightarrow> WorkPlan_zero | Some p \<Rightarrow> p)\<lparr>wp_Tasks := ts\<rparr>))
        else ret_db (case looked of None \<Rightarrow> WorkPlan_zero | Some p \<Rightarrow> p))"
  have step1: "m1 s = (Inr cur, s)"
    using nf by (auto simp: m1_def looked_def cur_def current_for_merge_def bind_db_def ret_db_def
        listWorkPlanTasks_eval split: option.splits)
  define s1 where "s1 = s\<lparr>db_plans := AList.update (p, k) (next_plan_row s p k mode input) (db_plans s)\<rparr>"
  have trim: "TrimSpace p = p" "TrimSpace k = k" using ids TrimSpace_idem by metis+
  have step2: "upsertWorkPlanRow nxt s = (Inr (), s1)"
    using nf by (simp add: upsertWorkPlanRow_def db_op_defs s1_def next_plan_row_def nxt_def
        cur_def Let_def ids trim looked_def)
  define s1' where "s1' = s1\<lparr>db_tasks := kept_task_table s p k mode\<rparr>"
  define m3 where "m3 = (if mode = WorkPlanModeReplace then delete_plan_tasks p k else ret_db 0)"
  have step3: "\<exists>d. m3 s1 = (Inr d, s1')"
    using nf by (simp add: m3_def delete_plan_tasks_def db_op_defs s1'_def s1_def kept_task_table_def)
  have step4: "each_db (upsert_task_row p k) ts s1' =
      (Inr (length ts), db_with_tasks s p k mode input)"
    using nf each_upsert_task_eval[of s1' p k ts]
    by (simp add: s1'_def s1_def update_conv' db_with_tasks_def ts_def cur_def written_tasks_def)
  define m5 where "m5 = (if TrimSpace (wpi_Status input) = ''''
      then bind_db (listWorkPlanTasks p k) (\<lambda>tasks.
             update_plan_status p k (StorageWorkItemStatus (DerivePlanStatus tasks)))
      else ret_db ())"
  have step5: "m5 (db_with_tasks s p k mode input) = (Inr (), upserted_db s p k mode input)"
    using nf by (simp add: m5_def bind_db_def listWorkPlanTasks_eval update_plan_status_def ret_db_def
        modify_db_def db_call_def upserted_db_def Let_def)
  obtain d where d: "m3 s1 = (Inr d, s1')" using step3 by blast
  have look: "lookupWorkPlanRow p k s = (Inr looked, s)"
    using nf by (simp add: lookupWorkPlanRow_eval looked_def)
  have "upsert_plan_body p k mode input s =
      (Inr (d + length ts), upserted_db s p k mode input)"
    unfolding upsert_plan_body_def Let_def
      bind_db_ok[where m = "lookupWorkPlanRow p k" and s = s, OF look] m1_def[symmetric]
      bind_db_ok[where m = m1 and s = s, OF step1] nxt_def[symmetric]
      bind_db_ok[where m = "upsertWorkPlanRow nxt" and s = s, OF step2] m3_def[symmetric]
      bind_db_ok[where m = m3 and s = s1, OF d] ts_def[symmetric]
      bind_db_ok[where m = "each_db (upsert_task_row p k) ts" and s = s1', OF step4]
      m5_def[symmetric] bind_db_ok[where m = m5, OF step5]
    by (simp add: ret_db_def)
  then show ?thesis by blast
qed

section \<open>Every fault schedule\<close>

lemma tables_sel [simp]:
  "db_plans (tables s) = db_plans s" "db_tasks (tables s) = db_tasks s"
  "db_items (tables s) = db_items s" "db_receipts (tables s) = db_receipts s"
  "db_clock (tables s) = db_clock s"
  by (simp_all add: tables_def)

lemma view_tasks_tables [simp]: "view_tasks (tables s) p k = view_tasks s p k"
  by (simp add: view_tasks_def task_rows_of_def)

lemma plan_view_tables [simp]: "plan_view (tables s) p k = plan_view s p k"
  by (simp add: plan_view_def)

lemma plan_view_cong: "tables s = tables s' \<Longrightarrow> plan_view s p k = plan_view s' p k"
  by (metis plan_view_tables)

lemma det_list_tasks: "det (listWorkPlanTasks p k)"
  unfolding listWorkPlanTasks_def
  by (intro det_rules det_get) (simp add: task_rows_of_def)

lemma det_upsert_task_row: "det (upsert_task_row p k t)"
  unfolding upsert_task_row_def
  by (intro det_rules det_get det_modify; simp split: option.split;
      intro conjI allI impI det_rules det_modify; simp add: tables_def)

lemma det_delete: "det (delete_plan_tasks p k)"
  unfolding delete_plan_tasks_def
  by (intro det_rules det_get det_modify) (simp_all add: task_rows_of_def tables_def)

lemma det_upsert_plan_body: "det (upsert_plan_body p k mode input)"
proof -
  have "det (upsertWorkPlanRow plan)" for plan
    unfolding upsertWorkPlanRow_def by (intro det_rules det_modify) (simp add: tables_def)
  moreover have "det (lookupWorkPlanRow p k)"
    unfolding lookupWorkPlanRow_def by (intro det_rules det_get) simp
  moreover have "det (update_plan_status p k st)" for st
    unfolding update_plan_status_def by (intro det_rules det_modify) (simp add: tables_def)
  ultimately show ?thesis
    unfolding upsert_plan_body_def Let_def
    by (auto intro!: det_rules det_list_tasks det_delete det_upsert_task_row)
qed

lemma reads_LookupWorkPlan: "reads (LookupWorkPlan q)"
  unfolding LookupWorkPlan_def Let_def lookupWorkPlanRow_def listWorkPlanTasks_def
  by (auto intro!: reads_rules split: option.split list.split prod.split)

text \<open>Under any schedule \<open>UpsertWorkPlan\<close> has one of three outcomes: it fails and no table has
  changed; it commits and the read-back fails; it commits and returns the stored plan.\<close>

lemma UpsertWorkPlan_cases:
  assumes run: "UpsertWorkPlan input s = (r, s')"
  defines "p \<equiv> TrimSpace (wpi_ProjectID input)" and "k \<equiv> TrimSpace (wpi_PlanKey input)"
    and "mode \<equiv> NormalizeWorkPlanMode (wpi_Mode input)"
  obtains (error) e where "r = Inl e" "tables s' = tables s"
  | (readback) e where "r = Inl e" "p \<noteq> ''''" "k \<noteq> ''''"
      "tables s' = upserted_db (tables s) p k mode input"
  | (ok) res where "r = Inr res" "p \<noteq> ''''" "k \<noteq> ''''"
      "tables s' = upserted_db (tables s) p k mode input"
      "plan_view s' p k = Some (wpr_Plan res)"
proof (cases "p = '''' \<or> k = ''''")
  case True
  then have "(\<exists>e. r = Inl e) \<and> s' = s"
    using run by (auto simp: UpsertWorkPlan_def p_def k_def Let_def fail_db_def split: if_splits)
  then show ?thesis using error by blast
next
  case False
  let ?q = "\<lparr>wpq_ProjectID = p, wpq_PlanKey = k, wpq_ReceiptID = ''''\<rparr>"
  let ?rest = "\<lambda>n. bind_db (LookupWorkPlan ?q) (\<lambda>plan.
      ret_db \<lparr> wpr_Plan = plan, wpr_Updated = int n \<rparr>)"
  have run': "bind_db (in_tx (upsert_plan_body p k mode input)) ?rest s = (r, s')"
    using run False by (simp add: UpsertWorkPlan_def p_def k_def mode_def Let_def)
  obtain r1 s1 where tx: "in_tx (upsert_plan_body p k mode input) s = (r1, s1)" by fastforce
  from tx show ?thesis
  proof (cases rule: in_tx_cases)
    case (error e)
    then have "r = Inl e" "s' = s1" using run' tx by (auto simp: bind_db_def)
    then show ?thesis using that(1) error by blast
  next
    case (ok n sa sb)
    have "upsert_plan_body p k mode input (tables s) = (Inr n, tables sb)"
      using detD[OF det_upsert_plan_body ok(3)] ok(2) by simp
    moreover have "\<exists>n. upsert_plan_body p k mode input (tables s) =
        (Inr n, upserted_db (tables s) p k mode input)"
      by (rule upsert_plan_body_eval) (simp_all add: p_def k_def)
    ultimately have up: "tables s1 = upserted_db (tables s) p k mode input"
      using ok(4) by auto
    have rest: "?rest n s1 = (r, s')" using run' tx ok(1) by (simp add: bind_db_ok)
    have det_q: "det (LookupWorkPlan ?q)"
      unfolding LookupWorkPlan_def Let_def lookupWorkPlanRow_def using False
      by (auto intro!: det_rules det_get det_list_tasks split: option.split)
    obtain r2 s2 where q: "LookupWorkPlan ?q s1 = (r2, s2)" by fastforce
    have t2: "tables s2 = tables s1" by (rule readsD[OF reads_LookupWorkPlan q])
    show ?thesis
    proof (cases r2)
      case (Inl e)
      then have "r = Inl e" "s' = s2" using rest q by (auto simp: bind_db_def)
      then show ?thesis using that(2) False up t2 by simp
    next
      case (Inr plan)
      then have res: "r = Inr \<lparr> wpr_Plan = plan, wpr_Updated = int n \<rparr>" "s' = s2"
        using rest q by (auto simp: bind_db_def ret_db_def)
      have trim: "TrimSpace p = p" "TrimSpace k = k" by (simp_all add: p_def k_def)
      have "LookupWorkPlan ?q (tables s1) = (Inr plan, tables s2)"
        using detD[OF det_q] q Inr by blast
      then have "plan_view s1 p k = Some plan"
        using False trim by (simp add: LookupWorkPlan_eval split: option.splits)
      then have "plan_view s' p k = Some plan" using t2 res(2) plan_view_cong by metis
      then show ?thesis using that(3)[OF res(1)] False up t2 res(2) by simp
    qed
  qed
qed

section \<open>Preservation of well-formedness\<close>

lemma norm_list_nonNil [simp]: "norm_list (nonNilStringList l) = norm_list l"
  by (simp add: norm_list_def)

lemma stored_task_key [simp]: "wi_ItemKey (stored_task t) = wi_ItemKey t"
  by (simp add: stored_task_def)

lemma wf_stored_task: "wf_task t \<Longrightarrow> wf_task (stored_task t)"
  by (simp add: wf_task_def stored_task_def StorageWorkItemStatus_def)

lemma wf_task_row_for: "wf_task t \<Longrightarrow> wf_task_row (wi_ItemKey t) (task_row_for clock t)"
  by (simp add: wf_task_row_def task_row_for_def wf_stored_task)

lemma wf_next_plan_row:
  "key_ok p \<Longrightarrow> key_ok k \<Longrightarrow> wf_plan_row p k (next_plan_row s p k mode input)"
  by (simp add: wf_plan_row_def next_plan_row_def stored_plan_def wf_stages_def Let_def
      StorageWorkItemStatus_def)

lemma written_tasks_facts:
  "t \<in> set (written_tasks s p k mode input) \<Longrightarrow> wf_task t"
  "distinct (map wi_ItemKey (written_tasks s p k mode input))"
  "sorted (map wi_ItemKey (written_tasks s p k mode input))"
  "wi_ItemKey ` set (written_tasks s p k mode input) =
     (\<lambda>raw. TrimSpace (wi_ItemKey raw)) ` set (wpi_Tasks input) - {''''}"
  by (auto simp only: written_tasks_def MergeIncoming_keys intro: MergeIncoming_wf)

lemma kept_task_table_map:
  "map_of (kept_task_table s p k mode) (p', k', t) =
     (if mode = WorkPlanModeReplace \<and> p' = p \<and> k' = k then None
      else map_of (db_tasks s) (p', k', t))"
proof (cases "mode = WorkPlanModeReplace")
  case True
  have eq: "(\<lambda>((p', k', _), _). \<not> (p' = p \<and> k' = k)) =
      (\<lambda>(key, v :: task_row). (case key of (p', k', _) \<Rightarrow> \<not> (p' = p \<and> k' = k)))"
    by (auto simp: fun_eq_iff)
  have "map_of (kept_task_table s p k mode) =
      map_of (db_tasks s) |` {key. case key of (p', k', _) \<Rightarrow> \<not> (p' = p \<and> k' = k)}"
    unfolding kept_task_table_def eq map_of_filter_key[symmetric] using True by simp
  then show ?thesis using True by (simp add: restrict_map_def)
qed (simp add: kept_task_table_def)

lemma distinct_kept_task_table:
  "distinct (map fst (db_tasks s)) \<Longrightarrow> distinct (map fst (kept_task_table s p k mode))"
  by (simp add: kept_task_table_def distinct_filter_key)

lemma db_with_tasks_task:
  "map_of (db_tasks (db_with_tasks s p k mode input)) (p', k', t) =
     (if p' = p \<and> k' = k then
        (if t \<in> wi_ItemKey ` set (written_tasks s p k mode input)
         then map_of (db_tasks (db_with_tasks s p k mode input)) (p, k, t)
         else if mode = WorkPlanModeReplace then None else map_of (db_tasks s) (p, k, t))
      else map_of (db_tasks s) (p', k', t))"
  by (simp add: db_with_tasks_def map_of_put_tasks_other kept_task_table_map)

lemma db_with_tasks_written:
  "x \<in> set (written_tasks s p k mode input) \<Longrightarrow>
     map_of (db_tasks (db_with_tasks s p k mode input)) (p, k, wi_ItemKey x) =
       Some (task_row_for (db_clock s) x)"
  by (simp add: db_with_tasks_def map_of_put_tasks_mem written_tasks_facts(2))

lemma upserted_db_sel [simp]:
  "db_tasks (upserted_db s p k mode input) = db_tasks (db_with_tasks s p k mode input)"
  "db_items (upserted_db s p k mode input) = db_items s"
  "db_receipts (upserted_db s p k mode input) = db_receipts s"
  "db_clock (upserted_db s p k mode input) = db_clock s"
  by (simp_all add: upserted_db_def db_with_tasks_def Let_def)

definition final_plan_row ::
  "db \<Rightarrow> string \<Rightarrow> string \<Rightarrow> WorkPlanMode \<Rightarrow> WorkPlanUpsertInput \<Rightarrow> plan_row" where
  "final_plan_row s p k mode input =
     (let row = next_plan_row s p k mode input in
      if TrimSpace (wpi_Status input) = ''''
      then row\<lparr>pr_plan := (pr_plan row)\<lparr>wp_Status := StorageWorkItemStatus
              (DerivePlanStatus (view_tasks (db_with_tasks s p k mode input) p k))\<rparr>,
             pr_updated_at := db_clock s\<rparr>
      else row)"

lemma upserted_db_plan:
  "map_of (db_plans (upserted_db s p k mode input)) key =
     (if key = (p, k) then Some (final_plan_row s p k mode input) else map_of (db_plans s) key)"
  by (auto simp: upserted_db_def db_with_tasks_def final_plan_row_def Let_def update_conv'
      map_of_map_entry)

lemma wf_final_plan_row:
  assumes "key_ok p" "key_ok k"
  shows "wf_plan_row p k (final_plan_row s p k mode input)"
  using wf_next_plan_row[OF assms, of s mode input]
  by (simp add: wf_plan_row_def final_plan_row_def Let_def StorageWorkItemStatus_def)

lemma wf_upserted_db:
  assumes wf: "wf_db s" and ok: "key_ok p" "key_ok k"
  shows "wf_db (upserted_db s p k mode input)"
proof -
  let ?s = "upserted_db s p k mode input"
  have "distinct (map fst (db_plans ?s))" "distinct (map fst (db_tasks ?s))"
    using wf_dbD(1,2)[OF wf]
    by (auto simp: upserted_db_def db_with_tasks_def Let_def intro!: distinct_update
        distinct_map_entry distinct_put_tasks distinct_kept_task_table)
  moreover have "wf_plan_row p' k' row" if "map_of (db_plans ?s) (p', k') = Some row" for p' k' row
    using that wf_dbD(4)[OF wf] wf_final_plan_row[OF ok]
    by (auto simp: upserted_db_plan split: if_splits)
  moreover have "wf_task_row t row \<and> map_of (db_plans ?s) (p', k') \<noteq> None"
    if row: "map_of (db_tasks ?s) (p', k', t) = Some row" for p' k' t row
  proof (cases "p' = p \<and> k' = k \<and> t \<in> wi_ItemKey ` set (written_tasks s p k mode input)")
    case True
    then obtain x where "x \<in> set (written_tasks s p k mode input)" "t = wi_ItemKey x" by auto
    then show ?thesis
      using row True db_with_tasks_written[of x s p k mode input] wf_task_row_for[of x "db_clock s"]
        written_tasks_facts(1)[of x] by (auto simp: upserted_db_plan)
  next
    case False
    then have "map_of (db_tasks s) (p', k', t) = Some row"
      using row db_with_tasks_task[of s p k mode input p' k' t] by (auto split: if_splits)
    then show ?thesis
      using wf_dbD(5)[OF wf] wf_dbD(6)[OF wf] by (auto simp: upserted_db_plan)
  qed
  ultimately show ?thesis
    using wf unfolding wf_db_def by (simp del: not_None_eq)
qed

lemma wf_db_tables: "wf_db (tables s) = wf_db s"
  using fault_free_wf_db by (simp add: fault_free_def tables_def)

lemma UpsertWorkPlan_wf:
  assumes "wf_db s" "UpsertWorkPlan input s = (r, s')"
  shows "wf_db s'"
  using assms(2)
proof (cases rule: UpsertWorkPlan_cases)
  case (error e)
  then show ?thesis using assms(1) wf_db_tables by metis
next
  case (readback e)
  then show ?thesis using wf_upserted_db[of "tables s"] assms(1) wf_db_tables
    by (metis TrimSpace_idem key_ok_def)
next
  case (ok res)
  then show ?thesis using wf_upserted_db[of "tables s"] assms(1) wf_db_tables
    by (metis TrimSpace_idem key_ok_def)
qed

section \<open>Refinement: the upsert as a map update\<close>

text \<open>The content of a task, without the time of its last write and without the difference
  between nil and empty lists.\<close>

definition task_content ::
  "WorkItem \<Rightarrow> (string \<times> string \<times> string \<times> string) \<times> (string list \<times> string list \<times> string list \<times> string list)
     \<times> (string \<times> string \<times> string list)" where
  "task_content i =
     ((wi_ItemKey i, wi_Summary i, wi_Status i, wi_ParentTaskKey i),
      (elems (wi_DependsOn i), elems (wi_AcceptanceCriteria i), elems (wi_References i),
       elems (wi_ExternalRefs i)),
      (wi_BlockedReason i, wi_Outcome i, elems (wi_Evidence i)))"

definition content_map where
  "content_map s p k = (\<lambda>t. map_option task_content (task_map s p k t))"

definition contents_of where
  "contents_of tasks = map_of (map (\<lambda>i. (wi_ItemKey i, task_content i)) tasks)"

lemma NSL2_nonNil:
  "norm_list l \<Longrightarrow>
     elems (NormalizeStringList (decodeStringList (nonNilStringList l))) = elems l"
  by (simp add: decodeStringList_def norm_list_fixed)

text \<open>Reading a written task back gives its content: the round trip of a row.\<close>

lemma task_read_back:
  "wf_task x \<Longrightarrow> task_content (task_of_row (wi_ItemKey x, task_row_for clock x)) = task_content x"
  by (simp add: task_content_def task_of_row_def task_row_for_def stored_task_def Let_def
      wf_task_def NSL2_nonNil StorageWorkItemStatus_def NormalizeWorkItemStatus_fixed)

lemma written_tasks_view:
  assumes "wf_db s" "mode = WorkPlanModeReplace \<or> mode = WorkPlanModeMerge"
  shows "written_tasks s p k mode input =
    MergeIncomingWorkPlanTasks (view_tasks s p k) (wpi_Tasks input) mode"
proof (cases "mode = WorkPlanModeReplace \<or> wpi_Tasks input = []")
  case True
  then show ?thesis
    by (auto simp: written_tasks_def MergeIncomingWorkPlanTasks_def)
next
  case False
  show ?thesis
  proof (cases "map_of (db_plans s) (p, k)")
    case None
    then have "task_map s p k = Map.empty"
      using wf_dbD(6)[OF assms(1), of p k] by (fastforce simp: task_map_def)
    then have "view_tasks s p k = []" by (simp add: view_tasks_normal[OF assms(1)])
    then show ?thesis
      using None by (simp add: written_tasks_def current_for_merge_def)
  next
    case (Some row)
    then show ?thesis
      using False assms(2) by (simp add: written_tasks_def current_for_merge_def)
  qed
qed

lemma contents_of_mem:
  assumes "distinct (map wi_ItemKey ts)" "x \<in> set ts"
  shows "contents_of ts (wi_ItemKey x) = Some (task_content x)"
  unfolding contents_of_def using assms by (intro map_of_is_SomeI) (auto simp: comp_def)

lemma content_map_upserted:
  "content_map (upserted_db s p k mode input) p k =
     (if mode = WorkPlanModeReplace then Map.empty else content_map s p k) ++
     contents_of (written_tasks s p k mode input)"
proof
  fix t
  let ?w = "written_tasks s p k mode input"
  show "content_map (upserted_db s p k mode input) p k t =
      ((if mode = WorkPlanModeReplace then Map.empty else content_map s p k) ++ contents_of ?w) t"
  proof (cases "t \<in> wi_ItemKey ` set ?w")
    case True
    then obtain x where x: "x \<in> set ?w" "t = wi_ItemKey x" by auto
    then show ?thesis
      using db_with_tasks_written[OF x(1)] task_read_back[of x "db_clock s"]
        written_tasks_facts(1)[OF x(1)] contents_of_mem[OF written_tasks_facts(2) x(1)]
      by (simp add: content_map_def task_map_def)
  next
    case False
    then have "contents_of ?w t = None"
      by (auto simp: contents_of_def map_of_eq_None_iff image_image)
    then show ?thesis
      using False db_with_tasks_task[of s p k mode input p k t]
      by (auto simp: content_map_def task_map_def map_add_def)
  qed
qed

lemma plan_view_upserted_other:
  assumes "(p', k') \<noteq> (p, k)" "wf_db s" "key_ok p" "key_ok k"
  shows "plan_view (upserted_db s p k mode input) p' k' = plan_view s p' k'"
proof -
  have "task_map (upserted_db s p k mode input) p' k' = task_map s p' k'"
    using assms(1) db_with_tasks_task[of s p k mode input p' k']
    by (auto simp: task_map_def fun_eq_iff)
  then have "view_tasks (upserted_db s p k mode input) p' k' = view_tasks s p' k'"
    by (simp add: view_tasks_normal wf_upserted_db assms)
  then show ?thesis using assms(1) by (auto simp: plan_view_def upserted_db_plan)
qed

lemma view_tasks_upserted:
  "view_tasks (upserted_db s p k mode input) p k = view_tasks (db_with_tasks s p k mode input) p k"
  by (simp add: view_tasks_def task_rows_of_def)

lemma plan_status_upserted:
  assumes "plan_view (upserted_db s p k mode input) p k = Some plan"
  shows "wp_Status plan = (if TrimSpace (wpi_Status input) = '''' then DerivePlanStatus (wp_Tasks plan)
     else NormalizeWorkItemStatus (wpi_Status input))"
proof -
  let ?row = "final_plan_row s p k mode input"
  have plan: "plan = (plan_of_row p k ?row)\<lparr>wp_Tasks :=
      view_tasks (upserted_db s p k mode input) p k\<rparr>"
    using assms by (simp add: plan_view_def upserted_db_plan)
  show ?thesis
  proof (cases "TrimSpace (wpi_Status input) = ''''")
    case True
    then show ?thesis
      unfolding plan by (simp add: plan_of_row_def final_plan_row_def Let_def
          StorageWorkItemStatus_def view_tasks_upserted NormalizeWorkItemStatus_fixed DerivePlanStatus_in)
  next
    case False
    then show ?thesis
      unfolding plan by (simp add: plan_of_row_def final_plan_row_def next_plan_row_def
          stored_plan_def Let_def BuildNextWorkPlanState_def StorageWorkItemStatus_def)
  qed
qed

text \<open>The contract of a plan store as a client of \<open>core.WorkPlanRepository\<close> uses it.\<close>

locale plan_store =
  fixes upsert :: "'i \<Rightarrow> 's \<Rightarrow> ('e + 'r) \<times> 's"
    and view :: "'s \<Rightarrow> 'k \<Rightarrow> 'p option"
    and keyof :: "'i \<Rightarrow> 'k"
    and planof :: "'r \<Rightarrow> 'p"
    and inv :: "'s \<Rightarrow> bool"
  assumes upsert_inv: "inv s \<Longrightarrow> upsert i s = (r, s') \<Longrightarrow> inv s'"
    and upsert_view: "inv s \<Longrightarrow> upsert i s = (Inr res, s') \<Longrightarrow> view s' (keyof i) = Some (planof res)"
    and upsert_frame: "inv s \<Longrightarrow> upsert i s = (r, s') \<Longrightarrow> k \<noteq> keyof i \<Longrightarrow> view s' k = view s k"
begin

fun run :: "'i list \<Rightarrow> 's \<Rightarrow> 's" where
  "run [] s = s"
| "run (i # is) s = run is (snd (upsert i s))"

lemma run_inv: "inv s \<Longrightarrow> inv (run is s)"
  by (induction "is" arbitrary: s) (auto intro: upsert_inv prod.collapse[symmetric])

lemma run_frame: "inv s \<Longrightarrow> k \<notin> keyof ` set is \<Longrightarrow> view (run is s) k = view s k"
proof (induction "is" arbitrary: s)
  case (Cons i "is")
  have "inv (snd (upsert i s))" using Cons.prems upsert_inv by (metis prod.collapse)
  then show ?case using Cons upsert_frame[of s i] by (metis image_insert insertCI insertI1
        list.simps(15) prod.collapse run.simps(2))
qed simp

text \<open>What a successful upsert returned is what the store shows until the key is written again.\<close>

lemma view_until_next_write:
  assumes "inv s" "upsert i s = (Inr res, s')" "keyof i \<notin> keyof ` set is"
  shows "view (run is s') (keyof i) = Some (planof res)"
  using run_frame[of s' "keyof i" "is"] upsert_inv[OF assms(1,2)] upsert_view[OF assms(1,2)] assms(3)
  by simp

end

definition upsert_key :: "WorkPlanUpsertInput \<Rightarrow> string \<times> string" where
  "upsert_key input = (TrimSpace (wpi_ProjectID input), TrimSpace (wpi_PlanKey input))"

definition plan_view_at :: "db \<Rightarrow> string \<times> string \<Rightarrow> WorkPlan option" where
  "plan_view_at s key = plan_view s (fst key) (snd key)"

interpretation wps: plan_store UpsertWorkPlan plan_view_at upsert_key wpr_Plan wf_db
proof (unfold_locales, goal_cases)
  case (1 s i r s')
  then show ?case by (rule UpsertWorkPlan_wf)
next
  case (2 s i res s')
  from 2(2) show ?case
    by (cases rule: UpsertWorkPlan_cases) (auto simp: plan_view_at_def upsert_key_def)
next
  case (3 s i r s' key)
  have other: "plan_view (upserted_db (tables s) p k mode i) (fst key) (snd key) =
      plan_view s (fst key) (snd key)"
    if "upsert_key i = (p, k)" "p \<noteq> ''''" "k \<noteq> ''''" for p k mode
  proof -
    have "TrimSpace p = p" "TrimSpace k = k"
      using that(1) TrimSpace_idem by (auto simp: upsert_key_def)
    then show ?thesis
      using plan_view_upserted_other[of "fst key" "snd key" p k "tables s" mode i] that 3(1,3)
      by (simp add: wf_db_tables key_ok_def)
  qed
  from 3(2) show ?case
  proof (cases rule: UpsertWorkPlan_cases)
    case (error e)
    then show ?thesis
      using plan_view_cong[OF error(2)] by (simp only: plan_view_at_def)
  next
    case (readback e)
    have "plan_view s' (fst key) (snd key) = plan_view (tables s') (fst key) (snd key)" by simp
    then show ?thesis
      unfolding plan_view_at_def readback(4) using other[OF upsert_key_def readback(2,3)] by simp
  next
    case (ok res)
    have "plan_view s' (fst key) (snd key) = plan_view (tables s') (fst key) (snd key)" by simp
    then show ?thesis
      unfolding plan_view_at_def ok(4) using other[OF upsert_key_def ok(2,3)] by simp
  qed
qed

section \<open>Work items: evaluation and refinement\<close>

definition item_status :: "db \<Rightarrow> string \<Rightarrow> string \<Rightarrow> (string \<rightharpoonup> string)" where
  "item_status s p r = (\<lambda>k. map_option ir_status (map_of (db_items s) (p, r, k)))"

definition put_items where
  "put_items p r clock items al =
     foldl (\<lambda>al i. AList.update (p, r, wi_ItemKey i)
       \<lparr> ir_status = StorageWorkItemStatus (wi_Status i), ir_updated_at = clock \<rparr> al) al items"

lemma det_upsert_item_row: "det (upsert_item_row p r i)"
  unfolding upsert_item_row_def
  by (intro det_rules det_get det_modify; simp split: option.split;
      intro conjI allI impI det_rules det_modify; simp add: tables_def)

lemma each_upsert_item_eval:
  assumes "db_faults s = []" "map_of (db_receipts s) r \<noteq> None"
  shows "each_db (upsert_item_row p r) items s =
    (Inr (length items), s\<lparr>db_items := put_items p r (db_clock s) items (db_items s)\<rparr>)"
  using assms
proof (induction items arbitrary: s)
  case (Cons t ts)
  obtain row where row: "map_of (db_receipts s) r = Some row" using Cons.prems by auto
  let ?s1 = "s\<lparr>db_items := AList.update (p, r, wi_ItemKey t)
      \<lparr> ir_status = StorageWorkItemStatus (wi_Status t), ir_updated_at = db_clock s \<rparr> (db_items s)\<rparr>"
  have "upsert_item_row p r t s = (Inr 1, ?s1)"
    using Cons.prems(1) row by (simp add: upsert_item_row_def db_op_defs)
  then show ?case
    using Cons.IH[of ?s1] Cons.prems by (simp add: bind_db_def ret_db_def put_items_def)
qed (simp add: ret_db_def put_items_def)

lemma each_upsert_item_no_receipt:
  assumes "db_faults s = []" "map_of (db_receipts s) r = None" "items \<noteq> []"
  shows "\<exists>e s'. each_db (upsert_item_row p r) items s = (Inl e, s')"
  using assms by (cases items) (auto simp: upsert_item_row_def db_op_defs)

lemma put_items_map:
  "map_option ir_status (map_of (put_items p r clock items al) (p', r', k)) =
     (if p' = p \<and> r' = r \<and> k \<in> wi_ItemKey ` set items
      then map_of (map (\<lambda>i. (wi_ItemKey i, StorageWorkItemStatus (wi_Status i))) (rev items)) k
      else map_option ir_status (map_of al (p', r', k)))"
  by (induction items rule: rev_induct) (auto simp: put_items_def update_conv')

lemma distinct_put_items:
  "distinct (map fst al) \<Longrightarrow> distinct (map fst (put_items p r clock items al))"
  by (induction items rule: rev_induct) (auto simp: put_items_def intro: distinct_update)

lemma UpsertWorkItems_cases:
  assumes "UpsertWorkItems input s = (res, s')"
  defines "p \<equiv> TrimSpace (wui_ProjectID input)" and "r \<equiv> TrimSpace (wui_ReceiptID input)"
  obtains (error) e where "res = Inl e" "tables s' = tables s"
  | (ok) items where "NormalizeWorkItems (wui_Items input) = Inr items" "items \<noteq> []"
      "res = Inr (length items)" "p \<noteq> ''''" "r \<noteq> ''''" "map_of (db_receipts s) r \<noteq> None"
      "tables s' = (tables s)\<lparr>db_items := put_items p r (db_clock s) items (db_items s)\<rparr>"
proof (cases "\<exists>items. p \<noteq> '''' \<and> r \<noteq> '''' \<and> NormalizeWorkItems (wui_Items input) = Inr items \<and>
    items \<noteq> []")
  case False
  then have "(\<exists>e. res = Inl e) \<and> s' = s"
    using assms(1) by (auto simp: UpsertWorkItems_def p_def r_def Let_def fail_db_def
        split: if_splits sum.splits)
  then show ?thesis using error by blast
next
  case True
  then obtain items where items: "p \<noteq> ''''" "r \<noteq> ''''"
    "NormalizeWorkItems (wui_Items input) = Inr items" "items \<noteq> []" by blast
  then have "in_tx (each_db (upsert_item_row p r) items) s = (res, s')"
    using assms(1) by (simp add: UpsertWorkItems_def p_def[symmetric] r_def[symmetric] Let_def)
  then show ?thesis
  proof (cases rule: in_tx_cases)
    case (error e)
    then show ?thesis using that(1) by blast
  next
    case (ok n s1 s2)
    have run: "each_db (upsert_item_row p r) items (tables s) = (Inr n, tables s2)"
      using detD[OF det_each[OF det_upsert_item_row] ok(3)] ok(2) by simp
    show ?thesis
    proof (cases "map_of (db_receipts s) r")
      case None
      have "\<exists>e s'. each_db (upsert_item_row p r) items (tables s) = (Inl e, s')"
        by (rule each_upsert_item_no_receipt) (simp_all add: None items(4))
      then show ?thesis using run by simp
    next
      case (Some row)
      have "each_db (upsert_item_row p r) items (tables s) = (Inr (length items),
          (tables s)\<lparr>db_items := put_items p r (db_clock (tables s)) items (db_items (tables s))\<rparr>)"
        by (rule each_upsert_item_eval) (simp_all add: Some)
      then have "n = length items" "tables s2 =
          (tables s)\<lparr>db_items := put_items p r (db_clock s) items (db_items s)\<rparr>"
        using run by simp_all
      then show ?thesis using ok(1,4) items Some that(2)[OF items(3,4)] by simp
    qed
  qed
qed

end
