(* ===== verification/Sqlite_Receipts.thy ===== *)
theory Sqlite_Receipts
  imports Sqlite_Plans
begin

text \<open>
  Receipts, runs, review attempts and verification batches in
  \<open>internal/adapters/sqlite/repository.go\<close>. \<open>time.Now()\<close> and the random receipt id of
  \<open>newReceiptID\<close> are arguments.
\<close>

section \<open>Receipt scopes\<close>

definition scope_row :: "receipt_row option \<Rightarrow> int \<Rightarrow> NormalizedReceiptScope \<Rightarrow> receipt_row" where
  "scope_row old now n =
     \<lparr> rr_project_id = nsc_ProjectID n, rr_task_text = nsc_TaskText n, rr_phase = nsc_Phase n,
       rr_resolved_tags = nsc_ResolvedTags n, rr_pointer_keys = nsc_PointerKeys n,
       rr_initial_scope_paths = nsc_InitialScopePaths n,
       rr_baseline_captured = nsc_BaselineCaptured n, rr_baseline_paths = nsc_BaselinePaths n,
       rr_actor = nsc_Actor n,
       rr_created_at = (case old of None \<Rightarrow> now | Some row \<Rightarrow> rr_created_at row) \<rparr>"

definition UpsertReceiptScope :: "ReceiptScope \<Rightarrow> unit db_op" where
  "UpsertReceiptScope input =
     (case NormalizeReceiptScope input of
        Inl e \<Rightarrow> fail_db e
      | Inr n \<Rightarrow>
          bind_db (db_call ''upsert receipt scope'') (\<lambda>_.
            modify_db (\<lambda>s. s\<lparr>db_receipts :=
              AList.update (nsc_ReceiptID n)
                (scope_row (map_of (db_receipts s) (nsc_ReceiptID n)) (db_clock s) n)
                (db_receipts s)\<rparr>)))"

definition scope_of_row :: "string \<Rightarrow> string \<Rightarrow> receipt_row \<Rightarrow> ReceiptScope" where
  "scope_of_row projectID receiptID row =
     \<lparr> rs_ProjectID = projectID, rs_ReceiptID = receiptID,
       rs_TaskText = TrimSpace (rr_task_text row), rs_Phase = TrimSpace (rr_phase row),
       rs_ResolvedTags = decodeStringList (rr_resolved_tags row),
       rs_PointerKeys = decodeStringList (rr_pointer_keys row),
       rs_InitialScopePaths = decodeStringList (rr_initial_scope_paths row),
       rs_BaselineCaptured = rr_baseline_captured row,
       rs_BaselinePaths = decodeSyncPathList (rr_baseline_paths row),
       rs_Actor = rr_actor row \<rparr>"

definition FetchReceiptScope :: "ReceiptScopeQuery \<Rightarrow> ReceiptScope db_op" where
  "FetchReceiptScope input =
     (let projectID = TrimSpace (rsq_ProjectID input) in
      if projectID = '''' then fail_db (GoErr ''project_id is required'')
      else let receiptID = TrimSpace (rsq_ReceiptID input) in
      if receiptID = '''' then fail_db (GoErr ''receipt_id is required'')
      else bind_db (db_call ''query receipt scope'') (\<lambda>_.
        bind_db (get_db (\<lambda>s. map_of (db_receipts s) receiptID)) (\<lambda>r.
          case r of
            None \<Rightarrow> fail_db ErrReceiptScopeNotFound
          | Some row \<Rightarrow>
              (if rr_project_id row = projectID
               then ret_db (scope_of_row projectID receiptID row)
               else fail_db ErrReceiptScopeNotFound))))"

section \<open>Runs\<close>

text \<open>The receipt row that a run writes: the scope columns of an existing row are kept, a new
  row has the column defaults.\<close>

definition run_receipt_row :: "receipt_row option \<Rightarrow> int \<Rightarrow> NormalizedRunSummary \<Rightarrow> receipt_row" where
  "run_receipt_row old now n =
     (let base = (case old of
          Some row \<Rightarrow> row
        | None \<Rightarrow> \<lparr> rr_project_id = '''', rr_task_text = '''', rr_phase = '''',
                    rr_resolved_tags = Some [], rr_pointer_keys = Some [],
                    rr_initial_scope_paths = Some [], rr_baseline_captured = False,
                    rr_baseline_paths = [], rr_actor = Actor_zero, rr_created_at = now \<rparr>)
      in base\<lparr>rr_project_id := nrs_ProjectID n, rr_task_text := nrs_TaskText n,
              rr_phase := nrs_Phase n,
              rr_resolved_tags := nonNilStringList (nrs_ResolvedTags n),
              rr_pointer_keys := nonNilStringList (nrs_PointerKeys n)\<rparr>)"

definition save_run_body :: "NormalizedRunSummary \<Rightarrow> int db_op" where
  "save_run_body n =
     bind_db (db_call ''upsert receipt summary'') (\<lambda>_.
     bind_db (modify_db (\<lambda>s. s\<lparr>db_receipts :=
       AList.update (nrs_ReceiptID n)
         (run_receipt_row (map_of (db_receipts s) (nrs_ReceiptID n)) (db_clock s) n)
         (db_receipts s)\<rparr>)) (\<lambda>_.
     bind_db (db_call ''insert run summary'') (\<lambda>_.
     bind_db (get_db db_next_run) (\<lambda>runID.
     bind_db (modify_db (\<lambda>s. s\<lparr>db_next_run := runID + 1,
       db_runs := db_runs s @
         [\<lparr> nr_run_id = runID, nr_project_id = nrs_ProjectID n, nr_request_id = nrs_RequestID n,
            nr_receipt_id = nrs_ReceiptID n, nr_status = nrs_Status n,
            nr_files_changed = nonNilStringList (nrs_FilesChanged n),
            nr_dod_issues = nrs_DefinitionOfDoneIssues n, nr_outcome = nrs_Outcome n,
            nr_actor = nrs_Actor n, nr_vcs = nrs_VCS n,
            nr_created_at = db_clock s \<rparr>]\<rparr>)) (\<lambda>_.
     ret_db runID)))))"

definition SaveRunReceiptSummary :: "string \<Rightarrow> RunReceiptSummary \<Rightarrow> RunReceiptIDs db_op" where
  "SaveRunReceiptSummary freshID input =
     (case NormalizeRunReceiptSummary input of
        Inl e \<Rightarrow> fail_db e
      | Inr n0 \<Rightarrow>
          (let n = (if nrs_ReceiptID n0 = '''' then n0\<lparr>nrs_ReceiptID := freshID\<rparr> else n0) in
           bind_db (in_tx (save_run_body n)) (\<lambda>runID.
             ret_db \<lparr> rri_RunID = runID, rri_ReceiptID = nrs_ReceiptID n \<rparr>)))"

definition latest_run :: "string \<Rightarrow> string \<Rightarrow> db \<Rightarrow> run_row option" where
  "latest_run projectID receiptID s =
     (case sort_key (\<lambda>r. (- nr_created_at r, - nr_run_id r))
             (filter (\<lambda>r. nr_project_id r = projectID \<and> nr_receipt_id r = receiptID) (db_runs s)) of
        [] \<Rightarrow> None | r # _ \<Rightarrow> Some r)"

definition LookupFetchState :: "FetchLookupQuery \<Rightarrow> FetchLookup db_op" where
  "LookupFetchState input =
     (let projectID = TrimSpace (flq_ProjectID input) in
      if projectID = '''' then fail_db (GoErr ''project_id is required'')
      else let receiptID = TrimSpace (flq_ReceiptID input) in
      if receiptID = '''' then fail_db (GoErr ''receipt_id is required'')
      else bind_db (db_call ''query fetch lookup'') (\<lambda>_.
        bind_db (get_db (\<lambda>s. (map_of (db_receipts s) receiptID, latest_run projectID receiptID s)))
        (\<lambda>(r, run).
          case r of
            None \<Rightarrow> fail_db ErrFetchLookupNotFound
          | Some row \<Rightarrow>
              (if rr_project_id row \<noteq> projectID then fail_db ErrFetchLookupNotFound
               else bind_db (ListWorkItems \<lparr> flq_ProjectID = projectID, flq_ReceiptID = receiptID \<rparr>)
                 (\<lambda>workItems. ret_db
                   \<lparr> fl_ProjectID = projectID, fl_ReceiptID = receiptID,
                     fl_RunID = (case run of None \<Rightarrow> 0 | Some r \<Rightarrow> nr_run_id r),
                     fl_RunStatus = (case run of None \<Rightarrow> '''' | Some r \<Rightarrow> TrimSpace (nr_status r)),
                     fl_PlanStatus = DerivePlanStatus workItems,
                     fl_WorkItems = workItems,
                     fl_UpdatedAt = unixTime (case run of None \<Rightarrow> rr_created_at row
                                              | Some r \<Rightarrow> nr_created_at r) \<rparr>)))))"

section \<open>Review attempts\<close>

definition SaveReviewAttempt :: "int \<Rightarrow> ReviewAttempt \<Rightarrow> int db_op" where
  "SaveReviewAttempt now input =
     (case NormalizeReviewAttempt now input of
        Inl e \<Rightarrow> fail_db e
      | Inr n \<Rightarrow>
          bind_db (db_call ''insert review attempt'') (\<lambda>_.
          bind_db (get_db (\<lambda>s. (map_of (db_receipts s) (nra_ReceiptID n), db_next_attempt s)))
          (\<lambda>(r, attemptID).
            case r of
              None \<Rightarrow> fail_db (ErrDB ''insert review attempt: FOREIGN KEY constraint failed'')
            | Some _ \<Rightarrow>
                bind_db (modify_db (\<lambda>s. s\<lparr>db_next_attempt := attemptID + 1,
                  db_attempts := db_attempts s @
                    [\<lparr> ar_attempt_id = attemptID, ar_attempt = n,
                       ar_created_sec = unixSeconds (nra_CreatedAt n) \<rparr>]\<rparr>))
                (\<lambda>_. ret_db attemptID))))"

text \<open>\<open>time.Unix(createdAt, 0)\<close>\<close>

definition time_of_unix :: "int \<Rightarrow> int" where
  "time_of_unix sec = (62135596800 + sec) * 1000000000"

definition attempt_of_row :: "attempt_row \<Rightarrow> ReviewAttempt" where
  "attempt_of_row row =
     (let n = ar_attempt row in
      \<lparr> ra_AttemptID = ar_attempt_id row, ra_ProjectID = TrimSpace (nra_ProjectID n),
        ra_ReceiptID = TrimSpace (nra_ReceiptID n), ra_PlanKey = TrimSpace (nra_PlanKey n),
        ra_ReviewKey = TrimSpace (nra_ReviewKey n), ra_Summary = TrimSpace (nra_Summary n),
        ra_Fingerprint = TrimSpace (nra_Fingerprint n), ra_Status = TrimSpace (nra_Status n),
        ra_Passed = nra_Passed n, ra_Outcome = TrimSpace (nra_Outcome n),
        ra_WorkflowSourcePath = TrimSpace (nra_WorkflowSourcePath n),
        ra_CommandArgv = NormalizeStringListPreserveOrder
          (decodeStringListPreserveOrder (nonNilStringList (nra_CommandArgv n))),
        ra_CommandCWD = TrimSpace (nra_CommandCWD n), ra_TimeoutSec = nra_TimeoutSec n,
        ra_ExitCode = nra_ExitCode n, ra_TimedOut = nra_TimedOut n,
        ra_StdoutExcerpt = TrimSpace (nra_StdoutExcerpt n),
        ra_StderrExcerpt = TrimSpace (nra_StderrExcerpt n),
        ra_CreatedAt = time_of_unix (ar_created_sec row), ra_Actor = nra_Actor n \<rparr>)"

definition attempt_rows_of :: "string \<Rightarrow> string \<Rightarrow> string \<Rightarrow> db \<Rightarrow> attempt_row list" where
  "attempt_rows_of projectID receiptID reviewKey s =
     sort_key (\<lambda>r. (ar_created_sec r, ar_attempt_id r))
       (filter (\<lambda>r. nra_ProjectID (ar_attempt r) = projectID \<and>
           nra_ReceiptID (ar_attempt r) = receiptID \<and> nra_ReviewKey (ar_attempt r) = reviewKey)
         (db_attempts s))"

definition ListReviewAttempts :: "ReviewAttemptListQuery \<Rightarrow> ReviewAttempt list db_op" where
  "ListReviewAttempts input =
     (if TrimSpace (ralq_ProjectID input) = '''' then fail_db (GoErr ''project_id is required'')
      else if TrimSpace (ralq_ReceiptID input) = '''' then fail_db (GoErr ''receipt_id is required'')
      else if TrimSpace (ralq_ReviewKey input) = '''' then fail_db (GoErr ''review_key is required'')
      else bind_db (db_call ''query review attempts'') (\<lambda>_.
        get_db (\<lambda>s. map attempt_of_row
          (attempt_rows_of (TrimSpace (ralq_ProjectID input)) (TrimSpace (ralq_ReceiptID input))
             (TrimSpace (ralq_ReviewKey input)) s))))"

section \<open>Verification batches\<close>

text \<open>\<open>batch_run_id\<close> is the primary key of the batch table; the result rows are stored with
  their batch.\<close>

definition insert_results :: "VerificationTestRun list \<Rightarrow> nat db_op" where
  "insert_results results =
     each_db (\<lambda>r. bind_db (db_call (''insert verification result '' @ vtr_TestID r)) (\<lambda>_. ret_db 1))
       results"

definition save_batch_body :: "NormalizedVerificationBatch \<Rightarrow> unit db_op" where
  "save_batch_body n =
     bind_db (db_call ''insert verification batch'') (\<lambda>_.
     bind_db (get_db (\<lambda>s. map_of (db_batches s) (nvb_BatchRunID n))) (\<lambda>old.
       case old of
         Some _ \<Rightarrow> fail_db (ErrDB ''insert verification batch: UNIQUE constraint failed'')
       | None \<Rightarrow>
           bind_db (insert_results (nvb_Results n)) (\<lambda>_.
             modify_db (\<lambda>s. s\<lparr>db_batches := (nvb_BatchRunID n, \<lparr> br_batch = n \<rparr>) # db_batches s\<rparr>))))"

definition SaveVerificationBatch :: "(nat \<Rightarrow> int) \<Rightarrow> VerificationBatch \<Rightarrow> unit db_op" where
  "SaveVerificationBatch clock input =
     (case NormalizeVerificationBatch clock input of
        Inl e \<Rightarrow> fail_db e
      | Inr n \<Rightarrow> in_tx (save_batch_body n))"

section \<open>Facts\<close>

lemma tables_sel2 [simp]:
  "db_runs (tables s) = db_runs s" "db_attempts (tables s) = db_attempts s"
  "db_batches (tables s) = db_batches s" "db_next_run (tables s) = db_next_run s"
  "db_next_attempt (tables s) = db_next_attempt s"
  by (simp_all add: tables_def)

lemma NormalizeReceiptScope_Inr:
  "NormalizeReceiptScope input = Inr n \<Longrightarrow>
     nsc_ProjectID n = TrimSpace (rs_ProjectID input) \<and> nsc_ProjectID n \<noteq> '''' \<and>
     nsc_ReceiptID n = TrimSpace (rs_ReceiptID input) \<and> nsc_ReceiptID n \<noteq> ''''"
  by (auto simp: NormalizeReceiptScope_def Let_def split: if_splits)

lemma NormalizeSyncPathList_trims [simp]:
  "e \<in> set (NormalizeSyncPathList ps) \<Longrightarrow> sp_Deleted e \<Longrightarrow> sp_ContentHash e = ''''"
proof -
  assume e: "e \<in> set (NormalizeSyncPathList ps)" "sp_Deleted e"
  then obtain xs where "foldl (\<lambda>cur x. Some (sync_path_upd cur x)) None xs = Some e"
    by (auto simp: NormalizeSyncPathList_emitted nspl.emitted_mem)
  then show "sp_ContentHash e = ''''"
    using e(2) by (cases xs rule: rev_cases) (auto simp: sync_path_upd_def)
qed

lemma UpsertReceiptScope_eval:
  assumes "db_faults s = []" "NormalizeReceiptScope input = Inr n"
  shows "UpsertReceiptScope input s = (Inr (), s\<lparr>db_receipts :=
     AList.update (nsc_ReceiptID n) (scope_row (map_of (db_receipts s) (nsc_ReceiptID n)) (db_clock s) n)
       (db_receipts s)\<rparr>)"
  using assms by (simp add: UpsertReceiptScope_def db_op_defs)

text \<open>What is fetched after a scope was stored: the normalized input, with the lists normalized
  once more.\<close>

lemma fetch_after_upsert:
  assumes "db_faults s = []" "NormalizeReceiptScope input = Inr n"
    "UpsertReceiptScope input s = (Inr (), s')"
    "TrimSpace (rsq_ProjectID q) = nsc_ProjectID n" "TrimSpace (rsq_ReceiptID q) = nsc_ReceiptID n"
  shows "FetchReceiptScope q s' =
    (Inr (scope_of_row (nsc_ProjectID n) (nsc_ReceiptID n)
       (scope_row (map_of (db_receipts s) (nsc_ReceiptID n)) (db_clock s) n)), s')"
proof -
  have s': "s' = s\<lparr>db_receipts := AList.update (nsc_ReceiptID n)
      (scope_row (map_of (db_receipts s) (nsc_ReceiptID n)) (db_clock s) n) (db_receipts s)\<rparr>"
    using assms UpsertReceiptScope_eval[OF assms(1,2)] by simp
  have "nsc_ProjectID n \<noteq> ''''" "nsc_ReceiptID n \<noteq> ''''"
    using NormalizeReceiptScope_Inr[OF assms(2)] by blast+
  then show ?thesis
    using assms(1,4,5)
    by (simp add: FetchReceiptScope_def Let_def db_op_defs s' update_conv' scope_row_def)
qed

text \<open>Review attempts: the list after a save has the new attempt, and only its key changes.\<close>

lemma NormalizeReviewAttempt_Inr:
  "NormalizeReviewAttempt now input = Inr n \<Longrightarrow>
     nra_ProjectID n = TrimSpace (ra_ProjectID input) \<and> nra_ProjectID n \<noteq> '''' \<and>
     nra_ReceiptID n = TrimSpace (ra_ReceiptID input) \<and> nra_ReceiptID n \<noteq> '''' \<and>
     nra_ReviewKey n = TrimSpace (ra_ReviewKey input) \<and> nra_ReviewKey n \<noteq> '''' \<and>
     nra_Fingerprint n = TrimSpace (ra_Fingerprint input) \<and> nra_Fingerprint n \<noteq> '''' \<and>
     nra_Status n = TrimSpace (ra_Status input) \<and> nra_Status n \<in> {''passed'', ''failed''} \<and>
     nra_TimeoutSec n = ra_TimeoutSec input \<and> nra_TimeoutSec n > 0 \<and>
     nra_ExitCode n = ra_ExitCode input \<and>
     (\<forall>c. nra_ExitCode n = Some c \<longrightarrow> 0 \<le> c \<and> c \<le> 255) \<and> nra_Passed n = ra_Passed input"
  by (auto simp: NormalizeReviewAttempt_def Let_def split: if_splits option.splits)

lemma SaveReviewAttempt_cases:
  assumes "SaveReviewAttempt now input s = (r, s')"
  obtains (error) e where "r = Inl e" "tables s' = tables s"
  | (ok) n where "NormalizeReviewAttempt now input = Inr n" "r = Inr (db_next_attempt s)"
      "map_of (db_receipts s) (nra_ReceiptID n) \<noteq> None"
      "tables s' = (tables s)\<lparr>db_next_attempt := db_next_attempt s + 1,
         db_attempts := db_attempts s @ [\<lparr> ar_attempt_id = db_next_attempt s, ar_attempt = n,
           ar_created_sec = unixSeconds (nra_CreatedAt n) \<rparr>]\<rparr>"
proof (cases "NormalizeReviewAttempt now input")
  case (Inl e)
  then have "r = Inl e" "s' = s" using assms by (auto simp: SaveReviewAttempt_def fail_db_def)
  then show ?thesis using error by blast
next
  case (Inr n)
  obtain c s1 where c: "db_call ''insert review attempt'' s = (c, s1)" by fastforce
  then have t1: "tables s1 = tables s" using db_call_tables by (metis snd_conv)
  then have sel: "db_receipts s1 = db_receipts s" "db_next_attempt s1 = db_next_attempt s"
    "db_attempts s1 = db_attempts s"
    using tables_sel tables_sel2 by metis+
  show ?thesis
  proof (cases c)
    case (Inl e)
    then have "r = Inl e" "s' = s1" using assms Inr c by (auto simp: SaveReviewAttempt_def bind_db_def)
    then show ?thesis using error t1 by blast
  next
    case c': (Inr u)
    show ?thesis
    proof (cases "map_of (db_receipts s) (nra_ReceiptID n)")
      case None
      then have "\<exists>e. r = Inl e" "s' = s1"
        using assms Inr c c' sel by (auto simp: SaveReviewAttempt_def bind_db_def get_db_def fail_db_def)
      then show ?thesis using error t1 by blast
    next
      case (Some row)
      then have r: "r = Inr (db_next_attempt s)" and
        s': "s' = s1\<lparr>db_next_attempt := db_next_attempt s + 1,
         db_attempts := db_attempts s @ [\<lparr> ar_attempt_id = db_next_attempt s, ar_attempt = n,
           ar_created_sec = unixSeconds (nra_CreatedAt n) \<rparr>]\<rparr>"
        using assms Inr c c' sel
        by (auto simp: SaveReviewAttempt_def bind_db_def get_db_def modify_db_def ret_db_def)
      have "tables s' = (tables s1)\<lparr>db_next_attempt := db_next_attempt s + 1,
         db_attempts := db_attempts s @ [\<lparr> ar_attempt_id = db_next_attempt s, ar_attempt = n,
           ar_created_sec = unixSeconds (nra_CreatedAt n) \<rparr>]\<rparr>"
        unfolding s' by (simp add: tables_def)
      then show ?thesis using ok[OF Inr r] Some t1 by simp
    qed
  qed
qed

end
