(* ===== verification/Backend_Common.thy ===== *)
theory Backend_Common
  imports Contract_Types Sqlite_Receipts
begin

text \<open>
  What the operations of \<open>internal/service/backend\<close> share: errors with their details
  (\<open>core/errors.go\<close>, \<open>errors.go\<close>), the path and value normalizers of \<open>service.go\<close>, the fetch keys
  of \<open>fetch.go\<close>, statuses and work items of \<open>work.go\<close>, and the environment record that stands
  for what is outside the program (files decoded by the YAML library, the working tree, the
  process runner, SHA-256).
\<close>

section \<open>API errors\<close>

datatype detail = DStr string | DInt int | DList "string list" | DBool bool

record APIError =
  ae_Code :: string
  ae_Message :: string
  ae_Source :: string
  ae_Details :: "(string \<times> detail) list"

definition NewErrorWithSource ::
  "string \<Rightarrow> string \<Rightarrow> string \<Rightarrow> (string \<times> detail) list \<Rightarrow> APIError" where
  "NewErrorWithSource code message source details =
     \<lparr> ae_Code = code, ae_Message = message, ae_Source = source, ae_Details = details \<rparr>"

definition backendError :: "string \<Rightarrow> string \<Rightarrow> (string \<times> detail) list \<Rightarrow> APIError" where
  "backendError code message details = NewErrorWithSource code message ErrSourceBackend details"

fun go_error_text :: "go_error \<Rightarrow> string" where
  "go_error_text (GoErr m) = m"
| "go_error_text ErrReceiptScopeNotFound = ''receipt scope not found''"
| "go_error_text ErrFetchLookupNotFound = ''fetch lookup not found''"
| "go_error_text ErrPointerLookupNotFound = ''pointer lookup not found''"
| "go_error_text ErrWorkPlanNotFound = ''work plan not found''"
| "go_error_text (ErrDB m) = m"

definition workInternalError :: "string \<Rightarrow> go_error \<Rightarrow> APIError" where
  "workInternalError operation err =
     backendError ErrCodeInternalError ''failed to persist work state''
       [(''operation'', DStr operation), (''error'', DStr (go_error_text err))]"

definition internalError :: "string \<Rightarrow> go_error \<Rightarrow> APIError" where
  "internalError operation err =
     backendError ErrCodeInternalError ''failed to resolve context''
       [(''operation'', DStr operation), (''error'', DStr (go_error_text err))]"

definition reportCompletionInternalError :: "string \<Rightarrow> go_error \<Rightarrow> APIError" where
  "reportCompletionInternalError operation err =
     backendError ErrCodeInternalError ''failed to finish task closeout''
       [(''operation'', DStr operation), (''error'', DStr (go_error_text err))]"

section \<open>Operations of the service\<close>

text \<open>A service operation runs on the repository and ends in an API error or a result.\<close>

type_synonym 'a svc = "db \<Rightarrow> (APIError + 'a) \<times> db"

definition ret_svc :: "'a \<Rightarrow> 'a svc" where
  "ret_svc x s = (Inr x, s)"

definition fail_svc :: "APIError \<Rightarrow> 'a svc" where
  "fail_svc e s = (Inl e, s)"

definition bind_svc :: "'a svc \<Rightarrow> ('a \<Rightarrow> 'b svc) \<Rightarrow> 'b svc" where
  "bind_svc m f s = (case m s of (Inl e, s') \<Rightarrow> (Inl e, s') | (Inr x, s') \<Rightarrow> f x s')"

text \<open>\<open>call_repo m h f\<close>: call the repository, map its error with \<open>h\<close> or go on with \<open>f\<close>.\<close>

definition call_repo :: "'a db_op \<Rightarrow> (go_error \<Rightarrow> APIError) \<Rightarrow> ('a \<Rightarrow> 'b svc) \<Rightarrow> 'b svc" where
  "call_repo m h f s = (case m s of (Inl e, s') \<Rightarrow> (Inl (h e), s') | (Inr x, s') \<Rightarrow> f x s')"

text \<open>The calls whose error the code inspects.\<close>

definition try_repo :: "'a db_op \<Rightarrow> (go_error + 'a \<Rightarrow> 'b svc) \<Rightarrow> 'b svc" where
  "try_repo m f s = (case m s of (r, s') \<Rightarrow> f r s')"

lemmas svc_defs = ret_svc_def fail_svc_def bind_svc_def call_repo_def try_repo_def

lemma bind_svc_ok: "m s = (Inr x, s') \<Longrightarrow> bind_svc m f s = f x s'"
  by (simp add: bind_svc_def)

lemma bind_svc_err: "m s = (Inl e, s') \<Longrightarrow> bind_svc m f s = (Inl e, s')"
  by (simp add: bind_svc_def)

lemma call_repo_ok: "m s = (Inr x, s') \<Longrightarrow> call_repo m h f s = f x s'"
  by (simp add: call_repo_def)

lemma call_repo_err: "m s = (Inl e, s') \<Longrightarrow> call_repo m h f s = (Inl (h e), s')"
  by (simp add: call_repo_def)

section \<open>Paths and values\<close>

definition isWindowsAbsolutePath :: "string \<Rightarrow> bool" where
  "isWindowsAbsolutePath v =
     (case v of
        a # b # c # _ \<Rightarrow> (is_upper a \<or> is_lower a) \<and> b = CHR '':'' \<and> c = CHR ''/''
      | _ \<Rightarrow> False)"

definition normalizeCompletionPath :: "string \<Rightarrow> string" where
  "normalizeCompletionPath raw =
     (let trimmed = TrimSpace raw in
      if trimmed = '''' then ''''
      else let normalizedSlashes = ReplaceByte (CHR 0x5C) (CHR ''/'') trimmed in
        if HasPrefix normalizedSlashes ''/'' \<or> isWindowsAbsolutePath normalizedSlashes then ''''
        else let cleaned = path_Clean normalizedSlashes in
          if cleaned = ''.'' \<or> cleaned = ''..'' \<or> HasPrefix cleaned ''../'' then '''' else cleaned)"

definition normalizeCompletionPaths :: "string slice \<Rightarrow> string slice" where
  "normalizeCompletionPaths paths =
     (if elems paths = [] then None
      else Some (sort (norm_unique normalizeCompletionPath [] (elems paths))))"

definition normalizeValues :: "string slice \<Rightarrow> string slice" where
  "normalizeValues vals =
     (let out = norm_unique TrimSpace [] (elems vals) in
      if out = [] then None else Some (sort out))"

section \<open>Fetch keys\<close>

definition is_request_char :: "char \<Rightarrow> bool" where
  "is_request_char c \<longleftrightarrow> is_alnum c \<or> c = CHR ''.'' \<or> c = CHR ''_'' \<or> c = CHR '':'' \<or> c = CHR ''-''"

definition requestIDPattern :: "string \<Rightarrow> bool" where
  "requestIDPattern s = match_class is_request_char 8 128 s"

definition parse_prefixed_id :: "string \<Rightarrow> string \<Rightarrow> string option" where
  "parse_prefixed_id pre raw =
     (let key = TrimSpace raw in
      if \<not> HasPrefix key pre then None
      else let receiptID = TrimSpace (drop (length pre) key) in
        if requestIDPattern receiptID then Some receiptID else None)"

definition parsePlanFetchKey :: "string \<Rightarrow> string option" where
  "parsePlanFetchKey raw = parse_prefixed_id ''plan:'' raw"

definition parseReceiptFetchKey :: "string \<Rightarrow> string option" where
  "parseReceiptFetchKey raw = parse_prefixed_id ''receipt:'' raw"

definition receiptFetchKey :: "string \<Rightarrow> string" where
  "receiptFetchKey receiptID =
     (let r = TrimSpace receiptID in
      if r = '''' then ''''
      else if length (''receipt:'' @ r) > 512 then '''' else ''receipt:'' @ r)"

record taskFetchRef =
  tf_PlanKey :: string
  tf_ReceiptID :: string
  tf_TaskKey :: string

definition parseTaskFetchKey :: "string \<Rightarrow> taskFetchRef option" where
  "parseTaskFetchKey raw =
     (let key = TrimSpace raw in
      if \<not> HasPrefix key ''task:'' then None
      else let remainder = TrimSpace (drop 5 key) in
        case index_of (CHR ''#'') remainder of
          None \<Rightarrow> None
        | Some separator \<Rightarrow>
            (if separator = 0 \<or> separator + 1 \<ge> length remainder then None
             else let planKey = TrimSpace (take separator remainder) in
               case parsePlanFetchKey planKey of
                 None \<Rightarrow> None
               | Some receiptID \<Rightarrow>
                   (let taskKey = TrimSpace (drop (Suc separator) remainder) in
                    if taskKey = '''' then None
                    else Some \<lparr> tf_PlanKey = planKey, tf_ReceiptID = receiptID,
                                tf_TaskKey = taskKey \<rparr>)))"

definition taskFetchKey :: "string \<Rightarrow> string \<Rightarrow> string" where
  "taskFetchKey planKey taskKey =
     (let p = TrimSpace planKey; t = TrimSpace taskKey in
      if p = '''' \<or> t = '''' then ''''
      else let k = ''task:'' @ p @ ''#'' @ t in if length k > 512 then '''' else k)"

definition fetchPayloadKeysWithReceipt :: "string slice \<Rightarrow> string \<Rightarrow> string slice" where
  "fetchPayloadKeysWithReceipt keys receiptID =
     (if elems (normalizeValues keys) \<noteq> [] then normalizeValues keys
      else let r = TrimSpace receiptID in
        if r = '''' then None else Some [''plan:'' @ r])"

section \<open>Statuses and work items\<close>

text \<open>\<open>normalizeWorkItemStatus\<close> and \<open>normalizePlanStatus\<close> of the service test the same strings as
  storage in another order.\<close>

definition be_normalizeWorkItemStatus :: "string \<Rightarrow> string" where
  "be_normalizeWorkItemStatus raw =
     (let s = ToLower (TrimSpace raw) in
      if s = WorkItemStatusBlocked then WorkItemStatusBlocked
      else if s = WorkItemStatusInProgress then WorkItemStatusInProgress
      else if s = WorkItemStatusComplete \<or> s = ''completed'' then WorkItemStatusComplete
      else if s = WorkItemStatusSuperseded then WorkItemStatusSuperseded
      else WorkItemStatusPending)"

definition normalizePlanStatus :: "string \<Rightarrow> string" where
  "normalizePlanStatus raw =
     (let s = ToLower (TrimSpace raw) in
      if s = PlanStatusBlocked then PlanStatusBlocked
      else if s = PlanStatusInProgress then PlanStatusInProgress
      else if s = PlanStatusComplete \<or> s = ''completed'' then PlanStatusComplete
      else if s = PlanStatusSuperseded then PlanStatusSuperseded
      else PlanStatusPending)"

definition isTerminalWorkItemStatus :: "string \<Rightarrow> bool" where
  "isTerminalWorkItemStatus raw \<longleftrightarrow>
     be_normalizeWorkItemStatus raw \<in> {WorkItemStatusComplete, WorkItemStatusSuperseded}"

definition isTerminalPlanStatus :: "string \<Rightarrow> bool" where
  "isTerminalPlanStatus raw \<longleftrightarrow>
     normalizePlanStatus raw \<in> {PlanStatusComplete, PlanStatusSuperseded}"

definition be_normalize_item :: "WorkItem \<Rightarrow> WorkItem" where
  "be_normalize_item item =
     \<lparr> wi_ItemKey = normalizeCompletionPath (wi_ItemKey item),
       wi_Summary = TrimSpace (wi_Summary item),
       wi_Status = be_normalizeWorkItemStatus (wi_Status item),
       wi_ParentTaskKey = TrimSpace (wi_ParentTaskKey item), wi_ParentTaskKeyClear = False,
       wi_DependsOn = normalizeValues (wi_DependsOn item),
       wi_AcceptanceCriteria = normalizeValues (wi_AcceptanceCriteria item),
       wi_References = normalizeValues (wi_References item),
       wi_ExternalRefs = normalizeValues (wi_ExternalRefs item),
       wi_BlockedReason = TrimSpace (wi_BlockedReason item),
       wi_Outcome = TrimSpace (wi_Outcome item),
       wi_Evidence = normalizeValues (wi_Evidence item), wi_UpdatedAt = wi_UpdatedAt item \<rparr>"

definition be_item_upd :: "WorkItem option \<Rightarrow> WorkItem \<Rightarrow> WorkItem" where
  "be_item_upd cur item =
     (let normalized = be_normalize_item item in
      case cur of
        None \<Rightarrow> normalized
      | Some current \<Rightarrow>
          (if status_priority (wi_Status current) \<le> status_priority (wi_Status normalized)
           then normalized else current))"

definition be_normalizeWorkItems :: "WorkItem list \<Rightarrow> WorkItem list" where
  "be_normalizeWorkItems items =
     emit_sorted (fold_by_key (\<lambda>item. normalizeCompletionPath (wi_ItemKey item)) be_item_upd items)"

definition derivePlanStatusFromWorkItems :: "WorkItem list \<Rightarrow> string" where
  "derivePlanStatusFromWorkItems items =
     (let has = (\<lambda>s. list_ex (\<lambda>i. be_normalizeWorkItemStatus (wi_Status i) = s) items) in
      if items = [] then PlanStatusPending
      else if has WorkItemStatusBlocked then PlanStatusBlocked
      else if has WorkItemStatusInProgress then PlanStatusInProgress
      else if has WorkItemStatusPending then PlanStatusPending
      else if has WorkItemStatusComplete then PlanStatusComplete
      else if has WorkItemStatusSuperseded then PlanStatusSuperseded
      else PlanStatusPending)"

definition actorFromPayload :: "ActorRef option \<Rightarrow> Actor" where
  "actorFromPayload actor =
     (case actor of
        None \<Rightarrow> Actor_zero
      | Some a \<Rightarrow> \<lparr> ac_Harness = aref_Harness a, ac_Model = aref_Model a,
                    ac_SessionID = aref_SessionID a \<rparr>)"

definition actorRefFromCore :: "Actor \<Rightarrow> ActorRef option" where
  "actorRefFromCore actor =
     (if actor = Actor_zero then None
      else Some \<lparr> aref_Harness = ac_Harness actor, aref_Model = ac_Model actor,
                  aref_SessionID = ac_SessionID actor \<rparr>)"

section \<open>Facts\<close>

lemma be_status_eq: "be_normalizeWorkItemStatus raw = NormalizeWorkItemStatus raw"
  by (simp add: be_normalizeWorkItemStatus_def NormalizeWorkItemStatus_def Let_def status_consts)

lemma plan_status_eq: "normalizePlanStatus raw = NormalizeWorkItemStatus raw"
  by (simp add: normalizePlanStatus_def NormalizeWorkItemStatus_def Let_def status_consts)

lemma derive_eq: "derivePlanStatusFromWorkItems items = DerivePlanStatus items"
  by (simp add: derivePlanStatusFromWorkItems_def DerivePlanStatus_def Let_def be_status_eq)

lemma isTerminal_iff:
  "isTerminalWorkItemStatus raw \<longleftrightarrow>
     NormalizeWorkItemStatus raw = WorkItemStatusComplete \<or>
     NormalizeWorkItemStatus raw = WorkItemStatusSuperseded"
  "isTerminalPlanStatus raw \<longleftrightarrow>
     NormalizeWorkItemStatus raw = WorkItemStatusComplete \<or>
     NormalizeWorkItemStatus raw = WorkItemStatusSuperseded"
  by (auto simp: isTerminalWorkItemStatus_def isTerminalPlanStatus_def be_status_eq plan_status_eq
      plan_status_eqs)

text \<open>Value lists and path lists.\<close>

interpretation nv: idem_normalizer TrimSpace "\<lambda>xs. elems (normalizeValues (Some xs))"
  by unfold_locales (auto simp: normalizeValues_def Let_def)

interpretation ncp: list_normalizer normalizeCompletionPath
  "\<lambda>xs. elems (normalizeCompletionPaths (Some xs))"
  by unfold_locales (auto simp: normalizeCompletionPaths_def)

lemma normalizeValues_elems: "elems (normalizeValues vs) = elems (normalizeValues (Some (elems vs)))"
  by (simp add: normalizeValues_def)

lemma normalizeValues_eq: "elems (normalizeValues vs) = elems (NormalizeStringList vs)"
  by (simp add: normalizeValues_def NormalizeStringList_def Let_def)

lemma normalizeCompletionPaths_elems:
  "elems (normalizeCompletionPaths ps) = elems (normalizeCompletionPaths (Some (elems ps)))"
  by (simp add: normalizeCompletionPaths_def)

lemma set_normalizeCompletionPaths:
  "set (elems (normalizeCompletionPaths ps)) = normalizeCompletionPath ` set (elems ps) - {''''}"
  using ncp.nl_set[of "elems ps"] by (simp only: normalizeCompletionPaths_elems[symmetric])

lemma sorted_normalizeCompletionPaths [simp]:
  "sorted (elems (normalizeCompletionPaths ps))" "distinct (elems (normalizeCompletionPaths ps))"
  using ncp.nl_sorted[of "elems ps"] ncp.nl_distinct[of "elems ps"]
  by (simp_all only: normalizeCompletionPaths_elems[symmetric])

lemma normalizeValues_None_iff:
  "normalizeValues vs = None \<longleftrightarrow> (\<forall>v \<in> set (elems vs). TrimSpace v = '''')"
  by (simp add: normalizeValues_def Let_def norm_unique_Nil_iff)

text \<open>Work items.\<close>

lemma be_item_upd_key:
  assumes "\<And>c. cur = Some c \<Longrightarrow> wi_ItemKey c = k" "normalizeCompletionPath (wi_ItemKey raw) = k"
  shows "wi_ItemKey (be_item_upd cur raw) = k"
proof (cases cur)
  case None
  then show ?thesis using assms(2) by (simp add: be_item_upd_def be_normalize_item_def)
next
  case (Some c)
  have "wi_ItemKey c = k" using assms(1) Some .
  then show ?thesis using assms(2) Some by (simp add: be_item_upd_def be_normalize_item_def)
qed

interpretation bwi: priority_fold "\<lambda>item. normalizeCompletionPath (wi_ItemKey item)" be_item_upd
  wi_ItemKey be_normalize_item "\<lambda>i. status_priority (wi_Status i)"
proof (unfold_locales, goal_cases)
  case (1 x cur)
  show ?case by (rule be_item_upd_key) (use 1(2) in auto)
qed (simp_all add: be_item_upd_def Let_def)

lemma be_normalizeWorkItems_emitted: "be_normalizeWorkItems = bwi.emitted"
  by (simp add: fun_eq_iff be_normalizeWorkItems_def bwi.emitted_def)

text \<open>A completion path is empty or a relative path of plain segments: it cannot leave the
  directory it is resolved in.\<close>

lemma completion_path_segs:
  assumes "normalizeCompletionPath raw \<noteq> ''''"
  shows "list_all plain_seg (split_on (CHR ''/'') (normalizeCompletionPath raw))"
proof -
  define s where "s = ReplaceByte (CHR 0x5C) (CHR ''/'') (TrimSpace raw)"
  have "\<not> HasPrefix s ''/''" "normalizeCompletionPath raw = path_Clean s"
    "path_Clean s \<noteq> ''.''" "path_Clean s \<noteq> ''..''" "\<not> HasPrefix (path_Clean s) ''../''"
    using assms by (auto simp: normalizeCompletionPath_def Let_def s_def split: if_splits)
  then show ?thesis using path_Clean_rel_segs[of s] by simp
qed

lemma completion_path_no_backslash: "CHR 0x5C \<notin> set (normalizeCompletionPath raw)"
  using path_Clean_bytes[of "CHR 0x5C" "ReplaceByte (CHR 0x5C) (CHR ''/'') (TrimSpace raw)"]
    set_ReplaceByte[of "CHR 0x5C" "CHR ''/''" "TrimSpace raw"]
  by (auto simp: normalizeCompletionPath_def Let_def)

text \<open>A path of plain segments without a drive letter, backslash or outer white space is its own
  normal form.\<close>

lemma plain_path_clean:
  assumes "list_all plain_seg (split_on (CHR ''/'') s)"
  shows "path_Clean s = s" "\<not> HasPrefix s ''/''" "path_segs s = split_on (CHR ''/'') s"
proof -
  let ?ws = "split_on (CHR ''/'') s"
  have "plain_seg w \<Longrightarrow> w \<noteq> ''..'' \<and> plain_seg w" for w by (simp add: plain_seg_def)
  then have "\<forall>w \<in> set st. plain_seg w \<Longrightarrow> clean_stack False st" for st
    by (induction st) (auto simp: plain_seg_def)
  then have "clean_stack False (rev ?ws)" using assms by (simp add: list_all_iff)
  from path_segs_join_rel[OF this] show "\<not> HasPrefix s ''/''" "path_segs s = ?ws"
    by (simp_all add: join_split)
  then show "path_Clean s = s"
    using join_split[of "CHR ''/''" s] by (simp add: path_Clean_def)
qed

lemma plain_path_not_special:
  assumes "list_all plain_seg (split_on (CHR ''/'') s)"
  shows "s \<noteq> ''''" "s \<noteq> ''.''" "s \<noteq> ''..''" "\<not> HasPrefix s ''../''"
proof -
  show "s \<noteq> ''''" "s \<noteq> ''.''" "s \<noteq> ''..''" using assms by (auto simp: plain_seg_def)
  show "\<not> HasPrefix s ''../''"
  proof
    assume "HasPrefix s ''../''"
    then obtain t where "s = ''../'' @ t" by (auto simp: HasPrefix_iff)
    then show False using assms by (simp add: plain_seg_def split: list.splits)
  qed
qed

lemma completion_path_fixed:
  assumes "list_all plain_seg (split_on (CHR ''/'') s)" "TrimSpace s = s"
    "CHR 0x5C \<notin> set s" "\<not> isWindowsAbsolutePath s"
  shows "normalizeCompletionPath s = s"
  using plain_path_clean[OF assms(1)] plain_path_not_special[OF assms(1)] assms(2-4)
  by (simp add: normalizeCompletionPath_def Let_def ReplaceByte_absent)

text \<open>Fetch keys.\<close>

lemma request_char_graph: "is_request_char c \<Longrightarrow> ascii_graph c"
  unfolding is_request_char_def using class_graph(4) by (auto simp: ascii_graph_def)

lemma request_id_graph: "requestIDPattern r \<Longrightarrow> list_all ascii_graph r \<and> r \<noteq> ''''"
  unfolding requestIDPattern_def match_class_def
  by (auto simp: list_all_iff intro: request_char_graph)

lemma request_id_Trim: "requestIDPattern r \<Longrightarrow> TrimSpace r = r"
  using request_id_graph TrimSpace_all_graph by blast

lemma parse_prefixed_id_roundtrip:
  assumes "requestIDPattern r" "list_all ascii_graph pre"
  shows "parse_prefixed_id pre (pre @ r) = Some r"
proof -
  have "TrimSpace (pre @ r) = pre @ r"
    using request_id_graph[OF assms(1)] assms(2) by (intro TrimSpace_all_graph) simp
  then show ?thesis
    using assms(1) by (simp add: parse_prefixed_id_def Let_def request_id_Trim)
qed

lemma parse_prefixed_id_sound:
  "parse_prefixed_id pre raw = Some r \<Longrightarrow> requestIDPattern r \<and> HasPrefix (TrimSpace raw) pre"
  by (auto simp: parse_prefixed_id_def Let_def split: if_splits)

lemma request_id_no_hash: "requestIDPattern r \<Longrightarrow> CHR ''#'' \<notin> set r"
  unfolding requestIDPattern_def match_class_def list_all_iff
  by (auto simp: is_request_char_def is_alnum_def is_lower_def is_upper_def is_digit_def)

lemma index_of_append: "d \<notin> set p \<Longrightarrow> index_of d (p @ d # s) = Some (length p)"
  by (induction p) auto

lemma parse_task_key_roundtrip:
  assumes r: "requestIDPattern r" and t: "TrimSpace t = t" "t \<noteq> ''''"
    and trim: "TrimSpace (''task:plan:'' @ r @ ''#'' @ t) = ''task:plan:'' @ r @ ''#'' @ t"
      "TrimSpace (''plan:'' @ r @ ''#'' @ t) = ''plan:'' @ r @ ''#'' @ t"
  shows "parseTaskFetchKey (''task:plan:'' @ r @ ''#'' @ t) =
    Some \<lparr> tf_PlanKey = ''plan:'' @ r, tf_ReceiptID = r, tf_TaskKey = t \<rparr>"
proof -
  have pre: "list_all ascii_graph ''plan:''" by (simp add: ascii_graph_def)
  have idx: "index_of (CHR ''#'') ((''plan:'' @ r) @ CHR ''#'' # t) = Some (length (''plan:'' @ r))"
    by (rule index_of_append) (use request_id_no_hash[OF r] in simp)
  have plan: "TrimSpace (''plan:'' @ r) = ''plan:'' @ r"
    using request_id_graph[OF r] pre by (intro TrimSpace_all_graph) simp
  have parse: "parsePlanFetchKey (''plan:'' @ r) = Some r"
    unfolding parsePlanFetchKey_def by (rule parse_prefixed_id_roundtrip[OF r pre])
  show ?thesis
    unfolding parseTaskFetchKey_def Let_def trim(1)
    using trim(2) idx plan parse t by simp
qed

end
