(* ===== verification/Backend_Context.thy ===== *)
theory Backend_Context
  imports Backend_Common
begin

text \<open>
  Opening a receipt: canonical tags (\<open>tags.go\<close>), canonical rules (\<open>ruleset.go\<close>) and
  \<open>openReceiptScope\<close>, \<open>Context\<close> of \<open>context.go\<close>. What the YAML and JSON libraries decode, the
  working tree and SHA-256 are fields of the environment. A Go map that the code ranges over is
  the list of its entries in the order of that iteration, which Go leaves open.
\<close>

section \<open>The environment\<close>

type_synonym tags_document = "(string \<times> string list) list"

record canonicalRulesetRuleV1 =
  rule_ID :: string
  rule_Summary :: string
  rule_Title :: string
  rule_Content :: string
  rule_Enforcement :: string
  rule_Tags :: "string list"

record rules_document =
  rd_Version :: string
  rd_Rules :: "canonicalRulesetRuleV1 list"

text \<open>\<open>env_rule_sources\<close>: the discovered rule files in path order; \<open>None\<close> where there is none.
  \<open>env_worktree\<close>: what \<open>captureWorkingTreeBaseline\<close> returns now. \<open>env_sha n\<close>: the hexadecimal
  text of the first \<open>n\<close> bytes of the SHA-256 digest.\<close>

record context_env =
  env_default_tags :: tags_document
  env_tags_file :: "string \<Rightarrow> tags_document option go_result"
  env_rule_sources :: "(string \<times> rules_document option) list go_result"
  env_worktree :: "APIError + SyncPath list"
  env_sha :: "nat \<Rightarrow> string \<Rightarrow> string"

section \<open>Tags\<close>

type_synonym alias_map = "(string \<times> string) list"

definition add_aliases :: "string \<Rightarrow> string list \<Rightarrow> alias_map \<Rightarrow> alias_map" where
  "add_aliases canonical aliases m =
     foldl (\<lambda>m raw. let alias = ToLower (TrimSpace raw) in
              if alias = '''' then m else AList.update alias canonical m)
       (AList.update canonical canonical m) aliases"

definition loadCanonicalTagAliasMapFromDocument :: "tags_document \<Rightarrow> alias_map" where
  "loadCanonicalTagAliasMapFromDocument doc =
     foldl (\<lambda>m (raw, aliases). let canonical = ToLower (TrimSpace raw) in
              if canonical = '''' then m else add_aliases canonical aliases m) [] doc"

definition loadMergedCanonicalTagAliasMap :: "context_env \<Rightarrow> string \<Rightarrow> alias_map go_result" where
  "loadMergedCanonicalTagAliasMap env tagsFile =
     (let aliasMap = loadCanonicalTagAliasMapFromDocument (env_default_tags env) in
      bind_res (env_tags_file env tagsFile) (\<lambda>document.
        case document of
          None \<Rightarrow> Inr aliasMap
        | Some doc \<Rightarrow>
            Inr (foldl (\<lambda>m (k, v). AList.update k v m) aliasMap
                   (loadCanonicalTagAliasMapFromDocument doc))))"

definition normalizeTag :: "alias_map \<Rightarrow> string \<Rightarrow> string" where
  "normalizeTag m raw =
     (let tag = ToLower (TrimSpace raw) in
      if tag = '''' then ''''
      else case map_of m tag of Some canonical \<Rightarrow> canonical | None \<Rightarrow> tag)"

definition normalizeTags :: "alias_map \<Rightarrow> string list \<Rightarrow> string list" where
  "normalizeTags m values = sort (norm_unique (normalizeTag m) [] values)"

definition isTagTokenSeparator :: "char \<Rightarrow> bool" where
  "isTagTokenSeparator c \<longleftrightarrow>
     c = CHR ''.'' \<or> c = CHR ''_'' \<or> c = CHR '':'' \<or> c = CHR ''/'' \<or> c = CHR ''-''"

text \<open>\<open>wordPattern\<close>: runs of letters and digits joined by single separators, found from left to
  right, each as long as possible.\<close>

fun take_word :: "string \<Rightarrow> string \<times> string" where
  "take_word [] = ([], [])"
| "take_word (c # s) =
     (if is_alnum c \<or> isTagTokenSeparator c \<and> (case s of [] \<Rightarrow> False | d # _ \<Rightarrow> is_alnum d)
      then (let (w, r) = take_word s in (c # w, r)) else ([], c # s))"

lemma take_word_append: "take_word s = (w, r) \<Longrightarrow> s = w @ r"
  by (induction s arbitrary: w r) (auto split: if_splits prod.splits)

function find_words :: "string \<Rightarrow> string list" where
  "find_words [] = []"
| "find_words (c # s) =
     (if is_alnum c then (let (w, r) = take_word (c # s) in w # find_words r) else find_words s)"
  by pat_completeness auto
termination
proof (relation "measure length", goal_cases)
  case (2 c s p w r)
  then have "take_word (c # s) = (w, r)" by simp
  moreover have "w \<noteq> []" using 2 by (auto split: prod.splits)
  ultimately show ?case using take_word_append[of "c # s" w r] by (cases w) auto
qed simp_all

fun fields_by :: "(char \<Rightarrow> bool) \<Rightarrow> string \<Rightarrow> string \<Rightarrow> string list" where
  "fields_by p acc [] = (if acc = [] then [] else [rev acc])"
| "fields_by p acc (c # s) =
     (if p c then (if acc = [] then fields_by p [] s else rev acc # fields_by p [] s)
      else fields_by p (c # acc) s)"

definition token_tags :: "alias_map \<Rightarrow> string \<Rightarrow> string list" where
  "token_tags m raw =
     (let token = ToLower (TrimSpace raw) in
      if token = '''' then []
      else List.map_filter (map_of m) (token # fields_by isTagTokenSeparator [] token))"

definition canonicalTagsFromTaskText :: "alias_map \<Rightarrow> string \<Rightarrow> string list" where
  "canonicalTagsFromTaskText m taskText =
     (if TrimSpace taskText = '''' \<or> m = [] then []
      else take 6 (sort (remdups (concat (map (token_tags m) (find_words taskText))))))"

definition resolveTags :: "alias_map \<Rightarrow> string list \<Rightarrow> string list" where
  "resolveTags m tags = sort (remdups (normalizeTags m tags))"

section \<open>Rules\<close>

record canonicalRulePointer =
  crp_PointerKey :: string
  crp_SourcePath :: string
  crp_RuleID :: string
  crp_Summary :: string
  crp_Content :: string
  crp_Enforcement :: string
  crp_Tags :: "string list"

fun firstNonEmpty :: "string list \<Rightarrow> string" where
  "firstNonEmpty [] = ''''"
| "firstNonEmpty (v # vs) = (if TrimSpace v = '''' then firstNonEmpty vs else TrimSpace v)"

definition normalizeRuleEnforcement :: "string \<Rightarrow> string go_result" where
  "normalizeRuleEnforcement raw =
     (let v = ToLower (TrimSpace raw) in
      if v = '''' then Inr ''hard''
      else if v = ''hard'' \<or> v = ''soft'' then Inr v
      else Inl (GoErr ''enforcement must be hard|soft''))"

text \<open>\<open>strings.EqualFold(enforcement, "soft")\<close>, for the two values it is called with.\<close>

definition normalizeCanonicalRulesetTags :: "alias_map \<Rightarrow> string list \<Rightarrow> string \<Rightarrow> string list" where
  "normalizeCanonicalRulesetTags m tags enforcement =
     normalizeTags m (tags @ [''rule'', ''canonical-rule''] @
       [if enforcement = ''soft'' then ''enforcement-soft'' else ''enforcement-hard''])"

definition deterministicRuleID ::
  "(nat \<Rightarrow> string \<Rightarrow> string) \<Rightarrow> string \<Rightarrow> string \<Rightarrow> string \<Rightarrow> string \<Rightarrow> string list \<Rightarrow> string" where
  "deterministicRuleID sha sourcePath summary content enforcement tags =
     ''rule-'' @ sha 8 (TrimSpace sourcePath @ [CHR 0x0A] @ TrimSpace summary @ [CHR 0x0A] @
       TrimSpace content @ [CHR 0x0A] @ TrimSpace enforcement @ [CHR 0x0A] @
       concat (map (\<lambda>t. t @ [CHR 0x0A]) (elems (normalizeValues (Some tags)))))"

definition is_rule_id_char :: "char \<Rightarrow> bool" where
  "is_rule_id_char c = is_request_char c"

definition ruleIDPattern :: "string \<Rightarrow> bool" where
  "ruleIDPattern s = match_class is_rule_id_char 1 128 s"

text \<open>The suffix loop: the base, then \<open>base-2\<close>, \<open>base-3\<close>, ... The loop has no bound in the code;
  here it looks at one candidate more than there are used ids.\<close>

definition rule_id_candidate :: "string \<Rightarrow> nat \<Rightarrow> string" where
  "rule_id_candidate base n = (if n = 1 then base else base @ ''-'' @ itoa_nat n)"

definition free_rule_id :: "string \<Rightarrow> string list \<Rightarrow> string option" where
  "free_rule_id base seen =
     find (\<lambda>i. i \<notin> set seen) (map (rule_id_candidate base) [1 ..< length seen + 2])"

definition canonicalRuleID ::
  "(nat \<Rightarrow> string \<Rightarrow> string) \<Rightarrow> string \<Rightarrow> string \<Rightarrow> string \<Rightarrow> string \<Rightarrow> string \<Rightarrow> string list \<Rightarrow>
     string list \<Rightarrow> (string \<times> string list) go_result" where
  "canonicalRuleID sha rawID sourcePath summary content enforcement tags seen =
     (let ruleID = TrimSpace rawID in
      if ruleID \<noteq> '''' then
        (if \<not> ruleIDPattern ruleID
         then Inl (GoErr (''rule id '' @ go_quote ruleID @ '' has invalid format''))
         else if ruleID \<in> set seen
         then Inl (GoErr (''duplicate rule id '' @ go_quote ruleID))
         else Inr (ruleID, ruleID # seen))
      else
        (case free_rule_id (deterministicRuleID sha sourcePath summary content enforcement tags) seen of
           Some i \<Rightarrow> Inr (i, i # seen)
         | None \<Rightarrow> Inl (GoErr ''loop bound'')))"

definition canonicalRulePointerKey :: "string \<Rightarrow> string \<Rightarrow> string \<Rightarrow> string" where
  "canonicalRulePointerKey projectID sourcePath ruleID =
     TrimSpace projectID @ '':'' @ TrimSpace sourcePath @ ''#'' @ TrimSpace ruleID"

fun parse_rules ::
  "(nat \<Rightarrow> string \<Rightarrow> string) \<Rightarrow> alias_map \<Rightarrow> string \<Rightarrow> string \<Rightarrow> nat \<Rightarrow> string list \<Rightarrow>
     canonicalRulesetRuleV1 list \<Rightarrow> canonicalRulePointer list go_result" where
  "parse_rules sha m projectID src i seen [] = Inr []"
| "parse_rules sha m projectID src i seen (r # rs) =
     (let pre = ''canonical ruleset '' @ src @ '' rules['' @ itoa_nat i @ ''] '';
          summary = firstNonEmpty [rule_Summary r, rule_Title r, rule_Content r] in
      if summary = '''' then Inl (GoErr (pre @ ''requires summary/title/content''))
      else case normalizeRuleEnforcement (rule_Enforcement r) of
        Inl e \<Rightarrow> Inl (GoErr (pre @ go_error_text e))
      | Inr enforcement \<Rightarrow>
          (let tags = normalizeCanonicalRulesetTags m (rule_Tags r) enforcement in
           case canonicalRuleID sha (rule_ID r) src summary (rule_Content r) enforcement tags seen of
             Inl e \<Rightarrow> Inl (GoErr (pre @ go_error_text e))
           | Inr (ruleID, seen') \<Rightarrow>
               bind_res (parse_rules sha m projectID src (Suc i) seen' rs) (\<lambda>rest.
                 Inr (\<lparr> crp_PointerKey = canonicalRulePointerKey projectID src ruleID,
                        crp_SourcePath = src, crp_RuleID = ruleID, crp_Summary = summary,
                        crp_Content = (if TrimSpace (rule_Content r) = '''' then summary
                                       else TrimSpace (rule_Content r)),
                        crp_Enforcement = enforcement, crp_Tags = tags \<rparr> # rest))))"

definition parseCanonicalRulesetFile ::
  "(nat \<Rightarrow> string \<Rightarrow> string) \<Rightarrow> alias_map \<Rightarrow> string \<Rightarrow> string \<times> rules_document \<Rightarrow>
     canonicalRulePointer list go_result" where
  "parseCanonicalRulesetFile sha m projectID source =
     (let (src, doc) = source in
      if TrimSpace (rd_Version doc) \<noteq> ''awm.rules.v1''
      then Inl (GoErr (''canonical ruleset '' @ src @ '' has unsupported version '' @
                       go_quote (TrimSpace (rd_Version doc))))
      else bind_res (parse_rules sha m projectID src 0 [] (rd_Rules doc)) (\<lambda>rules.
        Inr (sort_key crp_PointerKey rules)))"

definition rule_candidate :: "canonicalRulePointer \<Rightarrow> CandidatePointer" where
  "rule_candidate rule =
     \<lparr> cp_Key = crp_PointerKey rule, cp_Path = crp_SourcePath rule, cp_Anchor = '''',
       cp_Kind = ''rule'', cp_Label = crp_Summary rule, cp_Description = crp_Content rule,
       cp_Tags = Some (crp_Tags rule), cp_IsRule = True, cp_IsStale = False, cp_UpdatedAt = 0 \<rparr>"

definition loadCanonicalContextRules ::
  "context_env \<Rightarrow> string \<Rightarrow> alias_map \<Rightarrow>
     (CandidatePointer list \<times> string slice \<times> string list) go_result" where
  "loadCanonicalContextRules env projectID m =
     bind_res (env_rule_sources env) (\<lambda>sources.
     bind_res (map_res (parseCanonicalRulesetFile (env_sha env) m projectID)
         (List.map_filter (\<lambda>(src, doc). map_option (\<lambda>d. (src, d)) doc) sources)) (\<lambda>parsed.
       let rules = concat parsed in
       Inr (map rule_candidate rules,
            normalizeValues (Some (map crp_PointerKey rules)),
            sort (remdups (map TrimSpace (concat (map crp_Tags rules)))))))"

definition last_hash_split :: "string \<Rightarrow> (string \<times> string) option" where
  "last_hash_split key =
     (case index_of (CHR ''#'') (rev key) of
        None \<Rightarrow> None
      | Some n \<Rightarrow> Some (take (length key - Suc n) key, drop (length key - n) key))"

definition ctx_ruleIDFromPointerKey :: "string \<Rightarrow> string" where
  "ctx_ruleIDFromPointerKey pointerKey =
     (let key = TrimSpace pointerKey in
      if key = '''' then ''''
      else case last_hash_split key of
        None \<Rightarrow> key
      | Some (_, rest) \<Rightarrow>
          (if rest = '''' then key
           else let ruleID = TrimSpace rest in if ruleID = '''' then key else ruleID))"

fun enforcement_of :: "string list \<Rightarrow> string" where
  "enforcement_of [] = ''required''"
| "enforcement_of (t # ts) =
     (if t = ''enforcement-soft'' then ''soft''
      else if t = ''enforcement-hard'' then ''hard'' else enforcement_of ts)"

definition ruleEnforcementFromTags :: "context_env \<Rightarrow> string list \<Rightarrow> string" where
  "ruleEnforcementFromTags env tags =
     enforcement_of (normalizeTags (loadCanonicalTagAliasMapFromDocument (env_default_tags env)) tags)"

definition pointerSummary :: "CandidatePointer \<Rightarrow> string" where
  "pointerSummary p =
     (if TrimSpace (cp_Description p) \<noteq> '''' then TrimSpace (cp_Description p)
      else if TrimSpace (cp_Label p) \<noteq> '''' then TrimSpace (cp_Label p)
      else if TrimSpace (cp_Path p) \<noteq> '''' then TrimSpace (cp_Path p)
      else TrimSpace (cp_Key p))"

definition context_rule :: "context_env \<Rightarrow> CandidatePointer \<Rightarrow> ContextRule" where
  "context_rule env entry =
     (let ruleKey = TrimSpace (cp_Key entry);
          label = TrimSpace (cp_Label entry);
          summary = (if label = '''' then pointerSummary entry else label);
          content = TrimSpace (cp_Description entry)
      in \<lparr> cr_RuleID = ctx_ruleIDFromPointerKey ruleKey, cr_Key = ruleKey, cr_Summary = summary,
           cr_Enforcement = ruleEnforcementFromTags env (elems (cp_Tags entry)),
           cr_Content = (if content \<noteq> '''' \<and> content \<noteq> summary then content else '''') \<rparr>)"

definition makeContextRules :: "context_env \<Rightarrow> CandidatePointer list \<Rightarrow> ContextRule list" where
  "makeContextRules env selected =
     map (context_rule env) (filter (\<lambda>e. TrimSpace (cp_Key e) \<noteq> '''') selected)"

section \<open>Opening a receipt\<close>

definition receipt_seed ::
  "ContextPayload \<Rightarrow> string list \<Rightarrow> ContextRule list \<Rightarrow> string slice \<Rightarrow> SyncPath list \<Rightarrow> string" where
  "receipt_seed payload resolvedTags rules initialScopePaths baselinePaths =
     (let nl = [CHR 0x0A] in
      ''backend.context.v1'' @ nl @ TrimSpace (ctp_ProjectID payload) @ nl @
      TrimSpace (ctp_TaskText payload) @ nl @ ctp_Phase payload @ nl @
      concat (map (\<lambda>tag. ''tag:'' @ tag @ nl) resolvedTags) @
      concat (map (\<lambda>rule. ''rule:'' @ cr_Key rule @ ''|'' @ cr_Summary rule @ ''|'' @
        cr_Enforcement rule @ ''|'' @ cr_Content rule @ nl) rules) @
      concat (map (\<lambda>p. ''initial_scope:'' @ p @ nl)
        (elems (normalizeCompletionPaths initialScopePaths))) @
      concat (map (\<lambda>entry. ''baseline:'' @ normalizeCompletionPath (sp_Path entry) @ ''|'' @
        TrimSpace (sp_ContentHash entry) @ ''|'' @
        (if sp_Deleted entry then ''deleted'' else ''live'') @ nl) baselinePaths))"

definition deterministicReceiptID ::
  "context_env \<Rightarrow> ContextPayload \<Rightarrow> string list \<Rightarrow> ContextRule list \<Rightarrow> string slice \<Rightarrow>
     SyncPath list \<Rightarrow> string" where
  "deterministicReceiptID env payload resolvedTags rules initialScopePaths baselinePaths =
     ''receipt-'' @ env_sha env 12
       (receipt_seed payload resolvedTags rules initialScopePaths baselinePaths)"

record openedReceiptScope =
  or_ReceiptID :: string
  or_Rules :: "ContextRule list"
  or_ResolvedTags :: "string list"
  or_InitialScopePaths :: "string slice"
  or_BaselineCaptured :: bool

definition openReceiptScope :: "context_env \<Rightarrow> ContextPayload \<Rightarrow> openedReceiptScope svc" where
  "openReceiptScope env payload =
     (case loadMergedCanonicalTagAliasMap env (ctp_TagsFile payload) of
        Inl e \<Rightarrow> fail_svc (internalError ''load_canonical_tags'' e)
      | Inr m \<Rightarrow>
          (let taskText = TrimSpace (ctp_TaskText payload);
               taskTags = canonicalTagsFromTaskText m taskText in
           case loadCanonicalContextRules env (ctp_ProjectID payload) m of
             Inl e \<Rightarrow> fail_svc (internalError ''load_canonical_rules'' e)
           | Inr (selectedRules, ruleKeys, ruleTags) \<Rightarrow>
               (let rules = makeContextRules env selectedRules;
                    resolvedTags = resolveTags m (taskTags @ ruleTags);
                    initialScopePaths = normalizeCompletionPaths (ctp_InitialScopePaths payload);
                    (baselineCaptured, baselinePaths) =
                      (case env_worktree env of Inl _ \<Rightarrow> (False, []) | Inr ps \<Rightarrow> (True, ps));
                    receiptID = deterministicReceiptID env payload resolvedTags rules
                      initialScopePaths baselinePaths
                in call_repo (UpsertReceiptScope
                     \<lparr> rs_ProjectID = TrimSpace (ctp_ProjectID payload), rs_ReceiptID = receiptID,
                       rs_TaskText = taskText, rs_Phase = TrimSpace (ctp_Phase payload),
                       rs_ResolvedTags = Some resolvedTags, rs_PointerKeys = ruleKeys,
                       rs_InitialScopePaths = initialScopePaths,
                       rs_BaselineCaptured = baselineCaptured, rs_BaselinePaths = baselinePaths,
                       rs_Actor = actorFromPayload (ctp_Actor payload) \<rparr>)
                   (internalError ''persist_receipt_scope'')
                   (\<lambda>_. ret_svc \<lparr> or_ReceiptID = receiptID, or_Rules = rules,
                      or_ResolvedTags = resolvedTags, or_InitialScopePaths = initialScopePaths,
                      or_BaselineCaptured = baselineCaptured \<rparr>))))"

end
