(* ===== verification/Backend_Work.thy ===== *)
theory Backend_Work
  imports Backend_Context
begin

text \<open>
  \<open>Work\<close> of \<open>internal/service/backend/work.go\<close>, with the closing of finished plans of
  \<open>work_plan_lifecycle.go\<close> and the closeout diagnostics of \<open>plan_diagnostics.go\<close>.
\<close>

section \<open>Task payloads\<close>

definition task_of_payload :: "WorkTaskPayload \<Rightarrow> WorkItem" where
  "task_of_payload task =
     (let parent = (case wtp_ParentTaskKey task of None \<Rightarrow> '''' | Some p \<Rightarrow> TrimSpace p);
          clear = (case wtp_ParentTaskKey task of None \<Rightarrow> False | Some p \<Rightarrow> TrimSpace p = '''')
      in \<lparr> wi_ItemKey = wtp_Key task, wi_Summary = TrimSpace (wtp_Summary task),
           wi_Status = wtp_Status task, wi_ParentTaskKey = parent, wi_ParentTaskKeyClear = clear,
           wi_DependsOn = normalizeValues (wtp_DependsOn task),
           wi_AcceptanceCriteria = normalizeValues (wtp_AcceptanceCriteria task),
           wi_References = normalizeValues (wtp_References task),
           wi_ExternalRefs = normalizeValues (wtp_ExternalRefs task),
           wi_BlockedReason = TrimSpace (wtp_BlockedReason task),
           wi_Outcome = TrimSpace (wtp_Outcome task),
           wi_Evidence = normalizeValues (wtp_Evidence task), wi_UpdatedAt = 0 \<rparr>)"

definition workPayloadTasks :: "WorkPayload \<Rightarrow> WorkItem list" where
  "workPayloadTasks payload = be_normalizeWorkItems (map task_of_payload (wkp_Tasks payload))"

definition be_normalizeWorkPlanMode :: "string \<Rightarrow> WorkPlanMode" where
  "be_normalizeWorkPlanMode mode =
     (if TrimSpace mode = WorkPlanModeReplace then WorkPlanModeReplace else WorkPlanModeMerge)"

definition coalesceNonEmpty :: "string \<Rightarrow> string \<Rightarrow> string" where
  "coalesceNonEmpty primary fallback =
     (if TrimSpace primary \<noteq> '''' then TrimSpace primary else TrimSpace fallback)"

definition upsert_of_payload ::
  "string \<Rightarrow> string \<Rightarrow> string \<Rightarrow> WorkPayload \<Rightarrow> WorkItem list \<Rightarrow> WorkPlanUpsertInput" where
  "upsert_of_payload projectID planKey receiptID payload workItems =
     (let base = \<lparr> wpi_ProjectID = projectID, wpi_PlanKey = planKey, wpi_ReceiptID = receiptID,
            wpi_Mode = be_normalizeWorkPlanMode (wkp_Mode payload),
            wpi_Title = TrimSpace (wkp_PlanTitle payload), wpi_Objective = '''', wpi_Kind = '''',
            wpi_ParentPlanKey = '''', wpi_Status = '''', wpi_Stages = WorkPlanStages_zero,
            wpi_InScope = None, wpi_OutOfScope = None, wpi_DiscoveredPaths = None,
            wpi_Constraints = None, wpi_References = None, wpi_ExternalRefs = None,
            wpi_Tasks = workItems \<rparr>
      in case wkp_Plan payload of
        None \<Rightarrow> base
      | Some plan \<Rightarrow>
          base\<lparr>wpi_Title := coalesceNonEmpty (TrimSpace (wpp_Title plan)) (wpi_Title base),
               wpi_Objective := TrimSpace (wpp_Objective plan),
               wpi_Kind := TrimSpace (wpp_Kind plan),
               wpi_ParentPlanKey := TrimSpace (wpp_ParentPlanKey plan),
               wpi_Status := wpp_Status plan,
               wpi_Stages :=
                 (case wpp_Stages plan of
                    None \<Rightarrow> WorkPlanStages_zero
                  | Some st \<Rightarrow> \<lparr> wps_SpecOutline = wsp_SpecOutline st,
                                wps_RefinedSpec = wsp_RefinedSpec st,
                                wps_ImplementationPlan = wsp_ImplementationPlan st \<rparr>),
               wpi_InScope := normalizeValues (wpp_InScope plan),
               wpi_OutOfScope := normalizeValues (wpp_OutOfScope plan),
               wpi_DiscoveredPaths := normalizeCompletionPaths (wpp_DiscoveredPaths plan),
               wpi_Constraints := normalizeValues (wpp_Constraints plan),
               wpi_References := normalizeValues (wpp_References plan),
               wpi_ExternalRefs := normalizeValues (wpp_ExternalRefs plan)\<rparr>)"

section \<open>Closing finished plans\<close>

definition stage_step :: "WorkPlanStages \<Rightarrow> WorkItem \<Rightarrow> WorkPlanStages" where
  "stage_step derived item =
     (let status = be_normalizeWorkItemStatus (wi_Status item); key = TrimSpace (wi_ItemKey item) in
      if key = ''stage:spec-outline'' then derived\<lparr>wps_SpecOutline := status\<rparr>
      else if key = ''stage:refined-spec'' then derived\<lparr>wps_RefinedSpec := status\<rparr>
      else if key = ''stage:implementation-plan'' then derived\<lparr>wps_ImplementationPlan := status\<rparr>
      else derived)"

definition deriveTerminalWorkPlanStages :: "WorkPlanStages \<Rightarrow> WorkItem list \<Rightarrow> WorkPlanStages" where
  "deriveTerminalWorkPlanStages existing items = foldl stage_step existing items"

definition workPlanStagesEqual :: "WorkPlanStages \<Rightarrow> WorkPlanStages \<Rightarrow> bool" where
  "workPlanStagesEqual l r \<longleftrightarrow>
     be_normalizeWorkItemStatus (wps_SpecOutline l) = be_normalizeWorkItemStatus (wps_SpecOutline r) \<and>
     be_normalizeWorkItemStatus (wps_RefinedSpec l) = be_normalizeWorkItemStatus (wps_RefinedSpec r) \<and>
     be_normalizeWorkItemStatus (wps_ImplementationPlan l) =
       be_normalizeWorkItemStatus (wps_ImplementationPlan r)"

definition terminal_upsert ::
  "string \<Rightarrow> string \<Rightarrow> WorkPlan \<Rightarrow> WorkItem list \<Rightarrow> WorkPlanUpsertInput" where
  "terminal_upsert projectID receiptID plan items =
     \<lparr> wpi_ProjectID = TrimSpace projectID, wpi_PlanKey = TrimSpace (wp_PlanKey plan),
       wpi_ReceiptID = firstNonEmpty [TrimSpace receiptID, TrimSpace (wp_ReceiptID plan)],
       wpi_Mode = WorkPlanModeMerge, wpi_Title = '''', wpi_Objective = '''', wpi_Kind = '''',
       wpi_ParentPlanKey = '''', wpi_Status = derivePlanStatusFromWorkItems items,
       wpi_Stages = deriveTerminalWorkPlanStages (wp_Stages plan) items,
       wpi_InScope = None, wpi_OutOfScope = None, wpi_DiscoveredPaths = None,
       wpi_Constraints = None, wpi_References = None, wpi_ExternalRefs = None, wpi_Tasks = [] \<rparr>"

text \<open>The guards of \<open>syncTerminalWorkPlanStatus\<close>: when the plan is to be written.\<close>

definition needs_terminal_sync :: "WorkPlan \<Rightarrow> WorkItem list \<Rightarrow> bool" where
  "needs_terminal_sync plan items \<longleftrightarrow>
     (let normalizedItems = be_normalizeWorkItems items;
          derivedStatus = derivePlanStatusFromWorkItems normalizedItems in
      TrimSpace (wp_PlanKey plan) \<noteq> '''' \<and> normalizedItems \<noteq> [] \<and>
      isTerminalPlanStatus derivedStatus \<and>
      \<not> (normalizePlanStatus (wp_Status plan) = derivedStatus \<and>
         workPlanStagesEqual (wp_Stages plan)
           (deriveTerminalWorkPlanStages (wp_Stages plan) normalizedItems)))"

definition syncTerminalWorkPlanStatus ::
  "string \<Rightarrow> string \<Rightarrow> WorkPlan \<Rightarrow> WorkItem list \<Rightarrow> (WorkPlan \<times> bool) svc" where
  "syncTerminalWorkPlanStatus projectID receiptID plan items =
     (if \<not> needs_terminal_sync plan items then ret_svc (plan, False)
      else call_repo
        (UpsertWorkPlan (terminal_upsert projectID receiptID plan (be_normalizeWorkItems items)))
        (workInternalError ''autoclose_work_plan'')
        (\<lambda>res. ret_svc (wpr_Plan res, True)))"

section \<open>Work\<close>

text \<open>The plan key and receipt of a request, when it names one: the checks before the receipt is
  opened. \<open>None\<close> is the case that neither is given.\<close>

definition resolve_work_key ::
  "WorkPayload \<Rightarrow> APIError + (string \<times> string) option" where
  "resolve_work_key payload =
     (let projectID = TrimSpace (wkp_ProjectID payload);
          rawPlanKey = wkp_PlanKey payload;
          planKey0 = TrimSpace rawPlanKey;
          receiptID = TrimSpace (wkp_ReceiptID payload) in
      if rawPlanKey \<noteq> '''' \<and> rawPlanKey \<noteq> planKey0
      then Inl (backendError ErrCodeInvalidInput ''plan_key must not include surrounding whitespace''
             [(''project_id'', DStr projectID), (''plan_key'', DStr rawPlanKey)])
      else let planKey = (if planKey0 = '''' \<and> receiptID \<noteq> '''' then ''plan:'' @ receiptID
                          else planKey0) in
        if planKey = '''' then Inr None
        else case parsePlanFetchKey planKey of
          None \<Rightarrow> Inl (backendError ErrCodeInvalidInput ''plan_key must use format plan:<receipt_id>''
             [(''project_id'', DStr projectID), (''plan_key'', DStr planKey)])
        | Some derived \<Rightarrow>
            (if receiptID = '''' then Inr (Some (planKey, derived))
             else if receiptID \<noteq> derived
             then Inl (backendError ErrCodeInvalidInput
                    ''plan_key and receipt_id must reference the same receipt''
                    [(''project_id'', DStr projectID), (''plan_key'', DStr planKey),
                     (''receipt_id'', DStr receiptID), (''plan_key_receipt_id'', DStr derived)])
             else Inr (Some (planKey, receiptID))))"

definition auto_open :: "context_env \<Rightarrow> WorkPayload \<Rightarrow> string svc" where
  "auto_open env payload =
     (let projectID = TrimSpace (wkp_ProjectID payload); taskText = TrimSpace (wkp_TaskText payload) in
      if taskText = ''''
      then fail_svc (backendError ErrCodeInvalidInput
             ''plan_key, receipt_id, or task_text is required''
             [(''project_id'', DStr projectID), (''plan_key'', DStr '''')])
      else bind_svc
        (openReceiptScope env
           \<lparr> ctp_ProjectID = projectID, ctp_TaskText = taskText,
             ctp_Phase = (if TrimSpace (wkp_Phase payload) = '''' then ''execute''
                          else wkp_Phase payload),
             ctp_TagsFile = '''', ctp_InitialScopePaths = None, ctp_Actor = wkp_Actor payload \<rparr>)
        (\<lambda>opened. ret_svc (or_ReceiptID opened)))"

text \<open>The precheck of the receipt, before anything is written.\<close>

definition check_receipt :: "string \<Rightarrow> string \<Rightarrow> string \<Rightarrow> unit svc" where
  "check_receipt projectID receiptID planKey =
     call_repo (FetchReceiptScope \<lparr> rsq_ProjectID = projectID, rsq_ReceiptID = receiptID \<rparr>)
       (\<lambda>e. if e = ErrReceiptScopeNotFound
            then backendError ErrCodeNotFound ''receipt scope was not found''
              [(''project_id'', DStr projectID), (''receipt_id'', DStr receiptID),
               (''plan_key'', DStr planKey)]
            else workInternalError ''fetch_receipt_scope'' e)
       (\<lambda>_. ret_svc ())"

definition work_result :: "WorkPlanUpsertResult \<Rightarrow> WorkPlan \<Rightarrow> WorkResult" where
  "work_result res plan =
     (let status = normalizePlanStatus (wp_Status plan) in
      \<lparr> wr_PlanKey = wp_PlanKey plan,
        wr_PlanStatus = (if status = PlanStatusPending
                         then derivePlanStatusFromWorkItems (be_normalizeWorkItems (wp_Tasks plan))
                         else status),
        wr_Updated = wpr_Updated res, wr_TaskCount = int (length (wp_Tasks plan)) \<rparr>)"

definition work_with_key ::
  "WorkPayload \<Rightarrow> string \<Rightarrow> string \<Rightarrow> bool \<Rightarrow> WorkResult svc" where
  "work_with_key payload planKey receiptID autoOpened =
     (let projectID = TrimSpace (wkp_ProjectID payload);
          workItems = workPayloadTasks payload in
      bind_svc
        (if receiptID \<noteq> '''' \<and> workItems \<noteq> [] \<and> \<not> autoOpened
         then check_receipt projectID receiptID planKey else ret_svc ()) (\<lambda>_.
      call_repo (UpsertWorkPlan (upsert_of_payload projectID planKey receiptID payload workItems))
        (workInternalError ''upsert_work_plan'') (\<lambda>res.
      bind_svc
        (if receiptID \<noteq> '''' \<and> workItems \<noteq> []
         then call_repo (UpsertWorkItems \<lparr> wui_ProjectID = projectID, wui_ReceiptID = receiptID,
                wui_Items = workItems \<rparr>) (workInternalError ''upsert_work_items'') (\<lambda>_. ret_svc ())
         else ret_svc ()) (\<lambda>_.
      bind_svc (syncTerminalWorkPlanStatus projectID receiptID (wpr_Plan res)
          (wp_Tasks (wpr_Plan res))) (\<lambda>(plan, _).
      ret_svc (work_result res plan))))))"

definition Work :: "context_env \<Rightarrow> WorkPayload \<Rightarrow> WorkResult svc" where
  "Work env payload =
     (case resolve_work_key payload of
        Inl e \<Rightarrow> fail_svc e
      | Inr (Some (planKey, receiptID)) \<Rightarrow> work_with_key payload planKey receiptID False
      | Inr None \<Rightarrow>
          bind_svc (auto_open env payload) (\<lambda>receiptID.
            work_with_key payload (''plan:'' @ receiptID) receiptID True))"

section \<open>Closeout diagnostics\<close>

definition looksAdministrativeCloseoutTask :: "WorkItem \<Rightarrow> bool" where
  "looksAdministrativeCloseoutTask task \<longleftrightarrow>
     (let text = ToLower (TrimSpace (wi_ItemKey task @ '' '' @ wi_Summary task)) in
      text \<noteq> '''' \<and>
      list_ex (Contains text)
        [''strict-close'', ''closeout'', ''close out'', ''report completion'',
         ''report_completion'', ''report-completion'', ''close plan'', ''close task'',
         ''administrative close''])"

datatype plan_diagnosis = DiagNone | DiagTerminalDrift string | DiagAdministrative string

text \<open>The two findings about the tasks of one open plan.\<close>

definition diagnose_plan_tasks :: "WorkItem list \<Rightarrow> plan_diagnosis" where
  "diagnose_plan_tasks planTasks =
     (let tasks = be_normalizeWorkItems planTasks;
          openTasks = filter (\<lambda>t. \<not> isTerminalWorkItemStatus (wi_Status t)) tasks in
      if tasks = [] then DiagNone
      else if openTasks = [] then DiagTerminalDrift (derivePlanStatusFromWorkItems tasks)
      else if length openTasks = 1 \<and> looksAdministrativeCloseoutTask (hd openTasks)
        then DiagAdministrative (wi_ItemKey (hd openTasks))
      else DiagNone)"

end
