(* ===== verification/Backend_Scope.thy ===== *)
theory Backend_Scope
  imports Backend_Work "HOL-Library.Sublist"
begin

text \<open>
  \<open>internal/service/backend/scope_runtime.go\<close>: the difference between the baseline of a receipt
  and the working tree, the effective scope of a task, the files of a closeout and the violations
  they cause, the plan that a receipt selects. The walk over the files and git are parameters.
\<close>

section \<open>Baselines\<close>

text \<open>What git reports, what the directory walk finds (relative names of regular files and their
  hashes), whether the root has a \<open>.git\<close> directory.\<close>

record tree_source =
  ts_git :: "SyncPath list go_result"
  ts_git_dir :: bool
  ts_walk :: "string list go_result"
  ts_hashes :: "string list \<Rightarrow> (string \<rightharpoonup> string) go_result"

definition syncPathRecordsToBaseline :: "SyncPath list \<Rightarrow> SyncPath list" where
  "syncPathRecordsToBaseline records =
     map (\<lambda>r. \<lparr> sp_Path = normalizeCompletionPath (sp_Path r),
               sp_ContentHash = TrimSpace (sp_ContentHash r), sp_Deleted = sp_Deleted r \<rparr>) records"

definition baselineIgnoredPath :: "string \<Rightarrow> bool" where
  "baselineIgnoredPath raw =
     (let normalized = normalizeCompletionPath raw in
      normalized = '''' \<or>
      normalized \<in> set [''.env'', ''.awm/context.db'', ''.awm/context.db-shm'', ''.awm/context.db-wal''])"

fun baseline_entries :: "(string \<rightharpoonup> string) \<Rightarrow> string list \<Rightarrow> SyncPath list go_result" where
  "baseline_entries hashes [] = Inr []"
| "baseline_entries hashes (p # ps) =
     (let contentHash = TrimSpace (case hashes p of None \<Rightarrow> '''' | Some h \<Rightarrow> h) in
      if contentHash = '''' then Inl (GoErr (''missing content hash for path '' @ p))
      else bind_res (baseline_entries hashes ps) (\<lambda>rest.
        Inr (\<lparr> sp_Path = p, sp_ContentHash = contentHash, sp_Deleted = False \<rparr> # rest)))"

definition captureWorkingTreeBaselineFromWalk :: "tree_source \<Rightarrow> SyncPath list go_result" where
  "captureWorkingTreeBaselineFromWalk t =
     bind_res (ts_walk t) (\<lambda>files.
       let paths = filter (\<lambda>p. \<not> baselineIgnoredPath p) (map normalizeCompletionPath files);
           normalizedPaths = elems (normalizeCompletionPaths (Some paths)) in
       if normalizedPaths = [] then Inr []
       else bind_res (ts_hashes t normalizedPaths) (\<lambda>hashByPath.
         baseline_entries hashByPath normalizedPaths))"

definition captureWorkingTreeBaseline :: "string \<Rightarrow> tree_source \<Rightarrow> APIError + SyncPath list" where
  "captureWorkingTreeBaseline projectRoot t =
     (let failed = backendError ErrCodeInternalError ''failed to capture working-tree baseline'' in
      case ts_git t of
        Inr records \<Rightarrow> Inr (syncPathRecordsToBaseline records)
      | Inl err \<Rightarrow>
          (if ts_git_dir t
           then Inl (failed [(''project_root'', DStr (TrimSpace projectRoot)),
                             (''git_error'', DStr (go_error_text err))])
           else case captureWorkingTreeBaselineFromWalk t of
                  Inr paths \<Rightarrow> Inr paths
                | Inl walkErr \<Rightarrow>
                    Inl (failed [(''project_root'', DStr (TrimSpace projectRoot)),
                                 (''git_error'', DStr (go_error_text err)),
                                 (''walk_error'', DStr (go_error_text walkErr))])))"

section \<open>Changed paths\<close>

definition syncPathStatesEqual :: "SyncPath \<Rightarrow> SyncPath \<Rightarrow> bool" where
  "syncPathStatesEqual a b \<longleftrightarrow>
     normalizeCompletionPath (sp_Path a) = normalizeCompletionPath (sp_Path b) \<and>
     TrimSpace (sp_ContentHash a) = TrimSpace (sp_ContentHash b) \<and> sp_Deleted a = sp_Deleted b"

definition path_states :: "SyncPath list \<Rightarrow> (string \<times> SyncPath) list" where
  "path_states entries =
     fold_by_key (\<lambda>e. normalizeCompletionPath (sp_Path e))
       (\<lambda>_ e. \<lparr> sp_Path = normalizeCompletionPath (sp_Path e),
                sp_ContentHash = TrimSpace (sp_ContentHash e), sp_Deleted = sp_Deleted e \<rparr>) entries"

definition diffSyncPathStates :: "SyncPath list \<Rightarrow> SyncPath list \<Rightarrow> string list" where
  "diffSyncPathStates baseline current =
     (let baselineByPath = path_states baseline; currentByPath = path_states current in
      sort
        (map fst (filter (\<lambda>(path, base).
             case map_of currentByPath path of
               Some cur \<Rightarrow> \<not> syncPathStatesEqual base cur | None \<Rightarrow> True) baselineByPath) @
         map fst (filter (\<lambda>(path, _). path \<notin> fst ` set baselineByPath) currentByPath)))"

text \<open>The detected paths and whether the detection is reliable.\<close>

definition detectReceiptChangedPaths ::
  "context_env \<Rightarrow> ReceiptScope \<Rightarrow> APIError + (string list \<times> bool)" where
  "detectReceiptChangedPaths env scope =
     (if \<not> rs_BaselineCaptured scope then Inr ([], False)
      else case env_worktree env of
             Inl e \<Rightarrow> Inl e
           | Inr current \<Rightarrow> Inr (diffSyncPathStates (rs_BaselinePaths scope) current, True))"

section \<open>Scope\<close>

definition completionScopeManagedPaths :: "string slice" where
  "completionScopeManagedPaths =
     normalizeCompletionPaths (Some
       [''AGENTS.md'', ''CLAUDE.md'', ''.gitignore'', ''.env.example'',
        ''.awm/init_candidates.json'', ''.awm/awm-tags.yaml'', ''.awm/awm-rules.yaml'',
        ''awm-rules.yaml'', ''.awm/awm-workflows.yaml'', ''awm-workflows.yaml'',
        ''.awm/awm-tests.yaml'', ''awm-tests.yaml''])"

definition effectiveScopePaths :: "ReceiptScope \<Rightarrow> WorkPlan option \<Rightarrow> string slice" where
  "effectiveScopePaths scope plan =
     normalizeCompletionPaths (Some (elems (rs_InitialScopePaths scope) @
       (case plan of None \<Rightarrow> [] | Some p \<Rightarrow> elems (wp_DiscoveredPaths p)) @
       elems completionScopeManagedPaths))"

definition completionEffectiveScopePaths :: "ReceiptScope \<Rightarrow> WorkPlan option \<Rightarrow> string slice" where
  "completionEffectiveScopePaths scope plan =
     normalizeCompletionPaths (Some (elems (rs_InitialScopePaths scope) @
       (case plan of None \<Rightarrow> [] | Some p \<Rightarrow> elems (wp_DiscoveredPaths p) @ elems (wp_InScope p)) @
       elems completionScopeManagedPaths))"

definition pathWithinScope :: "string \<Rightarrow> string list \<Rightarrow> bool" where
  "pathWithinScope candidate scopePaths =
     (let normalizedCandidate = normalizeCompletionPath candidate in
      normalizedCandidate \<noteq> '''' \<and>
      list_ex (\<lambda>raw. let scopePath = normalizeCompletionPath raw in
          scopePath \<noteq> '''' \<and>
          (normalizedCandidate = scopePath \<or> HasPrefix normalizedCandidate (scopePath @ ''/'')))
        scopePaths)"

section \<open>The plan of a receipt\<close>

definition resolveReceiptPlanSelection ::
  "string \<Rightarrow> string \<Rightarrow> string \<Rightarrow> APIError + (string \<times> string)" where
  "resolveReceiptPlanSelection projectID receiptID planKey =
     (let normalizedReceiptID = TrimSpace receiptID;
          planKey0 = TrimSpace planKey;
          normalizedPlanKey = (if planKey0 = '''' \<and> normalizedReceiptID \<noteq> ''''
                               then ''plan:'' @ normalizedReceiptID else planKey0) in
      if normalizedPlanKey = ''''
      then Inl (backendError ErrCodeInvalidInput ''receipt_id or plan_key is required''
             [(''project_id'', DStr (TrimSpace projectID)), (''plan_key'', DStr normalizedPlanKey),
              (''receipt_id'', DStr normalizedReceiptID)])
      else case parsePlanFetchKey normalizedPlanKey of
        None \<Rightarrow> Inl (backendError ErrCodeInvalidInput ''plan_key must use format plan:<receipt_id>''
             [(''project_id'', DStr (TrimSpace projectID)), (''plan_key'', DStr normalizedPlanKey)])
      | Some derived \<Rightarrow>
          (if normalizedReceiptID = '''' then Inr (derived, normalizedPlanKey)
           else if normalizedReceiptID \<noteq> derived
           then Inl (backendError ErrCodeInvalidInput
                  ''plan_key and receipt_id must reference the same receipt''
                  [(''project_id'', DStr (TrimSpace projectID)), (''plan_key'', DStr normalizedPlanKey),
                   (''receipt_id'', DStr normalizedReceiptID), (''plan_key_receipt_id'', DStr derived)])
           else Inr (normalizedReceiptID, normalizedPlanKey)))"

definition loadEffectiveWorkPlan :: "string \<Rightarrow> string \<Rightarrow> string \<Rightarrow> WorkPlan option svc" where
  "loadEffectiveWorkPlan projectID receiptID planKey =
     (let normalizedReceiptID = TrimSpace receiptID;
          planKey0 = TrimSpace planKey;
          normalizedPlanKey = (if planKey0 = '''' \<and> normalizedReceiptID \<noteq> ''''
                               then ''plan:'' @ normalizedReceiptID else planKey0) in
      if normalizedPlanKey = '''' then ret_svc None
      else try_repo
        (LookupWorkPlan \<lparr> wpq_ProjectID = TrimSpace projectID, wpq_PlanKey = normalizedPlanKey,
                         wpq_ReceiptID = normalizedReceiptID \<rparr>)
        (\<lambda>r. case r of
           Inr plan \<Rightarrow> ret_svc (Some plan)
         | Inl err \<Rightarrow>
             (if err = ErrWorkPlanNotFound then ret_svc None
              else fail_svc (backendError ErrCodeInternalError ''failed to load work plan''
                [(''project_id'', DStr (TrimSpace projectID)), (''plan_key'', DStr normalizedPlanKey),
                 (''receipt_id'', DStr normalizedReceiptID),
                 (''error'', DStr (go_error_text err))]))))"

section \<open>Files of a closeout and their violations\<close>

definition resolveDetectedFilesChanged :: "bool \<Rightarrow> string list \<Rightarrow> string slice \<Rightarrow> string slice" where
  "resolveDetectedFilesChanged reliable detected supplied =
     (if reliable then normalizeCompletionPaths (Some detected)
      else normalizeCompletionPaths supplied)"

definition resolveDoneFilesChanged ::
  "bool \<Rightarrow> string list \<Rightarrow> string slice \<Rightarrow> bool \<Rightarrow> APIError + string slice" where
  "resolveDoneFilesChanged reliable detected supplied noFileChanges =
     (if reliable then
        (let normalizedDetected = normalizeCompletionPaths (Some detected) in
         if noFileChanges \<and> elems normalizedDetected \<noteq> []
         then Inl (backendError ErrCodeInvalidInput
                ''no_file_changes cannot be used when AWM detected file changes''
                [(''files_changed'', DList (elems normalizedDetected))])
         else Inr normalizedDetected)
      else if noFileChanges then Inr None
      else
        (let normalizedSupplied = normalizeCompletionPaths supplied in
         if elems normalizedSupplied = []
         then Inl (backendError ErrCodeInvalidInput
                ''automatic task delta detection is unavailable; provide files_changed or set no_file_changes''
                [])
         else Inr normalizedSupplied))"

definition filesChangedMismatchViolations ::
  "bool \<Rightarrow> string list \<Rightarrow> string slice \<Rightarrow> CompletionViolation list" where
  "filesChangedMismatchViolations reliable detected supplied =
     (let detectedPaths = elems (normalizeCompletionPaths (Some detected));
          suppliedPaths = elems (normalizeCompletionPaths supplied) in
      if \<not> reliable \<or> suppliedPaths = [] then []
      else
        map (\<lambda>p. \<lparr> cv_Path = p, cv_Reason =
          ''path was supplied in files_changed but was not detected in the receipt baseline delta'' \<rparr>)
          (filter (\<lambda>p. p \<notin> set detectedPaths) suppliedPaths) @
        map (\<lambda>p. \<lparr> cv_Path = p, cv_Reason =
          ''path was detected in the receipt baseline delta but was omitted from files_changed'' \<rparr>)
          (filter (\<lambda>p. p \<notin> set suppliedPaths) detectedPaths))"

text \<open>One violation in the loop of \<open>mergeCompletionViolations\<close>, on the map from paths to reasons.\<close>

definition add_reason ::
  "(string \<times> string list) list \<Rightarrow> CompletionViolation \<Rightarrow> (string \<times> string list) list" where
  "add_reason reasonsByPath violation =
     (let filePath = normalizeCompletionPath (cv_Path violation);
          reason = TrimSpace (cv_Reason violation);
          reasons = (case map_of reasonsByPath filePath of None \<Rightarrow> [] | Some rs \<Rightarrow> rs) in
      if filePath = '''' \<or> reason = '''' \<or> reason \<in> set reasons then reasonsByPath
      else AList.update filePath (reasons @ [reason]) reasonsByPath)"

definition mergeCompletionViolations :: "CompletionViolation list list \<Rightarrow> CompletionViolation list" where
  "mergeCompletionViolations groups =
     (let reasonsByPath = foldl add_reason [] (concat groups) in
      map (\<lambda>p. \<lparr> cv_Path = p, cv_Reason = join ''; '' (the (map_of reasonsByPath p)) \<rparr>)
        (sort (map fst reasonsByPath)))"

definition outOfScopeViolations :: "string slice \<Rightarrow> string slice \<Rightarrow> CompletionViolation list" where
  "outOfScopeViolations filesChanged allowedPaths =
     (let normalizedAllowedPaths = elems (normalizeCompletionPaths allowedPaths) in
      map (\<lambda>p. \<lparr> cv_Path = p, cv_Reason = ''path is outside effective scope'' \<rparr>)
        (filter (\<lambda>p. \<not> pathWithinScope p normalizedAllowedPaths)
          (elems (normalizeCompletionPaths filesChanged))))"

section \<open>Facts\<close>

text \<open>The state map holds normalized entries, so equal states are equal entries.\<close>

lemma path_states_entry:
  "map_of (path_states es) p = Some e \<Longrightarrow>
     p \<noteq> '''' \<and> sp_Path e = p \<and> TrimSpace (sp_ContentHash e) = sp_ContentHash e"
proof -
  assume e: "map_of (path_states es) p = Some e"
  then have p: "p \<noteq> ''''" using fold_by_key_lookup_empty unfolding path_states_def by (metis option.simps(3))
  have look: "foldl (\<lambda>cur x. Some \<lparr> sp_Path = normalizeCompletionPath (sp_Path x),
        sp_ContentHash = TrimSpace (sp_ContentHash x), sp_Deleted = sp_Deleted x \<rparr>) None
      (filter (\<lambda>x. normalizeCompletionPath (sp_Path x) = p) es) = Some e"
    using e unfolding path_states_def fold_by_key_lookup[OF p] .
  obtain x where "x \<in> set (filter (\<lambda>x. normalizeCompletionPath (sp_Path x) = p) es)"
      "e = \<lparr> sp_Path = normalizeCompletionPath (sp_Path x),
        sp_ContentHash = TrimSpace (sp_ContentHash x), sp_Deleted = sp_Deleted x \<rparr>"
    using look
    by (cases "filter (\<lambda>x. normalizeCompletionPath (sp_Path x) = p) es" rule: rev_cases) auto
  then show ?thesis using p by auto
qed

lemma path_states_distinct: "distinct (map fst (path_states es))"
  by (simp add: path_states_def fold_by_key_distinct)

lemma states_equal_iff:
  assumes "map_of (path_states es) p = Some a" "map_of (path_states fs) p = Some b"
  shows "syncPathStatesEqual a b \<longleftrightarrow> a = b"
  using path_states_entry[OF assms(1)] path_states_entry[OF assms(2)]
  by (cases a; cases b) (auto simp: syncPathStatesEqual_def)

lemma filtered_keys:
  "distinct (map fst al) \<Longrightarrow>
     k \<in> fst ` set (filter (\<lambda>(k, v). Q k v) al) \<longleftrightarrow> (\<exists>v. map_of al k = Some v \<and> Q k v)"
  by (force simp: image_iff)

lemma diff_set:
  "p \<in> set (diffSyncPathStates b c) \<longleftrightarrow> map_of (path_states b) p \<noteq> map_of (path_states c) p"
proof -
  have keys: "q \<notin> fst ` set (path_states b) \<longleftrightarrow> map_of (path_states b) q = None" for q
    by (simp add: map_of_eq_None_iff)
  show ?thesis
    unfolding diffSyncPathStates_def Let_def set_sort set_append Un_iff set_map
      filtered_keys[OF path_states_distinct] keys
    using states_equal_iff[of b p _ c]
    by (cases "map_of (path_states b) p"; cases "map_of (path_states c) p") auto
qed

lemma diff_distinct: "distinct (diffSyncPathStates b c)"
proof -
  have d: "distinct (map fst (filter P (path_states es)))" for P es
    using path_states_distinct[of es] by (simp add: distinct_map_filter)
  show ?thesis
    unfolding diffSyncPathStates_def Let_def distinct_sort distinct_append
    using d by (auto simp: image_iff)
qed

text \<open>A scope entry covers itself and what lies below it.\<close>

lemma split_on_append_join:
  "split_on d (s @ d # t) = split_on d s @ split_on d t"
proof -
  have "split_on d (join [d] ws @ d # t) = ws @ split_on d t"
    if "ws \<noteq> []" "\<forall>w \<in> set ws. d \<notin> set w" for ws
    using that
  proof (induction ws)
    case (Cons w ws)
    then show ?case by (cases ws) (simp_all add: split_on_append_sep)
  qed simp
  from this[of "split_on d s"] show ?thesis using split_on_no_sep by (simp add: join_split)
qed

lemma prefix_segs_iff:
  "prefix (split_on d s) (split_on d c) \<longleftrightarrow> c = s \<or> HasPrefix c (s @ [d])"
proof
  assume "prefix (split_on d s) (split_on d c)"
  then obtain ws where ws: "split_on d c = split_on d s @ ws" by (auto elim: prefixE)
  have app: "join [d] (vs @ ws) = join [d] vs @ d # join [d] ws" if "vs \<noteq> []" "ws \<noteq> []" for vs
    using that by (induction vs rule: list_nonempty_induct) (auto simp: join_Cons)
  have "c = join [d] (split_on d s @ ws)" using join_split[of d c] ws by simp
  then show "c = s \<or> HasPrefix c (s @ [d])"
    using app[of "split_on d s"] by (cases "ws = []") (auto simp: join_split HasPrefix_iff)
next
  assume "c = s \<or> HasPrefix c (s @ [d])"
  then show "prefix (split_on d s) (split_on d c)"
    by (auto simp: HasPrefix_iff split_on_append_join)
qed

lemma within_scope_iff:
  "pathWithinScope c scopes \<longleftrightarrow> normalizeCompletionPath c \<noteq> '''' \<and>
     (\<exists>s \<in> set scopes. normalizeCompletionPath s \<noteq> '''' \<and>
        prefix (split_on (CHR ''/'') (normalizeCompletionPath s))
               (split_on (CHR ''/'') (normalizeCompletionPath c)))"
  by (simp add: pathWithinScope_def Let_def list_ex_iff prefix_segs_iff)

text \<open>Violations, merged.\<close>

lemma foldl_add_reason:
  "distinct (map fst (foldl add_reason [] vs)) \<and>
   fst ` set (foldl add_reason [] vs) =
     {p. p \<noteq> '''' \<and> (\<exists>v \<in> set vs. normalizeCompletionPath (cv_Path v) = p \<and> TrimSpace (cv_Reason v) \<noteq> '''')}"
  (is "_ \<and> _ = ?K vs")
proof (induction vs rule: rev_induct)
  case (snoc v vs)
  let ?m = "foldl add_reason [] vs" and ?p = "normalizeCompletionPath (cv_Path v)"
  let ?r = "TrimSpace (cv_Reason v)"
  let ?rs = "case map_of ?m ?p of None \<Rightarrow> [] | Some rs \<Rightarrow> rs"
  show ?case
  proof (cases "?p = '''' \<or> ?r = '''' \<or> ?r \<in> set ?rs")
    case True
    then have same: "foldl add_reason [] (vs @ [v]) = ?m" by (simp add: add_reason_def Let_def)
    have "?p = '''' \<or> ?r = '''' \<or> ?p \<in> fst ` set ?m"
      using True by (cases "map_of ?m ?p") (auto simp: image_iff dest!: map_of_SomeD intro: bexI[rotated])
    then have "?K (vs @ [v]) = ?K vs" using snoc by auto
    then show ?thesis using snoc same by simp
  next
    case False
    have "foldl add_reason [] (vs @ [v]) = (if ?p = [] \<or> ?r = [] \<or> ?r \<in> set ?rs then ?m
        else AList.update ?p (?rs @ [?r]) ?m)"
      by (simp only: foldl_append foldl_Cons foldl_Nil add_reason_def Let_def)
    then have put: "foldl add_reason [] (vs @ [v]) = AList.update ?p (?rs @ [?r]) ?m"
      using False by (simp only: if_False)
    have "?p \<noteq> []" "?r \<noteq> []" using False by blast+
    then have "?K (vs @ [v]) = insert ?p (?K vs)" by auto
    moreover have "fst ` set (AList.update ?p (?rs @ [?r]) ?m) = insert ?p (fst ` set ?m)"
      unfolding dom_map_of_conv_image_fst[symmetric] update_conv' by simp
    ultimately show ?thesis using snoc put by (simp add: distinct_update)
  qed
qed simp

lemma merged_violation_paths:
  "sorted (map cv_Path (mergeCompletionViolations gs)) \<and>
   distinct (map cv_Path (mergeCompletionViolations gs)) \<and>
   cv_Path ` set (mergeCompletionViolations gs) =
     {p. p \<noteq> '''' \<and> (\<exists>v \<in> set (concat gs). normalizeCompletionPath (cv_Path v) = p \<and>
        TrimSpace (cv_Reason v) \<noteq> '''')}"
proof -
  let ?m = "foldl add_reason [] (concat gs)"
  have "map cv_Path (mergeCompletionViolations gs) = sort (map fst ?m)"
    by (simp add: mergeCompletionViolations_def Let_def comp_def)
  moreover have "cv_Path ` set (mergeCompletionViolations gs) = fst ` set ?m"
    by (simp add: mergeCompletionViolations_def Let_def image_image)
  ultimately show ?thesis using foldl_add_reason[of "concat gs"] by simp
qed

end
