(* ===== verification/Go_Runes.thy ===== *)
theory Go_Runes
  imports Go_Strings
begin

text \<open>
  What the backend uses of Go's UTF-8 strings beyond single bytes: the width of the rune at the
  head of a string (\<open>utf8.DecodeRuneInString\<close>), the matching of the globs that
  \<open>verifyGlobToRegexp\<close> turns into regular expressions, and the texts that \<open>json.Marshal\<close> writes for
  strings and lists of strings.
\<close>

section \<open>Runes\<close>

definition is_cont :: "char \<Rightarrow> bool" where
  "is_cont c \<longleftrightarrow> 0x80 \<le> byte c \<and> byte c \<le> 0xBF"

text \<open>The number of bytes of a well-formed rune at the head of the string, 0 for an ill-formed
  one: the table of lead bytes with the range of their second byte.\<close>

definition second_range :: "char \<Rightarrow> char \<Rightarrow> bool" where
  "second_range a b \<longleftrightarrow>
     (if byte a = 0xE0 then 0xA0 \<le> byte b \<and> byte b \<le> 0xBF
      else if byte a = 0xED then 0x80 \<le> byte b \<and> byte b \<le> 0x9F
      else if byte a = 0xF0 then 0x90 \<le> byte b \<and> byte b \<le> 0xBF
      else if byte a = 0xF4 then 0x80 \<le> byte b \<and> byte b \<le> 0x8F
      else is_cont b)"

definition valid_width :: "string \<Rightarrow> nat" where
  "valid_width s =
     (case s of
        [] \<Rightarrow> 0
      | a # t \<Rightarrow>
          (if byte a < 0x80 then 1
           else if 0xC2 \<le> byte a \<and> byte a \<le> 0xDF
             then (case t of b # _ \<Rightarrow> if is_cont b then 2 else 0 | [] \<Rightarrow> 0)
           else if 0xE0 \<le> byte a \<and> byte a \<le> 0xEF
             then (case t of b # c # _ \<Rightarrow> if second_range a b \<and> is_cont c then 3 else 0 | _ \<Rightarrow> 0)
           else if 0xF0 \<le> byte a \<and> byte a \<le> 0xF4
             then (case t of b # c # d # _ \<Rightarrow>
                     if second_range a b \<and> is_cont c \<and> is_cont d then 4 else 0 | _ \<Rightarrow> 0)
           else 0))"

text \<open>An ill-formed byte is decoded as one rune of width 1.\<close>

definition rune_width :: "string \<Rightarrow> nat" where
  "rune_width s = (if s = [] then 0 else max 1 (valid_width s))"

lemma rune_width_pos: "s \<noteq> [] \<Longrightarrow> 0 < rune_width s"
  by (simp add: rune_width_def)

lemma rune_width_ascii: "byte c < 0x80 \<Longrightarrow> rune_width (c # s) = 1"
  by (simp add: rune_width_def valid_width_def)

function utf8_valid :: "string \<Rightarrow> bool" where
  "utf8_valid s =
     (if s = [] then True
      else if valid_width s = 0 then False else utf8_valid (drop (valid_width s) s))"
  by auto
termination by (relation "measure length") (auto simp: valid_width_def)

declare utf8_valid.simps [simp del]

lemma utf8_valid_ascii: "list_all (\<lambda>c. byte c < 0x80) s \<Longrightarrow> utf8_valid s"
  by (induction s) (subst utf8_valid.simps, simp add: valid_width_def)+

section \<open>Globs\<close>

text \<open>\<open>verifyGlobToRegexp\<close> and the match of the anchored expression: \<open>**\<close> is any run of runes but
  newlines, \<open>*\<close> one without slashes, \<open>?\<close> one rune that is no slash, all else literal bytes.\<close>

function glob_match :: "string \<Rightarrow> string \<Rightarrow> bool" where
  "glob_match p s =
     (case p of
        [] \<Rightarrow> s = []
      | ch # p1 \<Rightarrow>
          (if ch = CHR ''*'' then
             (case p1 of
                ch2 # p2 \<Rightarrow>
                  (if ch2 = CHR ''*''
                   then glob_match p2 s \<or>
                     (if s = [] \<or> hd s = CHR 0x0A then False else glob_match p (drop (rune_width s) s))
                   else glob_match p1 s \<or>
                     (if s = [] \<or> hd s = CHR ''/'' then False else glob_match p (drop (rune_width s) s)))
              | [] \<Rightarrow> glob_match p1 s \<or>
                  (if s = [] \<or> hd s = CHR ''/'' then False else glob_match p (drop (rune_width s) s)))
           else if ch = CHR ''?''
             then (if s = [] \<or> hd s = CHR ''/'' then False else glob_match p1 (drop (rune_width s) s))
           else (case s of [] \<Rightarrow> False | c # t \<Rightarrow> c = ch \<and> glob_match p1 t)))"
  by pat_completeness auto
termination
  by (relation "measure (\<lambda>(p, s). length p + length s)") (auto simp: rune_width_pos)

declare glob_match.simps [simp del]

text \<open>An expression that is not valid UTF-8 does not compile, and then nothing matches.\<close>

definition matchVerifyGlob :: "string \<Rightarrow> string \<Rightarrow> bool" where
  "matchVerifyGlob pattern candidate \<longleftrightarrow> utf8_valid pattern \<and> glob_match pattern candidate"

section \<open>JSON texts\<close>

definition json_byte :: "char \<Rightarrow> string" where
  "json_byte c =
     (if c = CHR 0x5C \<or> c = CHR 0x22 then [CHR 0x5C, c]
      else if c = CHR 0x08 then [CHR 0x5C, CHR ''b'']
      else if c = CHR 0x0C then [CHR 0x5C, CHR ''f'']
      else if c = CHR 0x0A then [CHR 0x5C, CHR ''n'']
      else if c = CHR 0x0D then [CHR 0x5C, CHR ''r'']
      else if c = CHR 0x09 then [CHR 0x5C, CHR ''t'']
      else if byte c < 0x20 \<or> c = CHR ''<'' \<or> c = CHR ''>'' \<or> c = CHR ''&''
        then [CHR 0x5C, CHR ''u'', CHR ''0'', CHR ''0'',
              hex_digit (byte c div 16), hex_digit (byte c mod 16)]
      else [c])"

function json_chars :: "string \<Rightarrow> string" where
  "json_chars s =
     (if s = [] then []
      else if byte (hd s) < 0x80 then json_byte (hd s) @ json_chars (tl s)
      else if valid_width s = 0 then CHR 0x5C # ''ufffd'' @ json_chars (tl s)
      else if take 3 s = [CHR 0xE2, CHR 0x80, CHR 0xA8] then CHR 0x5C # ''u2028'' @ json_chars (drop 3 s)
      else if take 3 s = [CHR 0xE2, CHR 0x80, CHR 0xA9] then CHR 0x5C # ''u2029'' @ json_chars (drop 3 s)
      else take (valid_width s) s @ json_chars (drop (valid_width s) s))"
  by auto
termination by (relation "measure length") (auto simp: valid_width_def)

declare json_chars.simps [simp del]

definition json_string :: "string \<Rightarrow> string" where
  "json_string s = CHR 0x22 # json_chars s @ [CHR 0x22]"

definition json_list :: "string list \<Rightarrow> string" where
  "json_list xs = ''['' @ join '','' (map json_string xs) @ '']''"

definition json_field :: "string \<Rightarrow> string \<Rightarrow> string" where
  "json_field name value = json_string name @ '':'' @ value"

section \<open>Facts about globs\<close>

lemma glob_match_Nil [simp]: "glob_match [] s \<longleftrightarrow> s = []"
  by (simp add: glob_match.simps[of "[]"])

lemma glob_match_literal:
  "ch \<noteq> CHR ''*'' \<Longrightarrow> ch \<noteq> CHR ''?'' \<Longrightarrow>
     glob_match (ch # p) s \<longleftrightarrow> (\<exists>t. s = ch # t \<and> glob_match p t)"
  by (subst glob_match.simps) (auto split: list.split)

lemma glob_match_plain:
  "CHR ''*'' \<notin> set p \<Longrightarrow> CHR ''?'' \<notin> set p \<Longrightarrow> glob_match (p @ q) s \<longleftrightarrow>
     (\<exists>t. s = p @ t \<and> glob_match q t)"
  by (induction p arbitrary: s) (auto simp: glob_match_literal)

lemma glob_match_double_star_suffix:
  "CHR 0x0A \<notin> set s \<Longrightarrow> glob_match ''**'' s"
proof (induction "length s" arbitrary: s rule: less_induct)
  case less
  show ?case
  proof (cases s)
    case Nil
    then show ?thesis by (subst glob_match.simps) simp
  next
    case (Cons c t)
    have "glob_match ''**'' (drop (rune_width s) s)"
      using less(2) Cons rune_width_pos[of s] by (intro less(1)) (auto dest: in_set_dropD)
    then show ?thesis using less(2) Cons by (subst glob_match.simps) auto
  qed
qed

end
