(* ===== verification/Backend_Select.thy ===== *)
theory Backend_Select
  imports Backend_Scope Go_Runes
begin

text \<open>
  The configured checks: verification tests of \<open>verify.go\<close> and required workflow tasks of
  \<open>workflows.go\<close>, from the decoded YAML documents to validated definitions, and their selection
  for a phase, tags and changed files. \<open>os.Stat\<close>, \<open>os.ReadFile\<close> and the YAML decoder are fields
  of the environment; a YAML map is the list of its entries in the order of Go's iteration.
\<close>

section \<open>Documents\<close>

record verifyTestSelectionV1 =
  vsel_Phases :: "string list"
  vsel_TagsAny :: "string list"
  vsel_ChangedPathsAny :: "string list"
  vsel_AlwaysRun :: bool

record verifyTestCommandV1 =
  vcmd_Argv :: "string list"
  vcmd_CWD :: string
  vcmd_TimeoutSec :: int
  vcmd_Env :: "(string \<times> string) list"

record verifyTestDocumentV1 =
  vdoc_ID :: string
  vdoc_Summary :: string
  vdoc_Command :: verifyTestCommandV1
  vdoc_Select :: verifyTestSelectionV1
  vdoc_ExpectedExitCode :: "int option"

record verifyTestsDocumentV1 =
  vtd_Version :: string
  vtd_DefaultCWD :: string
  vtd_DefaultTimeoutSec :: int
  vtd_Tests :: "verifyTestDocumentV1 list"

record workflowRequiredTaskDocumentV1 =
  wdoc_Key :: string
  wdoc_Summary :: string
  wdoc_MaxAttempts :: "int option"
  wdoc_RerunRequiresNewFingerprint :: "bool option"
  wdoc_Select :: verifyTestSelectionV1
  wdoc_Run :: "verifyTestCommandV1 option"

record workflowDefinitionsDocumentV1 =
  wdd_Version :: string
  wdd_RequiredTasks :: "workflowRequiredTaskDocumentV1 list"

datatype 'd def_file = ReadError string | ParseError string | Parsed 'd

section \<open>Definitions\<close>

record verifyTestDefinition =
  vd_ID :: string
  vd_Summary :: string
  vd_Argv :: "string list"
  vd_CWD :: string
  vd_TimeoutSec :: int
  vd_Env :: "(string \<times> string) list"
  vd_Phases :: "string list"
  vd_TagsAny :: "string list"
  vd_ChangedPathsAny :: "string list"
  vd_AlwaysRun :: bool
  vd_ExpectedExitCode :: int
  vd_DefinitionHash :: string

record workflowRunDefinition =
  wrd_Argv :: "string list"
  wrd_CWD :: string
  wrd_TimeoutSec :: int
  wrd_Env :: "(string \<times> string) list"

record workflowRequiredTaskDefinition =
  wtd_Key :: string
  wtd_Summary :: string
  wtd_MaxAttempts :: int
  wtd_RerunRequiresNewFingerprint :: bool
  wtd_Phases :: "string list"
  wtd_TagsAny :: "string list"
  wtd_ChangedPathsAny :: "string list"
  wtd_AlwaysRun :: bool
  wtd_Run :: "workflowRunDefinition option"

record verifySelectionContext =
  vsc_ReceiptID :: string
  vsc_PlanKey :: string
  vsc_Phase :: string
  vsc_Tags :: "string list"
  vsc_FilesChanged :: "string list"

record verifyCommandRun =
  vcr_ExitCode :: "int option"
  vcr_Stdout :: string
  vcr_Stderr :: string
  vcr_StartedAt :: int
  vcr_FinishedAt :: int
  vcr_TimedOut :: bool
  vcr_Err :: "string option"

text \<open>The environment of the service: \<open>se_stat p\<close> tells whether the project file \<open>p\<close> exists and
  is no directory; the two readers give the content of a definitions file; \<open>se_run i\<close> runs the
  \<open>i\<close>-th command of a call (argv, working directory, timeout, environments) and \<open>se_fs\<close> is the
  tree of files that a review fingerprint reads.\<close>

datatype fs_node =
  FsMissing
| FsStatError string
| FsDir "(string \<times> string) list go_result"
| FsFile "string go_result"

record service_env =
  se_ctx :: context_env
  se_root :: string
  se_stat :: "string \<Rightarrow> bool go_result"
  se_tests :: "string \<Rightarrow> verifyTestsDocumentV1 def_file"
  se_workflows :: "string \<Rightarrow> workflowDefinitionsDocumentV1 def_file"
  se_run :: "nat \<Rightarrow> string list \<Rightarrow> string \<Rightarrow> int \<Rightarrow> (string \<times> string) list \<Rightarrow> (string \<times> string) list
    \<Rightarrow> verifyCommandRun"
  se_batch_id :: "string go_result"
  se_now :: "nat \<Rightarrow> int"
  se_fs :: "string \<Rightarrow> fs_node"
  se_runner_file :: "string \<Rightarrow> string \<Rightarrow> (string \<times> string option go_result) option"
  se_vcs :: VCSInfo
  se_fresh_receipt :: string

section \<open>Normalizers\<close>

definition wrap_err :: "string \<Rightarrow> 'a go_result \<Rightarrow> 'a go_result" where
  "wrap_err pre r = (case r of Inl e \<Rightarrow> Inl (GoErr (pre @ go_error_text e)) | Inr x \<Rightarrow> Inr x)"

fun argv_entries :: "nat \<Rightarrow> string list \<Rightarrow> string list go_result" where
  "argv_entries i [] = Inr []"
| "argv_entries i (arg # rest) =
     (let trimmed = TrimSpace arg in
      if trimmed = '''' \<or> length trimmed > 1024
      then Inl (GoErr (''['' @ itoa_nat i @ ''] must be 1..1024 chars''))
      else bind_res (argv_entries (Suc i) rest) (\<lambda>ys. Inr (trimmed # ys)))"

definition normalizeVerifyArgv :: "string list \<Rightarrow> string list go_result" where
  "normalizeVerifyArgv raw =
     (if raw = [] then Inl (GoErr ''must not be empty'')
      else if length raw > 256 then Inl (GoErr ''may include at most 256 entries'')
      else argv_entries 0 raw)"

definition verifyEnvKeyPattern :: "string \<Rightarrow> bool" where
  "verifyEnvKeyPattern s =
     match_head_tail (\<lambda>c. is_upper c \<or> is_lower c \<or> c = CHR ''_'') (\<lambda>c. is_alnum c \<or> c = CHR ''_'') 0 127 s"

fun env_entries ::
  "(string \<times> string) list \<Rightarrow> (string \<times> string) list \<Rightarrow> (string \<times> string) list go_result" where
  "env_entries out [] = Inr out"
| "env_entries out ((rawKey, rawValue) # rest) =
     (let key = TrimSpace rawKey in
      if \<not> verifyEnvKeyPattern key then Inl (GoErr (''key '' @ go_quote rawKey @ '' is invalid''))
      else if length rawValue > 4096
        then Inl (GoErr (''value for '' @ go_quote key @ '' may not exceed 4096 chars''))
      else env_entries (AList.update key rawValue out) rest)"

definition normalizeVerifyEnv :: "(string \<times> string) list \<Rightarrow> (string \<times> string) list go_result" where
  "normalizeVerifyEnv raw =
     (if raw = [] then Inr []
      else if length raw > 64 then Inl (GoErr ''may include at most 64 entries'')
      else env_entries [] raw)"

definition normalizeVerifyWorkingDir :: "string \<Rightarrow> string go_result" where
  "normalizeVerifyWorkingDir raw =
     (let trimmed = TrimSpace raw in
      if trimmed = '''' then Inr ''.''
      else if filepath_IsAbs trimmed then Inl (GoErr ''must be repository-relative'')
      else let normalized = path_Clean (ReplaceByte (CHR 0x5C) (CHR ''/'') trimmed) in
        if normalized = ''..'' \<or> HasPrefix normalized ''../''
        then Inl (GoErr ''must be repository-relative'')
        else Inr normalized)"

definition normalizeVerifyTimeout :: "int \<Rightarrow> bool \<Rightarrow> int go_result" where
  "normalizeVerifyTimeout raw allowZero =
     (if raw = 0 \<and> allowZero then Inr 300
      else if raw \<le> 0 \<or> raw > 86400 then Inl (GoErr ''must be between 1 and 86400'')
      else Inr raw)"

fun phase_entries :: "nat \<Rightarrow> string list \<Rightarrow> string list \<Rightarrow> string list go_result" where
  "phase_entries i out [] = Inr out"
| "phase_entries i out (value # rest) =
     (let phase = ToLower (TrimSpace value) in
      if phase \<notin> set [''plan'', ''execute'', ''review'']
      then Inl (GoErr (''['' @ itoa_nat i @ ''] must be plan|execute|review''))
      else phase_entries (Suc i) (if phase \<in> set out then out else out @ [phase]) rest)"

definition normalizeVerifyPhases :: "string list \<Rightarrow> string list go_result" where
  "normalizeVerifyPhases raw = bind_res (phase_entries 0 [] raw) (\<lambda>out. Inr (sort out))"

fun glob_entries :: "nat \<Rightarrow> string list \<Rightarrow> string list \<Rightarrow> string list go_result" where
  "glob_entries i out [] = Inr out"
| "glob_entries i out (value # rest) =
     (let trimmed = TrimSpace value in
      if trimmed = '''' then Inl (GoErr (''['' @ itoa_nat i @ ''] must not be empty''))
      else if filepath_IsAbs trimmed
        then Inl (GoErr (''['' @ itoa_nat i @ ''] must be repository-relative''))
      else let normalized = path_Clean (ReplaceByte (CHR 0x5C) (CHR ''/'') trimmed) in
        if normalized = ''..'' \<or> HasPrefix normalized ''../''
        then Inl (GoErr (''['' @ itoa_nat i @ ''] must be repository-relative''))
        else glob_entries (Suc i) (if normalized \<in> set out then out else out @ [normalized]) rest)"

definition normalizeVerifyGlobs :: "string list \<Rightarrow> string list go_result" where
  "normalizeVerifyGlobs raw = bind_res (glob_entries 0 [] raw) (\<lambda>out. Inr (sort out))"

section \<open>The hash of a test definition\<close>

definition verifyEnvPairs :: "(string \<times> string) list \<Rightarrow> (string \<times> string) list" where
  "verifyEnvPairs values = map (\<lambda>k. (k, the (map_of values k))) (sort (map fst values))"

definition definition_json :: "verifyTestDefinition \<Rightarrow> string" where
  "definition_json d =
     ''{'' @ join '',''
       ([json_field ''id'' (json_string (vd_ID d)), json_field ''summary'' (json_string (vd_Summary d)),
         json_field ''argv'' (json_list (vd_Argv d)), json_field ''cwd'' (json_string (vd_CWD d)),
         json_field ''timeout_sec'' (itoa (vd_TimeoutSec d))] @
        (if vd_Env d = [] then []
         else [json_field ''env'' (''['' @ join '',''
           (map (\<lambda>(k, v). ''{'' @ json_field ''key'' (json_string k) @ '','' @
                                json_field ''value'' (json_string v) @ ''}'')
             (verifyEnvPairs (vd_Env d))) @ '']'')]) @
        (if vd_Phases d = [] then [] else [json_field ''phases'' (json_list (vd_Phases d))]) @
        (if vd_TagsAny d = [] then [] else [json_field ''tags_any'' (json_list (vd_TagsAny d))]) @
        (if vd_ChangedPathsAny d = [] then []
         else [json_field ''changed_paths_any'' (json_list (vd_ChangedPathsAny d))]) @
        (if vd_AlwaysRun d then [json_field ''always_run'' ''true''] else []) @
        [json_field ''expected_exit_code'' (itoa (vd_ExpectedExitCode d))]) @ ''}''"

definition verifyDefinitionHash :: "(nat \<Rightarrow> string \<Rightarrow> string) \<Rightarrow> verifyTestDefinition \<Rightarrow> string" where
  "verifyDefinitionHash sha d = ''sha256:'' @ sha 32 (definition_json d)"

section \<open>Validated definitions\<close>

text \<open>The selector fields, checked in the order of the code; \<open>prefix\<close> names the entry.\<close>

definition normalize_selection ::
  "alias_map \<Rightarrow> string \<Rightarrow> verifyTestSelectionV1 \<Rightarrow> (string list \<times> string list \<times> string list) go_result" where
  "normalize_selection m pre sel =
     bind_res (wrap_err (pre @ ''.select.phases '') (normalizeVerifyPhases (vsel_Phases sel))) (\<lambda>phases.
     let tagsAny = normalizeTags m (vsel_TagsAny sel) in
     bind_res (wrap_err (pre @ ''.select.changed_paths_any '')
         (normalizeVerifyGlobs (vsel_ChangedPathsAny sel))) (\<lambda>changedPathsAny.
     if vsel_AlwaysRun sel \<and> (phases \<noteq> [] \<or> tagsAny \<noteq> [] \<or> changedPathsAny \<noteq> [])
     then Inl (GoErr (pre @ ''.select.always_run must not be combined with other selector fields''))
     else Inr (phases, tagsAny, changedPathsAny)))"

definition verifyTestIDPattern :: "string \<Rightarrow> bool" where
  "verifyTestIDPattern s =
     match_head_tail (\<lambda>c. is_lower c \<or> is_digit c)
       (\<lambda>c. is_lower c \<or> is_digit c \<or> c = CHR ''.'' \<or> c = CHR ''_'' \<or> c = CHR ''-'') 0 127 s"

definition normalizeVerifyDefinition ::
  "(nat \<Rightarrow> string \<Rightarrow> string) \<Rightarrow> alias_map \<Rightarrow> string \<Rightarrow> string \<Rightarrow> int \<Rightarrow> nat \<Rightarrow> verifyTestDocumentV1 \<Rightarrow>
     verifyTestDefinition go_result" where
  "normalizeVerifyDefinition sha m sourcePath defaultCWD defaultTimeout index raw =
     (let pre = ''verification definitions '' @ sourcePath @ '' tests['' @ itoa_nat index @ '']'';
          cmd = vdoc_Command raw;
          id = ToLower (TrimSpace (vdoc_ID raw));
          summary = TrimSpace (vdoc_Summary raw) in
      if \<not> verifyTestIDPattern id then Inl (GoErr (pre @ ''.id format is invalid''))
      else if summary = '''' \<or> length summary > 600
        then Inl (GoErr (pre @ ''.summary must be 1..600 chars''))
      else
        bind_res (wrap_err (pre @ ''.command.argv '') (normalizeVerifyArgv (vcmd_Argv cmd))) (\<lambda>argv.
        bind_res (wrap_err (pre @ ''.command.env '') (normalizeVerifyEnv (vcmd_Env cmd))) (\<lambda>env.
        bind_res (wrap_err (pre @ ''.command.cwd '')
            (normalizeVerifyWorkingDir (firstNonEmpty [vcmd_CWD cmd, defaultCWD]))) (\<lambda>cwd.
        bind_res (if vcmd_TimeoutSec cmd \<noteq> 0
                  then wrap_err (pre @ ''.command.timeout_sec '')
                         (normalizeVerifyTimeout (vcmd_TimeoutSec cmd) False)
                  else Inr defaultTimeout) (\<lambda>timeout.
        bind_res (normalize_selection m pre (vdoc_Select raw)) (\<lambda>(phases, tagsAny, changedPathsAny).
        let expectedExitCode = (case vdoc_ExpectedExitCode raw of None \<Rightarrow> 0 | Some c \<Rightarrow> c) in
        if expectedExitCode < 0 \<or> expectedExitCode > 255
        then Inl (GoErr (pre @ ''.expected.exit_code must be between 0 and 255''))
        else
          let d = \<lparr> vd_ID = id, vd_Summary = summary, vd_Argv = argv, vd_CWD = cwd,
                    vd_TimeoutSec = timeout, vd_Env = env, vd_Phases = phases, vd_TagsAny = tagsAny,
                    vd_ChangedPathsAny = changedPathsAny, vd_AlwaysRun = vsel_AlwaysRun (vdoc_Select raw),
                    vd_ExpectedExitCode = expectedExitCode, vd_DefinitionHash = '''' \<rparr>
          in Inr (d\<lparr>vd_DefinitionHash := verifyDefinitionHash sha d\<rparr>)))))))"

definition normalizeWorkflowRequiredTask ::
  "alias_map \<Rightarrow> string \<Rightarrow> nat \<Rightarrow> workflowRequiredTaskDocumentV1 \<Rightarrow>
     workflowRequiredTaskDefinition go_result" where
  "normalizeWorkflowRequiredTask m sourcePath index raw =
     (let pre = ''workflow definitions '' @ sourcePath @ '' completion.required_tasks['' @
                itoa_nat index @ '']'';
          key = TrimSpace (wdoc_Key raw);
          summary = TrimSpace (wdoc_Summary raw);
          attempts = wdoc_MaxAttempts raw;
          always = vsel_AlwaysRun (wdoc_Select raw) in
      if key = '''' \<or> length key > 512 then Inl (GoErr (pre @ ''.key must be 1..512 chars''))
      else if length summary > 600
        then Inl (GoErr (pre @ ''.summary must be 1..600 chars when provided''))
      else if (case attempts of None \<Rightarrow> False | Some n \<Rightarrow> n < 1 \<or> n > 16)
        then Inl (GoErr (pre @ ''.max_attempts must be 1..16 when provided''))
      else
        bind_res (normalize_selection m pre (wdoc_Select raw)) (\<lambda>(phases, tagsAny, changedPathsAny).
        let base = \<lparr> wtd_Key = key, wtd_Summary = summary, wtd_MaxAttempts = 0,
                     wtd_RerunRequiresNewFingerprint = False, wtd_Phases = phases,
                     wtd_TagsAny = tagsAny, wtd_ChangedPathsAny = changedPathsAny,
                     wtd_AlwaysRun =
                       (always \<or> (phases = [] \<and> tagsAny = [] \<and> changedPathsAny = [])),
                     wtd_Run = None \<rparr> in
        case wdoc_Run raw of
          None \<Rightarrow>
            (if attempts \<noteq> None \<or> wdoc_RerunRequiresNewFingerprint raw \<noteq> None
             then Inl (GoErr (pre @ ''.max_attempts and '' @ pre @
                    ''.rerun_requires_new_fingerprint require run''))
             else Inr base)
        | Some run \<Rightarrow>
            bind_res (wrap_err (pre @ ''.run.argv '') (normalizeVerifyArgv (vcmd_Argv run))) (\<lambda>argv.
            bind_res (wrap_err (pre @ ''.run.env '') (normalizeVerifyEnv (vcmd_Env run))) (\<lambda>env.
            bind_res (wrap_err (pre @ ''.run.cwd '') (normalizeVerifyWorkingDir (vcmd_CWD run))) (\<lambda>cwd.
            bind_res (wrap_err (pre @ ''.run.timeout_sec '')
                (normalizeVerifyTimeout (vcmd_TimeoutSec run) True)) (\<lambda>timeout.
            Inr (base\<lparr>wtd_MaxAttempts := (case attempts of None \<Rightarrow> 0 | Some n \<Rightarrow> n),
                      wtd_RerunRequiresNewFingerprint :=
                        (case wdoc_RerunRequiresNewFingerprint raw of None \<Rightarrow> True | Some b \<Rightarrow> b),
                      wtd_Run := Some \<lparr> wrd_Argv = argv, wrd_CWD = cwd, wrd_TimeoutSec = timeout,
                                       wrd_Env = env \<rparr>\<rparr>)))))))"

section \<open>Loading\<close>

text \<open>A load ends with the source path and the definitions, the error \<open>os.ErrNotExist\<close> or another
  error.\<close>

datatype load_error = NotExist | LoadErr string

definition resolveProjectSourcePath :: "string \<Rightarrow> string go_result" where
  "resolveProjectSourcePath raw =
     (let trimmed = TrimSpace raw in
      if trimmed = '''' then Inl (GoErr ''source path is required'')
      else let normalizedSlashes = ReplaceByte (CHR 0x5C) (CHR ''/'') trimmed in
        if HasPrefix normalizedSlashes ''/'' \<or> isWindowsAbsolutePath normalizedSlashes
        then Inr (path_Clean normalizedSlashes)
        else let relativePath = normalizeCompletionPath trimmed in
          if relativePath = '''' then Inl (GoErr ''source path must be repository-relative'')
          else Inr relativePath)"

text \<open>\<open>statVerifyTestsSource\<close> and \<open>statWorkflowDefinitionsSource\<close>; \<open>what\<close> is the word their
  messages differ in.\<close>

definition stat_source :: "string \<Rightarrow> service_env \<Rightarrow> string \<Rightarrow> (string \<times> bool) go_result" where
  "stat_source what env sourcePath =
     bind_res (wrap_err (what @ '' definitions source path is required: '')
         (resolveProjectSourcePath sourcePath)) (\<lambda>normalized.
     bind_res (wrap_err (''stat '' @ what @ '' definitions '' @ normalized @ '': '') (se_stat env normalized))
       (\<lambda>exists. Inr (normalized, exists)))"

definition discover_source ::
  "string \<Rightarrow> string \<Rightarrow> string \<Rightarrow> service_env \<Rightarrow> string \<Rightarrow> (string \<times> bool) go_result" where
  "discover_source what primary_path secondary_path env file =
     (if TrimSpace file \<noteq> '''' then stat_source what env (TrimSpace file)
      else bind_res (stat_source what env primary_path) (\<lambda>primary.
        if snd primary then Inr primary
        else bind_res (stat_source what env secondary_path) (\<lambda>secondary.
          if snd secondary then Inr secondary else Inr primary)))"

definition discoverVerifyTestsSource :: "service_env \<Rightarrow> string \<Rightarrow> (string \<times> bool) go_result" where
  "discoverVerifyTestsSource = discover_source ''verification'' ''.awm/awm-tests.yaml'' ''awm-tests.yaml''"

definition discoverWorkflowDefinitionsSource :: "service_env \<Rightarrow> string \<Rightarrow> (string \<times> bool) go_result" where
  "discoverWorkflowDefinitionsSource =
     discover_source ''workflow'' ''.awm/awm-workflows.yaml'' ''awm-workflows.yaml''"

text \<open>The loop over the tests with its set of used ids.\<close>

fun test_definitions ::
  "(nat \<Rightarrow> verifyTestDocumentV1 \<Rightarrow> verifyTestDefinition go_result) \<Rightarrow> string \<Rightarrow> nat \<Rightarrow> string list \<Rightarrow>
     verifyTestDocumentV1 list \<Rightarrow> verifyTestDefinition list go_result" where
  "test_definitions norm sourcePath i seen [] = Inr []"
| "test_definitions norm sourcePath i seen (raw # rest) =
     bind_res (norm i raw) (\<lambda>d.
       if vd_ID d \<in> set seen
       then Inl (GoErr (''verification definitions '' @ sourcePath @ '' tests['' @ itoa_nat i @
              ''].id duplicates '' @ go_quote (vd_ID d)))
       else bind_res (test_definitions norm sourcePath (Suc i) (vd_ID d # seen) rest)
              (\<lambda>ds. Inr (d # ds)))"

definition tests_of_document ::
  "service_env \<Rightarrow> alias_map \<Rightarrow> string \<Rightarrow> verifyTestsDocumentV1 \<Rightarrow> verifyTestDefinition list go_result" where
  "tests_of_document env m src doc =
     (let pre = ''verification definitions '' @ src in
      if TrimSpace (vtd_Version doc) \<noteq> ''awm.tests.v1''
      then Inl (GoErr (pre @ '' have unsupported version '' @ go_quote (TrimSpace (vtd_Version doc))))
      else if length (vtd_Tests doc) > 512
      then Inl (GoErr (pre @ '' may include at most 512 tests''))
      else
        bind_res (wrap_err (pre @ '' defaults.cwd '') (normalizeVerifyWorkingDir (vtd_DefaultCWD doc)))
          (\<lambda>defaultCWD.
        bind_res (wrap_err (pre @ '' defaults.timeout_sec '')
            (normalizeVerifyTimeout (vtd_DefaultTimeoutSec doc) True)) (\<lambda>defaultTimeout.
        bind_res (test_definitions (normalizeVerifyDefinition (env_sha (se_ctx env)) m src defaultCWD
            defaultTimeout) src 0 [] (vtd_Tests doc)) (\<lambda>ds. Inr (sort_key vd_ID ds)))))"

definition loadVerifyDefinitions ::
  "service_env \<Rightarrow> string \<Rightarrow> string \<Rightarrow> string \<times> (load_error + verifyTestDefinition list)" where
  "loadVerifyDefinitions env testsFile tagsFile =
     (case loadMergedCanonicalTagAliasMap (se_ctx env) tagsFile of
        Inl e \<Rightarrow> ('''', Inl (LoadErr (''load canonical tags: '' @ go_error_text e)))
      | Inr m \<Rightarrow>
          (case discoverVerifyTestsSource env testsFile of
             Inl e \<Rightarrow> ('''', Inl (LoadErr (go_error_text e)))
           | Inr (src, exists) \<Rightarrow>
               (src,
                if \<not> exists then Inl NotExist
                else case se_tests env src of
                  ReadError e \<Rightarrow> Inl (LoadErr (''read verification definitions '' @ src @ '': '' @ e))
                | ParseError e \<Rightarrow> Inl (LoadErr (''parse verification definitions '' @ src @ '': '' @ e))
                | Parsed doc \<Rightarrow>
                    (case tests_of_document env m src doc of
                       Inl e \<Rightarrow> Inl (LoadErr (go_error_text e)) | Inr ds \<Rightarrow> Inr ds))))"

definition workflow_tasks_of_document ::
  "alias_map \<Rightarrow> string \<Rightarrow> workflowDefinitionsDocumentV1 \<Rightarrow> workflowRequiredTaskDefinition list go_result" where
  "workflow_tasks_of_document m src doc =
     (if TrimSpace (wdd_Version doc) \<noteq> ''awm.workflows.v1''
      then Inl (GoErr (''workflow definitions '' @ src @ '' have unsupported version '' @
             go_quote (TrimSpace (wdd_Version doc))))
      else if length (wdd_RequiredTasks doc) > 128
      then Inl (GoErr (''workflow definitions '' @ src @
             '' may include at most 128 completion.required_tasks entries''))
      else map_res (\<lambda>(i, raw). normalizeWorkflowRequiredTask m src i raw)
             (index_from 0 (wdd_RequiredTasks doc)))"

text \<open>The source path, whether the file exists, and the definitions (none without a file).\<close>

definition loadWorkflowCompletionRequirements ::
  "service_env \<Rightarrow> string \<Rightarrow> string \<Rightarrow>
     (string \<times> bool) \<times> (load_error + workflowRequiredTaskDefinition list)" where
  "loadWorkflowCompletionRequirements env workflowsFile tagsFile =
     (case loadMergedCanonicalTagAliasMap (se_ctx env) tagsFile of
        Inl e \<Rightarrow> (('''', False), Inl (LoadErr (''load canonical tags: '' @ go_error_text e)))
      | Inr m \<Rightarrow>
          (case discoverWorkflowDefinitionsSource env workflowsFile of
             Inl e \<Rightarrow> (('''', False), Inl (LoadErr (go_error_text e)))
           | Inr (src, exists) \<Rightarrow>
               ((src, exists),
                if \<not> exists then Inr []
                else case se_workflows env src of
                  ReadError e \<Rightarrow> Inl (LoadErr (''read workflow definitions '' @ src @ '': '' @ e))
                | ParseError e \<Rightarrow> Inl (LoadErr (''parse workflow definitions '' @ src @ '': '' @ e))
                | Parsed doc \<Rightarrow>
                    (case workflow_tasks_of_document m src doc of
                       Inl e \<Rightarrow> Inl (LoadErr (go_error_text e)) | Inr ds \<Rightarrow> Inr ds))))"

definition verifyDefinitionsAPIError :: "string \<Rightarrow> load_error \<Rightarrow> APIError" where
  "verifyDefinitionsAPIError sourcePath err =
     (case err of
        NotExist \<Rightarrow> backendError ErrCodeNotFound ''verification definitions file was not found''
          [(''tests_source_path'', DStr sourcePath)]
      | LoadErr e \<Rightarrow> backendError ErrCodeInvalidInput ''verification definitions are invalid''
          [(''tests_source_path'', DStr sourcePath), (''error'', DStr e)])"

definition workflowDefinitionsAPIError :: "string \<Rightarrow> load_error \<Rightarrow> APIError" where
  "workflowDefinitionsAPIError sourcePath err =
     (case err of
        NotExist \<Rightarrow> backendError ErrCodeNotFound ''workflow definitions file was not found''
          [(''workflow_source_path'', DStr sourcePath)]
      | LoadErr e \<Rightarrow> backendError ErrCodeInvalidInput ''workflow definitions are invalid''
          [(''workflow_source_path'', DStr sourcePath), (''error'', DStr e)])"

section \<open>Selection\<close>

definition containsVerifyPhase :: "string list \<Rightarrow> string \<Rightarrow> bool" where
  "containsVerifyPhase values candidate \<longleftrightarrow> candidate \<in> set values"

definition firstVerifyStringIntersection :: "string list \<Rightarrow> string list \<Rightarrow> string option" where
  "firstVerifyStringIntersection values candidates =
     map_option TrimSpace (find (\<lambda>v. TrimSpace v \<in> TrimSpace ` set candidates) values)"

definition matchVerifyChangedPaths :: "string list \<Rightarrow> string list \<Rightarrow> string option" where
  "matchVerifyChangedPaths patterns paths =
     map_option snd (find (\<lambda>(pattern, path). matchVerifyGlob pattern path)
       (concat (map (\<lambda>pattern. map (\<lambda>path. (pattern, path)) paths) patterns)))"

text \<open>The three selectors, as the list of their reasons; an unused selector gives no reason.\<close>

definition selector_reasons ::
  "string list \<Rightarrow> string list \<Rightarrow> string list \<Rightarrow> verifySelectionContext \<Rightarrow> string list option" where
  "selector_reasons phases tagsAny changedPathsAny selection =
     (let phase =
            (if phases = [] then Some []
             else if vsc_Phase selection = '''' \<or> \<not> containsVerifyPhase phases (vsc_Phase selection)
             then None else Some [''phase='' @ vsc_Phase selection]);
          tags =
            (if tagsAny = [] then Some []
             else map_option (\<lambda>t. [''tags_any matched '' @ t])
               (firstVerifyStringIntersection tagsAny (vsc_Tags selection)));
          paths =
            (if changedPathsAny = [] then Some []
             else map_option (\<lambda>p. [''changed_paths_any matched '' @ p])
               (matchVerifyChangedPaths changedPathsAny (vsc_FilesChanged selection)))
      in case (phase, tags, paths) of
           (Some a, Some b, Some c) \<Rightarrow> Some (a @ b @ c)
         | _ \<Rightarrow> None)"

definition matchVerifyDefinition ::
  "verifyTestDefinition \<Rightarrow> verifySelectionContext \<Rightarrow> string list option" where
  "matchVerifyDefinition d selection =
     (if vd_AlwaysRun d then Some [''always_run=true'']
      else if length (vd_Phases d) + length (vd_TagsAny d) + length (vd_ChangedPathsAny d) = 0 then None
      else selector_reasons (vd_Phases d) (vd_TagsAny d) (vd_ChangedPathsAny d) selection)"

definition matchWorkflowRequiredTask ::
  "workflowRequiredTaskDefinition \<Rightarrow> verifySelectionContext \<Rightarrow> bool" where
  "matchWorkflowRequiredTask d selection \<longleftrightarrow>
     wtd_AlwaysRun d \<or>
     selector_reasons (wtd_Phases d) (wtd_TagsAny d) (wtd_ChangedPathsAny d) selection \<noteq> None"

fun first_by_key ::
  "string list \<Rightarrow> workflowRequiredTaskDefinition list \<Rightarrow> workflowRequiredTaskDefinition list" where
  "first_by_key seen [] = []"
| "first_by_key seen (d # ds) =
     (if wtd_Key d \<in> set seen then first_by_key seen ds
      else d # first_by_key (wtd_Key d # seen) ds)"

definition matchWorkflowRequiredTaskDefinitions ::
  "workflowRequiredTaskDefinition list \<Rightarrow> verifySelectionContext \<Rightarrow> workflowRequiredTaskDefinition list"
  where
  "matchWorkflowRequiredTaskDefinitions definitions selection =
     first_by_key [] (filter (\<lambda>d. matchWorkflowRequiredTask d selection) definitions)"

definition defaultCompletionRequiredTaskKeys :: "bool \<Rightarrow> string list" where
  "defaultCompletionRequiredTaskKeys hasFilesChanged =
     (if hasFilesChanged then [''verify:tests''] else [])"

definition normalizeCompletionRequiredTaskKeys :: "string list \<Rightarrow> string list" where
  "normalizeCompletionRequiredTaskKeys keys = elems (normalizeValues (Some keys))"

definition hasConfiguredWorkflowRequiredTasks ::
  "bool \<Rightarrow> workflowRequiredTaskDefinition list \<Rightarrow> bool" where
  "hasConfiguredWorkflowRequiredTasks exists definitions \<longleftrightarrow> exists \<and> definitions \<noteq> []"

definition findWorkflowRequiredTaskDefinition ::
  "workflowRequiredTaskDefinition list \<Rightarrow> string \<Rightarrow> workflowRequiredTaskDefinition option" where
  "findWorkflowRequiredTaskDefinition definitions key =
     (let needle = TrimSpace key in
      if needle = '''' then None else find (\<lambda>d. wtd_Key d = needle) definitions)"

text \<open>The chosen tests with the reasons of their selection.\<close>

fun explicit_tests ::
  "verifyTestDefinition list \<Rightarrow> string list \<Rightarrow> APIError + (verifyTestDefinition \<times> string list) list" where
  "explicit_tests definitions [] = Inr []"
| "explicit_tests definitions (rawID # rest) =
     (let testID = ToLower (TrimSpace rawID) in
      case find (\<lambda>d. vd_ID d = testID) (rev definitions) of
        None \<Rightarrow> Inl (backendError ErrCodeInvalidInput ''unknown test_id'' [(''test_id'', DStr testID)])
      | Some d \<Rightarrow> bind_res (explicit_tests definitions rest) (\<lambda>ds.
          Inr ((d, [''explicit test_id='' @ testID]) # ds)))"

definition selectVerifyDefinitions ::
  "verifyTestDefinition list \<Rightarrow> VerifyPayload \<Rightarrow> verifySelectionContext \<Rightarrow>
     APIError + (verifyTestDefinition \<times> string list) list" where
  "selectVerifyDefinitions definitions payload selection =
     (if elems (vp_TestIDs payload) \<noteq> [] then explicit_tests definitions (elems (vp_TestIDs payload))
      else Inr (List.map_filter
        (\<lambda>d. map_option (\<lambda>rs. (d, rs)) (matchVerifyDefinition d selection)) definitions))"

end
