(* ===== verification/Backend_Verify.thy ===== *)
theory Backend_Verify
  imports Backend_Select
begin

text \<open>
  \<open>Verify\<close> of \<open>internal/service/backend/verify.go\<close>: resolving the selection context from the
  receipt, running the selected tests, classifying what they did, storing the batch and writing
  the outcome to the work item \<open>verify:tests\<close>. Running a process is a field of the environment.
\<close>

section \<open>Outcomes of commands\<close>

definition classifyVerifyCommandRun :: "verifyCommandRun \<Rightarrow> int \<Rightarrow> string" where
  "classifyVerifyCommandRun run expectedExitCode =
     (if vcr_TimedOut run then ''timed_out''
      else case vcr_Err run of
        None \<Rightarrow>
          (case vcr_ExitCode run of
             Some c \<Rightarrow> if c \<noteq> expectedExitCode then ''failed'' else ''passed''
           | None \<Rightarrow> ''passed'')
      | Some _ \<Rightarrow>
          (case vcr_ExitCode run of
             Some c \<Rightarrow> if c = expectedExitCode then ''passed'' else ''failed''
           | None \<Rightarrow> ''errored''))"

definition verifyRunDurationMS :: "verifyCommandRun \<Rightarrow> int" where
  "verifyRunDurationMS run =
     (if vcr_FinishedAt run < vcr_StartedAt run then 0
      else (vcr_FinishedAt run - vcr_StartedAt run) div 1000000)"

definition excerptVerifyOutput :: "string \<Rightarrow> string" where
  "excerptVerifyOutput raw =
     (let trimmed = TrimSpace raw in
      if length trimmed \<le> 1600 then trimmed
      else take (1600 - 14) trimmed @ ''...(truncated)'')"

definition summarizeVerifyResults :: "VerifyTestResult list \<Rightarrow> bool \<Rightarrow> string" where
  "summarizeVerifyResults results passed =
     (if results = [] then ''''
      else if passed then itoa_nat (length results) @ '' verification tests passed''
      else
        (let failures = map (\<lambda>r. vtt_TestID r @ '' ('' @ vtt_Status r @ '')'')
               (filter (\<lambda>r. vtt_Status r \<noteq> ''passed'') results);
             passedCount = length (filter (\<lambda>r. vtt_Status r = ''passed'') results);
             summary = itoa_nat passedCount @ ''/'' @ itoa_nat (length results) @
               '' verification tests passed'' in
         if failures = [] then summary
         else excerptVerifyOutput (summary @ ''; failed: '' @ join '', '' failures)))"

section \<open>Selection context\<close>

definition verifyInternalError :: "string \<Rightarrow> go_error \<Rightarrow> string \<Rightarrow> APIError" where
  "verifyInternalError operation err batchRunID =
     backendError ErrCodeInternalError ''failed to run verify''
       ([(''operation'', DStr operation), (''error'', DStr (go_error_text err))] @
        (if TrimSpace batchRunID \<noteq> '''' then [(''batch_run_id'', DStr batchRunID)] else []))"

definition lift_api :: "APIError + 'a \<Rightarrow> 'a svc" where
  "lift_api r = (case r of Inl e \<Rightarrow> fail_svc e | Inr x \<Rightarrow> ret_svc x)"

definition resolveVerifySelectionContext ::
  "service_env \<Rightarrow> VerifyPayload \<Rightarrow> verifySelectionContext svc" where
  "resolveVerifySelectionContext env payload =
     (let projectID = TrimSpace (vp_ProjectID payload);
          receipt0 = TrimSpace (vp_ReceiptID payload);
          planKey = TrimSpace (vp_PlanKey payload);
          supplied = elems (normalizeCompletionPaths (vp_FilesChanged payload)) in
      bind_svc
        (if receipt0 = '''' \<and> planKey \<noteq> '''' then
           (case parsePlanFetchKey planKey of
              None \<Rightarrow> fail_svc (backendError ErrCodeInvalidInput
                ''plan_key must use format plan:<receipt_id>'' [(''plan_key'', DStr planKey)])
            | Some derived \<Rightarrow> ret_svc derived)
         else ret_svc receipt0) (\<lambda>receiptID.
      if receiptID = ''''
      then ret_svc \<lparr> vsc_ReceiptID = '''', vsc_PlanKey = planKey, vsc_Phase = vp_Phase payload,
                     vsc_Tags = [], vsc_FilesChanged = supplied \<rparr>
      else call_repo (FetchReceiptScope \<lparr> rsq_ProjectID = projectID, rsq_ReceiptID = receiptID \<rparr>)
        (\<lambda>e. if e = ErrReceiptScopeNotFound
             then backendError ErrCodeNotFound ''receipt scope was not found''
               [(''project_id'', DStr projectID), (''receipt_id'', DStr receiptID)]
             else verifyInternalError ''fetch_receipt_scope'' e '''')
        (\<lambda>scope.
      bind_svc (lift_api (detectReceiptChangedPaths (se_ctx env) scope)) (\<lambda>(detected, reliable).
      ret_svc \<lparr> vsc_ReceiptID = receiptID, vsc_PlanKey = planKey,
        vsc_Phase = (if vp_Phase payload = '''' then TrimSpace (rs_Phase scope) else vp_Phase payload),
        vsc_Tags = elems (normalizeValues (rs_ResolvedTags scope)),
        vsc_FilesChanged =
          elems (resolveDetectedFilesChanged reliable detected (vp_FilesChanged payload)) \<rparr>))))"

definition verifyJSONListEnv :: "string list \<Rightarrow> string" where
  "verifyJSONListEnv values = json_list (elems (normalizeValues (Some values)))"

definition verifyCommandEnvironment :: "verifySelectionContext \<Rightarrow> (string \<times> string) list" where
  "verifyCommandEnvironment selection =
     (let receipt0 = TrimSpace (vsc_ReceiptID selection);
          plan0 = TrimSpace (vsc_PlanKey selection);
          receiptID = (if receipt0 = '''' \<and> plan0 \<noteq> '''' then
              (case parsePlanFetchKey plan0 of Some d \<Rightarrow> d | None \<Rightarrow> receipt0) else receipt0);
          planKey = (if plan0 = '''' \<and> receiptID \<noteq> '''' then ''plan:'' @ receiptID else plan0)
      in [(''AWM_VERIFY_TAGS_JSON'', verifyJSONListEnv (vsc_Tags selection)),
          (''AWM_VERIFY_FILES_CHANGED_JSON'', verifyJSONListEnv (vsc_FilesChanged selection))] @
         (if receiptID \<noteq> '''' then [(''AWM_RECEIPT_ID'', receiptID)] else []) @
         (if planKey \<noteq> '''' then [(''AWM_PLAN_KEY'', planKey)] else []) @
         (if vsc_Phase selection \<noteq> '''' then [(''AWM_VERIFY_PHASE'', vsc_Phase selection)] else []))"

section \<open>The run\<close>

definition selectedVerifyTestIDs :: "(verifyTestDefinition \<times> string list) list \<Rightarrow> string list" where
  "selectedVerifyTestIDs selected = map (vd_ID \<circ> fst) selected"

definition selectedVerifyResults ::
  "(verifyTestDefinition \<times> string list) list \<Rightarrow> VerifySelection list" where
  "selectedVerifyResults selected =
     map (\<lambda>(d, reasons). \<lparr> vs_TestID = vd_ID d, vs_Summary = vd_Summary d,
                           vs_SelectionReasons = Some reasons \<rparr>) selected"

definition public_result :: "verifyTestDefinition \<Rightarrow> verifyCommandRun \<Rightarrow> VerifyTestResult" where
  "public_result d run =
     \<lparr> vtt_TestID = vd_ID d, vtt_Status = classifyVerifyCommandRun run (vd_ExpectedExitCode d),
       vtt_DefinitionHash = vd_DefinitionHash d, vtt_ExitCode = vcr_ExitCode run,
       vtt_DurationMS = verifyRunDurationMS run,
       vtt_StdoutExcerpt = excerptVerifyOutput (vcr_Stdout run),
       vtt_StderrExcerpt = excerptVerifyOutput (vcr_Stderr run) \<rparr>"

definition test_record ::
  "string \<Rightarrow> string \<Rightarrow> verifyTestDefinition \<times> string list \<Rightarrow> verifyCommandRun \<Rightarrow> VerificationTestRun"
  where
  "test_record batchRunID projectID = (\<lambda>(d, reasons) run.
     let p = public_result d run in
     \<lparr> vtr_BatchRunID = batchRunID, vtr_ProjectID = projectID, vtr_TestID = vd_ID d,
       vtr_DefinitionHash = vd_DefinitionHash d, vtr_Summary = vd_Summary d,
       vtr_CommandArgv = Some (vd_Argv d), vtr_CommandCWD = vd_CWD d,
       vtr_TimeoutSec = vd_TimeoutSec d, vtr_ExpectedExitCode = vd_ExpectedExitCode d,
       vtr_SelectionReasons = Some reasons, vtr_Status = vtt_Status p,
       vtr_ExitCode = vcr_ExitCode run, vtr_DurationMS = vtt_DurationMS p,
       vtr_StdoutExcerpt = vtt_StdoutExcerpt p, vtr_StderrExcerpt = vtt_StderrExcerpt p,
       vtr_StartedAt = vcr_StartedAt run, vtr_FinishedAt = vcr_FinishedAt run \<rparr>)"

definition run_selected ::
  "service_env \<Rightarrow> verifySelectionContext \<Rightarrow> (verifyTestDefinition \<times> string list) list \<Rightarrow>
     ((verifyTestDefinition \<times> string list) \<times> verifyCommandRun) list" where
  "run_selected env selection selected =
     map (\<lambda>(i, t). (t, se_run env i (vd_Argv (fst t)) (vd_CWD (fst t)) (vd_TimeoutSec (fst t))
            (vd_Env (fst t)) (verifyCommandEnvironment selection)))
       (index_from 0 selected)"

definition verify_evidence :: "string \<Rightarrow> VerifyTestResult list \<Rightarrow> string list" where
  "verify_evidence batchRunID results =
     take 128 ((''verifyrun:'' @ batchRunID) #
       map (\<lambda>r. ''verifyrun:'' @ batchRunID @ ''#'' @ vtt_TestID r) results)"

definition verify_work_payload ::
  "string \<Rightarrow> verifySelectionContext \<Rightarrow> string \<Rightarrow> VerifyTestResult list \<Rightarrow> bool \<Rightarrow> WorkPayload" where
  "verify_work_payload projectID selection batchRunID results passed =
     \<lparr> wkp_ProjectID = projectID, wkp_PlanKey = vsc_PlanKey selection, wkp_PlanTitle = '''',
       wkp_ReceiptID = vsc_ReceiptID selection, wkp_Mode = '''', wkp_Plan = None,
       wkp_Tasks =
         [\<lparr> wtp_Key = ''verify:tests'', wtp_Summary = ''Run project verification checks'',
            wtp_Status = (if passed then WorkItemStatusComplete else WorkItemStatusBlocked),
            wtp_ParentTaskKey = None, wtp_DependsOn = None, wtp_AcceptanceCriteria = None,
            wtp_References = None, wtp_ExternalRefs = None, wtp_BlockedReason = '''',
            wtp_Outcome = summarizeVerifyResults results passed,
            wtp_Evidence = Some (verify_evidence batchRunID results) \<rparr>],
       wkp_Actor = None, wkp_TaskText = '''', wkp_Phase = '''' \<rparr>"

definition updateVerifyWork ::
  "service_env \<Rightarrow> string \<Rightarrow> verifySelectionContext \<Rightarrow> string \<Rightarrow> VerifyTestResult list \<Rightarrow> bool \<Rightarrow> unit svc"
  where
  "updateVerifyWork env projectID selection batchRunID results passed s =
     (case Work (se_ctx env) (verify_work_payload projectID selection batchRunID results passed) s of
        (Inr _, s') \<Rightarrow> (Inr (), s')
      | (Inl e, s') \<Rightarrow> (Inl (backendError (ae_Code e)
          ''verification ran but failed to update verify:tests''
          [(''batch_run_id'', DStr batchRunID), (''wrapped_code'', DStr (ae_Code e)),
           (''wrapped_message'', DStr (ae_Message e))]), s'))"

definition verify_batch ::
  "service_env \<Rightarrow> VerifyPayload \<Rightarrow> string \<Rightarrow> verifySelectionContext \<Rightarrow> string \<Rightarrow>
     ((verifyTestDefinition \<times> string list) \<times> verifyCommandRun) list \<Rightarrow> bool \<Rightarrow> VerificationBatch" where
  "verify_batch env payload src selection batchRunID runs allPassed =
     (let projectID = TrimSpace (vp_ProjectID payload) in
      \<lparr> vb_BatchRunID = batchRunID, vb_ProjectID = projectID, vb_ReceiptID = vsc_ReceiptID selection,
        vb_PlanKey = vsc_PlanKey selection, vb_Phase = vsc_Phase selection, vb_TestsSourcePath = src,
        vb_Status = (if allPassed then ''passed'' else ''failed''), vb_Passed = allPassed,
        vb_SelectedTestIDs = Some (map (\<lambda>(t, _). vd_ID (fst t)) runs),
        vb_Results = map (\<lambda>(t, run). test_record batchRunID projectID t run) runs,
        vb_CreatedAt = se_now env 0, vb_Actor = actorFromPayload (vp_Actor payload) \<rparr>)"

definition execute_tests ::
  "service_env \<Rightarrow> VerifyPayload \<Rightarrow> string \<Rightarrow> verifySelectionContext \<Rightarrow>
     (verifyTestDefinition \<times> string list) list \<Rightarrow> string \<Rightarrow> VerifyResult svc" where
  "execute_tests env payload src selection selected batchRunID =
     (let projectID = TrimSpace (vp_ProjectID payload);
          runs = run_selected env selection selected;
          results = map (\<lambda>(t, run). public_result (fst t) run) runs;
          allPassed = list_all (\<lambda>r. vtt_Status r = ''passed'') results in
      call_repo
        (SaveVerificationBatch (\<lambda>i. se_now env (Suc i))
          (verify_batch env payload src selection batchRunID runs allPassed))
        (\<lambda>e. verifyInternalError ''save_verification_batch'' e batchRunID) (\<lambda>_.
      bind_svc
        (if vsc_ReceiptID selection \<noteq> '''' \<or> vsc_PlanKey selection \<noteq> ''''
         then updateVerifyWork env projectID selection batchRunID results allPassed
         else ret_svc ()) (\<lambda>_.
      ret_svc \<lparr> vres_Status = (if allPassed then ''passed'' else ''failed''),
                vres_BatchRunID = batchRunID,
                vres_SelectedTestIDs = Some (selectedVerifyTestIDs selected),
                vres_Selected = selectedVerifyResults selected, vres_Passed = allPassed,
                vres_Results = results \<rparr>)))"

definition Verify :: "service_env \<Rightarrow> VerifyPayload \<Rightarrow> VerifyResult svc" where
  "Verify env payload =
     (case loadVerifyDefinitions env (vp_TestsFile payload) (vp_TagsFile payload) of
        (src, Inl err) \<Rightarrow> fail_svc (verifyDefinitionsAPIError src err)
      | (src, Inr definitions) \<Rightarrow>
          bind_svc (resolveVerifySelectionContext env payload) (\<lambda>selection.
          bind_svc (lift_api (selectVerifyDefinitions definitions payload selection)) (\<lambda>selected.
          let result = \<lparr> vres_Status = '''', vres_BatchRunID = '''',
                vres_SelectedTestIDs = Some (selectedVerifyTestIDs selected),
                vres_Selected = selectedVerifyResults selected, vres_Passed = False,
                vres_Results = [] \<rparr> in
          if vp_DryRun payload then ret_svc (result\<lparr>vres_Status := ''dry_run''\<rparr>)
          else if selected = [] then ret_svc (result\<lparr>vres_Status := ''no_tests_selected''\<rparr>)
          else case se_batch_id env of
            Inl e \<Rightarrow> fail_svc (verifyInternalError ''new_batch_run_id'' e '''')
          | Inr batchRunID \<Rightarrow> execute_tests env payload src selection selected batchRunID)))"

end
