(* ===== verification/Backend_Review.thy ===== *)
theory Backend_Review
  imports Backend_Verify
begin

text \<open>
  \<open>Review\<close> of \<open>internal/service/backend/review.go\<close>: review gates with their attempt log, the
  fingerprint of the reviewed files, the attempt budget and the snapshot of the gate's work item.
\<close>

section \<open>Attempts\<close>

definition reviewAttemptRef :: "int \<Rightarrow> string" where
  "reviewAttemptRef attemptID = (if attemptID \<le> 0 then '''' else ''reviewattempt:'' @ itoa attemptID)"

definition latestReviewAttempt :: "ReviewAttempt list \<Rightarrow> ReviewAttempt option" where
  "latestReviewAttempt attempts = (if attempts = [] then None else Some (last attempts))"

definition latestReviewAttemptRef :: "ReviewAttempt list \<Rightarrow> string" where
  "latestReviewAttemptRef attempts =
     (case latestReviewAttempt attempts of None \<Rightarrow> '''' | Some a \<Rightarrow> reviewAttemptRef (ra_AttemptID a))"

definition latestReviewAttemptByFingerprint :: "ReviewAttempt list \<Rightarrow> string \<Rightarrow> ReviewAttempt option" where
  "latestReviewAttemptByFingerprint attempts fingerprint =
     find (\<lambda>a. TrimSpace (ra_Fingerprint a) = TrimSpace fingerprint) (rev attempts)"

definition reviewAttemptEligibleForFingerprintSkip :: "ReviewAttempt \<Rightarrow> bool" where
  "reviewAttemptEligibleForFingerprintSkip attempt = ra_Passed attempt"

definition countPassingReviewAttempts :: "ReviewAttempt list \<Rightarrow> nat" where
  "countPassingReviewAttempts attempts = length (filter ra_Passed attempts)"

definition reviewStatusFromAttempt :: "ReviewAttempt \<Rightarrow> string" where
  "reviewStatusFromAttempt attempt =
     (if ra_Passed attempt then WorkItemStatusComplete else WorkItemStatusBlocked)"

definition reviewAttemptPassed :: "verifyCommandRun \<Rightarrow> bool" where
  "reviewAttemptPassed run \<longleftrightarrow> vcr_Err run = None \<or> vcr_ExitCode run = Some 0"

definition reviewAttemptStorageStatus :: "verifyCommandRun \<Rightarrow> string" where
  "reviewAttemptStorageStatus run = (if reviewAttemptPassed run then ''passed'' else ''failed'')"

definition summarizeReviewCommandRun :: "verifyCommandRun \<Rightarrow> string" where
  "summarizeReviewCommandRun run =
     (let stdout = excerptVerifyOutput (vcr_Stdout run); stderr = excerptVerifyOutput (vcr_Stderr run) in
      if vcr_TimedOut run then
        (if stderr \<noteq> '''' then excerptVerifyOutput (''Review gate timed out: '' @ stderr)
         else ''Review gate timed out'')
      else if reviewAttemptPassed run then
        (if stdout \<noteq> '''' then stdout else if stderr \<noteq> '''' then stderr else ''Review gate passed'')
      else
        let base = (case vcr_ExitCode run of
              None \<Rightarrow> ''Review gate failed''
            | Some c \<Rightarrow> ''Review gate failed with exit code '' @ itoa c) in
        if stdout \<noteq> '''' then excerptVerifyOutput (base @ '': '' @ stdout)
        else if stderr \<noteq> '''' then excerptVerifyOutput (base @ '': '' @ stderr)
        else case vcr_Err run of
               Some e \<Rightarrow> excerptVerifyOutput (base @ '': '' @ e)
             | None \<Rightarrow> base)"

definition summarizeReviewOutcome :: "verifyCommandRun \<Rightarrow> bool \<Rightarrow> int \<Rightarrow> int \<Rightarrow> int \<Rightarrow> string" where
  "summarizeReviewOutcome run passed attemptsRun maxAttempts passingRuns =
     (let base = summarizeReviewCommandRun run in
      if maxAttempts > 0 then
        excerptVerifyOutput ((if passed then ''Review gate passed ('' else ''Review gate blocked ('') @
          itoa attemptsRun @ ''/'' @ itoa maxAttempts @ '' attempts, '' @ itoa passingRuns @
          '' passing run(s)): '' @ base)
      else if passed then
        excerptVerifyOutput (''Review gate passed ('' @ itoa passingRuns @ '' passing run(s)): '' @ base)
      else excerptVerifyOutput base)"

definition reviewExecutionFromRun ::
  "string \<Rightarrow> workflowRunDefinition \<Rightarrow> verifyCommandRun \<Rightarrow> ReviewExecution" where
  "reviewExecutionFromRun sourcePath command run =
     \<lparr> re_SourcePath = TrimSpace sourcePath, re_CommandArgv = Some (wrd_Argv command),
       re_CommandCWD = wrd_CWD command, re_TimeoutSec = wrd_TimeoutSec command,
       re_ExitCode = vcr_ExitCode run, re_TimedOut = vcr_TimedOut run,
       re_StdoutExcerpt = excerptVerifyOutput (vcr_Stdout run),
       re_StderrExcerpt = excerptVerifyOutput (vcr_Stderr run) \<rparr>"

section \<open>Evidence\<close>

definition mergeReviewTaskEvidence :: "WorkItem option \<Rightarrow> string slice \<Rightarrow> string \<Rightarrow> string slice" where
  "mergeReviewTaskEvidence task explicit latestAttemptRef =
     (let kept = (case task of None \<Rightarrow> []
            | Some t \<Rightarrow> filter (\<lambda>v. v \<noteq> '''' \<and> \<not> HasPrefix v ''reviewattempt:'')
                          (map TrimSpace (elems (wi_Evidence t))));
          given = filter (\<lambda>v. v \<noteq> '''') (map TrimSpace (elems explicit));
          ref = TrimSpace latestAttemptRef;
          out = kept @ given @ (if ref \<noteq> '''' then [ref] else [])
      in if out = [] then None else Some out)"

definition findWorkItemByKey :: "WorkItem list \<Rightarrow> string \<Rightarrow> WorkItem option" where
  "findWorkItemByKey items reviewKey =
     find (\<lambda>i. TrimSpace (wi_ItemKey i) = TrimSpace reviewKey) items"

section \<open>Fingerprints\<close>

record reviewFingerprintEntry =
  rfe_Path :: string
  rfe_Kind :: string
  rfe_Hash :: string

definition writeFingerprintPart :: "string \<Rightarrow> string" where
  "writeFingerprintPart value = TrimSpace value @ [CHR 0x00]"

text \<open>The regular files below a directory, as the walk finds them: the entry of each file whose
  path normalizes, in path order.\<close>

definition directory_entries ::
  "(nat \<Rightarrow> string \<Rightarrow> string) \<Rightarrow> string \<Rightarrow> (string \<times> string) list \<Rightarrow> reviewFingerprintEntry list" where
  "directory_entries sha rootRelative files =
     sort_key rfe_Path
       (map (\<lambda>(name, blob). \<lparr> rfe_Path = normalizeCompletionPath (path_Clean (rootRelative @ ''/'' @ name)),
                             rfe_Kind = ''file'', rfe_Hash = sha 32 blob \<rparr>)
         (filter (\<lambda>(name, _). normalizeCompletionPath (path_Clean (rootRelative @ ''/'' @ name)) \<noteq> '''')
           files))"

definition review_error :: "string \<Rightarrow> string \<Rightarrow> string \<Rightarrow> APIError" where
  "review_error message path err =
     backendError ErrCodeInternalError message [(''path'', DStr path), (''error'', DStr err)]"

fun fingerprint_entries ::
  "service_env \<Rightarrow> (string \<times> reviewFingerprintEntry) list \<Rightarrow> string list \<Rightarrow>
     APIError + (string \<times> reviewFingerprintEntry) list" where
  "fingerprint_entries env m [] = Inr m"
| "fingerprint_entries env m (p # ps) =
     (let sha = env_sha (se_ctx env);
          put = (\<lambda>kind h. AList.update p \<lparr> rfe_Path = p, rfe_Kind = kind, rfe_Hash = h \<rparr> m) in
      case se_fs env p of
        FsMissing \<Rightarrow> fingerprint_entries env (put ''missing'' '''') ps
      | FsStatError e \<Rightarrow> Inl (review_error ''failed to stat scoped review file'' p e)
      | FsDir (Inl e) \<Rightarrow>
          Inl (review_error ''failed to walk scoped review directory'' p (go_error_text e))
      | FsDir (Inr files) \<Rightarrow>
          (let dirEntries = directory_entries sha p files in
           if dirEntries = [] then fingerprint_entries env (put ''dir-empty'' '''') ps
           else fingerprint_entries env (foldl (\<lambda>m e. AList.update (rfe_Path e) e m) m dirEntries) ps)
      | FsFile (Inl e) \<Rightarrow> Inl (review_error ''failed to read scoped review file'' p (go_error_text e))
      | FsFile (Inr blob) \<Rightarrow> fingerprint_entries env (put ''file'' (sha 32 blob)) ps)"

definition collectReviewFingerprintEntries ::
  "service_env \<Rightarrow> string list \<Rightarrow> APIError + reviewFingerprintEntry list" where
  "collectReviewFingerprintEntries env scopePaths =
     bind_res (fingerprint_entries env [] (sort scopePaths)) (\<lambda>m. Inr (emit_sorted m))"

text \<open>The files that the command's arguments name: \<open>se_runner_file\<close> resolves an argument in the
  working directory to a regular file with its content; a file that has gone is skipped.\<close>

fun runner_hashes ::
  "service_env \<Rightarrow> string \<Rightarrow> string list \<Rightarrow> string list \<Rightarrow> APIError + string list" where
  "runner_hashes env cwd seen [] = Inr []"
| "runner_hashes env cwd seen (rawArg # rest) =
     (let value = TrimSpace rawArg in
      case (if value = '''' \<or> \<not> Contains value ''/'' then None else se_runner_file env cwd value) of
        None \<Rightarrow> runner_hashes env cwd seen rest
      | Some (resolved, content) \<Rightarrow>
          (if resolved \<in> set seen then runner_hashes env cwd seen rest
           else case content of
             Inl e \<Rightarrow> Inl (review_error ''failed to read workflow runner file'' rawArg (go_error_text e))
           | Inr None \<Rightarrow> runner_hashes env cwd (resolved # seen) rest
           | Inr (Some blob) \<Rightarrow>
               bind_res (runner_hashes env cwd (resolved # seen) rest)
                 (\<lambda>hs. Inr (env_sha (se_ctx env) 32 blob # hs))))"

definition workflowRunnerFingerprints ::
  "service_env \<Rightarrow> workflowRunDefinition \<Rightarrow> APIError + string list" where
  "workflowRunnerFingerprints env command =
     bind_res (runner_hashes env (TrimSpace (wrd_CWD command)) [] (wrd_Argv command)) (\<lambda>hs. Inr (sort hs))"

definition computeReviewFingerprint ::
  "service_env \<Rightarrow> string \<Rightarrow> string \<Rightarrow> string \<Rightarrow> string \<Rightarrow> workflowRunDefinition \<Rightarrow> ReceiptScope \<Rightarrow>
     WorkPlan option \<Rightarrow> APIError + string" where
  "computeReviewFingerprint env projectID receiptID reviewKey workflowSourcePath command scope plan =
     bind_res (workflowRunnerFingerprints env command) (\<lambda>runnerHashes.
     bind_res (collectReviewFingerprintEntries env (elems (effectiveScopePaths scope plan))) (\<lambda>entries.
       let parts =
         [''awm.review.fingerprint.v2'', TrimSpace projectID, TrimSpace receiptID, TrimSpace reviewKey,
          TrimSpace workflowSourcePath, TrimSpace (wrd_CWD command), itoa (wrd_TimeoutSec command)] @
         map TrimSpace (wrd_Argv command) @
         concat (map (\<lambda>(k, v). [k, v]) (verifyEnvPairs (wrd_Env command))) @
         runnerHashes @
         concat (map (\<lambda>e. [rfe_Path e, rfe_Kind e] @ (if rfe_Hash e \<noteq> '''' then [rfe_Hash e] else []))
           entries)
       in Inr (''sha256:'' @ env_sha (se_ctx env) 32 (concat (map writeFingerprintPart parts)))))"

section \<open>The state of the plan\<close>

record reviewPlanState =
  rst_PlanKey :: string
  rst_ReceiptID :: string
  rst_PlanStatus :: string
  rst_TaskCount :: int
  rst_Task :: "WorkItem option"

definition state_of_plan :: "WorkPlan \<Rightarrow> string \<Rightarrow> reviewPlanState" where
  "state_of_plan plan reviewKey =
     (let status = normalizePlanStatus (wp_Status plan) in
      \<lparr> rst_PlanKey = wp_PlanKey plan, rst_ReceiptID = wp_ReceiptID plan,
        rst_PlanStatus = (if status = PlanStatusPending
                          then derivePlanStatusFromWorkItems (be_normalizeWorkItems (wp_Tasks plan))
                          else status),
        rst_TaskCount = int (length (wp_Tasks plan)),
        rst_Task = findWorkItemByKey (wp_Tasks plan) reviewKey \<rparr>)"

text \<open>The work items stand in when there is no plan.\<close>

definition state_of_items :: "string \<Rightarrow> string \<Rightarrow> string \<Rightarrow> string \<Rightarrow> reviewPlanState svc" where
  "state_of_items projectID planKey receiptID reviewKey =
     (if receiptID = ''''
      then ret_svc \<lparr> rst_PlanKey = planKey, rst_ReceiptID = receiptID,
                     rst_PlanStatus = PlanStatusPending, rst_TaskCount = 0, rst_Task = None \<rparr>
      else call_repo (ListWorkItems \<lparr> flq_ProjectID = projectID, flq_ReceiptID = receiptID \<rparr>)
        (workInternalError ''list_work_items'') (\<lambda>items.
          ret_svc \<lparr> rst_PlanKey = planKey, rst_ReceiptID = receiptID,
            rst_PlanStatus = derivePlanStatusFromWorkItems items,
            rst_TaskCount = int (length items), rst_Task = findWorkItemByKey items reviewKey \<rparr>))"

definition loadReviewPlanState ::
  "string \<Rightarrow> string \<Rightarrow> string \<Rightarrow> string \<Rightarrow> reviewPlanState svc" where
  "loadReviewPlanState projectID planKey receiptID reviewKey =
     (let project = TrimSpace projectID;
          receipt0 = TrimSpace receiptID;
          plan0 = TrimSpace planKey;
          normalizedPlanKey = (if plan0 = '''' \<and> receipt0 \<noteq> '''' then ''plan:'' @ receipt0 else plan0) in
      if normalizedPlanKey = '''' then state_of_items project normalizedPlanKey receipt0 reviewKey
      else case parsePlanFetchKey normalizedPlanKey of
        None \<Rightarrow> fail_svc (backendError ErrCodeInvalidInput
          ''plan_key must use format plan:<receipt_id>'' [(''plan_key'', DStr normalizedPlanKey)])
      | Some derived \<Rightarrow>
          (let receiptID' = (if receipt0 = '''' then derived else receipt0) in
           try_repo (LookupWorkPlan \<lparr> wpq_ProjectID = project, wpq_PlanKey = normalizedPlanKey,
                                     wpq_ReceiptID = receiptID' \<rparr>)
             (\<lambda>r. case r of
                Inr plan \<Rightarrow> ret_svc (state_of_plan plan reviewKey)
              | Inl e \<Rightarrow>
                  (if e = ErrWorkPlanNotFound
                   then state_of_items project normalizedPlanKey receiptID' reviewKey
                   else fail_svc (workInternalError ''lookup_work_plan'' e)))))"

definition listReviewAttempts :: "string \<Rightarrow> string \<Rightarrow> string \<Rightarrow> ReviewAttempt list svc" where
  "listReviewAttempts projectID receiptID reviewKey =
     call_repo (ListReviewAttempts \<lparr> ralq_ProjectID = TrimSpace projectID,
         ralq_ReceiptID = TrimSpace receiptID, ralq_ReviewKey = TrimSpace reviewKey \<rparr>)
       (\<lambda>e. backendError ErrCodeInternalError ''failed to list review attempts''
          [(''project_id'', DStr (TrimSpace projectID)), (''receipt_id'', DStr (TrimSpace receiptID)),
           (''review_key'', DStr (TrimSpace reviewKey)), (''error'', DStr (go_error_text e))])
       ret_svc"

definition fetchReviewReceiptScope :: "string \<Rightarrow> string \<Rightarrow> ReceiptScope svc" where
  "fetchReviewReceiptScope projectID receiptID =
     call_repo (FetchReceiptScope \<lparr> rsq_ProjectID = TrimSpace projectID,
         rsq_ReceiptID = TrimSpace receiptID \<rparr>)
       (\<lambda>e. if e = ErrReceiptScopeNotFound
            then backendError ErrCodeNotFound ''receipt scope was not found''
              [(''project_id'', DStr (TrimSpace projectID)), (''receipt_id'', DStr (TrimSpace receiptID))]
            else verifyInternalError ''fetch_receipt_scope'' e '''')
       ret_svc"

section \<open>The gate\<close>

definition gate_payload ::
  "ReviewPayload \<Rightarrow> string \<Rightarrow> string \<Rightarrow> string \<Rightarrow> string \<Rightarrow> string slice \<Rightarrow> WorkPayload" where
  "gate_payload p summary status outcome blockedReason evidence =
     \<lparr> wkp_ProjectID = rp_ProjectID p, wkp_PlanKey = rp_PlanKey p, wkp_PlanTitle = '''',
       wkp_ReceiptID = rp_ReceiptID p, wkp_Mode = '''', wkp_Plan = None,
       wkp_Tasks =
         [\<lparr> wtp_Key = rp_Key p, wtp_Summary = summary, wtp_Status = status,
            wtp_ParentTaskKey = None, wtp_DependsOn = None, wtp_AcceptanceCriteria = None,
            wtp_References = None, wtp_ExternalRefs = None, wtp_BlockedReason = blockedReason,
            wtp_Outcome = outcome, wtp_Evidence = evidence \<rparr>],
       wkp_Actor = None, wkp_TaskText = '''', wkp_Phase = '''' \<rparr>"

definition updateReviewSnapshot ::
  "service_env \<Rightarrow> ReviewPayload \<Rightarrow> reviewPlanState \<Rightarrow> string \<Rightarrow> string \<Rightarrow> string \<Rightarrow> string \<Rightarrow> WorkResult svc"
  where
  "updateReviewSnapshot env p state summary status outcome attemptRef =
     Work (se_ctx env) (gate_payload p (TrimSpace summary) status (TrimSpace outcome) ''''
       (mergeReviewTaskEvidence (rst_Task state) None attemptRef))"

definition json_slice :: "string slice \<Rightarrow> string" where
  "json_slice vs = (case vs of None \<Rightarrow> ''null'' | Some xs \<Rightarrow> json_list xs)"

definition reviewCommandEnvironment ::
  "service_env \<Rightarrow> string \<Rightarrow> ReviewPayload \<Rightarrow> reviewPlanState \<Rightarrow> string \<Rightarrow> int \<Rightarrow> int \<Rightarrow> int \<Rightarrow> string \<Rightarrow>
     string slice \<Rightarrow> string list \<Rightarrow> bool \<Rightarrow> (string \<times> string) list" where
  "reviewCommandEnvironment env workflowSourcePath p state reviewSummary attempt maxAttempts
       passingRuns fingerprint effectiveScope detectedFiles reliable =
     (let r0 = TrimSpace (rst_ReceiptID state);
          receiptID = (if r0 = '''' then TrimSpace (rp_ReceiptID p) else r0);
          k0 = TrimSpace (rst_PlanKey state);
          k1 = (if k0 = '''' then TrimSpace (rp_PlanKey p) else k0);
          planKey = (if k1 = '''' \<and> receiptID \<noteq> '''' then ''plan:'' @ receiptID else k1)
      in [(''AWM_PROJECT_ID'', TrimSpace (rp_ProjectID p)), (''AWM_PROJECT_ROOT'', TrimSpace (se_root env)),
          (''AWM_RECEIPT_ID'', receiptID), (''AWM_PLAN_KEY'', planKey),
          (''AWM_REVIEW_KEY'', TrimSpace (rp_Key p)), (''AWM_REVIEW_SUMMARY'', reviewSummary),
          (''AWM_REVIEW_ATTEMPT'', itoa attempt), (''AWM_REVIEW_MAX_ATTEMPTS'', itoa maxAttempts),
          (''AWM_REVIEW_PASSING_RUNS'', itoa passingRuns),
          (''AWM_REVIEW_FINGERPRINT'', TrimSpace fingerprint),
          (''AWM_WORKFLOW_SOURCE_PATH'', TrimSpace workflowSourcePath),
          (''AWM_REVIEW_EFFECTIVE_SCOPE_PATHS_JSON'', json_slice (normalizeCompletionPaths effectiveScope)),
          (''AWM_REVIEW_BASELINE_CAPTURED'', if reliable then ''true'' else ''false'')] @
         (if reliable
          then [(''AWM_REVIEW_CHANGED_PATHS_JSON'',
                   json_slice (normalizeCompletionPaths (Some detectedFiles))),
                (''AWM_REVIEW_TASK_DELTA_SOURCE'', ''receipt_baseline'')]
          else []))"

text \<open>What the two sides of the gate know when they decide.\<close>

record review_gate =
  rg_payload :: ReviewPayload
  rg_state :: reviewPlanState
  rg_attempts :: "ReviewAttempt list"
  rg_source :: string
  rg_definition :: workflowRequiredTaskDefinition
  rg_run :: workflowRunDefinition
  rg_summary :: string
  rg_fingerprint :: string
  rg_scope :: "string slice"
  rg_detected :: "string list"
  rg_reliable :: bool

definition gate_attempt :: "review_gate \<Rightarrow> verifyCommandRun \<Rightarrow> ReviewAttempt" where
  "gate_attempt g run =
     \<lparr> ra_AttemptID = 0, ra_ProjectID = rp_ProjectID (rg_payload g),
       ra_ReceiptID = rst_ReceiptID (rg_state g), ra_PlanKey = rst_PlanKey (rg_state g),
       ra_ReviewKey = rp_Key (rg_payload g), ra_Summary = rg_summary g,
       ra_Fingerprint = rg_fingerprint g, ra_Status = reviewAttemptStorageStatus run,
       ra_Passed = reviewAttemptPassed run, ra_Outcome = summarizeReviewCommandRun run,
       ra_WorkflowSourcePath = TrimSpace (rg_source g),
       ra_CommandArgv = Some (wrd_Argv (rg_run g)), ra_CommandCWD = TrimSpace (wrd_CWD (rg_run g)),
       ra_TimeoutSec = wrd_TimeoutSec (rg_run g), ra_ExitCode = vcr_ExitCode run,
       ra_TimedOut = vcr_TimedOut run, ra_StdoutExcerpt = excerptVerifyOutput (vcr_Stdout run),
       ra_StderrExcerpt = excerptVerifyOutput (vcr_Stderr run), ra_CreatedAt = vcr_FinishedAt run,
       ra_Actor = actorFromPayload (rp_Actor (rg_payload g)) \<rparr>"

definition execute_review :: "service_env \<Rightarrow> review_gate \<Rightarrow> ReviewResult svc" where
  "execute_review env g =
     (let p = rg_payload g; cmd = rg_run g; maxAttempts = wtd_MaxAttempts (rg_definition g);
          attempts0 = int (length (rg_attempts g));
          passing0 = int (countPassingReviewAttempts (rg_attempts g));
          run = se_run env 0 (wrd_Argv cmd) (wrd_CWD cmd) (wrd_TimeoutSec cmd) (wrd_Env cmd)
            (reviewCommandEnvironment env (rg_source g) p (rg_state g) (rg_summary g) (attempts0 + 1)
               maxAttempts passing0 (rg_fingerprint g) (rg_scope g) (rg_detected g) (rg_reliable g));
          passed = reviewAttemptPassed run in
      call_repo (SaveReviewAttempt (se_now env 0) (gate_attempt g run))
        (\<lambda>e. backendError ErrCodeInternalError ''failed to persist review attempt''
           [(''review_key'', DStr (rp_Key p)), (''error'', DStr (go_error_text e))])
        (\<lambda>attemptID.
          let attemptsRun = attempts0 + 1;
              passingRuns = (if passed then passing0 + 1 else passing0);
              taskStatus = (if passed then WorkItemStatusComplete else WorkItemStatusBlocked);
              outcome = summarizeReviewOutcome run passed attemptsRun maxAttempts passingRuns in
          (\<lambda>s. case updateReviewSnapshot env p (rg_state g) (rg_summary g) taskStatus outcome
                      (reviewAttemptRef attemptID) s of
             (Inl e, s') \<Rightarrow> (Inl (backendError (ae_Code e)
                ''review gate ran but failed to update review task''
                [(''review_key'', DStr (rp_Key p)), (''wrapped_code'', DStr (ae_Code e)),
                 (''wrapped_message'', DStr (ae_Message e)),
                 (''workflow_command'', DList (wrd_Argv cmd))]), s')
           | (Inr w, s') \<Rightarrow> (Inr (ReviewResultFromWork p w taskStatus attemptsRun maxAttempts
                passingRuns (rg_fingerprint g) '''' (Some (reviewExecutionFromRun (rg_source g) cmd run))),
                s'))))"

text \<open>The two ways not to run the command: the fingerprint was assessed by a passing attempt; the
  attempts are used up, which is asked only when no attempt has the fingerprint (the code jumps
  past the budget check when one has it and did not pass) or fingerprints do not matter.\<close>

definition skip_fingerprint :: "service_env \<Rightarrow> review_gate \<Rightarrow> ReviewAttempt \<Rightarrow> ReviewResult svc" where
  "skip_fingerprint env g prior =
     bind_svc (updateReviewSnapshot env (rg_payload g) (rg_state g) (rg_summary g)
         (reviewStatusFromAttempt prior) (ra_Outcome prior) (latestReviewAttemptRef [prior])) (\<lambda>w.
       ret_svc (ReviewResultFromWork (rg_payload g) w (reviewStatusFromAttempt prior)
         (int (length (rg_attempts g))) (wtd_MaxAttempts (rg_definition g))
         (int (countPassingReviewAttempts (rg_attempts g))) (rg_fingerprint g)
         ''review skipped because the current scoped fingerprint was already assessed'' None))"

definition skip_exhausted :: "service_env \<Rightarrow> review_gate \<Rightarrow> ReviewResult svc" where
  "skip_exhausted env g =
     (let maxAttempts = wtd_MaxAttempts (rg_definition g);
          passing = int (countPassingReviewAttempts (rg_attempts g));
          outcome = ''Review gate blocked: max_attempts='' @ itoa maxAttempts @ '' exhausted after '' @
            itoa passing @ '' passing run(s).'' in
      bind_svc (updateReviewSnapshot env (rg_payload g) (rg_state g) (rg_summary g)
          WorkItemStatusBlocked outcome (latestReviewAttemptRef (rg_attempts g))) (\<lambda>w.
        ret_svc (ReviewResultFromWork (rg_payload g) w WorkItemStatusBlocked
          (int (length (rg_attempts g))) maxAttempts passing (rg_fingerprint g)
          ''review skipped because max_attempts was exhausted'' None)))"

definition check_budget :: "service_env \<Rightarrow> review_gate \<Rightarrow> ReviewResult svc" where
  "check_budget env g =
     (if wtd_MaxAttempts (rg_definition g) > 0 \<and>
         int (length (rg_attempts g)) \<ge> wtd_MaxAttempts (rg_definition g)
      then skip_exhausted env g else execute_review env g)"

definition run_gate :: "service_env \<Rightarrow> review_gate \<Rightarrow> ReviewResult svc" where
  "run_gate env g =
     (case (if wtd_RerunRequiresNewFingerprint (rg_definition g)
            then latestReviewAttemptByFingerprint (rg_attempts g) (rg_fingerprint g) else None) of
        None \<Rightarrow> check_budget env g
      | Some prior \<Rightarrow>
          (if reviewAttemptEligibleForFingerprintSkip prior then skip_fingerprint env g prior
           else execute_review env g))"

text \<open>\<open>run=false\<close>: the caller's result is recorded, except a completed result of a runnable gate.\<close>

definition record_review ::
  "service_env \<Rightarrow> ReviewPayload \<Rightarrow> reviewPlanState \<Rightarrow> ReviewAttempt list \<Rightarrow> ReviewResult svc" where
  "record_review env p state attempts =
     (case loadWorkflowCompletionRequirements env '''' (rp_TagsFile p) of
        ((src, _), Inl err) \<Rightarrow> fail_svc (workflowDefinitionsAPIError src err)
      | ((src, _), Inr definitions) \<Rightarrow>
          (if (case findWorkflowRequiredTaskDefinition definitions (rp_Key p) of
                 Some d \<Rightarrow> wtd_Run d \<noteq> None \<and> rp_Status p = WorkItemStatusComplete
               | None \<Rightarrow> False)
           then fail_svc (backendError ErrCodeInvalidInput
             ''runnable review gates require run=true to record a completed result''
             [(''review_key'', DStr (rp_Key p)), (''workflow_source_path'', DStr src)])
           else bind_svc (Work (se_ctx env) (gate_payload p (rp_Summary p) (rp_Status p) (rp_Outcome p)
               (rp_BlockedReason p)
               (mergeReviewTaskEvidence (rst_Task state) (rp_Evidence p) (latestReviewAttemptRef attempts))))
             (\<lambda>w. ret_svc (ReviewResultFromWork p w (rp_Status p) (int (length attempts)) 0
                (int (countPassingReviewAttempts attempts)) '''' '''' None))))"

definition open_gate ::
  "service_env \<Rightarrow> string \<Rightarrow> ReviewPayload \<Rightarrow> reviewPlanState \<Rightarrow> ReviewAttempt list \<Rightarrow> review_gate svc" where
  "open_gate env rawSummary p state attempts =
     (case loadWorkflowCompletionRequirements env '''' (rp_TagsFile p) of
        ((src, _), Inl err) \<Rightarrow> fail_svc (workflowDefinitionsAPIError src err)
      | ((src, _), Inr definitions) \<Rightarrow>
          (let key_details = [(''review_key'', DStr (rp_Key p)), (''workflow_source_path'', DStr src)] in
           case findWorkflowRequiredTaskDefinition definitions (rp_Key p) of
             None \<Rightarrow> fail_svc (backendError ErrCodeInvalidInput
               ''review key is not configured in workflow definitions'' key_details)
           | Some d \<Rightarrow>
               (case wtd_Run d of
                  None \<Rightarrow> fail_svc (backendError ErrCodeInvalidInput
                    ''review key does not define a runnable workflow command'' key_details)
                | Some cmd \<Rightarrow>
                    bind_svc (fetchReviewReceiptScope (rp_ProjectID p) (rst_ReceiptID state)) (\<lambda>scope.
                    bind_svc (loadEffectiveWorkPlan (rp_ProjectID p) (rst_ReceiptID state)
                        (rst_PlanKey state)) (\<lambda>plan.
                    bind_svc (lift_api (detectReceiptChangedPaths (se_ctx env) scope))
                      (\<lambda>(detected, reliable).
                    bind_svc (lift_api (computeReviewFingerprint env (rp_ProjectID p)
                        (rst_ReceiptID state) (rp_Key p) src cmd scope plan)) (\<lambda>fingerprint.
                    ret_svc \<lparr> rg_payload = p, rg_state = state, rg_attempts = attempts,
                      rg_source = src, rg_definition = d, rg_run = cmd,
                      rg_summary = firstNonEmpty [rawSummary, wtd_Summary d, rp_Summary p],
                      rg_fingerprint = fingerprint, rg_scope = effectiveScopePaths scope plan,
                      rg_detected = detected, rg_reliable = reliable \<rparr>)))))))"

definition Review :: "service_env \<Rightarrow> ReviewPayload \<Rightarrow> ReviewResult svc" where
  "Review env payload =
     (let p = NormalizeReviewPayload payload in
      bind_svc (loadReviewPlanState (rp_ProjectID p) (rp_PlanKey p) (rp_ReceiptID p) (rp_Key p)) (\<lambda>state.
      bind_svc (listReviewAttempts (rp_ProjectID p) (rst_ReceiptID state) (rp_Key p)) (\<lambda>attempts.
      if \<not> rp_Run p then record_review env p state attempts
      else bind_svc (open_gate env (rp_Summary payload) p state attempts) (\<lambda>g. run_gate env g))))"

end
