(* ===== verification/Backend_Completion.thy ===== *)
theory Backend_Completion
  imports Backend_Review
begin

text \<open>
  \<open>Done\<close> of \<open>internal/service/backend/completion.go\<close>: the closeout of a receipt with its scope
  violations, the definition-of-done issues and the recorded run.
\<close>

section \<open>Issues\<close>

definition missingCompletionWorkItemIssue :: "string \<Rightarrow> string" where
  "missingCompletionWorkItemIssue requiredKey =
     (if requiredKey = ''verify:tests''
      then ''required verification work item is missing: '' @ requiredKey
      else ''required workflow work item is missing: '' @ requiredKey)"

definition incompleteCompletionWorkItemIssue :: "string \<Rightarrow> string \<Rightarrow> string" where
  "incompleteCompletionWorkItemIssue requiredKey status =
     (if requiredKey = ''verify:tests'' then ''required verification work item is not complete: ''
      else ''required workflow work item is not complete: '') @
     requiredKey @ '' (status='' @ status @ '')''"

definition staleReviewCompletionWorkItemIssue :: "string \<Rightarrow> string" where
  "staleReviewCompletionWorkItemIssue requiredKey =
     ''required workflow review is stale for the current scoped fingerprint: '' @ requiredKey"

definition missingReviewExecutionIssue :: "string \<Rightarrow> string" where
  "missingReviewExecutionIssue requiredKey =
     ''required workflow review has no passing execution: '' @ requiredKey"

definition effectiveScopeMode :: "string \<Rightarrow> string" where
  "effectiveScopeMode mode = (if mode = ''strict'' then ''strict'' else ''warn'')"

section \<open>Definition of done\<close>

definition item_issue :: "(string \<rightharpoonup> string) \<Rightarrow> string \<Rightarrow> string list" where
  "item_issue statusByKey requiredKey =
     (case statusByKey requiredKey of
        None \<Rightarrow> [missingCompletionWorkItemIssue requiredKey]
      | Some status \<Rightarrow>
          (if status \<noteq> WorkItemStatusComplete
           then [incompleteCompletionWorkItemIssue requiredKey status] else []))"

text \<open>The review check of one required definition. \<open>current\<close> is the plan once it was loaded; the
  check returns its issues and that plan.\<close>

definition review_issue ::
  "service_env \<Rightarrow> string \<Rightarrow> string \<Rightarrow> string \<Rightarrow> ReceiptScope \<Rightarrow> string \<Rightarrow> (string \<rightharpoonup> string) \<Rightarrow>
     workflowRequiredTaskDefinition \<Rightarrow> WorkPlan option \<Rightarrow> (string list \<times> WorkPlan option) svc" where
  "review_issue env projectID receiptID planKey scope workflowSourcePath statusByKey d current =
     (case wtd_Run d of
        None \<Rightarrow> ret_svc ([], current)
      | Some cmd \<Rightarrow>
          (if statusByKey (wtd_Key d) \<noteq> Some WorkItemStatusComplete then ret_svc ([], current)
           else
             bind_svc (listReviewAttempts projectID receiptID (wtd_Key d)) (\<lambda>attempts.
             if attempts = [] then ret_svc ([missingReviewExecutionIssue (wtd_Key d)], current)
             else if \<not> wtd_RerunRequiresNewFingerprint d then
               ret_svc (case latestReviewAttempt attempts of
                  Some a \<Rightarrow> if ra_Passed a then [] else [missingReviewExecutionIssue (wtd_Key d)]
                | None \<Rightarrow> [missingReviewExecutionIssue (wtd_Key d)], current)
             else
               bind_svc (case current of
                   Some plan \<Rightarrow> ret_svc (Some plan)
                 | None \<Rightarrow> loadEffectiveWorkPlan projectID receiptID planKey) (\<lambda>plan.
               bind_svc (lift_api (computeReviewFingerprint env projectID receiptID (wtd_Key d)
                   workflowSourcePath cmd scope plan)) (\<lambda>fingerprint.
               ret_svc (case latestReviewAttemptByFingerprint attempts fingerprint of
                  Some a \<Rightarrow> if ra_Passed a then [] else [staleReviewCompletionWorkItemIssue (wtd_Key d)]
                | None \<Rightarrow> [staleReviewCompletionWorkItemIssue (wtd_Key d)], plan))))))"

fun review_issues ::
  "(workflowRequiredTaskDefinition \<Rightarrow> WorkPlan option \<Rightarrow> (string list \<times> WorkPlan option) svc) \<Rightarrow>
     workflowRequiredTaskDefinition list \<Rightarrow> WorkPlan option \<Rightarrow> string list svc" where
  "review_issues check [] current = ret_svc []"
| "review_issues check (d # ds) current =
     bind_svc (check d current) (\<lambda>(issues, current').
     bind_svc (review_issues check ds current') (\<lambda>rest. ret_svc (issues @ rest)))"

definition evaluateDefinitionOfDoneIssues ::
  "service_env \<Rightarrow> string \<Rightarrow> string \<Rightarrow> string \<Rightarrow> WorkItem list \<Rightarrow> string list \<Rightarrow>
     workflowRequiredTaskDefinition list \<Rightarrow> ReceiptScope \<Rightarrow> string \<Rightarrow> string list svc" where
  "evaluateDefinitionOfDoneIssues env projectID receiptID planKey items requiredTaskKeys
       requiredDefinitions scope workflowSourcePath =
     (let keys = normalizeCompletionRequiredTaskKeys requiredTaskKeys;
          normalizedItems = be_normalizeWorkItems items in
      if keys = [] then ret_svc []
      else if normalizedItems = [] then ret_svc (map missingCompletionWorkItemIssue keys)
      else
        let statusByKey = map_of (map (\<lambda>i. (wi_ItemKey i, be_normalizeWorkItemStatus (wi_Status i)))
              normalizedItems) in
        bind_svc (review_issues
            (review_issue env projectID receiptID planKey scope workflowSourcePath statusByKey)
            requiredDefinitions None) (\<lambda>reviewIssues.
        ret_svc (concat (map (item_issue statusByKey) keys) @ reviewIssues)))"

section \<open>Done\<close>

text \<open>The required keys and definitions: the configured tasks that match, else the verification
  task when files changed.\<close>

definition required_tasks ::
  "bool \<Rightarrow> workflowRequiredTaskDefinition list \<Rightarrow> ReceiptScope \<Rightarrow> string list \<Rightarrow>
     string list \<times> workflowRequiredTaskDefinition list" where
  "required_tasks exists definitions scope filesChanged =
     (if hasConfiguredWorkflowRequiredTasks exists definitions then
        (let matched = matchWorkflowRequiredTaskDefinitions definitions
               \<lparr> vsc_ReceiptID = '''', vsc_PlanKey = '''', vsc_Phase = TrimSpace (rs_Phase scope),
                 vsc_Tags = elems (normalizeValues (rs_ResolvedTags scope)),
                 vsc_FilesChanged = filesChanged \<rparr>
         in (map wtd_Key matched, matched))
      else (defaultCompletionRequiredTaskKeys (filesChanged \<noteq> []), []))"

definition run_status :: "CompletionViolation list \<Rightarrow> string list \<Rightarrow> string" where
  "run_status violations issues =
     (if violations \<noteq> [] \<or> issues \<noteq> [] then ''accepted_with_warnings'' else ''accepted'')"

definition done_summary ::
  "service_env \<Rightarrow> DonePayload \<Rightarrow> string \<Rightarrow> ReceiptScope \<Rightarrow> string slice \<Rightarrow> CompletionViolation list \<Rightarrow>
     string list \<Rightarrow> RunReceiptSummary" where
  "done_summary env payload receiptID scope filesChanged violations issues =
     \<lparr> rrs_ProjectID = dp_ProjectID payload, rrs_RequestID = '''', rrs_ReceiptID = receiptID,
       rrs_TaskText = rs_TaskText scope, rrs_Phase = rs_Phase scope,
       rrs_Status = run_status violations issues, rrs_ResolvedTags = rs_ResolvedTags scope,
       rrs_PointerKeys = rs_PointerKeys scope, rrs_FilesChanged = filesChanged,
       rrs_DefinitionOfDoneIssues = (if issues = [] then None else Some issues),
       rrs_Outcome = TrimSpace (dp_Outcome payload),
       rrs_Actor = actorFromPayload (dp_Actor payload), rrs_VCS = se_vcs env \<rparr>"

text \<open>The last part: a strict closeout with findings is refused, any other is recorded.\<close>

definition finish_done ::
  "service_env \<Rightarrow> DonePayload \<Rightarrow> string \<Rightarrow> ReceiptScope \<Rightarrow> string slice \<Rightarrow> CompletionViolation list \<Rightarrow>
     string list \<Rightarrow> DoneResult svc" where
  "finish_done env payload receiptID scope filesChanged violations issues =
     (let dod = (if issues = [] then None else Some issues) in
      if effectiveScopeMode (dp_ScopeMode payload) = ''strict'' \<and> (violations \<noteq> [] \<or> issues \<noteq> [])
      then ret_svc \<lparr> dr_Accepted = False, dr_Violations = violations,
                     dr_DefinitionOfDoneIssues = dod, dr_RunID = 0 \<rparr>
      else call_repo (SaveRunReceiptSummary (se_fresh_receipt env)
          (done_summary env payload receiptID scope filesChanged violations issues))
        (reportCompletionInternalError ''save_run_receipt_summary'') (\<lambda>ids.
        ret_svc \<lparr> dr_Accepted = True, dr_Violations = violations,
                  dr_DefinitionOfDoneIssues = dod, dr_RunID = rri_RunID ids \<rparr>))"

definition done_violations ::
  "DonePayload \<Rightarrow> ReceiptScope \<Rightarrow> WorkPlan option \<Rightarrow> string list \<Rightarrow> bool \<Rightarrow> string slice \<Rightarrow>
     CompletionViolation list" where
  "done_violations payload scope plan detected reliable filesChanged =
     mergeCompletionViolations
       [filesChangedMismatchViolations reliable detected (dp_FilesChanged payload),
        outOfScopeViolations filesChanged (completionEffectiveScopePaths scope plan)]"

definition check_done ::
  "service_env \<Rightarrow> DonePayload \<Rightarrow> string \<Rightarrow> string \<Rightarrow> ReceiptScope \<Rightarrow> WorkPlan option \<Rightarrow> string slice \<Rightarrow>
     string list svc" where
  "check_done env payload receiptID planKey scope plan filesChanged =
     call_repo (ListWorkItems \<lparr> flq_ProjectID = dp_ProjectID payload, flq_ReceiptID = receiptID \<rparr>)
       (reportCompletionInternalError ''list_work_items'') (\<lambda>workItems.
     bind_svc (case plan of
         None \<Rightarrow> ret_svc ()
       | Some p \<Rightarrow> bind_svc (syncTerminalWorkPlanStatus (dp_ProjectID payload) receiptID p workItems)
                    (\<lambda>_. ret_svc ())) (\<lambda>_.
     case loadWorkflowCompletionRequirements env '''' (dp_TagsFile payload) of
       ((src, _), Inl err) \<Rightarrow> fail_svc (workflowDefinitionsAPIError src err)
     | ((src, exists), Inr definitions) \<Rightarrow>
         (case required_tasks exists definitions scope (elems filesChanged) of
            (keys, required) \<Rightarrow>
              evaluateDefinitionOfDoneIssues env (dp_ProjectID payload) receiptID planKey workItems keys
                required scope src)))"

definition Done :: "service_env \<Rightarrow> DonePayload \<Rightarrow> DoneResult svc" where
  "Done env payload =
     bind_svc (lift_api (resolveReceiptPlanSelection (dp_ProjectID payload) (dp_ReceiptID payload)
         (dp_PlanKey payload))) (\<lambda>(receiptID, planKey).
     call_repo (FetchReceiptScope \<lparr> rsq_ProjectID = dp_ProjectID payload, rsq_ReceiptID = receiptID \<rparr>)
       (\<lambda>e. if e = ErrReceiptScopeNotFound
            then backendError ErrCodeNotFound ''receipt scope was not found''
              [(''project_id'', DStr (TrimSpace (dp_ProjectID payload))), (''receipt_id'', DStr receiptID)]
            else reportCompletionInternalError ''fetch_receipt_scope'' e) (\<lambda>scope.
     bind_svc (loadEffectiveWorkPlan (dp_ProjectID payload) receiptID planKey) (\<lambda>plan.
     bind_svc (lift_api (detectReceiptChangedPaths (se_ctx env) scope)) (\<lambda>(detected, reliable).
     bind_svc (lift_api (resolveDoneFilesChanged reliable detected (dp_FilesChanged payload)
         (dp_NoFileChanges payload))) (\<lambda>filesChanged.
     bind_svc (check_done env payload receiptID planKey scope plan filesChanged) (\<lambda>issues.
     finish_done env payload receiptID scope filesChanged
       (done_violations payload scope plan detected reliable filesChanged) issues))))))"

end
