(* ===== verification/Domain_Properties.thy ===== *)
theory Domain_Properties
  imports Domain_Plan
begin

text \<open>
  The properties of the storage domain (\<open>internal/storage/domain/domain.go\<close>): statuses, string
  lists, task deduplication and merge, the next state of a plan, verification batches and sync
  inputs, each with a witness on concrete data where it has hypotheses.
\<close>

section \<open>Sample data\<close>

definition sample_task :: "string \<Rightarrow> string \<Rightarrow> WorkItem" where
  "sample_task key status =
     WorkItem_zero\<lparr>wi_ItemKey := key, wi_Status := status, wi_Summary := ''do it''\<rparr>"

definition sample_input :: WorkPlanUpsertInput where
  "sample_input =
     \<lparr> wpi_ProjectID = ''proj'', wpi_PlanKey = ''plan:r1'', wpi_ReceiptID = ''r1'',
       wpi_Mode = WorkPlanModeMerge, wpi_Title = '''', wpi_Objective = '''', wpi_Kind = '''',
       wpi_ParentPlanKey = '''', wpi_Status = '''', wpi_Stages = WorkPlanStages_zero,
       wpi_InScope = None, wpi_OutOfScope = None, wpi_DiscoveredPaths = None,
       wpi_Constraints = None, wpi_References = None, wpi_ExternalRefs = None,
       wpi_Tasks = [sample_task ''t1'' ''blocked''] \<rparr>"

text \<open>The input that says nothing but which plan it is about.\<close>

definition name_only_upsert :: "string \<Rightarrow> string \<Rightarrow> WorkPlanUpsertInput" where
  "name_only_upsert projectID planKey =
     \<lparr> wpi_ProjectID = projectID, wpi_PlanKey = planKey, wpi_ReceiptID = '''',
       wpi_Mode = WorkPlanModeMerge, wpi_Title = '''', wpi_Objective = '''', wpi_Kind = '''',
       wpi_ParentPlanKey = '''', wpi_Status = '''', wpi_Stages = WorkPlanStages_zero,
       wpi_InScope = None, wpi_OutOfScope = None, wpi_DiscoveredPaths = None,
       wpi_Constraints = None, wpi_References = None, wpi_ExternalRefs = None,
       wpi_Tasks = [] \<rparr>"

lemma Trim_words [simp]:
  "TrimSpace ''blocked'' = ''blocked''" "TrimSpace ''complete'' = ''complete''"
  "TrimSpace ''pending'' = ''pending''" "TrimSpace ''in_progress'' = ''in_progress''"
  "TrimSpace ''superseded'' = ''superseded''"
  "TrimSpace ''passed'' = ''passed''" "TrimSpace ''failed'' = ''failed''"
  "TrimSpace ''do it'' = ''do it''" "TrimSpace ''t1'' = ''t1''"
  by (rule TrimSpace_graph; simp add: ascii_graph_def)+

section \<open>Statuses\<close>

text \<open>every status that storage writes is one of the five canonical ones, whatever the
  client sent, canonical statuses are kept, and normalizing twice is normalizing once.\<close>

theorem status_canonical:
  "NormalizeWorkItemStatus raw \<in> work_item_statuses \<and>
   NormalizeWorkItemStatus (NormalizeWorkItemStatus raw) = NormalizeWorkItemStatus raw \<and>
   StorageWorkItemStatus (TrimSpace raw) = StorageWorkItemStatus raw"
  by (simp add: StorageWorkItemStatus_def)

text \<open>the status derived for a plan is the status of one of its items, and no item has a
  status of higher precedence (blocked, in_progress, pending, complete, superseded).\<close>

theorem derive_plan_status_max:
  assumes "items \<noteq> []"
  shows "(\<exists>i \<in> set items. NormalizeWorkItemStatus (wi_Status i) = DerivePlanStatus items) \<and>
    (\<forall>i \<in> set items. status_rank (NormalizeWorkItemStatus (wi_Status i)) \<le>
       status_rank (DerivePlanStatus items))"
  using DerivePlanStatus_max[OF assms] by blast

theorem derive_plan_status_max_witness:
  "\<exists>i \<in> set [sample_task ''a'' ''complete'', sample_task ''b'' ''blocked''].
     NormalizeWorkItemStatus (wi_Status i) =
       DerivePlanStatus [sample_task ''a'' ''complete'', sample_task ''b'' ''blocked'']"
  using derive_plan_status_max[of "[sample_task ''a'' ''complete'', sample_task ''b'' ''blocked'']"]
  by blast

text \<open>a plan counts as finished exactly when it has a task and every task of it is complete
  or superseded.\<close>

theorem derive_plan_status_terminal:
  "DerivePlanStatus items \<in> {PlanStatusComplete, PlanStatusSuperseded} \<longleftrightarrow>
     items \<noteq> [] \<and> list_all (\<lambda>i. NormalizeWorkItemStatus (wi_Status i) \<in>
       {WorkItemStatusComplete, WorkItemStatusSuperseded}) items"
proof (cases "items = []")
  case False
  then obtain i0 where i0: "i0 \<in> set items"
    "NormalizeWorkItemStatus (wi_Status i0) = DerivePlanStatus items"
    using DerivePlanStatus_max(1) by blast
  have "status_rank (NormalizeWorkItemStatus (wi_Status i)) \<le> status_rank (DerivePlanStatus items)"
    if "i \<in> set items" for i
    using DerivePlanStatus_max(2)[OF False that] .
  moreover have "NormalizeWorkItemStatus raw \<in> {WorkItemStatusComplete, WorkItemStatusSuperseded} \<longleftrightarrow>
      status_rank (NormalizeWorkItemStatus raw) \<le> 1" for raw
    using status_cases[of raw] by (auto simp: status_distinct[symmetric])
  ultimately show ?thesis
    using False i0 by (auto simp: list_all_iff plan_status_eqs) (metis le_trans)+
qed (simp add: DerivePlanStatus_def status_consts)

section \<open>Lists\<close>

text \<open>a normalized string list is the sorted list of the set of the trimmed non-blank
  values, so it depends on neither order nor repetition, and normalizing it again changes
  nothing.\<close>

theorem string_list_normal:
  "elems (NormalizeStringList (Some xs)) = sorted_list_of_set (TrimSpace ` set xs - {''''}) \<and>
   elems (NormalizeStringList (NormalizeStringList (Some xs))) =
     elems (NormalizeStringList (Some xs))"
  using nsl.nl_sorted_list_of_set by simp

text \<open>a normalized repository path has no backslash and is empty or clean; it is stable under
  a second normalization when the first left no outer white space.\<close>

theorem repo_path_normal:
  "CHR 0x5C \<notin> set (NormalizeRepoPath raw) \<and>
   (NormalizeRepoPath raw = '''' \<or> path_Clean (NormalizeRepoPath raw) = NormalizeRepoPath raw) \<and>
   (TrimSpace (NormalizeRepoPath raw) \<noteq> NormalizeRepoPath raw \<or>
    NormalizeRepoPath (NormalizeRepoPath raw) = NormalizeRepoPath raw)"
  using NormalizeRepoPath_no_backslash NormalizeRepoPath_clean NormalizeRepoPath_refix by blast

theorem repo_path_normal_witness:
  "NormalizeRepoPath (NormalizeRepoPath ''a//b'') = NormalizeRepoPath ''a//b''"
proof -
  have "TrimSpace ''a//b'' = ''a//b''" "TrimSpace ''a/b'' = ''a/b''"
    by (rule TrimSpace_graph; simp add: ascii_graph_def)+
  moreover from this have "NormalizeRepoPath ''a//b'' = ''a/b''"
    by (simp add: NormalizeRepoPath_def ReplaceByte_def path_Clean_def path_segs_def clean_step_def Let_def)
  ultimately show ?thesis using repo_path_normal[of "''a//b''"] by simp
qed

section \<open>Tasks\<close>


lemma sample_dedupe:
  "normalize_plan_task (sample_task ''t1'' ''blocked'') \<in>
     set (NormalizeWorkPlanTasks [sample_task ''t1'' ''blocked'', sample_task ''t1'' ''pending''])"
  by (simp add: NormalizeWorkPlanTasks_emitted nwt.emitted_mem)
     (simp add: sample_task_def plan_task_upd_def Let_def status_priority_def
       NormalizeWorkItemStatus_canon[unfolded status_consts] status_consts)


text \<open>in merge mode an update that names only the key of a stored task leaves the task as it
  is.\<close>

theorem merge_only_key:
  assumes "wf_task current"
  shows "mergeWorkPlanTask current (WorkItem_zero\<lparr>wi_ItemKey := wi_ItemKey current\<rparr>) True = current"
  using assms status_not_empty[of "wi_Status current"]
  by (cases current)
     (simp add: mergeWorkPlanTask_def Let_def wf_task_def norm_simps NormalizeWorkItemStatus_fixed)

theorem merge_only_key_witness:
  "mergeWorkPlanTask (normalize_plan_task (sample_task ''t1'' ''blocked''))
     (WorkItem_zero\<lparr>wi_ItemKey := ''t1''\<rparr>) True = normalize_plan_task (sample_task ''t1'' ''blocked'')"
  using merge_only_key[of "normalize_plan_task (sample_task ''t1'' ''blocked'')"]
    wf_normalize_plan_task[of "sample_task ''t1'' ''blocked''"]
  by (simp add: sample_task_def)

section \<open>Plans\<close>

text \<open>Replacing a plan ignores what was stored; every scalar field is what the input says,
  trimmed.\<close>

theorem replace_ignores_current:
  "BuildNextWorkPlanState c1 f1 input WorkPlanModeReplace =
     BuildNextWorkPlanState c2 f2 input WorkPlanModeReplace \<and>
   wp_Title (BuildNextWorkPlanState c1 f1 input WorkPlanModeReplace) = TrimSpace (wpi_Title input) \<and>
   wp_ReceiptID (BuildNextWorkPlanState c1 f1 input WorkPlanModeReplace) =
     TrimSpace (wpi_ReceiptID input)"
  by (simp add: BuildNextWorkPlanState_def Let_def)

text \<open>merging an input that only names the plan leaves a well-formed plan as it is.\<close>

theorem merge_plan_only_key:
  assumes "wf_plan current"
  shows "BuildNextWorkPlanState current True
    (name_only_upsert (wp_ProjectID current) (wp_PlanKey current)) WorkPlanModeMerge = current"
  using assms
  by (cases current)
     (simp add: BuildNextWorkPlanState_def Let_def name_only_upsert_def wf_plan_def mode_consts
       WorkPlanStages_zero_def NormalizeWorkPlanStages_fixed NormalizeWorkItemStatus_fixed)

theorem merge_plan_only_key_witness:
  "BuildNextWorkPlanState (BuildNextWorkPlanState WorkPlan_zero False sample_input WorkPlanModeMerge)
     True (name_only_upsert ''proj'' ''plan:r1'') WorkPlanModeMerge =
   BuildNextWorkPlanState WorkPlan_zero False sample_input WorkPlanModeMerge"
proof -
  have t: "TrimSpace ''proj'' = ''proj''" "TrimSpace ''plan:r1'' = ''plan:r1''"
    by (rule TrimSpace_graph; simp add: ascii_graph_def)+
  show ?thesis
    using merge_plan_only_key[OF BuildNext_wf, of False WorkPlan_zero sample_input WorkPlanModeMerge]
    by (simp add: sample_input_def name_only_upsert_def t)
qed

section \<open>Sync inputs\<close>

definition sync_key :: "SyncPath \<Rightarrow> string" where
  "sync_key raw = NormalizeRepoPath (sp_Path raw)"

definition sync_entry_ok :: "string \<Rightarrow> SyncPath \<Rightarrow> bool" where
  "sync_entry_ok k e \<longleftrightarrow> k \<noteq> '''' \<and> sp_Path e = k \<and> (sp_Deleted e \<longleftrightarrow> sp_ContentHash e = '''')"

lemma sync_apply_step:
  assumes "sync_apply_paths m (raw # rest) = Inr m'"
  obtains (same) "sync_apply_paths m rest = Inr m'"
      "sync_key raw = '''' \<or> sp_Deleted raw \<and>
         (\<exists>cur. map_of m (sync_key raw) = Some cur \<and> \<not> sp_Deleted cur)"
  | (put) e where "sync_apply_paths (AList.update (sync_key raw) e m) rest = Inr m'"
      "sync_entry_ok (sync_key raw) e" "sp_Deleted e = sp_Deleted raw"
      "sp_Deleted raw \<Longrightarrow> \<forall>cur. map_of m (sync_key raw) = Some cur \<longrightarrow> sp_Deleted cur"
proof (cases "sync_key raw = ''''")
  case True
  then show ?thesis using assms same by (simp add: sync_key_def)
next
  case key: False
  let ?e = "\<lambda>h d. \<lparr> sp_Path = sync_key raw, sp_ContentHash = h, sp_Deleted = d \<rparr>"
  show ?thesis
  proof (cases "sp_Deleted raw")
    case del: True
    show ?thesis
    proof (cases "map_of m (sync_key raw)")
      case None
      then show ?thesis using assms key del put[of "?e '''' True"]
        by (simp add: sync_key_def Let_def sync_entry_ok_def)
    next
      case (Some cur)
      then show ?thesis using assms key del put[of "?e '''' True"] same
        by (cases "sp_Deleted cur") (simp_all add: sync_key_def Let_def sync_entry_ok_def)
    qed
  next
    case False
    then show ?thesis using assms key put[of "?e (TrimSpace (sp_ContentHash raw)) False"]
      by (cases "TrimSpace (sp_ContentHash raw) = ''''")
         (simp_all add: sync_key_def Let_def sync_entry_ok_def)
  qed
qed

definition sync_map_ok :: "(string \<times> SyncPath) list \<Rightarrow> bool" where
  "sync_map_ok m \<longleftrightarrow> (\<forall>k e. map_of m k = Some e \<longrightarrow> sync_entry_ok k e)"

lemma sync_map_ok_update:
  "\<lbrakk> sync_map_ok m; sync_entry_ok k e \<rbrakk> \<Longrightarrow> sync_map_ok (AList.update k e m)"
  by (simp add: sync_map_ok_def update_conv')

lemma sync_apply_paths_ok:
  assumes "sync_apply_paths m raws = Inr m'" "sync_map_ok m" "distinct (map fst m)"
  shows "sync_map_ok m' \<and> distinct (map fst m') \<and>
    dom (map_of m') = dom (map_of m) \<union> (sync_key ` set raws - {''''})"
  using assms
proof (induction raws arbitrary: m)
  case (Cons raw rest)
  from Cons.prems(1) show ?case
  proof (cases rule: sync_apply_step)
    case same
    have "sync_key raw = '''' \<or> sync_key raw \<in> dom (map_of m)" using same(2) by auto
    then show ?thesis using Cons.IH[OF same(1) Cons.prems(2,3)] by auto
  next
    case (put e)
    have k: "sync_key raw \<noteq> ''''" using put(2) by (simp add: sync_entry_ok_def)
    have "dom (map_of (AList.update (sync_key raw) e m)) = insert (sync_key raw) (dom (map_of m))"
      by (simp add: update_conv')
    then show ?thesis
      using Cons.IH[OF put(1) sync_map_ok_update[OF Cons.prems(2) put(2)]] Cons.prems(3) k
      by (simp add: distinct_update insert_Diff_if)
  qed
qed simp

lemma sync_apply_paths_deleted:
  assumes "sync_apply_paths m raws = Inr m'" "map_of m' k = Some e" "k \<noteq> ''''"
  shows "sp_Deleted e \<longleftrightarrow> (\<forall>e0. map_of m k = Some e0 \<longrightarrow> sp_Deleted e0) \<and>
    (\<forall>raw \<in> set raws. sync_key raw = k \<longrightarrow> sp_Deleted raw)"
  using assms
proof (induction raws arbitrary: m)
  case (Cons raw rest)
  from Cons.prems(1) show ?case
  proof (cases rule: sync_apply_step)
    case same
    show ?thesis
    proof (cases "sync_key raw = k")
      case True
      then show ?thesis using Cons.IH[OF same(1) Cons.prems(2,3)] Cons.prems(3) same(2) by force
    next
      case False
      then show ?thesis using Cons.IH[OF same(1) Cons.prems(2,3)] by simp
    qed
  next
    case (put e')
    note ih = Cons.IH[OF put(1) Cons.prems(2,3)]
    show ?thesis
    proof (cases "sync_key raw = k")
      case True
      then have "map_of (AList.update (sync_key raw) e' m) k = Some e'" by (simp add: update_conv')
      then show ?thesis using ih put(3,4) True by auto
    next
      case False
      then have "map_of (AList.update (sync_key raw) e' m) k = map_of m k" by (simp add: update_conv')
      then show ?thesis using ih False by simp
    qed
  qed
qed simp

text \<open>A sync input that passes normalization lists every non-blank path once, in path order;
  a path is reported deleted exactly when all its entries are deletions, has a content hash
  exactly when it is not deleted, and the mode is one of the three known ones.\<close>

lemma sync_input_normal:
  assumes "NormalizeSyncApplyInput input = Inr out"
  shows "sorted (map sp_Path (sai_Paths out)) \<and> distinct (map sp_Path (sai_Paths out)) \<and>
    sp_Path ` set (sai_Paths out) = sync_key ` set (sai_Paths input) - {''''} \<and>
    (\<forall>e \<in> set (sai_Paths out). (sp_Deleted e \<longleftrightarrow> sp_ContentHash e = '''') \<and>
       (sp_Deleted e \<longleftrightarrow>
          (\<forall>raw \<in> set (sai_Paths input). sync_key raw = sp_Path e \<longrightarrow> sp_Deleted raw))) \<and>
    sai_Mode out \<in> {''changed'', ''full'', ''working_tree''}"
proof -
  obtain m where m: "sync_apply_paths [] (sai_Paths input) = Inr m" "sai_Paths out = emit_sorted m"
    and mode: "sai_Mode out \<in> {''changed'', ''full'', ''working_tree''}"
    using assms by (auto simp: NormalizeSyncApplyInput_def Let_def bind_res_Inr_iff split: if_splits)
  have ok: "\<And>k e. map_of m k = Some e \<Longrightarrow> sync_entry_ok k e" "distinct (map fst m)"
    "dom (map_of m) = sync_key ` set (sai_Paths input) - {''''}"
    using sync_apply_paths_ok[OF m(1)] by (simp_all add: sync_map_ok_def)
  have keys: "map sp_Path (emit_sorted m) = sort (map fst m)"
  proof -
    have "sp_Path (the (map_of m k)) = k" if "k \<in> fst ` set m" for k
      using that ok(1) by (metis domIff dom_map_of_conv_image_fst option.collapse sync_entry_ok_def)
    then have "map (\<lambda>k. sp_Path (the (map_of m k))) (sort (map fst m)) = sort (map fst m)"
      by (intro map_idI) auto
    then show ?thesis by (simp add: emit_sorted_def comp_def)
  qed
  have set: "sp_Path ` set (emit_sorted m) = dom (map_of m)"
    using arg_cong[OF keys, of set] by (simp add: dom_map_of_conv_image_fst)
  have entry: "(sp_Deleted e \<longleftrightarrow> sp_ContentHash e = '''') \<and> (sp_Deleted e \<longleftrightarrow>
      (\<forall>raw \<in> set (sai_Paths input). sync_key raw = sp_Path e \<longrightarrow> sp_Deleted raw))"
    if "e \<in> set (emit_sorted m)" for e
  proof -
    have "e \<in> snd ` set m" using that set_emit_sorted[OF ok(2)] by simp
    then obtain k where "(k, e) \<in> set m" by auto
    then have "map_of m k = Some e" by (rule map_of_is_SomeI[OF ok(2)])
    then show ?thesis
      using ok(1)[of k e] sync_apply_paths_deleted[OF m(1), of k e] by (auto simp: sync_entry_ok_def)
  qed
  have k: "sorted (map sp_Path (emit_sorted m)) \<and> distinct (map sp_Path (emit_sorted m))"
    using keys ok(2) by simp
  show ?thesis
    unfolding m(2) using k mode set[unfolded ok(3)] entry by blast
qed

section \<open>Verification batches\<close>

lemma normalize_test_run_ok:
  "normalize_test_run p b now i raw = Inr r \<Longrightarrow>
     vtr_StartedAt r \<le> vtr_FinishedAt r \<and> 0 \<le> vtr_DurationMS r \<and> 0 < vtr_TimeoutSec r \<and>
     0 \<le> vtr_ExpectedExitCode r \<and> vtr_ExpectedExitCode r \<le> 255 \<and> vtr_TestID r \<noteq> '''' \<and>
     vtr_DefinitionHash r \<noteq> '''' \<and>
     vtr_Status r \<in> {''passed'', ''failed'', ''timed_out'', ''errored'', ''skipped''}"
  by (auto simp: normalize_test_run_def Let_def split: if_splits)

text \<open>a batch that passes normalization has one result per input result, each with a test
  id, a definition hash, a known status, a positive timeout, an expected exit code of one byte,
  a non-negative duration, and an end that is not before its start.\<close>

theorem batch_normal:
  assumes "NormalizeVerificationBatch clock input = Inr out"
  shows "length (nvb_Results out) = length (vb_Results input) \<and>
    nvb_Status out \<in> {''passed'', ''failed''} \<and> nvb_BatchRunID out \<noteq> '''' \<and>
    (\<forall>r \<in> set (nvb_Results out). vtr_StartedAt r \<le> vtr_FinishedAt r \<and> 0 \<le> vtr_DurationMS r \<and>
       0 < vtr_TimeoutSec r \<and> 0 \<le> vtr_ExpectedExitCode r \<and> vtr_ExpectedExitCode r \<le> 255 \<and>
       vtr_TestID r \<noteq> '''' \<and> vtr_DefinitionHash r \<noteq> '''' \<and>
       vtr_Status r \<in> {''passed'', ''failed'', ''timed_out'', ''errored'', ''skipped''})"
proof -
  obtain rs where rs: "map_res (\<lambda>(i, raw). normalize_test_run (TrimSpace (vb_ProjectID input))
      (TrimSpace (vb_BatchRunID input)) (clock i) i raw) (index_from 0 (vb_Results input)) = Inr rs"
    and out: "nvb_Results out = rs" "nvb_Status out \<in> {''passed'', ''failed''}"
      "nvb_BatchRunID out \<noteq> ''''"
    using assms by (auto simp: NormalizeVerificationBatch_def Let_def bind_res_Inr_iff split: if_splits)
  have len: "length rs = length (vb_Results input)"
    using rs list_all2_lengthD by (fastforce simp: map_res_Inr index_from_zip)
  have mem: "\<exists>i raw. normalize_test_run (TrimSpace (vb_ProjectID input))
      (TrimSpace (vb_BatchRunID input)) (clock i) i raw = Inr r" if "r \<in> set rs" for r
    using rs that by (auto simp: map_res_Inr list_all2_conv_all_nth in_set_conv_nth split: prod.splits)
      (metis surj_pair)
  show ?thesis using out len mem normalize_test_run_ok by blast
qed

theorem batch_normal_witness:
  "\<exists>out. NormalizeVerificationBatch (\<lambda>_. 7) \<lparr> vb_BatchRunID = ''b'', vb_ProjectID = ''p'', vb_ReceiptID = '''',
       vb_PlanKey = '''', vb_Phase = '''', vb_TestsSourcePath = '''', vb_Status = ''passed'',
       vb_Passed = True, vb_SelectedTestIDs = None, vb_Results = [], vb_CreatedAt = 0,
       vb_Actor = Actor_zero \<rparr> = Inr out \<and> nvb_Status out \<in> {''passed'', ''failed''}"
proof -
  let ?b = "\<lparr> vb_BatchRunID = ''b'', vb_ProjectID = ''p'', vb_ReceiptID = '''',
       vb_PlanKey = '''', vb_Phase = '''', vb_TestsSourcePath = '''', vb_Status = ''passed'',
       vb_Passed = True, vb_SelectedTestIDs = None, vb_Results = [], vb_CreatedAt = 0,
       vb_Actor = Actor_zero \<rparr>"
  have t: "TrimSpace ''p'' = ''p''" "TrimSpace ''b'' = ''b''"
    by (rule TrimSpace_graph; simp add: ascii_graph_def)+
  obtain out where "NormalizeVerificationBatch (\<lambda>_. 7) ?b = Inr out"
    by (simp add: NormalizeVerificationBatch_def Let_def t)
  then show ?thesis using batch_normal by blast
qed

section \<open>Tag overlap\<close>

lemma overlap_fold:
  "foldl (\<lambda>(seen, count) v. if v \<notin> T \<or> v \<in> set seen then (seen, count) else (v # seen, Suc count))
     (seen, c) vs = (seen', c') \<Longrightarrow>
   distinct seen \<Longrightarrow> set seen \<subseteq> T \<Longrightarrow>
   set seen' = set seen \<union> (set vs \<inter> T) \<and> distinct seen' \<and> length seen' - length seen = c' - c \<and>
   length seen \<le> length seen' \<and> c \<le> c'"
proof (induction vs arbitrary: seen c)
  case (Cons v vs)
  show ?case
  proof (cases "v \<notin> T \<or> v \<in> set seen")
    case True
    then show ?thesis using Cons.IH[of seen c] Cons.prems by auto
  next
    case False
    then show ?thesis using Cons.IH[of "v # seen" "Suc c"] Cons.prems by auto
  qed
qed simp

text \<open>the overlap count is the number of distinct common values.\<close>

theorem tag_overlap_card: "CandidateTagOverlap vs ts = card (set vs \<inter> set ts)"
proof (cases "vs = [] \<or> ts = []")
  case False
  obtain seen c where f: "foldl (\<lambda>(seen, count) v. if v \<notin> set ts \<or> v \<in> set seen then (seen, count)
      else (v # seen, Suc count)) ([], 0) vs = (seen, c)" by fastforce
  have "set seen = set vs \<inter> set ts" "distinct seen" "length seen = c"
    using overlap_fold[OF f] by auto
  then show ?thesis using False f distinct_card[of seen] by (simp add: CandidateTagOverlap_def)
qed (auto simp: CandidateTagOverlap_def)

end
