(* ===== verification/Sqlite_Pointers.thy ===== *)
theory Sqlite_Pointers
  imports Sqlite_Receipts Domain_Properties
begin

text \<open>
  The pointer index in \<open>internal/adapters/sqlite/repository.go\<close>: \<open>FetchCandidatePointers\<close>,
  \<open>ListPointerInventory\<close>, \<open>UpsertPointerStubs\<close>, \<open>LookupPointerByKey\<close> and \<open>ApplySync\<close>, with the
  abstract view that a sync updates: for each pointer its path, whether it is stale and its hash.
\<close>

section \<open>Reads\<close>

definition matchesStaleFilter :: "bool \<Rightarrow> int option \<Rightarrow> StaleFilter \<Rightarrow> bool" where
  "matchesStaleFilter isStale staleAt flt =
     (if \<not> sf_AllowStale flt \<and> isStale then False
      else case sf_StaleBefore flt of
        None \<Rightarrow> True
      | Some before \<Rightarrow>
          (if \<not> isStale then True
           else case staleAt of None \<Rightarrow> False | Some t \<Rightarrow> \<not> before < t))"

definition candidate_of_row :: "string \<Rightarrow> pointer_row \<Rightarrow> CandidatePointer" where
  "candidate_of_row key row =
     \<lparr> cp_Key = key, cp_Path = pt_path row, cp_Anchor = pt_anchor row, cp_Kind = pt_kind row,
       cp_Label = pt_label row, cp_Description = pt_description row,
       cp_Tags = decodeStringList (pt_tags row), cp_IsRule = pt_is_rule row,
       cp_IsStale = pt_is_stale row, cp_UpdatedAt = unixTime (pt_updated_at row) \<rparr>"

definition pointers_of :: "string \<Rightarrow> db \<Rightarrow> (string \<times> pointer_row) list" where
  "pointers_of projectID s =
     map (\<lambda>((p, k), row). (k, row)) (filter (\<lambda>((p, k), row). p = projectID) (db_pointers s))"

definition FetchCandidatePointers :: "CandidatePointerQuery \<Rightarrow> CandidatePointer list db_op" where
  "FetchCandidatePointers input =
     (let projectID = TrimSpace (cpq_ProjectID input) in
      if projectID = '''' then fail_db (GoErr ''project_id is required'')
      else bind_db (db_call ''query candidate pointers'') (\<lambda>_.
        bind_db (get_db (pointers_of projectID)) (\<lambda>rows.
        ret_db (SortAndLimitCandidatePointers
          (map (\<lambda>(k, row). candidate_of_row k row)
            (filter (\<lambda>(k, row). matchesStaleFilter (pt_is_stale row)
                       (map_option unixTime (pt_stale_at row)) (cpq_StaleFilter input)) rows))
          input 32))))"

definition ListPointerInventory :: "string \<Rightarrow> PointerInventory list db_op" where
  "ListPointerInventory rawProjectID =
     (let projectID = TrimSpace rawProjectID in
      if projectID = '''' then fail_db (GoErr ''project_id is required'')
      else bind_db (db_call ''query pointer inventory'') (\<lambda>_.
        bind_db (get_db (pointers_of projectID)) (\<lambda>rows.
        ret_db (map (\<lambda>path. \<lparr> pi_Path = NormalizeRepoPath path,
              pi_IsStale = list_ex (\<lambda>(_, row). pt_path row = path \<and> pt_is_stale row) rows \<rparr>)
          (filter (\<lambda>path. NormalizeRepoPath path \<noteq> '''')
            (sort (remdups (map (\<lambda>(_, row). pt_path row) rows))))))))"

definition LookupPointerByKey :: "PointerLookupQuery \<Rightarrow> CandidatePointer db_op" where
  "LookupPointerByKey input =
     (let projectID = TrimSpace (plq_ProjectID input) in
      if projectID = '''' then fail_db (GoErr ''project_id is required'')
      else let pointerKey = TrimSpace (plq_PointerKey input) in
      if pointerKey = '''' then fail_db (GoErr ''pointer_key is required'')
      else bind_db (db_call ''query pointer lookup'') (\<lambda>_.
        bind_db (get_db (\<lambda>s. map_of (db_pointers s) (projectID, pointerKey))) (\<lambda>found.
        case found of
          None \<Rightarrow> fail_db ErrPointerLookupNotFound
        | Some row \<Rightarrow>
            (if pt_is_stale row then fail_db ErrPointerLookupNotFound
             else let c = candidate_of_row pointerKey row in
               ret_db (c\<lparr>cp_Key := TrimSpace (cp_Key c), cp_Path := NormalizeRepoPath (cp_Path c),
                 cp_Anchor := TrimSpace (cp_Anchor c), cp_Kind := TrimSpace (cp_Kind c),
                 cp_Label := TrimSpace (cp_Label c), cp_Description := TrimSpace (cp_Description c),
                 cp_Tags := NormalizeStringList (cp_Tags c)\<rparr>)))))"

section \<open>Stubs\<close>

definition normalizePointerStubKind :: "string \<Rightarrow> string" where
  "normalizePointerStubKind raw =
     (let kind = ToLower (TrimSpace raw) in
      if kind \<in> set [''rule'', ''doc'', ''test'', ''command''] then kind else ''code'')"

definition stub_key :: "string \<Rightarrow> PointerStub \<Rightarrow> string" where
  "stub_key projectID raw =
     (let normalizedPath = NormalizeRepoPath (ps_Path raw); key = TrimSpace (ps_PointerKey raw) in
      if normalizedPath = '''' then ''''
      else if key = '''' then projectID @ '':'' @ normalizedPath else key)"

definition normalize_stub :: "string \<Rightarrow> PointerStub \<Rightarrow> PointerStub" where
  "normalize_stub projectID raw =
     (let normalizedPath = NormalizeRepoPath (ps_Path raw);
          kind = normalizePointerStubKind (ps_Kind raw);
          label0 = TrimSpace (ps_Label raw);
          base = TrimSpace (path_Base normalizedPath);
          label = (if label0 \<noteq> '''' then label0
                   else if base = '''' \<or> base = ''.'' \<or> base = ''/'' then normalizedPath else base);
          description0 = TrimSpace (ps_Description raw);
          tags = NormalizeStringList (ps_Tags raw)
      in \<lparr> ps_PointerKey = stub_key projectID raw, ps_Path = normalizedPath, ps_Kind = kind,
           ps_Label = label,
           ps_Description = (if description0 = ''''
             then ''Auto-indexed pointer stub. Curate label, description, and tags.''
             else description0),
           ps_Tags = (if elems tags = [] then Some [''auto-indexed'', kind] else tags) \<rparr>)"

definition normalizePointerStubs :: "string \<Rightarrow> PointerStub list \<Rightarrow> PointerStub list go_result" where
  "normalizePointerStubs rawProjectID stubs =
     (let projectID = TrimSpace rawProjectID in
      if projectID = '''' then Inl (GoErr ''project_id is required'')
      else Inr (emit_sorted
        (fold_by_key (stub_key projectID) (\<lambda>_ raw. normalize_stub projectID raw) stubs)))"

definition stub_row :: "pointer_row option \<Rightarrow> int \<Rightarrow> PointerStub \<Rightarrow> pointer_row" where
  "stub_row old now stub =
     (case old of
        None \<Rightarrow>
          \<lparr> pt_path = ps_Path stub, pt_anchor = '''', pt_kind = ps_Kind stub, pt_label = ps_Label stub,
            pt_description = ps_Description stub, pt_tags = ps_Tags stub,
            pt_is_rule = (ps_Kind stub = ''rule''), pt_is_stale = False, pt_stale_at = None,
            pt_content_hash = None, pt_updated_at = now \<rparr>
      | Some row \<Rightarrow> row\<lparr>pt_path := ps_Path stub, pt_anchor := '''', pt_is_stale := False,
                       pt_stale_at := None, pt_updated_at := now\<rparr>)"

definition upsert_stub :: "string \<Rightarrow> PointerStub \<Rightarrow> nat db_op" where
  "upsert_stub projectID stub =
     bind_db (db_call ''upsert pointer stubs'') (\<lambda>_.
     bind_db (modify_db (\<lambda>s. s\<lparr>db_pointers :=
       AList.update (projectID, ps_PointerKey stub)
         (stub_row (map_of (db_pointers s) (projectID, ps_PointerKey stub)) (db_clock s) stub)
         (db_pointers s)\<rparr>)) (\<lambda>_. ret_db 1))"

definition UpsertPointerStubs :: "string \<Rightarrow> PointerStub list \<Rightarrow> int db_op" where
  "UpsertPointerStubs projectID stubs =
     (case normalizePointerStubs projectID stubs of
        Inl e \<Rightarrow> fail_db e
      | Inr normalized \<Rightarrow>
          (if normalized = [] then ret_db 0
           else bind_db (in_tx (each_db (upsert_stub (TrimSpace projectID)) normalized))
             (\<lambda>n. ret_db (int n))))"

section \<open>Sync\<close>

text \<open>One \<open>UPDATE awm_pointers\<close> over the rows of the project that \<open>sel\<close> picks; the result is
  the number of rows affected.\<close>

definition update_pointers ::
  "string \<Rightarrow> string \<Rightarrow> (pointer_row \<Rightarrow> bool) \<Rightarrow> (int \<Rightarrow> pointer_row \<Rightarrow> pointer_row) \<Rightarrow> nat db_op" where
  "update_pointers msg projectID sel f =
     bind_db (db_call msg) (\<lambda>_.
     bind_db (get_db (\<lambda>s. length (filter (\<lambda>((p, k), row). p = projectID \<and> sel row) (db_pointers s))))
       (\<lambda>n.
     bind_db (modify_db (\<lambda>s. s\<lparr>db_pointers :=
       map (\<lambda>((p, k), row). ((p, k), if p = projectID \<and> sel row then f (db_clock s) row else row))
         (db_pointers s)\<rparr>)) (\<lambda>_. ret_db n)))"

definition mark_stale :: "int \<Rightarrow> pointer_row \<Rightarrow> pointer_row" where
  "mark_stale now row = row\<lparr>pt_is_stale := True, pt_stale_at := Some now, pt_updated_at := now\<rparr>"

definition needs_refresh :: "SyncPath \<Rightarrow> pointer_row \<Rightarrow> bool" where
  "needs_refresh entry row \<longleftrightarrow> pt_path row = sp_Path entry \<and>
     (pt_is_stale row \<or>
      (case pt_content_hash row of None \<Rightarrow> '''' | Some h \<Rightarrow> h) \<noteq> sp_ContentHash entry)"

definition refresh_pointers :: "string \<Rightarrow> SyncPath \<Rightarrow> nat db_op" where
  "refresh_pointers projectID entry =
     update_pointers ''refresh pointers'' projectID (needs_refresh entry)
       (\<lambda>now row. row\<lparr>pt_content_hash := Some (sp_ContentHash entry), pt_is_stale := False,
                      pt_stale_at := None, pt_updated_at := now\<rparr>)"

definition insert_candidate :: "string \<Rightarrow> SyncPath \<Rightarrow> nat db_op" where
  "insert_candidate projectID entry =
     bind_db (db_call ''insert pointer candidates'') (\<lambda>_.
     bind_db (get_db (\<lambda>s.
         list_ex (\<lambda>((p, k), row). p = projectID \<and> pt_path row = sp_Path entry) (db_pointers s) \<or>
         map_of (db_candidates s) (projectID, sp_Path entry) \<noteq> None)) (\<lambda>known.
     if known then ret_db 0
     else bind_db (modify_db (\<lambda>s. s\<lparr>db_candidates :=
            ((projectID, sp_Path entry), sp_ContentHash entry) # db_candidates s\<rparr>)) (\<lambda>_. ret_db 1)))"

definition apply_sync_body :: "SyncApplyInput \<Rightarrow> SyncApplyResult db_op" where
  "apply_sync_body n =
     (let projectID = sai_ProjectID n;
          deletedPaths = map sp_Path (filter sp_Deleted (sai_Paths n));
          presentRows = filter (\<lambda>e. \<not> sp_Deleted e) (sai_Paths n);
          presentPaths = map sp_Path presentRows in
      bind_db
        (if deletedPaths \<noteq> [] then
           update_pointers ''mark deleted pointers stale'' projectID
             (\<lambda>row. \<not> pt_is_stale row \<and> pt_path row \<in> set deletedPaths) mark_stale
         else ret_db 0) (\<lambda>deleted.
      bind_db
        (if sai_Mode n = ''full'' then
           update_pointers ''mark missing pointers stale'' projectID
             (\<lambda>row. \<not> pt_is_stale row \<and> pt_path row \<notin> set presentPaths) mark_stale
         else ret_db 0) (\<lambda>missing.
      bind_db (each_db (refresh_pointers projectID) presentRows) (\<lambda>updated.
      bind_db
        (if sai_InsertNewCandidates n then each_db (insert_candidate projectID) presentRows
         else ret_db 0) (\<lambda>inserted.
      ret_db \<lparr> sar_Updated = int updated, sar_MarkedStale = int missing,
               sar_NewCandidates = int inserted, sar_DeletedMarkedStale = int deleted \<rparr>)))))"

definition ApplySync :: "SyncApplyInput \<Rightarrow> SyncApplyResult db_op" where
  "ApplySync input =
     (case NormalizeSyncApplyInput input of
        Inl e \<Rightarrow> fail_db e
      | Inr n \<Rightarrow> in_tx (apply_sync_body n))"

section \<open>What the writes change\<close>

text \<open>Nothing but the pointers and the candidates.\<close>

definition other_tables :: "db \<Rightarrow> db" where
  "other_tables s = s\<lparr>db_pointers := [], db_candidates := [], db_faults := []\<rparr>"

lemma tables_by_parts:
  "other_tables s' = other_tables s \<Longrightarrow>
     tables s' = (tables s)\<lparr>db_pointers := db_pointers s', db_candidates := db_candidates s'\<rparr>"
  by (cases s; cases s') (simp add: other_tables_def tables_def)

lemma fault_free_other: "fault_free (\<lambda>s. other_tables s = t)"
  by (simp add: fault_free_def other_tables_def)

lemma other_upsert_stub: "valid (\<lambda>s. other_tables s = t) (upsert_stub p stub) (\<lambda>_ s. other_tables s = t)"
  unfolding upsert_stub_def
  by (intro valid_bind[OF valid_call[OF fault_free_other]] valid_bind[OF valid_modify] valid_ret)
     (auto simp: other_tables_def)

lemma other_update_pointers:
  "valid (\<lambda>s. other_tables s = t) (update_pointers msg p sel f) (\<lambda>_ s. other_tables s = t)"
  unfolding update_pointers_def
  by (intro valid_bind[OF valid_call[OF fault_free_other]] valid_bind[OF valid_get]
      valid_bind[OF valid_modify] valid_ret) (auto simp: other_tables_def)

lemma other_insert_candidate:
  "valid (\<lambda>s. other_tables s = t) (insert_candidate p e) (\<lambda>_ s. other_tables s = t)"
  unfolding insert_candidate_def
  by (rule valid_bind[OF valid_call[OF fault_free_other]], rule valid_bind[OF valid_get], assumption)
     (auto simp: other_tables_def valid_def ret_db_def bind_db_def modify_db_def)

lemma other_ret: "valid P (ret_db x) (\<lambda>_. P)"
  by (rule valid_ret)

lemma other_apply_sync_body:
  "valid (\<lambda>s. other_tables s = t) (apply_sync_body n) (\<lambda>_ s. other_tables s = t)"
  unfolding apply_sync_body_def Let_def refresh_pointers_def
  by (rule valid_bind[rotated], rule valid_bind[rotated], rule valid_bind[rotated],
      rule valid_bind[rotated], rule other_ret)
     (auto intro!: other_update_pointers other_ret valid_each other_insert_candidate
        simp: refresh_pointers_def)

lemma UpsertPointerStubs_frame:
  assumes "UpsertPointerStubs p stubs s = (r, s')"
  shows "\<exists>ps cs. tables s' = (tables s)\<lparr>db_pointers := ps, db_candidates := cs\<rparr>"
proof -
  have "\<exists>ps cs. tables t = (tables s)\<lparr>db_pointers := ps, db_candidates := cs\<rparr>"
    if "in_tx (each_db (upsert_stub q) ns) s = (x, t)" for q ns x t
    using that
  proof (cases rule: in_tx_cases)
    case (error e)
    have "tables s = (tables s)\<lparr>db_pointers := db_pointers s, db_candidates := db_candidates s\<rparr>"
      by (simp add: tables_def)
    then show ?thesis using error(2) by metis
  next
    case (ok y s1 s2)
    have "other_tables s2 = other_tables s1"
      using validD[OF valid_each[OF other_upsert_stub] refl ok(3)] .
    then show ?thesis using tables_by_parts[of s2 s1] ok(2,4) by metis
  qed
  moreover have "tables s = (tables s)\<lparr>db_pointers := db_pointers s, db_candidates := db_candidates s\<rparr>"
    by (simp add: tables_def)
  ultimately show ?thesis
    using assms unfolding UpsertPointerStubs_def fail_db_def ret_db_def bind_db_def
    by (auto split: sum.splits if_splits prod.splits)
qed

lemma ApplySync_cases:
  assumes "ApplySync input s = (r, s')"
  obtains (error) e where "r = Inl e" "tables s' = tables s"
  | (ok) n res s1 s2 where "NormalizeSyncApplyInput input = Inr n" "r = Inr res"
      "tables s1 = tables s" "apply_sync_body n s1 = (Inr res, s2)" "tables s' = tables s2"
proof (cases "NormalizeSyncApplyInput input")
  case (Inl e)
  then show ?thesis using assms error by (auto simp: ApplySync_def fail_db_def)
next
  case (Inr n)
  then have "in_tx (apply_sync_body n) s = (r, s')" using assms by (simp add: ApplySync_def)
  then show ?thesis by (cases rule: in_tx_cases) (use error ok[OF Inr] in blast)+
qed

lemma ApplySync_frame:
  assumes "ApplySync input s = (r, s')"
  shows "\<exists>ps cs. tables s' = (tables s)\<lparr>db_pointers := ps, db_candidates := cs\<rparr>"
  using assms
proof (cases rule: ApplySync_cases)
  case (error e)
  have "tables s = (tables s)\<lparr>db_pointers := db_pointers s, db_candidates := db_candidates s\<rparr>"
    by (simp add: tables_def)
  then show ?thesis using error(2) by metis
next
  case (ok n res s1 s2)
  have "other_tables s2 = other_tables s1" using validD[OF other_apply_sync_body refl ok(4)] .
  then show ?thesis using tables_by_parts[of s2 s1] ok(3,5) by metis
qed

section \<open>The abstract view of a sync\<close>

text \<open>Of a pointer: its path, whether it is stale, its hash. A sync makes the pointers of present
  paths fresh with the new hash, and stale those of deleted paths and, in mode \<open>full\<close>, of paths
  that are not listed.\<close>

type_synonym pointer_state = "string \<times> bool \<times> string option"

definition state_of_row :: "pointer_row \<Rightarrow> pointer_state" where
  "state_of_row row = (pt_path row, pt_is_stale row, pt_content_hash row)"

definition pointer_at :: "db \<Rightarrow> string \<Rightarrow> string \<Rightarrow> pointer_state option" where
  "pointer_at s p k = map_option state_of_row (map_of (db_pointers s) (p, k))"

definition present_hash :: "SyncPath list \<Rightarrow> string \<rightharpoonup> string" where
  "present_hash es = map_of (map (\<lambda>e. (sp_Path e, sp_ContentHash e)) (filter (\<lambda>e. \<not> sp_Deleted e) es))"

definition synced :: "SyncApplyInput \<Rightarrow> pointer_state \<Rightarrow> pointer_state" where
  "synced n = (\<lambda>(path, stale, hash).
     case present_hash (sai_Paths n) path of
       Some h \<Rightarrow> (path, False, Some h)
     | None \<Rightarrow> (path, stale \<or> sai_Mode n = ''full'' \<or>
         path \<in> sp_Path ` set (filter sp_Deleted (sai_Paths n)), hash))"

lemma map_of_map_rows:
  "map_of (map (\<lambda>((p, k), row). ((p, k), g p row)) al) (q, key) = map_option (g q) (map_of al (q, key))"
  by (induction al) auto

lemma update_pointers_ok:
  assumes "update_pointers msg p sel f s = (Inr n, s')"
  shows "db_pointers s' = map (\<lambda>((q, k), row). ((q, k), if q = p \<and> sel row then f (db_clock s) row else row))
      (db_pointers s)" "db_candidates s' = db_candidates s" "db_clock s' = db_clock s"
  using assms
  by (auto simp: update_pointers_def bind_db_def get_db_def modify_db_def ret_db_def db_call_def
      split: prod.splits sum.splits list.splits if_splits)

text \<open>An update seen on the states: \<open>g\<close> says what it does to the state of a row.\<close>

lemma update_pointers_at:
  assumes "update_pointers msg p sel f s = (Inr n, s')"
    "\<And>row c. state_of_row (if sel row then f c row else row) = g (state_of_row row)"
  shows "pointer_at s' q k = map_option (if q = p then g else id) (pointer_at s q k)"
    "db_candidates s' = db_candidates s"
proof -
  note u = update_pointers_ok[OF assms(1)]
  have "map_of (db_pointers s') (q, k) =
      map_option (\<lambda>row. if q = p \<and> sel row then f (db_clock s) row else row) (map_of (db_pointers s) (q, k))"
    unfolding u(1) by (rule map_of_map_rows)
  then show "pointer_at s' q k = map_option (if q = p then g else id) (pointer_at s q k)"
    using assms(2) by (cases "map_of (db_pointers s) (q, k)") (auto simp: pointer_at_def)
  show "db_candidates s' = db_candidates s" by (rule u(2))
qed

definition staled :: "(string \<Rightarrow> bool) \<Rightarrow> pointer_state \<Rightarrow> pointer_state" where
  "staled gone = (\<lambda>(path, stale, hash). (path, stale \<or> gone path, hash))"

definition refreshed :: "SyncPath \<Rightarrow> pointer_state \<Rightarrow> pointer_state" where
  "refreshed e = (\<lambda>(path, stale, hash).
     if path = sp_Path e then (path, False, Some (sp_ContentHash e)) else (path, stale, hash))"

lemma mark_stale_state:
  "state_of_row (if \<not> pt_is_stale row \<and> gone (pt_path row) then mark_stale c row else row) =
     staled gone (state_of_row row)"
  by (simp add: state_of_row_def staled_def mark_stale_def)

lemma refresh_state:
  "sp_ContentHash e \<noteq> '''' \<Longrightarrow>
     state_of_row (if needs_refresh e row
       then row\<lparr>pt_content_hash := Some (sp_ContentHash e), pt_is_stale := False, pt_stale_at := None,
                pt_updated_at := c\<rparr> else row) = refreshed e (state_of_row row)"
  by (auto simp: state_of_row_def refreshed_def needs_refresh_def split: option.splits)

lemma refresh_at:
  assumes "refresh_pointers p e s = (Inr n, s')" "sp_ContentHash e \<noteq> ''''"
  shows "pointer_at s' q k = map_option (if q = p then refreshed e else id) (pointer_at s q k)"
    "db_candidates s' = db_candidates s"
  using update_pointers_at[OF assms(1)[unfolded refresh_pointers_def] refresh_state[OF assms(2)]] by auto

text \<open>The loop over the present rows.\<close>

lemma each_db_Cons_ok:
  "each_db f (x # xs) s = (Inr n, s') \<longleftrightarrow>
     (\<exists>a b t. f x s = (Inr a, t) \<and> each_db f xs t = (Inr b, s') \<and> n = a + b)"
  by (auto simp: bind_db_def ret_db_def split: prod.splits sum.splits)

lemma refresh_all_at:
  assumes "each_db (refresh_pointers p) es s = (Inr n, s')" "\<forall>e \<in> set es. sp_ContentHash e \<noteq> ''''"
  shows "pointer_at s' q k = map_option (if q = p then fold refreshed es else id) (pointer_at s q k)"
    "db_candidates s' = db_candidates s"
  using assms
proof (induction es arbitrary: s n)
  case Nil
  {
    case 1 then show ?case by (simp add: ret_db_def option.map_id0)
  next
    case 2 then show ?case by (simp add: ret_db_def)
  }
next
  case (Cons e es)
  {
    case 1
    then obtain a b t where st: "refresh_pointers p e s = (Inr a, t)" "each_db (refresh_pointers p) es t = (Inr b, s')"
      unfolding each_db_Cons_ok by blast
    show ?case
      using Cons.IH(1)[OF st(2)] refresh_at(1)[OF st(1), of q k] 1(2)
      by (auto simp: option.map_comp comp_def id_def)
  next
    case 2
    then obtain a b t where st: "refresh_pointers p e s = (Inr a, t)" "each_db (refresh_pointers p) es t = (Inr b, s')"
      unfolding each_db_Cons_ok by blast
    show ?case using Cons.IH(2)[OF st(2)] refresh_at(2)[OF st(1)] 2(2) by simp
  }
qed

lemma fold_refreshed:
  "distinct (map sp_Path es) \<Longrightarrow> fold refreshed es (path, stale, hash) =
     (case map_of (map (\<lambda>e. (sp_Path e, sp_ContentHash e)) es) path of
        Some h \<Rightarrow> (path, False, Some h) | None \<Rightarrow> (path, stale, hash))"
proof (induction es arbitrary: stale hash)
  case (Cons e es)
  then have "path = sp_Path e \<Longrightarrow> map_of (map (\<lambda>e. (sp_Path e, sp_ContentHash e)) es) path = None"
    by (auto simp: map_of_eq_None_iff)
  then show ?case using Cons by (auto simp: refreshed_def)
qed simp

text \<open>The paths that have a pointer, and the candidates.\<close>

definition pointer_paths :: "db \<Rightarrow> string \<Rightarrow> string set" where
  "pointer_paths s p = (\<lambda>(_, row). pt_path row) ` set (filter (\<lambda>((q, k), row). q = p) (db_pointers s))"

lemma pointer_paths_update:
  assumes "update_pointers msg p sel f s = (Inr n, s')" "\<And>c row. pt_path (f c row) = pt_path row"
  shows "pointer_paths s' q = pointer_paths s q"
proof -
  have "(\<lambda>(_, row). pt_path row) ` set (filter (\<lambda>((r, k), row). r = q)
      (map (\<lambda>((r, k), row). ((r, k), if r = p \<and> sel row then f c row else row)) al)) =
    (\<lambda>(_, row). pt_path row) ` set (filter (\<lambda>((r, k), row). r = q) al)" for al c
    by (induction al) (auto simp: assms(2))
  then show ?thesis unfolding pointer_paths_def update_pointers_ok(1)[OF assms(1)] .
qed

lemma pointer_paths_refresh: "refresh_pointers p e s = (Inr n, s') \<Longrightarrow> pointer_paths s' q = pointer_paths s q"
  unfolding refresh_pointers_def by (erule pointer_paths_update) simp

lemma pointer_paths_refresh_all:
  "each_db (refresh_pointers p) es s = (Inr n, s') \<Longrightarrow> pointer_paths s' q = pointer_paths s q"
  by (induction es arbitrary: s n) (auto simp: each_db_Cons_ok ret_db_def pointer_paths_refresh
      simp del: each_db.simps(2))

lemma insert_candidate_ok:
  assumes "insert_candidate p e s = (Inr n, s')"
  shows "db_pointers s' = db_pointers s"
    "map_of (db_candidates s') (q, path) =
      (if q = p \<and> path = sp_Path e \<and> path \<notin> pointer_paths s p \<and> map_of (db_candidates s) (q, path) = None
       then Some (sp_ContentHash e) else map_of (db_candidates s) (q, path))"
proof -
  obtain t where t: "db_call ''insert pointer candidates'' s = (Inr (), t)"
    using assms by (auto simp: insert_candidate_def bind_db_def split: prod.splits sum.splits)
  then have same: "db_pointers t = db_pointers s" "db_candidates t = db_candidates s"
    by (auto simp: db_call_def split: list.splits if_splits)
  have known: "list_ex (\<lambda>((q, k), row). q = p \<and> pt_path row = sp_Path e) (db_pointers s) \<longleftrightarrow>
      sp_Path e \<in> pointer_paths s p"
  proof -
    have "list_ex (\<lambda>((q, k), row). q = p \<and> pt_path row = sp_Path e) al \<longleftrightarrow>
        sp_Path e \<in> (\<lambda>(_, row). pt_path row) ` set (filter (\<lambda>((q, k), row). q = p) al)" for al
      by (induction al) auto
    then show ?thesis unfolding pointer_paths_def .
  qed
  show "db_pointers s' = db_pointers s"
    using assms t same
    by (auto simp: insert_candidate_def bind_db_def get_db_def modify_db_def ret_db_def split: if_splits)
  show "map_of (db_candidates s') (q, path) =
      (if q = p \<and> path = sp_Path e \<and> path \<notin> pointer_paths s p \<and> map_of (db_candidates s) (q, path) = None
       then Some (sp_ContentHash e) else map_of (db_candidates s) (q, path))"
    using assms t same
    by (auto simp: insert_candidate_def bind_db_def get_db_def modify_db_def ret_db_def known
        split: if_splits)
qed

lemma pointers_cong:
  "db_pointers t = db_pointers s \<Longrightarrow> pointer_at t q k = pointer_at s q k"
  "db_pointers t = db_pointers s \<Longrightarrow> pointer_paths t q = pointer_paths s q"
  by (simp_all add: pointer_at_def pointer_paths_def)

lemma insert_candidates_ok:
  assumes "each_db (insert_candidate p) es s = (Inr n, s')"
  shows "db_pointers s' = db_pointers s \<and> map_of (db_candidates s') (q, path) =
      (if q = p \<and> path \<notin> pointer_paths s p \<and> map_of (db_candidates s) (q, path) = None
       then map_of (map (\<lambda>e. (sp_Path e, sp_ContentHash e)) es) path
       else map_of (db_candidates s) (q, path))"
  using assms
proof (induction es arbitrary: s n)
  case Nil
  then show ?case by (auto simp: ret_db_def)
next
  case (Cons e es)
  then obtain a b t where st: "insert_candidate p e s = (Inr a, t)" "each_db (insert_candidate p) es t = (Inr b, s')"
    unfolding each_db_Cons_ok by blast
  note one = insert_candidate_ok[OF st(1)]
  show ?case using Cons.IH[OF st(2)] one(1) one(2)[of q path] pointers_cong(2)[OF one(1)] by auto
qed

section \<open>The well-formed index\<close>

definition wf_pointer :: "(string \<times> string) \<times> pointer_row \<Rightarrow> bool" where
  "wf_pointer = (\<lambda>((p, k), row).
     k \<noteq> '''' \<and> pt_path row \<noteq> '''' \<and> (pt_is_stale row \<longleftrightarrow> pt_stale_at row \<noteq> None))"

definition wf_index :: "db \<Rightarrow> bool" where
  "wf_index s \<longleftrightarrow> distinct (map fst (db_pointers s)) \<and> distinct (map fst (db_candidates s)) \<and>
     list_all wf_pointer (db_pointers s)"

lemma fault_free_index: "fault_free wf_index"
  by (simp add: fault_free_def wf_index_def)

lemma wf_index_tables: "wf_index (tables s) = wf_index s"
  by (simp add: wf_index_def tables_def)

lemma wf_index_cong:
  "db_pointers t = db_pointers s \<Longrightarrow> db_candidates t = db_candidates s \<Longrightarrow> wf_index t = wf_index s"
  by (simp add: wf_index_def)

lemma set_AList_update: "set (AList.update k v al) \<subseteq> insert (k, v) (set al)"
  by (induction al) auto

lemma normalized_stub:
  assumes "normalizePointerStubs p stubs = Inr ns" "stub \<in> set ns"
  shows "ps_PointerKey stub \<noteq> '''' \<and> ps_Path stub \<noteq> ''''"
proof -
  let ?m = "fold_by_key (stub_key (TrimSpace p)) (\<lambda>_ raw. normalize_stub (TrimSpace p) raw) stubs"
  have "stub \<in> snd ` set ?m"
    using assms
    by (auto simp: normalizePointerStubs_def Let_def set_emit_sorted[OF fold_by_key_distinct] split: if_splits)
  then obtain k where k: "(k, stub) \<in> set ?m" by auto
  then have look: "map_of ?m k = Some stub" using fold_by_key_distinct by (rule map_of_is_SomeI[rotated])
  have "k \<in> fst ` set ?m" using k by (force)
  then have ne: "k \<noteq> ''''" unfolding fold_by_key_keys by simp
  have fold: "foldl (\<lambda>cur x. Some (normalize_stub (TrimSpace p) x)) None xs = Some stub \<Longrightarrow>
      \<exists>x \<in> set xs. stub = normalize_stub (TrimSpace p) x" for xs
    by (cases xs rule: rev_cases) auto
  obtain x where x: "stub_key (TrimSpace p) x = k" "stub = normalize_stub (TrimSpace p) x"
    using fold look[unfolded fold_by_key_lookup[OF ne]] by fastforce
  have "ps_PointerKey stub = k" using x by (simp add: normalize_stub_def Let_def)
  moreover have "NormalizeRepoPath (ps_Path x) \<noteq> ''''" using x(1) ne by (auto simp: stub_key_def Let_def)
  ultimately show ?thesis using ne x(2) by (simp add: normalize_stub_def Let_def)
qed

lemma wf_index_upsert_stub:
  assumes "ps_PointerKey stub \<noteq> ''''" "ps_Path stub \<noteq> ''''"
  shows "valid wf_index (upsert_stub p stub) (\<lambda>_. wf_index)"
proof -
  have "wf_index (s\<lparr>db_pointers := AList.update (p, ps_PointerKey stub)
         (stub_row (map_of (db_pointers s) (p, ps_PointerKey stub)) (db_clock s) stub) (db_pointers s)\<rparr>)"
    if "wf_index s" for s
  proof -
    have "wf_pointer ((p, ps_PointerKey stub), stub_row old c stub)" for old c
      using assms by (simp add: wf_pointer_def stub_row_def split: option.split)
    then have "list_all wf_pointer (AList.update (p, ps_PointerKey stub) (stub_row old c stub) al)"
      if "list_all wf_pointer al" for old c al
      using that set_AList_update[of "(p, ps_PointerKey stub)" "stub_row old c stub" al]
      unfolding list_all_iff by blast
    then show ?thesis using that unfolding wf_index_def by (simp add: distinct_update)
  qed
  then show ?thesis
    unfolding upsert_stub_def
    by (intro valid_bind[OF valid_call[OF fault_free_index]] valid_bind[OF valid_modify] valid_ret) auto
qed

lemma wf_index_update_pointers:
  assumes "\<And>c row. pt_path (f c row) = pt_path row"
    "\<And>c row. pt_is_stale (f c row) \<longleftrightarrow> pt_stale_at (f c row) \<noteq> None"
  shows "valid wf_index (update_pointers msg p sel f) (\<lambda>_. wf_index)"
proof (rule validI)
  fix s n s' assume s: "wf_index s" "update_pointers msg p sel f s = (Inr n, s')"
  note u = update_pointers_ok[OF s(2)]
  have keys: "map fst (map (\<lambda>((q, k), row). ((q, k), g q row)) al) = map fst al" for g and al :: "((string \<times> string) \<times> pointer_row) list"
    by (induction al) auto
  have one: "wf_pointer ((q, k), if b then f c row else row)" if "wf_pointer ((q, k), row)" for q k row b c
    using that assms by (cases b) (simp_all add: wf_pointer_def del: not_None_eq)
  have "list_all wf_pointer (map (\<lambda>((q, k), row). ((q, k), if q = p \<and> sel row then f c row else row)) al)"
    if "list_all wf_pointer al" for al c
    using that one by (induction al) auto
  then show "wf_index s'"
    using s(1) unfolding wf_index_def u(1,2) keys by blast
qed

lemma wf_index_insert_candidate: "valid wf_index (insert_candidate p e) (\<lambda>_. wf_index)"
  unfolding insert_candidate_def
  by (rule valid_bind[OF valid_call[OF fault_free_index]])
     (auto simp: valid_def bind_db_def get_db_def modify_db_def ret_db_def wf_index_def map_of_eq_None_iff
       split: if_splits)

lemma wf_index_apply_sync_body: "valid wf_index (apply_sync_body n) (\<lambda>_. wf_index)"
  unfolding apply_sync_body_def Let_def refresh_pointers_def
  by (rule valid_bind[rotated], rule valid_bind[rotated], rule valid_bind[rotated],
      rule valid_bind[rotated], rule other_ret)
     (auto intro!: wf_index_update_pointers other_ret valid_each wf_index_insert_candidate
        simp: refresh_pointers_def mark_stale_def)

lemma UpsertPointerStubs_wf: "UpsertPointerStubs p stubs s = (r, s') \<Longrightarrow> wf_index s \<Longrightarrow> wf_index s'"
proof (cases "normalizePointerStubs p stubs")
  case (Inr ns)
  assume run: "UpsertPointerStubs p stubs s = (r, s')" and wf: "wf_index s"
  have "wf_index (snd (in_tx (each_db (upsert_stub (TrimSpace p)) ns) s))"
    by (rule valid_in_tx_inv[OF fault_free_index valid_each[OF wf_index_upsert_stub] wf])
       (use normalized_stub[OF Inr] in blast)+
  then show ?thesis
    using run wf Inr by (auto simp: UpsertPointerStubs_def ret_db_def bind_db_def split: if_splits prod.splits sum.splits)
qed (simp add: UpsertPointerStubs_def fail_db_def)

lemma ApplySync_wf: "ApplySync input s = (r, s') \<Longrightarrow> wf_index s \<Longrightarrow> wf_index s'"
  using valid_in_tx_inv[OF fault_free_index wf_index_apply_sync_body]
  by (auto simp: ApplySync_def fail_db_def split: sum.splits) (metis snd_conv)

end
