(* ===== verification/Sqlite_Rules.thy ===== *)
theory Sqlite_Rules
  imports Sqlite_Pointers
begin

text \<open>
  \<open>internal/adapters/sqlite/repository_rules.go\<close>: \<open>SyncRulePointers\<close>, which makes the rule pointers
  of one source file those of its input, with the abstract view that it updates.
\<close>

section \<open>The input\<close>

record RulePointer =
  rup_PointerKey :: string
  rup_SourcePath :: string
  rup_RuleID :: string
  rup_Summary :: string
  rup_Content :: string
  rup_Enforcement :: string
  rup_Tags :: "string slice"

record RulePointerSyncInput =
  rpi_ProjectID :: string
  rpi_SourcePath :: string
  rpi_Pointers :: "RulePointer list"

record RulePointerSyncResult =
  rpr_Upserted :: int
  rpr_MarkedStale :: int

definition normalizeRulePointerEnforcement :: "string \<Rightarrow> string" where
  "normalizeRulePointerEnforcement raw =
     (if ToLower (TrimSpace raw) = ''soft'' then ''soft'' else ''hard'')"

definition normalizeRulePointerTags :: "string slice \<Rightarrow> string \<Rightarrow> string slice" where
  "normalizeRulePointerTags tags enforcement =
     NormalizeStringList (Some (elems tags @ [''rule'', ''canonical-rule'',
       if enforcement = ''soft'' then ''enforcement-soft'' else ''enforcement-hard'']))"

definition ruleIDFromPointerKey :: "string \<Rightarrow> string" where
  "ruleIDFromPointerKey pointerKey =
     (let key = TrimSpace pointerKey;
          suffix = rev (takeWhile (\<lambda>c. c \<noteq> CHR ''#'') (rev key)) in
      if CHR ''#'' \<notin> set key \<or> suffix = '''' then '''' else TrimSpace suffix)"

definition normalize_rule :: "string \<Rightarrow> string \<Rightarrow> RulePointer \<Rightarrow> RulePointer go_result" where
  "normalize_rule projectID sourcePath raw =
     (let ruleID0 = TrimSpace (rup_RuleID raw);
          ruleID = (if ruleID0 = '''' then ruleIDFromPointerKey (rup_PointerKey raw) else ruleID0) in
      if ruleID = '''' then Inl (GoErr ''rule_id is required'')
      else let key0 = TrimSpace (rup_PointerKey raw);
          pointerKey = (if key0 = '''' then projectID @ '':'' @ sourcePath @ ''#'' @ ruleID else key0);
          summary = TrimSpace (rup_Summary raw) in
      if summary = '''' then Inl (GoErr (''summary is required for pointer '' @ go_quote pointerKey))
      else let content = TrimSpace (rup_Content raw);
          enforcement = normalizeRulePointerEnforcement (rup_Enforcement raw) in
      Inr \<lparr> rup_PointerKey = pointerKey, rup_SourcePath = sourcePath, rup_RuleID = ruleID,
            rup_Summary = summary, rup_Content = (if content = '''' then summary else content),
            rup_Enforcement = enforcement,
            rup_Tags = normalizeRulePointerTags (rup_Tags raw) enforcement \<rparr>)"

definition normalizeRulePointerSyncInput :: "RulePointerSyncInput \<Rightarrow> RulePointerSyncInput go_result" where
  "normalizeRulePointerSyncInput input =
     (let projectID = TrimSpace (rpi_ProjectID input) in
      if projectID = '''' then Inl (GoErr ''project_id is required'')
      else let sourcePath = NormalizeRepoPath (rpi_SourcePath input) in
      if sourcePath = '''' then Inl (GoErr ''source_path is required'')
      else bind_res (map_res (normalize_rule projectID sourcePath) (rpi_Pointers input)) (\<lambda>rules.
        Inr \<lparr> rpi_ProjectID = projectID, rpi_SourcePath = sourcePath,
              rpi_Pointers = emit_sorted (fold_by_key rup_PointerKey (\<lambda>_ rule. rule) rules) \<rparr>))"

section \<open>The transaction\<close>

definition rule_row :: "string \<Rightarrow> int \<Rightarrow> RulePointer \<Rightarrow> pointer_row" where
  "rule_row sourcePath now rule =
     \<lparr> pt_path = sourcePath, pt_anchor = '''', pt_kind = ''rule'', pt_label = rup_Summary rule,
       pt_description = rup_Content rule, pt_tags = nonNilStringList (rup_Tags rule),
       pt_is_rule = True, pt_is_stale = False, pt_stale_at = None, pt_content_hash = None,
       pt_updated_at = now \<rparr>"

definition upsert_rule :: "string \<Rightarrow> string \<Rightarrow> RulePointer \<Rightarrow> nat db_op" where
  "upsert_rule projectID sourcePath rule =
     bind_db (db_call ''upsert rule pointers'') (\<lambda>_.
     bind_db (modify_db (\<lambda>s. s\<lparr>db_pointers :=
       AList.update (projectID, rup_PointerKey rule) (rule_row sourcePath (db_clock s) rule)
         (db_pointers s)\<rparr>)) (\<lambda>_. ret_db 1))"

text \<open>The rows that the delete statement selects.\<close>

definition missing_rule ::
  "string \<Rightarrow> string \<Rightarrow> string list \<Rightarrow> (string \<times> string) \<times> pointer_row \<Rightarrow> bool" where
  "missing_rule projectID sourcePath activeKeys = (\<lambda>((p, k), row).
     p = projectID \<and> pt_path row = sourcePath \<and> pt_is_rule row \<and> k \<notin> set activeKeys)"

definition delete_missing_rules :: "string \<Rightarrow> string \<Rightarrow> string list \<Rightarrow> nat db_op" where
  "delete_missing_rules projectID sourcePath activeKeys =
     bind_db (db_call ''delete missing rule pointers'') (\<lambda>_.
     bind_db (get_db (\<lambda>s.
       length (filter (missing_rule projectID sourcePath activeKeys) (db_pointers s)))) (\<lambda>n.
     bind_db (modify_db (\<lambda>s. s\<lparr>db_pointers :=
       filter (\<lambda>e. \<not> missing_rule projectID sourcePath activeKeys e) (db_pointers s)\<rparr>)) (\<lambda>_. ret_db n)))"

definition sync_rules_body :: "RulePointerSyncInput \<Rightarrow> RulePointerSyncResult db_op" where
  "sync_rules_body n =
     bind_db (each_db (upsert_rule (rpi_ProjectID n) (rpi_SourcePath n)) (rpi_Pointers n)) (\<lambda>upserted.
     bind_db (delete_missing_rules (rpi_ProjectID n) (rpi_SourcePath n)
         (map rup_PointerKey (rpi_Pointers n))) (\<lambda>deleted.
     ret_db \<lparr> rpr_Upserted = int upserted, rpr_MarkedStale = int deleted \<rparr>))"

definition SyncRulePointers :: "RulePointerSyncInput \<Rightarrow> RulePointerSyncResult db_op" where
  "SyncRulePointers input =
     (case normalizeRulePointerSyncInput input of
        Inl e \<Rightarrow> fail_db e
      | Inr n \<Rightarrow> in_tx (sync_rules_body n))"

section \<open>What a call changes\<close>

text \<open>A normalized input: its rules have distinct keys that are not empty.\<close>

interpretation rules_fold: keyed_fold rup_PointerKey "\<lambda>_ rule. rule" rup_PointerKey
  by unfold_locales simp

lemma normalized_rules:
  assumes "normalizeRulePointerSyncInput input = Inr n"
  shows "rpi_ProjectID n \<noteq> ''''" "rpi_SourcePath n \<noteq> ''''" "distinct (map rup_PointerKey (rpi_Pointers n))"
    "rule \<in> set (rpi_Pointers n) \<Longrightarrow> rup_PointerKey rule \<noteq> ''''"
proof -
  obtain rules where n: "rpi_Pointers n = rules_fold.emitted rules"
      "rpi_ProjectID n \<noteq> ''''" "rpi_SourcePath n \<noteq> ''''"
    using assms
    by (auto simp: normalizeRulePointerSyncInput_def rules_fold.emitted_def Let_def bind_res_Inr_iff
        split: if_splits)
  then show "rpi_ProjectID n \<noteq> ''''" "rpi_SourcePath n \<noteq> ''''" by simp_all
  show "distinct (map rup_PointerKey (rpi_Pointers n))"
    unfolding n(1) by (rule rules_fold.emitted_keys_distinct)
  assume "rule \<in> set (rpi_Pointers n)"
  then have "rup_PointerKey rule \<in> rup_PointerKey ` set (rules_fold.emitted rules)" using n(1) by simp
  then show "rup_PointerKey rule \<noteq> ''''" unfolding rules_fold.emitted_key_set by simp
qed

definition put_rules ::
  "string \<Rightarrow> string \<Rightarrow> int \<Rightarrow> RulePointer list \<Rightarrow> ((string \<times> string) \<times> pointer_row) list \<Rightarrow>
     ((string \<times> string) \<times> pointer_row) list" where
  "put_rules projectID sourcePath now rules al =
     foldl (\<lambda>al rule. AList.update (projectID, rup_PointerKey rule) (rule_row sourcePath now rule) al) al rules"

lemma upsert_rules_ok:
  assumes "each_db (upsert_rule p src) rules s = (Inr n, s')"
  shows "n = length rules \<and>
    tables s' = (tables s)\<lparr>db_pointers := put_rules p src (db_clock s) rules (db_pointers s)\<rparr>"
  using assms
proof (induction rules arbitrary: s n)
  case Nil
  then show ?case by (auto simp: ret_db_def put_rules_def tables_def)
next
  case (Cons rule rules)
  then obtain a b t where st: "upsert_rule p src rule s = (Inr a, t)"
      "each_db (upsert_rule p src) rules t = (Inr b, s')" "n = a + b"
    unfolding each_db_Cons_ok by blast
  have t: "a = 1" "tables t = (tables s)\<lparr>db_pointers :=
        AList.update (p, rup_PointerKey rule) (rule_row src (db_clock s) rule) (db_pointers s)\<rparr>"
    using st(1)
    by (auto simp: upsert_rule_def bind_db_def modify_db_def ret_db_def db_call_def tables_def
        split: list.splits if_splits)
  have "db_clock t = db_clock s" "db_pointers t =
      AList.update (p, rup_PointerKey rule) (rule_row src (db_clock s) rule) (db_pointers s)"
    using arg_cong[OF t(2), of db_clock] arg_cong[OF t(2), of db_pointers] by (simp_all add: tables_def)
  then show ?case using Cons.IH[OF st(2)] t st(3) by (simp add: put_rules_def)
qed

lemma delete_rules_ok:
  assumes "delete_missing_rules p src keys s = (Inr n, s')"
  shows "n = length (filter (missing_rule p src keys) (db_pointers s))"
    "tables s' = (tables s)\<lparr>db_pointers := filter (\<lambda>e. \<not> missing_rule p src keys e) (db_pointers s)\<rparr>"
  using assms
  by (auto simp: delete_missing_rules_def bind_db_def get_db_def modify_db_def ret_db_def db_call_def
      tables_def split: list.splits if_splits)

lemma sync_rules_body_ok:
  assumes "sync_rules_body n s = (Inr res, s')"
  shows "tables s' = (tables s)\<lparr>db_pointers :=
      filter (\<lambda>e. \<not> missing_rule (rpi_ProjectID n) (rpi_SourcePath n) (map rup_PointerKey (rpi_Pointers n)) e)
        (put_rules (rpi_ProjectID n) (rpi_SourcePath n) (db_clock s) (rpi_Pointers n) (db_pointers s))\<rparr>"
    "rpr_Upserted res = int (length (rpi_Pointers n))"
    "rpr_MarkedStale res = int (length (filter
       (missing_rule (rpi_ProjectID n) (rpi_SourcePath n) (map rup_PointerKey (rpi_Pointers n)))
       (put_rules (rpi_ProjectID n) (rpi_SourcePath n) (db_clock s) (rpi_Pointers n) (db_pointers s))))"
proof -
  obtain a t b where st: "each_db (upsert_rule (rpi_ProjectID n) (rpi_SourcePath n)) (rpi_Pointers n) s = (Inr a, t)"
      "delete_missing_rules (rpi_ProjectID n) (rpi_SourcePath n) (map rup_PointerKey (rpi_Pointers n)) t = (Inr b, s')"
      "res = \<lparr> rpr_Upserted = int a, rpr_MarkedStale = int b \<rparr>"
    using assms unfolding sync_rules_body_def bind_db_def[abs_def] ret_db_def
    by (auto split: prod.splits sum.splits)
  note u = upsert_rules_ok[OF st(1)]
  have "db_pointers t = put_rules (rpi_ProjectID n) (rpi_SourcePath n) (db_clock s) (rpi_Pointers n) (db_pointers s)"
    using arg_cong[OF conjunct2[OF u], of db_pointers] by (simp add: tables_def)
  then show "tables s' = (tables s)\<lparr>db_pointers :=
      filter (\<lambda>e. \<not> missing_rule (rpi_ProjectID n) (rpi_SourcePath n) (map rup_PointerKey (rpi_Pointers n)) e)
        (put_rules (rpi_ProjectID n) (rpi_SourcePath n) (db_clock s) (rpi_Pointers n) (db_pointers s))\<rparr>"
    "rpr_Upserted res = int (length (rpi_Pointers n))"
    "rpr_MarkedStale res = int (length (filter
       (missing_rule (rpi_ProjectID n) (rpi_SourcePath n) (map rup_PointerKey (rpi_Pointers n)))
       (put_rules (rpi_ProjectID n) (rpi_SourcePath n) (db_clock s) (rpi_Pointers n) (db_pointers s))))"
    using delete_rules_ok[OF st(2)] u st(3) by simp_all
qed

lemma SyncRulePointers_cases:
  assumes "SyncRulePointers input s = (r, s')"
  obtains (error) e where "r = Inl e" "tables s' = tables s"
  | (ok) n res where "normalizeRulePointerSyncInput input = Inr n" "r = Inr res"
      "tables s' = (tables s)\<lparr>db_pointers :=
        filter (\<lambda>e. \<not> missing_rule (rpi_ProjectID n) (rpi_SourcePath n) (map rup_PointerKey (rpi_Pointers n)) e)
          (put_rules (rpi_ProjectID n) (rpi_SourcePath n) (db_clock s) (rpi_Pointers n) (db_pointers s))\<rparr>"
      "rpr_Upserted res = int (length (rpi_Pointers n))"
      "rpr_MarkedStale res = int (length (filter
         (missing_rule (rpi_ProjectID n) (rpi_SourcePath n) (map rup_PointerKey (rpi_Pointers n)))
         (put_rules (rpi_ProjectID n) (rpi_SourcePath n) (db_clock s) (rpi_Pointers n) (db_pointers s))))"
proof (cases "normalizeRulePointerSyncInput input")
  case (Inl e)
  then show ?thesis using assms error by (auto simp: SyncRulePointers_def fail_db_def)
next
  case (Inr n)
  then have "in_tx (sync_rules_body n) s = (r, s')" using assms by (simp add: SyncRulePointers_def)
  then show ?thesis
  proof (cases rule: in_tx_cases)
    case (ok res s1 s2)
    have "db_clock s1 = db_clock s" "db_pointers s1 = db_pointers s"
      using arg_cong[OF ok(2), of db_clock] arg_cong[OF ok(2), of db_pointers] by (simp_all add: tables_def)
    then show ?thesis using that(2)[OF Inr ok(1)] sync_rules_body_ok[OF ok(3)] ok(2,4) by simp
  qed (use error in blast)
qed

lemma SyncRulePointers_frame:
  assumes "SyncRulePointers input s = (r, s')"
  shows "\<exists>ps cs. tables s' = (tables s)\<lparr>db_pointers := ps, db_candidates := cs\<rparr>"
  using assms
proof (cases rule: SyncRulePointers_cases)
  case (error e)
  have "tables s = (tables s)\<lparr>db_pointers := db_pointers s, db_candidates := db_candidates s\<rparr>"
    by (simp add: tables_def)
  then show ?thesis using error(2) by metis
next
  case (ok n res)
  have "(tables s)\<lparr>db_pointers := ps\<rparr> = (tables s)\<lparr>db_pointers := ps, db_candidates := db_candidates s\<rparr>" for ps
    by (simp add: tables_def)
  then show ?thesis using ok(3) by metis
qed

section \<open>The index stays well-formed\<close>

lemma put_rules_wf:
  assumes "distinct (map fst al)" "list_all wf_pointer al" "src \<noteq> ''''"
    "\<forall>rule \<in> set rules. rup_PointerKey rule \<noteq> ''''"
  shows "distinct (map fst (put_rules p src c rules al)) \<and> list_all wf_pointer (put_rules p src c rules al)"
  using assms(1,2,4)
proof (induction rules arbitrary: al)
  case (Cons rule rules)
  let ?al = "AList.update (p, rup_PointerKey rule) (rule_row src c rule) al"
  have "wf_pointer ((p, rup_PointerKey rule), rule_row src c rule)"
    using Cons.prems(3) assms(3) by (simp add: wf_pointer_def rule_row_def)
  then have "list_all wf_pointer ?al"
    using Cons.prems(2) set_AList_update[of "(p, rup_PointerKey rule)" "rule_row src c rule" al]
    unfolding list_all_iff by blast
  then show ?case using Cons.IH[of ?al] Cons.prems by (simp add: put_rules_def distinct_update)
qed (simp add: put_rules_def)

lemma SyncRulePointers_wf:
  assumes "SyncRulePointers input s = (r, s')" "wf_index s"
  shows "wf_index s'"
  using assms(1)
proof (cases rule: SyncRulePointers_cases)
  case (error e)
  then show ?thesis using assms(2) wf_index_tables by metis
next
  case (ok n res)
  let ?al = "put_rules (rpi_ProjectID n) (rpi_SourcePath n) (db_clock s) (rpi_Pointers n) (db_pointers s)"
  have "distinct (map fst ?al) \<and> list_all wf_pointer ?al"
    using assms(2) normalized_rules[OF ok(1)] by (intro put_rules_wf) (auto simp: wf_index_def)
  then have "distinct (map fst (filter P ?al)) \<and> list_all wf_pointer (filter P ?al)" for P
    by (simp add: distinct_map_filter list_all_iff)
  then show ?thesis using assms(2) ok(3) wf_index_tables[of s'] by (simp add: wf_index_def tables_def)
qed

section \<open>The rules of a source\<close>

lemma map_of_filter_distinct:
  "distinct (map fst al) \<Longrightarrow> map_of (filter P al) k =
     (case map_of al k of None \<Rightarrow> None | Some v \<Rightarrow> if P (k, v) then Some v else None)"
  by (induction al) (auto split: option.split if_splits simp: map_of_eq_None_iff dest: map_of_SomeD)

definition rule_at :: "RulePointerSyncInput \<Rightarrow> string \<Rightarrow> RulePointer option" where
  "rule_at n k = map_of (map (\<lambda>rule. (rup_PointerKey rule, rule)) (rpi_Pointers n)) k"

lemma put_rules_at:
  assumes "distinct (map rup_PointerKey rules)"
  shows "map_of (put_rules p src c rules al) (q, k) =
    (if q = p then case map_of (map (\<lambda>rule. (rup_PointerKey rule, rule)) rules) k of
        Some rule \<Rightarrow> Some (rule_row src c rule) | None \<Rightarrow> map_of al (q, k)
     else map_of al (q, k))"
  using assms
proof (induction rules arbitrary: al)
  case (Cons rule rules)
  then have "k = rup_PointerKey rule \<Longrightarrow> map_of (map (\<lambda>rule. (rup_PointerKey rule, rule)) rules) k = None"
    by (auto simp: map_of_eq_None_iff)
  then show ?case
    using Cons by (auto simp: put_rules_def update_conv' split: option.split)
qed (simp add: put_rules_def)

text \<open>The row of a key after a successful call: that of its rule; nothing for a rule of the source
  that is not listed; the old row for any other key.\<close>

definition ruled :: "RulePointerSyncInput \<Rightarrow> db \<Rightarrow> string \<Rightarrow> string \<Rightarrow> pointer_row option" where
  "ruled n s q k =
     (if q \<noteq> rpi_ProjectID n then map_of (db_pointers s) (q, k)
      else case rule_at n k of
        Some rule \<Rightarrow> Some (rule_row (rpi_SourcePath n) (db_clock s) rule)
      | None \<Rightarrow> (case map_of (db_pointers s) (q, k) of
          Some row \<Rightarrow> (if pt_is_rule row \<and> pt_path row = rpi_SourcePath n then None else Some row)
        | None \<Rightarrow> None))"

lemma SyncRulePointers_at:
  assumes "SyncRulePointers input s = (Inr res, s')" "wf_index s"
  obtains n where "normalizeRulePointerSyncInput input = Inr n"
    "\<And>q k. map_of (db_pointers s') (q, k) = ruled n s q k" "db_candidates s' = db_candidates s"
    "rpr_Upserted res = int (length (rpi_Pointers n))"
  using assms(1)
proof (cases rule: SyncRulePointers_cases)
  case (ok n res')
  let ?al = "put_rules (rpi_ProjectID n) (rpi_SourcePath n) (db_clock s) (rpi_Pointers n) (db_pointers s)"
  have dist: "distinct (map fst ?al)"
    using assms(2) put_rules_wf[of "db_pointers s" "rpi_SourcePath n" "rpi_Pointers n"] normalized_rules[OF ok(1)]
    by (auto simp: wf_index_def)
  have "db_pointers s' = filter (\<lambda>e. \<not> missing_rule (rpi_ProjectID n) (rpi_SourcePath n)
      (map rup_PointerKey (rpi_Pointers n)) e) ?al"
    using arg_cong[OF ok(3), of db_pointers] by (simp add: tables_def)
  then have at: "map_of (db_pointers s') (q, k) = (case map_of ?al (q, k) of None \<Rightarrow> None
      | Some row \<Rightarrow> if missing_rule (rpi_ProjectID n) (rpi_SourcePath n)
          (map rup_PointerKey (rpi_Pointers n)) ((q, k), row) then None else Some row)" for q k
    by (simp add: map_of_filter_distinct[OF dist] split: option.split)
  have key: "rule_at n k = None \<longleftrightarrow> k \<notin> rup_PointerKey ` set (rpi_Pointers n)" for k
    by (simp add: rule_at_def map_of_eq_None_iff image_image)
  have row: "map_of ?al (q, k) = (if q = rpi_ProjectID n then case rule_at n k of
        Some rule \<Rightarrow> Some (rule_row (rpi_SourcePath n) (db_clock s) rule) | None \<Rightarrow> map_of (db_pointers s) (q, k)
     else map_of (db_pointers s) (q, k))" for q k
    unfolding rule_at_def by (rule put_rules_at[OF normalized_rules(3)[OF ok(1)]])
  have "map_of (db_pointers s') (q, k) = ruled n s q k" for q k
    unfolding at row ruled_def using key[of k]
    by (cases "rule_at n k"; cases "map_of (db_pointers s) (q, k)") (auto simp: missing_rule_def)
  moreover have "db_candidates s' = db_candidates s"
    using arg_cong[OF ok(3), of db_candidates] by (simp add: tables_def)
  ultimately show ?thesis using that[OF ok(1)] ok(2,4) by simp
qed simp

end
