(* ===== verification/Store_Steps.thy ===== *)
theory Store_Steps
  imports Sqlite_Rules "HOL-Library.Sublist"
begin

text \<open>
  The repository as a transition system: every write operation of \<open>repository.go\<close> on plans, work
  items, receipts, runs, review attempts and verification batches is a step, whatever its input,
  its result and its fault schedule; time passes and faults are scheduled between the steps. The
  invariants of the tables are proved for every reachable state.
\<close>

section \<open>Outcomes of the remaining operations\<close>

lemma UpsertWorkPlan_fault_free:
  fixes input :: WorkPlanUpsertInput
  assumes "db_faults s = []"
  defines "p \<equiv> TrimSpace (wpi_ProjectID input)" and "k \<equiv> TrimSpace (wpi_PlanKey input)"
    and "mode \<equiv> NormalizeWorkPlanMode (wpi_Mode input)"
  assumes "p \<noteq> ''''" "k \<noteq> ''''"
  shows "\<exists>res. UpsertWorkPlan input s = (Inr res, upserted_db s p k mode input)"
proof -
  let ?s' = "upserted_db s p k mode input"
  obtain n where "upsert_plan_body p k mode input s = (Inr n, ?s')"
    using upsert_plan_body_eval[OF assms(1), of input p k mode] by (auto simp: p_def k_def)
  then have tx: "in_tx (upsert_plan_body p k mode input) s = (Inr n, ?s')"
    using assms(1) by (simp add: in_tx_no_faults)
  have "map_of (db_plans ?s') (p, k) = Some (final_plan_row s p k mode input)"
    by (simp add: upserted_db_plan)
  then obtain plan where "plan_view ?s' p k = Some plan" by (auto simp: plan_view_def)
  then have "LookupWorkPlan \<lparr>wpq_ProjectID = p, wpq_PlanKey = k, wpq_ReceiptID = ''''\<rparr> ?s' =
      (Inr plan, ?s')"
    using assms(1,5,6) by (subst LookupWorkPlan_eval[where p=p and k=k]) (simp_all add: p_def k_def)
  then show ?thesis
    using tx assms(5,6)
    by (simp add: UpsertWorkPlan_def Let_def p_def[symmetric] k_def[symmetric] mode_def[symmetric]
        bind_db_def ret_db_def)
qed

lemma UpsertReceiptScope_cases:
  assumes "UpsertReceiptScope input s = (r, s')"
  obtains (error) e where "r = Inl e" "tables s' = tables s"
  | (ok) n where "NormalizeReceiptScope input = Inr n" "r = Inr ()"
      "tables s' = (tables s)\<lparr>db_receipts := AList.update (nsc_ReceiptID n)
         (scope_row (map_of (db_receipts s) (nsc_ReceiptID n)) (db_clock s) n) (db_receipts s)\<rparr>"
proof (cases "NormalizeReceiptScope input")
  case (Inl e)
  then have "r = Inl e" "s' = s" using assms by (auto simp: UpsertReceiptScope_def fail_db_def)
  then show ?thesis using error by blast
next
  case (Inr n)
  obtain c s1 where c: "db_call ''upsert receipt scope'' s = (c, s1)" by fastforce
  then have t1: "tables s1 = tables s" using db_call_tables by (metis snd_conv)
  then have sel: "db_receipts s1 = db_receipts s" "db_clock s1 = db_clock s"
    using tables_sel by metis+
  show ?thesis
  proof (cases c)
    case (Inl e)
    then have "r = Inl e" "s' = s1" using assms Inr c by (auto simp: UpsertReceiptScope_def bind_db_def)
    then show ?thesis using error t1 by blast
  next
    case c': (Inr u)
    let ?al = "AList.update (nsc_ReceiptID n)
       (scope_row (map_of (db_receipts s) (nsc_ReceiptID n)) (db_clock s) n) (db_receipts s)"
    have "r = Inr ()" "s' = s1\<lparr>db_receipts := ?al\<rparr>"
      using assms Inr c c' sel by (auto simp: UpsertReceiptScope_def bind_db_def modify_db_def)
    moreover have "tables (s1\<lparr>db_receipts := ?al\<rparr>) = (tables s1)\<lparr>db_receipts := ?al\<rparr>"
      by (simp add: tables_def)
    ultimately show ?thesis using ok[OF Inr] t1 by simp
  qed
qed

text \<open>The state after a committed run.\<close>

definition run_saved_db :: "db \<Rightarrow> NormalizedRunSummary \<Rightarrow> db" where
  "run_saved_db s n =
     s\<lparr>db_receipts := AList.update (nrs_ReceiptID n)
         (run_receipt_row (map_of (db_receipts s) (nrs_ReceiptID n)) (db_clock s) n) (db_receipts s),
       db_next_run := db_next_run s + 1,
       db_runs := db_runs s @
         [\<lparr> nr_run_id = db_next_run s, nr_project_id = nrs_ProjectID n,
            nr_request_id = nrs_RequestID n, nr_receipt_id = nrs_ReceiptID n,
            nr_status = nrs_Status n, nr_files_changed = nonNilStringList (nrs_FilesChanged n),
            nr_dod_issues = nrs_DefinitionOfDoneIssues n, nr_outcome = nrs_Outcome n,
            nr_actor = nrs_Actor n, nr_vcs = nrs_VCS n,
            nr_created_at = db_clock s \<rparr>]\<rparr>"

lemma save_run_body_eval:
  "db_faults s = [] \<Longrightarrow> save_run_body n s = (Inr (db_next_run s), run_saved_db s n)"
  by (simp add: save_run_body_def db_op_defs run_saved_db_def)

lemma det_save_run_body: "det (save_run_body n)"
  unfolding save_run_body_def
  by (intro det_bind det_call det_modify det_get det_ret) (simp_all add: tables_def)

lemma SaveRunReceiptSummary_cases:
  assumes "SaveRunReceiptSummary fresh input s = (r, s')"
  obtains (error) e where "r = Inl e" "tables s' = tables s"
  | (ok) n0 n where "NormalizeRunReceiptSummary input = Inr n0"
      "n = (if nrs_ReceiptID n0 = '''' then n0\<lparr>nrs_ReceiptID := fresh\<rparr> else n0)"
      "r = Inr \<lparr> rri_RunID = db_next_run s, rri_ReceiptID = nrs_ReceiptID n \<rparr>"
      "tables s' = run_saved_db (tables s) n"
proof (cases "NormalizeRunReceiptSummary input")
  case (Inl e)
  then have "r = Inl e" "s' = s" using assms by (auto simp: SaveRunReceiptSummary_def fail_db_def)
  then show ?thesis using error by blast
next
  case (Inr n0)
  define n where "n = (if nrs_ReceiptID n0 = '''' then n0\<lparr>nrs_ReceiptID := fresh\<rparr> else n0)"
  obtain r1 s1 where tx: "in_tx (save_run_body n) s = (r1, s1)" by fastforce
  from tx show ?thesis
  proof (cases rule: in_tx_cases)
    case (error e)
    then have "r = Inl e" "s' = s1"
      using assms Inr tx by (auto simp: SaveRunReceiptSummary_def Let_def n_def[symmetric] bind_db_def)
    then show ?thesis using that(1) error by blast
  next
    case (ok x sa sb)
    have "save_run_body n (tables s) = (Inr x, tables sb)"
      using detD[OF det_save_run_body ok(3)] ok(2) by simp
    then have x: "x = db_next_run s" "tables sb = run_saved_db (tables s) n"
      using save_run_body_eval[of "tables s" n] by simp_all
    have "r = Inr \<lparr> rri_RunID = x, rri_ReceiptID = nrs_ReceiptID n \<rparr>" "s' = s1"
      using assms Inr tx ok(1)
      by (auto simp: SaveRunReceiptSummary_def Let_def n_def[symmetric] bind_db_def ret_db_def)
    then show ?thesis using that(2)[OF Inr n_def] x ok(4) by simp
  qed
qed

lemma insert_results_eval: "db_faults s = [] \<Longrightarrow> insert_results rs s = (Inr (length rs), s)"
  unfolding insert_results_def by (induction rs) (simp_all add: db_op_defs)

lemma det_save_batch_body: "det (save_batch_body n)"
  unfolding save_batch_body_def insert_results_def
  by (intro det_bind det_call det_get det_each det_ret)
     (auto intro!: det_fail det_bind det_each det_call det_ret det_modify simp: tables_def
       split: option.split)

lemma SaveVerificationBatch_cases:
  assumes "SaveVerificationBatch clock input s = (r, s')"
  obtains (error) e where "r = Inl e" "tables s' = tables s"
  | (ok) n where "NormalizeVerificationBatch clock input = Inr n" "r = Inr ()"
      "map_of (db_batches s) (nvb_BatchRunID n) = None"
      "tables s' = (tables s)\<lparr>db_batches := (nvb_BatchRunID n, \<lparr> br_batch = n \<rparr>) # db_batches s\<rparr>"
proof (cases "NormalizeVerificationBatch clock input")
  case (Inl e)
  then have "r = Inl e" "s' = s" using assms by (auto simp: SaveVerificationBatch_def fail_db_def)
  then show ?thesis using error by blast
next
  case (Inr n)
  then have tx: "in_tx (save_batch_body n) s = (r, s')"
    using assms by (simp add: SaveVerificationBatch_def)
  from tx show ?thesis
  proof (cases rule: in_tx_cases)
    case (error e)
    then show ?thesis using that(1) by blast
  next
    case (ok x sa sb)
    have "save_batch_body n (tables s) = (Inr x, tables sb)"
      using detD[OF det_save_batch_body ok(3)] ok(2) by simp
    then have "map_of (db_batches s) (nvb_BatchRunID n) = None \<and>
        tables sb = (tables s)\<lparr>db_batches := (nvb_BatchRunID n, \<lparr> br_batch = n \<rparr>) # db_batches s\<rparr>"
      by (cases "map_of (db_batches s) (nvb_BatchRunID n)")
         (auto simp: save_batch_body_def insert_results_eval bind_db_def get_db_def modify_db_def
           db_call_def fail_db_def tables_def)
    then show ?thesis using that(2)[OF Inr] ok by simp
  qed
qed

lemma NormalizeWorkItems_emitted:
  "NormalizeWorkItems raws = Inr items \<Longrightarrow> items = nwi.emitted raws"
  by (auto simp: NormalizeWorkItems_def nwi.emitted_def split: if_splits)

lemma NormalizeWorkItems_distinct:
  "NormalizeWorkItems raws = Inr items \<Longrightarrow> distinct (map wi_ItemKey items)"
  using NormalizeWorkItems_emitted nwi.emitted_keys_distinct by blast

lemma NormalizeWorkItems_status:
  assumes "NormalizeWorkItems raws = Inr items" "i \<in> set items"
  shows "NormalizeWorkItemStatus (wi_Status i) = wi_Status i"
proof -
  have "i \<in> set (nwi.emitted raws)" using NormalizeWorkItems_emitted[OF assms(1)] assms(2) by blast
  from nwi.emitted_max(1)[OF this]
  obtain x :: WorkItem where "i = WorkItem_zero\<lparr>wi_ItemKey := NormalizeRepoPath (wi_ItemKey x),
      wi_Status := NormalizeWorkItemStatus (wi_Status x)\<rparr>" by (elim bexE conjE)
  then show ?thesis by simp
qed

lemma items_map_rev:
  assumes "distinct (map wi_ItemKey items)" "\<And>i. i \<in> set items \<Longrightarrow> f i = g i"
  shows "map_of (map (\<lambda>i. (wi_ItemKey i, f i)) (rev items)) = map_of (map (\<lambda>i. (wi_ItemKey i, g i)) items)"
proof (rule map_of_eqI)
  show "set (map fst (map (\<lambda>i. (wi_ItemKey i, f i)) (rev items))) =
      set (map fst (map (\<lambda>i. (wi_ItemKey i, g i)) items))" by (simp add: image_image)
next
  have "map_of (map (\<lambda>i. (wi_ItemKey i, f i)) (rev items)) (wi_ItemKey i) = Some (g i)"
    "map_of (map (\<lambda>i. (wi_ItemKey i, g i)) items) (wi_ItemKey i) = Some (g i)" if "i \<in> set items" for i
    using assms that by (auto intro!: map_of_is_SomeI simp: comp_def rev_map[symmetric])
  then show "\<forall>k\<in>set (map fst (map (\<lambda>i. (wi_ItemKey i, f i)) (rev items))).
      map_of (map (\<lambda>i. (wi_ItemKey i, f i)) (rev items)) k = map_of (map (\<lambda>i. (wi_ItemKey i, g i)) items) k"
    by auto
qed

lemma items_map_dom:
  "map_of (map (\<lambda>i. (wi_ItemKey i, f i)) items) k = None \<longleftrightarrow> k \<notin> wi_ItemKey ` set items"
  by (auto simp: map_of_eq_None_iff image_image)

section \<open>Steps\<close>


inductive store_step :: "db \<Rightarrow> db \<Rightarrow> bool" where
  step_plan: "UpsertWorkPlan input s = (r, s') \<Longrightarrow> store_step s s'"
| step_items: "UpsertWorkItems items s = (n, s') \<Longrightarrow> store_step s s'"
| step_scope: "UpsertReceiptScope scope s = (u, s') \<Longrightarrow> store_step s s'"
| step_run: "SaveRunReceiptSummary fresh summary s = (ids, s') \<Longrightarrow> store_step s s'"
| step_attempt: "SaveReviewAttempt now attempt s = (i, s') \<Longrightarrow> store_step s s'"
| step_batch: "SaveVerificationBatch clock batch s = (u, s') \<Longrightarrow> store_step s s'"
| step_stubs: "UpsertPointerStubs project stubs s = (n, s') \<Longrightarrow> store_step s s'"
| step_sync: "ApplySync sync s = (res, s') \<Longrightarrow> store_step s s'"
| step_rules: "SyncRulePointers rules s = (res, s') \<Longrightarrow> store_step s s'"
| step_time: "db_clock s \<le> c \<Longrightarrow> store_step s (s\<lparr>db_clock := c, db_faults := fs\<rparr>)"

inductive store_reachable :: "db \<Rightarrow> bool" where
  reach_empty: "store_reachable db_empty"
| reach_step: "store_reachable s \<Longrightarrow> store_step s s' \<Longrightarrow> store_reachable s'"

text \<open>The log tables: ids in insertion order below the next id, times not after the clock,
  foreign keys that hold, one batch per id.\<close>

definition wf_logs :: "db \<Rightarrow> bool" where
  "wf_logs s \<longleftrightarrow>
     sorted_wrt (\<lambda>a b. nr_run_id a < nr_run_id b \<and> nr_created_at a \<le> nr_created_at b) (db_runs s) \<and>
     (\<forall>x \<in> set (db_runs s). nr_run_id x < db_next_run s \<and> nr_created_at x \<le> db_clock s \<and>
        map_of (db_receipts s) (nr_receipt_id x) \<noteq> None) \<and>
     sorted_wrt (\<lambda>a b. ar_attempt_id a < ar_attempt_id b) (db_attempts s) \<and>
     (\<forall>x \<in> set (db_attempts s). ar_attempt_id x < db_next_attempt s \<and>
        map_of (db_receipts s) (nra_ReceiptID (ar_attempt x)) \<noteq> None) \<and>
     distinct (map fst (db_batches s)) \<and>
     (\<forall>(k, row) \<in> set (db_batches s). nvb_BatchRunID (br_batch row) = k)"

lemma wf_logs_tables: "wf_logs (tables s) = wf_logs s"
  by (simp add: wf_logs_def)

lemma wf_logs_cong: "tables s' = tables s \<Longrightarrow> wf_logs s \<Longrightarrow> wf_logs s'"
  using wf_logs_tables by metis

lemma wf_logs_receipts_grow:
  assumes "wf_logs s"
  shows "wf_logs (s\<lparr>db_receipts := AList.update r row (db_receipts s)\<rparr>)"
  using assms by (simp add: wf_logs_def update_conv')

lemma wf_logs_append_run:
  assumes "wf_logs s" "nr_run_id x = db_next_run s" "nr_created_at x = db_clock s"
    "map_of (db_receipts s) (nr_receipt_id x) \<noteq> None"
  shows "wf_logs (s\<lparr>db_next_run := db_next_run s + 1, db_runs := db_runs s @ [x]\<rparr>)"
proof -
  have "\<forall>y \<in> set (db_runs s). nr_run_id y < db_next_run s + 1"
    using assms(1) by (fastforce simp: wf_logs_def)
  then show ?thesis using assms by (simp add: wf_logs_def sorted_wrt_append)
qed

lemma wf_logs_append_attempt:
  assumes "wf_logs s" "ar_attempt_id x = db_next_attempt s"
    "map_of (db_receipts s) (nra_ReceiptID (ar_attempt x)) \<noteq> None"
  shows "wf_logs (s\<lparr>db_next_attempt := db_next_attempt s + 1, db_attempts := db_attempts s @ [x]\<rparr>)"
proof -
  have "\<forall>y \<in> set (db_attempts s). ar_attempt_id y < db_next_attempt s + 1"
    using assms(1) by (fastforce simp: wf_logs_def)
  then show ?thesis using assms by (simp add: wf_logs_def sorted_wrt_append)
qed

lemma wf_logs_cons_batch:
  assumes "wf_logs s" "map_of (db_batches s) k = None" "nvb_BatchRunID (br_batch row) = k"
  shows "wf_logs (s\<lparr>db_batches := (k, row) # db_batches s\<rparr>)"
  using assms by (simp add: wf_logs_def map_of_eq_None_iff)

lemma run_saved_db_split:
  "run_saved_db s n =
     (let s1 = s\<lparr>db_receipts := AList.update (nrs_ReceiptID n)
            (run_receipt_row (map_of (db_receipts s) (nrs_ReceiptID n)) (db_clock s) n) (db_receipts s)\<rparr>
      in s1\<lparr>db_next_run := db_next_run s1 + 1, db_runs := db_runs s1 @ [last (db_runs (run_saved_db s n))]\<rparr>)"
  by (simp add: run_saved_db_def Let_def)

lemma wf_logs_run_saved: "wf_logs s \<Longrightarrow> wf_logs (run_saved_db s n)"
  by (subst run_saved_db_split, unfold Let_def)
     (rule wf_logs_append_run[OF wf_logs_receipts_grow], simp_all add: run_saved_db_def update_conv')

text \<open>Sorted reads of the logs.\<close>

lemma insort_key_snoc: "f y \<le> f x \<Longrightarrow> insort_key f y (zs @ [x]) = insort_key f y zs @ [x]"
  by (induction zs) auto

lemma sort_key_snoc_max:
  "\<forall>y \<in> set ys. f y \<le> f x \<Longrightarrow> sort_key f (ys @ [x]) = sort_key f ys @ [x]"
  by (induction ys) (simp_all add: sort_key_def insort_key_snoc)

lemma sort_key_hd_min:
  assumes "sort_key f xs = y # ys" "x \<in> set xs"
  shows "f y \<le> f x"
proof -
  have "sorted (map f (y # ys))" using assms(1) sorted_sort_key[of f xs] by simp
  moreover have "x \<in> set (y # ys)" using assms set_sort by metis
  ultimately show ?thesis by auto
qed

text \<open>A saved run is the latest of its receipt.\<close>

lemma latest_run_saved:
  assumes "wf_logs s"
  shows "\<exists>r. latest_run (nrs_ProjectID n) (nrs_ReceiptID n) (run_saved_db s n) = Some r \<and>
    nr_run_id r = db_next_run s"
proof -
  let ?f = "\<lambda>r. (- nr_created_at r, - nr_run_id r)"
  let ?x = "last (db_runs (run_saved_db s n))"
  define ys where "ys = filter (\<lambda>r. nr_project_id r = nrs_ProjectID n \<and>
    nr_receipt_id r = nrs_ReceiptID n) (db_runs (run_saved_db s n))"
  have x: "nr_run_id ?x = db_next_run s" "nr_created_at ?x = db_clock s" "?x \<in> set ys"
    by (simp_all add: run_saved_db_def ys_def)
  have top: "?f ?x \<le> ?f y" if "y \<in> set ys" for y
  proof (cases "y = ?x")
    case False
    then have "y \<in> set (db_runs s)" using that by (auto simp: ys_def run_saved_db_def)
    then have "nr_run_id y < db_next_run s" "nr_created_at y \<le> db_clock s"
      using assms by (auto simp: wf_logs_def)
    then show ?thesis using x by (auto simp: less_eq_prod_def)
  qed simp
  obtain r rs where srt: "sort_key ?f ys = r # rs"
    using x(3) by (cases "sort_key ?f ys") (auto dest: arg_cong[of _ _ set])
  then have "r \<in> set ys" by (metis list.set_intros(1) set_sort)
  then have "?f r = ?f ?x" using sort_key_hd_min[OF srt x(3)] top by (meson antisym)
  then show ?thesis using srt x(1) by (simp add: latest_run_def ys_def)
qed

text \<open>The receipt table only grows; work items, plans and tasks do not depend on the logs.\<close>

lemma wf_db_receipts:
  assumes "wf_db s"
  shows "wf_db (s\<lparr>db_receipts := AList.update r row (db_receipts s)\<rparr>)"
proof -
  have "map_of (AList.update r row (db_receipts s)) x \<noteq> None" if "map_of (db_receipts s) x \<noteq> None" for x
    using that by (simp add: update_conv')
  then show ?thesis
    using assms unfolding wf_db_def by (simp del: not_None_eq)
qed

lemma wf_db_cong:
  assumes "wf_db s" "db_plans s' = db_plans s" "db_tasks s' = db_tasks s" "db_items s' = db_items s"
    "db_receipts s' = db_receipts s"
  shows "wf_db s'"
  using assms(1) unfolding wf_db_def assms(2-5) .

lemma wf_db_tables_cong: "tables s' = tables s \<Longrightarrow> wf_db s \<Longrightarrow> wf_db s'"
  using wf_db_tables by metis

lemma NormalizeWorkItems_mem:
  assumes "NormalizeWorkItems raws = Inr items" "i \<in> set items"
  shows "wi_ItemKey i \<noteq> ''''" "wi_ItemKey i \<in> (\<lambda>raw. NormalizeRepoPath (wi_ItemKey raw)) ` set raws"
proof -
  have items: "items = nwi.emitted raws"
    using assms(1) by (auto simp: NormalizeWorkItems_def nwi.emitted_def split: if_splits)
  have "wi_ItemKey i \<in> wi_ItemKey ` set (nwi.emitted raws)" using assms(2) items by blast
  then have "wi_ItemKey i \<in> (\<lambda>raw. NormalizeRepoPath (wi_ItemKey raw)) ` set raws - {''''}"
    by (simp only: nwi.emitted_key_set)
  then show "wi_ItemKey i \<noteq> ''''" "wi_ItemKey i \<in> (\<lambda>raw. NormalizeRepoPath (wi_ItemKey raw)) ` set raws"
    by auto
qed

lemma put_items_row:
  "map_of (put_items p r clock items al) (p', r', k) = Some row \<Longrightarrow>
     map_of al (p', r', k) = Some row \<or>
     (p' = p \<and> r' = r \<and> (\<exists>i \<in> set items. k = wi_ItemKey i \<and>
        ir_status row = StorageWorkItemStatus (wi_Status i)))"
proof (induction items rule: rev_induct)
  case (snoc i items)
  then show ?case by (auto simp: put_items_def update_conv' split: if_splits)
qed (simp add: put_items_def)

lemma wf_put_items:
  assumes "wf_db s" "NormalizeWorkItems raws = Inr items" "map_of (db_receipts s) r \<noteq> None"
  shows "wf_db ((tables s)\<lparr>db_items := put_items p r (db_clock s) items (db_items s)\<rparr>)"
proof -
  let ?al = "put_items p r (db_clock s) items (db_items s)"
  have rows: "k \<noteq> '''' \<and> ir_status row \<in> work_item_statuses \<and> map_of (db_receipts s) r' \<noteq> None"
    if "map_of ?al (p', r', k) = Some row" for p' r' k row
    using put_items_row[OF that]
  proof
    assume "map_of (db_items s) (p', r', k) = Some row"
    then show ?thesis using assms(1) unfolding wf_db_def by blast
  next
    assume "p' = p \<and> r' = r \<and> (\<exists>i\<in>set items. k = wi_ItemKey i \<and>
      ir_status row = StorageWorkItemStatus (wi_Status i))"
    then show ?thesis
      using NormalizeWorkItems_mem(1)[OF assms(2)] assms(3) by (auto simp: StorageWorkItemStatus_def)
  qed
  have "distinct (map fst ?al)" using assms(1) by (simp add: distinct_put_items wf_db_def)
  then show ?thesis using assms(1) rows unfolding wf_db_def by (simp del: not_None_eq)
qed

text \<open>Each step preserves the two invariants.\<close>

lemma step_wf_db:
  assumes "store_step s s'" "wf_db s"
  shows "wf_db s'"
  using assms(1)
proof cases
  case (step_plan input r)
  then show ?thesis using UpsertWorkPlan_wf assms(2) by blast
next
  case (step_items items n)
  from step_items show ?thesis
  proof (cases rule: UpsertWorkItems_cases)
    case (error e)
    then show ?thesis using assms(2) wf_db_tables_cong by blast
  next
    case (ok its)
    show ?thesis using wf_put_items[OF assms(2) ok(1,6)] ok(7) wf_db_tables by metis
  qed
next
  case (step_scope scope u)
  from step_scope show ?thesis
  proof (cases rule: UpsertReceiptScope_cases)
    case (error e)
    then show ?thesis using assms(2) wf_db_tables_cong by blast
  next
    case (ok n)
    show ?thesis using wf_db_receipts[of "tables s"] assms(2) ok(3) wf_db_tables tables_sel(4) by metis
  qed
next
  case (step_run fresh summary ids)
  from step_run show ?thesis
  proof (cases rule: SaveRunReceiptSummary_cases)
    case (error e)
    then show ?thesis using assms(2) wf_db_tables_cong by blast
  next
    case (ok n0 n)
    have "wf_db (tables s)" using assms(2) by (simp only: wf_db_tables)
    then have "wf_db (run_saved_db (tables s) n)"
      by (rule wf_db_cong[OF wf_db_receipts]) (simp_all add: run_saved_db_def)
    then show ?thesis using ok(4) wf_db_tables by metis
  qed
next
  case (step_attempt now attempt i)
  from step_attempt show ?thesis
  proof (cases rule: SaveReviewAttempt_cases)
    case (error e)
    then show ?thesis using assms(2) wf_db_tables_cong by blast
  next
    case (ok n)
    have "wf_db (tables s')" by (rule wf_db_cong[OF assms(2)]) (simp_all add: ok(4))
    then show ?thesis by (simp only: wf_db_tables)
  qed
next
  case (step_batch clock batch u)
  from step_batch show ?thesis
  proof (cases rule: SaveVerificationBatch_cases)
    case (error e)
    then show ?thesis using assms(2) wf_db_tables_cong by blast
  next
    case (ok n)
    have "wf_db (tables s')" by (rule wf_db_cong[OF assms(2)]) (simp_all add: ok(4))
    then show ?thesis by (simp only: wf_db_tables)
  qed
next
  case (step_stubs project stubs n)
  then obtain ps cs where "tables s' = (tables s)\<lparr>db_pointers := ps, db_candidates := cs\<rparr>"
    using UpsertPointerStubs_frame by blast
  then have "wf_db (tables s')" by (intro wf_db_cong[OF assms(2)]) simp_all
  then show ?thesis by (simp only: wf_db_tables)
next
  case (step_sync sync res)
  then obtain ps cs where "tables s' = (tables s)\<lparr>db_pointers := ps, db_candidates := cs\<rparr>"
    using ApplySync_frame by blast
  then have "wf_db (tables s')" by (intro wf_db_cong[OF assms(2)]) simp_all
  then show ?thesis by (simp only: wf_db_tables)
next
  case (step_rules rules res)
  then obtain ps cs where "tables s' = (tables s)\<lparr>db_pointers := ps, db_candidates := cs\<rparr>"
    using SyncRulePointers_frame by blast
  then have "wf_db (tables s')" by (intro wf_db_cong[OF assms(2)]) simp_all
  then show ?thesis by (simp only: wf_db_tables)
next
  case (step_time c fs)
  then show ?thesis by (auto intro: wf_db_cong[OF assms(2)])
qed

lemma step_wf_logs:
  assumes "store_step s s'" "wf_logs s"
  shows "wf_logs s'"
  using assms(1)
proof cases
  case (step_plan input r)
  have *: "wf_logs (upserted_db (tables s) p k mode input)" for p k mode
    using assms(2) by (simp add: wf_logs_def upserted_db_def db_with_tasks_def Let_def)
  from step_plan show ?thesis
    by (cases rule: UpsertWorkPlan_cases) (use * assms(2) wf_logs_cong wf_logs_tables in metis)+
next
  case (step_items items n)
  from step_items show ?thesis
  proof (cases rule: UpsertWorkItems_cases)
    case (error e)
    then show ?thesis using assms(2) wf_logs_cong by blast
  next
    case (ok its)
    have "wf_logs (tables s')" using assms(2) by (simp add: ok(7) wf_logs_def)
    then show ?thesis by (simp only: wf_logs_tables)
  qed
next
  case (step_scope scope u)
  from step_scope show ?thesis
  proof (cases rule: UpsertReceiptScope_cases)
    case (error e)
    then show ?thesis using assms(2) wf_logs_cong by blast
  next
    case (ok n)
    show ?thesis using wf_logs_receipts_grow[of "tables s"] assms(2) ok(3) wf_logs_tables tables_sel(4)
      by metis
  qed
next
  case (step_run fresh summary ids)
  from step_run show ?thesis
  proof (cases rule: SaveRunReceiptSummary_cases)
    case (error e)
    then show ?thesis using assms(2) wf_logs_cong by blast
  next
    case (ok n0 n)
    then show ?thesis using wf_logs_run_saved assms(2) wf_logs_tables by metis
  qed
next
  case (step_attempt now attempt i)
  from step_attempt show ?thesis
  proof (cases rule: SaveReviewAttempt_cases)
    case (error e)
    then show ?thesis using assms(2) wf_logs_cong by blast
  next
    case (ok n)
    have "wf_logs (tables s')"
      using wf_logs_append_attempt[of "tables s" "\<lparr> ar_attempt_id = db_next_attempt s,
          ar_attempt = n, ar_created_sec = unixSeconds (nra_CreatedAt n) \<rparr>"] assms(2) ok(3)
      by (simp add: ok(4) wf_logs_tables del: not_None_eq)
    then show ?thesis by (simp only: wf_logs_tables)
  qed
next
  case (step_batch clock batch u)
  from step_batch show ?thesis
  proof (cases rule: SaveVerificationBatch_cases)
    case (error e)
    then show ?thesis using assms(2) wf_logs_cong by blast
  next
    case (ok n)
    have "wf_logs (tables s')"
      using wf_logs_cons_batch[of "tables s" "nvb_BatchRunID n" "\<lparr> br_batch = n \<rparr>"] assms(2) ok(3)
      by (simp add: ok(4) wf_logs_tables)
    then show ?thesis by (simp only: wf_logs_tables)
  qed
next
  case (step_stubs project stubs n)
  then obtain ps cs where "tables s' = (tables s)\<lparr>db_pointers := ps, db_candidates := cs\<rparr>"
    using UpsertPointerStubs_frame by blast
  then have "wf_logs (tables s')" using assms(2) by (simp add: wf_logs_def)
  then show ?thesis by (simp only: wf_logs_tables)
next
  case (step_sync sync res)
  then obtain ps cs where "tables s' = (tables s)\<lparr>db_pointers := ps, db_candidates := cs\<rparr>"
    using ApplySync_frame by blast
  then have "wf_logs (tables s')" using assms(2) by (simp add: wf_logs_def)
  then show ?thesis by (simp only: wf_logs_tables)
next
  case (step_rules rules res)
  then obtain ps cs where "tables s' = (tables s)\<lparr>db_pointers := ps, db_candidates := cs\<rparr>"
    using SyncRulePointers_frame by blast
  then have "wf_logs (tables s')" using assms(2) by (simp add: wf_logs_def)
  then show ?thesis by (simp only: wf_logs_tables)
next
  case (step_time c fs)
  then show ?thesis using assms(2) by (fastforce simp: wf_logs_def)
qed

text \<open>The operations that do not write the index leave it as it is.\<close>

lemma index_of_tables:
  assumes "tables t = u" "db_pointers u = db_pointers s" "db_candidates u = db_candidates s" "wf_index s"
  shows "wf_index t"
proof -
  have "wf_index u" using wf_index_cong[OF assms(2,3)] assms(4) by simp
  then show ?thesis using assms(1) wf_index_tables by blast
qed

lemma index_sel [simp]:
  "db_pointers (tables s) = db_pointers s" "db_candidates (tables s) = db_candidates s"
  "db_pointers (upserted_db s p k m i) = db_pointers s"
  "db_candidates (upserted_db s p k m i) = db_candidates s"
  "db_pointers (run_saved_db s n) = db_pointers s" "db_candidates (run_saved_db s n) = db_candidates s"
  by (simp_all add: tables_def upserted_db_def db_with_tasks_def run_saved_db_def Let_def)

lemma step_wf_index:
  assumes "store_step s s'" "wf_index s"
  shows "wf_index s'"
  using assms(1)
proof cases
  case (step_plan input r)
  then show ?thesis
    by (cases rule: UpsertWorkPlan_cases)
       (auto intro!: index_of_tables[OF _ _ _ assms(2)])
next
  case (step_items items n)
  then show ?thesis by (cases rule: UpsertWorkItems_cases) (auto intro!: index_of_tables[OF _ _ _ assms(2)])
next
  case (step_scope scope u)
  then show ?thesis by (cases rule: UpsertReceiptScope_cases) (auto intro!: index_of_tables[OF _ _ _ assms(2)])
next
  case (step_run fresh summary ids)
  then show ?thesis
    by (cases rule: SaveRunReceiptSummary_cases)
       (auto intro!: index_of_tables[OF _ _ _ assms(2)])
next
  case (step_attempt now attempt i)
  then show ?thesis by (cases rule: SaveReviewAttempt_cases) (auto intro!: index_of_tables[OF _ _ _ assms(2)])
next
  case (step_batch clock batch u)
  then show ?thesis by (cases rule: SaveVerificationBatch_cases) (auto intro!: index_of_tables[OF _ _ _ assms(2)])
next
  case (step_stubs project stubs n)
  then show ?thesis using UpsertPointerStubs_wf assms(2) by blast
next
  case (step_sync sync res)
  then show ?thesis using ApplySync_wf assms(2) by blast
next
  case (step_rules rules res)
  then show ?thesis using SyncRulePointers_wf assms(2) by blast
next
  case (step_time c fs)
  then show ?thesis using assms(2) by (simp add: wf_index_def)
qed

lemma reachable_wf: "store_reachable s \<Longrightarrow> wf_db s \<and> wf_logs s"
proof (induction rule: store_reachable.induct)
  case reach_empty
  have "wf_logs db_empty" by (simp add: wf_logs_def db_empty_def)
  then show ?case using wf_db_empty by blast
next
  case (reach_step s s')
  then show ?case using step_wf_db step_wf_logs by blast
qed

lemma reachable_wf_index: "store_reachable s \<Longrightarrow> wf_index s"
proof (induction rule: store_reachable.induct)
  case reach_empty
  show ?case by (simp add: wf_index_def db_empty_def)
next
  case (reach_step s s')
  then show ?case using step_wf_index by blast
qed

text \<open>The logs are append-only, receipts are never removed.\<close>

definition logs_grow :: "db \<Rightarrow> db \<Rightarrow> bool" where
  "logs_grow s s' \<longleftrightarrow> prefix (db_runs s) (db_runs s') \<and> prefix (db_attempts s) (db_attempts s') \<and>
     suffix (db_batches s) (db_batches s') \<and> dom (map_of (db_receipts s)) \<subseteq> dom (map_of (db_receipts s'))"

lemma logs_grow_tables: "logs_grow (tables s) (tables s') = logs_grow s s'"
  by (simp add: logs_grow_def)

lemma logs_grow_refl [simp]: "logs_grow s s"
  by (simp add: logs_grow_def)

lemma logs_grow_upserted: "logs_grow s (upserted_db s p k mode input)"
  by (simp add: logs_grow_def upserted_db_def db_with_tasks_def Let_def)

lemma step_logs_grow:
  assumes "store_step s s'"
  shows "logs_grow s s'"
proof -
  have "logs_grow (tables s) (tables s')"
    using assms
  proof cases
    case (step_plan input r)
    then show ?thesis by (cases rule: UpsertWorkPlan_cases) (simp_all add: logs_grow_upserted)
  next
    case (step_items items n)
    then show ?thesis by (cases rule: UpsertWorkItems_cases) (simp_all add: logs_grow_def)
  next
    case (step_scope scope u)
    then show ?thesis
      by (cases rule: UpsertReceiptScope_cases) (auto simp: logs_grow_def update_conv')
  next
    case (step_run fresh summary ids)
    then show ?thesis
      by (cases rule: SaveRunReceiptSummary_cases)
         (auto simp: logs_grow_def run_saved_db_def update_conv')
  next
    case (step_attempt now attempt i)
    then show ?thesis by (cases rule: SaveReviewAttempt_cases) (simp_all add: logs_grow_def)
  next
    case (step_batch clock batch u)
    then show ?thesis
      by (cases rule: SaveVerificationBatch_cases) (simp_all add: logs_grow_def suffix_ConsI)
  next
    case (step_stubs project stubs n)
    then obtain ps cs where "tables s' = (tables s)\<lparr>db_pointers := ps, db_candidates := cs\<rparr>"
      using UpsertPointerStubs_frame by blast
    then show ?thesis by (simp add: logs_grow_def)
  next
    case (step_sync sync res)
    then obtain ps cs where "tables s' = (tables s)\<lparr>db_pointers := ps, db_candidates := cs\<rparr>"
      using ApplySync_frame by blast
    then show ?thesis by (simp add: logs_grow_def)
  next
    case (step_rules rules res)
    then obtain ps cs where "tables s' = (tables s)\<lparr>db_pointers := ps, db_candidates := cs\<rparr>"
      using SyncRulePointers_frame by blast
    then show ?thesis by (simp add: logs_grow_def)
  next
    case (step_time c fs)
    then show ?thesis by (simp add: logs_grow_def)
  qed
  then show ?thesis by (simp only: logs_grow_tables)
qed

lemma content_map_tables: "content_map (tables s) p k = content_map s p k"
  by (simp add: content_map_def task_map_def)

lemma steps_logs_grow: "store_step\<^sup>*\<^sup>* s s' \<Longrightarrow> logs_grow s s'"
proof (induction rule: rtranclp_induct)
  case (step t u)
  then have "logs_grow t u" using step_logs_grow by blast
  then show ?case
    using step.IH unfolding logs_grow_def by (meson prefix_order.trans suffix_order.trans subset_trans)
qed simp

end
