(* ===== verification/Store_Properties.thy ===== *)
theory Store_Properties
  imports Store_Steps Domain_Properties
begin

text \<open>
  Properties of the SQLite repository: refinement of the plan upsert to an update of the map from
  task keys to task contents, atomicity under any fault schedule, frame and read-back of the
  plan store, the invariants of all reachable databases, work items, receipts, runs, review
  attempts and verification batches.
\<close>

section \<open>Plans\<close>


lemma sample_input_names [simp]:
  "TrimSpace ''proj'' = ''proj''" "TrimSpace ''plan:r1'' = ''plan:r1''" "TrimSpace ''r1'' = ''r1''"
  by (rule TrimSpace_graph; simp add: ascii_graph_def)+

text \<open>The sample plan, stored in an empty database.\<close>

lemma sample_upsert:
  obtains res s' where "UpsertWorkPlan sample_input db_empty = (Inr res, s')"
proof -
  have "db_faults db_empty = []" by (simp add: db_empty_def)
  then show ?thesis
    using UpsertWorkPlan_fault_free[of db_empty sample_input] that by (auto simp: sample_input_def)
qed


text \<open>C18: under any fault schedule an upsert of a plan is all or nothing: the tables afterwards
  are the tables before, or those that the same upsert leaves when no database call fails.\<close>

theorem upsert_plan_atomic:
  assumes "UpsertWorkPlan input s = (r, s')"
  shows "tables s' = tables s \<or> tables s' = tables (snd (UpsertWorkPlan input (tables s)))"
proof -
  let ?p = "TrimSpace (wpi_ProjectID input)" and ?k = "TrimSpace (wpi_PlanKey input)"
  let ?m = "NormalizeWorkPlanMode (wpi_Mode input)"
  have clean: "tables (snd (UpsertWorkPlan input (tables s))) = upserted_db (tables s) ?p ?k ?m input"
    if "?p \<noteq> ''''" "?k \<noteq> ''''"
  proof -
    have "tables (upserted_db (tables s) ?p ?k ?m input) = upserted_db (tables s) ?p ?k ?m input"
      by (simp add: tables_def upserted_db_def db_with_tasks_def Let_def)
    then show ?thesis using UpsertWorkPlan_fault_free[of "tables s" input] that by auto
  qed
  from assms show ?thesis by (cases rule: UpsertWorkPlan_cases) (use clean in auto)
qed

theorem upsert_plan_atomic_witness:
  "tables (snd (UpsertWorkPlan sample_input (db_empty\<lparr>db_faults := [False, False, False, True]\<rparr>))) \<in>
     {tables db_empty, tables (snd (UpsertWorkPlan sample_input (tables db_empty)))}"
proof -
  let ?s = "db_empty\<lparr>db_faults := [False, False, False, True]\<rparr>"
  obtain r s' where run: "UpsertWorkPlan sample_input ?s = (r, s')" by fastforce
  have "tables ?s = tables db_empty" by simp
  then show ?thesis using upsert_plan_atomic[OF run] run by auto
qed

text \<open>without faults an upsert that names a project and a plan succeeds.\<close>

theorem upsert_plan_total:
  assumes "db_faults s = []" "TrimSpace (wpi_ProjectID input) \<noteq> ''''"
    "TrimSpace (wpi_PlanKey input) \<noteq> ''''"
  shows "\<exists>res s'. UpsertWorkPlan input s = (Inr res, s')"
  using UpsertWorkPlan_fault_free[OF assms] by blast

theorem upsert_plan_total_witness: "\<exists>res s'. UpsertWorkPlan sample_input db_empty = (Inr res, s')"
  by (rule upsert_plan_total) (simp_all add: sample_input_def db_empty_def)

text \<open>what a successful upsert returned stays what a reader of this plan sees, whatever other
  plans are written afterwards, with whatever result.\<close>

theorem plan_stable_under_other_writes:
  assumes "wf_db s" "UpsertWorkPlan input s = (Inr res, s')" "upsert_key input \<notin> upsert_key ` set others"
  shows "plan_view_at (wps.run others s') (upsert_key input) = Some (wpr_Plan res)"
  using assms by (rule wps.view_until_next_write)

theorem plan_stable_under_other_writes_witness:
  "\<exists>res s'. UpsertWorkPlan sample_input db_empty = (Inr res, s') \<and>
     plan_view_at (wps.run [sample_input\<lparr>wpi_PlanKey := ''r1''\<rparr>] s') (upsert_key sample_input) =
       Some (wpr_Plan res)"
proof -
  obtain res s' where up: "UpsertWorkPlan sample_input db_empty = (Inr res, s')" by (rule sample_upsert)
  have "upsert_key sample_input \<notin> upsert_key ` set [sample_input\<lparr>wpi_PlanKey := ''r1''\<rparr>]"
    by (simp add: upsert_key_def sample_input_def)
  then show ?thesis using plan_stable_under_other_writes[OF wf_db_empty up] up by blast
qed

text \<open>the status of a plan that an upsert returns is the given status, or, when none is given,
  the one derived from the tasks it returns.\<close>

theorem upsert_plan_status:
  assumes "UpsertWorkPlan input s = (Inr res, s')"
  shows "wp_Status (wpr_Plan res) =
    (if TrimSpace (wpi_Status input) = '''' then DerivePlanStatus (wp_Tasks (wpr_Plan res))
     else NormalizeWorkItemStatus (wpi_Status input))"
  using assms
proof (cases rule: UpsertWorkPlan_cases)
  case (ok res')
  let ?p = "TrimSpace (wpi_ProjectID input)" and ?k = "TrimSpace (wpi_PlanKey input)"
  have "plan_view (upserted_db (tables s) ?p ?k (NormalizeWorkPlanMode (wpi_Mode input)) input) ?p ?k =
      Some (wpr_Plan res)"
    using ok(1,5) unfolding ok(4)[symmetric] by simp
  then show ?thesis by (rule plan_status_upserted)
qed auto

theorem upsert_plan_status_witness:

  "\<exists>res s'. UpsertWorkPlan sample_input db_empty = (Inr res, s') \<and>
     wp_Status (wpr_Plan res) = DerivePlanStatus (wp_Tasks (wpr_Plan res))"
proof -
  obtain res s' where up: "UpsertWorkPlan sample_input db_empty = (Inr res, s')" by (rule sample_upsert)
  then show ?thesis using upsert_plan_status[OF up] by (auto simp: sample_input_def)
qed

section \<open>Reachable databases\<close>

text \<open>C3: in every state that the operations reach from the empty database, whatever faults occur,
  the tables are well-formed: keys are trimmed and non-blank, statuses canonical, each task has
  its plan, each item its receipt; run and attempt ids are ascending and below the next id, run
  times are not after the clock, each run and attempt has its receipt, batch ids are unique;
  pointer and candidate keys are unique, and a pointer is stale exactly when it has the time at
  which it became so.\<close>

theorem reachable_wf_store:
  assumes "store_reachable s"
  shows "wf_db s \<and> wf_logs s \<and> wf_index s"
  using reachable_wf[OF assms] reachable_wf_index[OF assms] by blast

theorem reachable_wf_store_witness:
  "wf_db (snd (UpsertWorkPlan sample_input db_empty)) \<and> wf_logs (snd (UpsertWorkPlan sample_input db_empty)) \<and>
   wf_index (snd (UpsertWorkPlan sample_input db_empty))"
  by (rule reachable_wf_store, rule reach_step[OF reach_empty], rule step_plan, rule prod.collapse[symmetric])

text \<open>C22: no sequence of operations removes or rewrites a run, a review attempt or a verification
  batch, or removes a receipt.\<close>

theorem logs_append_only:
  assumes "store_step\<^sup>*\<^sup>* s s'"
  shows "logs_grow s s'"
  using assms by (rule steps_logs_grow)

theorem logs_append_only_witness:
  "logs_grow db_empty (snd (UpsertWorkPlan sample_input db_empty))"
  by (rule logs_append_only, rule r_into_rtranclp, rule step_plan, rule prod.collapse[symmetric])

section \<open>Work items\<close>

text \<open>C29: an upsert of work items either fails and changes nothing, or sets the statuses of the
  normalized items for this receipt, keeps all others, and counts them; it needs the receipt.\<close>

theorem upsert_items_refines:
  assumes "UpsertWorkItems input s = (res, s')"
  shows "(case res of
      Inl _ \<Rightarrow> tables s' = tables s
    | Inr n \<Rightarrow> (\<exists>items. NormalizeWorkItems (wui_Items input) = Inr items \<and> n = length items \<and>
        map_of (db_receipts s) (TrimSpace (wui_ReceiptID input)) \<noteq> None \<and>
        (\<forall>p r. item_status s' p r =
           (if p = TrimSpace (wui_ProjectID input) \<and> r = TrimSpace (wui_ReceiptID input)
            then item_status s p r ++ map_of (map (\<lambda>i. (wi_ItemKey i, wi_Status i)) items)
            else item_status s p r))))"
  using assms
proof (cases rule: UpsertWorkItems_cases)
  case (ok items)
  let ?p = "TrimSpace (wui_ProjectID input)" and ?r = "TrimSpace (wui_ReceiptID input)"
  have norm: "StorageWorkItemStatus (wi_Status i) = wi_Status i" if "i \<in> set items" for i
    using NormalizeWorkItems_status[OF ok(1) that] by (simp add: StorageWorkItemStatus_def)
  have look: "map_of (map (\<lambda>i. (wi_ItemKey i, StorageWorkItemStatus (wi_Status i))) (rev items)) =
      map_of (map (\<lambda>i. (wi_ItemKey i, wi_Status i)) items)"
    using NormalizeWorkItems_distinct[OF ok(1)] norm by (intro items_map_rev) auto
  have "db_items s' = put_items ?p ?r (db_clock s) items (db_items s)"
    using arg_cong[OF ok(7), of db_items] by simp
  then have st: "item_status s' p r k =
      (if p = ?p \<and> r = ?r \<and> k \<in> wi_ItemKey ` set items
       then map_of (map (\<lambda>i. (wi_ItemKey i, wi_Status i)) items) k else item_status s p r k)" for p r k
    by (simp add: item_status_def put_items_map look)
  have "item_status s' p r = (if p = ?p \<and> r = ?r
        then item_status s p r ++ map_of (map (\<lambda>i. (wi_ItemKey i, wi_Status i)) items)
        else item_status s p r)" for p r
  proof (rule ext)
    fix k show "item_status s' p r k = (if p = ?p \<and> r = ?r
        then item_status s p r ++ map_of (map (\<lambda>i. (wi_ItemKey i, wi_Status i)) items)
        else item_status s p r) k"
      using items_map_dom[of "\<lambda>i. wi_Status i" items k]
      by (auto simp: st map_add_def split: option.split)
  qed
  then show ?thesis using ok(1,3,6) by simp
qed simp

text \<open>A database with one receipt.\<close>

definition sample_scope :: ReceiptScope where
  "sample_scope =
     \<lparr> rs_ProjectID = ''proj'', rs_ReceiptID = ''r1'', rs_TaskText = ''fix it'', rs_Phase = '''',
       rs_ResolvedTags = None, rs_PointerKeys = None, rs_InitialScopePaths = None,
       rs_BaselineCaptured = False, rs_BaselinePaths = [], rs_Actor = Actor_zero \<rparr>"

definition sample_db :: db where
  "sample_db = snd (UpsertReceiptScope sample_scope db_empty)"

lemma sample_scope_saved:
  "UpsertReceiptScope sample_scope db_empty = (Inr (), sample_db)"
  "map_of (db_receipts sample_db) ''r1'' \<noteq> None" "db_faults sample_db = []"
proof -
  obtain n where n: "NormalizeReceiptScope sample_scope = Inr n" "nsc_ReceiptID n = ''r1''"
    by (simp add: NormalizeReceiptScope_def sample_scope_def Let_def)
  show "UpsertReceiptScope sample_scope db_empty = (Inr (), sample_db)"
    "map_of (db_receipts sample_db) ''r1'' \<noteq> None" "db_faults sample_db = []"
    using UpsertReceiptScope_eval[OF _ n(1), of db_empty] n(2)
    by (simp_all add: sample_db_def update_conv' db_empty_def)
qed

theorem upsert_items_refines_witness:
  "item_status (snd (UpsertWorkItems \<lparr> wui_ProjectID = ''proj'', wui_ReceiptID = ''r1'',
      wui_Items = [sample_task ''a'' ''blocked''] \<rparr> sample_db)) ''proj'' ''plan:r1'' =
   item_status sample_db ''proj'' ''plan:r1''"
proof -
  let ?i = "\<lparr> wui_ProjectID = ''proj'', wui_ReceiptID = ''r1'', wui_Items = [sample_task ''a'' ''blocked''] \<rparr>"
  obtain r s' where up: "UpsertWorkItems ?i sample_db = (r, s')" by fastforce
  show ?thesis
  proof (cases r)
    case (Inl e)
    then have "tables s' = tables sample_db" using upsert_items_refines[OF up] by simp
    then have "db_items s' = db_items sample_db" using tables_sel(3) by metis
    then show ?thesis using up by (simp add: item_status_def)
  next
    case (Inr n)
    then show ?thesis using upsert_items_refines[OF up] up by auto
  qed
qed

section \<open>Receipts and runs\<close>

text \<open>a stored receipt scope is read back with its normalized fields.\<close>

theorem receipt_scope_roundtrip:
  assumes "UpsertReceiptScope input s = (Inr (), s')"
  shows "\<exists>f. FetchReceiptScope \<lparr> rsq_ProjectID = rs_ProjectID input,
        rsq_ReceiptID = rs_ReceiptID input \<rparr> (tables s') = (Inr f, tables s') \<and>
    rs_TaskText f = TrimSpace (rs_TaskText input) \<and>
    rs_Phase f = (if TrimSpace (rs_Phase input) = '''' then ''execute'' else TrimSpace (rs_Phase input)) \<and>
    elems (rs_ResolvedTags f) = elems (NormalizeStringList (rs_ResolvedTags input)) \<and>
    elems (rs_PointerKeys f) = elems (NormalizeStringList (rs_PointerKeys input)) \<and>
    rs_BaselineCaptured f = rs_BaselineCaptured input \<and> rs_Actor f = NormalizeActor (rs_Actor input)"
  using assms
proof (cases rule: UpsertReceiptScope_cases)
  case (ok n)
  let ?row = "scope_row (map_of (db_receipts s) (nsc_ReceiptID n)) (db_clock s) n"
  have ids: "nsc_ProjectID n = TrimSpace (rs_ProjectID input)" "nsc_ProjectID n \<noteq> ''''"
    "nsc_ReceiptID n = TrimSpace (rs_ReceiptID input)" "nsc_ReceiptID n \<noteq> ''''"
    using NormalizeReceiptScope_Inr[OF ok(1)] by blast+
  have "map_of (db_receipts (tables s')) (nsc_ReceiptID n) = Some ?row" by (simp add: ok(3) update_conv')
  then have "FetchReceiptScope \<lparr> rsq_ProjectID = rs_ProjectID input, rsq_ReceiptID = rs_ReceiptID input \<rparr>
      (tables s') = (Inr (scope_of_row (nsc_ProjectID n) (nsc_ReceiptID n) ?row), tables s')"
    using ids by (simp add: FetchReceiptScope_def Let_def db_op_defs scope_row_def)
  moreover have "nsc_TaskText n = TrimSpace (rs_TaskText input)"
    "nsc_Phase n = (if TrimSpace (rs_Phase input) = '''' then ''execute'' else TrimSpace (rs_Phase input))"
    "nsc_ResolvedTags n = NormalizeStringList (rs_ResolvedTags input)"
    "nsc_PointerKeys n = NormalizeStringList (rs_PointerKeys input)"
    "nsc_BaselineCaptured n = rs_BaselineCaptured input" "nsc_Actor n = NormalizeActor (rs_Actor input)"
    using ok(1) by (auto simp: NormalizeReceiptScope_def Let_def split: if_splits)
  moreover have "TrimSpace ''execute'' = ''execute''"
    by (rule TrimSpace_graph; simp add: ascii_graph_def)
  ultimately show ?thesis
    by (intro exI[of _ "scope_of_row (nsc_ProjectID n) (nsc_ReceiptID n) ?row"])
       (simp add: scope_of_row_def scope_row_def decodeStringList_def)
qed auto

theorem receipt_scope_roundtrip_witness:

  "\<exists>f. FetchReceiptScope \<lparr> rsq_ProjectID = rs_ProjectID sample_scope,
      rsq_ReceiptID = rs_ReceiptID sample_scope \<rparr> (tables sample_db) = (Inr f, tables sample_db) \<and>
     rs_BaselineCaptured f = rs_BaselineCaptured sample_scope"
  using receipt_scope_roundtrip[OF sample_scope_saved(1)] by blast

text \<open>in a reachable database the fetch state of a receipt reports the run that was saved
  last for it.\<close>

theorem latest_run_reported:
  assumes "store_reachable s" "SaveRunReceiptSummary fresh input s = (Inr ids, s')"
    "TrimSpace (rri_ReceiptID ids) = rri_ReceiptID ids" "rri_ReceiptID ids \<noteq> ''''"
  shows "\<exists>f. LookupFetchState \<lparr> flq_ProjectID = rrs_ProjectID input,
      flq_ReceiptID = rri_ReceiptID ids \<rparr> (tables s') = (Inr f, tables s') \<and>
    fl_RunID f = rri_RunID ids"
  using assms(2)
proof (cases rule: SaveRunReceiptSummary_cases)
  case (ok n0 n)
  have ids: "nrs_ProjectID n = TrimSpace (rrs_ProjectID input)" "nrs_ProjectID n \<noteq> ''''"
    using ok(1,2) by (auto simp: NormalizeRunReceiptSummary_def Let_def split: if_splits)
  have "wf_logs (tables s)" using reachable_wf[OF assms(1)] wf_logs_tables by blast
  then obtain r where r: "latest_run (nrs_ProjectID n) (nrs_ReceiptID n) (tables s') = Some r"
      "nr_run_id r = db_next_run s"
    using latest_run_saved[of "tables s" n] unfolding ok(4)[symmetric] tables_sel2 by blast
  obtain row where row: "map_of (db_receipts (tables s')) (nrs_ReceiptID n) = Some row"
      "rr_project_id row = nrs_ProjectID n"
    by (simp add: ok(4) run_saved_db_def update_conv' run_receipt_row_def Let_def)
  obtain ws where ws: "ListWorkItems \<lparr> flq_ProjectID = nrs_ProjectID n, flq_ReceiptID = nrs_ReceiptID n \<rparr>
      (tables s') = (Inr ws, tables s')"
    using ids assms(3,4) ok(3) by (simp add: ListWorkItems_def Let_def db_op_defs)
  show ?thesis
    using ids assms(3,4) ok(3) r row ws
    by (simp add: LookupFetchState_def Let_def bind_db_def get_db_def ret_db_def db_call_def)
qed auto

definition sample_summary :: RunReceiptSummary where
  "sample_summary =
     \<lparr> rrs_ProjectID = ''proj'', rrs_RequestID = '''', rrs_ReceiptID = ''r1'', rrs_TaskText = '''',
       rrs_Phase = '''', rrs_Status = ''accepted'', rrs_ResolvedTags = None, rrs_PointerKeys = None,
       rrs_FilesChanged = None, rrs_DefinitionOfDoneIssues = None, rrs_Outcome = '''',
       rrs_Actor = Actor_zero, rrs_VCS = VCSInfo_zero \<rparr>"

lemma sample_db_reachable: "store_reachable sample_db"
  by (rule reach_step[OF reach_empty]) (rule step_scope, rule sample_scope_saved(1))

theorem latest_run_reported_witness:
  "\<exists>ids s' f. SaveRunReceiptSummary ''x'' sample_summary sample_db = (Inr ids, s') \<and>
     LookupFetchState \<lparr> flq_ProjectID = rrs_ProjectID sample_summary,
       flq_ReceiptID = rri_ReceiptID ids \<rparr> (tables s') = (Inr f, tables s') \<and>
     fl_RunID f = rri_RunID ids"
proof -
  obtain n where n: "NormalizeRunReceiptSummary sample_summary = Inr n" "nrs_ReceiptID n = ''r1''"
    by (simp add: NormalizeRunReceiptSummary_def sample_summary_def Let_def)
  let ?ids = "\<lparr> rri_RunID = db_next_run sample_db, rri_ReceiptID = ''r1'' \<rparr>"
  let ?s' = "run_saved_db sample_db n"
  have nf: "db_faults sample_db = []" by (rule sample_scope_saved(3))
  then have tx: "in_tx (save_run_body n) sample_db = (Inr (db_next_run sample_db), ?s')"
    by (rule in_tx_no_faults[OF _ save_run_body_eval]) (simp_all add: nf run_saved_db_def)
  have run: "SaveRunReceiptSummary ''x'' sample_summary sample_db = (Inr ?ids, ?s')"
    by (simp add: SaveRunReceiptSummary_def n Let_def bind_db_def ret_db_def tx)
  then show ?thesis using latest_run_reported[OF sample_db_reachable run] by auto
qed

section \<open>Review attempts\<close>

lemma attempts_after_save:
  assumes "\<forall>a \<in> set (attempt_rows_of p r k s). ar_created_sec a \<le> ar_created_sec x" "wf_logs s"
    "ar_attempt_id x = db_next_attempt s" "db_attempts s' = db_attempts s @ [x]"
    "nra_ProjectID (ar_attempt x) = p" "nra_ReceiptID (ar_attempt x) = r"
    "nra_ReviewKey (ar_attempt x) = k"
  shows "attempt_rows_of p r k s' = attempt_rows_of p r k s @ [x]"
proof -
  let ?P = "\<lambda>a. nra_ProjectID (ar_attempt a) = p \<and> nra_ReceiptID (ar_attempt a) = r \<and>
    nra_ReviewKey (ar_attempt a) = k"
  have "(ar_created_sec a, ar_attempt_id a) \<le> (ar_created_sec x, ar_attempt_id x)"
    if "a \<in> set (filter ?P (db_attempts s))" for a
  proof -
    have "ar_attempt_id a < db_next_attempt s" using assms(2) that by (auto simp: wf_logs_def)
    moreover have "ar_created_sec a \<le> ar_created_sec x" using assms(1) that by (auto simp: attempt_rows_of_def)
    ultimately show ?thesis using assms(3) by (auto simp: less_eq_prod_def)
  qed
  then show ?thesis
    using assms(4-7) by (simp add: attempt_rows_of_def sort_key_snoc_max)
qed

lemma attempts_of_other_keys:
  assumes "db_attempts s' = db_attempts s @ [x]"
    "(nra_ProjectID (ar_attempt x), nra_ReceiptID (ar_attempt x), nra_ReviewKey (ar_attempt x)) \<noteq> (p, r, k)"
  shows "attempt_rows_of p r k s' = attempt_rows_of p r k s"
  using assms by (auto simp: attempt_rows_of_def)

text \<open>The review attempts that a query returns in a state without pending faults.\<close>

definition attempts_seen :: "db \<Rightarrow> string \<Rightarrow> string \<Rightarrow> string \<Rightarrow> ReviewAttempt list" where
  "attempts_seen s p r k =
     (case fst (ListReviewAttempts \<lparr> ralq_ProjectID = p, ralq_ReceiptID = r, ralq_ReviewKey = k \<rparr>
         (tables s)) of Inl _ \<Rightarrow> [] | Inr xs \<Rightarrow> xs)"

lemma attempts_seen_eq:
  "TrimSpace p \<noteq> '''' \<Longrightarrow> TrimSpace r \<noteq> '''' \<Longrightarrow> TrimSpace k \<noteq> '''' \<Longrightarrow>
     attempts_seen s p r k = map attempt_of_row (attempt_rows_of (TrimSpace p) (TrimSpace r) (TrimSpace k) s)"
  by (simp add: attempts_seen_def ListReviewAttempts_def db_op_defs attempt_rows_of_def)

text \<open>a saved review attempt, made not earlier than the attempts that are there, is the last
  one of its project, receipt and review key, with the id that the save returned; the attempts
  of all other keys are as before.\<close>

theorem review_attempt_appended:
  assumes "store_reachable s" "SaveReviewAttempt now input s = (Inr i, s')"
    "\<forall>a \<in> set (attempts_seen s (ra_ProjectID input) (ra_ReceiptID input) (ra_ReviewKey input)).
       ra_CreatedAt a \<le> (if ra_CreatedAt input = 0 then now else ra_CreatedAt input)"
  shows "\<exists>a. attempts_seen s' (ra_ProjectID input) (ra_ReceiptID input) (ra_ReviewKey input) =
      attempts_seen s (ra_ProjectID input) (ra_ReceiptID input) (ra_ReviewKey input) @ [a] \<and>
    ra_AttemptID a = i \<and> ra_Fingerprint a = TrimSpace (ra_Fingerprint input) \<and>
    ra_Passed a = ra_Passed input \<and>
    (\<forall>p r k. TrimSpace p \<noteq> '''' \<and> TrimSpace r \<noteq> '''' \<and> TrimSpace k \<noteq> '''' \<and>
       (TrimSpace p, TrimSpace r, TrimSpace k) \<noteq> (TrimSpace (ra_ProjectID input),
          TrimSpace (ra_ReceiptID input), TrimSpace (ra_ReviewKey input)) \<longrightarrow>
       attempts_seen s' p r k = attempts_seen s p r k)"
  using assms(2)
proof (cases rule: SaveReviewAttempt_cases)
  case (ok n)
  let ?x = "\<lparr> ar_attempt_id = db_next_attempt s, ar_attempt = n,
    ar_created_sec = unixSeconds (nra_CreatedAt n) \<rparr>"
  let ?p = "ra_ProjectID input" and ?r = "ra_ReceiptID input" and ?k = "ra_ReviewKey input"
  note n = NormalizeReviewAttempt_Inr[OF ok(1)]
  have ne: "TrimSpace ?p \<noteq> ''''" "TrimSpace ?r \<noteq> ''''" "TrimSpace ?k \<noteq> ''''" using n by metis+
  have created: "nra_CreatedAt n = (if ra_CreatedAt input = 0 then now else ra_CreatedAt input)"
    using ok(1) by (auto simp: NormalizeReviewAttempt_def Let_def split: if_splits option.splits)
  have att: "db_attempts s' = db_attempts s @ [?x]" using arg_cong[OF ok(4), of db_attempts] by simp
  have early: "\<forall>a \<in> set (attempt_rows_of (TrimSpace ?p) (TrimSpace ?r) (TrimSpace ?k) s).
      ar_created_sec a \<le> ar_created_sec ?x"
  proof
    fix a assume "a \<in> set (attempt_rows_of (TrimSpace ?p) (TrimSpace ?r) (TrimSpace ?k) s)"
    then have "attempt_of_row a \<in> set (attempts_seen s ?p ?r ?k)" by (simp add: attempts_seen_eq[OF ne])
    then have "ra_CreatedAt (attempt_of_row a) \<le> nra_CreatedAt n" using assms(3) created by metis
    then have "(62135596800 + ar_created_sec a) * 1000000000 \<le> nra_CreatedAt n"
      by (simp add: attempt_of_row_def Let_def time_of_unix_def)
    then show "ar_created_sec a \<le> ar_created_sec ?x" by (simp add: unixSeconds_def)
  qed
  have "attempt_rows_of (TrimSpace ?p) (TrimSpace ?r) (TrimSpace ?k) s' =
      attempt_rows_of (TrimSpace ?p) (TrimSpace ?r) (TrimSpace ?k) s @ [?x]"
    by (rule attempts_after_save[OF early]) (use reachable_wf[OF assms(1)] att n in simp_all)
  then have "attempts_seen s' ?p ?r ?k = attempts_seen s ?p ?r ?k @ [attempt_of_row ?x]"
    by (simp add: attempts_seen_eq[OF ne])
  moreover have "attempts_seen s' p r k = attempts_seen s p r k"
    if "TrimSpace p \<noteq> ''''" "TrimSpace r \<noteq> ''''" "TrimSpace k \<noteq> ''''"
      "(TrimSpace p, TrimSpace r, TrimSpace k) \<noteq> (TrimSpace ?p, TrimSpace ?r, TrimSpace ?k)" for p r k
    unfolding attempts_seen_eq[OF that(1-3)]
    by (subst attempts_of_other_keys[OF att]) (use that(4) n in auto)
  ultimately show ?thesis
    using ok(2) n by (intro exI[of _ "attempt_of_row ?x"]) (simp add: attempt_of_row_def Let_def)
qed auto

definition sample_attempt :: ReviewAttempt where
  "sample_attempt =
     \<lparr> ra_AttemptID = 0, ra_ProjectID = ''proj'', ra_ReceiptID = ''r1'', ra_PlanKey = '''',
       ra_ReviewKey = ''proj'', ra_Summary = '''', ra_Fingerprint = ''r1'', ra_Status = ''passed'',
       ra_Passed = True, ra_Outcome = '''', ra_WorkflowSourcePath = '''', ra_CommandArgv = None,
       ra_CommandCWD = '''', ra_TimeoutSec = 1, ra_ExitCode = Some 0, ra_TimedOut = False,
       ra_StdoutExcerpt = '''', ra_StderrExcerpt = '''', ra_CreatedAt = 5, ra_Actor = Actor_zero \<rparr>"

theorem review_attempt_appended_witness:
  "\<exists>i s' a. SaveReviewAttempt 7 sample_attempt sample_db = (Inr i, s') \<and>
     attempts_seen s' (ra_ProjectID sample_attempt) (ra_ReceiptID sample_attempt)
       (ra_ReviewKey sample_attempt) =
     attempts_seen sample_db (ra_ProjectID sample_attempt) (ra_ReceiptID sample_attempt)
       (ra_ReviewKey sample_attempt) @ [a] \<and> ra_AttemptID a = i"
proof -
  have p: "TrimSpace ''passed'' = ''passed''" by (rule TrimSpace_graph; simp add: ascii_graph_def)
  obtain n where n: "NormalizeReviewAttempt 7 sample_attempt = Inr n" "nra_ReceiptID n = ''r1''"
    by (simp add: NormalizeReviewAttempt_def sample_attempt_def Let_def p)
  obtain i s' where run: "SaveReviewAttempt 7 sample_attempt sample_db = (Inr i, s')"
    using sample_scope_saved(2,3) n by (auto simp: SaveReviewAttempt_def db_op_defs)
  have "db_attempts sample_db = []"
    by (simp add: sample_db_def UpsertReceiptScope_def db_op_defs db_empty_def split: sum.split)
  then have "attempts_seen sample_db (ra_ProjectID sample_attempt) (ra_ReceiptID sample_attempt)
      (ra_ReviewKey sample_attempt) = []"
    by (subst attempts_seen_eq) (simp_all add: sample_attempt_def attempt_rows_of_def)
  then show ?thesis using review_attempt_appended[OF sample_db_reachable run] run by auto
qed

section \<open>Verification batches\<close>

text \<open>C35: a batch id is used once: after a batch was saved, whatever happens in between, saving a
  batch with the same id fails and changes no table.\<close>

theorem verification_batch_once:
  assumes "SaveVerificationBatch c1 b1 s = (Inr (), s1)" "store_step\<^sup>*\<^sup>* s1 t"
    "TrimSpace (vb_BatchRunID b2) = TrimSpace (vb_BatchRunID b1)" "SaveVerificationBatch c2 b2 t = (r, t')"
  shows "(\<exists>e. r = Inl e) \<and> tables t' = tables t"
proof -
  from assms(1) obtain n where n: "NormalizeVerificationBatch c1 b1 = Inr n"
      "nvb_BatchRunID n \<in> dom (map_of (db_batches s1))"
    by (cases rule: SaveVerificationBatch_cases) (auto dest: arg_cong[of _ _ db_batches])
  obtain pre where "db_batches t = pre @ db_batches s1"
    using steps_logs_grow[OF assms(2)] by (auto simp: logs_grow_def suffix_def)
  then have used: "nvb_BatchRunID n \<in> dom (map_of (db_batches t))" using n(2) by auto
  from assms(4) show ?thesis
  proof (cases rule: SaveVerificationBatch_cases)
    case (ok n2)
    have "nvb_BatchRunID n2 = nvb_BatchRunID n"
      using ok(1) n(1) assms(3)
      by (auto simp: NormalizeVerificationBatch_def Let_def bind_res_Inr_iff split: if_splits)
    then show ?thesis using ok(3) used by auto
  qed simp
qed

definition sample_batch :: VerificationBatch where
  "sample_batch =
     \<lparr> vb_BatchRunID = ''r1'', vb_ProjectID = ''proj'', vb_ReceiptID = '''', vb_PlanKey = '''',
       vb_Phase = '''', vb_TestsSourcePath = '''', vb_Status = ''passed'', vb_Passed = True,
       vb_SelectedTestIDs = None, vb_Results = [], vb_CreatedAt = 0, vb_Actor = Actor_zero \<rparr>"

theorem verification_batch_once_witness:
  "\<exists>s1 e t'. SaveVerificationBatch (\<lambda>_. 7) sample_batch db_empty = (Inr (), s1) \<and>
     SaveVerificationBatch (\<lambda>_. 8) sample_batch s1 = (Inl e, t') \<and> tables t' = tables s1"
proof -
  have p: "TrimSpace ''passed'' = ''passed''" by (rule TrimSpace_graph; simp add: ascii_graph_def)
  obtain n where n: "NormalizeVerificationBatch (\<lambda>_. 7) sample_batch = Inr n" "nvb_Results n = []"
    by (simp add: NormalizeVerificationBatch_def sample_batch_def Let_def p)
  have "save_batch_body n db_empty =
      (Inr (), db_empty\<lparr>db_batches := [(nvb_BatchRunID n, \<lparr> br_batch = n \<rparr>)]\<rparr>)"
    by (simp add: save_batch_body_def db_op_defs n(2) insert_results_def db_empty_def)
  then obtain s1 where s1: "SaveVerificationBatch (\<lambda>_. 7) sample_batch db_empty = (Inr (), s1)"
    by (simp add: SaveVerificationBatch_def n(1) in_tx_no_faults db_empty_def)
  obtain r t' where t: "SaveVerificationBatch (\<lambda>_. 8) sample_batch s1 = (r, t')" by fastforce
  show ?thesis using verification_batch_once[OF s1 _ refl t] s1 t by auto
qed

end
