(* ===== verification/Service_Effects.thy ===== *)
theory Service_Effects
  imports Backend_Completion Store_Properties
begin

text \<open>
  What a service call may do to the repository, whatever its input, its environment and the
  faults it meets. An effect is a reflexive and transitive relation between the database before
  and after, blind to the fault schedule; an effect that the repository's writes respect is
  respected by the service operations composed of them. It is proved once in the locales below
  and used for the store's step relation and for the frame of each log.
\<close>

section \<open>Effects\<close>

definition keeps :: "(db \<Rightarrow> db \<Rightarrow> bool) \<Rightarrow> (db \<Rightarrow> 'r \<times> db) \<Rightarrow> bool" where
  "keeps R m \<longleftrightarrow> (\<forall>s. R s (snd (m s)))"

lemma keepsD: "keeps R m \<Longrightarrow> m s = (r, s') \<Longrightarrow> R s s'"
  by (metis keeps_def snd_conv)

lemma keepsI: "(\<And>s r s'. m s = (r, s') \<Longrightarrow> R s s') \<Longrightarrow> keeps R m"
  by (metis keeps_def surjective_pairing)

locale effect =
  fixes R :: "db \<Rightarrow> db \<Rightarrow> bool"
  assumes R_trans: "R s t \<Longrightarrow> R t u \<Longrightarrow> R s u"
    and R_tables: "tables t = tables s \<Longrightarrow> R s t"
begin

lemma keeps_ret: "keeps R (ret_svc x)"
  by (rule keepsI) (auto simp: ret_svc_def intro: R_tables)

lemma keeps_fail: "keeps R (fail_svc e)"
  by (rule keepsI) (auto simp: fail_svc_def intro: R_tables)

lemma keeps_reads: "reads m \<Longrightarrow> keeps R m"
  by (rule keepsI) (auto intro: R_tables dest: readsD)

lemma keeps_bind: "keeps R m \<Longrightarrow> (\<And>x. keeps R (f x)) \<Longrightarrow> keeps R (bind_svc m f)"
  unfolding keeps_def bind_svc_def by (auto split: prod.split sum.split) (metis R_trans snd_conv)+

lemma keeps_call: "keeps R m \<Longrightarrow> (\<And>x. keeps R (f x)) \<Longrightarrow> keeps R (call_repo m h f)"
  unfolding keeps_def call_repo_def by (auto split: prod.split sum.split) (metis R_trans snd_conv)+

lemma keeps_try: "keeps R m \<Longrightarrow> (\<And>x. keeps R (f x)) \<Longrightarrow> keeps R (try_repo m f)"
  unfolding keeps_def try_repo_def by (auto split: prod.split) (metis R_trans snd_conv)

lemma keeps_lift: "keeps R (lift_api r)"
  by (auto simp: lift_api_def split: sum.split intro: keeps_ret keeps_fail)

lemma keeps_if: "keeps R m \<Longrightarrow> keeps R n \<Longrightarrow> keeps R (if c then m else n)"
  by simp

lemma keeps_prod: "(\<And>a b. keeps R (f a b)) \<Longrightarrow> keeps R (case x of (a, b) \<Rightarrow> f a b)"
  by (simp split: prod.split)

lemmas keeps_rules = keeps_ret keeps_fail keeps_bind keeps_call keeps_try keeps_lift

end

text \<open>The reads of the repository.\<close>

lemma reads_ListWorkItems: "reads (ListWorkItems q)"
  unfolding ListWorkItems_def Let_def by (auto intro!: reads_rules)

lemma reads_FetchReceiptScope: "reads (FetchReceiptScope q)"
  unfolding FetchReceiptScope_def Let_def by (auto intro!: reads_rules split: option.split)

lemma reads_ListReviewAttempts: "reads (ListReviewAttempts q)"
  unfolding ListReviewAttempts_def by (auto intro!: reads_rules)

lemmas repo_reads =
  reads_LookupWorkPlan reads_ListWorkItems reads_FetchReceiptScope reads_ListReviewAttempts

text \<open>The operations of the service that only read.\<close>

context effect
begin

lemma keeps_repo_reads:
  "keeps R (LookupWorkPlan q1)" "keeps R (ListWorkItems q2)" "keeps R (FetchReceiptScope q3)"
  "keeps R (ListReviewAttempts q4)"
  by (rule keeps_reads, rule repo_reads)+

lemma keeps_loadEffectiveWorkPlan: "keeps R (loadEffectiveWorkPlan p r k)"
  unfolding loadEffectiveWorkPlan_def Let_def
  by (auto intro!: keeps_rules keeps_repo_reads split: sum.split)

lemma keeps_check_receipt: "keeps R (check_receipt p r k)"
  unfolding check_receipt_def by (intro keeps_rules keeps_repo_reads)

lemma keeps_selection_context: "keeps R (resolveVerifySelectionContext env payload)"
  unfolding resolveVerifySelectionContext_def Let_def
  by (auto intro!: keeps_rules keeps_repo_reads split: option.split)

lemma keeps_state_of_items: "keeps R (state_of_items p k r v)"
  unfolding state_of_items_def by (auto intro!: keeps_rules keeps_repo_reads)

lemma keeps_loadReviewPlanState: "keeps R (loadReviewPlanState p k r v)"
  unfolding loadReviewPlanState_def Let_def
  by (auto intro!: keeps_rules keeps_repo_reads keeps_state_of_items split: sum.split option.split)

lemma keeps_listReviewAttempts: "keeps R (listReviewAttempts p r k)"
  unfolding listReviewAttempts_def by (intro keeps_rules keeps_repo_reads)

lemma keeps_fetchReviewReceiptScope: "keeps R (fetchReviewReceiptScope p r)"
  unfolding fetchReviewReceiptScope_def by (intro keeps_rules keeps_repo_reads)

lemmas keeps_service_reads =
  keeps_loadEffectiveWorkPlan keeps_check_receipt keeps_selection_context
  keeps_loadReviewPlanState keeps_listReviewAttempts keeps_fetchReviewReceiptScope

lemma keeps_open_gate: "keeps R (open_gate env sm p st atts)"
  unfolding open_gate_def Let_def
  by (auto intro!: keeps_rules keeps_service_reads split: prod.split sum.split option.split)

lemma keeps_review_issue: "keeps R (review_issue env p r k scope src st d cur)"
  unfolding review_issue_def
  by (auto intro!: keeps_rules keeps_service_reads split: option.split)

lemma keeps_review_issues:
  "(\<And>d cur. keeps R (check d cur)) \<Longrightarrow> keeps R (review_issues check ds cur)"
  by (induction ds arbitrary: cur) (auto intro!: keeps_rules)

lemma keeps_evaluate: "keeps R (evaluateDefinitionOfDoneIssues env p r k items keys defs scope src)"
  unfolding evaluateDefinitionOfDoneIssues_def Let_def
  by (auto intro!: keeps_rules keeps_review_issues keeps_review_issue)

end

section \<open>Effects of work\<close>

text \<open>The writes that \<open>Work\<close> is made of, for an effect that only some of them may respect.\<close>

context effect
begin

lemma keeps_openReceiptScope_if:
  "(\<And>sc. keeps R (UpsertReceiptScope sc)) \<Longrightarrow> keeps R (openReceiptScope env payload)"
  unfolding openReceiptScope_def Let_def by (auto intro!: keeps_rules split: prod.split sum.split)

lemma keeps_sync_if:
  assumes "\<And>i. wpi_Mode i = WorkPlanModeMerge \<Longrightarrow> wpi_Tasks i = [] \<Longrightarrow> keeps R (UpsertWorkPlan i)"
  shows "keeps R (syncTerminalWorkPlanStatus p r plan items)"
  unfolding syncTerminalWorkPlanStatus_def
  by (auto intro!: keeps_rules assms simp: terminal_upsert_def)

lemma keeps_Work_if:
  assumes plan: "\<And>p k r. keeps R (UpsertWorkPlan (upsert_of_payload p k r payload (workPayloadTasks payload)))"
    and sync: "\<And>i. wpi_Mode i = WorkPlanModeMerge \<Longrightarrow> wpi_Tasks i = [] \<Longrightarrow> keeps R (UpsertWorkPlan i)"
    and items: "\<And>ii. keeps R (UpsertWorkItems ii)" and scope: "\<And>sc. keeps R (UpsertReceiptScope sc)"
  shows "keeps R (Work env payload)"
proof -
  have "keeps R (work_with_key payload k r opened)" for k r opened
    unfolding work_with_key_def Let_def
    by (intro keeps_rules keeps_if keeps_prod plan items keeps_check_receipt keeps_sync_if[OF sync])
  then show ?thesis
    unfolding Work_def auto_open_def Let_def
    by (auto intro!: keeps_rules keeps_openReceiptScope_if scope split: sum.split option.split prod.split)
qed

end

locale work_effect = effect +
  assumes R_plan: "keeps R (UpsertWorkPlan pi)"
    and R_items: "keeps R (UpsertWorkItems ii)"
    and R_scope: "keeps R (UpsertReceiptScope sc)"
begin

lemmas keeps_openReceiptScope = keeps_openReceiptScope_if[OF R_scope]
lemmas keeps_sync = keeps_sync_if[OF R_plan]
lemmas keeps_Work = keeps_Work_if[OF R_plan R_plan R_items R_scope]

lemma keeps_updateVerifyWork: "keeps R (updateVerifyWork env p sel b rs ok)"
  using keeps_Work unfolding keeps_def updateVerifyWork_def
  by (auto split: prod.split sum.split) (metis snd_conv)+

lemma keeps_updateReviewSnapshot: "keeps R (updateReviewSnapshot env p st sm status out ref)"
  unfolding updateReviewSnapshot_def by (rule keeps_Work)

lemma keeps_record_review: "keeps R (record_review env p st atts)"
  unfolding record_review_def
  by (auto intro!: keeps_rules keeps_Work split: prod.split sum.split)

lemma keeps_skip:
  "keeps R (skip_fingerprint env g prior)" "keeps R (skip_exhausted env g)"
  unfolding skip_fingerprint_def skip_exhausted_def Let_def
  by (intro keeps_rules keeps_updateReviewSnapshot)+

lemma keeps_check_done: "keeps R (check_done env payload r k scope plan files)"
  unfolding check_done_def
  by (auto intro!: keeps_rules keeps_repo_reads keeps_sync keeps_evaluate
      split: option.split prod.split sum.split)

end

section \<open>Effects of verification, review and closeout\<close>

locale verify_effect = work_effect +
  assumes R_batch: "keeps R (SaveVerificationBatch clk batch)"
begin

lemma keeps_execute_tests: "keeps R (execute_tests env payload src sel selected b)"
  unfolding execute_tests_def Let_def by (auto intro!: keeps_rules R_batch keeps_updateVerifyWork)

lemma keeps_Verify: "keeps R (Verify env payload)"
  unfolding Verify_def Let_def
  by (auto intro!: keeps_rules keeps_selection_context keeps_execute_tests
      split: prod.split sum.split)

end

locale review_effect = work_effect +
  assumes R_attempt: "keeps R (SaveReviewAttempt now att)"
begin

lemma keeps_execute_review: "keeps R (execute_review env g)"
proof -
  have "keeps R (\<lambda>s. case updateReviewSnapshot env p st sm status out ref s of
      (Inl e, s') \<Rightarrow> (Inl (h e), s') | (Inr w, s') \<Rightarrow> (Inr (f w), s'))" for p st sm status out ref h f
    using keeps_updateReviewSnapshot[of env p st sm status out ref] unfolding keeps_def
    by (auto split: prod.split sum.split) (metis snd_conv)+
  then show ?thesis unfolding execute_review_def Let_def by (intro keeps_call R_attempt)
qed

lemma keeps_run_gate: "keeps R (run_gate env g)"
  unfolding run_gate_def check_budget_def
  by (auto intro!: keeps_skip keeps_execute_review split: option.split)

lemma keeps_Review: "keeps R (Review env payload)"
  unfolding Review_def Let_def
  by (auto intro!: keeps_rules keeps_loadReviewPlanState keeps_listReviewAttempts
      keeps_record_review keeps_open_gate keeps_run_gate)

end

locale done_effect = work_effect +
  assumes R_run: "keeps R (SaveRunReceiptSummary fresh summary)"
begin

lemma keeps_finish_done: "keeps R (finish_done env payload r scope files vs issues)"
  unfolding finish_done_def Let_def by (auto intro!: keeps_rules R_run)

lemma keeps_Done: "keeps R (Done env payload)"
  unfolding Done_def
  by (auto intro!: keeps_rules keeps_repo_reads keeps_loadEffectiveWorkPlan keeps_check_done
      keeps_finish_done split: prod.split)

end

section \<open>The step relation is an effect\<close>

lemma tables_step: "tables t = tables s \<Longrightarrow> store_step s t"
proof -
  assume t: "tables t = tables s"
  have "t = s\<lparr>db_clock := db_clock s, db_faults := db_faults t\<rparr>"
    using t by (cases s; cases t) (simp add: tables_def)
  then show ?thesis using step_time[of s "db_clock s" "db_faults t"] by simp
qed

lemma keeps_steps: "(\<And>s r s'. m s = (r, s') \<Longrightarrow> store_step s s') \<Longrightarrow> keeps store_step\<^sup>*\<^sup>* m"
  by (rule keepsI) blast

interpretation steps: effect "store_step\<^sup>*\<^sup>*"
  by unfold_locales (auto dest: tables_step)

interpretation steps: work_effect "store_step\<^sup>*\<^sup>*"
  by unfold_locales (rule keeps_steps, erule step_plan step_items step_scope)+

interpretation steps: verify_effect "store_step\<^sup>*\<^sup>*"
  by unfold_locales (rule keeps_steps, erule step_batch)

interpretation steps: review_effect "store_step\<^sup>*\<^sup>*"
  by unfold_locales (rule keeps_steps, erule step_attempt)

interpretation steps: done_effect "store_step\<^sup>*\<^sup>*"
  by unfold_locales (rule keeps_steps, erule step_run)

section \<open>The frame of each log\<close>

text \<open>A component of the tables that an operation leaves alone.\<close>

definition same :: "(db \<Rightarrow> 'a) \<Rightarrow> db \<Rightarrow> db \<Rightarrow> bool" where
  "same f s t \<longleftrightarrow> f t = f s"

lemma upserted_logs:
  "db_runs (upserted_db s p k m i) = db_runs s" "db_attempts (upserted_db s p k m i) = db_attempts s"
  "db_batches (upserted_db s p k m i) = db_batches s"
  by (simp_all add: upserted_db_def db_with_tasks_def Let_def)

lemma tables_logs:
  "tables t = u \<Longrightarrow> db_runs t = db_runs u" "tables t = u \<Longrightarrow> db_attempts t = db_attempts u"
  "tables t = u \<Longrightarrow> db_batches t = db_batches u"
  by auto

text \<open>Plans, items and receipts are written without touching any log.\<close>

definition logs :: "db \<Rightarrow> run_row list \<times> attempt_row list \<times> (string \<times> batch_row) list" where
  "logs s = (db_runs s, db_attempts s, db_batches s)"

lemma logs_tables: "logs (tables s) = logs s"
  by (simp add: logs_def)

lemma keeps_logs:
  "keeps (same logs) (UpsertWorkPlan pi)" "keeps (same logs) (UpsertWorkItems ii)"
  "keeps (same logs) (UpsertReceiptScope sc)"
proof -
  show "keeps (same logs) (UpsertWorkPlan pi)"
    by (rule keepsI, erule UpsertWorkPlan_cases)
       (auto simp: same_def logs_def upserted_logs dest: tables_logs)
  show "keeps (same logs) (UpsertWorkItems ii)"
    by (rule keepsI, erule UpsertWorkItems_cases) (auto simp: same_def logs_def dest: tables_logs)
  show "keeps (same logs) (UpsertReceiptScope sc)"
    by (rule keepsI, erule UpsertReceiptScope_cases) (auto simp: same_def logs_def dest: tables_logs)
qed

lemma keeps_part: "keeps (same logs) m \<Longrightarrow> keeps (same (\<lambda>s. g (logs s))) m"
  by (auto simp: keeps_def same_def)

lemmas keeps_logs_part = keeps_logs[THEN keeps_part]

abbreviation runs_attempts :: "db \<Rightarrow> run_row list \<times> attempt_row list" where
  "runs_attempts s \<equiv> (\<lambda>(r, a, b). (r, a)) (logs s)"

abbreviation runs_batches :: "db \<Rightarrow> run_row list \<times> (string \<times> batch_row) list" where
  "runs_batches s \<equiv> (\<lambda>(r, a, b). (r, b)) (logs s)"

abbreviation attempts_batches :: "db \<Rightarrow> attempt_row list \<times> (string \<times> batch_row) list" where
  "attempts_batches s \<equiv> (\<lambda>(r, a, b). (a, b)) (logs s)"

lemma same_trans: "same f s t \<Longrightarrow> same f t u \<Longrightarrow> same f s u"
  by (simp add: same_def)

lemma same_tables: "tables t = tables s \<Longrightarrow> same (\<lambda>s. g (logs s)) s t"
  using logs_tables by (metis same_def)

interpretation nolog: work_effect "same logs"
  by unfold_locales (fact same_trans keeps_logs same_tables[where g="\<lambda>x. x"])+

interpretation vlog: verify_effect "same runs_attempts"
proof (unfold_locales, goal_cases)
  case (6 clk batch)
  show ?case
    by (rule keepsI, erule SaveVerificationBatch_cases)
       (auto simp: same_def logs_def dest: tables_logs)
qed (fact same_trans keeps_logs_part | simp add: same_tables)+

interpretation rlog: review_effect "same runs_batches"
proof (unfold_locales, goal_cases)
  case (6 now att)
  show ?case
    by (rule keepsI, erule SaveReviewAttempt_cases) (auto simp: same_def logs_def dest: tables_logs)
qed (fact same_trans keeps_logs_part | simp add: same_tables)+

interpretation dlog: done_effect "same attempts_batches"
proof (unfold_locales, goal_cases)
  case (6 fresh summary)
  show ?case
    by (rule keepsI, erule SaveRunReceiptSummary_cases)
       (auto simp: same_def logs_def run_saved_db_def dest: tables_logs)
qed (fact same_trans keeps_logs_part | simp add: same_tables)+

end
