(* ===== verification/Service_Properties.thy ===== *)
theory Service_Properties
  imports Service_Effects
begin

text \<open>
  Properties of the service operations on paths, keys and rules and of \<open>Work\<close>: what they refuse,
  what they write and what they cannot do.
\<close>

section \<open>Keys and paths\<close>

text \<open>C30: a path that the service accepts is relative and consists of plain segments (none of them
  empty, dot or dot-dot) without a backslash, so that resolving it below a directory cannot
  leave the directory.\<close>

theorem completion_path_confined:
  assumes "normalizeCompletionPath raw \<noteq> ''''"
  shows "list_all plain_seg (split_on (CHR ''/'') (normalizeCompletionPath raw)) \<and>
    CHR 0x5C \<notin> set (normalizeCompletionPath raw)"
  using completion_path_segs[OF assms] completion_path_no_backslash by blast

lemma sample_path_fixed: "normalizeCompletionPath ''a/b'' = ''a/b''"
proof -
  have "TrimSpace ''a/b'' = ''a/b''" by (rule TrimSpace_graph; simp add: ascii_graph_def)
  then show ?thesis
    by (intro completion_path_fixed) (simp_all add: plain_seg_def isWindowsAbsolutePath_def)
qed

theorem completion_path_confined_witness:
  "list_all plain_seg (split_on (CHR ''/'') (normalizeCompletionPath ''a/b''))"
  using completion_path_confined[of "''a/b''"] by (simp add: sample_path_fixed)



section \<open>Rule ids\<close>

lemma digit_char_inj: "m < 10 \<Longrightarrow> n < 10 \<Longrightarrow> digit_char m = digit_char n \<Longrightarrow> m = n"
  by (simp add: digit_char_def char_of_eq_iff take_bit_eq_mod)

lemma itoa_nat_inj: "itoa_nat m = itoa_nat n \<Longrightarrow> m = n"
proof (induction m arbitrary: n rule: itoa_nat.induct)
  case (1 m)
  have len: "itoa_nat k \<noteq> [digit_char d]" if "\<not> k < 10" for k d
    using that by (subst itoa_nat.simps) simp
  show ?case
  proof (cases "m < 10 \<or> n < 10")
    case True
    then show ?thesis
      using 1(2) len[of m n] len[of n m] digit_char_inj[of m n]
      by (cases "m < 10"; cases "n < 10") (simp_all add: itoa_nat.simps[of m] itoa_nat.simps[of n])
  next
    case False
    then have "itoa_nat (m div 10) = itoa_nat (n div 10) \<and> digit_char (m mod 10) = digit_char (n mod 10)"
      using 1(2) by (simp add: itoa_nat.simps[of m] itoa_nat.simps[of n])
    then have "m div 10 = n div 10" "m mod 10 = n mod 10"
      using 1(1) False digit_char_inj[of "m mod 10" "n mod 10"] by auto
    then show ?thesis by (metis div_mult_mod_eq)
  qed
qed

text \<open>The candidates of the suffix loop are pairwise different, so one of them is free among one
  more candidates than there are used ids.\<close>

lemma rule_id_candidate_inj: "inj_on (rule_id_candidate base) {n. 1 \<le> n}"
  by (rule inj_onI) (auto simp: rule_id_candidate_def split: if_splits dest: itoa_nat_inj)

lemma free_rule_id_found: "free_rule_id base seen \<noteq> None"
proof
  assume "free_rule_id base seen = None"
  then have "\<forall>n \<in> set [1 ..< length seen + 2]. rule_id_candidate base n \<in> set seen"
    by (simp add: free_rule_id_def find_None_iff del: upt_Suc set_upt)
  then have "rule_id_candidate base ` {1 ..< length seen + 2} \<subseteq> set seen"
    unfolding image_subset_iff set_upt .
  moreover have "card (rule_id_candidate base ` {1 ..< length seen + 2}) = Suc (length seen)"
    by (subst card_image) (auto intro: inj_on_subset[OF rule_id_candidate_inj])
  ultimately show False
    using card_mono[of "set seen"] card_length[of seen] by (metis List.finite_set Suc_n_not_le_n le_trans)
qed

text \<open>C37: the search for a free id of a rule that names none always ends: it yields an id that no
  earlier rule of the file has, and records it as used.\<close>

theorem rule_id_search_ends:
  assumes "TrimSpace rawID = ''''"
  shows "\<exists>ruleID. canonicalRuleID sha rawID src summary content enforcement tags seen =
      Inr (ruleID, ruleID # seen) \<and> ruleID \<notin> set seen"
proof -
  let ?base = "deterministicRuleID sha src summary content enforcement tags"
  obtain i where i: "free_rule_id ?base seen = Some i" using free_rule_id_found by blast
  then have "i \<notin> set seen" by (auto simp: free_rule_id_def find_Some_iff)
  then show ?thesis using assms i by (simp add: canonicalRuleID_def)
qed

theorem rule_id_search_ends_witness:
  "\<exists>ruleID. canonicalRuleID (\<lambda>_ _. ''00'') '''' ''r.yaml'' ''s'' '''' ''hard'' [] [''rule-00''] =
      Inr (ruleID, [ruleID, ''rule-00'']) \<and> ruleID \<noteq> ''rule-00''"
  using rule_id_search_ends[of "''''" "\<lambda>_ _. ''00''" "''r.yaml''" "''s''" "''''" "''hard''" "[]" "[''rule-00'']"]
  by simp

section \<open>Calls are sequences of steps\<close>



text \<open>each log has one writer: the opening of a receipt and \<open>Work\<close> change none, \<open>Verify\<close> only
  the batches, \<open>Review\<close> only the attempts, \<open>Done\<close> only the runs.\<close>

theorem one_writer_per_log:
  "logs (snd (openReceiptScope cenv ctp s)) = logs s \<and> logs (snd (Work cenv wkp s)) = logs s \<and>
   db_runs (snd (Verify senv vp s)) = db_runs s \<and> db_attempts (snd (Verify senv vp s)) = db_attempts s \<and>
   db_runs (snd (Review senv rp s)) = db_runs s \<and> db_batches (snd (Review senv rp s)) = db_batches s \<and>
   db_attempts (snd (Done senv dp s)) = db_attempts s \<and> db_batches (snd (Done senv dp s)) = db_batches s"
  using nolog.keeps_openReceiptScope[of cenv ctp] nolog.keeps_Work[of cenv wkp]
    vlog.keeps_Verify[of senv vp] rlog.keeps_Review[of senv rp] dlog.keeps_Done[of senv dp]
  unfolding keeps_def same_def logs_def by simp

section \<open>Work\<close>

text \<open>tasks for a receipt that the project does not have are refused with \<open>NOT_FOUND\<close> before
  anything is written.\<close>

theorem work_unknown_receipt:
  assumes "db_faults s = []" "TrimSpace (wkp_ProjectID payload) \<noteq> ''''"
    "resolve_work_key payload = Inr (Some (planKey, r))" "workPayloadTasks payload \<noteq> []"
    "\<forall>row. map_of (db_receipts s) r = Some row \<longrightarrow> rr_project_id row \<noteq> TrimSpace (wkp_ProjectID payload)"
  shows "\<exists>e. Work env payload s = (Inl e, s) \<and> ae_Code e = ErrCodeNotFound"
proof -
  have id: "requestIDPattern r"
    using assms(3) parse_prefixed_id_sound
    by (auto simp: resolve_work_key_def Let_def parsePlanFetchKey_def split: if_splits option.splits)
  then have r: "TrimSpace r = r" "r \<noteq> ''''" using request_id_Trim request_id_graph by auto
  have "FetchReceiptScope \<lparr> rsq_ProjectID = TrimSpace (wkp_ProjectID payload), rsq_ReceiptID = r \<rparr> s =
      (Inl ErrReceiptScopeNotFound, s)"
    using assms(1,2,5) r by (auto simp: FetchReceiptScope_def Let_def db_op_defs split: option.split)
  then show ?thesis
    using assms(3,4) r
    by (simp add: Work_def work_with_key_def Let_def check_receipt_def call_repo_def bind_svc_def
        backendError_def NewErrorWithSource_def)
qed

text \<open>A request with one task.\<close>

definition sample_request :: "string \<Rightarrow> string option \<Rightarrow> WorkPayload" where
  "sample_request receiptID parent =
     \<lparr> wkp_ProjectID = ''proj'', wkp_PlanKey = '''', wkp_PlanTitle = '''', wkp_ReceiptID = receiptID,
       wkp_Mode = '''', wkp_Plan = None,
       wkp_Tasks = [\<lparr> wtp_Key = ''a/b'', wtp_Summary = '''', wtp_Status = '''',
         wtp_ParentTaskKey = parent, wtp_DependsOn = None, wtp_AcceptanceCriteria = None,
         wtp_References = None, wtp_ExternalRefs = None, wtp_BlockedReason = '''',
         wtp_Outcome = '''', wtp_Evidence = None \<rparr>],
       wkp_Actor = None, wkp_TaskText = '''', wkp_Phase = '''' \<rparr>"

lemma sample_receipt_id: "requestIDPattern ''receipt1''"
  by (simp add: requestIDPattern_def match_class_def is_request_char_def is_alnum_def is_lower_def
      is_upper_def is_digit_def)

lemma sample_request_key:
  "resolve_work_key (sample_request ''receipt1'' parent) = Inr (Some (''plan:receipt1'', ''receipt1''))"
proof -
  have t: "TrimSpace ''receipt1'' = ''receipt1''" "TrimSpace ''proj'' = ''proj''"
    by (rule TrimSpace_graph; simp add: ascii_graph_def)+
  have "parsePlanFetchKey (''plan:'' @ ''receipt1'') = Some ''receipt1''"
    unfolding parsePlanFetchKey_def
    by (rule parse_prefixed_id_roundtrip[OF sample_receipt_id]) (simp add: ascii_graph_def)
  then show ?thesis by (simp add: resolve_work_key_def sample_request_def Let_def t)
qed

lemma sample_request_tasks: "workPayloadTasks (sample_request r parent) \<noteq> []"
  by (simp add: workPayloadTasks_def be_normalizeWorkItems_emitted bwi.emitted_Nil_iff
      sample_request_def task_of_payload_def Let_def sample_path_fixed)

theorem work_unknown_receipt_witness:
  "\<forall>env. \<exists>e. Work env (sample_request ''receipt1'' None) db_empty = (Inl e, db_empty) \<and>
     ae_Code e = ErrCodeNotFound"
  by (rule allI, rule work_unknown_receipt[OF _ _ sample_request_key sample_request_tasks])
     (simp_all add: db_empty_def sample_request_def TrimSpace_graph ascii_graph_def)

text \<open>The items that \<open>Work\<close> passes on have lost the flag that clears a parent.\<close>

lemma work_tasks_no_clear: "i \<in> set (workPayloadTasks payload) \<Longrightarrow> \<not> wi_ParentTaskKeyClear i"
  unfolding workPayloadTasks_def be_normalizeWorkItems_emitted
  by (drule bwi.emitted_max(1)) (auto simp: be_normalize_item_def)

text \<open>A merge whose input has no such flag keeps a parent that is set.\<close>

lemma merge_parent:
  "\<not> wi_ParentTaskKeyClear x \<Longrightarrow> wi_ParentTaskKey c \<noteq> '''' \<Longrightarrow>
     wi_ParentTaskKey (mergeWorkPlanTask c x True) \<noteq> ''''"
  by (simp add: mergeWorkPlanTask_def Let_def)

lemma merge_fold_parent:
  assumes "\<forall>raw \<in> set raws. \<not> wi_ParentTaskKeyClear raw \<and> TrimSpace (wi_ItemKey raw) = k"
    "m k = Some c" "wi_ParentTaskKey c \<noteq> ''''"
    "foldl (\<lambda>cur x. Some (merge_task_upd m cur x)) None raws = Some y"
  shows "wi_ParentTaskKey y \<noteq> ''''"
  using assms
proof (induction raws arbitrary: y rule: rev_induct)
  case (snoc x xs)
  let ?f = "foldl (\<lambda>cur x. Some (merge_task_upd m cur x)) None xs"
  have y: "y = merge_task_upd m ?f x" and x: "\<not> wi_ParentTaskKeyClear x" "TrimSpace (wi_ItemKey x) = k"
    using snoc.prems by simp_all
  show ?case
  proof (cases ?f)
    case None
    then show ?thesis
      using merge_parent[OF x(1) snoc.prems(3)] snoc.prems(2) x(2) unfolding y merge_task_upd_def by simp
  next
    case (Some y')
    have "wi_ParentTaskKey y' \<noteq> ''''" using snoc Some by simp
    then show ?thesis using merge_parent[OF x(1)] Some unfolding y merge_task_upd_def by simp
  qed
qed simp

lemma tasks_by_key_view:
  assumes "wf_db s" "task_map s p k t = Some i"
  shows "tasks_by_key (view_tasks s p k) t = Some (normalize_plan_task i)"
proof -
  have i: "i \<in> set (view_tasks s p k)" "wi_ItemKey i = t"
    using assms view_tasks_set task_map_key by (auto intro: ranI)
  have trim: "TrimSpace (wi_ItemKey x) = wi_ItemKey x" if "x \<in> set (view_tasks s p k)" for x
    using view_tasks_wf[OF assms(1) that] by (simp add: wf_task_def)
  have "t \<in> wi_ItemKey ` set (nwt.emitted (view_tasks s p k))"
    using i trim view_tasks_wf[OF assms(1) i(1)]
    by (auto simp: nwt.emitted_key_set wf_task_def intro!: rev_image_eqI[OF i(1)])
  then obtain c where c: "c \<in> set (nwt.emitted (view_tasks s p k))" "wi_ItemKey c = t" by auto
  obtain x where x: "x \<in> set (view_tasks s p k)" "wi_ItemKey x = t" "c = normalize_plan_task x"
    using nwt.emitted_max(1)[OF c(1)] c(2) trim by auto
  have "x = i"
    using x i view_tasks_set[OF assms(1)] task_map_key[OF assms(1)] by (auto simp: ran_def)
  then have "(t, normalize_plan_task i) \<in> set (map (\<lambda>i. (wi_ItemKey i, i)) (nwt.emitted (view_tasks s p k)))"
    using c x(3) by force
  then show ?thesis
    using nwt.emitted_keys_distinct[of "view_tasks s p k"]
    by (simp add: tasks_by_key_def NormalizeWorkPlanTasks_emitted comp_def)
qed

text \<open>Every stored task that has a parent still has one.\<close>

definition parents_kept :: "db \<Rightarrow> db \<Rightarrow> bool" where
  "parents_kept s t \<longleftrightarrow> wf_db s \<longrightarrow> wf_db t \<and>
     (\<forall>p k key i. task_map s p k key = Some i \<and> wi_ParentTaskKey i \<noteq> '''' \<longrightarrow>
        (\<exists>i'. task_map t p k key = Some i' \<and> wi_ParentTaskKey i' \<noteq> ''''))"

lemma task_map_tables: "task_map (tables s) = task_map s"
  by (simp add: task_map_def fun_eq_iff)

lemma parents_kept_tasks:
  "db_tasks (tables t) = db_tasks s \<Longrightarrow> (wf_db s \<Longrightarrow> wf_db t) \<Longrightarrow> parents_kept s t"
  by (auto simp: parents_kept_def task_map_def)

lemma parents_kept_tables: "tables t = tables s \<Longrightarrow> parents_kept s t"
  by (rule parents_kept_tasks) (auto dest: wf_db_tables_cong)

lemma upserted_parent:
  assumes "wf_db s" "task_map s p' k' key = Some i" "wi_ParentTaskKey i \<noteq> ''''"
    "\<forall>raw \<in> set (wpi_Tasks input). \<not> wi_ParentTaskKeyClear raw"
  shows "\<exists>i'. task_map (upserted_db s p k WorkPlanModeMerge input) p' k' key = Some i' \<and>
    wi_ParentTaskKey i' \<noteq> ''''"
proof (cases "(p', k') = (p, k)")
  case False
  then show ?thesis
    using assms(2,3) db_with_tasks_task[of s p k WorkPlanModeMerge input p' k' key]
    by (auto simp: task_map_def)
next
  case True
  let ?w = "written_tasks s p k WorkPlanModeMerge input"
  have w: "?w = mwt.emitted (tasks_by_key (view_tasks s p k)) (wpi_Tasks input)"
    using written_tasks_view[OF assms(1), of WorkPlanModeMerge p k input]
    by (simp add: MergeIncoming_emitted mode_consts)
  have map: "content_map (upserted_db s p k WorkPlanModeMerge input) p k =
      content_map s p k ++ contents_of ?w"
    by (simp add: content_map_upserted mode_consts)
  show ?thesis
  proof (cases "key \<in> wi_ItemKey ` set ?w")
    case False
    then have "contents_of ?w key = None"
      by (auto simp: contents_of_def map_of_eq_None_iff image_image)
    then have "content_map (upserted_db s p k WorkPlanModeMerge input) p k key = content_map s p k key"
      by (simp add: map map_add_def)
    then show ?thesis using assms(2,3) True by (auto simp: content_map_def task_content_def)
  next
    case key: True
    then obtain y where y: "y \<in> set ?w" "wi_ItemKey y = key" by auto
    have "normalize_plan_task i = i \<or> wi_ParentTaskKey (normalize_plan_task i) \<noteq> ''''"
    proof -
      have "wf_task i" using view_tasks_wf[OF assms(1)] view_tasks_set[OF assms(1)] ranI[of "task_map s p' k'" key i, OF assms(2)] by simp
      then show ?thesis using assms(3) by (simp add: wf_task_def normalize_plan_task_def Let_def)
    qed
    then have "wi_ParentTaskKey y \<noteq> ''''"
      using y assms(3,4) tasks_by_key_view[OF assms(1), of p k key i] assms(2) True
        merge_fold_parent[of "filter (\<lambda>x. TrimSpace (wi_ItemKey x) = key) (wpi_Tasks input)" key
          "tasks_by_key (view_tasks s p k)" "normalize_plan_task i" y]
      by (auto simp: w mwt.emitted_mem)
    moreover have "contents_of ?w key = Some (task_content y)"
      using contents_of_mem[OF written_tasks_facts(2) y(1)] y(2) by simp
    then have "content_map (upserted_db s p k WorkPlanModeMerge input) p k key = Some (task_content y)"
      by (simp add: map)
    ultimately show ?thesis using True by (auto simp: content_map_def task_content_def)
  qed
qed

lemma upsert_keeps_parents:
  assumes "NormalizeWorkPlanMode (wpi_Mode input) = WorkPlanModeMerge"
    "\<forall>raw \<in> set (wpi_Tasks input). \<not> wi_ParentTaskKeyClear raw"
  shows "keeps parents_kept (UpsertWorkPlan input)"
proof (rule keepsI)
  fix s r s' assume run: "UpsertWorkPlan input s = (r, s')"
  have "wf_db s \<Longrightarrow> wf_db s'" using run by (rule UpsertWorkPlan_wf[rotated])
  moreover have "parents_kept s s'"
    if "tables s' = upserted_db (tables s) p k WorkPlanModeMerge input" for p k
    unfolding parents_kept_def
  proof (intro impI conjI allI)
    assume wf: "wf_db s"
    then show "wf_db s'" using calculation by blast
    fix p' k' key i assume i: "task_map s p' k' key = Some i \<and> wi_ParentTaskKey i \<noteq> ''''"
    have "task_map s' = task_map (upserted_db (tables s) p k WorkPlanModeMerge input)"
      using arg_cong[OF that, of task_map] by (simp only: task_map_tables)
    then show "\<exists>i'. task_map s' p' k' key = Some i' \<and> wi_ParentTaskKey i' \<noteq> ''''"
      using upserted_parent[of "tables s" p' k' key i input p k] i wf assms(2)
      by (simp add: wf_db_tables task_map_tables)
  qed
  note up = this
  from run show "parents_kept s s'"
    by (cases rule: UpsertWorkPlan_cases) (use up assms(1) in \<open>auto intro: parents_kept_tables\<close>)
qed

lemma parents_kept_trans: "parents_kept s t \<Longrightarrow> parents_kept t u \<Longrightarrow> parents_kept s u"
  unfolding parents_kept_def by meson

interpretation parents: effect parents_kept
  by unfold_locales (fact parents_kept_trans parents_kept_tables)+

lemma keeps_parents_writes:
  "keeps parents_kept (UpsertWorkItems ii)" "keeps parents_kept (UpsertReceiptScope sc)"
proof -
  show "keeps parents_kept (UpsertWorkItems ii)"
  proof (rule keepsI)
    fix s r s' assume run: "UpsertWorkItems ii s = (r, s')"
    then have "wf_db s \<Longrightarrow> wf_db s'" by (rule step_wf_db[OF step_items])
    then have wf: "wf_db s \<Longrightarrow> wf_db s'" .
    from run show "parents_kept s s'"
      by (cases rule: UpsertWorkItems_cases)
         (use wf in \<open>auto intro: parents_kept_tables parents_kept_tasks\<close>)
  qed
  show "keeps parents_kept (UpsertReceiptScope sc)"
  proof (rule keepsI)
    fix s r s' assume run: "UpsertReceiptScope sc s = (r, s')"
    then have "wf_db s \<Longrightarrow> wf_db s'" by (rule step_wf_db[OF step_scope])
    then have wf: "wf_db s \<Longrightarrow> wf_db s'" .
    from run show "parents_kept s s'"
      by (cases rule: UpsertReceiptScope_cases)
         (use wf in \<open>auto intro: parents_kept_tables parents_kept_tasks\<close>)
  qed
qed

lemma NormalizeWorkPlanMode_merge: "NormalizeWorkPlanMode WorkPlanModeMerge = WorkPlanModeMerge"
proof -
  have "TrimSpace ''merge'' = ''merge''" by (rule TrimSpace_graph; simp add: ascii_graph_def)
  then show ?thesis by (simp add: NormalizeWorkPlanMode_def mode_consts)
qed

lemma upsert_of_payload_merge:
  "be_normalizeWorkPlanMode (wkp_Mode payload) = WorkPlanModeMerge \<Longrightarrow>
     wpi_Mode (upsert_of_payload p k r payload items) = WorkPlanModeMerge"
  "wpi_Tasks (upsert_of_payload p k r payload items) = items"
  by (simp_all add: upsert_of_payload_def Let_def split: option.split)

text \<open>C24: \<open>Work\<close> in merge mode cannot clear a parent: whatever the request says (an empty
  \<open>parent_task_key\<close> included) and however it ends, a stored task that has a parent still has one.\<close>

theorem work_never_clears_parent:
  assumes "wf_db s" "be_normalizeWorkPlanMode (wkp_Mode payload) = WorkPlanModeMerge"
    "task_map s p k key = Some i" "wi_ParentTaskKey i \<noteq> ''''"
  shows "\<exists>i'. task_map (snd (Work env payload s)) p k key = Some i' \<and> wi_ParentTaskKey i' \<noteq> ''''"
proof -
  have "keeps parents_kept (Work env payload)"
    using work_tasks_no_clear assms(2)
    by (intro parents.keeps_Work_if upsert_keeps_parents keeps_parents_writes)
       (auto simp: upsert_of_payload_merge NormalizeWorkPlanMode_merge)
  then have "parents_kept s (snd (Work env payload s))" by (simp add: keeps_def)
  then show ?thesis using assms unfolding parents_kept_def by blast
qed

text \<open>A database with one task that has a parent.\<close>

definition sample_child :: WorkItem where
  "sample_child = WorkItem_zero\<lparr>wi_ItemKey := ''a/b'', wi_ParentTaskKey := ''t''\<rparr>"

definition parent_db :: db where
  "parent_db = upserted_db db_empty ''proj'' ''plan:receipt1'' WorkPlanModeMerge
     (sample_input\<lparr>wpi_PlanKey := ''plan:receipt1'', wpi_Tasks := [sample_child]\<rparr>)"

lemma sample_names [simp]:
  "TrimSpace ''plan:receipt1'' = ''plan:receipt1''" "TrimSpace ''receipt1'' = ''receipt1''"
  "TrimSpace ''a/b'' = ''a/b''" "TrimSpace ''t'' = ''t''"
  by (rule TrimSpace_graph; simp add: ascii_graph_def)+

lemma parent_db_wf: "wf_db parent_db"
  unfolding parent_db_def by (rule wf_upserted_db) (simp_all add: wf_db_empty key_ok_def)

lemma parent_db_task: "\<exists>i. task_map parent_db ''proj'' ''plan:receipt1'' ''a/b'' = Some i \<and> wi_ParentTaskKey i = ''t''"
proof -
  let ?in = "sample_input\<lparr>wpi_PlanKey := ''plan:receipt1'', wpi_Tasks := [sample_child]\<rparr>"
  let ?w = "written_tasks db_empty ''proj'' ''plan:receipt1'' WorkPlanModeMerge ?in"
  let ?m = "tasks_by_key (view_tasks db_empty ''proj'' ''plan:receipt1'')"
  let ?y = "merge_task_upd ?m None sample_child"
  have "?w = mwt.emitted ?m [sample_child]"
    using written_tasks_view[OF wf_db_empty, of WorkPlanModeMerge "''proj''" "''plan:receipt1''" ?in]
    by (simp add: MergeIncoming_emitted mode_consts)
  moreover have "wi_ItemKey ?y = ''a/b''" by (simp add: merge_task_upd_key sample_child_def)
  ultimately have y: "?y \<in> set ?w" by (simp add: mwt.emitted_mem sample_child_def)
  have "content_map parent_db ''proj'' ''plan:receipt1'' ''a/b'' = Some (task_content ?y)"
    using contents_of_mem[OF written_tasks_facts(2) y] \<open>wi_ItemKey ?y = ''a/b''\<close>
    by (simp add: parent_db_def content_map_upserted)
  moreover have "wi_ParentTaskKey ?y = ''t''"
    by (simp add: merge_task_upd_def mergeWorkPlanTask_def sample_child_def Let_def split: option.split)
  ultimately show ?thesis by (auto simp: content_map_def task_content_def)
qed

theorem work_never_clears_parent_witness:
  "\<forall>env. \<exists>i'. task_map (snd (Work env (sample_request ''receipt1'' (Some '''')) parent_db))
      ''proj'' ''plan:receipt1'' ''a/b'' = Some i' \<and> wi_ParentTaskKey i' \<noteq> ''''"
proof -
  obtain i where "task_map parent_db ''proj'' ''plan:receipt1'' ''a/b'' = Some i" "wi_ParentTaskKey i = ''t''"
    using parent_db_task by blast
  moreover have "be_normalizeWorkPlanMode (wkp_Mode (sample_request ''receipt1'' (Some ''''))) = WorkPlanModeMerge"
    by (simp add: sample_request_def be_normalizeWorkPlanMode_def mode_consts)
  ultimately show ?thesis using work_never_clears_parent[OF parent_db_wf] by simp
qed

text \<open>A run that succeeds went through every step.\<close>

lemma bind_svc_Inr:
  "bind_svc m f s = (Inr x, s') \<longleftrightarrow> (\<exists>y t. m s = (Inr y, t) \<and> f y t = (Inr x, s'))"
  by (auto simp: bind_svc_def split: prod.splits sum.splits)

lemma call_repo_Inr:
  "call_repo m h f s = (Inr x, s') \<longleftrightarrow> (\<exists>y t. m s = (Inr y, t) \<and> f y t = (Inr x, s'))"
  by (auto simp: call_repo_def split: prod.splits sum.splits)

lemma ret_svc_Inr: "ret_svc x s = (Inr y, s') \<longleftrightarrow> y = x \<and> s' = s"
  by (auto simp: ret_svc_def)

lemma fail_svc_Inr: "fail_svc e s \<noteq> (Inr y, s')"
  by (simp add: fail_svc_def)

lemma lift_api_Inr: "lift_api r s = (Inr y, s') \<longleftrightarrow> r = Inr y \<and> s' = s"
  by (auto simp: lift_api_def ret_svc_def fail_svc_def split: sum.split)

lemmas svc_Inr = bind_svc_Inr call_repo_Inr ret_svc_Inr fail_svc_Inr lift_api_Inr

lemma reads_same: "reads m \<Longrightarrow> m s = (r, t) \<Longrightarrow> tables t = tables s"
  by (rule readsD)

lemma plan_view_items: "UpsertWorkItems ii s = (r, t) \<Longrightarrow> plan_view t p k = plan_view s p k"
proof (erule UpsertWorkItems_cases)
  assume "tables t = tables s" then show ?thesis by (rule plan_view_cong)
next
  fix items assume "tables t = (tables s)\<lparr>db_items := put_items (TrimSpace (wui_ProjectID ii))
    (TrimSpace (wui_ReceiptID ii)) (db_clock s) items (db_items s)\<rparr>"
  then have "plan_view (tables t) p k = plan_view (tables s) p k"
    by (simp add: plan_view_def view_tasks_def task_rows_of_def)
  then show ?thesis by simp
qed

text \<open>What a successful \<open>Work\<close> did last: the upsert of the plan, the items, the closing.\<close>

lemma work_with_key_ok:
  assumes "work_with_key payload k r opened s = (Inr res, s')"
  obtains up sa sb sc plan b where
    "tables sa = tables s"
    "UpsertWorkPlan (upsert_of_payload (TrimSpace (wkp_ProjectID payload)) k r payload
       (workPayloadTasks payload)) sa = (Inr up, sb)"
    "\<And>p key. plan_view sc p key = plan_view sb p key"
    "syncTerminalWorkPlanStatus (TrimSpace (wkp_ProjectID payload)) r (wpr_Plan up)
       (wp_Tasks (wpr_Plan up)) sc = (Inr (plan, b), s')"
    "res = work_result up plan"
proof -
  let ?p = "TrimSpace (wkp_ProjectID payload)"
  obtain u sa up sb v sc plan b where run:
    "(if r \<noteq> '''' \<and> workPayloadTasks payload \<noteq> [] \<and> \<not> opened then check_receipt ?p r k
      else ret_svc ()) s = (Inr u, sa)"
    "UpsertWorkPlan (upsert_of_payload ?p k r payload (workPayloadTasks payload)) sa = (Inr up, sb)"
    "(if r \<noteq> '''' \<and> workPayloadTasks payload \<noteq> []
      then call_repo (UpsertWorkItems \<lparr> wui_ProjectID = ?p, wui_ReceiptID = r,
             wui_Items = workPayloadTasks payload \<rparr>) (workInternalError ''upsert_work_items'') (\<lambda>_. ret_svc ())
      else ret_svc ()) sb = (Inr v, sc)"
    "syncTerminalWorkPlanStatus ?p r (wpr_Plan up) (wp_Tasks (wpr_Plan up)) sc = (Inr (plan, b), s')"
    "res = work_result up plan"
    using assms unfolding work_with_key_def Let_def svc_Inr by (auto simp: svc_Inr split: prod.splits)
  have "tables sa = tables s"
    using run(1) reads_same[OF reads_FetchReceiptScope]
    by (auto simp: check_receipt_def svc_Inr split: if_splits)
  moreover have "plan_view sc p key = plan_view sb p key" for p key
    using run(3) plan_view_items by (auto simp: svc_Inr split: if_splits)
  ultimately show ?thesis using that run(2,4,5) by blast
qed

text \<open>The closing leaves the tasks alone and sets the status when all tasks are finished.\<close>

lemma plan_view_keys: "plan_view s p k = Some plan \<Longrightarrow> wp_PlanKey plan = k \<and> wp_Tasks plan = view_tasks s p k"
  by (auto simp: plan_view_def plan_of_row_def Let_def split: option.splits)

lemma canonical_status_text: "x \<in> work_item_statuses \<Longrightarrow> TrimSpace x = x \<and> x \<noteq> ''''"
  by (auto simp: work_item_statuses_def status_consts TrimSpace_graph ascii_graph_def)

lemma sync_closes:
  assumes "syncTerminalWorkPlanStatus p r plan (wp_Tasks plan) s = (Inr (plan', b), s')"
    "plan_view s (TrimSpace p) k = Some plan" "TrimSpace k = k" "k \<noteq> ''''"
  shows "plan_view s' (TrimSpace p) k = Some plan' \<and> wp_PlanKey plan' = k \<and>
    (let derived = derivePlanStatusFromWorkItems (be_normalizeWorkItems (wp_Tasks plan')) in
     isTerminalPlanStatus derived \<longrightarrow> normalizePlanStatus (wp_Status plan') = derived)"
proof (cases "needs_terminal_sync plan (wp_Tasks plan)")
  case False
  then have "plan' = plan" "s' = s" using assms(1) by (simp_all add: syncTerminalWorkPlanStatus_def svc_Inr)
  moreover have "wp_PlanKey plan = k" using plan_view_keys[OF assms(2)] by simp
  moreover have "\<not> isTerminalPlanStatus (derivePlanStatusFromWorkItems [])"
    by (simp add: derivePlanStatusFromWorkItems_def isTerminal_iff plan_status_eqs status_consts
        NormalizeWorkItemStatus_canon[unfolded status_consts])
  ultimately show ?thesis
    using False assms(2-4) by (auto simp: needs_terminal_sync_def Let_def)
next
  case True
  let ?in = "terminal_upsert p r plan (be_normalizeWorkItems (wp_Tasks plan))"
  obtain up where up: "UpsertWorkPlan ?in s = (Inr up, s')" "plan' = wpr_Plan up"
    using True assms(1) by (auto simp: syncTerminalWorkPlanStatus_def svc_Inr)
  have key: "TrimSpace (wpi_PlanKey ?in) = k" "TrimSpace (wpi_ProjectID ?in) = TrimSpace p"
    "wpi_Mode ?in = WorkPlanModeMerge" "wpi_Tasks ?in = []"
    "wpi_Status ?in = DerivePlanStatus (be_normalizeWorkItems (wp_Tasks plan))"
    using plan_view_keys[OF assms(2)] assms(3) by (simp_all add: terminal_upsert_def derive_eq)
  from up(1) show ?thesis
  proof (cases rule: UpsertWorkPlan_cases)
    case (ok res)
    have view: "plan_view s' (TrimSpace p) k = Some plan'" using ok(1,5) up(2) key by simp
    have up_db: "tables s' = upserted_db (tables s) (TrimSpace p) k WorkPlanModeMerge ?in"
      using ok(4) by (simp add: key NormalizeWorkPlanMode_merge)
    have "written_tasks (tables s) (TrimSpace p) k WorkPlanModeMerge ?in = []"
      by (simp add: written_tasks_def key MergeIncoming_emitted mode_consts mwt.emitted_Nil_iff)
    then have "db_tasks (tables s') = db_tasks (tables s)"
      by (simp add: up_db upserted_db_def db_with_tasks_def Let_def put_tasks_def kept_task_table_def mode_consts)
    then have tasks: "wp_Tasks plan' = wp_Tasks plan"
      using plan_view_keys[OF view] plan_view_keys[OF assms(2)]
      by (simp add: view_tasks_def task_rows_of_def)
    have status: "wp_Status plan' = DerivePlanStatus (be_normalizeWorkItems (wp_Tasks plan))"
      using plan_status_upserted[of "tables s" "TrimSpace p" k WorkPlanModeMerge ?in plan'] view
        canonical_status_text[OF DerivePlanStatus_in]
      unfolding up_db[symmetric] by (simp add: key NormalizeWorkItemStatus_fixed DerivePlanStatus_in)
    show ?thesis
      using view plan_view_keys[OF view]
      by (simp add: tasks status derive_eq plan_status_eq NormalizeWorkItemStatus_fixed DerivePlanStatus_in)
  qed auto
qed

text \<open>C17: after a successful \<open>Work\<close> the plan is stored under the key that is returned, and a plan
  whose tasks are all finished is closed: its stored status and the returned one are the
  terminal status of its tasks, whatever status was stored or requested.\<close>

theorem work_closes_finished_plan:
  assumes "Work env payload s = (Inr res, s')"
  shows "\<exists>plan. plan_view s' (TrimSpace (wkp_ProjectID payload)) (wr_PlanKey res) = Some plan \<and>
    (let derived = derivePlanStatusFromWorkItems (be_normalizeWorkItems (wp_Tasks plan)) in
     isTerminalPlanStatus derived \<longrightarrow>
       normalizePlanStatus (wp_Status plan) = derived \<and> wr_PlanStatus res = derived)"
proof -
  obtain k r opened s0 where wk: "work_with_key payload k r opened s0 = (Inr res, s')"
    using assms by (auto simp: Work_def svc_Inr split: sum.splits option.splits prod.splits)
  let ?p = "TrimSpace (wkp_ProjectID payload)"
  let ?in = "upsert_of_payload ?p k r payload (workPayloadTasks payload)"
  obtain up sa sb sc plan b where run:
    "UpsertWorkPlan ?in sa = (Inr up, sb)" "\<And>p key. plan_view sc p key = plan_view sb p key"
    "syncTerminalWorkPlanStatus ?p r (wpr_Plan up) (wp_Tasks (wpr_Plan up)) sc = (Inr (plan, b), s')"
    "res = work_result up plan"
    using work_with_key_ok[OF wk] by metis
  have key: "wpi_ProjectID ?in = ?p" "wpi_PlanKey ?in = k"
    by (simp_all add: upsert_of_payload_def Let_def split: option.split)
  from run(1) show ?thesis
  proof (cases rule: UpsertWorkPlan_cases)
    case (ok res')
    have "plan_view s' (TrimSpace ?p) (TrimSpace k) = Some plan \<and> wp_PlanKey plan = TrimSpace k \<and>
      (let derived = derivePlanStatusFromWorkItems (be_normalizeWorkItems (wp_Tasks plan)) in
       isTerminalPlanStatus derived \<longrightarrow> normalizePlanStatus (wp_Status plan) = derived)"
      by (rule sync_closes[OF run(3)]) (use ok key run(2) in simp_all)
    moreover have "PlanStatusPending \<noteq> PlanStatusComplete" "PlanStatusPending \<noteq> PlanStatusSuperseded"
      by (simp_all add: status_consts)
    ultimately show ?thesis
      by (auto simp: run(4) work_result_def Let_def)
  qed auto
qed

text \<open>Without faults a request without tasks succeeds.\<close>

lemma work_no_tasks_ok:
  assumes "db_faults s = []" "TrimSpace (wkp_ProjectID payload) \<noteq> ''''" "TrimSpace k \<noteq> ''''"
    "resolve_work_key payload = Inr (Some (k, r))" "wkp_Tasks payload = []"
  shows "\<exists>res s'. Work env payload s = (Inr res, s')"
proof -
  let ?p = "TrimSpace (wkp_ProjectID payload)"
  let ?in = "upsert_of_payload ?p k r payload []"
  have none: "workPayloadTasks payload = []"
    by (simp add: workPayloadTasks_def assms(5) be_normalizeWorkItems_emitted bwi.emitted_Nil_iff)
  have key: "wpi_ProjectID ?in = ?p" "wpi_PlanKey ?in = k"
    by (simp_all add: upsert_of_payload_def Let_def split: option.split)
  then obtain up s1 where up: "UpsertWorkPlan ?in s = (Inr up, s1)" "db_faults s1 = []"
    using UpsertWorkPlan_fault_free[of s ?in] assms(1-3) by auto
  have "\<exists>x t. syncTerminalWorkPlanStatus ?p r plan items s1 = (Inr x, t)"
    for items and plan :: WorkPlan
  proof (cases "needs_terminal_sync plan items")
    case True
    then have "TrimSpace (wp_PlanKey plan) \<noteq> ''''" by (simp add: needs_terminal_sync_def Let_def)
    then show ?thesis
      using True UpsertWorkPlan_fault_free[of s1 "terminal_upsert ?p r plan (be_normalizeWorkItems items)"]
        up(2) assms(2)
      by (auto simp: syncTerminalWorkPlanStatus_def call_repo_def ret_svc_def terminal_upsert_def)
  qed (auto simp: syncTerminalWorkPlanStatus_def ret_svc_def)
  then obtain x t where "syncTerminalWorkPlanStatus ?p r (wpr_Plan up) (wp_Tasks (wpr_Plan up)) s1 = (Inr x, t)"
    by blast
  then show ?thesis
    using assms(4) none up(1)
    by (simp add: Work_def work_with_key_def Let_def bind_svc_def call_repo_def ret_svc_def
        split: prod.split)
qed

theorem work_closes_finished_plan_witness:
  "\<forall>env. \<exists>res s' plan.
     Work env ((sample_request ''receipt1'' None)\<lparr>wkp_Tasks := []\<rparr>) parent_db = (Inr res, s') \<and>
     plan_view s' ''proj'' (wr_PlanKey res) = Some plan"
proof
  fix env
  let ?req = "(sample_request ''receipt1'' None)\<lparr>wkp_Tasks := []\<rparr>"
  have proj: "TrimSpace (wkp_ProjectID ?req) = ''proj''"
    by (simp add: sample_request_def TrimSpace_graph ascii_graph_def)
  have "resolve_work_key ?req = Inr (Some (''plan:receipt1'', ''receipt1''))"
    using sample_request_key[of None] by (simp add: resolve_work_key_def Let_def)
  then obtain res s' where run: "Work env ?req parent_db = (Inr res, s')"
    using work_no_tasks_ok[of parent_db ?req "''plan:receipt1''" "''receipt1''" env] proj
    by (auto simp: parent_db_def db_empty_def sample_request_def)
  then show "\<exists>res s' plan. Work env ?req parent_db = (Inr res, s') \<and>
      plan_view s' ''proj'' (wr_PlanKey res) = Some plan"
    using work_closes_finished_plan[OF run] proj by auto
qed

end
