(* ===== verification/Closeout_Properties.thy ===== *)
theory Closeout_Properties
  imports Service_Properties
begin

text \<open>
  Properties of the closeout of a task: changed paths and scope, the outcome of verification, the
  decisions of a review gate, and what \<open>Done\<close> records and accepts.
\<close>

section \<open>Changed paths\<close>


text \<open>a path is within a scope exactly when the segments of a scope entry are a prefix of its
  segments: \<open>src/a\<close> covers \<open>src/a/b\<close> and not \<open>src/ab\<close>.\<close>

theorem scope_is_segment_prefix:
  "pathWithinScope c scopes \<longleftrightarrow> normalizeCompletionPath c \<noteq> '''' \<and>
     (\<exists>s \<in> set scopes. normalizeCompletionPath s \<noteq> '''' \<and>
        prefix (split_on (CHR ''/'') (normalizeCompletionPath s))
               (split_on (CHR ''/'') (normalizeCompletionPath c)))"
  by (rule within_scope_iff)


section \<open>What the reads of the service see\<close>

definition stored_items :: "db \<Rightarrow> string \<Rightarrow> string \<Rightarrow> WorkItem list" where
  "stored_items s p r =
     map item_of_row (filter (\<lambda>(k, _). NormalizeRepoPath k \<noteq> '''') (item_rows_of p r s))"

lemma db_call_Inr: "db_call msg s = (Inr u, t) \<Longrightarrow> tables t = tables s"
  using db_call_tables by (metis snd_conv)

lemma db_call_bind_Inr:
  "bind_db (db_call msg) f s = (Inr x, s') \<Longrightarrow> \<exists>t. tables t = tables s \<and> f () t = (Inr x, s')"
  using db_call_Inr by (fastforce simp: bind_db_def split: prod.splits sum.splits)

lemma same_columns:
  assumes "tables t = tables s"
  shows "db_receipts t = db_receipts s" "db_items t = db_items s" "db_attempts t = db_attempts s"
    "db_runs t = db_runs s" "logs t = logs s"
  using assms tables_sel(3,4) tables_sel2(1,2) logs_tables by metis+

lemma fetch_scope_sees:
  assumes "FetchReceiptScope \<lparr> rsq_ProjectID = p, rsq_ReceiptID = r \<rparr> s = (Inr scope, t)"
  obtains row where "tables t = tables s" "map_of (db_receipts s) (TrimSpace r) = Some row"
    "rr_project_id row = TrimSpace p" "scope = scope_of_row (TrimSpace p) (TrimSpace r) row"
proof -
  have "tables t = tables s" using assms by (rule readsD[OF reads_FetchReceiptScope])
  moreover obtain u where u: "tables u = tables s" "bind_db (get_db (\<lambda>s. map_of (db_receipts s) (TrimSpace r)))
      (\<lambda>x. case x of None \<Rightarrow> fail_db ErrReceiptScopeNotFound
         | Some row \<Rightarrow> (if rr_project_id row = TrimSpace p
             then ret_db (scope_of_row (TrimSpace p) (TrimSpace r) row)
             else fail_db ErrReceiptScopeNotFound)) u = (Inr scope, t)"
    using assms
    by (auto simp: FetchReceiptScope_def Let_def fail_db_def split: if_splits dest!: db_call_bind_Inr)
  ultimately show ?thesis
    using that same_columns(1)[OF u(1)]
    by (auto simp: bind_db_def get_db_def ret_db_def fail_db_def split: option.splits if_splits)
qed

lemma list_items_sees:
  assumes "ListWorkItems \<lparr> flq_ProjectID = p, flq_ReceiptID = r \<rparr> s = (Inr items, t)"
  shows "tables t = tables s \<and> items = stored_items s (TrimSpace p) (TrimSpace r)"
proof -
  have "tables t = tables s" using assms by (rule readsD[OF reads_ListWorkItems])
  moreover obtain u where "tables u = tables s"
      "items = map item_of_row (filter (\<lambda>(k, _). NormalizeRepoPath k \<noteq> '''')
         (item_rows_of (TrimSpace p) (TrimSpace r) u))"
    using assms
    by (auto simp: ListWorkItems_def Let_def fail_db_def get_db_def split: if_splits dest!: db_call_bind_Inr)
  ultimately show ?thesis
    using same_columns(2)[of u s] unfolding stored_items_def item_rows_of_def by (auto simp del: set_map)
qed

lemma attempts_see:
  assumes "listReviewAttempts p r k s = (Inr atts, t)"
  shows "tables t = tables s \<and> atts = attempts_seen s p r k"
proof -
  let ?q = "\<lparr> ralq_ProjectID = TrimSpace p, ralq_ReceiptID = TrimSpace r, ralq_ReviewKey = TrimSpace k \<rparr>"
  have run: "ListReviewAttempts ?q s = (Inr atts, t)"
    using assms by (auto simp: listReviewAttempts_def svc_Inr)
  then have ne: "TrimSpace p \<noteq> ''''" "TrimSpace r \<noteq> ''''" "TrimSpace k \<noteq> ''''"
    by (auto simp: ListReviewAttempts_def fail_db_def split: if_splits)
  obtain u where "tables u = tables s" "atts = map attempt_of_row
      (attempt_rows_of (TrimSpace p) (TrimSpace r) (TrimSpace k) u)"
    using run ne
    by (auto simp: ListReviewAttempts_def fail_db_def get_db_def dest!: db_call_bind_Inr)
  then have "atts = map attempt_of_row (attempt_rows_of (TrimSpace p) (TrimSpace r) (TrimSpace k) s)"
    using same_columns(3)[of u s] unfolding attempt_rows_of_def by simp
  then show ?thesis
    using readsD[OF reads_ListReviewAttempts run] unfolding attempts_seen_eq[OF ne] by blast
qed

lemma attempts_seen_cong: "db_attempts t = db_attempts s \<Longrightarrow> attempts_seen t p r k = attempts_seen s p r k"
  by (auto simp: attempts_seen_def ListReviewAttempts_def db_op_defs attempt_rows_of_def)

text \<open>A service operation that only reads.\<close>

interpretation silent: effect "\<lambda>s t. tables t = tables s"
  by unfold_locales simp_all

section \<open>Sample calls\<close>

text \<open>A project without rules, tags and definition files, whose tree is as \<open>tree\<close> says.\<close>

definition sample_env :: "(APIError + SyncPath list) \<Rightarrow> service_env" where
  "sample_env tree =
     \<lparr> se_ctx = \<lparr> env_default_tags = [], env_tags_file = (\<lambda>_. Inr None), env_rule_sources = Inr [],
         env_worktree = tree, env_sha = (\<lambda>n b. take n b) \<rparr>,
       se_root = ''/p'', se_stat = (\<lambda>_. Inr False), se_tests = (\<lambda>_. ReadError ''none''),
       se_workflows = (\<lambda>_. ReadError ''none''),
       se_run = (\<lambda>_ _ _ _ _ _. \<lparr> vcr_ExitCode = Some 0, vcr_Stdout = '''', vcr_Stderr = '''',
         vcr_StartedAt = 0, vcr_FinishedAt = 0, vcr_TimedOut = False, vcr_Err = None \<rparr>),
       se_batch_id = Inr ''b1'', se_now = (\<lambda>_. 0), se_fs = (\<lambda>_. FsMissing),
       se_runner_file = (\<lambda>_ _. None), se_vcs = VCSInfo_zero, se_fresh_receipt = ''fresh'' \<rparr>"

definition sample_done :: "string \<Rightarrow> DonePayload" where
  "sample_done mode =
     \<lparr> dp_ProjectID = ''proj'', dp_ReceiptID = ''receipt1'', dp_PlanKey = '''', dp_TagsFile = '''',
       dp_FilesChanged = None, dp_NoFileChanges = True, dp_Outcome = '''', dp_ScopeMode = mode,
       dp_Actor = None \<rparr>"

definition receipt_db :: db where
  "receipt_db = snd (UpsertReceiptScope (sample_scope\<lparr>rs_ReceiptID := ''receipt1''\<rparr>) db_empty)"

lemma sample_done_accepted:
  obtains res s' where "Done (sample_env (Inr [])) (sample_done ''strict'') receipt_db = (Inr res, s')"
    "dr_Accepted res" "db_runs receipt_db = []"
proof -
  have "case Done (sample_env (Inr [])) (sample_done ''strict'') receipt_db of
      (Inl _, _) \<Rightarrow> False | (Inr res, _) \<Rightarrow> dr_Accepted res"
    by code_simp
  moreover have "db_runs receipt_db = []" by code_simp
  ultimately show ?thesis using that by (auto split: prod.splits sum.splits)
qed

section \<open>What Done records\<close>

text \<open>An operation that fails without any effect but \<open>R\<close>, or reaches, with no other effect, its
  last part, of which \<open>Q\<close> speaks.\<close>

definition ends_with ::
  "(db \<Rightarrow> db \<Rightarrow> bool) \<Rightarrow> (db \<Rightarrow> 'e + 'a \<Rightarrow> db \<Rightarrow> bool) \<Rightarrow> (db \<Rightarrow> ('e + 'a) \<times> db) \<Rightarrow> bool" where
  "ends_with R Q m \<longleftrightarrow> (\<forall>s r s'. m s = (r, s') \<longrightarrow>
     (\<exists>e. r = Inl e \<and> R s s') \<or> (\<exists>t. R s t \<and> Q t r s'))"

lemma ends_withD:
  assumes "ends_with R Q m" "m s = (r, s')"
  obtains (error) e where "r = Inl e" "R s s'" | (last) t where "R s t" "Q t r s'"
  using assms unfolding ends_with_def by blast

context effect
begin

lemma R_refl: "R s s"
  by (rule R_tables) simp

lemma ends_last: "(\<And>t r s'. m t = (r, s') \<Longrightarrow> Q t r s') \<Longrightarrow> ends_with R Q m"
  using R_refl unfolding ends_with_def by blast

lemma ends_fail: "ends_with R Q (fail_svc e)"
  using R_refl unfolding ends_with_def fail_svc_def by blast

lemma ends_bind:
  assumes "keeps R m" "\<And>x. ends_with R Q (f x)"
  shows "ends_with R Q (bind_svc m f)"
  unfolding ends_with_def
proof (intro allI impI)
  fix s r s' assume run: "bind_svc m f s = (r, s')"
  obtain q t where m: "m s = (q, t)" by fastforce
  have "R s t" using keepsD[OF assms(1) m] .
  then show "(\<exists>e. r = Inl e \<and> R s s') \<or> (\<exists>t. R s t \<and> Q t r s')"
  proof (cases q)
    case (Inr x)
    then have "f x t = (r, s')" using run m by (simp add: bind_svc_def)
    with assms(2)[of x] show ?thesis
      by (cases rule: ends_withD) (use \<open>R s t\<close> R_trans in blast)+
  qed (use run m \<open>R s t\<close> in \<open>auto simp: bind_svc_def\<close>)
qed

lemma ends_call:
  assumes "keeps R m" "\<And>x. ends_with R Q (f x)"
  shows "ends_with R Q (call_repo m h f)"
  unfolding ends_with_def
proof (intro allI impI)
  fix s r s' assume run: "call_repo m h f s = (r, s')"
  obtain q t where m: "m s = (q, t)" by fastforce
  have "R s t" using keepsD[OF assms(1) m] .
  then show "(\<exists>e. r = Inl e \<and> R s s') \<or> (\<exists>t. R s t \<and> Q t r s')"
  proof (cases q)
    case (Inr x)
    then have "f x t = (r, s')" using run m by (simp add: call_repo_def)
    with assms(2)[of x] show ?thesis
      by (cases rule: ends_withD) (use \<open>R s t\<close> R_trans in blast)+
  qed (use run m \<open>R s t\<close> in \<open>auto simp: call_repo_def\<close>)
qed

lemmas ends_rules = ends_fail ends_bind ends_call

end

lemma Done_ends:
  "ends_with (same logs) (\<lambda>t r s'. \<exists>rid scope files vs issues.
     finish_done env payload rid scope files vs issues t = (r, s')) (Done env payload)"
  (is "ends_with _ ?Q _")
proof -
  have "ends_with (same logs) ?Q (finish_done env payload rid scope files vs issues)"
    for rid scope files vs issues by (rule nolog.ends_last) blast
  then show ?thesis
    unfolding Done_def
    by (auto intro!: nolog.ends_rules nolog.keeps_rules nolog.keeps_repo_reads
        nolog.keeps_loadEffectiveWorkPlan nolog.keeps_check_done split: prod.split)
qed

lemma done_summary_normal:
  assumes "NormalizeRunReceiptSummary (done_summary env payload rid scope files vs issues) = Inr n0"
  shows "nrs_Status n0 = run_status vs issues \<and> nrs_ProjectID n0 = TrimSpace (dp_ProjectID payload)"
proof -
  have "TrimSpace ''accepted'' = ''accepted''"
    "TrimSpace ''accepted_with_warnings'' = ''accepted_with_warnings''"
    by (rule TrimSpace_graph; simp add: ascii_graph_def)+
  then show ?thesis
    using assms
    by (auto simp: NormalizeRunReceiptSummary_def done_summary_def run_status_def Let_def split: if_splits)
qed

text \<open>C6: \<open>Done\<close> accepts exactly when it is not strict or has no findings. An accepted closeout
  appends one run, with the id that is returned and the status that tells whether there were
  findings; a refused or failed one appends none.\<close>

theorem done_outcome:
  assumes "Done env payload s = (r, s')"
  shows "case r of
      Inl e \<Rightarrow> db_runs s' = db_runs s
    | Inr res \<Rightarrow>
        (let findings = dr_Violations res \<noteq> [] \<or> dr_DefinitionOfDoneIssues res \<noteq> None in
         dr_Accepted res = (dp_ScopeMode payload \<noteq> ''strict'' \<or> \<not> findings) \<and>
         (if dr_Accepted res
          then \<exists>row. db_runs s' = db_runs s @ [row] \<and> nr_run_id row = dr_RunID res \<and>
            nr_project_id row = TrimSpace (dp_ProjectID payload) \<and>
            nr_status row = (if findings then ''accepted_with_warnings'' else ''accepted'')
          else db_runs s' = db_runs s))"
proof -
  have runs: "same logs u t \<Longrightarrow> db_runs t = db_runs u" for t u by (simp add: logs_def same_def)
  show ?thesis
    using Done_ends assms
  proof (cases rule: ends_withD)
    case (last t)
    then obtain rid scope files vs issues where
      fin: "finish_done env payload rid scope files vs issues t = (r, s')" by blast
    have old: "db_runs t = db_runs s" using last(1) by (rule runs)
    let ?sum = "done_summary env payload rid scope files vs issues"
    show ?thesis
    proof (cases "dp_ScopeMode payload = ''strict'' \<and> (vs \<noteq> [] \<or> issues \<noteq> [])")
      case True
      then show ?thesis
        using fin old by (auto simp: finish_done_def effectiveScopeMode_def Let_def ret_svc_def)
    next
      case False
      obtain q u where save: "SaveRunReceiptSummary (se_fresh_receipt env) ?sum t = (q, u)" by fastforce
      from save show ?thesis
      proof (cases rule: SaveRunReceiptSummary_cases)
        case (error e)
        then have "r = Inl (reportCompletionInternalError ''save_run_receipt_summary'' e)" "s' = u"
          using fin save False
          by (auto simp: finish_done_def effectiveScopeMode_def Let_def call_repo_def split: if_splits)
        moreover have "db_runs u = db_runs t" using tables_logs(1)[OF error(2)] by simp
        ultimately show ?thesis using old by simp
      next
        case (ok n0 n)
        have r: "r = Inr \<lparr> dr_Accepted = True, dr_Violations = vs,
            dr_DefinitionOfDoneIssues = (if issues = [] then None else Some issues),
            dr_RunID = db_next_run t \<rparr>" "s' = u"
          using fin save ok(3) False
          by (auto simp: finish_done_def effectiveScopeMode_def Let_def call_repo_def ret_svc_def
              split: if_splits)
        have "db_runs u = db_runs (run_saved_db (tables t) n)" using ok(4) by (rule tables_logs)
        then obtain row where "db_runs u = db_runs t @ [row]" "nr_run_id row = db_next_run t"
            "nr_project_id row = nrs_ProjectID n" "nr_status row = nrs_Status n"
          by (simp add: run_saved_db_def)
        moreover have "nrs_ProjectID n = TrimSpace (dp_ProjectID payload)" "nrs_Status n = run_status vs issues"
          using done_summary_normal[OF ok(1)] ok(2) by simp_all
        ultimately show ?thesis
          using False r old by (auto simp: run_status_def)
      qed
    qed
  next
    case (error e)
    then show ?thesis using runs[OF error(2)] by simp
  qed
qed

theorem done_outcome_witness:
  "\<exists>res s' row. Done (sample_env (Inr [])) (sample_done ''strict'') receipt_db = (Inr res, s') \<and>
     db_runs s' = [row] \<and> nr_run_id row = dr_RunID res \<and> nr_project_id row = TrimSpace ''proj''"
proof -
  obtain res s' where run: "Done (sample_env (Inr [])) (sample_done ''strict'') receipt_db = (Inr res, s')"
    "dr_Accepted res" "db_runs receipt_db = []" by (rule sample_done_accepted)
  then show ?thesis using done_outcome[OF run(1)] by (auto simp: Let_def sample_done_def)
qed

section \<open>What a strict closeout guarantees\<close>

text \<open>The stages of a successful \<open>Done\<close>, with what they read of the first state.\<close>

lemma Done_ok:
  assumes "Done env payload s = (Inr res, s')"
  obtains rid pk row plan detected reliable files issues sa sb sc where
    "resolveReceiptPlanSelection (dp_ProjectID payload) (dp_ReceiptID payload) (dp_PlanKey payload) =
       Inr (rid, pk)"
    "map_of (db_receipts s) (TrimSpace rid) = Some row" "rr_project_id row = TrimSpace (dp_ProjectID payload)"
    "tables sa = tables s" "loadEffectiveWorkPlan (dp_ProjectID payload) rid pk sa = (Inr plan, sb)"
    "tables sb = tables s"
    "detectReceiptChangedPaths (se_ctx env)
       (scope_of_row (TrimSpace (dp_ProjectID payload)) (TrimSpace rid) row) = Inr (detected, reliable)"
    "resolveDoneFilesChanged reliable detected (dp_FilesChanged payload) (dp_NoFileChanges payload) =
       Inr files"
    "check_done env payload rid pk (scope_of_row (TrimSpace (dp_ProjectID payload)) (TrimSpace rid) row)
       plan files sb = (Inr issues, sc)"
    "finish_done env payload rid (scope_of_row (TrimSpace (dp_ProjectID payload)) (TrimSpace rid) row)
       files (done_violations payload (scope_of_row (TrimSpace (dp_ProjectID payload)) (TrimSpace rid) row)
         plan detected reliable files) issues sc = (Inr res, s')"
proof -
  obtain rid pk scope sa plan sb detected reliable files issues sc where st:
    "resolveReceiptPlanSelection (dp_ProjectID payload) (dp_ReceiptID payload) (dp_PlanKey payload) =
       Inr (rid, pk)"
    "FetchReceiptScope \<lparr> rsq_ProjectID = dp_ProjectID payload, rsq_ReceiptID = rid \<rparr> s = (Inr scope, sa)"
    "loadEffectiveWorkPlan (dp_ProjectID payload) rid pk sa = (Inr plan, sb)"
    "detectReceiptChangedPaths (se_ctx env) scope = Inr (detected, reliable)"
    "resolveDoneFilesChanged reliable detected (dp_FilesChanged payload) (dp_NoFileChanges payload) =
       Inr files"
    "check_done env payload rid pk scope plan files sb = (Inr issues, sc)"
    "finish_done env payload rid scope files
       (done_violations payload scope plan detected reliable files) issues sc = (Inr res, s')"
    using assms unfolding Done_def by (auto simp: svc_Inr split: prod.splits)
  obtain row where row: "tables sa = tables s" "map_of (db_receipts s) (TrimSpace rid) = Some row"
    "rr_project_id row = TrimSpace (dp_ProjectID payload)"
    "scope = scope_of_row (TrimSpace (dp_ProjectID payload)) (TrimSpace rid) row"
    using st(2) by (rule fetch_scope_sees)
  have "tables sb = tables sa" using keepsD[OF silent.keeps_loadEffectiveWorkPlan st(3)] .
  then show ?thesis using that[OF st(1) row(2,3) row(1) st(3) _ _ st(5)] st(4,6,7) row(1,4) by simp
qed

lemma no_scope_findings:
  assumes "done_violations payload scope plan detected reliable files = []"
    "f \<in> set (elems (normalizeCompletionPaths files))" "normalizeCompletionPath f = f"
  shows "pathWithinScope f (elems (normalizeCompletionPaths (completionEffectiveScopePaths scope plan)))"
proof (rule ccontr)
  assume out: "\<not> ?thesis"
  let ?v = "\<lparr> cv_Path = f, cv_Reason = ''path is outside effective scope'' \<rparr>"
  let ?gs = "[filesChangedMismatchViolations reliable detected (dp_FilesChanged payload),
    outOfScopeViolations files (completionEffectiveScopePaths scope plan)]"
  have mem: "?v \<in> set (concat ?gs)" using out assms(2) by (auto simp: outOfScopeViolations_def Let_def)
  have ne: "f \<noteq> ''''" using assms(2) by (simp add: set_normalizeCompletionPaths)
  have reason: "TrimSpace ''path is outside effective scope'' \<noteq> ''''" by code_simp
  have "f \<in> cv_Path ` set (mergeCompletionViolations ?gs)"
    unfolding merged_violation_paths[of ?gs, THEN conjunct2, THEN conjunct2]
    by (intro CollectI conjI ne bexI[OF _ mem])
       (simp_all only: CompletionViolation.simps assms(3) reason not_False_eq_True)
  then show False using assms(1) unfolding done_violations_def by (simp only: list.set image_empty empty_iff)
qed

text \<open>The checks of a closeout without issues.\<close>

lemma review_issues_none:
  assumes "\<And>d cur. keeps (\<lambda>s t. tables t = tables s) (check d cur)"
    "review_issues check ds cur s = (Inr [], s')" "d \<in> set ds"
  shows "\<exists>cur1 t cur2 t'. tables t = tables s \<and> check d cur1 t = (Inr ([], cur2), t')"
  using assms(2,3)
proof (induction ds arbitrary: cur s)
  case (Cons x xs)
  obtain cur1 t where st: "check x cur s = (Inr ([], cur1), t)" "review_issues check xs cur1 t = (Inr [], s')"
    using Cons.prems(1) by (auto simp: svc_Inr split: prod.splits)
  have "tables t = tables s" using keepsD[OF assms(1) st(1)] .
  then show ?case using Cons.IH[OF st(2)] Cons.prems(2) st(1) by auto
qed simp

lemma review_issue_none:
  assumes "review_issue env p r k scope src statusByKey d cur s = (Inr ([], cur'), s')"
    "wtd_Run d = Some cmd" "statusByKey (wtd_Key d) = Some WorkItemStatusComplete"
  shows "\<exists>a \<in> set (attempts_seen s p r (wtd_Key d)). ra_Passed a"
proof -
  obtain atts t where l: "listReviewAttempts p r (wtd_Key d) s = (Inr atts, t)" and
    ok: "(if atts = [] then ret_svc ([missingReviewExecutionIssue (wtd_Key d)], cur)
         else if \<not> wtd_RerunRequiresNewFingerprint d then
           ret_svc (case latestReviewAttempt atts of
              Some a \<Rightarrow> if ra_Passed a then [] else [missingReviewExecutionIssue (wtd_Key d)]
            | None \<Rightarrow> [missingReviewExecutionIssue (wtd_Key d)], cur)
         else
           bind_svc (case cur of
               Some plan \<Rightarrow> ret_svc (Some plan)
             | None \<Rightarrow> loadEffectiveWorkPlan p r k) (\<lambda>plan.
           bind_svc (lift_api (computeReviewFingerprint env p r (wtd_Key d) src cmd scope plan))
             (\<lambda>fingerprint.
           ret_svc (case latestReviewAttemptByFingerprint atts fingerprint of
              Some a \<Rightarrow> if ra_Passed a then [] else [staleReviewCompletionWorkItemIssue (wtd_Key d)]
            | None \<Rightarrow> [staleReviewCompletionWorkItemIssue (wtd_Key d)], plan)))) t = (Inr ([], cur'), s')"
    using assms by (auto simp: review_issue_def bind_svc_Inr)
  have "\<exists>a \<in> set atts. ra_Passed a"
  proof (cases "wtd_RerunRequiresNewFingerprint d")
    case False
    then show ?thesis using ok by (auto simp: svc_Inr latestReviewAttempt_def split: if_splits)
  next
    case True
    then obtain f a where "latestReviewAttemptByFingerprint atts f = Some a" "ra_Passed a"
      using ok by (auto simp: svc_Inr split: if_splits option.splits)
    then show ?thesis
      by (auto simp: latestReviewAttemptByFingerprint_def find_Some_iff)
         (metis length_rev nth_mem set_rev)
  qed
  then show ?thesis using attempts_see[OF l] by simp
qed

definition required_item_complete :: "db \<Rightarrow> string \<Rightarrow> string \<Rightarrow> string \<Rightarrow> bool" where
  "required_item_complete s p r k \<longleftrightarrow>
     (\<exists>i \<in> set (be_normalizeWorkItems (stored_items s p r)). wi_ItemKey i = k \<and>
        be_normalizeWorkItemStatus (wi_Status i) = WorkItemStatusComplete)"

lemma evaluate_none:
  assumes "evaluateDefinitionOfDoneIssues env p r k items keys defs scope src s = (Inr [], s')"
  shows "\<forall>key \<in> set (normalizeCompletionRequiredTaskKeys keys).
      \<exists>i \<in> set (be_normalizeWorkItems items). wi_ItemKey i = key \<and>
        be_normalizeWorkItemStatus (wi_Status i) = WorkItemStatusComplete"
    "d \<in> set defs \<Longrightarrow> wtd_Run d \<noteq> None \<Longrightarrow> wtd_Key d \<in> set (normalizeCompletionRequiredTaskKeys keys) \<Longrightarrow>
       \<exists>a \<in> set (attempts_seen s p r (wtd_Key d)). ra_Passed a"
proof -
  let ?st = "map_of (map (\<lambda>i. (wi_ItemKey i, be_normalizeWorkItemStatus (wi_Status i)))
    (be_normalizeWorkItems items))"
  let ?keys = "normalizeCompletionRequiredTaskKeys keys"
  have all: "\<forall>key \<in> set ?keys. ?st key = Some WorkItemStatusComplete"
  proof
    fix key assume key: "key \<in> set ?keys"
    then have "?keys \<noteq> []" by auto
    then have "item_issue ?st key = []"
      using assms key
      by (auto simp: evaluateDefinitionOfDoneIssues_def Let_def svc_Inr split: if_splits)
    then show "?st key = Some WorkItemStatusComplete"
      by (auto simp: item_issue_def split: option.splits if_splits)
  qed
  then show "\<forall>key \<in> set ?keys. \<exists>i \<in> set (be_normalizeWorkItems items). wi_ItemKey i = key \<and>
        be_normalizeWorkItemStatus (wi_Status i) = WorkItemStatusComplete"
    by (force dest!: map_of_SomeD)
  show "\<exists>a \<in> set (attempts_seen s p r (wtd_Key d)). ra_Passed a"
    if d: "d \<in> set defs" "wtd_Run d \<noteq> None" "wtd_Key d \<in> set ?keys"
  proof -
    have st: "?st (wtd_Key d) = Some WorkItemStatusComplete" using all d(3) by blast
    then have "be_normalizeWorkItems items \<noteq> []" by auto
    moreover have "?keys \<noteq> []" using d(3) by auto
    ultimately have "review_issues (review_issue env p r k scope src ?st) defs None s = (Inr [], s')"
      using assms by (auto simp: evaluateDefinitionOfDoneIssues_def Let_def svc_Inr)
    then obtain cur1 t cur2 t' where t: "tables t = tables s"
        "review_issue env p r k scope src ?st d cur1 t = (Inr ([], cur2), t')"
      using review_issues_none[where check = "review_issue env p r k scope src ?st",
          OF silent.keeps_review_issue _ d(1)] by blast
    have "attempts_seen t p r (wtd_Key d) = attempts_seen s p r (wtd_Key d)"
      using same_columns(3)[OF t(1)] by (rule attempts_seen_cong)
    then show ?thesis using review_issue_none[OF t(2) _ st] d(2) by auto
  qed
qed

text \<open>The keys of loaded workflow tasks are trimmed and not blank, so each required definition is
  among the required keys.\<close>

lemma workflow_task_key:
  "normalizeWorkflowRequiredTask m src i raw = Inr d \<Longrightarrow> TrimSpace (wtd_Key d) = wtd_Key d \<and> wtd_Key d \<noteq> ''''"
  by (auto simp: normalizeWorkflowRequiredTask_def Let_def bind_res_Inr_iff
      split: if_splits option.splits prod.splits)

lemma workflow_tasks_keys:
  assumes "loadWorkflowCompletionRequirements env f g = ((src, ex), Inr defs)" "d \<in> set defs"
  shows "TrimSpace (wtd_Key d) = wtd_Key d \<and> wtd_Key d \<noteq> ''''"
proof -
  have *: "map_res (\<lambda>(i, raw). normalizeWorkflowRequiredTask m src i raw) xs = Inr ds \<Longrightarrow> d \<in> set ds \<Longrightarrow>
      \<exists>i raw. normalizeWorkflowRequiredTask m src i raw = Inr d" for m src xs ds
    by (auto simp: map_res_Inr list_all2_conv_all_nth in_set_conv_nth split: prod.splits)
       (metis surj_pair)
  have "\<exists>m src doc. workflow_tasks_of_document m src doc = Inr defs"
    using assms by (auto simp: loadWorkflowCompletionRequirements_def split: sum.splits prod.splits if_splits
        def_file.splits)
  then show ?thesis
    using * assms(2) workflow_task_key by (fastforce simp: workflow_tasks_of_document_def split: if_splits)
qed

lemma first_by_key_subset: "set (first_by_key seen ds) \<subseteq> set ds"
  by (induction seen ds rule: first_by_key.induct) auto

lemma required_definition_key:
  assumes "loadWorkflowCompletionRequirements env f g = ((src, ex), Inr defs)"
    "required_tasks ex defs scope files = (keys, required)" "d \<in> set required"
  shows "wtd_Key d \<in> set (normalizeCompletionRequiredTaskKeys keys)"
proof -
  have r: "wtd_Key d \<in> set keys"
    using assms(2,3) by (auto simp: required_tasks_def Let_def split: if_splits)
  have "d \<in> set defs"
    using assms(2,3)
    by (auto simp: required_tasks_def matchWorkflowRequiredTaskDefinitions_def Let_def split: if_splits
        dest!: subsetD[OF first_by_key_subset])
  then show ?thesis
    using workflow_tasks_keys[OF assms(1)] r
    unfolding normalizeCompletionRequiredTaskKeys_def nv.nl_set by force
qed

lemma sync_attempts:
  assumes "syncTerminalWorkPlanStatus p r plan items s = (x, t)"
  shows "db_attempts t = db_attempts s"
  using keepsD[OF nolog.keeps_sync assms] by (simp add: same_def logs_def)

lemma check_done_none:
  assumes "check_done env payload r k scope plan files s = (Inr [], s')"
  obtains src ex defs keys required t where
    "loadWorkflowCompletionRequirements env '''' (dp_TagsFile payload) = ((src, ex), Inr defs)"
    "required_tasks ex defs scope (elems files) = (keys, required)"
    "evaluateDefinitionOfDoneIssues env (dp_ProjectID payload) r k
       (stored_items s (TrimSpace (dp_ProjectID payload)) (TrimSpace r)) keys required scope src t = (Inr [], s')"
    "db_attempts t = db_attempts s"
proof -
  obtain items sa t where st:
    "ListWorkItems \<lparr> flq_ProjectID = dp_ProjectID payload, flq_ReceiptID = r \<rparr> s = (Inr items, sa)"
    "(case plan of None \<Rightarrow> ret_svc ()
      | Some p \<Rightarrow> bind_svc (syncTerminalWorkPlanStatus (dp_ProjectID payload) r p items)
          (\<lambda>_. ret_svc ())) sa = (Inr (), t)"
    "(case loadWorkflowCompletionRequirements env '''' (dp_TagsFile payload) of
       ((src, _), Inl err) \<Rightarrow> fail_svc (workflowDefinitionsAPIError src err)
     | ((src, exists), Inr definitions) \<Rightarrow>
         (case required_tasks exists definitions scope (elems files) of
            (keys, required) \<Rightarrow>
              evaluateDefinitionOfDoneIssues env (dp_ProjectID payload) r k items keys
                required scope src)) t = (Inr [], s')"
    using assms unfolding check_done_def by (auto simp: svc_Inr)
  have items: "tables sa = tables s"
    "items = stored_items s (TrimSpace (dp_ProjectID payload)) (TrimSpace r)"
    using list_items_sees[OF st(1)] by auto
  have "db_attempts t = db_attempts sa"
    using st(2) sync_attempts by (auto simp: svc_Inr split: option.splits)
  then have att: "db_attempts t = db_attempts s" using same_columns(3)[OF items(1)] by simp
  obtain src ex defs where load:
    "loadWorkflowCompletionRequirements env '''' (dp_TagsFile payload) = ((src, ex), Inr defs)"
    using st(3) by (auto simp: fail_svc_Inr split: prod.splits sum.splits)
  obtain keys required where req: "required_tasks ex defs scope (elems files) = (keys, required)"
    by fastforce
  show ?thesis using that[OF load req _ att] st(3) load req items(2) by simp
qed



end
