(* ===== verification/Gate_Properties.thy ===== *)
theory Gate_Properties
  imports Closeout_Properties
begin

text \<open>
  Properties of \<open>Verify\<close> and \<open>Review\<close>: what a run of the configured tests stores and reports, what
  a definitions file must satisfy to be loaded, and when a review gate runs its command.
\<close>

section \<open>Verify\<close>

lemma length_index_from [simp]: "length (index_from i xs) = length xs"
  by (induction xs arbitrary: i) auto

lemma map_index_from: "map (\<lambda>(i, x). f x) (index_from i xs) = map f xs"
  by (induction xs arbitrary: i) auto

lemma run_selected_tests: "map (\<lambda>(t, _). vd_ID (fst t)) (run_selected env sel ts) = map (vd_ID \<circ> fst) ts"
proof -
  have "map ((\<lambda>(t, _). vd_ID (fst t)) \<circ> (\<lambda>(i, t). (t, g i t))) (index_from k ts) = map (vd_ID \<circ> fst) ts"
    for g :: "nat \<Rightarrow> verifyTestDefinition \<times> string list \<Rightarrow> verifyCommandRun" and k
    by (induction ts arbitrary: k) auto
  then show ?thesis unfolding run_selected_def map_map .
qed

lemma updateVerifyWork_batches:
  "updateVerifyWork env p sel b rs ok s = (x, t) \<Longrightarrow> db_batches t = db_batches s"
  using keepsD[OF nolog.keeps_updateVerifyWork] by (fastforce simp: same_def logs_def)

lemma execute_tests_ok:
  assumes "execute_tests env payload src sel selected b s = (Inr res, s')"
  shows "vres_SelectedTestIDs res = Some (map (vd_ID \<circ> fst) selected) \<and>
    map vtt_TestID (vres_Results res) = map (vd_ID \<circ> fst) selected \<and> vres_BatchRunID res = b \<and>
    vres_Passed res = (\<forall>t \<in> set (vres_Results res). vtt_Status t = ''passed'') \<and>
    vres_Status res = (if vres_Passed res then ''passed'' else ''failed'') \<and>
    (\<exists>row. map_of (db_batches s) (TrimSpace b) = None \<and>
       db_batches s' = (TrimSpace b, row) # db_batches s \<and>
       nvb_Passed (br_batch row) = vres_Passed res \<and> nvb_Status (br_batch row) = vres_Status res \<and>
       length (nvb_Results (br_batch row)) = length selected)"
proof -
  define runs where "runs = run_selected env sel selected"
  define results where "results = map (\<lambda>(t, run). public_result (fst t) run) runs"
  define ok where "ok = list_all (\<lambda>r. vtt_Status r = ''passed'') results"
  let ?batch = "verify_batch env payload src sel b runs ok"
  obtain u t where st: "SaveVerificationBatch (\<lambda>i. se_now env (Suc i)) ?batch s = (Inr (), t)"
    "(if vsc_ReceiptID sel \<noteq> '''' \<or> vsc_PlanKey sel \<noteq> ''''
      then updateVerifyWork env (TrimSpace (vp_ProjectID payload)) sel b results ok else ret_svc ()) t = (Inr u, s')"
    "res = \<lparr> vres_Status = (if ok then ''passed'' else ''failed''), vres_BatchRunID = b,
       vres_SelectedTestIDs = Some (selectedVerifyTestIDs selected),
       vres_Selected = selectedVerifyResults selected, vres_Passed = ok, vres_Results = results \<rparr>"
    using assms unfolding execute_tests_def Let_def runs_def[symmetric] results_def[symmetric] ok_def[symmetric]
    by (auto simp: svc_Inr)
  have len: "length runs = length selected" by (simp add: runs_def run_selected_def)
  have ids: "map vtt_TestID results = map (vd_ID \<circ> fst) selected"
    using run_selected_tests[of env sel selected]
    unfolding results_def runs_def[symmetric] by (simp add: comp_def public_result_def split_def)
  have same: "db_batches s' = db_batches t"
    using st(2) updateVerifyWork_batches by (auto simp: ret_svc_Inr split: if_splits)
  from st(1) show ?thesis
  proof (cases rule: SaveVerificationBatch_cases)
    case (ok n)
    have n: "nvb_BatchRunID n = TrimSpace b" "nvb_Passed n = vb_Passed ?batch"
      "nvb_Status n = TrimSpace (vb_Status ?batch)" "length (nvb_Results n) = length runs"
      using ok(1) by (auto simp: NormalizeVerificationBatch_def Let_def verify_batch_def bind_res_Inr_iff map_res_Inr
          dest!: list_all2_lengthD split: if_splits)
    have t: "TrimSpace ''passed'' = ''passed''" "TrimSpace ''failed'' = ''failed''"
      by (rule TrimSpace_graph; simp add: ascii_graph_def)+
    have "db_batches t = (TrimSpace b, \<lparr> br_batch = n \<rparr>) # db_batches s"
      using arg_cong[OF ok(4), of db_batches] n(1) by simp
    then show ?thesis
      using ids len n ok(3) same t unfolding st(3)
      by (auto simp: selectedVerifyTestIDs_def ok_def list_all_iff verify_batch_def Let_def)
  qed auto
qed

text \<open>C8: a dry run and a run that selects no test change no table and are not passed. Every other
  successful call reports one result per selected test, in order, is passed exactly when all of
  them are, and has added one batch, under a new id, that says the same.\<close>

theorem verify_outcome:
  assumes "Verify env payload s = (Inr res, s')"
  shows "\<exists>ids. vres_SelectedTestIDs res = Some ids \<and>
    (if vp_DryRun payload \<or> ids = []
     then tables s' = tables s \<and> \<not> vres_Passed res \<and>
       vres_Status res = (if vp_DryRun payload then ''dry_run'' else ''no_tests_selected'')
     else map vtt_TestID (vres_Results res) = ids \<and>
       vres_Passed res = (\<forall>t \<in> set (vres_Results res). vtt_Status t = ''passed'') \<and>
       vres_Status res = (if vres_Passed res then ''passed'' else ''failed'') \<and>
       (\<exists>row. map_of (db_batches s) (TrimSpace (vres_BatchRunID res)) = None \<and>
          db_batches s' = (TrimSpace (vres_BatchRunID res), row) # db_batches s \<and>
          nvb_Passed (br_batch row) = vres_Passed res \<and> nvb_Status (br_batch row) = vres_Status res \<and>
          length (nvb_Results (br_batch row)) = length ids))"
proof -
  obtain src defs where "loadVerifyDefinitions env (vp_TestsFile payload) (vp_TagsFile payload) = (src, Inr defs)"
    using assms by (auto simp: Verify_def fail_svc_Inr split: prod.splits sum.splits)
  then obtain sel t selected where st: "resolveVerifySelectionContext env payload s = (Inr sel, t)"
    "(let result = \<lparr> vres_Status = '''', vres_BatchRunID = '''',
          vres_SelectedTestIDs = Some (selectedVerifyTestIDs selected),
          vres_Selected = selectedVerifyResults selected, vres_Passed = False, vres_Results = [] \<rparr> in
      if vp_DryRun payload then ret_svc (result\<lparr>vres_Status := ''dry_run''\<rparr>)
      else if selected = [] then ret_svc (result\<lparr>vres_Status := ''no_tests_selected''\<rparr>)
      else case se_batch_id env of
        Inl e \<Rightarrow> fail_svc (verifyInternalError ''new_batch_run_id'' e '''')
      | Inr batchRunID \<Rightarrow> execute_tests env payload src sel selected batchRunID) t = (Inr res, s')"
    using assms by (auto simp: Verify_def svc_Inr)
  have t: "tables t = tables s" using keepsD[OF silent.keeps_selection_context st(1)] .
  show ?thesis
  proof (cases "vp_DryRun payload \<or> selected = []")
    case True
    then show ?thesis using st(2) t by (auto simp: Let_def ret_svc_Inr selectedVerifyTestIDs_def split: if_splits)
  next
    case False
    then obtain b where ex: "execute_tests env payload src sel selected b t = (Inr res, s')"
      using st(2) by (auto simp: Let_def fail_svc_Inr split: sum.splits)
    have "db_batches t = db_batches s" using same_columns(5)[OF t] by (simp add: logs_def)
    then show ?thesis using execute_tests_ok[OF ex] False by auto
  qed
qed

text \<open>A project with one test, which always runs.\<close>

definition sample_tests :: verifyTestsDocumentV1 where
  "sample_tests =
     \<lparr> vtd_Version = ''awm.tests.v1'', vtd_DefaultCWD = '''', vtd_DefaultTimeoutSec = 0,
       vtd_Tests = [\<lparr> vdoc_ID = ''unit'', vdoc_Summary = ''unit tests'',
         vdoc_Command = \<lparr> vcmd_Argv = [''go'', ''test''], vcmd_CWD = '''', vcmd_TimeoutSec = 0, vcmd_Env = [] \<rparr>,
         vdoc_Select = \<lparr> vsel_Phases = [], vsel_TagsAny = [], vsel_ChangedPathsAny = [], vsel_AlwaysRun = True \<rparr>,
         vdoc_ExpectedExitCode = None \<rparr>] \<rparr>"

definition tests_env :: service_env where
  "tests_env = (sample_env (Inr []))\<lparr>se_stat := (\<lambda>_. Inr True), se_tests := (\<lambda>_. Parsed sample_tests)\<rparr>"

definition sample_verify :: VerifyPayload where
  "sample_verify =
     \<lparr> vp_ProjectID = ''proj'', vp_ReceiptID = '''', vp_PlanKey = '''', vp_Phase = '''',
       vp_TestIDs = None, vp_FilesChanged = None, vp_TestsFile = ''t.yaml'', vp_TagsFile = '''',
       vp_DryRun = False, vp_Actor = None \<rparr>"

lemma sample_verify_runs:
  obtains res s' where "Verify tests_env sample_verify receipt_db = (Inr res, s')"
    "vres_SelectedTestIDs res = Some [''unit'']"
proof -
  have "case Verify tests_env sample_verify receipt_db of
      (Inl _, _) \<Rightarrow> False | (Inr res, _) \<Rightarrow> vres_SelectedTestIDs res = Some [''unit'']"
    by code_simp
  then show ?thesis using that by (auto split: prod.splits sum.splits)
qed

theorem verify_outcome_witness:
  "\<exists>res s' row. Verify tests_env sample_verify receipt_db = (Inr res, s') \<and>
     map vtt_TestID (vres_Results res) = [''unit''] \<and>
     db_batches s' = (TrimSpace (vres_BatchRunID res), row) # db_batches receipt_db \<and>
     nvb_Passed (br_batch row) = vres_Passed res"
proof -
  obtain res s' where run: "Verify tests_env sample_verify receipt_db = (Inr res, s')"
    "vres_SelectedTestIDs res = Some [''unit'']" by (rule sample_verify_runs)
  then show ?thesis using verify_outcome[OF run(1)] by (auto simp: sample_verify_def)
qed

section \<open>Definitions files\<close>

definition valid_test :: "verifyTestDefinition \<Rightarrow> bool" where
  "valid_test d \<longleftrightarrow>
     verifyTestIDPattern (vd_ID d) \<and> vd_Summary d \<noteq> '''' \<and> length (vd_Summary d) \<le> 600 \<and>
     vd_Argv d \<noteq> [] \<and> length (vd_Argv d) \<le> 256 \<and>
     list_all (\<lambda>a. a \<noteq> '''' \<and> TrimSpace a = a \<and> length a \<le> 1024) (vd_Argv d) \<and>
     vd_CWD d \<noteq> ''..'' \<and> \<not> HasPrefix (vd_CWD d) ''../'' \<and>
     1 \<le> vd_TimeoutSec d \<and> vd_TimeoutSec d \<le> 86400 \<and>
     0 \<le> vd_ExpectedExitCode d \<and> vd_ExpectedExitCode d \<le> 255 \<and>
     set (vd_Phases d) \<subseteq> {''plan'', ''execute'', ''review''} \<and>
     (vd_AlwaysRun d \<longrightarrow> vd_Phases d = [] \<and> vd_TagsAny d = [] \<and> vd_ChangedPathsAny d = [])"

lemma argv_entries_ok:
  "argv_entries i raw = Inr ys \<Longrightarrow> length ys = length raw \<and>
     list_all (\<lambda>a. a \<noteq> '''' \<and> TrimSpace a = a \<and> length a \<le> 1024) ys"
  by (induction i raw arbitrary: ys rule: argv_entries.induct)
     (auto simp: Let_def bind_res_Inr_iff split: if_splits)

lemma normalizeVerifyArgv_ok:
  assumes "normalizeVerifyArgv raw = Inr ys"
  shows "ys \<noteq> [] \<and> length ys \<le> 256 \<and> list_all (\<lambda>a. a \<noteq> '''' \<and> TrimSpace a = a \<and> length a \<le> 1024) ys"
  using assms argv_entries_ok[of 0 raw ys] by (auto simp: normalizeVerifyArgv_def split: if_splits)

lemma phase_entries_ok:
  "phase_entries i out raw = Inr ys \<Longrightarrow> set out \<subseteq> {''plan'', ''execute'', ''review''} \<Longrightarrow>
     set ys \<subseteq> {''plan'', ''execute'', ''review''}"
  by (induction i out raw arbitrary: ys rule: phase_entries.induct) (auto simp: Let_def split: if_splits)

lemma normalizeVerifyPhases_ok:
  "normalizeVerifyPhases raw = Inr ys \<Longrightarrow> set ys \<subseteq> {''plan'', ''execute'', ''review''}"
  using phase_entries_ok[of 0 "[]" raw] by (auto simp: normalizeVerifyPhases_def bind_res_Inr_iff)

lemma normalizeVerifyWorkingDir_ok:
  "normalizeVerifyWorkingDir raw = Inr d \<Longrightarrow> d \<noteq> ''..'' \<and> \<not> HasPrefix d ''../''"
  by (auto simp: normalizeVerifyWorkingDir_def Let_def HasPrefix_iff split: if_splits)

lemma normalizeVerifyTimeout_ok: "normalizeVerifyTimeout t z = Inr u \<Longrightarrow> 1 \<le> u \<and> u \<le> 86400"
  by (auto simp: normalizeVerifyTimeout_def split: if_splits)

lemma wrap_err_Inr [simp]: "wrap_err pre r = Inr x \<longleftrightarrow> r = Inr x"
  by (cases r) (auto simp: wrap_err_def)

lemma normalize_selection_ok:
  assumes "normalize_selection m pre sel = Inr (ph, tg, cp)"
  shows "set ph \<subseteq> {''plan'', ''execute'', ''review''} \<and>
    (vsel_AlwaysRun sel \<longrightarrow> ph = [] \<and> tg = [] \<and> cp = [])"
  using assms normalizeVerifyPhases_ok
  by (auto simp: normalize_selection_def Let_def bind_res_Inr_iff split: if_splits)

lemma normalizeVerifyDefinition_ok:
  assumes "normalizeVerifyDefinition sha m src cwd timeout i raw = Inr d" "1 \<le> timeout" "timeout \<le> 86400"
  shows "valid_test d"
  using assms
  by (auto simp: normalizeVerifyDefinition_def Let_def bind_res_Inr_iff valid_test_def not_less
      simp del: firstNonEmpty.simps split: if_splits
      dest!: normalizeVerifyArgv_ok normalizeVerifyWorkingDir_ok normalizeVerifyTimeout_ok normalize_selection_ok)

lemma test_definitions_ok:
  assumes "test_definitions norm src i seen raws = Inr ds" "\<And>i raw d. norm i raw = Inr d \<Longrightarrow> P d"
  shows "(\<forall>d \<in> set ds. P d) \<and> distinct (map vd_ID ds) \<and> set (map vd_ID ds) \<inter> set seen = {} \<and>
    length ds = length raws"
  using assms(1)
proof (induction raws arbitrary: i seen ds)
  case (Cons raw rest)
  then obtain d ds' where st: "norm i raw = Inr d" "vd_ID d \<notin> set seen"
    "test_definitions norm src (Suc i) (vd_ID d # seen) rest = Inr ds'" "ds = d # ds'"
    by (auto simp: bind_res_Inr_iff split: if_splits)
  show ?case using Cons.IH[OF st(3)] st assms(2)[OF st(1)] by auto
qed simp

text \<open>C9: a definitions file that is loaded has at most 512 tests with distinct ids, given in the
  order of their ids; each has a command of 1 to 256 non-blank arguments, a working directory
  that does not leave the repository, a timeout from 1 to 86400 seconds, an exit code of one byte,
  known phases, and no other selector beside \<open>always_run\<close>.\<close>

theorem loaded_tests_valid:
  assumes "loadVerifyDefinitions env testsFile tagsFile = (src, Inr defs)"
  shows "sorted (map vd_ID defs) \<and> distinct (map vd_ID defs) \<and> length defs \<le> 512 \<and>
    list_all valid_test defs"
proof -
  obtain m doc where doc: "tests_of_document env m src doc = Inr defs"
    using assms by (auto simp: loadVerifyDefinitions_def split: sum.splits prod.splits if_splits def_file.splits)
  then obtain cwd timeout ds where ds: "1 \<le> timeout" "timeout \<le> 86400" "length (vtd_Tests doc) \<le> 512"
    "test_definitions (normalizeVerifyDefinition (env_sha (se_ctx env)) m src cwd timeout) src 0 []
       (vtd_Tests doc) = Inr ds" "defs = sort_key vd_ID ds"
    by (auto simp: tests_of_document_def Let_def bind_res_Inr_iff not_less split: if_splits
        dest!: normalizeVerifyTimeout_ok)
  have all: "(\<forall>d \<in> set ds. valid_test d) \<and> distinct (map vd_ID ds) \<and> length ds = length (vtd_Tests doc)"
    using test_definitions_ok[OF ds(4), of valid_test] normalizeVerifyDefinition_ok ds(1,2) by blast
  have "distinct (map vd_ID (sort_key vd_ID ds))"
    using all by (simp add: distinct_map)
  then show ?thesis using all ds(3) by (simp add: ds(5) list_all_iff)
qed

theorem loaded_tests_valid_witness:
  "\<exists>defs. loadVerifyDefinitions tests_env ''t.yaml'' '''' = (''t.yaml'', Inr defs) \<and> list_all valid_test defs"
proof -
  have "case loadVerifyDefinitions tests_env ''t.yaml'' '''' of (src, Inr _) \<Rightarrow> src = ''t.yaml'' | _ \<Rightarrow> False"
    by code_simp
  then obtain defs where "loadVerifyDefinitions tests_env ''t.yaml'' '''' = (''t.yaml'', Inr defs)"
    by (auto split: prod.splits sum.splits)
  then show ?thesis using loaded_tests_valid by blast
qed

section \<open>Review gates\<close>

text \<open>What the command of a gate does, and when it is run at all.\<close>

definition gate_run :: "service_env \<Rightarrow> review_gate \<Rightarrow> verifyCommandRun" where
  "gate_run env g =
     se_run env 0 (wrd_Argv (rg_run g)) (wrd_CWD (rg_run g)) (wrd_TimeoutSec (rg_run g)) (wrd_Env (rg_run g))
       (reviewCommandEnvironment env (rg_source g) (rg_payload g) (rg_state g) (rg_summary g)
          (int (length (rg_attempts g)) + 1) (wtd_MaxAttempts (rg_definition g))
          (int (countPassingReviewAttempts (rg_attempts g))) (rg_fingerprint g) (rg_scope g)
          (rg_detected g) (rg_reliable g))"

definition gate_prior :: "review_gate \<Rightarrow> ReviewAttempt option" where
  "gate_prior g =
     (if wtd_RerunRequiresNewFingerprint (rg_definition g)
      then latestReviewAttemptByFingerprint (rg_attempts g) (rg_fingerprint g) else None)"

definition gate_exhausted :: "review_gate \<Rightarrow> bool" where
  "gate_exhausted g \<longleftrightarrow> 0 < wtd_MaxAttempts (rg_definition g) \<and>
     wtd_MaxAttempts (rg_definition g) \<le> int (length (rg_attempts g))"

definition gate_runs :: "review_gate \<Rightarrow> bool" where
  "gate_runs g \<longleftrightarrow> (case gate_prior g of Some a \<Rightarrow> \<not> ra_Passed a | None \<Rightarrow> \<not> gate_exhausted g)"

lemma run_gate_cases:
  "run_gate env g = (if gate_runs g then execute_review env g
     else case gate_prior g of Some a \<Rightarrow> skip_fingerprint env g a | None \<Rightarrow> skip_exhausted env g)"
  by (auto simp: run_gate_def gate_runs_def gate_prior_def gate_exhausted_def check_budget_def
      reviewAttemptEligibleForFingerprintSkip_def split: option.split)

lemma skipped_not_executed:
  "skip_fingerprint env g a s = (Inr res, s') \<Longrightarrow> \<not> rres_Executed res"
  "skip_exhausted env g s = (Inr res, s') \<Longrightarrow> \<not> rres_Executed res"
  by (auto simp: skip_fingerprint_def skip_exhausted_def Let_def svc_Inr ReviewResultFromWork_def)

lemma updateReviewSnapshot_attempts:
  "updateReviewSnapshot env p st sm status out ref s = (x, t) \<Longrightarrow> db_attempts t = db_attempts s"
  using keepsD[OF nolog.keeps_updateReviewSnapshot] by (fastforce simp: same_def logs_def)

lemma skipped_attempts:
  "skip_fingerprint env g a s = (r, s') \<Longrightarrow> db_attempts s' = db_attempts s"
  "skip_exhausted env g s = (r, s') \<Longrightarrow> db_attempts s' = db_attempts s"
  using keepsD[OF nolog.keeps_skip(1)] keepsD[OF nolog.keeps_skip(2)]
  by (fastforce simp: same_def logs_def)+


text \<open>A gate whose only attempt is used up, and failed for the current fingerprint.\<close>

definition sample_gate :: review_gate where
  "sample_gate =
     \<lparr> rg_payload = \<lparr> rp_ProjectID = ''proj'', rp_ReceiptID = ''receipt1'', rp_PlanKey = '''',
         rp_Key = ''review:x'', rp_Summary = '''', rp_Status = '''', rp_Outcome = '''',
         rp_BlockedReason = '''', rp_Evidence = None, rp_Run = True, rp_TagsFile = '''', rp_Actor = None \<rparr>,
       rg_state = \<lparr> rst_PlanKey = ''plan:receipt1'', rst_ReceiptID = ''receipt1'',
         rst_PlanStatus = ''pending'', rst_TaskCount = 0, rst_Task = None \<rparr>,
       rg_attempts = [sample_attempt\<lparr>ra_Passed := False\<rparr>], rg_source = ''w.yaml'',
       rg_definition = \<lparr> wtd_Key = ''review:x'', wtd_Summary = '''', wtd_MaxAttempts = 1,
         wtd_RerunRequiresNewFingerprint = True, wtd_Phases = [], wtd_TagsAny = [],
         wtd_ChangedPathsAny = [], wtd_AlwaysRun = True, wtd_Run = None \<rparr>,
       rg_run = \<lparr> wrd_Argv = [''r''], wrd_CWD = ''.'', wrd_TimeoutSec = 300, wrd_Env = [] \<rparr>,
       rg_summary = '''', rg_fingerprint = ''r1'', rg_scope = None, rg_detected = [],
       rg_reliable = False \<rparr>"

lemma sample_gate_runs: "gate_exhausted sample_gate" "gate_runs sample_gate"
  by code_simp+

lemma sample_gate_saved:
  "\<exists>i t. SaveReviewAttempt (se_now (sample_env (Inr [])) 0)
     (gate_attempt sample_gate (gate_run (sample_env (Inr [])) sample_gate)) receipt_db = (Inr i, t)"
proof -
  have "case SaveReviewAttempt (se_now (sample_env (Inr [])) 0)
     (gate_attempt sample_gate (gate_run (sample_env (Inr [])) sample_gate)) receipt_db of
       (Inl _, _) \<Rightarrow> False | (Inr _, _) \<Rightarrow> True"
    by code_simp
  then show ?thesis by (auto split: prod.splits sum.splits)
qed


end
