(* ===== verification/Contract_Payloads.thy ===== *)
theory Contract_Payloads
  imports Contract_Types
begin

text \<open>
  The payloads of \<open>internal/contracts/v1/types.go\<close> that the reading and the maintenance commands
  take (fetch, export, history, sync, health, status, init), the command envelope and the error
  payload. A map of the payload is the list of its entries in the order in which a loop visits them.
\<close>

section \<open>Envelopes\<close>

definition Version :: string where "Version = ''awm.v1''"

definition CommandContext :: string where "CommandContext = ''context''"
definition CommandFetch :: string where "CommandFetch = ''fetch''"
definition CommandExport :: string where "CommandExport = ''export''"
definition CommandDone :: string where "CommandDone = ''done''"
definition CommandReview :: string where "CommandReview = ''review''"
definition CommandWork :: string where "CommandWork = ''work''"
definition CommandHistorySearch :: string where "CommandHistorySearch = ''history''"
definition CommandSync :: string where "CommandSync = ''sync''"
definition CommandHealth :: string where "CommandHealth = ''health''"
definition CommandStatus :: string where "CommandStatus = ''status''"
definition CommandVerify :: string where "CommandVerify = ''verify''"
definition CommandInit :: string where "CommandInit = ''init''"

definition ErrCodeInvalidJSON :: string where "ErrCodeInvalidJSON = ''INVALID_JSON''"
definition ErrCodeInvalidVersion :: string where "ErrCodeInvalidVersion = ''INVALID_VERSION''"
definition ErrCodeInvalidCommand :: string where "ErrCodeInvalidCommand = ''INVALID_COMMAND''"

record CommandEnvelope =
  ce_Version :: string
  ce_Command :: string
  ce_RequestID :: string
  ce_Payload :: string

record ErrorPayload =
  ep_Code :: string
  ep_Message :: string
  ep_Source :: string

section \<open>Phases, formats, entities, fixers\<close>

definition PhasePlan :: string where "PhasePlan = ''plan''"
definition PhaseExecute :: string where "PhaseExecute = ''execute''"
definition PhaseReview :: string where "PhaseReview = ''review''"

definition ScopeModeStrict :: string where "ScopeModeStrict = ''strict''"
definition ScopeModeWarn :: string where "ScopeModeWarn = ''warn''"

definition ExportFormatJSON :: string where "ExportFormatJSON = ''json''"
definition ExportFormatMarkdown :: string where "ExportFormatMarkdown = ''markdown''"

definition HistoryScopeCurrent :: string where "HistoryScopeCurrent = ''current''"
definition HistoryScopeDeferred :: string where "HistoryScopeDeferred = ''deferred''"
definition HistoryScopeCompleted :: string where "HistoryScopeCompleted = ''completed''"
definition HistoryScopeAll :: string where "HistoryScopeAll = ''all''"

definition HistoryEntityAll :: string where "HistoryEntityAll = ''all''"
definition HistoryEntityWork :: string where "HistoryEntityWork = ''work''"
definition HistoryEntityReceipt :: string where "HistoryEntityReceipt = ''receipt''"
definition HistoryEntityRun :: string where "HistoryEntityRun = ''run''"

definition HealthFixerAll :: string where "HealthFixerAll = ''all''"
definition HealthFixerSyncWorkingTree :: string where "HealthFixerSyncWorkingTree = ''sync_working_tree''"
definition HealthFixerIndexUnindexedFile :: string where
  "HealthFixerIndexUnindexedFile = ''index_unindexed_files''"
definition HealthFixerSyncRuleset :: string where "HealthFixerSyncRuleset = ''sync_ruleset''"

section \<open>Payloads\<close>

record FetchPayload =
  fp_ProjectID :: string
  fp_Keys :: "string slice"
  fp_ReceiptID :: string
  fp_ExpectedVersions :: "(string \<times> string) list"

record ExportContextSelector =
  xcs_TaskText :: string
  xcs_Phase :: string
  xcs_TagsFile :: string
  xcs_InitialScopePaths :: "string slice"

record ExportFetchSelector =
  xfs_Keys :: "string slice"
  xfs_ReceiptID :: string
  xfs_ExpectedVersions :: "(string \<times> string) list"

record ExportHistorySelector =
  xhs_Entity :: string
  xhs_Query :: string
  xhs_Scope :: string
  xhs_Kind :: string
  xhs_Limit :: int
  xhs_Unbounded :: "bool option"

record ExportStatusSelector =
  xss_ProjectRoot :: string
  xss_RulesFile :: string
  xss_TagsFile :: string
  xss_TestsFile :: string
  xss_WorkflowsFile :: string
  xss_TaskText :: string
  xss_Phase :: string

record ExportPayload =
  xp_ProjectID :: string
  xp_Format :: string
  xp_Context :: "ExportContextSelector option"
  xp_Fetch :: "ExportFetchSelector option"
  xp_History :: "ExportHistorySelector option"
  xp_Status :: "ExportStatusSelector option"

record HistorySearchPayload =
  hp_ProjectID :: string
  hp_Entity :: string
  hp_Query :: string
  hp_Scope :: string
  hp_Kind :: string
  hp_Limit :: int
  hp_Unbounded :: "bool option"

record SyncPayload =
  syp_ProjectID :: string
  syp_Mode :: string
  syp_GitRange :: string
  syp_ProjectRoot :: string
  syp_RulesFile :: string
  syp_TagsFile :: string
  syp_InsertNewCandidates :: "bool option"

record HealthPayload =
  hlp_ProjectID :: string
  hlp_IncludeDetails :: "bool option"
  hlp_MaxFindingsPerCheck :: "int option"
  hlp_Apply :: "bool option"
  hlp_ProjectRoot :: string
  hlp_RulesFile :: string
  hlp_TagsFile :: string
  hlp_Fixers :: "string slice"

record StatusPayload =
  stp_ProjectID :: string
  stp_ProjectRoot :: string
  stp_RulesFile :: string
  stp_TagsFile :: string
  stp_TestsFile :: string
  stp_WorkflowsFile :: string
  stp_TaskText :: string
  stp_Phase :: string

record InitPayload =
  inp_ProjectID :: string
  inp_ProjectRoot :: string
  inp_RulesFile :: string
  inp_TagsFile :: string
  inp_PersistCandidates :: "bool option"
  inp_RespectGitIgnore :: "bool option"
  inp_OutputCandidatesPath :: "string option"
  inp_ApplyTemplates :: "string slice"

end
