(* ===== verification/Project_Id.thy ===== *)
theory Project_Id
  imports Go_Strings
begin

text \<open>
  The project id that is inferred from a root directory (\<open>internal/projectid/projectid.go\<close>). The
  loop over the runes is written over the bytes: every rune that is not ASCII takes the default
  branch, which writes one \<open>-\<close> for a run of them, as it does for their bytes. SHA-256 is a parameter.
\<close>

definition isASCIISeparator :: "char \<Rightarrow> bool" where
  "isASCIISeparator r \<longleftrightarrow> r = CHR ''.'' \<or> r = CHR ''_'' \<or> r = CHR ''-''"

definition isASCIIAlphaNum :: "char \<Rightarrow> bool" where
  "isASCIIAlphaNum r \<longleftrightarrow> is_alnum r"

definition isValid :: "string \<Rightarrow> bool" where
  "isValid value \<longleftrightarrow>
     \<not> (length value < 2 \<or> length value > 64) \<and>
     (\<forall>(i, r) \<in> set (index_from 0 value). isASCIIAlphaNum r \<or> isASCIISeparator r \<and> i > 0) \<and>
     isASCIIAlphaNum (hd value)"

text \<open>The builder, and whether it ends with a separator.\<close>

fun build_id :: "string \<Rightarrow> bool \<Rightarrow> string \<Rightarrow> string" where
  "build_id built lastSeparator [] = built"
| "build_id built lastSeparator (r # rest) =
     (if isASCIIAlphaNum r then build_id (built @ [r]) False rest
      else if built = '''' \<or> lastSeparator then build_id built lastSeparator rest
      else if isASCIISeparator r then build_id (built @ [r]) True rest
      else build_id (built @ ''-'') True rest)"

definition trim_right :: "(char \<Rightarrow> bool) \<Rightarrow> string \<Rightarrow> string" where
  "trim_right p s = rev (dropWhile p (rev s))"

definition trim_both :: "(char \<Rightarrow> bool) \<Rightarrow> string \<Rightarrow> string" where
  "trim_both p s = trim_right p (dropWhile p s)"

definition hex_text :: "nat list \<Rightarrow> string" where
  "hex_text bytes = concat (map (\<lambda>b. [hex_digit (b div 16 mod 16), hex_digit (b mod 16)]) bytes)"

definition fallback :: "(string \<Rightarrow> nat list) \<Rightarrow> string \<Rightarrow> string" where
  "fallback sha256 raw = ''project-'' @ take 8 (hex_text (sha256 raw))"

text \<open>The loop that cuts the id to 64 bytes runs at most once, since a cut id is not longer.\<close>

definition id_normalize :: "(string \<Rightarrow> nat list) \<Rightarrow> string \<Rightarrow> string" where
  "id_normalize sha256 raw =
     (let trimmed = TrimSpace raw in
      if trimmed = '''' then ''''
      else if isValid trimmed then trimmed
      else let out0 = dropWhile (\<lambda>r. \<not> isASCIIAlphaNum r)
                        (trim_both isASCIISeparator (build_id '''' False trimmed));
               out = (if length out0 > 64 then trim_right isASCIISeparator (take 64 out0) else out0)
        in if isValid out then out else fallback sha256 trimmed)"

text \<open>\<open>filepath.Base\<close> of a cleaned path.\<close>

definition FromRoot :: "(string \<Rightarrow> nat list) \<Rightarrow> string \<Rightarrow> string" where
  "FromRoot sha256 projectRoot =
     (let root = TrimSpace projectRoot in
      if root = '''' then ''''
      else let base = path_Base (path_Clean root) in
        if base = ''.'' \<or> base = ''/'' then '''' else id_normalize sha256 base)"

section \<open>The pattern of a project id\<close>

definition is_id_char :: "char \<Rightarrow> bool" where
  "is_id_char c \<longleftrightarrow> isASCIIAlphaNum c \<or> isASCIISeparator c"

definition projectIDRe :: "string \<Rightarrow> bool" where
  "projectIDRe s = match_head_tail isASCIIAlphaNum is_id_char 1 63 s"

lemma later_chars:
  "n > 0 \<Longrightarrow> (\<forall>(i, r) \<in> set (index_from n t). isASCIIAlphaNum r \<or> isASCIISeparator r \<and> i > 0) \<longleftrightarrow>
     list_all is_id_char t"
  by (induction t arbitrary: n) (auto simp: is_id_char_def)

text \<open>The loop of \<open>isValid\<close> decides the pattern.\<close>

lemma isValid_pattern: "isValid s \<longleftrightarrow> projectIDRe s"
proof (cases s)
  case (Cons c t)
  have "(\<forall>(i, r) \<in> set (index_from 0 (c # t)). isASCIIAlphaNum r \<or> isASCIISeparator r \<and> i > 0) \<longleftrightarrow>
      isASCIIAlphaNum c \<and> list_all is_id_char t"
    using later_chars[of 1 t] by auto
  then show ?thesis
    by (auto simp: isValid_def projectIDRe_def match_head_tail_def Cons Suc_le_eq)
qed (simp add: isValid_def projectIDRe_def match_head_tail_def)

lemma hex_digit_alnum: "n < 16 \<Longrightarrow> isASCIIAlphaNum (hex_digit n)"
  by (auto simp: isASCIIAlphaNum_def is_alnum_def is_lower_def is_digit_def hex_digit_def of_char_of)

lemma hex_text_alnum: "\<forall>c \<in> set (hex_text bs). isASCIIAlphaNum c"
  by (auto simp: hex_text_def hex_digit_alnum)

lemma fallback_valid: "projectIDRe (fallback sha256 raw)"
proof -
  have "list_all is_id_char ''roject-''" "isASCIIAlphaNum (CHR ''p'')" by code_simp+
  moreover have "list_all is_id_char (take 8 (hex_text bs))" for bs
    using hex_text_alnum[of bs] by (auto simp: list_all_iff is_id_char_def dest: in_set_takeD)
  ultimately show ?thesis by (simp add: projectIDRe_def match_head_tail_def fallback_def list_all_iff)
qed

lemma id_normalize_valid: "id_normalize sha256 raw = '''' \<or> projectIDRe (id_normalize sha256 raw)"
  by (simp add: id_normalize_def Let_def isValid_pattern fallback_valid)

lemma FromRoot_valid: "FromRoot sha256 root = '''' \<or> projectIDRe (FromRoot sha256 root)"
  using id_normalize_valid by (simp add: FromRoot_def Let_def)

end
