(* ===== verification/Contract_Validate.thy ===== *)
theory Contract_Validate
  imports Contract_Payloads Project_Id Go_Runes
begin

text \<open>
  The validation of commands (\<open>internal/contracts/v1/validate.go\<close> and the decoders of
  \<open>command_catalog.go\<close>). A validator returns the message of the first check that fails. Reading JSON
  is a parameter: what a reader makes of an object is its typed payload and the raw fields, of which
  the checks see whether a field is there, is null, or is an object. The loops over a Go map visit
  its entries in some order, of which the model has one.
\<close>

section \<open>Checks\<close>

type_synonym check = "string option"

definition refuse :: "bool \<Rightarrow> string \<Rightarrow> check" where
  "refuse bad msg = (if bad then Some msg else None)"

definition within :: "string \<Rightarrow> check \<Rightarrow> check" where
  "within pre = map_option (\<lambda>m. pre @ m)"

text \<open>The first entry of a list that a check refuses, with its index.\<close>

definition each_entry :: "(nat \<Rightarrow> 'a \<Rightarrow> check) \<Rightarrow> 'a list \<Rightarrow> check" where
  "each_entry f xs = first_error (map (\<lambda>(i, x). f i x) (index_from 0 xs))"

definition at_index :: "string \<Rightarrow> nat \<Rightarrow> string" where
  "at_index field i = field @ ''['' @ itoa_nat i @ '']''"

datatype raw_field = RawNull | RawObject "(string \<times> raw_field) list" | RawOther

type_synonym raw_fields = "(string \<times> raw_field) list"

section \<open>Shared checks\<close>

definition requestIDRe :: "string \<Rightarrow> bool" where
  "requestIDRe s = match_class (\<lambda>c. is_id_char c \<or> c = CHR '':'') 8 128 s"

definition testIDRe :: "string \<Rightarrow> bool" where
  "testIDRe s = match_head_tail (\<lambda>c. is_lower c \<or> is_digit c)
     (\<lambda>c. is_lower c \<or> is_digit c \<or> isASCIISeparator c) 0 127 s"

definition planKindRe :: "string \<Rightarrow> bool" where
  "planKindRe s = match_head_tail is_lower
     (\<lambda>c. is_lower c \<or> is_digit c \<or> c = CHR ''_'' \<or> c = CHR ''-'') 0 63 s"

definition validateProjectID :: "string \<Rightarrow> check" where
  "validateProjectID v = refuse (\<not> projectIDRe v) ''project_id format is invalid''"

definition validateBoundedKey :: "string \<Rightarrow> nat \<Rightarrow> check" where
  "validateBoundedKey value maxLength =
     refuse (TrimSpace value = '''' \<or> length (TrimSpace value) > maxLength)
       (''must be 1..'' @ itoa_nat maxLength @ '' chars'')"

definition validateUniqueStrings :: "string list \<Rightarrow> string \<Rightarrow> check" where
  "validateUniqueStrings values field =
     refuse (\<not> distinct values) (field @ '' must not contain duplicates'')"

definition validateOptionalArrayField :: "raw_fields \<Rightarrow> string \<Rightarrow> nat \<Rightarrow> check" where
  "validateOptionalArrayField given field len =
     (case map_of given field of
        None \<Rightarrow> None
      | Some raw \<Rightarrow>
          (if raw = RawNull then Some (field @ '' must be an array'')
           else refuse (len = 0) (field @ '' must not be empty when provided'')))"

definition rawObjectFields :: "raw_fields \<Rightarrow> string \<Rightarrow> string + raw_fields" where
  "rawObjectFields given fieldName =
     (case map_of given fieldName of
        None \<Rightarrow> Inr []
      | Some (RawObject nested) \<Rightarrow> Inr nested
      | Some _ \<Rightarrow> Inl (fieldName @ '' must be an object''))"

definition validateWorkItemStatusValue :: "string \<Rightarrow> string \<Rightarrow> check" where
  "validateWorkItemStatusValue status field =
     refuse (status \<notin> set [WorkItemStatusPending, WorkItemStatusInProgress, WorkItemStatusComplete,
         WorkItemStatusBlocked, WorkItemStatusSuperseded])
       (field @ '' must be pending|in_progress|complete|blocked|superseded'')"

definition validateStringList :: "string slice \<Rightarrow> nat \<Rightarrow> nat \<Rightarrow> string \<Rightarrow> check" where
  "validateStringList values maxItems maxLen field = first_error
     [refuse (length (elems values) > maxItems)
        (field @ '' may include at most '' @ itoa_nat maxItems @ '' entries''),
      each_entry (\<lambda>i raw. refuse (TrimSpace raw = '''' \<or> length (TrimSpace raw) > maxLen)
        (at_index field i @ '' must be 1..'' @ itoa_nat maxLen @ '' chars'')) (elems values)]"

definition validateBoundedKeyList :: "string slice \<Rightarrow> nat \<Rightarrow> nat \<Rightarrow> string \<Rightarrow> check" where
  "validateBoundedKeyList values maxItems maxKeyLen field = first_error
     [refuse (length (elems values) > maxItems)
        (field @ '' may include at most '' @ itoa_nat maxItems @ '' entries''),
      each_entry (\<lambda>i raw. within (at_index field i @ '' '') (validateBoundedKey raw maxKeyLen))
        (elems values)]"

definition validateRelativePath :: "string \<Rightarrow> check" where
  "validateRelativePath path =
     (let trimmed = TrimSpace path;
          normalized = ReplaceByte (CHR 0x5C) (CHR ''/'') trimmed;
          cleaned = path_Clean normalized in
      first_error
        [refuse (trimmed = '''') ''relative path must not be empty'',
         refuse (HasPrefix normalized ''/'') ''absolute paths are not allowed'',
         refuse (length normalized \<ge> 3 \<and> normalized ! 1 = CHR '':'' \<and> normalized ! 2 = CHR ''/'')
           ''absolute paths are not allowed'',
         refuse (cleaned = ''.'' \<or> cleaned = ''..'' \<or> HasPrefix cleaned ''../'')
           ''path must be repository-relative''])"

definition validateRelativePathList :: "string slice \<Rightarrow> nat \<Rightarrow> string \<Rightarrow> check" where
  "validateRelativePathList values maxItems field = first_error
     [refuse (length (elems values) > maxItems)
        (field @ '' may include at most '' @ itoa_nat maxItems @ '' entries''),
      validateUniqueStrings (elems values) field,
      each_entry (\<lambda>i value. within (at_index field i @ '' '') (validateRelativePath value))
        (elems values)]"

definition validateOptionalFilePath :: "string \<Rightarrow> string \<Rightarrow> check" where
  "validateOptionalFilePath fieldName filePath =
     refuse (length (TrimSpace filePath) > 2048) (fieldName @ '' too long'')"

definition validateRulesFile :: "string \<Rightarrow> check" where
  "validateRulesFile rulesFile = validateOptionalFilePath ''rules_file'' rulesFile"

definition validateTagsFile :: "string \<Rightarrow> check" where
  "validateTagsFile tagsFile = validateOptionalFilePath ''tags_file'' tagsFile"

definition validateTestsFile :: "string \<Rightarrow> check" where
  "validateTestsFile testsFile = validateOptionalFilePath ''tests_file'' testsFile"

definition validateWorkflowsFile :: "string \<Rightarrow> check" where
  "validateWorkflowsFile workflowsFile = validateOptionalFilePath ''workflows_file'' workflowsFile"

definition validateOptionalProjectRoot :: "string \<Rightarrow> check" where
  "validateOptionalProjectRoot projectRoot =
     (if projectRoot = '''' then None else first_error
        [refuse (TrimSpace projectRoot = '''') ''project_root must be non-empty when provided'',
         refuse (length projectRoot > 2048) ''project_root too long''])"

definition validateScopeMode :: "string \<Rightarrow> check" where
  "validateScopeMode mode =
     refuse (mode \<notin> set ['''', ScopeModeStrict, ScopeModeWarn]) ''scope_mode must be strict|warn''"

definition validateActor :: "ActorRef option \<Rightarrow> check" where
  "validateActor actor =
     (case actor of None \<Rightarrow> None
      | Some a \<Rightarrow> first_error (map (\<lambda>(name, value).
          refuse (length value > 200) (name @ '' must be at most 200 chars''))
          [(''actor.harness'', aref_Harness a), (''actor.model'', aref_Model a),
           (''actor.session_id'', aref_SessionID a)]))"

definition validatePhase :: "string \<Rightarrow> check" where
  "validatePhase phase = refuse (phase \<notin> set [PhasePlan, PhaseExecute, PhaseReview])
     ''phase must be plan|execute|review''"

definition validatePlanKeyFormat :: "string \<Rightarrow> string \<Rightarrow> check" where
  "validatePlanKeyFormat planKey field =
     (let trimmed = TrimSpace planKey;
          derivedReceiptID = TrimSpace (drop 5 trimmed) in
      first_error
        [refuse (planKey \<noteq> trimmed) (field @ '' must not include surrounding whitespace''),
         within (field @ '' '') (validateBoundedKey trimmed 256),
         refuse (\<not> HasPrefix trimmed ''plan:'') (field @ '' must use format plan:<receipt_id>''),
         refuse (derivedReceiptID = '''' \<or> \<not> requestIDRe derivedReceiptID)
           (field @ '' must use format plan:<receipt_id>'')])"

definition validateReceiptOrPlanReference :: "string \<Rightarrow> string \<Rightarrow> check" where
  "validateReceiptOrPlanReference receiptID planKey =
     (let r = TrimSpace receiptID; k = TrimSpace planKey in
      first_error
        [refuse (r = '''' \<and> k = '''') ''either receipt_id or plan_key is required'',
         refuse (r \<noteq> '''' \<and> \<not> requestIDRe r) ''receipt_id format is invalid'',
         (if k = '''' then None else first_error
            [validatePlanKeyFormat k ''plan_key'',
             refuse (r \<noteq> '''' \<and> r \<noteq> TrimSpace (drop 5 k))
               ''plan_key and receipt_id must reference the same receipt''])])"

text \<open>A text that may be left out: when it is given, it has 1 to \<open>n\<close> bytes after trimming.\<close>

definition optional_text :: "string \<Rightarrow> nat \<Rightarrow> string \<Rightarrow> check" where
  "optional_text value n msg =
     refuse (value \<noteq> '''' \<and> (TrimSpace value = '''' \<or> length (TrimSpace value) > n)) msg"

section \<open>The payloads of the workflow\<close>

definition validateContextPayload :: "ContextPayload \<Rightarrow> check" where
  "validateContextPayload p = first_error
     [validateProjectID (ctp_ProjectID p),
      refuse (TrimSpace (ctp_TaskText p) = '''' \<or> length (ctp_TaskText p) > 4000)
        ''task_text must be 1..4000 chars'',
      validatePhase (ctp_Phase p),
      validateTagsFile (ctp_TagsFile p),
      validateRelativePathList (ctp_InitialScopePaths p) 4096 ''initial_scope_paths'',
      validateActor (ctp_Actor p)]"

definition validateDonePayload :: "DonePayload \<Rightarrow> raw_fields \<Rightarrow> check" where
  "validateDonePayload p given = first_error
     [validateProjectID (dp_ProjectID p),
      validateReceiptOrPlanReference (dp_ReceiptID p) (dp_PlanKey p),
      refuse (TrimSpace (dp_Outcome p) = '''' \<or> length (dp_Outcome p) > 1600)
        ''outcome must be 1..1600 chars'',
      validateScopeMode (dp_ScopeMode p),
      validateTagsFile (dp_TagsFile p),
      refuse (map_of given ''files_changed'' = Some RawNull) ''files_changed must be an array'',
      refuse (map_of given ''no_file_changes'' = Some RawNull) ''no_file_changes must be a boolean'',
      validateRelativePathList (dp_FilesChanged p) 256 ''files_changed'',
      refuse (dp_NoFileChanges p \<and> map_of given ''files_changed'' \<noteq> None)
        ''files_changed cannot be combined with no_file_changes'',
      validateActor (dp_Actor p)]"

definition validateReviewPayload :: "ReviewPayload \<Rightarrow> raw_fields \<Rightarrow> check" where
  "validateReviewPayload p given = first_error
     [validateProjectID (rp_ProjectID p),
      validateReceiptOrPlanReference (rp_ReceiptID p) (rp_PlanKey p),
      (if rp_Key p \<noteq> '''' then within ''key '' (validateBoundedKey (rp_Key p) 512) else None),
      optional_text (rp_Summary p) 600 ''summary must be 1..600 chars when provided'',
      (if rp_Status p \<noteq> '''' then validateWorkItemStatusValue (rp_Status p) ''status'' else None),
      optional_text (rp_BlockedReason p) 600 ''blocked_reason must be 1..600 chars when provided'',
      refuse (rp_BlockedReason p \<noteq> '''' \<and> rp_Status p \<noteq> '''' \<and> rp_Status p \<noteq> WorkItemStatusBlocked)
        ''blocked_reason requires status=blocked when status is provided'',
      optional_text (rp_Outcome p) 1600 ''outcome must be 1..1600 chars when provided'',
      refuse (rp_Status p = WorkItemStatusBlocked \<and> TrimSpace (rp_BlockedReason p) = '''')
        ''blocked_reason is required when status=blocked'',
      validateOptionalArrayField given ''evidence'' (length (elems (rp_Evidence p))),
      validateStringList (rp_Evidence p) 128 1600 ''evidence'',
      validateTagsFile (rp_TagsFile p),
      (if rp_Run p then first_error
         [refuse (rp_Status p \<noteq> '''') ''status must be omitted when run=true'',
          refuse (TrimSpace (rp_Outcome p) \<noteq> '''') ''outcome must be omitted when run=true'',
          refuse (TrimSpace (rp_BlockedReason p) \<noteq> '''') ''blocked_reason must be omitted when run=true'',
          refuse (elems (rp_Evidence p) \<noteq> []) ''evidence must be omitted when run=true'']
       else None),
      validateActor (rp_Actor p)]"

definition optional_status :: "string \<Rightarrow> string \<Rightarrow> check" where
  "optional_status status field =
     (if status \<noteq> '''' then validateWorkItemStatusValue status field else None)"

definition validate_plan :: "WorkPlanPayload \<Rightarrow> check" where
  "validate_plan plan = first_error
     [optional_text (wpp_Title plan) 200 ''plan.title must be 1..200 chars when provided'',
      optional_text (wpp_Objective plan) 2000 ''plan.objective must be 1..2000 chars when provided'',
      refuse (wpp_Kind plan \<noteq> '''' \<and> \<not> planKindRe (TrimSpace (wpp_Kind plan)))
        ''plan.kind must match ^[a-z][a-z0-9_-]{0,63}$'',
      (if wpp_ParentPlanKey plan \<noteq> ''''
       then validatePlanKeyFormat (wpp_ParentPlanKey plan) ''plan.parent_plan_key'' else None),
      optional_status (wpp_Status plan) ''plan.status'',
      (case wpp_Stages plan of None \<Rightarrow> None
       | Some st \<Rightarrow> first_error
           [optional_status (wsp_SpecOutline st) ''plan.stages.spec_outline'',
            optional_status (wsp_RefinedSpec st) ''plan.stages.refined_spec'',
            optional_status (wsp_ImplementationPlan st) ''plan.stages.implementation_plan'']),
      validateStringList (wpp_InScope plan) 128 600 ''plan.in_scope'',
      validateStringList (wpp_OutOfScope plan) 128 600 ''plan.out_of_scope'',
      validateRelativePathList (wpp_DiscoveredPaths plan) 4096 ''plan.discovered_paths'',
      validateStringList (wpp_Constraints plan) 128 600 ''plan.constraints'',
      validateStringList (wpp_References plan) 256 2048 ''plan.references'',
      validateStringList (wpp_ExternalRefs plan) 256 2048 ''plan.external_refs'']"

definition validate_task :: "nat \<Rightarrow> WorkTaskPayload \<Rightarrow> check" where
  "validate_task i task =
     (let prefix = at_index ''tasks'' i in first_error
       [within (prefix @ ''.key '') (validateBoundedKey (wtp_Key task) 512),
        refuse (TrimSpace (wtp_Summary task) = '''' \<or> length (wtp_Summary task) > 600)
          (prefix @ ''.summary must be 1..600 chars''),
        validateWorkItemStatusValue (wtp_Status task) (prefix @ ''.status''),
        (case wtp_ParentTaskKey task of None \<Rightarrow> None
         | Some k \<Rightarrow> if k \<noteq> '''' then within (prefix @ ''.parent_task_key '') (validateBoundedKey k 512)
                     else None),
        validateBoundedKeyList (wtp_DependsOn task) 128 512 (prefix @ ''.depends_on''),
        validateStringList (wtp_AcceptanceCriteria task) 128 600 (prefix @ ''.acceptance_criteria''),
        validateStringList (wtp_References task) 256 2048 (prefix @ ''.references''),
        validateStringList (wtp_ExternalRefs task) 256 2048 (prefix @ ''.external_refs''),
        optional_text (wtp_BlockedReason task) 600
          (prefix @ ''.blocked_reason must be 1..600 chars when provided''),
        optional_text (wtp_Outcome task) 1600 (prefix @ ''.outcome must be 1..1600 chars when provided''),
        validateStringList (wtp_Evidence task) 128 1600 (prefix @ ''.evidence'')])"

definition validateWorkPayload :: "WorkPayload \<Rightarrow> check" where
  "validateWorkPayload p =
     (let rawPlanKey = wkp_PlanKey p; planKey = TrimSpace rawPlanKey;
          receiptID = TrimSpace (wkp_ReceiptID p); taskText = TrimSpace (wkp_TaskText p) in
      first_error
        [validateProjectID (wkp_ProjectID p),
         refuse (planKey = '''' \<and> receiptID = '''' \<and> taskText = '''')
           ''either plan_key, receipt_id, or task_text is required'',
         refuse (length (wkp_TaskText p) > 4000) ''task_text must be at most 4000 chars'',
         (if wkp_Phase p \<noteq> '''' then validatePhase (wkp_Phase p) else None),
         refuse (rawPlanKey \<noteq> '''' \<and> rawPlanKey \<noteq> planKey)
           ''plan_key must not include surrounding whitespace'',
         (if planKey \<noteq> '''' then first_error
            [validatePlanKeyFormat planKey ''plan_key'',
             refuse (receiptID \<noteq> '''' \<and> receiptID \<noteq> TrimSpace (drop 5 planKey))
               ''plan_key and receipt_id must reference the same receipt'']
          else None),
         optional_text (wkp_PlanTitle p) 200 ''plan_title must be 1..200 chars when provided'',
         refuse (receiptID \<noteq> '''' \<and> \<not> requestIDRe receiptID) ''receipt_id format is invalid'',
         refuse (wkp_Mode p \<noteq> '''' \<and> wkp_Mode p \<noteq> ''merge'' \<and> wkp_Mode p \<noteq> ''replace'')
           ''mode must be merge|replace'',
         (case wkp_Plan p of None \<Rightarrow> None | Some plan \<Rightarrow> validate_plan plan),
         refuse (length (wkp_Tasks p) > 256) ''tasks may include at most 256 entries'',
         each_entry validate_task (wkp_Tasks p),
         validateActor (wkp_Actor p)])"

definition validateVerifyPayload :: "VerifyPayload \<Rightarrow> raw_fields \<Rightarrow> check" where
  "validateVerifyPayload p given =
     (let receiptID = TrimSpace (vp_ReceiptID p); planKey = TrimSpace (vp_PlanKey p) in
      first_error
        [validateProjectID (vp_ProjectID p),
         (if receiptID \<noteq> '''' \<or> planKey \<noteq> '''' then validateReceiptOrPlanReference receiptID planKey
          else None),
         (if vp_Phase p \<noteq> '''' then validatePhase (vp_Phase p) else None),
         validateOptionalArrayField given ''test_ids'' (length (elems (vp_TestIDs p))),
         refuse (length (elems (vp_TestIDs p)) > 256) ''test_ids may include at most 256 entries'',
         validateUniqueStrings (elems (vp_TestIDs p)) ''test_ids'',
         each_entry (\<lambda>i raw. refuse (\<not> testIDRe (TrimSpace raw))
           (at_index ''test_ids'' i @ '' format is invalid'')) (elems (vp_TestIDs p)),
         validateOptionalArrayField given ''files_changed'' (length (elems (vp_FilesChanged p))),
         validateRelativePathList (vp_FilesChanged p) 4096 ''files_changed'',
         validateTestsFile (vp_TestsFile p),
         validateTagsFile (vp_TagsFile p),
         refuse (elems (vp_TestIDs p) = [] \<and> receiptID = '''' \<and> planKey = '''' \<and> vp_Phase p = '''' \<and>
             elems (vp_FilesChanged p) = []) ''test_ids or selection context is required'',
         validateActor (vp_Actor p)])"

section \<open>The payloads of reading and maintenance\<close>

definition validateFetchPayload :: "FetchPayload \<Rightarrow> raw_fields \<Rightarrow> check" where
  "validateFetchPayload p given =
     (let receiptID = TrimSpace (fp_ReceiptID p); keys = elems (fp_Keys p) in
      first_error
        [validateProjectID (fp_ProjectID p),
         validateOptionalArrayField given ''keys'' (length keys),
         refuse (keys = [] \<and> receiptID = '''') ''either keys or receipt_id is required'',
         refuse (length keys > 256) ''keys may include at most 256 entries'',
         validateUniqueStrings keys ''keys'',
         each_entry (\<lambda>i key. within (at_index ''keys'' i @ '' '') (validateBoundedKey key 512)) keys,
         refuse (receiptID \<noteq> '''' \<and> \<not> requestIDRe receiptID) ''receipt_id format is invalid'',
         refuse (length (fp_ExpectedVersions p) > 256)
           ''expected_versions may include at most 256 entries'',
         refuse (keys = [] \<and> fp_ExpectedVersions p \<noteq> []) ''expected_versions requires keys'',
         first_error (map (\<lambda>(key, version). first_error
             [within (''expected_versions key '' @ go_quote key @ '' invalid: '') (validateBoundedKey key 512),
              refuse (TrimSpace version = '''' \<or> length (TrimSpace version) > 128)
                (''expected_versions['' @ go_quote key @ ''] must be 1..128 chars'')])
           (fp_ExpectedVersions p))])"

definition normalizeHistoryEntityValue :: "string \<Rightarrow> string" where
  "normalizeHistoryEntityValue raw =
     (let s = TrimSpace raw in
      if s = HistoryEntityAll then HistoryEntityAll
      else if s = HistoryEntityReceipt then HistoryEntityReceipt
      else if s = HistoryEntityRun then HistoryEntityRun
      else if s = HistoryEntityWork then HistoryEntityWork
      else HistoryEntityAll)"

definition validateHistorySearchPayload :: "HistorySearchPayload \<Rightarrow> check" where
  "validateHistorySearchPayload p =
     (let entity = normalizeHistoryEntityValue (hp_Entity p); kind = TrimSpace (hp_Kind p) in
      first_error
        [validateProjectID (hp_ProjectID p),
         refuse (hp_Entity p \<notin> set ['''', HistoryEntityAll, HistoryEntityWork, HistoryEntityReceipt, HistoryEntityRun])
           ''entity must be all|work|receipt|run'',
         refuse (TrimSpace (hp_Query p) \<noteq> '''' \<and> length (TrimSpace (hp_Query p)) > 4000)
           ''query must be 1..4000 chars when provided'',
         (if hp_Scope p = '''' then None else first_error
            [refuse (entity \<noteq> HistoryEntityWork) ''scope is only supported when entity=work'',
             refuse (hp_Scope p \<notin> set [HistoryScopeCurrent, HistoryScopeDeferred, HistoryScopeCompleted, HistoryScopeAll])
               ''scope must be current|deferred|completed|all'']),
         (if kind = '''' then None else first_error
            [refuse (entity \<noteq> HistoryEntityWork) ''kind is only supported when entity=work'',
             refuse (length kind > 64) ''kind must be 1..64 chars when provided'',
             refuse (\<not> planKindRe kind) ''kind format is invalid'']),
         refuse (hp_Limit p \<noteq> 0 \<and> (hp_Limit p < 1 \<or> hp_Limit p > 100)) ''limit must be between 1 and 100''])"

definition validateSyncPayload :: "SyncPayload \<Rightarrow> check" where
  "validateSyncPayload p = first_error
     [validateProjectID (syp_ProjectID p),
      refuse (syp_Mode p \<notin> set ['''', ''changed'', ''full'', ''working_tree'']) ''mode must be changed|full|working_tree'',
      refuse (length (syp_GitRange p) > 200) ''git_range too long'',
      validateOptionalProjectRoot (syp_ProjectRoot p),
      validateRulesFile (syp_RulesFile p),
      validateTagsFile (syp_TagsFile p)]"

definition healthFixerStrings :: "string slice \<Rightarrow> string list" where
  "healthFixerStrings fixers = map (\<lambda>fixer. fixer) (elems fixers)"

definition validateHealthPayload :: "HealthPayload \<Rightarrow> raw_fields \<Rightarrow> check" where
  "validateHealthPayload p given =
     (let fixers = elems (hlp_Fixers p);
          isFixMode = (fixers \<noteq> [] \<or> hlp_Apply p \<noteq> None \<or> TrimSpace (hlp_ProjectRoot p) \<noteq> '''' \<or>
            TrimSpace (hlp_RulesFile p) \<noteq> '''' \<or> TrimSpace (hlp_TagsFile p) \<noteq> '''') in
      first_error
        [validateProjectID (hlp_ProjectID p),
         refuse (case hlp_MaxFindingsPerCheck p of None \<Rightarrow> False | Some n \<Rightarrow> n < 1 \<or> n > 500)
           ''max_findings_per_check must be between 1 and 500'',
         refuse (hlp_ProjectRoot p \<noteq> '''' \<and> TrimSpace (hlp_ProjectRoot p) = '''')
           ''project_root must be non-empty when provided'',
         refuse (length (hlp_ProjectRoot p) > 2048) ''project_root too long'',
         validateRulesFile (hlp_RulesFile p),
         validateTagsFile (hlp_TagsFile p),
         validateOptionalArrayField given ''fixers'' (length fixers),
         refuse (length fixers > 4) ''fixers may include at most 4 entries'',
         validateUniqueStrings (healthFixerStrings (hlp_Fixers p)) ''fixers'',
         each_entry (\<lambda>i fixer. refuse (fixer \<notin> set [HealthFixerAll, HealthFixerSyncWorkingTree,
             HealthFixerIndexUnindexedFile, HealthFixerSyncRuleset])
           (at_index ''fixers'' i @ '' is invalid'')) fixers,
         refuse (isFixMode \<and> (hlp_IncludeDetails p \<noteq> None \<or> hlp_MaxFindingsPerCheck p \<noteq> None))
           ''include_details and max_findings_per_check are only valid in health inspection mode''])"

definition validateStatusPayload :: "StatusPayload \<Rightarrow> check" where
  "validateStatusPayload p = first_error
     [validateProjectID (stp_ProjectID p),
      validateOptionalProjectRoot (stp_ProjectRoot p),
      validateRulesFile (stp_RulesFile p),
      validateTagsFile (stp_TagsFile p),
      validateTestsFile (stp_TestsFile p),
      validateWorkflowsFile (stp_WorkflowsFile p),
      refuse (length (TrimSpace (stp_TaskText p)) > 4000) ''task_text too long'',
      (if stp_Phase p \<noteq> '''' then validatePhase (stp_Phase p) else None)]"

definition validateInitPayload :: "InitPayload \<Rightarrow> raw_fields \<Rightarrow> check" where
  "validateInitPayload p given =
     (let templates = elems (inp_ApplyTemplates p) in
      first_error
        [validateProjectID (inp_ProjectID p),
         validateOptionalProjectRoot (inp_ProjectRoot p),
         validateRulesFile (inp_RulesFile p),
         validateTagsFile (inp_TagsFile p),
         (case inp_OutputCandidatesPath p of None \<Rightarrow> None
          | Some v \<Rightarrow> first_error
              [refuse (TrimSpace v = '''') ''output_candidates_path must be non-empty when provided'',
               refuse (length (TrimSpace v) > 2048) ''output_candidates_path too long'']),
         validateOptionalArrayField given ''apply_templates'' (length templates),
         validateUniqueStrings templates ''apply_templates'',
         each_entry (\<lambda>i templateID.
           within (at_index ''apply_templates'' i @ '' '') (validateBoundedKey templateID 128)) templates])"

text \<open>A selector of an export is checked as the payload of its command.\<close>

definition check_selector :: "raw_fields \<Rightarrow> string \<Rightarrow> (raw_fields \<Rightarrow> check list) \<Rightarrow> check" where
  "check_selector given name checks =
     (case rawObjectFields given name of
        Inl e \<Rightarrow> Some e
      | Inr nested \<Rightarrow> within (name @ '' '') (first_error (checks nested)))"

definition validateExportPayload :: "ExportPayload \<Rightarrow> raw_fields \<Rightarrow> check" where
  "validateExportPayload p given = first_error
     [validateProjectID (xp_ProjectID p),
      refuse (xp_Format p \<notin> set [ExportFormatJSON, ExportFormatMarkdown]) ''format must be json|markdown'',
      (case xp_Context p of None \<Rightarrow> None
       | Some c \<Rightarrow> check_selector given ''context'' (\<lambda>selectorFields.
           [validateContextPayload \<lparr> ctp_ProjectID = xp_ProjectID p, ctp_TaskText = xcs_TaskText c,
              ctp_Phase = xcs_Phase c, ctp_TagsFile = xcs_TagsFile c,
              ctp_InitialScopePaths = xcs_InitialScopePaths c, ctp_Actor = None \<rparr>,
            validateOptionalArrayField selectorFields ''initial_scope_paths''
              (length (elems (xcs_InitialScopePaths c)))])),
      (case xp_Fetch p of None \<Rightarrow> None
       | Some f \<Rightarrow> check_selector given ''fetch'' (\<lambda>selectorFields.
           [validateFetchPayload \<lparr> fp_ProjectID = xp_ProjectID p, fp_Keys = xfs_Keys f,
              fp_ReceiptID = xfs_ReceiptID f, fp_ExpectedVersions = xfs_ExpectedVersions f \<rparr>
              selectorFields])),
      (case xp_History p of None \<Rightarrow> None
       | Some h \<Rightarrow> check_selector given ''history'' (\<lambda>_.
           [validateHistorySearchPayload \<lparr> hp_ProjectID = xp_ProjectID p, hp_Entity = xhs_Entity h,
              hp_Query = xhs_Query h, hp_Scope = xhs_Scope h, hp_Kind = xhs_Kind h,
              hp_Limit = xhs_Limit h, hp_Unbounded = xhs_Unbounded h \<rparr>])),
      (case xp_Status p of None \<Rightarrow> None
       | Some st \<Rightarrow> check_selector given ''status'' (\<lambda>_.
           [validateStatusPayload \<lparr> stp_ProjectID = xp_ProjectID p, stp_ProjectRoot = xss_ProjectRoot st,
              stp_RulesFile = xss_RulesFile st, stp_TagsFile = xss_TagsFile st,
              stp_TestsFile = xss_TestsFile st, stp_WorkflowsFile = xss_WorkflowsFile st,
              stp_TaskText = xss_TaskText st, stp_Phase = xss_Phase st \<rparr>])),
      refuse ((if xp_Context p \<noteq> None then 1 else 0) + (if xp_Fetch p \<noteq> None then 1 else 0) +
          (if xp_History p \<noteq> None then 1 else 0) + (if xp_Status p \<noteq> None then 1 else 0) \<noteq> (1::nat))
        ''exactly one source selector is required'']"

section \<open>Defaults\<close>

definition normalizeValidationDefaults :: "string \<Rightarrow> string" where
  "normalizeValidationDefaults defaults = TrimSpace defaults"

definition defaultProjectID :: "string \<Rightarrow> string \<Rightarrow> string" where
  "defaultProjectID projectID defaults =
     (if TrimSpace projectID \<noteq> '''' then TrimSpace projectID else TrimSpace defaults)"

definition defaultProjectIDForRoot :: "(string \<Rightarrow> nat list) \<Rightarrow> string \<Rightarrow> string \<Rightarrow> string \<Rightarrow> string" where
  "defaultProjectIDForRoot sha256 projectID projectRoot defaults =
     (if TrimSpace projectID \<noteq> '''' then TrimSpace projectID
      else if FromRoot sha256 projectRoot \<noteq> '''' then FromRoot sha256 projectRoot
      else TrimSpace defaults)"

section \<open>The command catalog\<close>

text \<open>A decoded payload, by command.\<close>

datatype command_payload =
  PContext ContextPayload | PFetch FetchPayload | PExport ExportPayload | PDone DonePayload |
  PReview ReviewPayload | PWork WorkPayload | PHistory HistorySearchPayload | PSync SyncPayload |
  PHealth HealthPayload | PStatus StatusPayload | PVerify VerifyPayload | PInit InitPayload

text \<open>What reading JSON gives: the error text of the decoder, or the typed value.\<close>

record json_reader =
  jr_envelope :: "string \<Rightarrow> string + CommandEnvelope"
  jr_fields :: "string \<Rightarrow> string + raw_fields"
  jr_context :: "string \<Rightarrow> string + ContextPayload"
  jr_fetch :: "string \<Rightarrow> string + FetchPayload"
  jr_export :: "string \<Rightarrow> string + ExportPayload"
  jr_done :: "string \<Rightarrow> string + DonePayload"
  jr_review :: "string \<Rightarrow> string + ReviewPayload"
  jr_work :: "string \<Rightarrow> string + WorkPayload"
  jr_history :: "string \<Rightarrow> string + HistorySearchPayload"
  jr_sync :: "string \<Rightarrow> string + SyncPayload"
  jr_health :: "string \<Rightarrow> string + HealthPayload"
  jr_status :: "string \<Rightarrow> string + StatusPayload"
  jr_verify :: "string \<Rightarrow> string + VerifyPayload"
  jr_init :: "string \<Rightarrow> string + InitPayload"

definition validationError :: "string \<Rightarrow> string \<Rightarrow> ErrorPayload" where
  "validationError code message = \<lparr> ep_Code = code, ep_Message = message, ep_Source = ErrSourceValidation \<rparr>"

definition decodeValidatedCommandPayload ::
  "(string \<Rightarrow> string + 'p) \<Rightarrow> ('p \<Rightarrow> 'p) \<Rightarrow> ('p \<Rightarrow> check) \<Rightarrow> string \<Rightarrow> ErrorPayload + 'p" where
  "decodeValidatedCommandPayload decodeStrict applyDefaults validate raw =
     (case decodeStrict raw of
        Inl e \<Rightarrow> Inl (validationError ErrCodeInvalidPayload e)
      | Inr payload0 \<Rightarrow> let payload = applyDefaults payload0 in
          case validate payload of
            Some e \<Rightarrow> Inl (validationError ErrCodeInvalidPayload e)
          | None \<Rightarrow> Inr payload)"

definition decodeValidatedCommandPayloadWithFields ::
  "(string \<Rightarrow> string + 'p) \<Rightarrow> (string \<Rightarrow> string + raw_fields) \<Rightarrow> ('p \<Rightarrow> 'p) \<Rightarrow>
     ('p \<Rightarrow> raw_fields \<Rightarrow> check) \<Rightarrow> string \<Rightarrow> ErrorPayload + 'p" where
  "decodeValidatedCommandPayloadWithFields decodeStrict decodeObjectFields applyDefaults validate raw =
     (case decodeStrict raw of
        Inl e \<Rightarrow> Inl (validationError ErrCodeInvalidPayload e)
      | Inr payload0 \<Rightarrow> let payload = applyDefaults payload0 in
          case decodeObjectFields raw of
            Inl e \<Rightarrow> Inl (validationError ErrCodeInvalidPayload e)
          | Inr given \<Rightarrow>
              (case validate payload given of
                 Some e \<Rightarrow> Inl (validationError ErrCodeInvalidPayload e)
               | None \<Rightarrow> Inr payload))"

type_synonym payload_decoder =
  "json_reader \<Rightarrow> (string \<Rightarrow> nat list) \<Rightarrow> string \<Rightarrow> string \<Rightarrow> ErrorPayload + command_payload"

definition tagged :: "('p \<Rightarrow> command_payload) \<Rightarrow> ErrorPayload + 'p \<Rightarrow> ErrorPayload + command_payload" where
  "tagged c r = (case r of Inl e \<Rightarrow> Inl e | Inr p \<Rightarrow> Inr (c p))"

definition decode_context :: payload_decoder where
  "decode_context jr sha256 raw defaults = tagged PContext (decodeValidatedCommandPayload (jr_context jr)
     (\<lambda>p. p\<lparr>ctp_ProjectID := defaultProjectID (ctp_ProjectID p) defaults\<rparr>) validateContextPayload raw)"

definition decode_fetch :: payload_decoder where
  "decode_fetch jr sha256 raw defaults = tagged PFetch
     (decodeValidatedCommandPayloadWithFields (jr_fetch jr) (jr_fields jr)
       (\<lambda>p. p\<lparr>fp_ProjectID := defaultProjectID (fp_ProjectID p) defaults\<rparr>) validateFetchPayload raw)"

definition decode_export :: payload_decoder where
  "decode_export jr sha256 raw defaults = tagged PExport
     (decodeValidatedCommandPayloadWithFields (jr_export jr) (jr_fields jr)
       (\<lambda>p. p\<lparr>xp_ProjectID := (case xp_Status p of
            Some st \<Rightarrow> defaultProjectIDForRoot sha256 (xp_ProjectID p) (xss_ProjectRoot st) defaults
          | None \<Rightarrow> defaultProjectID (xp_ProjectID p) defaults)\<rparr>) validateExportPayload raw)"

definition decode_done :: payload_decoder where
  "decode_done jr sha256 raw defaults = tagged PDone
     (decodeValidatedCommandPayloadWithFields (jr_done jr) (jr_fields jr)
       (\<lambda>p. p\<lparr>dp_ProjectID := defaultProjectID (dp_ProjectID p) defaults\<rparr>) validateDonePayload raw)"

definition decode_review :: payload_decoder where
  "decode_review jr sha256 raw defaults = tagged PReview
     (decodeValidatedCommandPayloadWithFields (jr_review jr) (jr_fields jr)
       (\<lambda>p. p\<lparr>rp_ProjectID := defaultProjectID (rp_ProjectID p) defaults\<rparr>) validateReviewPayload raw)"

definition decode_work :: payload_decoder where
  "decode_work jr sha256 raw defaults = tagged PWork (decodeValidatedCommandPayload (jr_work jr)
     (\<lambda>p. p\<lparr>wkp_ProjectID := defaultProjectID (wkp_ProjectID p) defaults\<rparr>) validateWorkPayload raw)"

definition decode_history :: payload_decoder where
  "decode_history jr sha256 raw defaults = tagged PHistory (decodeValidatedCommandPayload (jr_history jr)
     (\<lambda>p. p\<lparr>hp_ProjectID := defaultProjectID (hp_ProjectID p) defaults\<rparr>) validateHistorySearchPayload raw)"

definition decode_sync :: payload_decoder where
  "decode_sync jr sha256 raw defaults = tagged PSync (decodeValidatedCommandPayload (jr_sync jr)
     (\<lambda>p. p\<lparr>syp_ProjectID := defaultProjectIDForRoot sha256 (syp_ProjectID p) (syp_ProjectRoot p) defaults\<rparr>)
     validateSyncPayload raw)"

definition decode_health :: payload_decoder where
  "decode_health jr sha256 raw defaults = tagged PHealth
     (decodeValidatedCommandPayloadWithFields (jr_health jr) (jr_fields jr)
       (\<lambda>p. p\<lparr>hlp_ProjectID := defaultProjectIDForRoot sha256 (hlp_ProjectID p) (hlp_ProjectRoot p) defaults\<rparr>)
       validateHealthPayload raw)"

definition decode_status :: payload_decoder where
  "decode_status jr sha256 raw defaults = tagged PStatus (decodeValidatedCommandPayload (jr_status jr)
     (\<lambda>p. p\<lparr>stp_ProjectID := defaultProjectIDForRoot sha256 (stp_ProjectID p) (stp_ProjectRoot p) defaults\<rparr>)
     validateStatusPayload raw)"

definition decode_verify :: payload_decoder where
  "decode_verify jr sha256 raw defaults = tagged PVerify
     (decodeValidatedCommandPayloadWithFields (jr_verify jr) (jr_fields jr)
       (\<lambda>p. p\<lparr>vp_ProjectID := defaultProjectID (vp_ProjectID p) defaults\<rparr>) validateVerifyPayload raw)"

definition decode_init :: payload_decoder where
  "decode_init jr sha256 raw defaults = tagged PInit
     (decodeValidatedCommandPayloadWithFields (jr_init jr) (jr_fields jr)
       (\<lambda>p. p\<lparr>inp_ProjectID := defaultProjectIDForRoot sha256 (inp_ProjectID p) (inp_ProjectRoot p) defaults\<rparr>)
       validateInitPayload raw)"

text \<open>The catalog, without its usage texts.\<close>

record CommandSpec =
  cs_Command :: string
  cs_CLISubcommand :: string
  cs_Group :: string
  cs_decode :: payload_decoder

definition newCommandSpec :: "string \<Rightarrow> string \<Rightarrow> string \<Rightarrow> payload_decoder \<Rightarrow> CommandSpec" where
  "newCommandSpec command cliSubcommand grp decode =
     \<lparr> cs_Command = command, cs_CLISubcommand = cliSubcommand, cs_Group = grp, cs_decode = decode \<rparr>"

definition commandCatalog :: "CommandSpec list" where
  "commandCatalog =
     [newCommandSpec CommandContext ''context'' ''workflow'' decode_context,
      newCommandSpec CommandFetch ''fetch'' ''workflow'' decode_fetch,
      newCommandSpec CommandExport ''export'' ''workflow'' decode_export,
      newCommandSpec CommandDone ''done'' ''workflow'' decode_done,
      newCommandSpec CommandReview ''review'' ''workflow'' decode_review,
      newCommandSpec CommandWork ''work'' ''workflow'' decode_work,
      newCommandSpec CommandHistorySearch ''history'' ''workflow'' decode_history,
      newCommandSpec CommandSync ''sync'' ''maintenance'' decode_sync,
      newCommandSpec CommandHealth ''health'' ''maintenance'' decode_health,
      newCommandSpec CommandStatus ''status'' ''maintenance'' decode_status,
      newCommandSpec CommandVerify ''verify'' ''maintenance'' decode_verify,
      newCommandSpec CommandInit ''init'' ''maintenance'' decode_init]"

definition buildCommandCatalogByCommand :: "CommandSpec list \<Rightarrow> string \<rightharpoonup> CommandSpec" where
  "buildCommandCatalogByCommand specs = foldl (\<lambda>out spec. out(cs_Command spec \<mapsto> spec)) Map.empty specs"

definition LookupCommandSpec :: "string \<Rightarrow> CommandSpec option" where
  "LookupCommandSpec command = buildCommandCatalogByCommand commandCatalog command"

definition LookupCommand :: "string \<Rightarrow> CommandSpec option" where
  "LookupCommand command = LookupCommandSpec command"

definition LookupCommandByCLISubcommand :: "string \<Rightarrow> CommandSpec option" where
  "LookupCommandByCLISubcommand subcommand =
     find (\<lambda>spec. cs_CLISubcommand spec = TrimSpace subcommand) commandCatalog"

definition CommandNames :: "string list" where
  "CommandNames = map cs_Command commandCatalog"

definition commandCatalogByGroup :: "CommandSpec list \<Rightarrow> string \<Rightarrow> CommandSpec list" where
  "commandCatalogByGroup specs grp = filter (\<lambda>spec. cs_Group spec = grp) specs"

definition WorkflowCommandCatalog :: "CommandSpec list" where
  "WorkflowCommandCatalog = commandCatalogByGroup commandCatalog ''workflow''"

definition MaintenanceCommandCatalog :: "CommandSpec list" where
  "MaintenanceCommandCatalog = commandCatalogByGroup commandCatalog ''maintenance''"

definition CommandFromToolName :: "string \<Rightarrow> string option" where
  "CommandFromToolName tool = map_option cs_Command (LookupCommand (TrimSpace tool))"

fun ProjectIDFromPayload :: "command_payload \<Rightarrow> string" where
  "ProjectIDFromPayload (PContext p) = TrimSpace (ctp_ProjectID p)"
| "ProjectIDFromPayload (PFetch p) = TrimSpace (fp_ProjectID p)"
| "ProjectIDFromPayload (PExport p) = TrimSpace (xp_ProjectID p)"
| "ProjectIDFromPayload (PDone p) = TrimSpace (dp_ProjectID p)"
| "ProjectIDFromPayload (PReview p) = TrimSpace (rp_ProjectID p)"
| "ProjectIDFromPayload (PWork p) = TrimSpace (wkp_ProjectID p)"
| "ProjectIDFromPayload (PHistory p) = TrimSpace (hp_ProjectID p)"
| "ProjectIDFromPayload (PSync p) = TrimSpace (syp_ProjectID p)"
| "ProjectIDFromPayload (PHealth p) = TrimSpace (hlp_ProjectID p)"
| "ProjectIDFromPayload (PStatus p) = TrimSpace (stp_ProjectID p)"
| "ProjectIDFromPayload (PVerify p) = TrimSpace (vp_ProjectID p)"
| "ProjectIDFromPayload (PInit p) = TrimSpace (inp_ProjectID p)"

definition spec_Decode :: "CommandSpec \<Rightarrow> payload_decoder" where
  "spec_Decode s jr sha256 raw defaults =
     cs_decode s jr sha256 raw (normalizeValidationDefaults defaults)"

definition DecodeAndValidateCommandWithDefaults ::
  "json_reader \<Rightarrow> (string \<Rightarrow> nat list) \<Rightarrow> string \<Rightarrow> string \<Rightarrow> ErrorPayload + (CommandEnvelope \<times> command_payload)" where
  "DecodeAndValidateCommandWithDefaults jr sha256 data defaults =
     (case jr_envelope jr data of
        Inl e \<Rightarrow> Inl (validationError ErrCodeInvalidJSON e)
      | Inr env \<Rightarrow>
          (if ce_Version env \<noteq> Version
           then Inl (validationError ErrCodeInvalidVersion ''version must be awm.v1'')
           else case LookupCommand (ce_Command env) of
             None \<Rightarrow> Inl (validationError ErrCodeInvalidCommand ''command is not recognized'')
           | Some spec \<Rightarrow>
               (if \<not> requestIDRe (ce_RequestID env)
                then Inl (validationError ErrCodeInvalidRequestID ''request_id format is invalid'')
                else if ce_Payload env = '''' \<or> ce_Payload env = ''null''
                then Inl (validationError ErrCodeInvalidPayload ''payload is required'')
                else case spec_Decode spec jr sha256 (ce_Payload env) (normalizeValidationDefaults defaults) of
                  Inl e \<Rightarrow> Inl e
                | Inr payload \<Rightarrow> Inr (env, payload))))"

definition DecodeAndValidateCommand ::
  "json_reader \<Rightarrow> (string \<Rightarrow> nat list) \<Rightarrow> string \<Rightarrow> ErrorPayload + (CommandEnvelope \<times> command_payload)" where
  "DecodeAndValidateCommand jr sha256 data = DecodeAndValidateCommandWithDefaults jr sha256 data ''''"

end
