(* ===== verification/Contract_Properties.thy ===== *)
theory Contract_Properties
  imports Contract_Validate Backend_Scope
begin

text \<open>
  What a validated command promises the service: the keys of a decoded \<open>work\<close> or \<open>done\<close> request
  resolve, no listed file is dropped by the service's own normal form, and every project id that
  is inferred from a root directory passes the validation.
\<close>

lemma request_patterns_agree: "requestIDRe s = requestIDPattern s"
proof -
  have "(is_id_char c \<or> c = CHR '':'') = is_request_char c" for c
    by (auto simp: is_id_char_def is_request_char_def isASCIIAlphaNum_def isASCIISeparator_def)
  then show ?thesis by (simp add: requestIDRe_def requestIDPattern_def)
qed

lemma refuse_None [simp]: "refuse b m = None \<longleftrightarrow> \<not> b"
  by (simp add: refuse_def)

lemma within_None [simp]: "within pre c = None \<longleftrightarrow> c = None"
  by (simp add: within_def)

lemma first_error_checks [simp]:
  "first_error (c # cs) = None \<longleftrightarrow> c = None \<and> first_error cs = None"
  by (simp add: first_error_None)

lemma each_entry_None: "each_entry f xs = None \<longleftrightarrow> (\<forall>(i, x) \<in> set (index_from 0 xs). f i x = None)"
  by (auto simp: each_entry_def first_error_None)

lemma snd_index_from: "snd ` set (index_from n xs) = set xs"
  by (induction xs arbitrary: n) auto

lemma each_entry_ok: "each_entry f xs = None \<Longrightarrow> x \<in> set xs \<Longrightarrow> \<exists>i. f i x = None"
  using snd_index_from[of 0 xs] by (force simp: each_entry_None)

lemma HasPrefix_Trim_plan: "HasPrefix k ''plan:'' \<Longrightarrow> k \<noteq> ''''"
  by (auto simp: HasPrefix_iff)

text \<open>A plan key that passes validation is one that the service can parse.\<close>

lemma plan_key_parses:
  assumes "validatePlanKeyFormat k field = None"
  shows "parsePlanFetchKey k = Some (TrimSpace (drop 5 k))" "TrimSpace k = k"
  using assms
  by (auto simp: validatePlanKeyFormat_def Let_def parsePlanFetchKey_def parse_prefixed_id_def
      request_patterns_agree eval_nat_numeral)

lemma request_id_key:
  "requestIDPattern r \<Longrightarrow> parsePlanFetchKey (''plan:'' @ r) = Some r"
  using parse_prefixed_id_roundtrip[of r "''plan:''"]
  by (simp add: parsePlanFetchKey_def ascii_graph_def)

lemma reference_resolves:
  assumes "validateReceiptOrPlanReference receiptID planKey = None"
  shows "\<exists>r k. resolveReceiptPlanSelection p receiptID planKey = Inr (r, k) \<and> requestIDPattern r"
proof (cases "TrimSpace planKey = ''''")
  case True
  then have r: "TrimSpace receiptID \<noteq> ''''" "requestIDPattern (TrimSpace receiptID)"
    using assms by (auto simp: validateReceiptOrPlanReference_def Let_def request_patterns_agree)
  then show ?thesis
    using True request_id_key[OF r(2)]
    by (simp add: resolveReceiptPlanSelection_def Let_def)
next
  case False
  then have k: "validatePlanKeyFormat (TrimSpace planKey) ''plan_key'' = None"
    and same: "TrimSpace receiptID = '''' \<or> TrimSpace receiptID = TrimSpace (drop 5 (TrimSpace planKey))"
    using assms by (auto simp: validateReceiptOrPlanReference_def Let_def)
  have "requestIDPattern (TrimSpace (drop 5 (TrimSpace planKey)))"
    using k by (simp add: validatePlanKeyFormat_def Let_def request_patterns_agree)
  then show ?thesis
    using False same plan_key_parses(1)[OF k] by (auto simp: resolveReceiptPlanSelection_def Let_def)
qed

lemma work_reference_resolves:
  assumes "validateWorkPayload p = None"
  shows "(\<exists>k r. resolve_work_key p = Inr (Some (k, r)) \<and> parsePlanFetchKey k = Some r) \<or>
    resolve_work_key p = Inr None \<and> TrimSpace (wkp_TaskText p) \<noteq> ''''"
proof (cases "TrimSpace (wkp_PlanKey p) = ''''")
  case True
  then show ?thesis
    using assms request_id_key[of "TrimSpace (wkp_ReceiptID p)"]
    by (auto simp: validateWorkPayload_def Let_def request_patterns_agree resolve_work_key_def)
next
  case False
  then have k: "validatePlanKeyFormat (TrimSpace (wkp_PlanKey p)) ''plan_key'' = None"
    using assms by (simp add: validateWorkPayload_def Let_def)
  show ?thesis
    using assms False plan_key_parses[OF k]
    by (auto simp: validateWorkPayload_def Let_def resolve_work_key_def)
qed

section \<open>Paths\<close>

lemma relative_path_kept:
  assumes "validateRelativePath raw = None"
  shows "normalizeCompletionPath raw \<noteq> ''''"
proof -
  have "\<not> isWindowsAbsolutePath v" if "\<not> (length v \<ge> 3 \<and> v ! 1 = CHR '':'' \<and> v ! 2 = CHR ''/'')" for v
    using that by (auto simp: isWindowsAbsolutePath_def split: list.split)
  then show ?thesis
    using assms path_Clean_not_Nil
    by (auto simp: validateRelativePath_def Let_def normalizeCompletionPath_def)
qed

section \<open>The decoder\<close>

lemma decode_validated:
  "decodeValidatedCommandPayload d f v raw = Inr p \<Longrightarrow> v p = None"
  "decodeValidatedCommandPayloadWithFields d flds f w raw = Inr p \<Longrightarrow> \<exists>given. w p given = None"
  by (auto simp: decodeValidatedCommandPayload_def decodeValidatedCommandPayloadWithFields_def Let_def
      split: sum.splits option.splits)

lemma tagged_Inr: "tagged c r = Inr q \<longleftrightarrow> (\<exists>p. r = Inr p \<and> q = c p)"
  by (auto simp: tagged_def split: sum.splits)

lemmas decoder_defs = decode_context_def decode_fetch_def decode_export_def decode_done_def
  decode_review_def decode_work_def decode_history_def decode_sync_def decode_health_def
  decode_status_def decode_verify_def decode_init_def

lemma catalog_decoder:
  assumes "LookupCommand c = Some spec"
  shows "cs_decode spec \<in> {decode_context, decode_fetch, decode_export, decode_done, decode_review,
    decode_work, decode_history, decode_sync, decode_health, decode_status, decode_verify, decode_init}"
  using assms
  by (auto simp: LookupCommand_def LookupCommandSpec_def buildCommandCatalogByCommand_def
      commandCatalog_def newCommandSpec_def split: if_splits)

lemma decoded:
  assumes "DecodeAndValidateCommandWithDefaults jr sha256 data d = Inr (env, q)"
  obtains spec where "LookupCommand (ce_Command env) = Some spec" "requestIDPattern (ce_RequestID env)"
    "cs_decode spec jr sha256 (ce_Payload env) (TrimSpace (TrimSpace d)) = Inr q"
  using assms
  by (auto simp: DecodeAndValidateCommandWithDefaults_def spec_Decode_def normalizeValidationDefaults_def
      request_patterns_agree split: sum.splits option.splits if_splits)

lemma decoded_work:
  assumes "DecodeAndValidateCommandWithDefaults jr sha256 data d = Inr (env, PWork p)"
  shows "requestIDPattern (ce_RequestID env) \<and> validateWorkPayload p = None"
proof -
  obtain spec where s: "LookupCommand (ce_Command env) = Some spec" "requestIDPattern (ce_RequestID env)"
    "cs_decode spec jr sha256 (ce_Payload env) (TrimSpace (TrimSpace d)) = Inr (PWork p)"
    using assms by (rule decoded)
  then have "validateWorkPayload p = None"
    using catalog_decoder[OF s(1)] decode_validated(1) by (auto simp: decoder_defs tagged_Inr)
  then show ?thesis using s(2) by simp
qed

lemma decoded_done:
  assumes "DecodeAndValidateCommandWithDefaults jr sha256 data d = Inr (env, PDone p)"
  shows "requestIDPattern (ce_RequestID env) \<and> (\<exists>given. validateDonePayload p given = None)"
proof -
  obtain spec where s: "LookupCommand (ce_Command env) = Some spec" "requestIDPattern (ce_RequestID env)"
    "cs_decode spec jr sha256 (ce_Payload env) (TrimSpace (TrimSpace d)) = Inr (PDone p)"
    using assms by (rule decoded)
  then have "\<exists>given. validateDonePayload p given = None"
    using catalog_decoder[OF s(1)] decode_validated(2) by (auto simp: decoder_defs tagged_Inr)
  then show ?thesis using s(2) by simp
qed

section \<open>Properties\<close>


definition sample_work_payload :: WorkPayload where
  "sample_work_payload =
     \<lparr> wkp_ProjectID = '''', wkp_PlanKey = ''plan:receipt-1'', wkp_PlanTitle = ''Title'',
       wkp_ReceiptID = '' receipt-1'', wkp_Mode = ''merge'', wkp_Plan = None,
       wkp_Tasks = [\<lparr> wtp_Key = ''t1'', wtp_Summary = ''Do it'', wtp_Status = ''pending'',
         wtp_ParentTaskKey = None, wtp_DependsOn = None, wtp_AcceptanceCriteria = None,
         wtp_References = None, wtp_ExternalRefs = None, wtp_BlockedReason = '''', wtp_Outcome = '''',
         wtp_Evidence = None \<rparr>],
       wkp_Actor = None, wkp_TaskText = '''', wkp_Phase = '''' \<rparr>"

definition sample_done_payload :: DonePayload where
  "sample_done_payload =
     \<lparr> dp_ProjectID = ''proj'', dp_ReceiptID = ''receipt-1'', dp_PlanKey = '''', dp_TagsFile = '''',
       dp_FilesChanged = Some [''src/./a.go'', ''b.go''], dp_NoFileChanges = False,
       dp_Outcome = ''done'', dp_ScopeMode = ''strict'', dp_Actor = None \<rparr>"

text \<open>A reader whose envelope names the command that the text spells.\<close>

definition sample_reader :: json_reader where
  "sample_reader =
     \<lparr> jr_envelope = (\<lambda>data. Inr \<lparr> ce_Version = ''awm.v1'', ce_Command = data,
         ce_RequestID = ''request-1'', ce_Payload = ''{}'' \<rparr>),
       jr_fields = (\<lambda>_. Inr [(''files_changed'', RawOther)]), jr_context = (\<lambda>_. Inl ''unused''),
       jr_fetch = (\<lambda>_. Inl ''unused''), jr_export = (\<lambda>_. Inl ''unused''),
       jr_done = (\<lambda>_. Inr sample_done_payload), jr_review = (\<lambda>_. Inl ''unused''),
       jr_work = (\<lambda>_. Inr sample_work_payload), jr_history = (\<lambda>_. Inl ''unused''),
       jr_sync = (\<lambda>_. Inl ''unused''), jr_health = (\<lambda>_. Inl ''unused''),
       jr_status = (\<lambda>_. Inl ''unused''), jr_verify = (\<lambda>_. Inl ''unused''), jr_init = (\<lambda>_. Inl ''unused'') \<rparr>"

lemma sample_work_decoded:
  "\<exists>env. DecodeAndValidateCommandWithDefaults sample_reader (\<lambda>_. []) ''work'' '' proj'' =
     Inr (env, PWork (sample_work_payload\<lparr>wkp_ProjectID := ''proj''\<rparr>))"
proof -
  have "case DecodeAndValidateCommandWithDefaults sample_reader (\<lambda>_. []) ''work'' '' proj'' of
      Inl _ \<Rightarrow> False | Inr (_, q) \<Rightarrow> q = PWork (sample_work_payload\<lparr>wkp_ProjectID := ''proj''\<rparr>)"
    by code_simp
  then show ?thesis by (auto split: sum.splits)
qed

lemma sample_done_decoded:
  "\<exists>env. DecodeAndValidateCommandWithDefaults sample_reader (\<lambda>_. []) ''done'' '''' =
     Inr (env, PDone sample_done_payload)"
proof -
  have "case DecodeAndValidateCommandWithDefaults sample_reader (\<lambda>_. []) ''done'' '''' of
      Inl _ \<Rightarrow> False | Inr (_, q) \<Rightarrow> q = PDone sample_done_payload"
    by code_simp
  then show ?thesis by (auto split: sum.splits)
qed


text \<open>A decoded \<open>done\<close> request names a receipt that resolves, and none of its files is
  dropped when the service normalizes them.\<close>

theorem decoded_done_resolves:
  assumes "DecodeAndValidateCommandWithDefaults jr sha256 data d = Inr (env, PDone p)"
  shows "(\<exists>r k. resolveReceiptPlanSelection (dp_ProjectID p) (dp_ReceiptID p) (dp_PlanKey p) = Inr (r, k) \<and>
      requestIDPattern r) \<and>
    (\<forall>f \<in> set (elems (dp_FilesChanged p)). normalizeCompletionPath f \<noteq> '''' \<and>
      normalizeCompletionPath f \<in> set (elems (normalizeCompletionPaths (dp_FilesChanged p))))"
proof -
  obtain given where v: "validateDonePayload p given = None" using decoded_done[OF assms] by blast
  have "normalizeCompletionPath f \<noteq> ''''" if "f \<in> set (elems (dp_FilesChanged p))" for f
  proof -
    have "each_entry (\<lambda>i value. within (at_index ''files_changed'' i @ '' '') (validateRelativePath value))
        (elems (dp_FilesChanged p)) = None"
      using v by (simp add: validateDonePayload_def validateRelativePathList_def)
    from each_entry_ok[OF this that] show ?thesis using relative_path_kept by simp
  qed
  moreover have "validateReceiptOrPlanReference (dp_ReceiptID p) (dp_PlanKey p) = None"
    using v by (simp add: validateDonePayload_def)
  ultimately show ?thesis
    using reference_resolves by (simp add: set_normalizeCompletionPaths)
qed

theorem decoded_done_resolves_witness:
  "\<exists>r k. resolveReceiptPlanSelection ''proj'' ''receipt-1'' '''' = Inr (r, k) \<and> requestIDPattern r"
  using sample_done_decoded decoded_done_resolves by (force simp: sample_done_payload_def)

text \<open>C39: A project id that is inferred from a root directory always passes the validation, whatever
  the directory is called and whatever the hash function returns.\<close>

theorem inferred_project_id_valid:
  "FromRoot sha256 root = '''' \<or>
     validateProjectID (defaultProjectIDForRoot sha256 '''' root defaults) = None"
  using FromRoot_valid[of sha256 root]
  by (auto simp: validateProjectID_def defaultProjectIDForRoot_def)

text \<open>C40: A plan key with a blank after its prefix is accepted, although the published schema of the
  contract (\<open>spec/v1/shared.schema.json\<close>) excludes it. It names the same receipt as the key without
  the blank, but \<open>work\<close> takes it as it is, so that the plan is stored under a key of its own.\<close>

theorem spaced_plan_key_accepted:
  assumes "requestIDPattern r" "wkp_PlanKey p = ''plan: '' @ r" "wkp_ReceiptID p = ''''"
  shows "validatePlanKeyFormat (wkp_PlanKey p) ''plan_key'' = None \<and>
    resolve_work_key p = Inr (Some (''plan: '' @ r, r)) \<and>
    resolve_work_key (p\<lparr>wkp_PlanKey := ''plan:'' @ r\<rparr>) = Inr (Some (''plan:'' @ r, r)) \<and>
    ''plan: '' @ r \<noteq> ''plan:'' @ r"
proof -
  have r: "list_all ascii_graph r" "r \<noteq> ''''" "TrimSpace r = r" "length r \<le> 128"
    using request_id_graph[OF assms(1)] request_id_Trim[OF assms(1)] assms(1)
    by (simp_all add: requestIDPattern_def match_class_def)
  have fixed: "TrimSpace (''plan: '' @ r) = ''plan: '' @ r" "TrimSpace (''plan:'' @ r) = ''plan:'' @ r"
    using r(1,2) by (intro TrimSpace_graph; simp add: ascii_graph_def list_all_iff)+
  have lead: "TrimSpace ('' '' @ r) = r"
    using r(2,3) by (cases r rule: list.exhaust; cases "tl r") (auto simp: TrimSpace_def is_space1_def)
  have bound: "validateBoundedKey (''plan: '' @ r) 256 = None"
    using r(4) fixed(1) by (simp add: validateBoundedKey_def)
  have parse: "parsePlanFetchKey (''plan: '' @ r) = Some r"
    using fixed(1) lead assms(1) by (simp add: parsePlanFetchKey_def parse_prefixed_id_def Let_def)
  show ?thesis
    using assms fixed lead bound parse request_id_key[OF assms(1)] r(2)
    by (simp add: validatePlanKeyFormat_def Let_def request_patterns_agree resolve_work_key_def)
qed

theorem spaced_plan_key_accepted_witness:
  "resolve_work_key (sample_work_payload\<lparr>wkp_PlanKey := ''plan: receipt-1'', wkp_ReceiptID := ''''\<rparr>) =
     Inr (Some (''plan: receipt-1'', ''receipt-1''))"
proof -
  have "requestIDPattern ''receipt-1''" by code_simp
  then show ?thesis
    using spaced_plan_key_accepted[of "''receipt-1''"
      "sample_work_payload\<lparr>wkp_PlanKey := ''plan: receipt-1'', wkp_ReceiptID := ''''\<rparr>"] by simp
qed

end
