(* ===== verification/Sqlite_History.thy ===== *)
theory Sqlite_History
  imports Sqlite_Receipts Go_Runes
begin

text \<open>
  The lists of \<open>internal/adapters/sqlite/repository.go\<close>: \<open>ListWorkPlans\<close>, \<open>ListReceiptHistory\<close>,
  \<open>ListRunHistory\<close> and \<open>LookupRunHistory\<close>, with the SQL that they search by. SQLite's \<open>LOWER\<close> and
  \<open>LIKE\<close> fold the case of ASCII letters only. The search pattern is built with Go's \<open>ToLower\<close>, of
  which the model is exact on ASCII queries.
\<close>

section \<open>Searching\<close>

definition sql_lower :: "string \<Rightarrow> string" where
  "sql_lower s = map lower_char s"

text \<open>\<open>LIKE p ESCAPE '\'\<close>: \<open>%\<close> is any text, \<open>_\<close> one character, a backslash makes the next
  character literal.\<close>

function sql_like :: "string \<Rightarrow> string \<Rightarrow> bool" where
  "sql_like p s =
     (case p of
        [] \<Rightarrow> s = []
      | c # q \<Rightarrow>
          (if c = CHR 0x5C then
             (case (q, s) of
                (e # q', x # t) \<Rightarrow> lower_char x = lower_char e \<and> sql_like q' t
              | _ \<Rightarrow> False)
           else if c = CHR ''%'' then list_ex (\<lambda>n. sql_like q (drop n s)) [0..<Suc (length s)]
           else case s of
               [] \<Rightarrow> False
             | x # t \<Rightarrow>
                 (if c = CHR ''_''
                  then sql_like q (if byte x < 0xC0 then t
                                   else dropWhile (\<lambda>y. 0x80 \<le> byte y \<and> byte y < 0xC0) t)
                  else lower_char x = lower_char c \<and> sql_like q t)))"
  by auto
termination by (relation "measure (\<lambda>(p, s). length p)") auto

declare sql_like.simps [simp del]

definition search_hit :: "string \<Rightarrow> string list \<Rightarrow> bool" where
  "search_hit searchPattern columns \<longleftrightarrow> list_ex (\<lambda>col. sql_like searchPattern (sql_lower col)) columns"

text \<open>The first \<open>limit\<close> rows, unless the query is unbounded.\<close>

definition limited :: "int \<Rightarrow> bool \<Rightarrow> int \<Rightarrow> 'a list \<Rightarrow> 'a list" where
  "limited dflt unbounded limit rows =
     (if unbounded then rows
      else take (nat (if limit \<le> 0 then dflt else if limit > 100 then 100 else limit)) rows)"

section \<open>Work plans\<close>

definition plan_status_in_scope :: "string \<Rightarrow> string \<Rightarrow> bool" where
  "plan_status_in_scope scope status \<longleftrightarrow>
     (if scope = ''current'' then status \<in> set [''pending'', ''in_progress'']
      else if scope = ''deferred'' then status = ''blocked''
      else if scope = ''completed'' then status \<in> set [''complete'', ''superseded'']
      else True)"

definition plan_search_hit :: "string \<Rightarrow> string \<Rightarrow> string \<Rightarrow> plan_row \<Rightarrow> task_row list \<Rightarrow> string list \<Rightarrow> bool" where
  "plan_search_hit searchPattern projectID planKey row tasks taskKeys \<longleftrightarrow>
     search_hit searchPattern
       [planKey, (case pr_receipt_id row of None \<Rightarrow> '''' | Some r \<Rightarrow> r), wp_Title (pr_plan row),
        wp_Objective (pr_plan row), wp_Kind (pr_plan row), wp_ParentPlanKey (pr_plan row)] \<or>
     list_ex (\<lambda>(k, t). search_hit searchPattern
        [k, wi_Summary (tr_task t), wi_Outcome (tr_task t), wi_BlockedReason (tr_task t)])
       (zip taskKeys tasks)"

definition tasks_of_plan :: "string \<Rightarrow> string \<Rightarrow> db \<Rightarrow> (string \<times> task_row) list" where
  "tasks_of_plan projectID planKey s =
     map (\<lambda>((p, k, t), row). (t, row)) (filter (\<lambda>((p, k, t), row). p = projectID \<and> k = planKey) (db_tasks s))"

text \<open>The selected rows, ordered and limited.\<close>

definition work_plan_rows :: "WorkPlanListQuery \<Rightarrow> string \<Rightarrow> db \<Rightarrow> (string \<times> plan_row) list" where
  "work_plan_rows input projectID s =
     (let scope = NormalizeWorkPlanListScope (wlq_Scope input);
          searchPattern = WorkPlanListSearchPattern (wlq_Query input);
          trimmedKind = TrimSpace (wlq_Kind input);
          rows = filter (\<lambda>(planKey, row).
            plan_status_in_scope scope (wp_Status (pr_plan row)) \<and>
            (trimmedKind = '''' \<or> wp_Kind (pr_plan row) = trimmedKind) \<and>
            (searchPattern = '''' \<or>
             plan_search_hit searchPattern projectID planKey row
               (map snd (tasks_of_plan projectID planKey s)) (map fst (tasks_of_plan projectID planKey s))))
            (map (\<lambda>((p, k), row). (k, row)) (filter (\<lambda>((p, k), row). p = projectID) (db_plans s)))
      in limited 8 (wlq_Unbounded input) (wlq_Limit input)
           (sort_key (\<lambda>(k, row). (- pr_updated_at row, k)) rows))"

definition count_status :: "string \<Rightarrow> (string \<times> task_row) list \<Rightarrow> int" where
  "count_status status tasks = int (length (filter (\<lambda>(_, t). wi_Status (tr_task t) = status) tasks))"

definition plan_summary_of :: "db \<Rightarrow> string \<Rightarrow> string \<times> plan_row \<Rightarrow> WorkPlanSummary" where
  "plan_summary_of s projectID = (\<lambda>(k, row).
     let planKey = TrimSpace k;
         plan = pr_plan row;
         tasks = tasks_of_plan projectID k s;
         normalizedStatus = NormalizeWorkItemStatus (wp_Status plan);
         summary0 = TrimSpace (wp_Title plan);
         summary1 = (if summary0 = '''' then TrimSpace (wp_Objective plan) else summary0);
         summary2 = (if summary1 = '''' then ''Plan '' @ planKey @ '' is '' @ normalizedStatus else summary1);
         total = length tasks;
         summary = (if total > 0 then summary2 @ '' ('' @ itoa_nat total @ '' tasks)'' else summary2)
     in \<lparr> wsm_ReceiptID = TrimSpace (case pr_receipt_id row of None \<Rightarrow> '''' | Some r \<Rightarrow> r),
          wsm_Title = TrimSpace (wp_Title plan), wsm_Objective = TrimSpace (wp_Objective plan),
          wsm_PlanKey = planKey, wsm_Summary = summary, wsm_Status = normalizedStatus,
          wsm_Kind = TrimSpace (wp_Kind plan), wsm_ParentPlanKey = TrimSpace (wp_ParentPlanKey plan),
          wsm_ActiveTaskKeys = None, wsm_TaskCountTotal = int total,
          wsm_TaskCountPending = count_status ''pending'' tasks,
          wsm_TaskCountInProgress = count_status ''in_progress'' tasks,
          wsm_TaskCountBlocked = count_status ''blocked'' tasks,
          wsm_TaskCountComplete = count_status ''complete'' tasks,
          wsm_UpdatedAt = unixTime (pr_updated_at row) \<rparr>)"

definition active_rank :: "string \<Rightarrow> nat" where
  "active_rank status =
     (if status = ''blocked'' then 0 else if status = ''in_progress'' then 1
      else if status = ''pending'' then 2 else 3)"

definition active_task_keys :: "db \<Rightarrow> string \<Rightarrow> string list \<Rightarrow> string \<Rightarrow> string list" where
  "active_task_keys s projectID planKeys planKey =
     filter (\<lambda>t. t \<noteq> '''') (map (\<lambda>((p, k, t), row). TrimSpace t)
       (sort_key (\<lambda>((p, k, t), row). (k, active_rank (wi_Status (tr_task row)), t))
         (filter (\<lambda>((p, k, t), row). p = projectID \<and> k \<in> set planKeys \<and> TrimSpace k = planKey \<and>
              wi_Status (tr_task row) \<notin> set [''complete'', ''superseded''])
           (db_tasks s))))"

definition listActiveWorkPlanTaskKeys :: "string \<Rightarrow> string list \<Rightarrow> (string \<Rightarrow> string list) db_op" where
  "listActiveWorkPlanTaskKeys projectID planKeys =
     (if planKeys = [] then ret_db (\<lambda>_. [])
      else bind_db (db_call ''query active work plan task keys'') (\<lambda>_.
        get_db (\<lambda>s. active_task_keys s projectID planKeys)))"

text \<open>A NULL \<open>receipt_id\<close> cannot be scanned into the string of the code.\<close>

definition ListWorkPlans :: "WorkPlanListQuery \<Rightarrow> WorkPlanSummary list db_op" where
  "ListWorkPlans input =
     (let projectID = TrimSpace (wlq_ProjectID input) in
      if projectID = '''' then fail_db (GoErr ''project_id is required'')
      else bind_db (db_call ''query work plans'') (\<lambda>_.
        bind_db (get_db (\<lambda>s. (work_plan_rows input projectID s, s))) (\<lambda>(rows, s).
        if list_ex (\<lambda>(_, row). pr_receipt_id row = None) rows
        then fail_db (ErrDB ''scan work plan summary'')
        else let out = map (plan_summary_of s projectID) (filter (\<lambda>(k, _). TrimSpace k \<noteq> '''') rows) in
          if out = [] then ret_db []
          else bind_db (listActiveWorkPlanTaskKeys projectID (map wsm_PlanKey out)) (\<lambda>active.
            ret_db (map (\<lambda>w. let ks = active (wsm_PlanKey w) in
              w\<lparr>wsm_ActiveTaskKeys := (if ks = [] then None else Some ks)\<rparr>) out)))))"

section \<open>Receipts and runs\<close>

text \<open>The JSON columns of a run, as they were written. \<open>json_extract\<close> gives the outcome back.\<close>

definition files_changed_json :: "run_row \<Rightarrow> string" where
  "files_changed_json row = json_list (elems (nr_files_changed row))"

definition run_summary_json :: "run_row \<Rightarrow> string" where
  "run_summary_json row =
     ''{'' @ join '',''
       ((if nr_request_id row = '''' then [] else [json_field ''request_id'' (json_string (nr_request_id row))]) @
        [json_field ''status'' (json_string (nr_status row))] @
        (if elems (nr_files_changed row) = [] then []
         else [json_field ''files_changed'' (json_list (elems (nr_files_changed row)))]) @
        (if elems (nr_dod_issues row) = [] then []
         else [json_field ''definition_of_done_issues'' (json_list (elems (nr_dod_issues row)))]) @
        (if nr_outcome row = '''' then [] else [json_field ''outcome'' (json_string (nr_outcome row))])) @
     ''}''"

definition receipt_search_hit :: "string \<Rightarrow> string \<Rightarrow> receipt_row \<Rightarrow> run_row list \<Rightarrow> bool" where
  "receipt_search_hit searchPattern receiptID row runs \<longleftrightarrow>
     search_hit searchPattern [receiptID, rr_task_text row, rr_phase row] \<or>
     list_ex (\<lambda>run. search_hit searchPattern
       [nr_request_id run, nr_status run, nr_outcome run, nr_outcome run, files_changed_json run]) runs"

definition runs_of_receipt :: "string \<Rightarrow> string \<Rightarrow> db \<Rightarrow> run_row list" where
  "runs_of_receipt projectID receiptID s =
     filter (\<lambda>r. nr_project_id r = projectID \<and> nr_receipt_id r = receiptID) (db_runs s)"

definition receipt_updated_at :: "string \<Rightarrow> db \<Rightarrow> string \<Rightarrow> receipt_row \<Rightarrow> int" where
  "receipt_updated_at projectID s receiptID row =
     (case latest_run projectID receiptID s of None \<Rightarrow> rr_created_at row | Some run \<Rightarrow> nr_created_at run)"

definition receipt_rows :: "ReceiptHistoryListQuery \<Rightarrow> string \<Rightarrow> db \<Rightarrow> (string \<times> receipt_row) list" where
  "receipt_rows input projectID s =
     (let searchPattern = WorkPlanListSearchPattern (rhq_Query input);
          rows = filter (\<lambda>(receiptID, row). rr_project_id row = projectID \<and>
            (searchPattern = '''' \<or>
             receipt_search_hit searchPattern receiptID row (runs_of_receipt projectID receiptID s)))
            (db_receipts s)
      in limited 20 (rhq_Unbounded input) (rhq_Limit input)
           (sort_key (\<lambda>(receiptID, row). (- receipt_updated_at projectID s receiptID row, receiptID)) rows))"

definition receipt_summary_of :: "string \<Rightarrow> db \<Rightarrow> string \<times> receipt_row \<Rightarrow> ReceiptHistorySummary" where
  "receipt_summary_of projectID s = (\<lambda>(receiptID, row).
     let run = latest_run projectID receiptID s in
     \<lparr> rhs_ReceiptID = TrimSpace receiptID, rhs_TaskText = TrimSpace (rr_task_text row),
       rhs_Phase = TrimSpace (rr_phase row),
       rhs_LatestRequestID = TrimSpace (case run of None \<Rightarrow> '''' | Some r \<Rightarrow> nr_request_id r),
       rhs_LatestStatus = TrimSpace (case run of None \<Rightarrow> '''' | Some r \<Rightarrow> nr_status r),
       rhs_UpdatedAt = unixTime (receipt_updated_at projectID s receiptID row) \<rparr>)"

definition ListReceiptHistory :: "ReceiptHistoryListQuery \<Rightarrow> ReceiptHistorySummary list db_op" where
  "ListReceiptHistory input =
     (let projectID = TrimSpace (rhq_ProjectID input) in
      if projectID = '''' then fail_db (GoErr ''project_id is required'')
      else bind_db (db_call ''query receipt history'') (\<lambda>_.
        get_db (\<lambda>s. map (receipt_summary_of projectID s)
          (filter (\<lambda>(receiptID, _). TrimSpace receiptID \<noteq> '''') (receipt_rows input projectID s)))))"

text \<open>The receipt that a run is joined with: that of the run's project.\<close>

definition receipt_of_run :: "db \<Rightarrow> run_row \<Rightarrow> string \<times> string" where
  "receipt_of_run s run =
     (case map_of (db_receipts s) (nr_receipt_id run) of
        Some row \<Rightarrow> (if rr_project_id row = nr_project_id run then (rr_task_text row, rr_phase row) else ('''', ''''))
      | None \<Rightarrow> ('''', ''''))"

definition run_summary_of :: "db \<Rightarrow> run_row \<Rightarrow> RunHistorySummary" where
  "run_summary_of s run =
     \<lparr> uhs_RunID = nr_run_id run, uhs_ReceiptID = TrimSpace (nr_receipt_id run),
       uhs_RequestID = TrimSpace (nr_request_id run),
       uhs_TaskText = TrimSpace (fst (receipt_of_run s run)),
       uhs_Phase = TrimSpace (snd (receipt_of_run s run)), uhs_Status = TrimSpace (nr_status run),
       uhs_FilesChanged = decodeStringList (nr_files_changed run),
       uhs_Outcome = TrimSpace (nr_outcome run), uhs_UpdatedAt = unixTime (nr_created_at run),
       uhs_Actor = nr_actor run, uhs_VCS = nr_vcs run \<rparr>"

definition run_rows :: "RunHistoryListQuery \<Rightarrow> string \<Rightarrow> db \<Rightarrow> run_row list" where
  "run_rows input projectID s =
     (let searchPattern = WorkPlanListSearchPattern (unq_Query input);
          rows = filter (\<lambda>run. nr_project_id run = projectID \<and>
            (searchPattern = '''' \<or> search_hit searchPattern
               [nr_request_id run, nr_status run, nr_outcome run, files_changed_json run,
                run_summary_json run, fst (receipt_of_run s run), snd (receipt_of_run s run),
                nr_receipt_id run])) (db_runs s)
      in limited 20 (unq_Unbounded input) (unq_Limit input)
           (sort_key (\<lambda>run. (- nr_created_at run, - nr_run_id run)) rows))"

definition ListRunHistory :: "RunHistoryListQuery \<Rightarrow> RunHistorySummary list db_op" where
  "ListRunHistory input =
     (let projectID = TrimSpace (unq_ProjectID input) in
      if projectID = '''' then fail_db (GoErr ''project_id is required'')
      else bind_db (db_call ''query run history'') (\<lambda>_.
        get_db (\<lambda>s. filter (\<lambda>row. \<not> uhs_RunID row \<le> 0)
          (map (run_summary_of s) (run_rows input projectID s)))))"

definition LookupRunHistory :: "RunHistoryLookupQuery \<Rightarrow> RunHistorySummary db_op" where
  "LookupRunHistory input =
     (let projectID = TrimSpace (ulq_ProjectID input) in
      if projectID = '''' then fail_db (GoErr ''project_id is required'')
      else if ulq_RunID input \<le> 0 then fail_db (GoErr ''run_id must be positive'')
      else bind_db (db_call ''query run history lookup'') (\<lambda>_.
        bind_db (get_db (\<lambda>s. (find (\<lambda>r. nr_project_id r = projectID \<and> nr_run_id r = ulq_RunID input)
            (db_runs s), s))) (\<lambda>(found, s).
        case found of
          None \<Rightarrow> fail_db ErrFetchLookupNotFound
        | Some run \<Rightarrow> ret_db (run_summary_of s run))))"

end
