(* ===== verification/Go_Time.thy ===== *)
theory Go_Time
  imports Go_Strings
begin

text \<open>
  What the program uses of package \<open>time\<close>: \<open>UTC().String()\<close>, \<open>Format(time.RFC3339)\<close> in UTC and
  \<open>time.Parse(time.RFC3339, s)\<close> of the texts that this format produces. A time is the number of
  nanoseconds since the zero time, January 1 of year 1, and is not negative. The year is found by
  cutting off cycles of 400, 100, 4 and 1 years.
\<close>

section \<open>Dates\<close>

definition is_leap :: "int \<Rightarrow> bool" where
  "is_leap y \<longleftrightarrow> y mod 4 = 0 \<and> (y mod 100 \<noteq> 0 \<or> y mod 400 = 0)"

text \<open>The days before January 1 of year \<open>y\<close>.\<close>

definition days_before :: "int \<Rightarrow> int" where
  "days_before y = 365 * (y - 1) + (y - 1) div 4 - (y - 1) div 100 + (y - 1) div 400"

text \<open>The year of a day, and the day in the year.\<close>

definition year_and_day :: "int \<Rightarrow> int \<times> int" where
  "year_and_day d =
     (let n400 = d div 146097; d1 = d - 146097 * n400;
          n100 = d1 div 36524; n100 = n100 - n100 div 4; d2 = d1 - 36524 * n100;
          n4 = d2 div 1461; d3 = d2 - 1461 * n4;
          n1 = d3 div 365; n1 = n1 - n1 div 4
      in (400 * n400 + 100 * n100 + 4 * n4 + n1 + 1, d3 - 365 * n1))"

definition month_lengths :: "int \<Rightarrow> int list" where
  "month_lengths y = [31, if is_leap y then 29 else 28, 31, 30, 31, 30, 31, 31, 30, 31, 30, 31]"

fun split_month :: "int list \<Rightarrow> int \<Rightarrow> nat \<times> int" where
  "split_month [] n = (0, n)"
| "split_month (l # ls) n =
     (if n < l then (0, n) else let (m, d) = split_month ls (n - l) in (Suc m, d))"

section \<open>Texts\<close>

definition digit_at :: "int \<Rightarrow> int \<Rightarrow> char" where
  "digit_at unit k = digit_char (nat (k div unit mod 10))"

definition pad2 :: "int \<Rightarrow> string" where
  "pad2 k = [digit_at 10 k, digit_at 1 k]"

definition pad_year :: "int \<Rightarrow> string" where
  "pad_year k = (if k \<le> 9999 then [digit_at 1000 k, digit_at 100 k, digit_at 10 k, digit_at 1 k] else itoa k)"

definition date_text :: "int \<Rightarrow> string" where
  "date_text day =
     (let (y, yday) = year_and_day day; (m, d) = split_month (month_lengths y) yday
      in pad_year y @ ''-'' @ pad2 (int m + 1) @ ''-'' @ pad2 (d + 1))"

definition clock_text :: "int \<Rightarrow> string" where
  "clock_text sec = pad2 (sec div 3600) @ '':'' @ pad2 (sec div 60 mod 60) @ '':'' @ pad2 (sec mod 60)"

definition format_RFC3339 :: "int \<Rightarrow> string" where
  "format_RFC3339 t =
     (let s = t div 1000000000 in date_text (s div 86400) @ ''T'' @ clock_text (s mod 86400) @ ''Z'')"

text \<open>The fraction of the second, without the zeros at its end.\<close>

definition fraction_text :: "int \<Rightarrow> string" where
  "fraction_text ns =
     (if ns = 0 then ''''
      else ''.'' @ rev (dropWhile (\<lambda>c. c = CHR ''0'')
        (rev (map (\<lambda>i. digit_at (10 ^ i) ns) (rev [0..<9])))))"

definition time_String :: "int \<Rightarrow> string" where
  "time_String t =
     (let s = t div 1000000000 in
      date_text (s div 86400) @ '' '' @ clock_text (s mod 86400) @ fraction_text (t mod 1000000000) @
      '' +0000 UTC'')"

section \<open>Parsing\<close>

definition digit_value :: "char \<Rightarrow> int" where
  "digit_value c = int (byte c) - 48"

definition number_of :: "string \<Rightarrow> int" where
  "number_of ds = foldl (\<lambda>n c. 10 * n + digit_value c) 0 ds"

definition parse_RFC3339 :: "string \<Rightarrow> int option" where
  "parse_RFC3339 s =
     (if length s = 20 \<and> s ! 4 = CHR ''-'' \<and> s ! 7 = CHR ''-'' \<and> s ! 10 = CHR ''T'' \<and>
         s ! 13 = CHR '':'' \<and> s ! 16 = CHR '':'' \<and> s ! 19 = CHR ''Z'' \<and>
         list_all (\<lambda>i. is_digit (s ! i)) [0, 1, 2, 3, 5, 6, 8, 9, 11, 12, 14, 15, 17, 18]
      then let y = number_of (take 4 s); m = number_of (take 2 (drop 5 s)); d = number_of (take 2 (drop 8 s));
               h = number_of (take 2 (drop 11 s)); mi = number_of (take 2 (drop 14 s));
               sec = number_of (take 2 (drop 17 s))
        in if 1 \<le> m \<and> m \<le> 12 \<and> 1 \<le> d \<and> d \<le> month_lengths y ! nat (m - 1) \<and> h < 24 \<and> mi < 60 \<and> sec < 60
           then Some (((days_before y + sum_list (take (nat (m - 1)) (month_lengths y)) + d - 1) * 86400 +
                       h * 3600 + mi * 60 + sec) * 1000000000)
           else None
      else None)"

section \<open>Reading back\<close>

lemma cut_cycle:
  fixes x u :: int
  assumes "0 \<le> x" "x \<le> 4 * u" "0 < u"
  defines "k \<equiv> x div u - x div u div 4"
  shows "0 \<le> k" "k \<le> 3" "0 \<le> x - u * k" "x - u * k \<le> u" "k < 3 \<longrightarrow> x - u * k < u"
proof -
  define n where "n = x div u"
  have x: "x = u * n + x mod u" "0 \<le> x mod u" "x mod u < u" using assms(3) by (simp_all add: n_def)
  have "x div u \<le> 4 * u div u" using assms(2,3) by (intro zdiv_mono1) simp_all
  then have "n \<le> 4" using assms(3) by (simp add: n_def)
  moreover have "0 \<le> n" using assms(1,3) by (simp add: n_def pos_imp_zdiv_nonneg_iff)
  ultimately consider "n = 4" "k = 3" | "0 \<le> n" "n \<le> 3" "k = n"
    unfolding k_def n_def[symmetric] by (cases "n = 4") auto
  then show "0 \<le> k" "k \<le> 3" "0 \<le> x - u * k" "x - u * k \<le> u" "k < 3 \<longrightarrow> x - u * k < u"
    using x assms(2) by (cases; simp)+
qed

lemma mod_top:
  fixes r x m :: int
  assumes "0 < r" "r \<le> m"
  shows "(r + x * m) mod m = 0 \<longleftrightarrow> r = m" "(r - 1 + x * m) div m = x"
  using assms by (cases "r = m"; simp)+

lemma year_quotients:
  fixes a b c e :: int
  assumes "0 \<le> b" "b \<le> 3" "0 \<le> c" "c \<le> 24" "0 \<le> e" "e \<le> 3"
  defines "q \<equiv> 400 * a + 100 * b + 4 * c + e"
  shows "q div 4 = 100 * a + 25 * b + c" "q div 100 = 4 * a + b" "q div 400 = a"
    "(q + 1) mod 4 = 0 \<longleftrightarrow> e = 3" "(q + 1) mod 100 = 0 \<longleftrightarrow> e = 3 \<and> c = 24"
    "(q + 1) mod 400 = 0 \<longleftrightarrow> e = 3 \<and> c = 24 \<and> b = 3"
proof -
  have q: "q = (e + 1) - 1 + (100 * a + 25 * b + c) * 4" "q = (4 * c + e + 1) - 1 + (4 * a + b) * 100"
    "q = (100 * b + 4 * c + e + 1) - 1 + a * 400"
    "q + 1 = (e + 1) + (100 * a + 25 * b + c) * 4" "q + 1 = (4 * c + e + 1) + (4 * a + b) * 100"
    "q + 1 = (100 * b + 4 * c + e + 1) + a * 400"
    by (simp_all add: q_def)
  show "q div 4 = 100 * a + 25 * b + c" by (subst q(1), rule mod_top(2)) (use assms in simp_all)
  show "q div 100 = 4 * a + b" by (subst q(2), rule mod_top(2)) (use assms in simp_all)
  show "q div 400 = a" by (subst q(3), rule mod_top(2)) (use assms in simp_all)
  show "(q + 1) mod 4 = 0 \<longleftrightarrow> e = 3" by (subst q(4), subst mod_top(1)) (use assms in auto)
  show "(q + 1) mod 100 = 0 \<longleftrightarrow> e = 3 \<and> c = 24" by (subst q(5), subst mod_top(1)) (use assms(1-6) in presburger)+
  show "(q + 1) mod 400 = 0 \<longleftrightarrow> e = 3 \<and> c = 24 \<and> b = 3" by (subst q(6), subst mod_top(1)) (use assms(1-6) in linarith)+
qed

lemma year_split:
  assumes "0 \<le> d" "year_and_day d = (y, yday)"
  shows "days_before y + yday = d" "0 \<le> yday" "yday < 365 + (if is_leap y then 1 else 0)" "1 \<le> y"
proof -
  define a where "a = d div 146097"
  define d1 where "d1 = d - 146097 * a"
  define b where "b = d1 div 36524 - d1 div 36524 div 4"
  define d2 where "d2 = d1 - 36524 * b"
  define c where "c = d2 div 1461"
  define d3 where "d3 = d2 - 1461 * c"
  define e where "e = d3 div 365 - d3 div 365 div 4"
  have y: "y = 400 * a + 100 * b + 4 * c + e + 1" "yday = d3 - 365 * e"
    using assms(2)[unfolded year_and_day_def Let_def, folded a_def, folded d1_def, folded b_def,
      folded d2_def, folded c_def, folded d3_def, folded e_def] by simp_all
  have a: "0 \<le> a" "0 \<le> d1" "d1 \<le> 146096" using assms(1) by (simp_all add: a_def d1_def)
  have b: "0 \<le> b" "b \<le> 3" "0 \<le> d2" "d2 \<le> 36524" "b < 3 \<longrightarrow> d2 < 36524"
    using cut_cycle[of d1 36524] a(2,3) unfolding b_def[symmetric] d2_def by simp_all
  have c: "0 \<le> c" "c \<le> 24" "0 \<le> d3" "d3 \<le> 1460" "c = 24 \<and> b < 3 \<longrightarrow> d3 < 1460"
    using b by (simp_all add: c_def d3_def)
  have e: "0 \<le> e" "e \<le> 3" "0 \<le> d3 - 365 * e" "d3 - 365 * e \<le> 365" "e < 3 \<longrightarrow> d3 - 365 * e < 365"
    using cut_cycle[of d3 365] c(3,4) unfolding e_def[symmetric] by simp_all
  note q = year_quotients[OF b(1,2) c(1,2) e(1,2), of a]
  show "days_before y + yday = d"
    unfolding days_before_def y using q(1-3) d3_def d2_def d1_def by simp
  show "0 \<le> yday" "1 \<le> y" using y e a(1) b(1) c(1) by simp_all
  have "is_leap y \<longleftrightarrow> e = 3 \<and> (c \<noteq> 24 \<or> b = 3)"
    using q(4-6) unfolding is_leap_def y by auto
  then show "yday < 365 + (if is_leap y then 1 else 0)"
    using y(2) e(2,4,5) c(5) b(2) by auto
qed

lemma split_month_ok:
  assumes "0 \<le> n" "n < sum_list ls" "split_month ls n = (m, d)"
  shows "m < length ls \<and> 0 \<le> d \<and> d < ls ! m \<and> sum_list (take m ls) + d = n"
  using assms
proof (induction ls arbitrary: n m)
  case (Cons l ls)
  show ?case
  proof (cases "n < l")
    case False
    obtain m' where "split_month ls (n - l) = (m', d)" "m = Suc m'"
      using Cons.prems(3) False by (auto split: prod.splits)
    then show ?thesis using Cons.IH[of "n - l" m'] Cons.prems(2) False by auto
  qed (use Cons.prems in auto)
qed simp

lemma year_length: "sum_list (month_lengths y) = 365 + (if is_leap y then 1 else 0)"
  by (simp add: month_lengths_def)

lemma length_months [simp]: "length (month_lengths y) = 12"
  by (simp add: month_lengths_def)

lemma month_at_most: "m < 12 \<Longrightarrow> month_lengths y ! m \<le> 31"
proof -
  assume "m < 12"
  then have "month_lengths y ! m \<in> set (month_lengths y)" by simp
  then show ?thesis by (auto simp: month_lengths_def split: if_splits)
qed

lemma digit_at_value [simp]: "digit_value (digit_at u k) = k div u mod 10"
proof -
  have "nat (k div u mod 10) < 10" by (simp add: nat_less_iff)
  then have "byte (digit_char (nat (k div u mod 10))) = 48 + nat (k div u mod 10)"
    by (simp add: digit_char_def of_char_of)
  then show ?thesis by (simp add: digit_value_def digit_at_def)
qed

lemma digit_at_digit [simp]: "is_digit (digit_at u k)"
proof -
  have "nat (k div u mod 10) < 10" by (simp add: nat_less_iff)
  then show ?thesis by (simp add: digit_at_def is_digit_def digit_char_def of_char_of)
qed

lemma pad2_back:
  fixes k :: int
  assumes "0 \<le> k" "k < 100"
  shows "k div 10 mod 10 * 10 + k div 1 mod 10 = k"
proof -
  have "0 \<le> k div 10" "k div 10 < 10" using assms by simp_all
  then show ?thesis by simp
qed

lemma pad_year_back:
  fixes k :: int
  assumes "0 \<le> k" "k \<le> 9999"
  shows "((k div 1000 mod 10 * 10 + k div 100 mod 10) * 10 + k div 10 mod 10) * 10 + k div 1 mod 10 = k"
proof -
  have d: "k div 100 = k div 10 div 10" "k div 1000 = k div 10 div 10 div 10"
    by (simp_all add: zdiv_zmult2_eq[symmetric])
  have "0 \<le> k div 1000" "k div 1000 < 10" using assms by simp_all
  then show ?thesis unfolding d by simp
qed

lemma clock_back: "s div 3600 * 3600 + s div 60 mod 60 * 60 + s mod 60 = (s::int)"
proof -
  have "s div 3600 = s div 60 div 60" by (simp add: zdiv_zmult2_eq[symmetric])
  then show ?thesis using div_mult_mod_eq[of "s div 60" 60] div_mult_mod_eq[of s 60] by linarith
qed

lemma number_digits:
  "number_of [a, b] = digit_value a * 10 + digit_value b"
  "number_of [a, b, c, d] = ((digit_value a * 10 + digit_value b) * 10 + digit_value c) * 10 + digit_value d"
  by (simp_all add: number_of_def mult.commute)

lemma number_pads:
  "0 \<le> k \<Longrightarrow> k < 100 \<Longrightarrow> number_of [digit_at 10 k, digit_at 1 k] = k"
  "0 \<le> k \<Longrightarrow> k \<le> 9999 \<Longrightarrow>
     number_of [digit_at 1000 k, digit_at 100 k, digit_at 10 k, digit_at 1 k] = k"
  by (simp_all only: number_digits digit_at_value pad2_back pad_year_back)

lemma RFC3339_roundtrip:
  assumes "0 \<le> t" "t mod 1000000000 = 0" "fst (year_and_day (t div 1000000000 div 86400)) \<le> 9999"
  shows "parse_RFC3339 (format_RFC3339 t) = Some t"
proof -
  define s where "s = t div 1000000000"
  obtain y yday where yd: "year_and_day (s div 86400) = (y, yday)" by fastforce
  obtain m d where md: "split_month (month_lengths y) yday = (m, d)" by fastforce
  have s0: "0 \<le> s" using assms(1) by (simp add: s_def)
  then have "0 \<le> s div 86400" by simp
  note Y = year_split[OF this yd]
  have M: "m < 12" "0 \<le> d" "d < month_lengths y ! m" "sum_list (take m (month_lengths y)) + d = yday"
    using split_month_ok[OF Y(2) _ md] Y(3) year_length by auto
  have y: "1 \<le> y" "y \<le> 9999" using Y(4) assms(3) yd by (simp_all add: s_def)
  define c where "c = s mod 86400"
  have c: "0 \<le> c" "c < 86400" by (simp_all add: c_def)
  have shown: "format_RFC3339 t =
     [digit_at 1000 y, digit_at 100 y, digit_at 10 y, digit_at 1 y, CHR ''-'',
      digit_at 10 (int m + 1), digit_at 1 (int m + 1), CHR ''-'', digit_at 10 (d + 1), digit_at 1 (d + 1),
      CHR ''T'', digit_at 10 (c div 3600), digit_at 1 (c div 3600), CHR '':'',
      digit_at 10 (c div 60 mod 60), digit_at 1 (c div 60 mod 60), CHR '':'',
      digit_at 10 (c mod 60), digit_at 1 (c mod 60), CHR ''Z'']"
    using y yd md
    by (simp add: format_RFC3339_def Let_def date_text_def clock_text_def pad_year_def pad2_def s_def[symmetric] c_def)
  have nums: "number_of [digit_at 1000 y, digit_at 100 y, digit_at 10 y, digit_at 1 y] = y"
    "number_of [digit_at 10 (int m + 1), digit_at 1 (int m + 1)] = int m + 1"
    "number_of [digit_at 10 (d + 1), digit_at 1 (d + 1)] = d + 1"
    "number_of [digit_at 10 (c div 3600), digit_at 1 (c div 3600)] = c div 3600"
    "number_of [digit_at 10 (c div 60 mod 60), digit_at 1 (c div 60 mod 60)] = c div 60 mod 60"
    "number_of [digit_at 10 (c mod 60), digit_at 1 (c mod 60)] = c mod 60"
    using y M(1-3) month_at_most[OF M(1), of y] c by (intro number_pads; simp)+
  have total: "(days_before y + sum_list (take m (month_lengths y)) + d) * 86400 + (c div 3600 * 3600 +
      c div 60 mod 60 * 60 + c mod 60) = s"
  proof -
    have "days_before y + sum_list (take m (month_lengths y)) + d = s div 86400" using Y(1) M(4) by linarith
    then show ?thesis unfolding clock_back c_def by simp
  qed
  have shape: "length (format_RFC3339 t) = 20" "format_RFC3339 t ! 4 = CHR ''-''" "format_RFC3339 t ! 7 = CHR ''-''"
    "format_RFC3339 t ! 10 = CHR ''T''" "format_RFC3339 t ! 13 = CHR '':''" "format_RFC3339 t ! 16 = CHR '':''"
    "format_RFC3339 t ! 19 = CHR ''Z''"
    "list_all (\<lambda>i. is_digit (format_RFC3339 t ! i)) [0, 1, 2, 3, 5, 6, 8, 9, 11, 12, 14, 15, 17, 18]"
    unfolding shown by simp_all
  have parts: "take 4 (format_RFC3339 t) = [digit_at 1000 y, digit_at 100 y, digit_at 10 y, digit_at 1 y]"
    "take 2 (drop 5 (format_RFC3339 t)) = [digit_at 10 (int m + 1), digit_at 1 (int m + 1)]"
    "take 2 (drop 8 (format_RFC3339 t)) = [digit_at 10 (d + 1), digit_at 1 (d + 1)]"
    "take 2 (drop 11 (format_RFC3339 t)) = [digit_at 10 (c div 3600), digit_at 1 (c div 3600)]"
    "take 2 (drop 14 (format_RFC3339 t)) = [digit_at 10 (c div 60 mod 60), digit_at 1 (c div 60 mod 60)]"
    "take 2 (drop 17 (format_RFC3339 t)) = [digit_at 10 (c mod 60), digit_at 1 (c mod 60)]"
    unfolding shown by simp_all
  have range: "c div 3600 < 24" "c div 60 mod 60 < 60" "c mod 60 < 60" "int m + 1 \<le> 12" using c M(1) by simp_all
  have "t = s * 1000000000" using assms(2) div_mult_mod_eq[of t 1000000000] unfolding s_def by linarith
  then show ?thesis
    unfolding parse_RFC3339_def parts nums
    using shape range M(2,3) total by (simp add: Let_def algebra_simps)
qed

end
