(* ===== verification/Backend_Fetch.thy ===== *)
theory Backend_Fetch
  imports Backend_Work Sqlite_Pointers Sqlite_History Contract_Payloads Go_Time
begin

text \<open>
  \<open>Fetch\<close> (\<open>internal/service/backend/fetch.go\<close>) and the documents it returns (the \<open>*ForFetch\<close>
  functions of \<open>work.go\<close>): plans, receipts, tasks, runs and pointers, each with a version that hashes
  what is returned. SHA-256 and the files of the project are parameters.
\<close>

section \<open>JSON documents\<close>

text \<open>A Go map is printed with its keys in order, a struct with its fields as they are declared.\<close>

datatype json =
  JNull | JString string | JInt int | JBool bool | JList "json list" |
  JMap "(string \<times> json) list" | JStruct "(string \<times> json) list"

definition json_object :: "(string \<times> string) list \<Rightarrow> string" where
  "json_object kvs = ''{'' @ join '','' (map (\<lambda>(k, v). json_field k v) kvs) @ ''}''"

primrec json_text :: "json \<Rightarrow> string" where
  "json_text JNull = ''null''"
| "json_text (JString s) = json_string s"
| "json_text (JInt i) = itoa i"
| "json_text (JBool b) = (if b then ''true'' else ''false'')"
| "json_text (JList xs) = ''['' @ join '','' (map json_text xs) @ '']''"
| "json_text (JMap kvs) = json_object (sort_key fst (map (map_prod id json_text) kvs))"
| "json_text (JStruct kvs) = json_object (map (map_prod id json_text) kvs)"

definition json_values :: "string slice \<Rightarrow> json" where
  "json_values vs = (case normalizeValues vs of None \<Rightarrow> JNull | Some l \<Rightarrow> JList (map JString l))"

text \<open>An entry that is there only when it says something.\<close>

definition text_entry :: "string \<Rightarrow> string \<Rightarrow> (string \<times> json) list" where
  "text_entry k v = (if TrimSpace v \<noteq> '''' then [(k, JString (TrimSpace v))] else [])"

definition list_entry :: "string \<Rightarrow> string slice \<Rightarrow> (string \<times> json) list" where
  "list_entry k vs = (if elems vs \<noteq> [] then [(k, json_values vs)] else [])"

definition status_entry :: "string \<Rightarrow> string \<Rightarrow> (string \<times> json) list" where
  "status_entry k v = (if TrimSpace v \<noteq> '''' then [(k, JString (be_normalizeWorkItemStatus v))] else [])"

definition nonempty_field :: "string \<Rightarrow> string \<Rightarrow> (string \<times> json) list" where
  "nonempty_field k v = (if v \<noteq> '''' then [(k, JString v)] else [])"

section \<open>The documents\<close>

definition workTaskForFetch :: "string \<Rightarrow> WorkItem \<Rightarrow> json" where
  "workTaskForFetch planKey task = JMap
     ([(''plan_key'', JString planKey), (''key'', JString (wi_ItemKey task)),
       (''summary'', JString (wi_Summary task)),
       (''status'', JString (be_normalizeWorkItemStatus (wi_Status task)))] @
      text_entry ''parent_task_key'' (wi_ParentTaskKey task) @
      list_entry ''depends_on'' (wi_DependsOn task) @
      list_entry ''acceptance_criteria'' (wi_AcceptanceCriteria task) @
      list_entry ''references'' (wi_References task) @
      list_entry ''external_refs'' (wi_ExternalRefs task) @
      text_entry ''blocked_reason'' (wi_BlockedReason task) @
      text_entry ''outcome'' (wi_Outcome task) @
      list_entry ''evidence'' (wi_Evidence task))"

definition planForFetch :: "WorkPlan \<Rightarrow> json" where
  "planForFetch plan =
     (let stages = status_entry ''spec_outline'' (wps_SpecOutline (wp_Stages plan)) @
            status_entry ''refined_spec'' (wps_RefinedSpec (wp_Stages plan)) @
            status_entry ''implementation_plan'' (wps_ImplementationPlan (wp_Stages plan)) in
      JMap
       ([(''plan_key'', JString (wp_PlanKey plan)), (''status'', JString (normalizePlanStatus (wp_Status plan))),
         (''title'', JString (TrimSpace (wp_Title plan)))] @
        text_entry ''receipt_id'' (wp_ReceiptID plan) @
        text_entry ''objective'' (wp_Objective plan) @
        text_entry ''kind'' (wp_Kind plan) @
        text_entry ''parent_plan_key'' (wp_ParentPlanKey plan) @
        (if stages \<noteq> [] then [(''stages'', JMap stages)] else []) @
        list_entry ''in_scope'' (wp_InScope plan) @
        list_entry ''out_of_scope'' (wp_OutOfScope plan) @
        list_entry ''discovered_paths'' (wp_DiscoveredPaths plan) @
        list_entry ''constraints'' (wp_Constraints plan) @
        list_entry ''references'' (wp_References plan) @
        list_entry ''external_refs'' (wp_ExternalRefs plan) @
        [(''tasks'', JList (map (workTaskForFetch (wp_PlanKey plan)) (be_normalizeWorkItems (wp_Tasks plan))))]))"

definition baseline_entry :: "SyncPath \<Rightarrow> json" where
  "baseline_entry entry = JMap
     ([(''path'', JString (normalizeCompletionPath (sp_Path entry))), (''deleted'', JBool (sp_Deleted entry))] @
      text_entry ''content_hash'' (sp_ContentHash entry))"

definition receiptForFetch :: "string \<Rightarrow> ReceiptScope option \<Rightarrow> FetchLookup option \<Rightarrow> json" where
  "receiptForFetch receiptID scope lookup = JMap
     ([(''receipt_id'', JString (TrimSpace receiptID))] @
      (case scope of None \<Rightarrow> [] | Some sc \<Rightarrow>
        text_entry ''task_text'' (rs_TaskText sc) @
        text_entry ''phase'' (rs_Phase sc) @
        list_entry ''resolved_tags'' (rs_ResolvedTags sc) @
        list_entry ''pointer_keys'' (rs_PointerKeys sc) @
        list_entry ''initial_scope_paths'' (rs_InitialScopePaths sc) @
        [(''baseline_captured'', JBool (rs_BaselineCaptured sc))] @
        (if rs_BaselinePaths sc \<noteq> []
         then [(''baseline_paths'', JList (map baseline_entry (rs_BaselinePaths sc)))] else [])) @
      (case lookup of None \<Rightarrow> [] | Some l \<Rightarrow>
        let tasks = map (workTaskForFetch (''plan:'' @ TrimSpace receiptID))
              (be_normalizeWorkItems (fl_WorkItems l)) in
        [(''latest_run'', JMap
          ([(''run_id'', JInt (fl_RunID l)), (''status'', JString (TrimSpace (fl_RunStatus l))),
            (''plan_status'', JString (normalizePlanStatus (fl_PlanStatus l)))] @
           (if tasks \<noteq> [] then [(''tasks'', JList tasks)] else [])))]))"

definition actor_json :: "ActorRef \<Rightarrow> json" where
  "actor_json a = JStruct (nonempty_field ''harness'' (aref_Harness a) @
     nonempty_field ''model'' (aref_Model a) @ nonempty_field ''session_id'' (aref_SessionID a))"

definition vcs_json :: "VCSInfo \<Rightarrow> json" where
  "vcs_json v = JStruct (nonempty_field ''sha'' (vcs_Sha v) @ nonempty_field ''branch'' (vcs_Branch v))"

definition runForFetch :: "RunHistorySummary \<Rightarrow> json" where
  "runForFetch run = JMap
     ([(''run_id'', JInt (uhs_RunID run)), (''status'', JString (TrimSpace (uhs_Status run)))] @
      text_entry ''receipt_id'' (uhs_ReceiptID run) @
      text_entry ''request_id'' (uhs_RequestID run) @
      text_entry ''task_text'' (uhs_TaskText run) @
      text_entry ''phase'' (uhs_Phase run) @
      list_entry ''files_changed'' (uhs_FilesChanged run) @
      text_entry ''outcome'' (uhs_Outcome run) @
      (case actorRefFromCore (uhs_Actor run) of None \<Rightarrow> [] | Some a \<Rightarrow> [(''actor'', actor_json a)]) @
      (if uhs_VCS run \<noteq> VCSInfo_zero then [(''vcs'', vcs_json (uhs_VCS run))] else []) @
      (if uhs_UpdatedAt run \<noteq> 0 then [(''updated_at'', JString (format_RFC3339 (uhs_UpdatedAt run)))] else []))"

section \<open>Run keys\<close>

text \<open>\<open>strconv.ParseInt(s, 10, 64)\<close>, where it succeeds.\<close>

definition ParseInt64 :: "string \<Rightarrow> int option" where
  "ParseInt64 s =
     (let (neg, ds) = (case s of c # r \<Rightarrow> if c = CHR ''-'' then (True, r) else if c = CHR ''+'' then (False, r)
                                  else (False, s) | [] \<Rightarrow> (False, []));
          n = number_of ds in
      if ds = [] \<or> \<not> list_all is_digit ds then None
      else if neg then (if n \<le> 9223372036854775808 then Some (- n) else None)
      else (if n \<le> 9223372036854775807 then Some n else None))"

definition parseRunFetchKey :: "string \<Rightarrow> int option" where
  "parseRunFetchKey raw =
     (let key = TrimSpace raw in
      if \<not> HasPrefix key ''run:'' then None
      else let runIDText = TrimSpace (drop 4 key) in
        if runIDText = '''' then None
        else case ParseInt64 runIDText of None \<Rightarrow> None | Some runID \<Rightarrow> if runID \<le> 0 then None else Some runID)"

definition runFetchKey :: "int \<Rightarrow> string" where
  "runFetchKey runID =
     (if runID \<le> 0 then ''''
      else if length (''run:'' @ itoa runID) > 512 then '''' else ''run:'' @ itoa runID)"

section \<open>Items\<close>

record FetchItem =
  fi_Key :: string
  fi_Type :: string
  fi_Summary :: string
  fi_Content :: string
  fi_Status :: string
  fi_Version :: string

record FetchVersionMismatch =
  fvm_Key :: string
  fvm_Expected :: string
  fvm_Actual :: string

record FetchResult =
  fr_Items :: "FetchItem list"
  fr_NotFound :: "string slice"
  fr_VersionMismatches :: "FetchVersionMismatch list"

datatype file_read = FileContent string | FileMissing | FileError string

record fetch_env =
  fe_sha :: "nat \<Rightarrow> string \<Rightarrow> string"
  fe_root :: string
  fe_read :: "string \<Rightarrow> file_read"

definition indexEntryVersion :: "fetch_env \<Rightarrow> string list \<Rightarrow> string" where
  "indexEntryVersion env parts = fe_sha env 8 (concat (map (\<lambda>part. TrimSpace part @ [CHR 0x0A]) parts))"

text \<open>Fetching an item: an error with the operation that failed, nothing, or the item.\<close>

type_synonym item_fetch = "db \<Rightarrow> ((string \<times> go_error) + FetchItem option) \<times> db"

definition fetch_none :: item_fetch where
  "fetch_none s = (Inr None, s)"

definition fetch_call ::
  "string \<Rightarrow> (go_error \<Rightarrow> bool) \<Rightarrow> 'a db_op \<Rightarrow> ('a option \<Rightarrow> item_fetch) \<Rightarrow> item_fetch" where
  "fetch_call operation isNotFound m f s =
     (case m s of
        (Inl e, s') \<Rightarrow> if isNotFound e then f None s' else (Inl (operation, e), s')
      | (Inr x, s') \<Rightarrow> f (Some x) s')"

definition found :: "FetchItem \<Rightarrow> item_fetch" where
  "found item s = (Inr (Some item), s)"

definition fetchPlanItem :: "fetch_env \<Rightarrow> string \<Rightarrow> string \<Rightarrow> string \<Rightarrow> item_fetch" where
  "fetchPlanItem env projectID key receiptID =
     fetch_call ''lookup_work_plan'' (\<lambda>e. e = ErrWorkPlanNotFound)
       (LookupWorkPlan \<lparr> wpq_ProjectID = projectID, wpq_PlanKey = TrimSpace key,
                         wpq_ReceiptID = TrimSpace receiptID \<rparr>)
       (\<lambda>r. case r of None \<Rightarrow> fetch_none
        | Some plan \<Rightarrow>
            let planStatus0 = normalizePlanStatus (wp_Status plan);
                planStatus = (if planStatus0 = PlanStatusPending
                  then derivePlanStatusFromWorkItems (be_normalizeWorkItems (wp_Tasks plan)) else planStatus0);
                title = TrimSpace (wp_Title plan);
                content = json_text (planForFetch plan)
            in found \<lparr> fi_Key = key, fi_Type = ''plan'',
                 fi_Summary = (if title = '''' then ''Plan '' @ TrimSpace (wp_PlanKey plan) @ '' is '' @ planStatus
                               else title),
                 fi_Content = content, fi_Status = planStatus,
                 fi_Version = indexEntryVersion env
                   [wp_PlanKey plan, planStatus, time_String (wp_UpdatedAt plan), content] \<rparr>)"

definition fetchReceiptItem :: "fetch_env \<Rightarrow> string \<Rightarrow> string \<Rightarrow> string \<Rightarrow> item_fetch" where
  "fetchReceiptItem env projectID key receiptID =
     (let r = TrimSpace receiptID in
      if r = '''' then fetch_none
      else fetch_call ''fetch_receipt_scope'' (\<lambda>e. e = ErrReceiptScopeNotFound)
        (FetchReceiptScope \<lparr> rsq_ProjectID = projectID, rsq_ReceiptID = r \<rparr>) (\<lambda>scope.
      fetch_call ''lookup_fetch_state'' (\<lambda>e. e = ErrFetchLookupNotFound)
        (LookupFetchState \<lparr> flq_ProjectID = projectID, flq_ReceiptID = r \<rparr>) (\<lambda>lookup.
      if scope = None \<and> lookup = None then fetch_none
      else let content = json_text (receiptForFetch r scope lookup);
               text = (case scope of None \<Rightarrow> '''' | Some sc \<Rightarrow> TrimSpace (rs_TaskText sc));
               summary = (if text = '''' then ''Receipt '' @ r else text);
               status = (case lookup of None \<Rightarrow> '''' | Some l \<Rightarrow> TrimSpace (fl_RunStatus l));
               updated = (case lookup of Some l \<Rightarrow> time_String (fl_UpdatedAt l)
                 | None \<Rightarrow> (case scope of None \<Rightarrow> '''' | Some sc \<Rightarrow> join '','' (elems (rs_PointerKeys sc))))
           in found \<lparr> fi_Key = key, fi_Type = ''receipt'', fi_Summary = summary, fi_Content = content,
                fi_Status = status,
                fi_Version = indexEntryVersion env [r, summary, status, updated, content] \<rparr>)))"

definition fetchRunItem :: "fetch_env \<Rightarrow> string \<Rightarrow> string \<Rightarrow> int \<Rightarrow> item_fetch" where
  "fetchRunItem env projectID key runID =
     (if runID \<le> 0 then fetch_none
      else fetch_call ''lookup_run_history'' (\<lambda>e. e = ErrFetchLookupNotFound)
        (LookupRunHistory \<lparr> ulq_ProjectID = projectID, ulq_RunID = runID \<rparr>)
        (\<lambda>r. case r of None \<Rightarrow> fetch_none
         | Some row \<Rightarrow>
             let content = json_text (runForFetch row);
                 outcome = TrimSpace (uhs_Outcome row); text = TrimSpace (uhs_TaskText row);
                 summary = (if outcome \<noteq> '''' then outcome else if text \<noteq> '''' then text
                            else ''Run '' @ itoa (uhs_RunID row))
             in found \<lparr> fi_Key = key, fi_Type = ''run'', fi_Summary = summary, fi_Content = content,
                  fi_Status = TrimSpace (uhs_Status row),
                  fi_Version = indexEntryVersion env
                    [itoa (uhs_RunID row), TrimSpace (uhs_RequestID row), TrimSpace (uhs_Status row),
                     time_String (uhs_UpdatedAt row), content] \<rparr>))"

text \<open>A task of a plan, or of a receipt's work items: \<open>contentPlanKey\<close> is the plan key that the
  document names.\<close>

definition task_item :: "fetch_env \<Rightarrow> string \<Rightarrow> string \<Rightarrow> string \<Rightarrow> WorkItem \<Rightarrow> FetchItem" where
  "task_item env key planKey contentPlanKey task =
     (let taskStatus = be_normalizeWorkItemStatus (wi_Status task);
          summary = TrimSpace (wi_Summary task);
          content = json_text (workTaskForFetch contentPlanKey task)
      in \<lparr> fi_Key = key, fi_Type = ''task'',
           fi_Summary = (if summary = ''''
             then ''Task '' @ wi_ItemKey task @ '' in '' @ planKey @ '' is '' @ taskStatus else summary),
           fi_Content = content, fi_Status = taskStatus,
           fi_Version = indexEntryVersion env
             [planKey, wi_ItemKey task, taskStatus, time_String (wi_UpdatedAt task), content] \<rparr>)"

definition find_task :: "string \<Rightarrow> WorkItem list \<Rightarrow> WorkItem option" where
  "find_task taskKey items = find (\<lambda>task. wi_ItemKey task = taskKey) (be_normalizeWorkItems items)"

definition fetchTaskItem :: "fetch_env \<Rightarrow> string \<Rightarrow> string \<Rightarrow> taskFetchRef \<Rightarrow> item_fetch" where
  "fetchTaskItem env projectID key ref =
     (let planKey = TrimSpace (tf_PlanKey ref); taskKey = TrimSpace (tf_TaskKey ref) in
      if planKey = '''' \<or> taskKey = '''' then fetch_none
      else fetch_call ''lookup_work_plan'' (\<lambda>e. e = ErrWorkPlanNotFound)
        (LookupWorkPlan \<lparr> wpq_ProjectID = projectID, wpq_PlanKey = planKey, wpq_ReceiptID = '''' \<rparr>)
        (\<lambda>r. case (case r of None \<Rightarrow> None | Some plan \<Rightarrow>
                     map_option (\<lambda>task. (wp_PlanKey plan, task)) (find_task taskKey (wp_Tasks plan))) of
           Some (contentPlanKey, task) \<Rightarrow> found (task_item env key planKey contentPlanKey task)
         | None \<Rightarrow>
             (if TrimSpace (tf_ReceiptID ref) = '''' then fetch_none
              else fetch_call ''list_work_items'' (\<lambda>_. False)
                (ListWorkItems \<lparr> flq_ProjectID = projectID, flq_ReceiptID = tf_ReceiptID ref \<rparr>)
                (\<lambda>items. case find_task taskKey (case items of None \<Rightarrow> [] | Some l \<Rightarrow> l) of
                   None \<Rightarrow> fetch_none
                 | Some task \<Rightarrow> found (task_item env key planKey planKey task)))))"

definition pointerSummary :: "CandidatePointer \<Rightarrow> string" where
  "pointerSummary pointer =
     (let d = TrimSpace (cp_Description pointer); l = TrimSpace (cp_Label pointer); p = TrimSpace (cp_Path pointer) in
      if d \<noteq> '''' then d else if l \<noteq> '''' then l else if p \<noteq> '''' then p else TrimSpace (cp_Key pointer))"

definition pointerFetchType :: "CandidatePointer \<Rightarrow> string" where
  "pointerFetchType pointer = (if cp_IsRule pointer then ''rule'' else ''pointer'')"

definition readPointerFetchContent :: "fetch_env \<Rightarrow> string \<Rightarrow> file_read" where
  "readPointerFetchContent env pointerPath =
     (let p = TrimSpace pointerPath in
      if p = '''' then FileMissing
      else fe_read env (path_Clean (if HasPrefix p ''/'' then p else fe_root env @ ''/'' @ p)))"

definition fetchPointerItem :: "fetch_env \<Rightarrow> string \<Rightarrow> string \<Rightarrow> item_fetch" where
  "fetchPointerItem env projectID key =
     (if TrimSpace key = '''' then fetch_none
      else fetch_call ''lookup_pointer_by_key'' (\<lambda>e. e = ErrPointerLookupNotFound)
        (LookupPointerByKey \<lparr> plq_ProjectID = projectID, plq_PointerKey = TrimSpace key \<rparr>)
        (\<lambda>r. case r of None \<Rightarrow> fetch_none
         | Some p \<Rightarrow>
             (let summary = pointerSummary p;
                  versionSeed = indexEntryVersion env [cp_Key p, cp_Path p, cp_Anchor p, cp_Kind p, cp_Label p,
                    summary, time_String (cp_UpdatedAt p)]
              in case readPointerFetchContent env (cp_Path p) of
                   FileContent content \<Rightarrow> found \<lparr> fi_Key = key, fi_Type = pointerFetchType p,
                     fi_Summary = summary, fi_Content = content, fi_Status = '''',
                     fi_Version = indexEntryVersion env [versionSeed, content] \<rparr>
                 | FileMissing \<Rightarrow> fetch_none
                 | FileError e \<Rightarrow> (\<lambda>s. (Inl (''lookup_pointer_by_key'', GoErr e), s)))))"

section \<open>Fetch\<close>

definition fetchInternalError :: "string \<Rightarrow> go_error \<Rightarrow> APIError" where
  "fetchInternalError operation err =
     backendError ErrCodeInternalError ''failed to fetch context''
       [(''operation'', DStr operation), (''error'', DStr (go_error_text err))]"

definition fetch_key :: "fetch_env \<Rightarrow> string \<Rightarrow> string \<Rightarrow> item_fetch" where
  "fetch_key env projectID key =
     (case parseTaskFetchKey key of Some taskRef \<Rightarrow> fetchTaskItem env projectID key taskRef
      | None \<Rightarrow> (case parsePlanFetchKey key of Some receiptID \<Rightarrow> fetchPlanItem env projectID key receiptID
      | None \<Rightarrow> (case parseReceiptFetchKey key of Some receiptID \<Rightarrow> fetchReceiptItem env projectID key receiptID
      | None \<Rightarrow> (case parseRunFetchKey key of Some runID \<Rightarrow> fetchRunItem env projectID key runID
      | None \<Rightarrow> fetchPointerItem env projectID key))))"

definition version_mismatch :: "FetchPayload \<Rightarrow> string \<Rightarrow> FetchItem \<Rightarrow> FetchVersionMismatch list" where
  "version_mismatch payload key item =
     (let expected = TrimSpace (case map_of (fp_ExpectedVersions payload) key of None \<Rightarrow> '''' | Some v \<Rightarrow> v) in
      if expected \<noteq> '''' \<and> expected \<noteq> fi_Version item
      then [\<lparr> fvm_Key = key, fvm_Expected = expected, fvm_Actual = fi_Version item \<rparr>] else [])"

fun fetch_keys ::
  "fetch_env \<Rightarrow> FetchPayload \<Rightarrow> string \<Rightarrow> string list \<Rightarrow>
     (FetchItem list \<times> string list \<times> FetchVersionMismatch list) svc" where
  "fetch_keys env payload projectID [] = ret_svc ([], [], [])"
| "fetch_keys env payload projectID (key # keys) = (\<lambda>s.
     case fetch_key env projectID key s of
       (Inl (operation, e), s') \<Rightarrow> (Inl (fetchInternalError operation e), s')
     | (Inr r, s') \<Rightarrow>
         bind_svc (fetch_keys env payload projectID keys) (\<lambda>(items, notFound, mismatches).
           ret_svc (case r of None \<Rightarrow> (items, key # notFound, mismatches)
             | Some item \<Rightarrow> (item # items, notFound, version_mismatch payload key item @ mismatches))) s')"

definition fetchPayloadKeys :: "FetchPayload \<Rightarrow> string slice" where
  "fetchPayloadKeys payload = fetchPayloadKeysWithReceipt (fp_Keys payload) (fp_ReceiptID payload)"

definition Fetch :: "fetch_env \<Rightarrow> FetchPayload \<Rightarrow> FetchResult svc" where
  "Fetch env payload =
     bind_svc (fetch_keys env payload (TrimSpace (fp_ProjectID payload)) (elems (fetchPayloadKeys payload)))
       (\<lambda>(items, notFound, mismatches). ret_svc
          \<lparr> fr_Items = items, fr_NotFound = (if notFound = [] then None else Some notFound),
            fr_VersionMismatches = mismatches \<rparr>)"

end
