(* ===== verification/Backend_Project.thy ===== *)
theory Backend_Project
  imports Backend_Select Backend_Fetch Sqlite_Rules
begin

text \<open>
  The project as the service sees it: the files and the git commands (parameters), the sources of the
  canonical tags and rules that are read from them (\<open>tags.go\<close>, \<open>ruleset.go\<close>), the working tree
  (\<open>sync.go\<close>, \<open>scope_runtime.go\<close>), and \<open>Context\<close> of \<open>context.go\<close> over such a project.
\<close>

section \<open>The environment\<close>

text \<open>What a directory holds, as \<open>filepath.WalkDir\<close> meets it: regular files, other files and
  directories, whose flag says that reading them fails after the listed entries. A root that cannot
  be examined is \<open>Unreadable\<close>.\<close>

datatype dir_entry =
  RegularFile | OtherFile | Directory "(string \<times> dir_entry) list" bool | Unreadable string

datatype stat_result = StatMissing | StatFailed string | StatFile | StatDir

record canonicalTagsDocumentV1 =
  ctd_Version :: string
  ctd_CanonicalTags :: tags_document

text \<open>\<open>pj_root\<close> is the root that the service was built with, \<open>pj_detected\<close> the one it would detect.
  \<open>pj_git root args\<close> is the output of a git command or its error. The two YAML decoders reject
  unknown fields. \<open>pj_sha n\<close> is the hexadecimal text of the first \<open>n\<close> bytes of the SHA-256 digest.\<close>

record project_env =
  pj_root :: string
  pj_detected :: string
  pj_abs :: "string \<Rightarrow> string go_result"
  pj_stat :: "string \<Rightarrow> stat_result"
  pj_read :: "string \<Rightarrow> file_read"
  pj_walk :: "string \<Rightarrow> dir_entry"
  pj_git :: "string \<Rightarrow> string list \<Rightarrow> string go_result"
  pj_tags_yaml :: "string \<Rightarrow> canonicalTagsDocumentV1 go_result"
  pj_rules_yaml :: "string \<Rightarrow> rules_document go_result"
  pj_sha :: "nat \<Rightarrow> string \<Rightarrow> string"

text \<open>The document of \<open>canonical_tags.json\<close>, which is embedded in the program.\<close>

definition canonicalTagsJSON :: tags_document where
  "canonicalTagsJSON =
     [(''backend'', [''backend'', ''api'', ''server'', ''service'']),
      (''bootstrap'', [''bootstrap'', ''bootstrapping'', ''seed'']),
      (''docs'', [''docs'', ''doc'', ''documentation'', ''readme'']),
      (''frontend'', [''frontend'', ''ui'', ''client'']),
      (''governance'', [''governance'', ''policy'', ''policies'', ''rule'', ''rules'']),
      (''mcp'', [''mcp'', ''modelcontextprotocol'']),
      (''ops'', [''ops'', ''operations'']),
      (''postgres'', [''postgres'', ''postgresql'', ''pg'']),
      (''review'', [''review'', ''audit'']),
      (''sync'', [''sync'', ''synchronization'']),
      (''test'', [''test'', ''tests'', ''testing''])]"

section \<open>Roots and paths\<close>

definition NormalizeProjectRoot :: "project_env \<Rightarrow> string \<Rightarrow> string" where
  "NormalizeProjectRoot env projectRoot =
     (let trimmed = TrimSpace projectRoot in
      if trimmed = '''' then ''.''
      else case pj_abs env trimmed of
        Inl _ \<Rightarrow> path_Clean trimmed
      | Inr absRoot \<Rightarrow> path_Clean absRoot)"

definition normalizeSyncProjectRoot :: "string \<Rightarrow> string" where
  "normalizeSyncProjectRoot projectRoot =
     (let trimmed = TrimSpace projectRoot in if trimmed = '''' then ''.'' else trimmed)"

definition defaultProjectRoot :: "project_env \<Rightarrow> string" where
  "defaultProjectRoot env =
     (let root = TrimSpace (pj_root env) in
      if root \<noteq> '''' then path_Clean root
      else let detected = TrimSpace (pj_detected env) in
        if detected \<noteq> '''' then path_Clean detected else NormalizeProjectRoot env '''')"

definition effectiveProjectRoot :: "project_env \<Rightarrow> string \<Rightarrow> string" where
  "effectiveProjectRoot env explicit =
     (let trimmed = TrimSpace explicit in
      if trimmed \<noteq> '''' then NormalizeProjectRoot env trimmed else defaultProjectRoot env)"

text \<open>The second path that \<open>resolveProjectSourcePath\<close> returns, for a path it accepts.\<close>

definition source_absolute_path :: "project_env \<Rightarrow> string \<Rightarrow> string \<Rightarrow> string" where
  "source_absolute_path env projectRoot raw =
     (let trimmed = TrimSpace raw;
          normalizedSlashes = ReplaceByte (CHR 0x5C) (CHR ''/'') trimmed in
      if HasPrefix normalizedSlashes ''/'' \<or> isWindowsAbsolutePath normalizedSlashes
      then path_Clean trimmed
      else filepath_Join (NormalizeProjectRoot env projectRoot) (normalizeCompletionPath trimmed))"

record project_source =
  src_SourcePath :: string
  src_AbsolutePath :: string
  src_Exists :: bool

text \<open>Resolving and examining one path; the flag says whether an error of the file system is
  reported with the name of the path.\<close>

definition stat_error :: "string \<Rightarrow> project_env \<Rightarrow> string \<Rightarrow> bool go_result" where
  "stat_error pre env absolutePath =
     (case pj_stat env absolutePath of
        StatFile \<Rightarrow> Inr True
      | StatDir \<Rightarrow> Inr False
      | StatMissing \<Rightarrow> Inr False
      | StatFailed msg \<Rightarrow> Inl (GoErr (pre @ msg)))"

definition read_source :: "string \<Rightarrow> project_env \<Rightarrow> string \<Rightarrow> string go_result" where
  "read_source pre env absolutePath =
     (case pj_read env absolutePath of
        FileContent blob \<Rightarrow> Inr blob
      | FileMissing \<Rightarrow> Inl (GoErr (pre @ ''open '' @ absolutePath @ '': no such file or directory''))
      | FileError msg \<Rightarrow> Inl (GoErr (pre @ msg)))"

section \<open>Canonical tags\<close>

definition discoverCanonicalTagsSource :: "project_env \<Rightarrow> string \<Rightarrow> string \<Rightarrow> project_source go_result" where
  "discoverCanonicalTagsSource env projectRoot tagsFile =
     (let sourcePath = (if TrimSpace tagsFile \<noteq> '''' then TrimSpace tagsFile else ''.awm/awm-tags.yaml'');
          absolutePath = source_absolute_path env projectRoot sourcePath in
      bind_res (resolveProjectSourcePath sourcePath) (\<lambda>normalizedPath.
      bind_res (stat_error '''' env absolutePath) (\<lambda>exists.
      Inr \<lparr> src_SourcePath = normalizedPath, src_AbsolutePath = absolutePath, src_Exists = exists \<rparr>)))"

definition parseCanonicalTagsFile :: "project_env \<Rightarrow> project_source \<Rightarrow> canonicalTagsDocumentV1 go_result" where
  "parseCanonicalTagsFile env source =
     bind_res (read_source '''' env (src_AbsolutePath source)) (\<lambda>blob.
     bind_res (pj_tags_yaml env blob) (\<lambda>doc.
     if TrimSpace (ctd_Version doc) \<noteq> ''awm.tags.v1''
     then Inl (GoErr ''canonical tags file has unsupported version'') else Inr doc))"

text \<open>The optional document that \<open>loadMergedCanonicalTagAliasMap\<close> merges over the embedded one.\<close>

definition tags_file :: "project_env \<Rightarrow> string \<Rightarrow> string \<Rightarrow> tags_document option go_result" where
  "tags_file env projectRoot tagsFile =
     bind_res (discoverCanonicalTagsSource env projectRoot tagsFile) (\<lambda>source.
     if \<not> src_Exists source then Inr None
     else bind_res (parseCanonicalTagsFile env source) (\<lambda>doc. Inr (Some (ctd_CanonicalTags doc))))"

section \<open>Canonical rules\<close>

fun ruleset_sources :: "project_env \<Rightarrow> string \<Rightarrow> string list \<Rightarrow> project_source list go_result" where
  "ruleset_sources env projectRoot [] = Inr []"
| "ruleset_sources env projectRoot (rawPath # rest) =
     (let absolutePath = source_absolute_path env projectRoot rawPath in
      bind_res (wrap_err (''stat canonical ruleset '' @ TrimSpace rawPath @ '': '')
        (resolveProjectSourcePath rawPath)) (\<lambda>sourcePath.
      bind_res (stat_error (''stat canonical ruleset '' @ sourcePath @ '': '') env absolutePath) (\<lambda>exists.
      bind_res (ruleset_sources env projectRoot rest) (\<lambda>sources.
      Inr (\<lparr> src_SourcePath = sourcePath, src_AbsolutePath = absolutePath, src_Exists = exists \<rparr> # sources)))))"

definition discoverCanonicalRulesetSources ::
  "project_env \<Rightarrow> string \<Rightarrow> string \<Rightarrow> project_source list go_result" where
  "discoverCanonicalRulesetSources env projectRoot rulesFile =
     bind_res (ruleset_sources env projectRoot
         (if TrimSpace rulesFile \<noteq> '''' then [TrimSpace rulesFile]
          else [''.awm/awm-rules.yaml'', ''awm-rules.yaml'']))
       (\<lambda>sources. Inr (sort_key src_SourcePath sources))"

definition read_ruleset :: "project_env \<Rightarrow> project_source \<Rightarrow> rules_document go_result" where
  "read_ruleset env source =
     bind_res (read_source (''read canonical ruleset '' @ src_SourcePath source @ '': '') env
         (src_AbsolutePath source)) (\<lambda>blob.
     wrap_err (''parse canonical ruleset '' @ src_SourcePath source @ '': '') (pj_rules_yaml env blob))"

text \<open>\<open>parseCanonicalRulesetFile\<close> with the reading of its file.\<close>

definition parse_ruleset_source ::
  "project_env \<Rightarrow> project_source \<Rightarrow> string \<Rightarrow> alias_map \<Rightarrow> canonicalRulePointer list go_result" where
  "parse_ruleset_source env source projectID m =
     bind_res (read_ruleset env source) (\<lambda>doc.
     parseCanonicalRulesetFile (pj_sha env) m projectID (src_SourcePath source, doc))"

end
