(* ===== verification/Backend_Sync.thy ===== *)
theory Backend_Sync
  imports Backend_Project
begin

text \<open>
  \<open>internal/service/backend/sync.go\<close>: what git reports about changed, untracked and tracked files, the
  hashes of their content, and \<open>Sync\<close>; with \<open>pointer_stub_scaffold.go\<close>, the stubs of new files, and
  \<open>syncCanonicalRulesets\<close> of \<open>ruleset.go\<close>.
\<close>

section \<open>Text of git\<close>

abbreviation newline :: string where "newline \<equiv> [CHR 0x0A]"
abbreviation tab :: char where "tab \<equiv> CHR 0x09"

definition emit_word :: "string \<Rightarrow> string list \<Rightarrow> string list" where
  "emit_word w ws = (if w = '''' then ws else w # ws)"

text \<open>\<open>strings.Fields\<close>: the words between white space; \<open>w\<close> is the word read so far.\<close>

fun Fields_from :: "string \<Rightarrow> string \<Rightarrow> string list" where
  "Fields_from w (a # b # c # s) =
     (if is_space3 a b c then emit_word w (Fields_from '''' s)
      else if is_space2 a b then emit_word w (Fields_from '''' (c # s))
      else if is_space1 a then emit_word w (Fields_from '''' (b # c # s))
      else Fields_from (w @ [a]) (b # c # s))"
| "Fields_from w [a, b] =
     (if is_space2 a b then emit_word w []
      else if is_space1 a then emit_word w (Fields_from '''' [b])
      else Fields_from (w @ [a]) [b])"
| "Fields_from w [a] = (if is_space1 a then emit_word w [] else emit_word (w @ [a]) [])"
| "Fields_from w [] = emit_word w []"

definition Fields :: "string \<Rightarrow> string list" where
  "Fields s = Fields_from '''' s"

definition isManagedProjectPath :: "string \<Rightarrow> bool" where
  "isManagedProjectPath raw =
     (let normalized = normalizeCompletionPath raw in
      normalized \<noteq> '''' \<and>
      (normalized \<in> set [''.gitignore'', ''.env'', ''.env.example'', ''awm-rules.yaml'',
         ''awm-workflows.yaml'', ''awm-tests.yaml''] \<or>
       normalized = ''.awm'' \<or> HasPrefix normalized ''.awm/''))"

type_synonym sync_map = "(string \<times> SyncPath) list"

definition addSyncPathRecord :: "sync_map \<Rightarrow> string \<Rightarrow> bool \<Rightarrow> sync_map" where
  "addSyncPathRecord byPath p deleted =
     (if p = '''' \<or> isManagedProjectPath p then byPath
      else case map_of byPath p of
        None \<Rightarrow> AList.update p \<lparr> sp_Path = p, sp_ContentHash = '''', sp_Deleted = deleted \<rparr> byPath
      | Some current \<Rightarrow>
          AList.update p (if deleted then current else current\<lparr>sp_Deleted := False\<rparr>) byPath)"

fun name_status_lines :: "sync_map \<Rightarrow> string list \<Rightarrow> sync_map go_result" where
  "name_status_lines byPath [] = Inr byPath"
| "name_status_lines byPath (raw # rest) =
     (let line = TrimSpace raw in
      if line = '''' then name_status_lines byPath rest
      else case split_on tab line of
        status # from_path # others \<Rightarrow>
          (if HasPrefix (TrimSpace status) ''R'' then
             (case others of
                [] \<Rightarrow> Inl (GoErr (''invalid rename line: '' @ go_quote line))
              | to_path # _ \<Rightarrow> name_status_lines
                  (addSyncPathRecord (addSyncPathRecord byPath (normalizeCompletionPath from_path) True)
                    (normalizeCompletionPath to_path) False) rest)
           else name_status_lines
             (addSyncPathRecord byPath (normalizeCompletionPath from_path)
               (HasPrefix (TrimSpace status) ''D'')) rest)
      | _ \<Rightarrow> Inl (GoErr (''invalid name-status line: '' @ go_quote line)))"

definition parseChangedNameStatus :: "string \<Rightarrow> SyncPath list go_result" where
  "parseChangedNameStatus output =
     bind_res (name_status_lines [] (split_on (CHR 0x0A) output)) (\<lambda>byPath. Inr (emit_sorted byPath))"

type_synonym hash_map = "(string \<times> string) list"

text \<open>One line of \<open>git ls-tree\<close>: \<open>None\<close> for a line that is skipped.\<close>

definition ls_tree_line :: "string \<Rightarrow> (string \<times> string) option go_result" where
  "ls_tree_line line =
     (case index_of tab line of
        None \<Rightarrow> Inl (GoErr (''invalid ls-tree line: '' @ go_quote line))
      | Some i \<Rightarrow>
          (case Fields (take i line) of
             mode # kind # hash # _ \<Rightarrow>
               (if TrimSpace kind \<noteq> ''blob'' then Inr None
                else let contentHash = TrimSpace hash; filePath = normalizeCompletionPath (drop (Suc i) line) in
                  if contentHash = '''' then Inl (GoErr (''missing blob hash in line: '' @ go_quote line))
                  else if filePath = '''' \<or> isManagedProjectPath filePath then Inr None
                  else Inr (Some (filePath, contentHash)))
           | _ \<Rightarrow> Inl (GoErr (''invalid ls-tree metadata: '' @ go_quote line))))"

fun ls_tree_lines :: "hash_map \<Rightarrow> string list \<Rightarrow> hash_map go_result" where
  "ls_tree_lines m [] = Inr m"
| "ls_tree_lines m (raw # rest) =
     (let line = TrimSpace raw in
      if line = '''' then ls_tree_lines m rest
      else bind_res (ls_tree_line line) (\<lambda>entry.
        case entry of
          None \<Rightarrow> ls_tree_lines m rest
        | Some (filePath, contentHash) \<Rightarrow> ls_tree_lines (AList.update filePath contentHash m) rest))"

definition parseLsTreeHashes :: "string \<Rightarrow> hash_map go_result" where
  "parseLsTreeHashes output = ls_tree_lines [] (split_on (CHR 0x0A) output)"

definition parseInitCandidateGitPaths :: "string \<Rightarrow> string list" where
  "parseInitCandidateGitPaths output =
     elems (normalizeCompletionPaths (Some (filter (\<lambda>p. p \<noteq> '''' \<and> \<not> isManagedProjectPath p)
       (map normalizeCompletionPath (split_on (CHR 0x0A) output)))))"

section \<open>Hashes\<close>

definition hash_of :: "hash_map \<Rightarrow> string \<Rightarrow> string" where
  "hash_of m p = (case map_of m p of None \<Rightarrow> '''' | Some h \<Rightarrow> h)"

definition missingPathsForHashes :: "string list \<Rightarrow> hash_map \<Rightarrow> string list" where
  "missingPathsForHashes paths hashes = filter (\<lambda>p. TrimSpace (hash_of hashes p) = '''') paths"

definition lookupHashesForRef ::
  "project_env \<Rightarrow> string \<Rightarrow> string \<Rightarrow> string list \<Rightarrow> hash_map go_result" where
  "lookupHashesForRef env projectRoot ref paths =
     bind_res (pj_git env projectRoot ([''ls-tree'', ''-r'', ref, ''--''] @ paths)) parseLsTreeHashes"

definition copy_hashes :: "hash_map \<Rightarrow> hash_map \<Rightarrow> hash_map" where
  "copy_hashes dst src = foldl (\<lambda>m (k, v). AList.update k v m) dst src"

definition resolveContentHashes ::
  "project_env \<Rightarrow> string \<Rightarrow> string \<Rightarrow> string list \<Rightarrow> hash_map go_result" where
  "resolveContentHashes env projectRoot rawRef paths =
     (let normalizedPaths = elems (normalizeCompletionPaths (Some paths));
          ref = (if TrimSpace rawRef = '''' then ''HEAD'' else rawRef) in
      if normalizedPaths = [] then Inr []
      else bind_res
        (case lookupHashesForRef env projectRoot ref normalizedPaths of
           Inr hashes \<Rightarrow> Inr hashes
         | Inl err \<Rightarrow>
             (if ref = ''HEAD'' then Inl err
              else lookupHashesForRef env projectRoot ''HEAD'' normalizedPaths)) (\<lambda>hashes0.
      bind_res
        (let missing = missingPathsForHashes normalizedPaths hashes0 in
         if ref \<noteq> ''HEAD'' \<and> missing \<noteq> [] then
           bind_res (lookupHashesForRef env projectRoot ''HEAD'' missing) (\<lambda>fallbackHashes.
             Inr (copy_hashes hashes0 fallbackHashes))
         else Inr hashes0) (\<lambda>hashes.
      let missing = missingPathsForHashes normalizedPaths hashes in
      if missing \<noteq> [] then Inl (GoErr (''missing blob hashes for paths: '' @ join '', '' missing))
      else Inr hashes)))"

fun file_hashes :: "project_env \<Rightarrow> string \<Rightarrow> string list \<Rightarrow> hash_map go_result" where
  "file_hashes env root [] = Inr []"
| "file_hashes env root (relativePath # rest) =
     (case pj_read env (filepath_Join root relativePath) of
        FileMissing \<Rightarrow> file_hashes env root rest
      | FileError msg \<Rightarrow> Inl (GoErr (''read '' @ relativePath @ '': '' @ msg))
      | FileContent blob \<Rightarrow>
          bind_res (file_hashes env root rest) (\<lambda>m. Inr ((relativePath, pj_sha env 32 blob) # m)))"

definition computeFileHashes :: "project_env \<Rightarrow> string \<Rightarrow> string list \<Rightarrow> hash_map go_result" where
  "computeFileHashes env projectRoot paths =
     file_hashes env (normalizeSyncProjectRoot projectRoot) (elems (normalizeCompletionPaths (Some paths)))"

section \<open>The paths of a sync\<close>

text \<open>An error with the name of the operation that failed.\<close>

type_synonym 'a sync_result = "(string \<times> go_error) + 'a"

definition wrapSyncOperationError :: "string \<Rightarrow> 'a go_result \<Rightarrow> 'a sync_result" where
  "wrapSyncOperationError operation r = (case r of Inl e \<Rightarrow> Inl (operation, e) | Inr x \<Rightarrow> Inr x)"

definition normalizeSyncMode :: "string \<Rightarrow> string" where
  "normalizeSyncMode mode =
     (let normalized = TrimSpace (ToLower mode) in
      if normalized = ''full'' then ''full''
      else if normalized = ''working_tree'' then ''working_tree'' else ''changed'')"

definition normalizeSyncGitRange :: "string \<Rightarrow> string \<Rightarrow> string" where
  "normalizeSyncGitRange mode gitRange =
     (let normalized = TrimSpace gitRange in
      if mode = ''changed'' \<and> normalized = '''' then ''HEAD~1..HEAD'' else normalized)"

text \<open>What follows the first occurrence of a separator.\<close>

fun after_first :: "string \<Rightarrow> string \<Rightarrow> string option" where
  "after_first sep s =
     (if HasPrefix s sep then Some (drop (length sep) s)
      else case s of [] \<Rightarrow> None | _ # t \<Rightarrow> after_first sep t)"

definition syncRangeEndRef :: "string \<Rightarrow> string" where
  "syncRangeEndRef gitRange =
     (let trimmed = TrimSpace gitRange;
          end_ref = (\<lambda>s. if TrimSpace s \<noteq> '''' then TrimSpace s else ''HEAD'') in
      if trimmed = '''' then ''HEAD''
      else case after_first ''...'' trimmed of
        Some s \<Rightarrow> end_ref s
      | None \<Rightarrow> (case after_first ''..'' trimmed of Some s \<Rightarrow> end_ref s | None \<Rightarrow> ''HEAD''))"

text \<open>The hash of each live record, or the first path without one.\<close>

fun with_hashes :: "string \<Rightarrow> (string \<Rightarrow> string) \<Rightarrow> hash_map \<Rightarrow> SyncPath list \<Rightarrow> SyncPath list sync_result" where
  "with_hashes operation msg m [] = Inr []"
| "with_hashes operation msg m (r # rs) =
     (let contentHash = TrimSpace (hash_of m (sp_Path r)) in
      if \<not> sp_Deleted r \<and> contentHash = '''' then Inl (operation, GoErr (msg (sp_Path r)))
      else bind_res (with_hashes operation msg m rs) (\<lambda>rest.
        Inr ((if sp_Deleted r then r else r\<lparr>sp_ContentHash := contentHash\<rparr>) # rest)))"

definition collectChangedSyncPaths :: "project_env \<Rightarrow> string \<Rightarrow> string \<Rightarrow> SyncPath list sync_result" where
  "collectChangedSyncPaths env gitRange projectRoot =
     bind_res (wrapSyncOperationError ''git_diff''
       (pj_git env projectRoot [''diff'', ''--name-status'', ''--find-renames'', gitRange])) (\<lambda>diffOutput.
     bind_res (wrapSyncOperationError ''git_diff_parse'' (parseChangedNameStatus diffOutput)) (\<lambda>paths.
     if paths = [] then Inr []
     else bind_res (wrapSyncOperationError ''git_ls_tree''
         (resolveContentHashes env projectRoot (syncRangeEndRef gitRange)
           (map sp_Path (filter (\<lambda>r. \<not> sp_Deleted r) paths)))) (\<lambda>hashByPath.
       with_hashes ''git_ls_tree'' (\<lambda>p. ''missing blob hash for path '' @ go_quote p) hashByPath paths)))"

definition collectWorkingTreeSyncPaths :: "project_env \<Rightarrow> string \<Rightarrow> SyncPath list sync_result" where
  "collectWorkingTreeSyncPaths env projectRoot =
     bind_res (wrapSyncOperationError ''git_diff''
       (pj_git env projectRoot [''diff'', ''--name-status'', ''--find-renames'', ''HEAD''])) (\<lambda>diffOutput.
     bind_res (wrapSyncOperationError ''git_diff_parse'' (parseChangedNameStatus diffOutput)) (\<lambda>paths.
     bind_res (wrapSyncOperationError ''git_ls_files''
       (pj_git env projectRoot [''ls-files'', ''--others'', ''--exclude-standard''])) (\<lambda>untrackedOutput.
     let byPath0 = foldl (\<lambda>m r. if sp_Path r = '''' then m else AList.update (sp_Path r) r m) [] paths;
         byPath = foldl (\<lambda>m p. AList.update p
             \<lparr> sp_Path = p, sp_ContentHash = '''', sp_Deleted = False \<rparr> m) byPath0
           (filter (\<lambda>p. p \<noteq> '''') (parseInitCandidateGitPaths untrackedOutput)) in
     if byPath = [] then Inr []
     else bind_res (wrapSyncOperationError ''read_working_tree''
         (computeFileHashes env projectRoot
           (map sp_Path (filter (\<lambda>r. \<not> sp_Deleted r) (map snd byPath))))) (\<lambda>hashByPath.
       with_hashes ''read_working_tree'' (\<lambda>p. ''missing content hash for path '' @ go_quote p)
         hashByPath (emit_sorted byPath)))))"

definition collectFullSyncPaths :: "project_env \<Rightarrow> string \<Rightarrow> SyncPath list sync_result" where
  "collectFullSyncPaths env projectRoot =
     bind_res (wrapSyncOperationError ''git_ls_tree'' (pj_git env projectRoot [''ls-tree'', ''-r'', ''HEAD'']))
       (\<lambda>output.
     bind_res (wrapSyncOperationError ''git_ls_tree_parse'' (parseLsTreeHashes output)) (\<lambda>hashByPath.
     Inr (map (\<lambda>(p, h). \<lparr> sp_Path = p, sp_ContentHash = h, sp_Deleted = False \<rparr>) (sort_key fst hashByPath))))"

definition collectSyncPaths :: "project_env \<Rightarrow> string \<Rightarrow> string \<Rightarrow> string \<Rightarrow> SyncPath list sync_result" where
  "collectSyncPaths env mode gitRange projectRoot =
     (if mode = ''full'' then collectFullSyncPaths env projectRoot
      else if mode = ''working_tree'' then collectWorkingTreeSyncPaths env projectRoot
      else collectChangedSyncPaths env gitRange projectRoot)"

definition processedSyncPaths :: "SyncPath list \<Rightarrow> string slice" where
  "processedSyncPaths paths = (if paths = [] then None else Some (map sp_Path paths))"

definition liveSyncPaths :: "SyncPath list \<Rightarrow> string slice" where
  "liveSyncPaths paths =
     (if paths = [] then None
      else normalizeCompletionPaths (Some (map sp_Path (filter (\<lambda>r. \<not> sp_Deleted r) paths))))"

definition toCoreSyncPaths :: "SyncPath list \<Rightarrow> SyncPath list" where
  "toCoreSyncPaths paths =
     map (\<lambda>r. \<lparr> sp_Path = sp_Path r, sp_ContentHash = sp_ContentHash r, sp_Deleted = sp_Deleted r \<rparr>) paths"

section \<open>The project as the context commands see it\<close>

text \<open>The relative paths of the regular files below a directory, or the first error of the walk;
  a directory named \<open>.git\<close> is not entered.\<close>

fun walk_files :: "string \<Rightarrow> string \<Rightarrow> dir_entry \<Rightarrow> string list go_result" where
  "walk_files rel name RegularFile = Inr [rel]"
| "walk_files rel name OtherFile = Inr []"
| "walk_files rel name (Unreadable msg) = Inl (GoErr msg)"
| "walk_files rel name (Directory entries failed) =
     (if name = ''.git'' then Inr []
      else if failed then Inl (GoErr (''readdir '' @ rel))
      else bind_res (map_res (\<lambda>(n, e). walk_files (if rel = ''.'' then n else rel @ ''/'' @ n) n e) entries)
        (\<lambda>found. Inr (concat found)))"

definition tree_of :: "project_env \<Rightarrow> string \<Rightarrow> tree_source" where
  "tree_of env projectRoot =
     \<lparr> ts_git = (case collectWorkingTreeSyncPaths env projectRoot of
          Inl (_, e) \<Rightarrow> Inl e | Inr records \<Rightarrow> Inr records),
       ts_git_dir = (TrimSpace projectRoot \<noteq> '''' \<and>
          pj_stat env (filepath_Join (TrimSpace projectRoot) ''.git'') = StatDir),
       ts_walk = walk_files ''.'' (path_Base projectRoot) (pj_walk env projectRoot),
       ts_hashes = (\<lambda>paths. bind_res (computeFileHashes env projectRoot paths) (\<lambda>m. Inr (map_of m))) \<rparr>"

text \<open>The environment that the commands over receipts take, for this project. Of two broken rule
  files the error of the first one that cannot be decoded is kept.\<close>

definition context_of :: "project_env \<Rightarrow> string \<Rightarrow> context_env" where
  "context_of env projectRoot =
     \<lparr> env_default_tags = canonicalTagsJSON,
       env_tags_file = tags_file env projectRoot,
       env_rule_sources = bind_res (discoverCanonicalRulesetSources env projectRoot '''')
         (map_res (\<lambda>source.
            if src_Exists source
            then bind_res (read_ruleset env source) (\<lambda>doc. Inr (src_SourcePath source, Some doc))
            else Inr (src_SourcePath source, None))),
       env_worktree = captureWorkingTreeBaseline projectRoot (tree_of env projectRoot),
       env_sha = pj_sha env \<rparr>"

definition loadCanonicalTagNormalizer :: "project_env \<Rightarrow> string \<Rightarrow> string \<Rightarrow> alias_map go_result" where
  "loadCanonicalTagNormalizer env projectRoot tagsFile =
     loadMergedCanonicalTagAliasMap (context_of env projectRoot) tagsFile"

section \<open>Rules\<close>

record canonicalRulesetSyncSourceResult =
  rss_SourcePath :: string
  rss_Exists :: bool
  rss_RuleCount :: int
  rss_Upserted :: int
  rss_MarkedStale :: int

record canonicalRulesetSyncResult =
  rsr_Sources :: "canonicalRulesetSyncSourceResult list"
  rsr_TotalRules :: int
  rsr_TotalUpserted :: int
  rsr_TotalMarkedStale :: int

definition toCoreRulePointers :: "canonicalRulePointer list \<Rightarrow> RulePointer list" where
  "toCoreRulePointers pointers =
     map (\<lambda>p. \<lparr> rup_PointerKey = crp_PointerKey p, rup_SourcePath = crp_SourcePath p,
       rup_RuleID = crp_RuleID p, rup_Summary = crp_Summary p, rup_Content = crp_Content p,
       rup_Enforcement = crp_Enforcement p, rup_Tags = Some (crp_Tags p) \<rparr>) pointers"

definition lift_go :: "'a go_result \<Rightarrow> ('a \<Rightarrow> 'b db_op) \<Rightarrow> 'b db_op" where
  "lift_go r f = (case r of Inl e \<Rightarrow> fail_db e | Inr x \<Rightarrow> f x)"

definition sync_ruleset_source ::
  "project_env \<Rightarrow> string \<Rightarrow> alias_map \<Rightarrow> bool \<Rightarrow> project_source \<Rightarrow>
     canonicalRulesetSyncSourceResult db_op" where
  "sync_ruleset_source env projectID m apply_changes source =
     lift_go (if src_Exists source then parse_ruleset_source env source projectID m else Inr []) (\<lambda>rules.
     let result = \<lparr> rss_SourcePath = src_SourcePath source, rss_Exists = src_Exists source,
           rss_RuleCount = int (length rules), rss_Upserted = int (length rules), rss_MarkedStale = 0 \<rparr> in
     if \<not> apply_changes then ret_db result
     else bind_db (SyncRulePointers \<lparr> rpi_ProjectID = projectID, rpi_SourcePath = src_SourcePath source,
            rpi_Pointers = toCoreRulePointers rules \<rparr>) (\<lambda>applied.
       ret_db (result\<lparr>rss_Upserted := rpr_Upserted applied, rss_MarkedStale := rpr_MarkedStale applied\<rparr>)))"

fun sync_ruleset_sources ::
  "project_env \<Rightarrow> string \<Rightarrow> alias_map \<Rightarrow> bool \<Rightarrow> project_source list \<Rightarrow>
     canonicalRulesetSyncSourceResult list db_op" where
  "sync_ruleset_sources env projectID m apply_changes [] = ret_db []"
| "sync_ruleset_sources env projectID m apply_changes (source # rest) =
     bind_db (sync_ruleset_source env projectID m apply_changes source) (\<lambda>r.
     bind_db (sync_ruleset_sources env projectID m apply_changes rest) (\<lambda>rs. ret_db (r # rs)))"

definition syncCanonicalRulesets ::
  "project_env \<Rightarrow> string \<Rightarrow> string \<Rightarrow> string \<Rightarrow> string \<Rightarrow> bool \<Rightarrow> canonicalRulesetSyncResult db_op" where
  "syncCanonicalRulesets env rawProjectID projectRoot rulesFile tagsFile apply_changes =
     (let projectID = TrimSpace rawProjectID in
      if projectID = '''' then fail_db (GoErr ''project_id is required'')
      else lift_go (wrap_err ''load canonical tags: '' (loadCanonicalTagNormalizer env projectRoot tagsFile)) (\<lambda>m.
        lift_go (discoverCanonicalRulesetSources env projectRoot rulesFile) (\<lambda>sources.
        bind_db (sync_ruleset_sources env projectID m apply_changes sources) (\<lambda>results.
        ret_db \<lparr> rsr_Sources = results, rsr_TotalRules = sum_list (map rss_RuleCount results),
          rsr_TotalUpserted = (if apply_changes then sum_list (map rss_Upserted results) else 0),
          rsr_TotalMarkedStale = (if apply_changes then sum_list (map rss_MarkedStale results) else 0) \<rparr>))))"

section \<open>Stubs of files\<close>

definition inferPointerKindFromPath :: "string \<Rightarrow> string" where
  "inferPointerKindFromPath filePath =
     (let pathValue = ToLower (TrimSpace filePath) in
      if Contains pathValue ''/test/'' \<or> Contains pathValue ''/tests/'' \<or>
         list_ex (HasSuffix pathValue) [''_test.go'', ''.test.ts'', ''.test.tsx'', ''.spec.ts'', ''.spec.tsx'',
           ''.spec.js'', ''.spec.jsx''] then ''test''
      else if HasPrefix pathValue ''docs/'' \<or>
         list_ex (HasSuffix pathValue) [''.md'', ''.mdx'', ''.rst'', ''.adoc''] then ''doc''
      else if HasPrefix pathValue ''scripts/'' \<or>
         list_ex (HasSuffix pathValue) [''.sh'', ''.bash'', ''.ps1'', ''.bat''] then ''command''
      else ''code'')"

definition healthTagPattern :: "string \<Rightarrow> bool" where
  "healthTagPattern s = match_head_tail (\<lambda>c. is_lower c \<or> is_digit c)
     (\<lambda>c. is_lower c \<or> is_digit c \<or> c = CHR ''.'' \<or> c = CHR ''_'' \<or> c = CHR ''-'') 0 63 s"

definition inferPointerTagsFromPath :: "string \<Rightarrow> string \<Rightarrow> alias_map \<Rightarrow> string list" where
  "inferPointerTagsFromPath filePath kind m =
     (let baseName = TrimSuffix (path_Base filePath) (path_Ext filePath) in
      normalizeTags m ([''indexed'', kind] @ filter healthTagPattern [normalizeTag m baseName] @
        filter healthTagPattern (map (normalizeTag m) (split_on (CHR ''/'') (path_Dir filePath)))))"

definition stub_of_path :: "string \<Rightarrow> alias_map \<Rightarrow> string \<Rightarrow> PointerStub" where
  "stub_of_path projectID m normalizedPath =
     (let kind = inferPointerKindFromPath normalizedPath in
      \<lparr> ps_PointerKey = projectID @ '':'' @ normalizedPath, ps_Path = normalizedPath, ps_Kind = kind,
        ps_Label = normalizedPath,
        ps_Description = ''Indexed '' @ kind @ '' pointer stub for '' @ normalizedPath @
          ''. Curate label, description, and tags.'',
        ps_Tags = Some (inferPointerTagsFromPath normalizedPath kind m) \<rparr>)"

definition buildIndexedPointerStubs ::
  "string \<Rightarrow> CompletionViolation list \<Rightarrow> alias_map \<Rightarrow> PointerStub list" where
  "buildIndexedPointerStubs projectID violations m =
     map (stub_of_path (TrimSpace projectID) m)
       (norm_unique (\<lambda>v. normalizeCompletionPath (cv_Path v)) [] violations)"

definition upsertAutoIndexedPaths ::
  "project_env \<Rightarrow> string \<Rightarrow> string \<Rightarrow> string \<Rightarrow> string slice \<Rightarrow> int db_op" where
  "upsertAutoIndexedPaths env rawProjectID projectRoot tagsFile paths =
     (let projectID = TrimSpace rawProjectID; normalizedPaths = elems (normalizeCompletionPaths paths) in
      if projectID = '''' \<or> normalizedPaths = [] then ret_db 0
      else bind_db (ListPointerInventory projectID) (\<lambda>inventory.
        let indexed = map (\<lambda>item. normalizeCompletionPath (pi_Path item)) inventory;
            unindexedPaths = filter (\<lambda>p. p \<notin> set indexed) normalizedPaths in
        if unindexedPaths = [] then ret_db 0
        else lift_go (loadCanonicalTagNormalizer env projectRoot tagsFile) (\<lambda>m.
          UpsertPointerStubs projectID (buildIndexedPointerStubs projectID
            (map (\<lambda>p. \<lparr> cv_Path = p, cv_Reason = ''index unindexed file'' \<rparr>) unindexedPaths) m))))"

section \<open>Sync\<close>

record SyncResult =
  syr_Updated :: int
  syr_MarkedStale :: int
  syr_NewCandidates :: int
  syr_IndexedStubs :: int
  syr_DeletedMarkedStale :: int
  syr_ProcessedPaths :: "string slice"

definition syncInternalError :: "string \<Rightarrow> go_error \<Rightarrow> APIError" where
  "syncInternalError operation err =
     backendError ErrCodeInternalError ''failed to sync project''
       [(''operation'', DStr operation), (''error'', DStr (go_error_text err))]"

definition effectiveInsertNewCandidates :: "bool option \<Rightarrow> bool" where
  "effectiveInsertNewCandidates b = (case b of None \<Rightarrow> True | Some x \<Rightarrow> x)"

definition Sync :: "project_env \<Rightarrow> SyncPayload \<Rightarrow> SyncResult svc" where
  "Sync env payload =
     (let mode = normalizeSyncMode (syp_Mode payload);
          gitRange = normalizeSyncGitRange mode (syp_GitRange payload);
          projectRoot = effectiveProjectRoot env (syp_ProjectRoot payload);
          insertNewCandidates = effectiveInsertNewCandidates (syp_InsertNewCandidates payload);
          projectID = TrimSpace (syp_ProjectID payload) in
      case collectSyncPaths env mode gitRange projectRoot of
        Inl (operation, err) \<Rightarrow> fail_svc (syncInternalError operation err)
      | Inr paths \<Rightarrow>
          call_repo (ApplySync \<lparr> sai_ProjectID = projectID, sai_Mode = mode,
              sai_InsertNewCandidates = insertNewCandidates, sai_Paths = toCoreSyncPaths paths \<rparr>)
            (syncInternalError ''apply_sync'') (\<lambda>applied.
          call_repo (syncCanonicalRulesets env projectID projectRoot (syp_RulesFile payload) (syp_TagsFile payload) True)
            (syncInternalError ''sync_ruleset'') (\<lambda>_.
          call_repo (if insertNewCandidates
              then upsertAutoIndexedPaths env projectID projectRoot (syp_TagsFile payload) (liveSyncPaths paths)
              else ret_db 0)
            (syncInternalError ''upsert_pointer_stubs'') (\<lambda>indexedStubs.
          ret_svc \<lparr> syr_Updated = sar_Updated applied, syr_MarkedStale = sar_MarkedStale applied,
            syr_NewCandidates = indexedStubs, syr_IndexedStubs = indexedStubs,
            syr_DeletedMarkedStale = sar_DeletedMarkedStale applied,
            syr_ProcessedPaths = processedSyncPaths paths \<rparr>))))"

end
