(* ===== verification/Backend_Health.thy ===== *)
theory Backend_Health
  imports Backend_Sync Backend_Work Sqlite_History Go_Time
begin

text \<open>
  \<open>inventory_health.go\<close>, \<open>plan_diagnostics.go\<close>, \<open>health_fix.go\<close> and the health part of
  \<open>maintenance.go\<close>: which files of the project have pointers, which open plans are stale or finished,
  the checks that \<open>Health\<close> reports and the fixers that it runs.
\<close>

section \<open>Inventory\<close>

text \<open>The rounded percentage of the summary is computed in floating point and read nowhere; it is
  left out.\<close>

record inventoryHealthSummary =
  ihs_TotalFiles :: int
  ihs_IndexedFiles :: int
  ihs_UnindexedFiles :: int
  ihs_StaleFiles :: int

record inventoryHealthReport =
  ihr_Summary :: inventoryHealthSummary
  ihr_UnindexedPaths :: "string slice"
  ihr_StalePaths :: "string slice"
  ihr_UnindexedDirs :: "string slice"

text \<open>The walk of \<open>init\<close>: found files and skipped places, in the order in which they are met.\<close>

datatype walk_event = WalkFound string | WalkSkipped string

fun walk_events :: "string \<Rightarrow> string \<Rightarrow> dir_entry \<Rightarrow> walk_event list" where
  "walk_events rel name RegularFile = [WalkFound rel]"
| "walk_events rel name OtherFile = []"
| "walk_events rel name (Unreadable msg) = [WalkSkipped rel]"
| "walk_events rel name (Directory entries failed) =
     (if name = ''.git'' \<or> name = ''.awm'' then []
      else (if failed then [WalkSkipped rel] else []) @
        concat (map (\<lambda>(n, e). walk_events (if rel = ''.'' then n else rel @ ''/'' @ n) n e) entries))"

definition normalizeWalkWarningPath :: "string \<Rightarrow> string \<Rightarrow> string" where
  "normalizeWalkWarningPath projectRoot rel =
     (if normalizeCompletionPath rel \<noteq> '''' then normalizeCompletionPath rel
      else let candidatePath = filepath_Join projectRoot rel;
          cleaned = normalizeCompletionPath candidatePath in
        if cleaned \<noteq> '''' then cleaned else TrimSpace candidatePath)"

definition collectInitCandidatePathsFromWalk :: "project_env \<Rightarrow> string \<Rightarrow> string list \<times> string slice" where
  "collectInitCandidatePathsFromWalk env projectRoot =
     (let events = walk_events ''.'' (path_Base projectRoot) (pj_walk env projectRoot);
          found = List.map_filter (\<lambda>e. case e of
              WalkFound rel \<Rightarrow> let p = normalizeCompletionPath rel in
                (if p = '''' \<or> isManagedProjectPath p then None else Some p)
            | WalkSkipped _ \<Rightarrow> None) events;
          skipped = List.map_filter (\<lambda>e. case e of
              WalkFound _ \<Rightarrow> None
            | WalkSkipped rel \<Rightarrow> Some (''skip:'' @ normalizeWalkWarningPath projectRoot rel)) events in
      (elems (normalizeCompletionPaths (Some found)), normalizeValues (Some (take 25 skipped))))"

definition filterInitCandidatePaths :: "string list \<Rightarrow> string list \<Rightarrow> string list" where
  "filterInitCandidatePaths paths excludedPaths =
     (let excluded = filter (\<lambda>p. p \<noteq> '''') (map TrimSpace excludedPaths) in
      filter (\<lambda>p. \<not> isManagedProjectPath p \<and> p \<notin> set excluded) paths)"

definition collectInventoryPaths :: "project_env \<Rightarrow> string \<Rightarrow> string list go_result" where
  "collectInventoryPaths env projectRoot =
     (case pj_git env projectRoot [''ls-files'', ''--cached'', ''--others'', ''--exclude-standard''] of
        Inr gitOutput \<Rightarrow>
          (let paths = parseInitCandidateGitPaths gitOutput in
           bind_res (pj_git env projectRoot [''ls-files'', ''--deleted'']) (\<lambda>deletedOutput.
             Inr (filter (\<lambda>p. p \<notin> set (parseInitCandidateGitPaths deletedOutput)) paths)))
      | Inl _ \<Rightarrow>
          Inr (filterInitCandidatePaths (fst (collectInitCandidatePathsFromWalk env projectRoot)) []))"

text \<open>For each path whether one of its pointers is stale.\<close>

definition pointer_by_path :: "PointerInventory list \<Rightarrow> (string \<times> bool) list" where
  "pointer_by_path inventory =
     foldl (\<lambda>m item. let p = normalizeCompletionPath (pi_Path item) in
         if p = '''' then m
         else AList.update p (case map_of m p of
             None \<Rightarrow> pi_IsStale item | Some stale \<Rightarrow> stale \<or> pi_IsStale item) m) [] inventory"

definition unindexedDirectories :: "string list \<Rightarrow> (string \<times> bool) list \<Rightarrow> string slice" where
  "unindexedDirectories paths pointers =
     (if paths = [] then None
      else Some (sort (remdups (filter (\<lambda>dir. dir \<noteq> ''.'' \<and> dir \<noteq> '''' \<and>
          \<not> list_ex (\<lambda>p. path_Dir p = dir \<and> map_of pointers p \<noteq> None) paths) (map path_Dir paths)))))"

definition inventoryInternalError :: "string \<Rightarrow> go_error \<Rightarrow> APIError" where
  "inventoryInternalError operation err =
     backendError ErrCodeInternalError ''failed to compute inventory health''
       [(''operation'', DStr operation), (''error'', DStr (go_error_text err))]"

definition inventory_report :: "string list \<Rightarrow> PointerInventory list \<Rightarrow> inventoryHealthReport" where
  "inventory_report paths inventory =
     (let pointers = pointer_by_path inventory;
          unindexed = filter (\<lambda>p. map_of pointers p = None) paths;
          stale = sort (filter (\<lambda>p. p \<in> set paths) (map fst (filter snd pointers))) in
      \<lparr> ihr_Summary = \<lparr> ihs_TotalFiles = int (length paths),
          ihs_IndexedFiles = int (length (filter (\<lambda>p. map_of pointers p \<noteq> None) paths)),
          ihs_UnindexedFiles = int (length unindexed), ihs_StaleFiles = int (length stale) \<rparr>,
        ihr_UnindexedPaths = normalizeValues (Some unindexed),
        ihr_StalePaths = normalizeValues (Some stale),
        ihr_UnindexedDirs = unindexedDirectories paths pointers \<rparr>)"

definition computeInventoryHealth :: "project_env \<Rightarrow> string \<Rightarrow> string \<Rightarrow> inventoryHealthReport svc" where
  "computeInventoryHealth env projectID rawRoot =
     (case collectInventoryPaths env (effectiveProjectRoot env rawRoot) of
        Inl e \<Rightarrow> fail_svc (inventoryInternalError ''collect_project_paths'' e)
      | Inr paths \<Rightarrow>
          call_repo (ListPointerInventory (TrimSpace projectID)) (inventoryInternalError ''list_pointer_inventory'')
            (\<lambda>inventory. ret_svc (inventory_report paths inventory)))"

section \<open>Plans\<close>

record planDiagnostics =
  pd_stale :: "string list"
  pd_terminalStatusDrift :: "string list"
  pd_administrativeCloseout :: "string list"

definition stalePlanWarningAge :: int where "stalePlanWarningAge = 7 * 24 * 3600 * 1000000000"

definition stale_plan_finding :: "int \<Rightarrow> WorkPlanSummary \<Rightarrow> string list" where
  "stale_plan_finding now row =
     (if wsm_UpdatedAt row \<noteq> 0 \<and> now - wsm_UpdatedAt row \<ge> stalePlanWarningAge
      then [TrimSpace (wsm_PlanKey row) @ '' status='' @ normalizePlanStatus (wsm_Status row) @
            '' updated_at='' @ format_RFC3339 (wsm_UpdatedAt row)]
      else [])"

definition task_findings :: "WorkPlanSummary \<Rightarrow> WorkItem list \<Rightarrow> planDiagnostics \<Rightarrow> planDiagnostics" where
  "task_findings row planTasks d =
     (let planKey = TrimSpace (wsm_PlanKey row) in
      case diagnose_plan_tasks planTasks of
        DiagNone \<Rightarrow> d
      | DiagTerminalDrift derived \<Rightarrow>
          d\<lparr>pd_terminalStatusDrift := pd_terminalStatusDrift d @
            [planKey @ '' status='' @ normalizePlanStatus (wsm_Status row) @ '' should_be='' @ derived]\<rparr>
      | DiagAdministrative taskKey \<Rightarrow>
          d\<lparr>pd_administrativeCloseout := pd_administrativeCloseout d @
            [planKey @ '' remaining_task='' @ taskKey]\<rparr>)"

fun plan_findings :: "string \<Rightarrow> int \<Rightarrow> WorkPlanSummary list \<Rightarrow> planDiagnostics \<Rightarrow> planDiagnostics svc" where
  "plan_findings projectID now [] d = ret_svc d"
| "plan_findings projectID now (row # rows) d =
     (let planKey = TrimSpace (wsm_PlanKey row) in
      if isTerminalPlanStatus (normalizePlanStatus (wsm_Status row)) \<or> planKey = ''''
      then plan_findings projectID now rows d
      else let d1 = d\<lparr>pd_stale := pd_stale d @ stale_plan_finding now row\<rparr> in
        try_repo (LookupWorkPlan \<lparr> wpq_ProjectID = TrimSpace projectID,
            wpq_PlanKey = planKey, wpq_ReceiptID = TrimSpace (wsm_ReceiptID row) \<rparr>) (\<lambda>r.
          case r of
            Inl ErrWorkPlanNotFound \<Rightarrow> plan_findings projectID now rows d1
          | Inl e \<Rightarrow> fail_svc (internalError ''lookup_work_plan'' e)
          | Inr plan \<Rightarrow> plan_findings projectID now rows (task_findings row (wp_Tasks plan) d1)))"

definition collectPlanDiagnostics :: "string \<Rightarrow> int \<Rightarrow> planDiagnostics svc" where
  "collectPlanDiagnostics projectID now =
     call_repo (ListWorkPlans \<lparr> wlq_ProjectID = TrimSpace projectID, wlq_Scope = ''all'', wlq_Query = '''',
         wlq_Kind = '''', wlq_Limit = 0, wlq_Unbounded = True \<rparr>)
       (internalError ''list_work_plans'')
       (\<lambda>rows. plan_findings projectID now rows
          \<lparr> pd_stale = [], pd_terminalStatusDrift = [], pd_administrativeCloseout = [] \<rparr>)"

section \<open>Checks\<close>

record HealthCheckItem =
  hci_Name :: string
  hci_Severity :: string
  hci_Count :: int
  hci_Samples :: "string slice"

record HealthSummary =
  hsum_OK :: bool
  hsum_TotalFindings :: int

record HealthCheckResult =
  hcr_Summary :: HealthSummary
  hcr_Checks :: "HealthCheckItem list"

definition effectiveHealthIncludeDetails :: "bool option \<Rightarrow> bool" where
  "effectiveHealthIncludeDetails b = (case b of None \<Rightarrow> True | Some x \<Rightarrow> x)"

definition effectiveMaxFindingsPerCheck :: "int option \<Rightarrow> int" where
  "effectiveMaxFindingsPerCheck n = (case n of None \<Rightarrow> 100 | Some m \<Rightarrow> if m < 1 then 100 else m)"

definition healthCheckItem :: "string \<Rightarrow> string \<Rightarrow> string list \<Rightarrow> bool \<Rightarrow> int \<Rightarrow> HealthCheckItem" where
  "healthCheckItem name severity findings includeDetails maxFindings =
     (let normalized = elems (normalizeValues (Some findings)) in
      \<lparr> hci_Name = name, hci_Severity = severity, hci_Count = int (length normalized),
        hci_Samples = (if includeDetails \<and> normalized \<noteq> []
          then Some (take (nat maxFindings) normalized) else None) \<rparr>)"

definition finding_key :: "CandidatePointer \<Rightarrow> string" where
  "finding_key candidate =
     (let key = TrimSpace (cp_Key candidate) in
      if key = '''' then normalizeCompletionPath (cp_Path candidate) else key)"

definition emptyDescriptionFindings :: "CandidatePointer list \<Rightarrow> string list" where
  "emptyDescriptionFindings candidates =
     filter (\<lambda>key. key \<noteq> '''')
       (map finding_key (filter (\<lambda>c. TrimSpace (cp_Description c) = '''') candidates))"

definition duplicateLabelFindings :: "CandidatePointer list \<Rightarrow> string list" where
  "duplicateLabelFindings candidates =
     (let labelled = filter (\<lambda>(label, key). label \<noteq> '''' \<and> key \<noteq> '''')
            (map (\<lambda>c. (TrimSpace (cp_Label c), finding_key c)) candidates);
          keys_of = (\<lambda>label. elems (normalizeValues
            (Some (map snd (filter (\<lambda>(l, _). l = label) labelled))))) in
      concat (map (\<lambda>label. if length (keys_of label) < 2 then []
          else map (\<lambda>key. label @ '':'' @ key) (keys_of label))
        (sort (remdups (map fst labelled)))))"

definition unknownTagFindings :: "CandidatePointer list \<Rightarrow> string list" where
  "unknownTagFindings candidates =
     concat (map (\<lambda>c. let key = (if finding_key c = '''' then ''pointer'' else finding_key c) in
         map (\<lambda>tag. ''pointer:'' @ key @ '':'' @ tag)
           (filter (\<lambda>tag. tag \<noteq> '''' \<and> \<not> healthTagPattern tag) (map TrimSpace (elems (cp_Tags c)))))
       candidates)"

definition buildHealthChecks ::
  "CandidatePointer list \<Rightarrow> string slice \<Rightarrow> string slice \<Rightarrow> planDiagnostics \<Rightarrow> bool \<Rightarrow> int \<Rightarrow>
     HealthCheckItem list" where
  "buildHealthChecks candidates stalePaths unindexedPaths plans includeDetails maxFindings =
     (let item = (\<lambda>name severity findings. healthCheckItem name severity findings includeDetails maxFindings) in
      sort_key hci_Name
       [item ''administrative_closeout_plans'' ''warn'' (pd_administrativeCloseout plans),
        item ''duplicate_labels'' ''warn'' (duplicateLabelFindings candidates),
        item ''empty_descriptions'' ''warn'' (emptyDescriptionFindings candidates),
        item ''orphan_relations'' ''info'' [],
        item ''pending_quarantines'' ''info'' [],
        item ''stale_work_plans'' ''warn'' (pd_stale plans),
        item ''stale_pointers'' ''warn'' (elems stalePaths),
        item ''terminal_plan_status_drift'' ''warn'' (pd_terminalStatusDrift plans),
        item ''unindexed_files'' ''warn'' (elems (normalizeValues unindexedPaths)),
        item ''unknown_tags'' ''warn'' (unknownTagFindings candidates)])"

definition healthCheckInternalError :: "string \<Rightarrow> go_error \<Rightarrow> APIError" where
  "healthCheckInternalError operation err =
     backendError ErrCodeInternalError ''failed to run health check''
       [(''operation'', DStr operation), (''error'', DStr (go_error_text err))]"

text \<open>A call of another operation of the service, whose error is mapped.\<close>

definition map_api_error :: "(APIError \<Rightarrow> APIError) \<Rightarrow> 'a svc \<Rightarrow> 'a svc" where
  "map_api_error f m s = (case m s of (Inl e, s') \<Rightarrow> (Inl (f e), s') | (Inr x, s') \<Rightarrow> (Inr x, s'))"

definition healthCheck :: "project_env \<Rightarrow> int \<Rightarrow> HealthPayload \<Rightarrow> HealthCheckResult svc" where
  "healthCheck env now payload =
     (let projectID = TrimSpace (hlp_ProjectID payload) in
      call_repo (FetchCandidatePointers \<lparr> cpq_ProjectID = projectID, cpq_Limit = 0, cpq_Unbounded = True,
          cpq_StaleFilter = \<lparr> sf_AllowStale = True, sf_StaleBefore = None \<rparr> \<rparr>)
        (healthCheckInternalError ''fetch_candidate_pointers'') (\<lambda>candidates.
      bind_svc (map_api_error (\<lambda>e. healthCheckInternalError ''inventory_health'' (GoErr (ae_Message e)))
          (computeInventoryHealth env projectID '''')) (\<lambda>inventory.
      bind_svc (collectPlanDiagnostics projectID now) (\<lambda>plans.
      let checks = buildHealthChecks candidates (ihr_StalePaths inventory) (ihr_UnindexedPaths inventory) plans
            (effectiveHealthIncludeDetails (hlp_IncludeDetails payload))
            (effectiveMaxFindingsPerCheck (hlp_MaxFindingsPerCheck payload));
          totalFindings = sum_list (map hci_Count checks) in
      ret_svc \<lparr> hcr_Summary = \<lparr> hsum_OK = (totalFindings = 0), hsum_TotalFindings = totalFindings \<rparr>,
                hcr_Checks = checks \<rparr>))))"

section \<open>Fixers\<close>

record HealthFixAction =
  hfa_Fixer :: string
  hfa_Count :: int
  hfa_Notes :: "string slice"

record HealthFixResult =
  hfr_DryRun :: bool
  hfr_PlannedActions :: "HealthFixAction list"
  hfr_AppliedActions :: "HealthFixAction list"
  hfr_Summary :: string

record HealthResult =
  hrs_Mode :: string
  hrs_Check :: "HealthCheckResult option"
  hrs_Fix :: "HealthFixResult option"

definition defaultHealthFixers :: "string list" where
  "defaultHealthFixers = [HealthFixerSyncWorkingTree, HealthFixerIndexUnindexedFile, HealthFixerSyncRuleset]"

definition effectiveHealthFixApply :: "bool option \<Rightarrow> bool" where
  "effectiveHealthFixApply b = (case b of None \<Rightarrow> False | Some x \<Rightarrow> x)"

text \<open>The first occurrence of each fixer, \<open>all\<close> standing for the default ones.\<close>

definition effectiveHealthFixers :: "string slice \<Rightarrow> string list" where
  "effectiveHealthFixers raw =
     (if elems raw = [] then defaultHealthFixers
      else rev (remdups (rev (concat (map (\<lambda>fixer.
        if fixer = HealthFixerAll then defaultHealthFixers else [fixer]) (elems raw))))))"

definition count_note :: "string \<Rightarrow> int \<Rightarrow> string" where
  "count_note name n = name @ ''='' @ itoa n"

text \<open>An operation of the service called from a fixer: its error becomes a Go error.\<close>

definition fixer_call :: "string \<Rightarrow> 'a svc \<Rightarrow> 'a db_op" where
  "fixer_call pre m s = (case m s of (Inl e, s') \<Rightarrow> (Inl (GoErr (pre @ ae_Message e)), s')
                                  | (Inr x, s') \<Rightarrow> (Inr x, s'))"

type_synonym fixer_result = "HealthFixAction \<times> HealthFixAction option"

definition runHealthFixSyncWorkingTree ::
  "project_env \<Rightarrow> string \<Rightarrow> string \<Rightarrow> string \<Rightarrow> string \<Rightarrow> bool \<Rightarrow> fixer_result db_op" where
  "runHealthFixSyncWorkingTree env projectID projectRoot rulesFile tagsFile dryRun =
     lift_go (case collectSyncPaths env ''working_tree'' '''' projectRoot of
         Inl (_, e) \<Rightarrow> Inl e | Inr paths \<Rightarrow> Inr paths) (\<lambda>paths.
     let planned = \<lparr> hfa_Fixer = HealthFixerSyncWorkingTree, hfa_Count = int (length paths),
           hfa_Notes = Some [''mode=working_tree'', count_note ''impacted_paths'' (int (length paths))] \<rparr> in
     if dryRun then ret_db (planned, None)
     else bind_db (fixer_call ''sync working tree: '' (Sync env \<lparr> syp_ProjectID = projectID,
            syp_Mode = ''working_tree'', syp_GitRange = '''', syp_ProjectRoot = projectRoot,
            syp_RulesFile = rulesFile, syp_TagsFile = tagsFile, syp_InsertNewCandidates = None \<rparr>)) (\<lambda>result.
       ret_db (planned, Some \<lparr> hfa_Fixer = HealthFixerSyncWorkingTree,
         hfa_Count = int (length (elems (syr_ProcessedPaths result))),
         hfa_Notes = Some [count_note ''updated'' (syr_Updated result), count_note ''marked_stale'' (syr_MarkedStale result),
           count_note ''new_candidates'' (syr_NewCandidates result),
           count_note ''deleted_marked_stale'' (syr_DeletedMarkedStale result)] \<rparr>)))"

definition runHealthFixIndexUnindexedFiles ::
  "project_env \<Rightarrow> string \<Rightarrow> string \<Rightarrow> string \<Rightarrow> bool \<Rightarrow> fixer_result db_op" where
  "runHealthFixIndexUnindexedFiles env projectID projectRoot tagsFile dryRun =
     bind_db (fixer_call ''collect inventory health: '' (computeInventoryHealth env projectID projectRoot))
       (\<lambda>inventory.
     let unindexedPaths = elems (normalizeValues (ihr_UnindexedPaths inventory));
         unindexed = int (length unindexedPaths);
         planned = \<lparr> hfa_Fixer = HealthFixerIndexUnindexedFile, hfa_Count = unindexed,
           hfa_Notes = Some [count_note ''total_files'' (ihs_TotalFiles (ihr_Summary inventory)),
             count_note ''unindexed_files'' unindexed] \<rparr> in
     if dryRun then ret_db (planned, None)
     else lift_go (wrap_err ''load canonical tags: '' (loadCanonicalTagNormalizer env projectRoot tagsFile)) (\<lambda>m.
       bind_db (UpsertPointerStubs projectID (buildIndexedPointerStubs projectID
           (map (\<lambda>p. \<lparr> cv_Path = p, cv_Reason = ''health unindexed file'' \<rparr>) unindexedPaths) m)) (\<lambda>upserted.
       ret_db (planned, Some \<lparr> hfa_Fixer = HealthFixerIndexUnindexedFile, hfa_Count = upserted,
         hfa_Notes = Some [count_note ''unindexed_files'' unindexed, count_note ''upserted_stubs'' upserted] \<rparr>))))"

definition healthFixRulesetNotes :: "canonicalRulesetSyncResult \<Rightarrow> string slice" where
  "healthFixRulesetNotes result =
     normalizeValues (Some (map (\<lambda>source.
         if rss_Exists source then rss_SourcePath source @ '' '' @ count_note ''rules'' (rss_RuleCount source)
         else rss_SourcePath source @ '' missing'') (rsr_Sources result) @
       [count_note ''total_rules'' (rsr_TotalRules result)]))"

definition runHealthFixSyncRuleset ::
  "project_env \<Rightarrow> string \<Rightarrow> string \<Rightarrow> string \<Rightarrow> string \<Rightarrow> bool \<Rightarrow> fixer_result db_op" where
  "runHealthFixSyncRuleset env projectID projectRoot rulesFile tagsFile dryRun =
     bind_db (syncCanonicalRulesets env projectID projectRoot rulesFile tagsFile (\<not> dryRun)) (\<lambda>syncResult.
     let planned = \<lparr> hfa_Fixer = HealthFixerSyncRuleset, hfa_Count = rsr_TotalRules syncResult,
           hfa_Notes = healthFixRulesetNotes syncResult \<rparr> in
     if dryRun then ret_db (planned, None)
     else ret_db (planned, Some \<lparr> hfa_Fixer = HealthFixerSyncRuleset,
       hfa_Count = rsr_TotalUpserted syncResult + rsr_TotalMarkedStale syncResult,
       hfa_Notes = Some [count_note ''upserted'' (rsr_TotalUpserted syncResult),
         count_note ''removed'' (rsr_TotalMarkedStale syncResult)] \<rparr>))"

definition executeHealthFixer ::
  "project_env \<Rightarrow> string \<Rightarrow> string \<Rightarrow> string \<Rightarrow> string \<Rightarrow> bool \<Rightarrow> string \<Rightarrow> fixer_result db_op" where
  "executeHealthFixer env projectID projectRoot rulesFile tagsFile dryRun fixer =
     (if fixer = HealthFixerSyncWorkingTree
      then runHealthFixSyncWorkingTree env projectID projectRoot rulesFile tagsFile dryRun
      else if fixer = HealthFixerIndexUnindexedFile
      then runHealthFixIndexUnindexedFiles env projectID projectRoot tagsFile dryRun
      else if fixer = HealthFixerSyncRuleset
      then runHealthFixSyncRuleset env projectID projectRoot rulesFile tagsFile dryRun
      else fail_db (GoErr (''unsupported fixer '' @ go_quote fixer)))"

definition healthFixInternalError :: "string \<Rightarrow> go_error \<Rightarrow> APIError" where
  "healthFixInternalError operation err =
     backendError ErrCodeInternalError ''failed to apply health fixes''
       [(''operation'', DStr operation), (''error'', DStr (go_error_text err))]"

fun run_fixers ::
  "(string \<Rightarrow> fixer_result db_op) \<Rightarrow> string list \<Rightarrow> fixer_result list svc" where
  "run_fixers execute [] = ret_svc []"
| "run_fixers execute (fixer # rest) =
     call_repo (execute fixer) (healthFixInternalError fixer) (\<lambda>r.
       bind_svc (run_fixers execute rest) (\<lambda>rs. ret_svc (r # rs)))"

definition healthFixSummary :: "bool \<Rightarrow> nat \<Rightarrow> int \<Rightarrow> int \<Rightarrow> string" where
  "healthFixSummary dryRun fixerCount totalPlanned totalApplied =
     (if dryRun then ''dry-run complete: '' @ itoa_nat fixerCount @ '' fixer(s), '' @ itoa totalPlanned @
        '' planned action(s)''
      else ''apply complete: '' @ itoa_nat fixerCount @ '' fixer(s), '' @ itoa totalPlanned @
        '' planned action(s), '' @ itoa totalApplied @ '' applied action(s)'')"

definition healthFix :: "project_env \<Rightarrow> HealthPayload \<Rightarrow> HealthFixResult svc" where
  "healthFix env payload =
     (let projectID = TrimSpace (hlp_ProjectID payload);
          projectRoot = effectiveProjectRoot env (hlp_ProjectRoot payload);
          dryRun = (\<not> effectiveHealthFixApply (hlp_Apply payload));
          fixers = effectiveHealthFixers (hlp_Fixers payload) in
      bind_svc (run_fixers (executeHealthFixer env projectID projectRoot (TrimSpace (hlp_RulesFile payload))
          (TrimSpace (hlp_TagsFile payload)) dryRun) fixers) (\<lambda>results.
      let planned = map fst results; applied = List.map_filter snd results in
      ret_svc \<lparr> hfr_DryRun = dryRun, hfr_PlannedActions = planned,
        hfr_AppliedActions = (if dryRun then [] else applied),
        hfr_Summary = healthFixSummary dryRun (length fixers) (sum_list (map hfa_Count planned))
          (if dryRun then 0 else sum_list (map hfa_Count applied)) \<rparr>))"

definition Health :: "project_env \<Rightarrow> int \<Rightarrow> HealthPayload \<Rightarrow> HealthResult svc" where
  "Health env now payload =
     (if elems (hlp_Fixers payload) \<noteq> [] \<or> hlp_Apply payload \<noteq> None \<or>
         TrimSpace (hlp_ProjectRoot payload) \<noteq> '''' \<or> TrimSpace (hlp_RulesFile payload) \<noteq> '''' \<or>
         TrimSpace (hlp_TagsFile payload) \<noteq> ''''
      then bind_svc (healthFix env payload) (\<lambda>result.
        ret_svc \<lparr> hrs_Mode = ''fix'', hrs_Check = None, hrs_Fix = Some result \<rparr>)
      else bind_svc (healthCheck env now payload) (\<lambda>result.
        ret_svc \<lparr> hrs_Mode = ''check'', hrs_Check = Some result, hrs_Fix = None \<rparr>))"

end
