(* ===== verification/Backend_Open.thy ===== *)
theory Backend_Open
  imports Backend_Context Sqlite_History Contract_Payloads
begin

text \<open>
  The rest of \<open>context.go\<close>: the plans that a context receipt lists (\<open>makeContextPlans\<close>) and \<open>Context\<close>
  itself, which opens the receipt and reports its rules, plans and scope.
\<close>

definition contextPlanFetchKeys :: "string \<Rightarrow> string slice" where
  "contextPlanFetchKeys planKey =
     (let normalizedPlanKey = TrimSpace planKey in
      if normalizedPlanKey = '''' then None else Some [normalizedPlanKey])"

definition context_plan :: "WorkPlanSummary \<Rightarrow> ContextPlan" where
  "context_plan row =
     (let planKey = TrimSpace (wsm_PlanKey row);
          status = normalizePlanStatus (wsm_Status row);
          summary = TrimSpace (wsm_Summary row) in
      \<lparr> cpl_Key = planKey,
        cpl_Summary = (if summary = '''' then ''Plan '' @ planKey @ '' is '' @ status else summary),
        cpl_Status = status, cpl_FetchKeys = contextPlanFetchKeys planKey \<rparr>)"

text \<open>The plan that is listed when the project has no current one.\<close>

definition fallback_plan :: "string \<Rightarrow> ContextPlan list" where
  "fallback_plan rawReceiptID =
     (let receiptID = TrimSpace rawReceiptID in
      if receiptID = '''' then []
      else [\<lparr> cpl_Key = ''plan:'' @ receiptID,
              cpl_Summary = ''Plan '' @ receiptID @ '' is '' @ WorkItemStatusPending,
              cpl_Status = WorkItemStatusPending,
              cpl_FetchKeys = contextPlanFetchKeys (''plan:'' @ receiptID) \<rparr>])"

definition makeContextPlans :: "string \<Rightarrow> string \<Rightarrow> ContextPlan list svc" where
  "makeContextPlans projectID receiptID =
     try_repo (ListWorkPlans \<lparr> wlq_ProjectID = TrimSpace projectID, wlq_Scope = HistoryScopeCurrent,
         wlq_Query = '''', wlq_Kind = '''', wlq_Limit = 8, wlq_Unbounded = False \<rparr>) (\<lambda>r.
       case r of
         Inl _ \<Rightarrow> ret_svc (fallback_plan receiptID)
       | Inr rows \<Rightarrow>
           (let plans = map context_plan (filter (\<lambda>row. TrimSpace (wsm_PlanKey row) \<noteq> '''') rows) in
            ret_svc (if plans = [] then fallback_plan receiptID else plans)))"

definition Context :: "context_env \<Rightarrow> ContextPayload \<Rightarrow> ContextResult svc" where
  "Context env payload =
     bind_svc (openReceiptScope env payload) (\<lambda>opened.
     bind_svc (makeContextPlans (ctp_ProjectID payload) (or_ReceiptID opened)) (\<lambda>plans.
     ret_svc \<lparr> ctr_Status = ''ok'',
       ctr_Receipt = Some \<lparr> crt_Rules = or_Rules opened, crt_Plans = plans,
         crt_InitialScopePaths = or_InitialScopePaths opened,
         crt_Meta = \<lparr> crm_ReceiptID = or_ReceiptID opened, crm_ProjectID = ctp_ProjectID payload,
           crm_TaskText = ctp_TaskText payload, crm_Phase = ctp_Phase payload,
           crm_ResolvedTags = Some (or_ResolvedTags opened),
           crm_BaselineCaptured = or_BaselineCaptured opened \<rparr> \<rparr> \<rparr>))"

end
