(* ===== verification/Boot_Catalog.thy ===== *)
theory Boot_Catalog
  imports Backend_Select
begin

text \<open>
  The catalog of init templates of \<open>internal/bootstrap/templates.go\<close>: how a manifest becomes a template,
  the checks of its operations, the lookup of template ids with their aliases. The embedded manifests
  are decoded by the YAML library, so they come as a parameter, in the order of their paths.
\<close>

section \<open>Manifests and templates\<close>

record initTemplateOperationManifest =
  tom_Type :: string
  tom_Target :: string
  tom_Source :: string
  tom_Mode :: string
  tom_Pristine :: "string slice"

record initTemplateManifest =
  tmf_Version :: string
  tmf_ID :: string
  tmf_Summary :: string
  tmf_Operations :: "initTemplateOperationManifest list"

record initTemplateOperation =
  top_Type :: string
  top_Target :: string
  top_Source :: string
  top_Mode :: nat
  top_Pristine :: "string slice"

record Template =
  tpl_ID :: string
  tpl_Summary :: string
  tpl_Operations :: "initTemplateOperation list"

text \<open>The embedded file system: \<open>em_manifests\<close> are the files that match
  \<open>bootstrap_templates/*/template.yaml\<close>, decoded; \<open>em_files p\<close> is the content of a file and \<open>em_dirs\<close>
  are the directories.\<close>

record embedded =
  em_manifests :: "(string \<times> initTemplateManifest go_result) list"
  em_files :: "string \<rightharpoonup> string"
  em_dirs :: "string list"

datatype template_error = UnknownTemplateError string | CatalogError go_error

section \<open>Paths and modes\<close>

definition boot_normalizeRelativePath :: "string \<Rightarrow> string" where
  "boot_normalizeRelativePath raw =
     (let trimmed = TrimSpace raw in
      if trimmed = '''' then ''''
      else let normalizedSlashes = ReplaceByte (CHR 0x5C) (CHR ''/'') trimmed in
        if HasPrefix normalizedSlashes ''/'' \<or> isWindowsAbsolutePath normalizedSlashes then ''''
        else let cleaned = path_Clean normalizedSlashes in
          if cleaned = ''.'' \<or> cleaned = ''..'' \<or> HasPrefix cleaned ''../'' then '''' else cleaned)"

definition boot_normalizeRelativePaths :: "string slice \<Rightarrow> string slice" where
  "boot_normalizeRelativePaths paths =
     (if elems paths = [] then None
      else Some (sort (norm_unique boot_normalizeRelativePath [] (elems paths))))"

text \<open>The unsigned number of 32 bits that octal digits denote.\<close>

definition octal_value :: "string \<Rightarrow> nat" where
  "octal_value s = foldl (\<lambda>n c. 8 * n + (of_char c - 48)) 0 s"

definition parseInitTemplateMode :: "string \<Rightarrow> nat go_result" where
  "parseInitTemplateMode raw =
     (let trimmed = TrimSpace raw in
      if trimmed = '''' then Inr 420
      else if list_all (\<lambda>c. CHR ''0'' \<le> c \<and> c \<le> CHR ''7'') trimmed \<and> octal_value trimmed < 2 ^ 32
      then Inr (octal_value trimmed)
      else Inl (GoErr (''invalid mode '' @ go_quote raw)))"

section \<open>Operations\<close>

definition OpCreateIfMissing :: string where "OpCreateIfMissing = ''create_if_missing''"
definition OpCreateOrReplaceIfPristine :: string where
  "OpCreateOrReplaceIfPristine = ''create_or_replace_if_pristine''"
definition OpReplaceIfPristine :: string where "OpReplaceIfPristine = ''replace_if_pristine''"
definition OpMergeJSON :: string where "OpMergeJSON = ''merge_json''"

definition template_ops :: "string list" where
  "template_ops = [OpCreateIfMissing, OpCreateOrReplaceIfPristine, OpReplaceIfPristine, OpMergeJSON]"

lemmas op_defs = OpCreateIfMissing_def OpCreateOrReplaceIfPristine_def OpReplaceIfPristine_def OpMergeJSON_def

definition requiresInitTemplateSource :: "string \<Rightarrow> bool" where
  "requiresInitTemplateSource opType = (opType \<in> set template_ops)"

definition resolveInitTemplateSource :: "embedded \<Rightarrow> string \<Rightarrow> string \<Rightarrow> string go_result" where
  "resolveInitTemplateSource em manifestPath source =
     (let trimmed = TrimSpace source in
      if trimmed = '''' then Inl (GoErr ''source is required'')
      else if HasPrefix trimmed ''/'' \<or> Contains trimmed [CHR 0x5C]
      then Inl (GoErr (''source '' @ go_quote source @ '' is invalid''))
      else let cleaned = path_Clean trimmed in
        if cleaned = ''.'' \<or> cleaned = ''..'' \<or> HasPrefix cleaned ''../''
        then Inl (GoErr (''source '' @ go_quote source @ '' is invalid''))
        else let resolved = path_Clean (path_Clean (rev (dropWhile (\<lambda>c. c \<noteq> CHR ''/'') (rev manifestPath)))
               @ ''/'' @ cleaned) in
          if resolved \<in> set (em_dirs em)
          then Inl (GoErr (''source '' @ go_quote resolved @ '' must be a file''))
          else if em_files em resolved = None
          then Inl (GoErr (''source '' @ go_quote resolved @ '' not found''))
          else Inr resolved)"

definition resolveInitTemplateOperation ::
  "embedded \<Rightarrow> string \<Rightarrow> string \<Rightarrow> nat \<Rightarrow> initTemplateOperationManifest \<Rightarrow> initTemplateOperation go_result"
where
  "resolveInitTemplateOperation em manifestPath templateID index m =
     (let target = boot_normalizeRelativePath (tom_Target m);
          opType = TrimSpace (tom_Type m);
          pre = ''template '' @ go_quote templateID @ '' operation '' @ itoa_nat index in
      if target = '''' then Inl (GoErr (pre @ '' has invalid target '' @ go_quote (tom_Target m)))
      else if opType \<notin> set template_ops
      then Inl (GoErr (pre @ '' has unsupported type '' @ go_quote (tom_Type m)))
      else bind_res (wrap_err (pre @ '': '') (parseInitTemplateMode (tom_Mode m))) (\<lambda>mode.
        bind_res (if requiresInitTemplateSource opType
            then wrap_err (pre @ '': '') (resolveInitTemplateSource em manifestPath (tom_Source m))
            else Inr '''') (\<lambda>source.
        Inr \<lparr> top_Type = opType, top_Target = target, top_Source = source, top_Mode = mode,
          top_Pristine = normalizeValues (tom_Pristine m) \<rparr>)))"

section \<open>The catalog\<close>

definition template_of_manifest ::
  "embedded \<Rightarrow> string list \<Rightarrow> string \<Rightarrow> initTemplateManifest \<Rightarrow> Template go_result" where
  "template_of_manifest em seen manifestPath manifest =
     (let templateID = TrimSpace (tmf_ID manifest) in
      if TrimSpace (tmf_Version manifest) \<noteq> ''awm.init-template.v1''
      then Inl (GoErr (''manifest '' @ manifestPath @ '' has unsupported version '' @
        go_quote (tmf_Version manifest)))
      else if templateID = '''' then Inl (GoErr (''manifest '' @ manifestPath @ '' is missing id''))
      else if templateID \<in> set seen
      then Inl (GoErr (''duplicate init template id '' @ go_quote templateID))
      else bind_res (map_res (\<lambda>(i, op). resolveInitTemplateOperation em manifestPath templateID i op)
          (index_from 0 (tmf_Operations manifest))) (\<lambda>operations.
        if operations = []
        then Inl (GoErr (''template '' @ go_quote templateID @ '' must define at least one operation''))
        else Inr \<lparr> tpl_ID = templateID, tpl_Summary = TrimSpace (tmf_Summary manifest),
          tpl_Operations = operations \<rparr>))"

fun load_manifests ::
  "embedded \<Rightarrow> Template list \<Rightarrow> (string \<times> initTemplateManifest go_result) list \<Rightarrow> Template list go_result"
where
  "load_manifests em loaded [] = Inr (rev loaded)"
| "load_manifests em loaded ((manifestPath, decoded) # rest) =
     bind_res (wrap_err (''parse manifest '' @ manifestPath @ '': '') decoded) (\<lambda>manifest.
     bind_res (template_of_manifest em (map tpl_ID loaded) manifestPath manifest) (\<lambda>t.
     load_manifests em (t # loaded) rest))"

definition loadInitTemplateCatalog :: "embedded \<Rightarrow> Template list go_result" where
  "loadInitTemplateCatalog em = load_manifests em [] (em_manifests em)"

definition canonicalInitTemplateID :: "string \<Rightarrow> string" where
  "canonicalInitTemplateID templateID =
     (let trimmed = TrimSpace templateID in
      if trimmed = ''claude-receipt-guard'' then ''claude-hooks'' else trimmed)"

definition TemplateIDs :: "embedded \<Rightarrow> string list go_result" where
  "TemplateIDs em = bind_res (loadInitTemplateCatalog em) (\<lambda>catalog. Inr (sort (map tpl_ID catalog)))"

fun resolve_ids ::
  "Template list \<Rightarrow> string list \<Rightarrow> string list \<Rightarrow> template_error + Template list" where
  "resolve_ids catalog seen [] = Inr []"
| "resolve_ids catalog seen (templateID # rest) =
     (let canonicalID = canonicalInitTemplateID templateID in
      if canonicalID \<in> set seen then resolve_ids catalog seen rest
      else case find (\<lambda>t. tpl_ID t = canonicalID) catalog of
        None \<Rightarrow> Inl (UnknownTemplateError templateID)
      | Some t \<Rightarrow> bind_res (resolve_ids catalog (canonicalID # seen) rest) (\<lambda>ts. Inr (t # ts)))"

definition ResolveTemplates :: "embedded \<Rightarrow> string slice \<Rightarrow> template_error + Template list" where
  "ResolveTemplates em templateIDs =
     (let normalizedIDs = elems (normalizeValues templateIDs) in
      if normalizedIDs = [] then Inr []
      else case loadInitTemplateCatalog em of
        Inl e \<Rightarrow> Inl (CatalogError e)
      | Inr catalog \<Rightarrow> resolve_ids catalog [] normalizedIDs)"

end
