(* ===== verification/Backend_Status.thy ===== *)
theory Backend_Status
  imports Backend_Health Backend_Open Boot_Catalog
begin

text \<open>
  \<open>status.go\<close>: whether the project is ready. Its sources (rules, tags, tests, workflows), the installed
  templates, a preview of the context of a task and the warnings on open plans; \<open>DetectRoot\<close> of
  \<open>workspace.go\<close>.
\<close>

section \<open>The environment\<close>

text \<open>The decoders of the two definition files, the snapshot of how the storage was chosen, the
  environment variable that lifts limits and the embedded templates.\<close>

record RuntimeStatusSnapshot =
  rts_Backend :: string
  rts_PostgresConfigured :: bool
  rts_SQLitePath :: string
  rts_UsesImplicitSQLitePath :: bool

record status_env =
  sv_project :: project_env
  sv_tests_yaml :: "string \<Rightarrow> verifyTestsDocumentV1 go_result"
  sv_workflows_yaml :: "string \<Rightarrow> workflowDefinitionsDocumentV1 go_result"
  sv_runtime :: RuntimeStatusSnapshot
  sv_unbounded :: bool
  sv_embedded :: embedded
  sv_base :: service_env

definition read_definitions ::
  "project_env \<Rightarrow> string \<Rightarrow> (string \<Rightarrow> 'd go_result) \<Rightarrow> string \<Rightarrow> 'd def_file" where
  "read_definitions env projectRoot decode sourcePath =
     (let absolutePath = source_absolute_path env projectRoot sourcePath in
      case pj_read env absolutePath of
        FileMissing \<Rightarrow> ReadError (''open '' @ absolutePath @ '': no such file or directory'')
      | FileError msg \<Rightarrow> ReadError msg
      | FileContent blob \<Rightarrow>
          (case decode blob of Inl e \<Rightarrow> ParseError (go_error_text e) | Inr doc \<Rightarrow> Parsed doc))"

text \<open>The environment that the readers of the definition files take, for this project.\<close>

definition service_of :: "status_env \<Rightarrow> string \<Rightarrow> service_env" where
  "service_of env projectRoot =
     (let pj = sv_project env in
      (sv_base env)\<lparr> se_ctx := context_of pj projectRoot, se_root := projectRoot,
        se_stat := (\<lambda>p. stat_error '''' pj (source_absolute_path pj projectRoot p)),
        se_tests := read_definitions pj projectRoot (sv_tests_yaml env),
        se_workflows := read_definitions pj projectRoot (sv_workflows_yaml env) \<rparr>)"

section \<open>The root\<close>

record Root =
  root_Path :: string
  root_IsRepo :: bool

text \<open>The loop of \<open>DetectRoot\<close> over a clean path and its parents: the segments of the path, the
  last one first.\<close>

definition path_of :: "bool \<Rightarrow> string list \<Rightarrow> string" where
  "path_of rooted segs =
     (if rooted then CHR ''/'' # join ''/'' segs else if segs = [] then ''.'' else join ''/'' segs)"

fun detect_up :: "(string \<Rightarrow> bool) \<Rightarrow> bool \<Rightarrow> string list \<Rightarrow> string option" where
  "detect_up has_git rooted [] =
     (if has_git (path_of rooted []) then Some (path_of rooted []) else None)"
| "detect_up has_git rooted (seg # up) =
     (let current = path_of rooted (rev (seg # up)) in
      if has_git current then Some current else detect_up has_git rooted up)"

definition DetectRoot :: "project_env \<Rightarrow> string go_result \<Rightarrow> string \<Rightarrow> Root" where
  "DetectRoot env cwd startDir =
     (let has_git = (\<lambda>dir. case pj_stat env (filepath_Join dir ''.git'') of
            StatFile \<Rightarrow> True | StatDir \<Rightarrow> True | _ \<Rightarrow> False);
          from = (\<lambda>base. let absBase = path_Clean (case pj_abs env base of
                Inl _ \<Rightarrow> path_Clean base | Inr p \<Rightarrow> p) in
            case detect_up has_git (HasPrefix absBase ''/'') (rev (path_segs absBase)) of
              Some hit \<Rightarrow> \<lparr> root_Path = hit, root_IsRepo = True \<rparr>
            | None \<Rightarrow> \<lparr> root_Path = absBase, root_IsRepo = False \<rparr>)
      in if TrimSpace startDir \<noteq> '''' then from (TrimSpace startDir)
         else case cwd of
           Inl _ \<Rightarrow> \<lparr> root_Path = '''', root_IsRepo = False \<rparr>
         | Inr dir \<Rightarrow> from dir)"

section \<open>Results\<close>

record StatusMissingItem =
  smi_Code :: string
  smi_Message :: string

record StatusSource =
  sts_Kind :: string
  sts_SourcePath :: string
  sts_AbsolutePath :: string
  sts_Exists :: bool
  sts_Loaded :: bool
  sts_ItemCount :: int
  sts_Notes :: "string list"

record StatusIntegration =
  sti_ID :: string
  sti_Summary :: string
  sti_Installed :: bool
  sti_PresentTargets :: nat
  sti_ExpectedTargets :: nat
  sti_MissingTargets :: "string list"

record StatusContextPreview =
  scp_TaskText :: string
  scp_Phase :: string
  scp_Status :: string
  scp_ResolvedTags :: "string list"
  scp_RuleCount :: nat
  scp_PlanCount :: nat
  scp_InitialScopePathCount :: nat
  scp_Error :: string

record StatusProject =
  spj_ProjectID :: string
  spj_ProjectRoot :: string
  spj_DetectedRepoRoot :: string
  spj_Backend :: string
  spj_PostgresConfigured :: bool
  spj_SQLitePath :: string
  spj_UsesImplicitSQLitePath :: bool
  spj_Unbounded :: bool

record StatusSummary =
  ssm_Ready :: bool
  ssm_MissingCount :: nat
  ssm_WarningCount :: nat

record StatusResult =
  str_Summary :: StatusSummary
  str_Project :: StatusProject
  str_Sources :: "StatusSource list"
  str_Integrations :: "StatusIntegration list"
  str_Context :: "StatusContextPreview option"
  str_Missing :: "StatusMissingItem list"
  str_Warnings :: "StatusMissingItem list"

definition missing_item :: "string \<Rightarrow> string \<Rightarrow> StatusMissingItem" where
  "missing_item code message = \<lparr> smi_Code = code, smi_Message = message \<rparr>"

definition invalid_source :: "string \<Rightarrow> string \<Rightarrow> StatusSource" where
  "invalid_source kind err =
     \<lparr> sts_Kind = kind, sts_SourcePath = '''', sts_AbsolutePath = '''', sts_Exists = False,
       sts_Loaded = False, sts_ItemCount = 0, sts_Notes = [err] \<rparr>"

definition source_item :: "string \<Rightarrow> project_source \<Rightarrow> StatusSource" where
  "source_item kind source =
     \<lparr> sts_Kind = kind, sts_SourcePath = src_SourcePath source, sts_AbsolutePath = src_AbsolutePath source,
       sts_Exists = src_Exists source, sts_Loaded = False, sts_ItemCount = 0, sts_Notes = [] \<rparr>"

definition loaded_item :: "nat \<Rightarrow> StatusSource \<Rightarrow> StatusSource" where
  "loaded_item n item = item\<lparr>sts_Loaded := True, sts_ItemCount := int n\<rparr>"

definition dedupeStatusMissing :: "StatusMissingItem list \<Rightarrow> StatusMissingItem list" where
  "dedupeStatusMissing items =
     (let key = (\<lambda>i. TrimSpace (smi_Code i) @ [CHR 0x00] @ TrimSpace (smi_Message i)) in
      rev (foldl (\<lambda>out item. if key item = [CHR 0x00] \<or> key item \<in> set (map key out) then out
        else item # out) [] items))"

section \<open>Rules\<close>

definition canonicalTargetKey :: "string \<Rightarrow> string" where
  "canonicalTargetKey target = TrimPrefix target ''.awm/''"

definition source_score :: "StatusSource \<Rightarrow> nat" where
  "source_score item = (if sts_Loaded item then 2 else if sts_Exists item then 1 else 0)"

text \<open>The groups in the order of their first item, each with its best item.\<close>

fun collapse_into :: "(string \<times> StatusSource) list \<Rightarrow> StatusSource \<Rightarrow> (string \<times> StatusSource) list" where
  "collapse_into [] item = [(canonicalTargetKey (sts_SourcePath item), item)]"
| "collapse_into ((key, best) # rest) item =
     (if key = canonicalTargetKey (sts_SourcePath item)
      then (key, if source_score item > source_score best then item else best) # rest
      else (key, best) # collapse_into rest item)"

definition collapseAlternateSourceItems :: "StatusSource list \<Rightarrow> StatusSource list" where
  "collapseAlternateSourceItems items = map snd (foldl collapse_into [] items)"

definition anyStatusSourceExists :: "StatusSource list \<Rightarrow> bool" where
  "anyStatusSourceExists items = list_ex sts_Exists items"

text \<open>One discovered file with its rules.\<close>

definition rules_item ::
  "project_env \<Rightarrow> string \<Rightarrow> alias_map go_result \<Rightarrow> project_source \<Rightarrow> StatusSource \<times> nat" where
  "rules_item env projectID tags source =
     (let item = source_item ''rules'' source in
      if \<not> src_Exists source then (item, 0)
      else case tags of
        Inl e \<Rightarrow> (item\<lparr>sts_Notes := [''load canonical tags: '' @ go_error_text e]\<rparr>, 0)
      | Inr m \<Rightarrow>
          (case parse_ruleset_source env source (TrimSpace projectID) m of
             Inl e \<Rightarrow> (item\<lparr>sts_Notes := [go_error_text e]\<rparr>, 0)
           | Inr rules \<Rightarrow> (loaded_item (length rules) item, length rules)))"

definition statusRules ::
  "project_env \<Rightarrow> string \<Rightarrow> string \<Rightarrow> string \<Rightarrow> string \<Rightarrow> StatusSource list \<times> StatusMissingItem list" where
  "statusRules env projectRoot rulesFile tagsFile projectID =
     (case discoverCanonicalRulesetSources env projectRoot rulesFile of
        Inl e \<Rightarrow> ([invalid_source ''rules'' (go_error_text e)],
                  [missing_item ''rules_source_invalid'' (go_error_text e)])
      | Inr sources \<Rightarrow>
          (let results = map (rules_item env projectID
                 (loadCanonicalTagNormalizer env projectRoot tagsFile)) sources;
               items = collapseAlternateSourceItems (map fst results);
               totalRules = sum_list (map snd results) in
           (items,
            if totalRules \<noteq> 0 then []
            else if sources = []
            then [missing_item ''rules_missing'' ''no canonical rules files were discovered'']
            else if anyStatusSourceExists items
            then [missing_item ''rules_unloaded'' ''canonical rules files exist but could not be loaded'']
            else [missing_item ''rules_missing'' (''no canonical rules files were found at '' @
                   join '' or '' (filter (\<lambda>p. p \<noteq> '''') (map sts_SourcePath items)))])))"

section \<open>Tags, tests and workflows\<close>

definition statusTags :: "project_env \<Rightarrow> string \<Rightarrow> string \<Rightarrow> StatusSource \<times> StatusMissingItem list" where
  "statusTags env projectRoot tagsFile =
     (case discoverCanonicalTagsSource env projectRoot tagsFile of
        Inl e \<Rightarrow> (invalid_source ''tags'' (go_error_text e),
                  [missing_item ''tags_source_invalid'' (go_error_text e)])
      | Inr source \<Rightarrow>
          (let item = source_item ''tags'' source in
           if \<not> src_Exists source
           then (item, [missing_item ''tags_missing''
                  (''repo-local canonical tags file is missing at '' @ src_SourcePath source)])
           else case parseCanonicalTagsFile env source of
             Inl e \<Rightarrow> (item\<lparr>sts_Notes := [go_error_text e]\<rparr>, [missing_item ''tags_invalid'' (go_error_text e)])
           | Inr document \<Rightarrow> (loaded_item (length (ctd_CanonicalTags document)) item, [])))"

definition load_error_text :: "load_error \<Rightarrow> string" where
  "load_error_text e = (case e of NotExist \<Rightarrow> ''file does not exist'' | LoadErr msg \<Rightarrow> msg)"

text \<open>The discovered source with its second path; an explicit file is resolved as it was given.\<close>

definition definitions_source :: "project_env \<Rightarrow> string \<Rightarrow> string \<Rightarrow> string \<times> bool \<Rightarrow> project_source" where
  "definitions_source env projectRoot file = (\<lambda>(sourcePath, exists).
     \<lparr> src_SourcePath = sourcePath,
       src_AbsolutePath = source_absolute_path env projectRoot
         (if TrimSpace file \<noteq> '''' then file else sourcePath),
       src_Exists = exists \<rparr>)"

definition statusTests ::
  "status_env \<Rightarrow> string \<Rightarrow> string \<Rightarrow> string \<Rightarrow> StatusSource \<times> StatusMissingItem list" where
  "statusTests env projectRoot testsFile tagsFile =
     (case discoverVerifyTestsSource (service_of env projectRoot) testsFile of
        Inl e \<Rightarrow> (invalid_source ''tests'' (go_error_text e),
                  [missing_item ''tests_source_invalid'' (go_error_text e)])
      | Inr hit \<Rightarrow>
          (let item = source_item ''tests'' (definitions_source (sv_project env) projectRoot testsFile hit) in
           if \<not> snd hit
           then (item, [missing_item ''tests_missing''
                  (''verification definitions file is missing at '' @ fst hit)])
           else case snd (loadVerifyDefinitions (service_of env projectRoot) testsFile tagsFile) of
             Inl e \<Rightarrow> (item\<lparr>sts_Notes := [load_error_text e]\<rparr>,
                       [missing_item ''tests_invalid'' (load_error_text e)])
           | Inr definitions \<Rightarrow> (loaded_item (length definitions) item,
               if definitions = []
               then [missing_item ''tests_empty''
                      ''verification definitions loaded but no tests are configured'']
               else [])))"

definition statusWorkflows ::
  "status_env \<Rightarrow> string \<Rightarrow> string \<Rightarrow> string \<Rightarrow> StatusSource \<times> StatusMissingItem list" where
  "statusWorkflows env projectRoot workflowsFile tagsFile =
     (case discoverWorkflowDefinitionsSource (service_of env projectRoot) workflowsFile of
        Inl e \<Rightarrow> (invalid_source ''workflows'' (go_error_text e),
                  [missing_item ''workflows_source_invalid'' (go_error_text e)])
      | Inr hit \<Rightarrow>
          (let item = source_item ''workflows''
                 (definitions_source (sv_project env) projectRoot workflowsFile hit) in
           if \<not> snd hit
           then (item, [missing_item ''workflows_missing''
                  (''workflow definitions file is missing at '' @ fst hit)])
           else case snd (loadWorkflowCompletionRequirements (service_of env projectRoot)
               workflowsFile tagsFile) of
             Inl e \<Rightarrow> (item\<lparr>sts_Notes := [load_error_text e]\<rparr>,
                       [missing_item ''workflows_invalid'' (load_error_text e)])
           | Inr definitions \<Rightarrow> (loaded_item (length definitions) item, [])))"

section \<open>Preview of a context\<close>

definition preview_error :: "string \<Rightarrow> string \<Rightarrow> string \<Rightarrow> StatusContextPreview" where
  "preview_error taskText phase err =
     \<lparr> scp_TaskText = taskText, scp_Phase = phase, scp_Status = ''unavailable'', scp_ResolvedTags = [],
       scp_RuleCount = 0, scp_PlanCount = 0, scp_InitialScopePathCount = 0, scp_Error = err \<rparr>"

definition statusContextPreview ::
  "status_env \<Rightarrow> StatusPayload \<Rightarrow> string \<Rightarrow> StatusContextPreview svc" where
  "statusContextPreview env payload projectRoot =
     (let taskText = TrimSpace (stp_TaskText payload);
          phase = (if stp_Phase payload = '''' then PhaseExecute else stp_Phase payload);
          ctx = context_of (sv_project env) projectRoot in
      case loadCanonicalTagNormalizer (sv_project env) projectRoot (stp_TagsFile payload) of
        Inl e \<Rightarrow> ret_svc (preview_error taskText phase (''load canonical tags: '' @ go_error_text e))
      | Inr m \<Rightarrow>
          (case loadCanonicalContextRules ctx (stp_ProjectID payload) m of
             Inl e \<Rightarrow> ret_svc (preview_error taskText phase (''load canonical rules: '' @ go_error_text e))
           | Inr (selectedRules, _, ruleTags) \<Rightarrow>
               (let rules = makeContextRules ctx selectedRules;
                    resolvedTags = resolveTags m (canonicalTagsFromTaskText m taskText @ ruleTags);
                    receiptID = deterministicReceiptID ctx \<lparr> ctp_ProjectID = stp_ProjectID payload,
                        ctp_TaskText = taskText, ctp_Phase = phase, ctp_TagsFile = '''',
                        ctp_InitialScopePaths = None, ctp_Actor = None \<rparr> resolvedTags rules None [] in
                bind_svc (makeContextPlans (stp_ProjectID payload) receiptID) (\<lambda>plans.
                ret_svc \<lparr> scp_TaskText = taskText, scp_Phase = phase, scp_Status = ''ok'',
                  scp_ResolvedTags = resolvedTags, scp_RuleCount = length rules,
                  scp_PlanCount = length plans, scp_InitialScopePathCount = 0, scp_Error = '''' \<rparr>))))"

section \<open>Integrations\<close>

text \<open>The targets under one key, the ones below \<open>.awm/\<close> first.\<close>

definition groupAlternateTargets :: "string list \<Rightarrow> string list list" where
  "groupAlternateTargets targets =
     map (\<lambda>canon. sort_key (\<lambda>p. \<not> HasPrefix p ''.awm/'')
         (sort (filter (\<lambda>t. canonicalTargetKey t = canon) targets)))
       (rev (remdups (rev (map canonicalTargetKey targets))))"

definition template_groups :: "Template \<Rightarrow> string list list" where
  "template_groups t = groupAlternateTargets
     (filter (\<lambda>target. target \<noteq> '''') (map (\<lambda>op. TrimSpace (top_Target op)) (tpl_Operations t)))"

definition integration_of ::
  "(string \<Rightarrow> bool) \<Rightarrow> (string \<Rightarrow> nat) \<Rightarrow> Template \<Rightarrow> StatusIntegration" where
  "integration_of present canonFreq t =
     (let groups = template_groups t;
          hit = filter (list_ex present) groups;
          missingTargets = map hd (filter (\<lambda>g. \<not> list_ex present g) groups);
          hasUniquePresent = list_ex (\<lambda>g. canonFreq (canonicalTargetKey (hd g)) = 1) hit;
          allPresent = (groups \<noteq> [] \<and> length hit = length groups) in
      \<lparr> sti_ID = tpl_ID t, sti_Summary = TrimSpace (tpl_Summary t),
        sti_Installed = (allPresent \<and> hasUniquePresent), sti_PresentTargets = length hit,
        sti_ExpectedTargets = length groups, sti_MissingTargets = missingTargets \<rparr>)"

definition template_error_text :: "template_error \<Rightarrow> string" where
  "template_error_text e = (case e of
       UnknownTemplateError templateID \<Rightarrow> ''unknown init template '' @ go_quote templateID
     | CatalogError err \<Rightarrow> go_error_text err)"

definition statusIntegrations ::
  "project_env \<Rightarrow> embedded \<Rightarrow> string \<Rightarrow> template_error + StatusIntegration list" where
  "statusIntegrations env em projectRoot =
     (case TemplateIDs em of
        Inl e \<Rightarrow> Inl (CatalogError e)
      | Inr templateIDs \<Rightarrow> bind_res (ResolveTemplates em (Some templateIDs)) (\<lambda>templates.
          let keys = concat (map (\<lambda>t. map (\<lambda>g. canonicalTargetKey (hd g)) (template_groups t)) templates);
              canonFreq = (\<lambda>k. length (filter (\<lambda>x. x = k) keys));
              present = (\<lambda>target. case pj_stat env (filepath_Join projectRoot target) of
                StatFile \<Rightarrow> True | StatDir \<Rightarrow> True | _ \<Rightarrow> False) in
          Inr (sort_key sti_ID (map (integration_of present canonFreq) templates))))"

section \<open>Status\<close>

definition statusPlanWarnings :: "string \<Rightarrow> int \<Rightarrow> StatusMissingItem list svc" where
  "statusPlanWarnings projectID now =
     bind_svc (collectPlanDiagnostics projectID now) (\<lambda>d.
       ret_svc (dedupeStatusMissing
         (map (missing_item ''stale_work_plan'') (pd_stale d) @
          map (missing_item ''terminal_plan_status_drift'') (pd_terminalStatusDrift d) @
          map (missing_item ''administrative_closeout_plan'') (pd_administrativeCloseout d))))"

definition status_project :: "status_env \<Rightarrow> StatusPayload \<Rightarrow> string \<Rightarrow> Root \<Rightarrow> StatusProject" where
  "status_project env payload projectRoot detectedRoot =
     (let rt = sv_runtime env in
      \<lparr> spj_ProjectID = TrimSpace (stp_ProjectID payload), spj_ProjectRoot = projectRoot,
        spj_DetectedRepoRoot = TrimSpace (root_Path detectedRoot),
        spj_Backend = firstNonEmpty [TrimSpace (rts_Backend rt), ''unknown''],
        spj_PostgresConfigured = rts_PostgresConfigured rt,
        spj_SQLitePath = TrimSpace (rts_SQLitePath rt),
        spj_UsesImplicitSQLitePath = rts_UsesImplicitSQLitePath rt,
        spj_Unbounded = sv_unbounded env \<rparr>)"

text \<open>The sources in their reported order and what is missing of them.\<close>

definition status_sources ::
  "status_env \<Rightarrow> StatusPayload \<Rightarrow> string \<Rightarrow> StatusSource list \<times> StatusMissingItem list" where
  "status_sources env payload projectRoot =
     (let (ruleSources, ruleMissing) = statusRules (sv_project env) projectRoot (stp_RulesFile payload)
            (stp_TagsFile payload) (stp_ProjectID payload);
          (tagSource, tagMissing) = statusTags (sv_project env) projectRoot (stp_TagsFile payload);
          (testSource, testMissing) = statusTests env projectRoot (stp_TestsFile payload) (stp_TagsFile payload);
          (workflowSource, workflowMissing) = statusWorkflows env projectRoot (stp_WorkflowsFile payload)
            (stp_TagsFile payload) in
      (sort_key sts_Kind (sort_key sts_SourcePath (ruleSources @ [tagSource, testSource, workflowSource])),
       ruleMissing @ tagMissing @ testMissing @ workflowMissing))"

definition status_preview ::
  "status_env \<Rightarrow> StatusPayload \<Rightarrow> string \<Rightarrow> StatusContextPreview option svc" where
  "status_preview env payload projectRoot =
     (if TrimSpace (stp_TaskText payload) \<noteq> ''''
      then bind_svc (statusContextPreview env payload projectRoot) (\<lambda>p. ret_svc (Some p))
      else ret_svc None)"

definition preview_missing :: "StatusContextPreview option \<Rightarrow> StatusMissingItem list" where
  "preview_missing preview =
     (case preview of
        Some p \<Rightarrow> if scp_Error p \<noteq> '''' then [missing_item ''context_preview_error'' (scp_Error p)] else []
      | None \<Rightarrow> [])"

definition root_missing :: "Root \<Rightarrow> StatusMissingItem list" where
  "root_missing detectedRoot =
     (if root_IsRepo detectedRoot then []
      else [missing_item ''project_root_not_repo'' ''project root is not inside a git repository''])"

definition catalog_missing :: "template_error + StatusIntegration list \<Rightarrow> StatusMissingItem list" where
  "catalog_missing integrations =
     (case integrations of
        Inl e \<Rightarrow> [missing_item ''template_catalog_unavailable''
          (''init template catalog is unavailable: '' @ template_error_text e)]
      | Inr _ \<Rightarrow> [])"

definition Status :: "status_env \<Rightarrow> int \<Rightarrow> StatusPayload \<Rightarrow> StatusResult svc" where
  "Status env now payload =
     (let projectRoot = effectiveProjectRoot (sv_project env) (stp_ProjectRoot payload);
          detectedRoot = DetectRoot (sv_project env) (Inr ''.'') projectRoot;
          (sources, sourceMissing) = status_sources env payload projectRoot;
          integrations = statusIntegrations (sv_project env) (sv_embedded env) projectRoot in
      bind_svc (status_preview env payload projectRoot) (\<lambda>preview.
      bind_svc (statusPlanWarnings (TrimSpace (stp_ProjectID payload)) now) (\<lambda>warnings.
      let missing = dedupeStatusMissing (root_missing detectedRoot @ sourceMissing @
            catalog_missing integrations @ preview_missing preview) in
      ret_svc \<lparr> str_Summary = \<lparr> ssm_Ready = (missing = []), ssm_MissingCount = length missing,
                  ssm_WarningCount = length warnings \<rparr>,
                str_Project = status_project env payload projectRoot detectedRoot,
                str_Sources = sources,
                str_Integrations = (case integrations of Inl _ \<Rightarrow> [] | Inr out \<Rightarrow> out),
                str_Context = preview, str_Missing = missing, str_Warnings = warnings \<rparr>)))"

end
