(* ===== verification/Project_Samples.thy ===== *)
theory Project_Samples
  imports Backend_Status Gate_Properties
begin

text \<open>
  A small project for the examples: its files are a map, the decoders accept two texts, and the working
  tree is what git prints. The properties are applied to it.
\<close>

definition sample_rules :: rules_document where
  "sample_rules =
     \<lparr> rd_Version = ''awm.rules.v1'', rd_Rules = [\<lparr> rule_ID = ''rule-1'', rule_Summary = ''Keep it small'',
         rule_Title = '''', rule_Content = ''Keep it small'', rule_Enforcement = ''hard'', rule_Tags = [] \<rparr>] \<rparr>"

definition sample_project :: "(string \<rightharpoonup> string) \<Rightarrow> project_env" where
  "sample_project files =
     \<lparr> pj_root = ''/p'', pj_detected = '''', pj_abs = Inr,
       pj_stat = (\<lambda>p. if p = ''/p/.git'' then StatDir else if files p = None then StatMissing else StatFile),
       pj_read = (\<lambda>p. case files p of None \<Rightarrow> FileMissing | Some b \<Rightarrow> FileContent b),
       pj_walk = (\<lambda>_. Directory [(''a.go'', RegularFile)] False),
       pj_git = (\<lambda>_ args. if hd args = ''ls-files'' \<and> last args = ''--exclude-standard'' then Inr ''a.go'' else Inr ''''),
       pj_tags_yaml = (\<lambda>_. Inr \<lparr> ctd_Version = ''awm.tags.v1'', ctd_CanonicalTags = [] \<rparr>),
       pj_rules_yaml = (\<lambda>b. if b = ''ok'' then Inr sample_rules else Inl (GoErr ''bad yaml'')),
       pj_sha = (\<lambda>n b. take n b) \<rparr>"

definition sample_status :: "(string \<rightharpoonup> string) \<Rightarrow> status_env" where
  "sample_status files =
     \<lparr> sv_project = sample_project files, sv_tests_yaml = (\<lambda>_. Inr sample_tests),
       sv_workflows_yaml = (\<lambda>_. Inr \<lparr> wdd_Version = ''awm.workflows.v1'', wdd_RequiredTasks = [] \<rparr>),
       sv_runtime = \<lparr> rts_Backend = ''sqlite'', rts_PostgresConfigured = False, rts_SQLitePath = '''',
         rts_UsesImplicitSQLitePath = True \<rparr>,
       sv_unbounded = False, sv_embedded = \<lparr> em_manifests = [], em_files = Map.empty, em_dirs = [] \<rparr>,
       sv_base = tests_env \<rparr>"

definition sample_status_payload :: "string \<Rightarrow> StatusPayload" where
  "sample_status_payload task =
     \<lparr> stp_ProjectID = ''proj'', stp_ProjectRoot = '''', stp_RulesFile = '''', stp_TagsFile = '''',
       stp_TestsFile = '''', stp_WorkflowsFile = '''', stp_TaskText = task, stp_Phase = '''' \<rparr>"

definition ready_files :: "string \<rightharpoonup> string" where
  "ready_files = [''/p/.awm/awm-rules.yaml'' \<mapsto> ''ok'', ''/p/.awm/awm-tags.yaml'' \<mapsto> ''t'',
     ''/p/.awm/awm-tests.yaml'' \<mapsto> ''t'', ''/p/.awm/awm-workflows.yaml'' \<mapsto> ''w'']"

text \<open>The same project with a second rules file that does not parse.\<close>

definition broken_files :: "string \<rightharpoonup> string" where
  "broken_files = ready_files(''/p/awm-rules.yaml'' \<mapsto> ''broken'')"

section \<open>What is read of it\<close>

definition default_aliases :: alias_map where
  "default_aliases =
     [(''backend'', ''backend''), (''api'', ''backend''), (''server'', ''backend''), (''service'', ''backend''),
      (''bootstrap'', ''bootstrap''), (''bootstrapping'', ''bootstrap''), (''seed'', ''bootstrap''),
      (''docs'', ''docs''), (''doc'', ''docs''), (''documentation'', ''docs''), (''readme'', ''docs''),
      (''frontend'', ''frontend''), (''ui'', ''frontend''), (''client'', ''frontend''),
      (''governance'', ''governance''), (''policy'', ''governance''), (''policies'', ''governance''),
      (''rule'', ''governance''), (''rules'', ''governance''), (''mcp'', ''mcp''),
      (''modelcontextprotocol'', ''mcp''), (''ops'', ''ops''), (''operations'', ''ops''),
      (''postgres'', ''postgres''), (''postgresql'', ''postgres''), (''pg'', ''postgres''),
      (''review'', ''review''), (''audit'', ''review''), (''sync'', ''sync''), (''synchronization'', ''sync''),
      (''test'', ''test''), (''tests'', ''test''), (''testing'', ''test'')]"

lemma default_aliases: "loadCanonicalTagAliasMapFromDocument canonicalTagsJSON = default_aliases"
  by code_simp

lemma sample_tags_file:
  "tags_file (sample_project ready_files) ''/p'' '''' = Inr (Some [])"
  "tags_file (sample_project broken_files) ''/p'' '''' = Inr (Some [])"
  by code_simp+

lemma sample_normalizer:
  assumes "files = ready_files \<or> files = broken_files"
  shows "loadMergedCanonicalTagAliasMap (context_of (sample_project files) ''/p'') '''' = Inr default_aliases"
  using assms by (auto simp: loadMergedCanonicalTagAliasMap_def context_of_def sample_tags_file default_aliases
      loadCanonicalTagAliasMapFromDocument_def[of "[]"])

definition sample_source :: "string \<Rightarrow> bool \<Rightarrow> project_source" where
  "sample_source p e = \<lparr> src_SourcePath = p, src_AbsolutePath = ''/p/'' @ p, src_Exists = e \<rparr>"

lemma sample_rule_sources:
  "discoverCanonicalRulesetSources (sample_project ready_files) ''/p'' '''' =
     Inr [sample_source ''.awm/awm-rules.yaml'' True, sample_source ''awm-rules.yaml'' False]"
  "discoverCanonicalRulesetSources (sample_project broken_files) ''/p'' '''' =
     Inr [sample_source ''.awm/awm-rules.yaml'' True, sample_source ''awm-rules.yaml'' True]"
  by code_simp+

definition sample_rule :: canonicalRulePointer where
  "sample_rule =
     \<lparr> crp_PointerKey = ''proj:.awm/awm-rules.yaml#rule-1'', crp_SourcePath = ''.awm/awm-rules.yaml'',
       crp_RuleID = ''rule-1'', crp_Summary = ''Keep it small'', crp_Content = ''Keep it small'',
       crp_Enforcement = ''hard'', crp_Tags = [''canonical-rule'', ''enforcement-hard'', ''governance''] \<rparr>"

lemma sample_rules_parsed:
  "parse_ruleset_source (sample_project ready_files) (sample_source ''.awm/awm-rules.yaml'' True) ''proj''
     default_aliases = Inr [sample_rule]"
  "parse_ruleset_source (sample_project broken_files) (sample_source ''.awm/awm-rules.yaml'' True) ''proj''
     default_aliases = Inr [sample_rule]"
  by code_simp+

lemma sample_tests_found:
  "discoverVerifyTestsSource (service_of (sample_status ready_files) ''/p'') '''' =
     Inr (''.awm/awm-tests.yaml'', True)"
  "discoverVerifyTestsSource (service_of (sample_status broken_files) ''/p'') '''' =
     Inr (''.awm/awm-tests.yaml'', True)"
  by code_simp+

lemma sample_workflows_found:
  "discoverWorkflowDefinitionsSource (service_of (sample_status ready_files) ''/p'') '''' =
     Inr (''.awm/awm-workflows.yaml'', True)"
  "discoverWorkflowDefinitionsSource (service_of (sample_status broken_files) ''/p'') '''' =
     Inr (''.awm/awm-workflows.yaml'', True)"
  by code_simp+

lemma sample_tests_loaded:
  "\<exists>d. tests_of_document (service_of (sample_status ready_files) ''/p'') default_aliases
     ''.awm/awm-tests.yaml'' sample_tests = Inr [d]"
  "\<exists>d. tests_of_document (service_of (sample_status broken_files) ''/p'') default_aliases
     ''.awm/awm-tests.yaml'' sample_tests = Inr [d]"
proof -
  have "(case tests_of_document (service_of (sample_status ready_files) ''/p'') default_aliases
      ''.awm/awm-tests.yaml'' sample_tests of Inr [d] \<Rightarrow> True | _ \<Rightarrow> False) \<and>
    (case tests_of_document (service_of (sample_status broken_files) ''/p'') default_aliases
      ''.awm/awm-tests.yaml'' sample_tests of Inr [d] \<Rightarrow> True | _ \<Rightarrow> False)"
    by code_simp
  then show "\<exists>d. tests_of_document (service_of (sample_status ready_files) ''/p'') default_aliases
     ''.awm/awm-tests.yaml'' sample_tests = Inr [d]"
  "\<exists>d. tests_of_document (service_of (sample_status broken_files) ''/p'') default_aliases
     ''.awm/awm-tests.yaml'' sample_tests = Inr [d]"
    by (auto split: sum.split_asm list.split_asm)
qed

lemma sample_definition_files:
  "se_tests (service_of (sample_status ready_files) ''/p'') ''.awm/awm-tests.yaml'' = Parsed sample_tests"
  "se_workflows (service_of (sample_status ready_files) ''/p'') ''.awm/awm-workflows.yaml'' =
     Parsed \<lparr> wdd_Version = ''awm.workflows.v1'', wdd_RequiredTasks = [] \<rparr>"
  "se_tests (service_of (sample_status broken_files) ''/p'') ''.awm/awm-tests.yaml'' = Parsed sample_tests"
  "se_workflows (service_of (sample_status broken_files) ''/p'') ''.awm/awm-workflows.yaml'' =
     Parsed \<lparr> wdd_Version = ''awm.workflows.v1'', wdd_RequiredTasks = [] \<rparr>"
  by code_simp+

end
