(* ===== verification/Status_Properties.thy ===== *)
theory Status_Properties
  imports Project_Samples
begin

text \<open>
  What a status report says of the commands that follow it: a project that is reported ready loads its
  tags, rules, checks and workflows.
\<close>

section \<open>Missing items\<close>

lemma dedupe_fold_nil:
  "foldl (\<lambda>out item. if f item = z \<or> f item \<in> set (map f out) then out else item # out) acc xs = [] \<longleftrightarrow>
     acc = [] \<and> (\<forall>i \<in> set xs. f i = z)"
proof (induction xs arbitrary: acc)
  case (Cons x xs) then show ?case by (auto split: if_splits)
qed simp

lemma dedupeStatusMissing_Nil:
  "dedupeStatusMissing items = [] \<longleftrightarrow>
     (\<forall>i \<in> set items. TrimSpace (smi_Code i) @ [CHR 0x00] @ TrimSpace (smi_Message i) = [CHR 0x00])"
  unfolding dedupeStatusMissing_def Let_def rev_is_Nil_conv dedupe_fold_nil by simp

definition status_codes :: "string list" where
  "status_codes = [''project_root_not_repo'', ''template_catalog_unavailable'', ''context_preview_error'',
     ''rules_source_invalid'', ''rules_missing'', ''rules_unloaded'', ''tags_source_invalid'', ''tags_missing'',
     ''tags_invalid'', ''tests_source_invalid'', ''tests_missing'', ''tests_invalid'', ''tests_empty'',
     ''workflows_source_invalid'', ''workflows_missing'', ''workflows_invalid'']"

lemma status_codes_visible: "list_all (\<lambda>c. TrimSpace c \<noteq> '''') status_codes"
  by code_simp

lemma missing_item_kept:
  assumes "missing_item c msg \<in> set items" "c \<in> set status_codes"
  shows "dedupeStatusMissing items \<noteq> []"
proof -
  have "TrimSpace c \<noteq> ''''" using status_codes_visible assms(2) by (simp add: list_all_iff)
  then have "TrimSpace c @ [CHR 0x00] @ TrimSpace msg \<noteq> [CHR 0x00]" by (cases "TrimSpace c") auto
  then show ?thesis using assms(1) unfolding dedupeStatusMissing_Nil by (force simp: missing_item_def)
qed

lemma dedupe_missing_Nil:
  assumes "dedupeStatusMissing items = []" "c \<in> set status_codes"
  shows "missing_item c msg \<notin> set items"
  using missing_item_kept[OF _ assms(2)] assms(1) by blast

section \<open>Sources without a missing item\<close>

lemma statusRules_loaded:
  assumes "snd (statusRules env projectRoot rulesFile tagsFile projectID) = []"
  shows "\<exists>sources source m rules. discoverCanonicalRulesetSources env projectRoot rulesFile = Inr sources \<and>
    source \<in> set sources \<and> src_Exists source \<and>
    loadCanonicalTagNormalizer env projectRoot tagsFile = Inr m \<and>
    parse_ruleset_source env source (TrimSpace projectID) m = Inr rules \<and> rules \<noteq> []"
proof -
  obtain sources where src: "discoverCanonicalRulesetSources env projectRoot rulesFile = Inr sources"
    using assms by (auto simp: statusRules_def split: sum.splits)
  have "\<exists>source \<in> set sources.
      snd (rules_item env projectID (loadCanonicalTagNormalizer env projectRoot tagsFile) source) \<noteq> 0"
  proof (rule ccontr)
    assume "\<not> ?thesis"
    then have "sum_list (map (snd \<circ> rules_item env projectID
        (loadCanonicalTagNormalizer env projectRoot tagsFile)) sources) = 0" by simp
    with assms show False unfolding statusRules_def src by (auto simp: Let_def split: if_splits)
  qed
  then obtain source where "source \<in> set sources"
    "snd (rules_item env projectID (loadCanonicalTagNormalizer env projectRoot tagsFile) source) \<noteq> 0"
    by blast
  with src show ?thesis
    by (fastforce simp: rules_item_def Let_def split: if_splits sum.splits)
qed

lemma statusTags_loaded:
  assumes "snd (statusTags env projectRoot tagsFile) = []"
  shows "\<exists>source doc. discoverCanonicalTagsSource env projectRoot tagsFile = Inr source \<and> src_Exists source \<and>
    parseCanonicalTagsFile env source = Inr doc"
  using assms by (auto simp: statusTags_def Let_def split: sum.splits if_splits)

lemma statusTests_loaded:
  assumes "snd (statusTests env projectRoot testsFile tagsFile) = []"
  shows "\<exists>src definitions. loadVerifyDefinitions (service_of env projectRoot) testsFile tagsFile =
    (src, Inr definitions) \<and> definitions \<noteq> []"
  using assms by (cases "loadVerifyDefinitions (service_of env projectRoot) testsFile tagsFile")
    (auto simp: statusTests_def Let_def split: sum.splits if_splits)

lemma statusWorkflows_loaded:
  assumes "snd (statusWorkflows env projectRoot workflowsFile tagsFile) = []"
  shows "\<exists>src definitions. loadWorkflowCompletionRequirements (service_of env projectRoot) workflowsFile tagsFile =
    ((src, True), Inr definitions)"
proof -
  let ?env = "service_of env projectRoot"
  obtain f where f: "discoverWorkflowDefinitionsSource ?env workflowsFile = Inr f" "snd f"
    using assms by (auto simp: statusWorkflows_def Let_def split: sum.splits if_splits)
  obtain d where d: "snd (loadWorkflowCompletionRequirements ?env workflowsFile tagsFile) = Inr d"
    using assms f unfolding statusWorkflows_def by (auto simp: Let_def split: sum.splits)
  from f obtain src where "f = (src, True)" by (cases f) auto
  then show ?thesis
    using f(1) d unfolding loadWorkflowCompletionRequirements_def
    by (cases "loadMergedCanonicalTagAliasMap (se_ctx ?env) tagsFile") auto
qed

section \<open>A ready project\<close>

lemma Status_parts:
  assumes "Status env now payload s = (Inr r, s')"
  obtains preview s1 where
    "status_preview env payload (effectiveProjectRoot (sv_project env) (stp_ProjectRoot payload)) s =
      (Inr preview, s1)"
    "str_Context r = preview"
    "ssm_Ready (str_Summary r) \<longleftrightarrow> str_Missing r = []"
    "\<exists>a c. str_Missing r = dedupeStatusMissing (a @ snd (status_sources env payload
        (effectiveProjectRoot (sv_project env) (stp_ProjectRoot payload))) @ c @ preview_missing preview)"
proof -
  let ?root = "effectiveProjectRoot (sv_project env) (stp_ProjectRoot payload)"
  obtain preview s1 where p: "status_preview env payload ?root s = (Inr preview, s1)"
    using assms unfolding Status_def Let_def
    by (cases "status_preview env payload ?root s")
       (auto simp: bind_svc_def split: prod.splits sum.splits)
  obtain sources missing where src: "status_sources env payload ?root = (sources, missing)" by fastforce
  have r: "str_Context r = preview \<and> (ssm_Ready (str_Summary r) \<longleftrightarrow> str_Missing r = []) \<and>
    str_Missing r = dedupeStatusMissing (root_missing (DetectRoot (sv_project env) (Inr ''.'') ?root) @ missing @
      catalog_missing (statusIntegrations (sv_project env) (sv_embedded env) ?root) @ preview_missing preview)"
    using assms unfolding Status_def Let_def src prod.case
    by (auto simp: p svc_defs split: prod.splits sum.split_asm)
  show thesis by (rule that[OF p]) (use r src in auto)
qed

text \<open>Every missing item carries one of the known codes.\<close>

definition coded :: "StatusMissingItem \<Rightarrow> bool" where
  "coded i \<longleftrightarrow> smi_Code i \<in> set status_codes"

lemma coded_missing_item [simp]: "coded (missing_item c msg) \<longleftrightarrow> c \<in> set status_codes"
  by (simp add: coded_def missing_item_def)

lemma known_codes [simp]:
  "''project_root_not_repo'' \<in> set status_codes"
  "''template_catalog_unavailable'' \<in> set status_codes"
  "''context_preview_error'' \<in> set status_codes"
  "''rules_source_invalid'' \<in> set status_codes"
  "''rules_missing'' \<in> set status_codes"
  "''rules_unloaded'' \<in> set status_codes"
  "''tags_source_invalid'' \<in> set status_codes"
  "''tags_missing'' \<in> set status_codes"
  "''tags_invalid'' \<in> set status_codes"
  "''tests_source_invalid'' \<in> set status_codes"
  "''tests_missing'' \<in> set status_codes"
  "''tests_invalid'' \<in> set status_codes"
  "''tests_empty'' \<in> set status_codes"
  "''workflows_source_invalid'' \<in> set status_codes"
  "''workflows_missing'' \<in> set status_codes"
  "''workflows_invalid'' \<in> set status_codes"
  by (simp_all add: status_codes_def)

lemma statusRules_coded: "list_all coded (snd (statusRules env projectRoot rulesFile tagsFile projectID))"
  by (simp add: statusRules_def Let_def split: sum.split)

lemma statusTags_coded: "list_all coded (snd (statusTags env projectRoot tagsFile))"
  by (simp add: statusTags_def Let_def split: sum.split)

lemma statusTests_coded: "list_all coded (snd (statusTests env projectRoot testsFile tagsFile))"
  by (simp add: statusTests_def Let_def split: sum.split)

lemma statusWorkflows_coded: "list_all coded (snd (statusWorkflows env projectRoot workflowsFile tagsFile))"
  by (simp add: statusWorkflows_def Let_def split: sum.split)

lemma status_sources_coded: "\<forall>i \<in> set (snd (status_sources env payload projectRoot)). coded i"
proof -
  have "list_all coded (snd (status_sources env payload projectRoot))"
    using statusRules_coded[of "sv_project env" projectRoot "stp_RulesFile payload" "stp_TagsFile payload"
        "stp_ProjectID payload"] statusTags_coded[of "sv_project env" projectRoot "stp_TagsFile payload"]
      statusTests_coded[of env projectRoot "stp_TestsFile payload" "stp_TagsFile payload"]
      statusWorkflows_coded[of env projectRoot "stp_WorkflowsFile payload" "stp_TagsFile payload"]
    by (simp add: status_sources_def case_prod_beta)
  then show ?thesis by (simp add: list_all_iff)
qed

lemma preview_missing_coded: "\<forall>i \<in> set (preview_missing preview). coded i"
  by (cases preview) (simp_all add: preview_missing_def)

lemma coded_list_dedupe_Nil:
  assumes "dedupeStatusMissing (a @ xs @ b) = []" "\<forall>i \<in> set xs. coded i"
  shows "xs = []"
proof (cases xs)
  case (Cons i rest)
  then have "missing_item (smi_Code i) (smi_Message i) \<in> set (a @ xs @ b)" by (simp add: missing_item_def)
  moreover have "smi_Code i \<in> set status_codes" using assms(2) Cons by (simp add: coded_def)
  ultimately show ?thesis using dedupe_missing_Nil[OF assms(1)] by blast
qed

text \<open>A project on which \<open>context\<close> can be asked: it fails only in the store.\<close>

definition opens_receipts :: "context_env \<Rightarrow> string \<Rightarrow> string \<Rightarrow> bool" where
  "opens_receipts env projectID tagsFile \<longleftrightarrow>
     (\<forall>payload s e s'. ctp_ProjectID payload = projectID \<and> ctp_TagsFile payload = tagsFile \<and>
        openReceiptScope env payload s = (Inl e, s') \<longrightarrow> (\<exists>err. e = internalError ''persist_receipt_scope'' err))"

lemma opens_receiptsI:
  assumes "loadMergedCanonicalTagAliasMap env tagsFile = Inr m"
    "loadCanonicalContextRules env projectID m = Inr rules"
  shows "opens_receipts env projectID tagsFile"
  using assms unfolding opens_receipts_def openReceiptScope_def
  by (cases rules) (auto simp: Let_def svc_defs split: prod.splits sum.splits)

lemma statusContextPreview_opens:
  assumes "statusContextPreview env payload projectRoot s = (Inr p, s')" "scp_Error p = ''''"
  shows "opens_receipts (context_of (sv_project env) projectRoot) (stp_ProjectID payload) (stp_TagsFile payload)"
proof -
  obtain m where m: "loadCanonicalTagNormalizer (sv_project env) projectRoot (stp_TagsFile payload) = Inr m"
    using assms by (auto simp: statusContextPreview_def Let_def preview_error_def svc_defs split: sum.splits)
  obtain rules where "loadCanonicalContextRules (context_of (sv_project env) projectRoot) (stp_ProjectID payload) m =
      Inr rules"
    using assms m by (auto simp: statusContextPreview_def Let_def preview_error_def svc_defs split: sum.splits)
  with m show ?thesis by (auto simp: loadCanonicalTagNormalizer_def intro: opens_receiptsI)
qed

text \<open>C13: when \<open>Status\<close> reports a project ready, the files that the other commands need are in order: the
  canonical tags load, some rules file exists and gives at least one rule, the verification tests load and
  there is at least one, the workflow definitions exist and load. When a task was given, a \<open>context\<close> call
  for the same project fails at most because the store fails.\<close>

theorem ready_project_loads:
  assumes run: "Status env now payload s = (Inr r, s')" and ready: "ssm_Ready (str_Summary r)"
  shows "let root = effectiveProjectRoot (sv_project env) (stp_ProjectRoot payload);
             tags = stp_TagsFile payload in
    (\<exists>sources source m rules. discoverCanonicalRulesetSources (sv_project env) root (stp_RulesFile payload) = Inr sources \<and>
       source \<in> set sources \<and> src_Exists source \<and>
       loadCanonicalTagNormalizer (sv_project env) root tags = Inr m \<and>
       parse_ruleset_source (sv_project env) source (TrimSpace (stp_ProjectID payload)) m = Inr rules \<and> rules \<noteq> []) \<and>
    (\<exists>src tests. loadVerifyDefinitions (service_of env root) (stp_TestsFile payload) tags = (src, Inr tests) \<and> tests \<noteq> []) \<and>
    (\<exists>src tasks. loadWorkflowCompletionRequirements (service_of env root) (stp_WorkflowsFile payload) tags =
       ((src, True), Inr tasks)) \<and>
    (TrimSpace (stp_TaskText payload) \<noteq> '''' \<longrightarrow>
       opens_receipts (context_of (sv_project env) root) (stp_ProjectID payload) tags)"
proof -
  let ?root = "effectiveProjectRoot (sv_project env) (stp_ProjectRoot payload)"
  obtain preview s1 a c where st:
    "status_preview env payload ?root s = (Inr preview, s1)"
    "dedupeStatusMissing (a @ snd (status_sources env payload ?root) @ c @ preview_missing preview) = []"
    using Status_parts[OF run] ready by metis
  have none: "snd (status_sources env payload ?root) = []" "preview_missing preview = []"
    using coded_list_dedupe_Nil[OF st(2) status_sources_coded]
      coded_list_dedupe_Nil[where b = "[]", simplified, OF _ preview_missing_coded] st(2)
    by (simp, metis append.assoc)
  show ?thesis unfolding Let_def
  proof (intro conjI impI)
    note parts = none(1)[unfolded status_sources_def]
    show "\<exists>sources source m rules.
        discoverCanonicalRulesetSources (sv_project env) ?root (stp_RulesFile payload) = Inr sources \<and>
        source \<in> set sources \<and> src_Exists source \<and>
        loadCanonicalTagNormalizer (sv_project env) ?root (stp_TagsFile payload) = Inr m \<and>
        parse_ruleset_source (sv_project env) source (TrimSpace (stp_ProjectID payload)) m = Inr rules \<and>
        rules \<noteq> []"
      by (rule statusRules_loaded) (use parts in \<open>auto split: prod.splits\<close>)
    show "\<exists>src tests. loadVerifyDefinitions (service_of env ?root) (stp_TestsFile payload) (stp_TagsFile payload) =
        (src, Inr tests) \<and> tests \<noteq> []"
      by (rule statusTests_loaded) (use parts in \<open>auto split: prod.splits\<close>)
    show "\<exists>src tasks. loadWorkflowCompletionRequirements (service_of env ?root) (stp_WorkflowsFile payload)
        (stp_TagsFile payload) = ((src, True), Inr tasks)"
      by (rule statusWorkflows_loaded) (use parts in \<open>auto split: prod.splits\<close>)
    assume task: "TrimSpace (stp_TaskText payload) \<noteq> []"
    then obtain q where "statusContextPreview env payload ?root s = (Inr q, s1)" "preview = Some q"
      using st(1) by (auto simp: status_preview_def svc_defs split: prod.splits sum.splits)
    then show "opens_receipts (context_of (sv_project env) ?root) (stp_ProjectID payload) (stp_TagsFile payload)"
      using none(2) by (intro statusContextPreview_opens) (auto simp: preview_missing_def split: if_splits)
  qed
qed

section \<open>The sample project\<close>

lemma sample_rules_status:
  "snd (statusRules (sample_project ready_files) ''/p'' '''' '''' ''proj'') = []"
  "snd (statusRules (sample_project broken_files) ''/p'' '''' '''' ''proj'') = []"
proof -
  have trim: "TrimSpace ''proj'' = ''proj''" by code_simp
  have items: "snd (rules_item (sample_project f) ''proj'' (Inr default_aliases)
      (sample_source ''.awm/awm-rules.yaml'' True)) = 1" if "f = ready_files \<or> f = broken_files" for f
    using that sample_rules_parsed
    by (auto simp: rules_item_def Let_def trim sample_source_def[of _ True])
  show "snd (statusRules (sample_project ready_files) ''/p'' '''' '''' ''proj'') = []"
    "snd (statusRules (sample_project broken_files) ''/p'' '''' '''' ''proj'') = []"
    using items[of ready_files] items[of broken_files]
    by (simp_all add: statusRules_def sample_rule_sources loadCanonicalTagNormalizer_def sample_normalizer)
qed

lemma sample_tags_status:
  "snd (statusTags (sample_project ready_files) ''/p'' '''') = []"
  "snd (statusTags (sample_project broken_files) ''/p'' '''') = []"
  by code_simp+

lemma sample_service_tags:
  assumes "files = ready_files \<or> files = broken_files"
  shows "loadMergedCanonicalTagAliasMap (se_ctx (service_of (sample_status files) ''/p'')) '''' = Inr default_aliases"
  using sample_normalizer[OF assms] by (simp add: service_of_def sample_status_def Let_def)

lemma sample_tests_status:
  assumes "files = ready_files \<or> files = broken_files"
  shows "snd (statusTests (sample_status files) ''/p'' '''' '''') = []"
  using assms sample_tests_loaded
  by (auto simp: statusTests_def loadVerifyDefinitions_def sample_service_tags sample_tests_found
      sample_definition_files Let_def)

lemma sample_workflows_status:
  assumes "files = ready_files \<or> files = broken_files"
  shows "snd (statusWorkflows (sample_status files) ''/p'' '''' '''') = []"
proof -
  have "workflow_tasks_of_document default_aliases ''.awm/awm-workflows.yaml''
      \<lparr> wdd_Version = ''awm.workflows.v1'', wdd_RequiredTasks = [] \<rparr> = Inr []" by code_simp
  then show ?thesis
    using assms by (auto simp: statusWorkflows_def loadWorkflowCompletionRequirements_def sample_service_tags
        sample_workflows_found sample_definition_files Let_def)
qed

lemma sample_sources_status:
  assumes "files = ready_files \<or> files = broken_files"
  shows "snd (status_sources (sample_status files) (sample_status_payload task) ''/p'') = []"
proof -
  have pj: "sv_project (sample_status files) = sample_project files" by (simp add: sample_status_def)
  have "snd (statusRules (sample_project files) ''/p'' '''' '''' ''proj'') = []"
    "snd (statusTags (sample_project files) ''/p'' '''') = []"
    using assms sample_rules_status sample_tags_status by auto
  then show ?thesis
    using sample_tests_status[OF assms] sample_workflows_status[OF assms]
    by (simp add: status_sources_def case_prod_beta pj sample_status_payload_def)
qed

lemma sample_root:
  "effectiveProjectRoot (sample_project ready_files) '''' = ''/p''"
  "effectiveProjectRoot (sample_project broken_files) '''' = ''/p''"
  "root_IsRepo (DetectRoot (sample_project ready_files) (Inr ''.'') ''/p'')"
  "root_IsRepo (DetectRoot (sample_project broken_files) (Inr ''.'') ''/p'')"
  by code_simp+

lemma sample_integrations:
  "statusIntegrations (sample_project files) (sv_embedded (sample_status files)) ''/p'' = Inr []"
  by (simp add: statusIntegrations_def TemplateIDs_def ResolveTemplates_def loadInitTemplateCatalog_def
      sample_status_def normalizeValues_def elems_def Let_def)

lemma sample_warnings: "statusPlanWarnings ''proj'' 0 db_empty = (Inr [], db_empty)"
  by code_simp

lemma sample_context_rules:
  "\<exists>x. loadCanonicalContextRules (context_of (sample_project ready_files) ''/p'') ''proj'' default_aliases = Inr x"
  "\<exists>e. loadCanonicalContextRules (context_of (sample_project broken_files) ''/p'') ''proj'' default_aliases = Inl e"
proof -
  have "(case loadCanonicalContextRules (context_of (sample_project ready_files) ''/p'') ''proj'' default_aliases of
      Inr _ \<Rightarrow> True | _ \<Rightarrow> False)" by code_simp
  then show "\<exists>x. loadCanonicalContextRules (context_of (sample_project ready_files) ''/p'') ''proj'' default_aliases = Inr x"
    by (auto split: sum.split_asm)
  have "(case loadCanonicalContextRules (context_of (sample_project broken_files) ''/p'') ''proj'' default_aliases of
      Inl _ \<Rightarrow> True | _ \<Rightarrow> False)" by code_simp
  then show "\<exists>e. loadCanonicalContextRules (context_of (sample_project broken_files) ''/p'') ''proj'' default_aliases = Inl e"
    by (auto split: sum.split_asm)
qed

lemma sample_plans: "\<exists>plans. makeContextPlans ''proj'' receiptID db_empty = (Inr plans, db_empty)"
proof -
  have "TrimSpace ''proj'' = ''proj''" by code_simp
  moreover have "ListWorkPlans \<lparr> wlq_ProjectID = ''proj'', wlq_Scope = HistoryScopeCurrent, wlq_Query = '''',
      wlq_Kind = '''', wlq_Limit = 8, wlq_Unbounded = False \<rparr> db_empty = (Inr [], db_empty)" by code_simp
  ultimately show ?thesis by (simp add: makeContextPlans_def svc_defs)
qed

lemma sample_preview:
  "\<exists>p. statusContextPreview (sample_status ready_files) (sample_status_payload task) ''/p'' db_empty =
     (Inr p, db_empty) \<and> scp_Error p = ''''"
proof -
  obtain x where x: "loadCanonicalContextRules (context_of (sample_project ready_files) ''/p'') ''proj''
      default_aliases = Inr x" using sample_context_rules by blast
  obtain pl where pl: "\<And>receiptID. makeContextPlans ''proj'' receiptID db_empty = (Inr (pl receiptID), db_empty)"
    using sample_plans by metis
  obtain a b c where "x = (a, b, c)" by (cases x)
  then show ?thesis
    using x by (simp add: statusContextPreview_def loadCanonicalTagNormalizer_def sample_normalizer Let_def pl
        sample_status_def sample_status_payload_def svc_defs)
qed

lemma sample_status_ready:
  assumes files: "files = ready_files \<or> files = broken_files"
    and preview: "status_preview (sample_status files) (sample_status_payload task) ''/p'' db_empty = (Inr preview, db_empty)"
      "preview_missing preview = []"
  obtains r where "Status (sample_status files) 0 (sample_status_payload task) db_empty = (Inr r, db_empty)"
    "ssm_Ready (str_Summary r)"
proof -
  have root: "effectiveProjectRoot (sample_project files) '''' = ''/p''"
    "root_missing (DetectRoot (sample_project files) (Inr ''.'') ''/p'') = []"
    using files sample_root by (auto simp: root_missing_def)
  have pj: "sv_project (sample_status files) = sample_project files"
    "stp_ProjectRoot (sample_status_payload task) = ''''" "TrimSpace (stp_ProjectID (sample_status_payload task)) = ''proj''"
    by (simp_all add: sample_status_def sample_status_payload_def)
  obtain sources where src: "status_sources (sample_status files) (sample_status_payload task) ''/p'' = (sources, [])"
    using sample_sources_status[OF files, of task] by (metis prod.collapse)
  have dd: "dedupeStatusMissing [] = []" by (simp add: dedupeStatusMissing_def)
  have "\<exists>r. Status (sample_status files) 0 (sample_status_payload task) db_empty = (Inr r, db_empty) \<and>
      ssm_Ready (str_Summary r)"
    by (simp add: Status_def root pj src sample_integrations svc_defs preview sample_warnings
      catalog_missing_def dd Let_def)
  then show thesis using that by blast
qed

theorem ready_project_loads_witness:
  "\<exists>tests src. loadVerifyDefinitions (service_of (sample_status ready_files) ''/p'') '''' '''' = (src, Inr tests) \<and>
     tests \<noteq> [] \<and> opens_receipts (context_of (sample_project ready_files) ''/p'') ''proj'' ''''"
proof -
  let ?p = "sample_status_payload ''fix it''"
  obtain q where q: "statusContextPreview (sample_status ready_files) ?p ''/p'' db_empty = (Inr q, db_empty)"
    "scp_Error q = ''''" using sample_preview by blast
  have task: "TrimSpace (stp_TaskText ?p) \<noteq> ''''" by code_simp
  then have "status_preview (sample_status ready_files) ?p ''/p'' db_empty = (Inr (Some q), db_empty)"
    using q by (simp add: status_preview_def svc_defs)
  then obtain r where "Status (sample_status ready_files) 0 ?p db_empty = (Inr r, db_empty)" "ssm_Ready (str_Summary r)"
    using sample_status_ready[of ready_files "''fix it''" "Some q"] q(2) by (auto simp: preview_missing_def)
  from ready_project_loads[OF this] task show ?thesis
    by (simp add: Let_def sample_status_payload_def sample_status_def sample_root) blast
qed


end
