(* ===== verification/Backend_History.thy ===== *)
theory Backend_History
  imports Backend_Fetch
begin

text \<open>
  \<open>HistorySearch\<close> (\<open>internal/service/backend/history.go\<close>): work plans, receipts and runs of the store
  as history items, or all three merged by time. \<open>env_unbounded\<close> is the environment variable that
  turns limits off when the payload does not say.
\<close>

record ContextPlanTaskCounts =
  ctc_Total :: int
  ctc_Pending :: int
  ctc_InProgress :: int
  ctc_Blocked :: int
  ctc_Complete :: int

record HistoryItem =
  hi_Key :: string
  hi_Entity :: string
  hi_Summary :: string
  hi_Status :: string
  hi_Scope :: string
  hi_PlanKey :: string
  hi_ReceiptID :: string
  hi_RunID :: int
  hi_RequestID :: string
  hi_Phase :: string
  hi_Kind :: string
  hi_ParentPlanKey :: string
  hi_TaskCounts :: "ContextPlanTaskCounts option"
  hi_FetchKeys :: "string slice"
  hi_UpdatedAt :: string
  hi_Actor :: "ActorRef option"
  hi_FilesChanged :: "string slice"

record HistorySearchResult =
  hsr_Entity :: string
  hsr_Scope :: string
  hsr_Query :: string
  hsr_Limit :: int
  hsr_Count :: int
  hsr_Items :: "HistoryItem list"

definition normalizeHistoryScope :: "string \<Rightarrow> string" where
  "normalizeHistoryScope raw =
     (let s = TrimSpace raw in
      if s = HistoryScopeCurrent then HistoryScopeCurrent
      else if s = HistoryScopeDeferred then HistoryScopeDeferred
      else if s = HistoryScopeCompleted then HistoryScopeCompleted
      else HistoryScopeAll)"

definition normalizeHistoryEntity :: "string \<Rightarrow> string" where
  "normalizeHistoryEntity raw =
     (let s = TrimSpace raw in
      if s = HistoryEntityReceipt then HistoryEntityReceipt
      else if s = HistoryEntityRun then HistoryEntityRun
      else if s = HistoryEntityWork then HistoryEntityWork
      else HistoryEntityAll)"

definition historyScopeFromPlanStatus :: "string \<Rightarrow> string" where
  "historyScopeFromPlanStatus status =
     (let s = normalizePlanStatus status in
      if s = PlanStatusBlocked then HistoryScopeDeferred
      else if s = PlanStatusComplete \<or> s = PlanStatusSuperseded then HistoryScopeCompleted
      else HistoryScopeCurrent)"

definition effectiveUnbounded :: "bool \<Rightarrow> bool option \<Rightarrow> bool" where
  "effectiveUnbounded env_unbounded explicit = (case explicit of Some b \<Rightarrow> b | None \<Rightarrow> env_unbounded)"

definition normalizeHistorySearchLimit :: "int \<Rightarrow> bool \<Rightarrow> int" where
  "normalizeHistorySearchLimit limit unbounded =
     (if unbounded then 0 else if limit \<le> 0 then 20 else if limit > 100 then 100 else limit)"

definition historyTimestamp :: "int \<Rightarrow> string" where
  "historyTimestamp t = (if t = 0 then '''' else format_RFC3339 t)"

definition historyItemSortTime :: "HistoryItem \<Rightarrow> int" where
  "historyItemSortTime item =
     (if TrimSpace (hi_UpdatedAt item) = '''' then 0
      else case parse_RFC3339 (hi_UpdatedAt item) of None \<Rightarrow> 0 | Some t \<Rightarrow> t)"

definition blank_item :: HistoryItem where
  "blank_item =
     \<lparr> hi_Key = '''', hi_Entity = '''', hi_Summary = '''', hi_Status = '''', hi_Scope = '''',
       hi_PlanKey = '''', hi_ReceiptID = '''', hi_RunID = 0, hi_RequestID = '''', hi_Phase = '''',
       hi_Kind = '''', hi_ParentPlanKey = '''', hi_TaskCounts = None, hi_FetchKeys = None,
       hi_UpdatedAt = '''', hi_Actor = None, hi_FilesChanged = None \<rparr>"

definition work_item_of :: "WorkPlanSummary \<Rightarrow> HistoryItem" where
  "work_item_of row =
     (let planKey = TrimSpace (wsm_PlanKey row);
          status = normalizePlanStatus (wsm_Status row);
          summary = TrimSpace (wsm_Summary row)
      in blank_item\<lparr>hi_Key := planKey, hi_Entity := HistoryEntityWork,
           hi_Summary := (if summary = '''' then ''Plan '' @ planKey @ '' is '' @ status else summary),
           hi_Status := status, hi_Scope := historyScopeFromPlanStatus status, hi_PlanKey := planKey,
           hi_ReceiptID := TrimSpace (wsm_ReceiptID row), hi_Kind := TrimSpace (wsm_Kind row),
           hi_ParentPlanKey := TrimSpace (wsm_ParentPlanKey row),
           hi_TaskCounts := Some \<lparr> ctc_Total = max (wsm_TaskCountTotal row) 0,
             ctc_Pending = max (wsm_TaskCountPending row) 0,
             ctc_InProgress = max (wsm_TaskCountInProgress row) 0,
             ctc_Blocked = max (wsm_TaskCountBlocked row) 0,
             ctc_Complete = max (wsm_TaskCountComplete row) 0 \<rparr>,
           hi_FetchKeys := Some [planKey], hi_UpdatedAt := historyTimestamp (wsm_UpdatedAt row)\<rparr>)"

definition listWorkHistoryItems ::
  "string \<Rightarrow> string \<Rightarrow> string \<Rightarrow> string \<Rightarrow> int \<Rightarrow> bool \<Rightarrow> HistoryItem list svc" where
  "listWorkHistoryItems projectID scope kind query limit unbounded =
     call_repo (ListWorkPlans \<lparr> wlq_ProjectID = projectID, wlq_Scope = scope, wlq_Query = query,
         wlq_Kind = kind, wlq_Limit = limit, wlq_Unbounded = unbounded \<rparr>)
       (internalError ''list_work_plans'')
       (\<lambda>rows. ret_svc (map work_item_of (filter (\<lambda>row. TrimSpace (wsm_PlanKey row) \<noteq> '''') rows)))"

definition receipt_item_of :: "ReceiptHistorySummary \<Rightarrow> HistoryItem" where
  "receipt_item_of row =
     (let receiptID = TrimSpace (rhs_ReceiptID row); text = TrimSpace (rhs_TaskText row)
      in blank_item\<lparr>hi_Key := receiptFetchKey receiptID, hi_Entity := HistoryEntityReceipt,
           hi_Summary := (if text = '''' then ''Receipt '' @ receiptID else text),
           hi_Status := TrimSpace (rhs_LatestStatus row), hi_ReceiptID := receiptID,
           hi_RequestID := TrimSpace (rhs_LatestRequestID row), hi_Phase := TrimSpace (rhs_Phase row),
           hi_FetchKeys := Some [receiptFetchKey receiptID],
           hi_UpdatedAt := historyTimestamp (rhs_UpdatedAt row)\<rparr>)"

definition listReceiptHistoryItems :: "string \<Rightarrow> string \<Rightarrow> int \<Rightarrow> bool \<Rightarrow> HistoryItem list svc" where
  "listReceiptHistoryItems projectID query limit unbounded =
     call_repo (ListReceiptHistory \<lparr> rhq_ProjectID = projectID, rhq_Query = query, rhq_Limit = limit,
         rhq_Unbounded = unbounded \<rparr>)
       (internalError ''list_receipt_history'')
       (\<lambda>rows. ret_svc (map receipt_item_of (filter (\<lambda>row. TrimSpace (rhs_ReceiptID row) \<noteq> '''') rows)))"

definition run_item_of :: "RunHistorySummary \<Rightarrow> HistoryItem" where
  "run_item_of row =
     (let outcome = TrimSpace (uhs_Outcome row); text = TrimSpace (uhs_TaskText row)
      in blank_item\<lparr>hi_Key := runFetchKey (uhs_RunID row), hi_Entity := HistoryEntityRun,
           hi_Summary := (if outcome \<noteq> '''' then outcome else if text \<noteq> '''' then text
             else ''Run '' @ itoa (uhs_RunID row)),
           hi_Status := TrimSpace (uhs_Status row), hi_ReceiptID := TrimSpace (uhs_ReceiptID row),
           hi_RunID := uhs_RunID row, hi_RequestID := TrimSpace (uhs_RequestID row),
           hi_Actor := actorRefFromCore (uhs_Actor row),
           hi_FilesChanged := (if elems (uhs_FilesChanged row) = [] then None else uhs_FilesChanged row),
           hi_Phase := TrimSpace (uhs_Phase row), hi_FetchKeys := Some [runFetchKey (uhs_RunID row)],
           hi_UpdatedAt := historyTimestamp (uhs_UpdatedAt row)\<rparr>)"

definition listRunHistoryItems :: "string \<Rightarrow> string \<Rightarrow> int \<Rightarrow> bool \<Rightarrow> HistoryItem list svc" where
  "listRunHistoryItems projectID query limit unbounded =
     call_repo (ListRunHistory \<lparr> unq_ProjectID = projectID, unq_Query = query, unq_Limit = limit,
         unq_Unbounded = unbounded \<rparr>)
       (internalError ''list_run_history'')
       (\<lambda>rows. ret_svc (map run_item_of (filter (\<lambda>row. \<not> uhs_RunID row \<le> 0) rows)))"

text \<open>The stable sort of the merged items: the newest first, then by key.\<close>

definition by_time :: "HistoryItem list \<Rightarrow> HistoryItem list" where
  "by_time items = sort_key (\<lambda>i. (- historyItemSortTime i, hi_Key i)) items"

definition historyItems ::
  "string \<Rightarrow> string \<Rightarrow> string \<Rightarrow> string \<Rightarrow> string \<Rightarrow> int \<Rightarrow> bool \<Rightarrow> HistoryItem list svc" where
  "historyItems projectID entity scope kind query limit unbounded =
     (if entity = HistoryEntityWork then listWorkHistoryItems projectID scope kind query limit unbounded
      else if entity = HistoryEntityReceipt then listReceiptHistoryItems projectID query limit unbounded
      else if entity = HistoryEntityRun then listRunHistoryItems projectID query limit unbounded
      else if entity = HistoryEntityAll then
        bind_svc (listWorkHistoryItems projectID HistoryScopeAll kind query limit unbounded) (\<lambda>workItems.
        bind_svc (listReceiptHistoryItems projectID query limit unbounded) (\<lambda>receiptItems.
        bind_svc (listRunHistoryItems projectID query limit unbounded) (\<lambda>runItems.
          let allItems = by_time (workItems @ receiptItems @ runItems) in
          ret_svc (if \<not> unbounded \<and> limit > 0 \<and> int (length allItems) > limit
                   then take (nat limit) allItems else allItems))))
      else fail_svc (backendError ErrCodeInvalidInput ''history entity is not supported''
             [(''entity'', DStr entity)]))"

definition HistorySearch :: "bool \<Rightarrow> HistorySearchPayload \<Rightarrow> HistorySearchResult svc" where
  "HistorySearch env_unbounded payload =
     (let entity = normalizeHistoryEntity (hp_Entity payload);
          scope = normalizeHistoryScope (hp_Scope payload);
          unbounded = effectiveUnbounded env_unbounded (hp_Unbounded payload);
          limit = normalizeHistorySearchLimit (hp_Limit payload) unbounded;
          query = TrimSpace (hp_Query payload) in
      bind_svc (historyItems (TrimSpace (hp_ProjectID payload)) entity scope (TrimSpace (hp_Kind payload))
                  query limit unbounded) (\<lambda>items.
        ret_svc \<lparr> hsr_Entity = entity, hsr_Scope = (if entity = HistoryEntityWork then scope else ''''),
          hsr_Query = query, hsr_Limit = limit, hsr_Count = int (length items), hsr_Items = items \<rparr>))"

end
