(* ===== verification/Read_Properties.thy ===== *)
theory Read_Properties
  imports Backend_History Service_Effects "HOL-Library.Multiset"
begin

text \<open>
  The reading commands: \<open>Fetch\<close> accounts for every key and changes nothing, its run keys and the
  timestamps of the history read back, the merged history is ordered by the times of the store, and
  what the history lists as a run can be fetched.
\<close>

section \<open>Nothing is written\<close>

lemma reads_LookupFetchState: "reads (LookupFetchState q)"
  unfolding LookupFetchState_def Let_def
  by (auto intro!: reads_rules reads_ListWorkItems split: option.split prod.split)

lemma reads_LookupRunHistory: "reads (LookupRunHistory q)"
  unfolding LookupRunHistory_def Let_def by (auto intro!: reads_rules split: option.split prod.split)

lemma reads_LookupPointerByKey: "reads (LookupPointerByKey q)"
  unfolding LookupPointerByKey_def Let_def by (auto intro!: reads_rules split: option.split)

lemma reads_ListRunHistory: "reads (ListRunHistory q)"
  unfolding ListRunHistory_def Let_def by (auto intro!: reads_rules)

lemma reads_ListReceiptHistory: "reads (ListReceiptHistory q)"
  unfolding ListReceiptHistory_def Let_def by (auto intro!: reads_rules)

lemma reads_ListWorkPlans: "reads (ListWorkPlans q)"
  unfolding ListWorkPlans_def listActiveWorkPlanTaskKeys_def Let_def
  by (auto intro!: reads_rules split: prod.split)

context effect
begin

lemma keeps_fetch_call:
  "reads m \<Longrightarrow> (\<And>x. keeps R (f x)) \<Longrightarrow> keeps R (fetch_call operation b m f)"
  unfolding keeps_def fetch_call_def reads_def
  by (auto split: prod.split sum.split) (metis R_trans R_tables snd_conv)+

lemma keeps_found: "keeps R (found i)" and keeps_fetch_none: "keeps R fetch_none"
  by (rule keepsI, auto simp: found_def fetch_none_def intro: R_tables)+

lemma keeps_fetch_err: "keeps R (\<lambda>s. (Inl e, s))"
  by (rule keepsI) (auto intro: R_tables)

lemmas keeps_fetch_rules = keeps_fetch_call keeps_found keeps_fetch_none keeps_fetch_err

lemma keeps_fetch_key: "keeps R (fetch_key env p k)"
  unfolding fetch_key_def fetchTaskItem_def fetchPlanItem_def fetchReceiptItem_def fetchRunItem_def
    fetchPointerItem_def Let_def
  by (auto intro!: keeps_fetch_rules repo_reads reads_LookupFetchState reads_LookupRunHistory
      reads_LookupPointerByKey split: option.split prod.split file_read.split)

lemma keeps_fetch_keys: "keeps R (fetch_keys env payload p ks)"
proof (induction ks)
  case (Cons k ks)
  have "keeps R (fetch_keys env payload p (k # ks))"
  proof (rule keepsI)
    fix s r s' assume run: "fetch_keys env payload p (k # ks) s = (r, s')"
    obtain r1 t where one: "fetch_key env p k s = (r1, t)" by fastforce
    have "R s t" using keepsD[OF keeps_fetch_key one] .
    moreover have "R t s'"
    proof (cases r1)
      case (Inl e)
      then show ?thesis using run one R_tables by (cases e) auto
    next
      case (Inr x)
      have "keeps R (bind_svc (fetch_keys env payload p ks) (\<lambda>(items, notFound, mismatches).
           ret_svc (case x of None \<Rightarrow> (items, k # notFound, mismatches)
             | Some item \<Rightarrow> (item # items, notFound, version_mismatch payload k item @ mismatches))))"
        by (intro keeps_bind Cons.IH keeps_prod keeps_ret)
      from keepsD[OF this] show ?thesis using run one Inr by simp
    qed
    ultimately show "R s s'" by (rule R_trans)
  qed
  then show ?case .
qed (simp add: keeps_ret)

lemma keeps_Fetch: "keeps R (Fetch env payload)"
  unfolding Fetch_def by (intro keeps_bind keeps_fetch_keys keeps_prod keeps_ret)

lemma keeps_HistorySearch: "keeps R (HistorySearch u payload)"
  unfolding HistorySearch_def historyItems_def listWorkHistoryItems_def listReceiptHistoryItems_def
    listRunHistoryItems_def Let_def
  by (auto intro!: keeps_rules keeps_reads reads_ListWorkPlans reads_ListReceiptHistory reads_ListRunHistory)

end

interpretation unchanged: effect "\<lambda>s t. tables t = tables s"
  by unfold_locales auto

section \<open>Fetch\<close>

lemma fetched_key:
  assumes "fetch_key env p key s = (Inr (Some item), s')"
  shows "fi_Key item = key"
  using assms
  by (auto simp: fetch_key_def fetchTaskItem_def fetchPlanItem_def fetchReceiptItem_def fetchRunItem_def
      fetchPointerItem_def fetch_call_def found_def fetch_none_def task_item_def Let_def
      split: option.splits prod.splits sum.splits if_splits file_read.splits)

lemma fetch_keys_account:
  assumes "fetch_keys env payload p keys s = (Inr (items, notFound, mismatches), s')"
  shows "mset (map fi_Key items) + mset notFound = mset keys \<and>
    (\<forall>m \<in> set mismatches. fvm_Expected m \<noteq> fvm_Actual m \<and>
       (\<exists>item \<in> set items. fvm_Key m = fi_Key item \<and> fvm_Actual m = fi_Version item))"
  using assms
proof (induction keys arbitrary: s items notFound mismatches)
  case Nil
  then show ?case by (simp add: ret_svc_def)
next
  case (Cons key keys)
  obtain r t where one: "fetch_key env p key s = (Inr r, t)"
    using Cons.prems by (auto split: prod.splits sum.splits)
  then obtain its nf ms where rest: "fetch_keys env payload p keys t = (Inr (its, nf, ms), s')"
    "(items, notFound, mismatches) = (case r of None \<Rightarrow> (its, key # nf, ms)
       | Some item \<Rightarrow> (item # its, nf, version_mismatch payload key item @ ms))"
    using Cons.prems by (auto simp: bind_svc_def ret_svc_def split: prod.splits sum.splits)
  show ?case
    using Cons.IH[OF rest(1)] rest(2) fetched_key one
    by (cases r) (auto simp: version_mismatch_def Let_def split: if_splits)
qed

text \<open>C16: A fetch accounts for every requested key exactly once, as an item with this key or as not
  found; every version mismatch is about an item that is returned, with the version it has; and
  nothing is written.\<close>

theorem fetch_accounts_for_keys:
  assumes "Fetch env payload s = (Inr res, s')"
  shows "mset (map fi_Key (fr_Items res)) + mset (elems (fr_NotFound res)) = mset (elems (fetchPayloadKeys payload)) \<and>
    (\<forall>m \<in> set (fr_VersionMismatches res). fvm_Expected m \<noteq> fvm_Actual m \<and>
       (\<exists>item \<in> set (fr_Items res). fvm_Key m = fi_Key item \<and> fvm_Actual m = fi_Version item)) \<and>
    tables s' = tables s"
proof -
  obtain items notFound mismatches where run:
    "fetch_keys env payload (TrimSpace (fp_ProjectID payload)) (elems (fetchPayloadKeys payload)) s =
       (Inr (items, notFound, mismatches), s')"
    and res: "res = \<lparr> fr_Items = items, fr_NotFound = (if notFound = [] then None else Some notFound),
            fr_VersionMismatches = mismatches \<rparr>"
    using assms by (auto simp: Fetch_def bind_svc_def ret_svc_def split: prod.splits sum.splits)
  have "elems (fr_NotFound res) = notFound" by (simp add: res)
  then show ?thesis
    using fetch_keys_account[OF run] res keepsD[OF unchanged.keeps_Fetch assms] by simp
qed

section \<open>Run keys and timestamps\<close>

lemma number_of_append: "number_of (s @ [c]) = 10 * number_of s + digit_value c"
  by (simp add: number_of_def)

lemma itoa_nat_number: "number_of (itoa_nat n) = int n \<and> list_all is_digit (itoa_nat n)"
proof (induction n rule: itoa_nat.induct)
  case (1 n)
  have d: "digit_value (digit_char m) = int m" "is_digit (digit_char m)" if "m < 10" for m
  proof -
    have "byte (digit_char m) = 48 + m" using that by (simp add: digit_char_def of_char_of)
    then show "digit_value (digit_char m) = int m" "is_digit (digit_char m)"
      using that by (simp_all add: digit_value_def is_digit_def)
  qed
  show ?case
  proof (cases "n < 10")
    case True
    then show ?thesis using d[of n] by (subst (1 2) itoa_nat.simps) (simp add: number_of_def)
  next
    case False
    have "10 * int (n div 10) + int (n mod 10) = int n" by (simp add: zdiv_int zmod_int)
    then show ?thesis using False 1 d[of "n mod 10"] by (subst (1 2) itoa_nat.simps) (simp add: number_of_append)
  qed
qed

lemma ParseInt64_itoa:
  assumes "0 \<le> n" "n \<le> 9223372036854775807"
  shows "ParseInt64 (itoa n) = Some n"
proof -
  have digits: "list_all is_digit (itoa n)" "number_of (itoa n) = n" "itoa n \<noteq> ''''"
    using itoa_nat_number[of "nat n"] assms(1) by (simp_all add: itoa_def)
  then obtain c r where c: "itoa n = c # r" "is_digit c" by (cases "itoa n") auto
  then have "c \<noteq> CHR ''-''" "c \<noteq> CHR ''+''" by (auto simp: is_digit_def)
  then show ?thesis using digits c assms(2) by (simp add: ParseInt64_def)
qed

lemma run_key_parses:
  assumes "0 < n" "n \<le> 9223372036854775807"
  shows "parseRunFetchKey (runFetchKey n) = Some n \<or> runFetchKey n = ''''"
    "length (itoa n) \<le> 508 \<Longrightarrow> runFetchKey n = ''run:'' @ itoa n"
proof -
  have graph: "list_all ascii_graph (itoa n)" "itoa n \<noteq> ''''"
    using itoa_nat_number[of "nat n"] assms(1) class_graph(3) by (auto simp: itoa_def list_all_iff)
  then have trim: "TrimSpace (''run:'' @ itoa n) = ''run:'' @ itoa n" "TrimSpace (itoa n) = itoa n"
    by (intro TrimSpace_all_graph; simp add: ascii_graph_def)+
  then show "parseRunFetchKey (runFetchKey n) = Some n \<or> runFetchKey n = ''''"
    using ParseInt64_itoa[of n] assms graph(2)
    by (simp add: runFetchKey_def parseRunFetchKey_def Let_def)
  show "length (itoa n) \<le> 508 \<Longrightarrow> runFetchKey n = ''run:'' @ itoa n"
    using assms(1) by (simp add: runFetchKey_def)
qed

lemma itoa_nat_short: "n < 10 ^ k \<Longrightarrow> 0 < k \<Longrightarrow> length (itoa_nat n) \<le> k"
proof (induction k arbitrary: n)
  case (Suc k)
  show ?case
  proof (cases "n < 10")
    case True
    then show ?thesis by (subst itoa_nat.simps) simp
  next
    case False
    then have "0 < k" using Suc.prems(1) by (cases k) auto
    moreover have "n div 10 < 10 ^ k" using Suc.prems(1) by simp
    ultimately show ?thesis using False Suc.IH[of "n div 10"] by (subst itoa_nat.simps) simp
  qed
qed simp

lemma run_key_roundtrip:
  assumes "0 < n" "n \<le> 9223372036854775807"
  shows "parseRunFetchKey (runFetchKey n) = Some n"
proof -
  have "length (itoa n) \<le> 19" using assms itoa_nat_short[of "nat n" 19] by (simp add: itoa_def)
  then show ?thesis using run_key_parses[OF assms] by auto
qed

text \<open>The fetch key of a run is parsed back to the run, for every positive 64-bit id, and no such
  key is taken for another kind of key.\<close>

theorem run_fetch_key_roundtrip:
  assumes "0 < n" "n \<le> 9223372036854775807"
  shows "parseRunFetchKey (runFetchKey n) = Some n \<and> parseTaskFetchKey (runFetchKey n) = None \<and>
    parsePlanFetchKey (runFetchKey n) = None \<and> parseReceiptFetchKey (runFetchKey n) = None"
proof -
  have "\<exists>t. TrimSpace (runFetchKey n) = CHR ''r'' # CHR ''u'' # t"
    using run_key_roundtrip[OF assms]
    by (auto simp: parseRunFetchKey_def Let_def HasPrefix_iff split: if_splits)
  then show ?thesis
    using run_key_roundtrip[OF assms]
    by (auto simp: parseTaskFetchKey_def parsePlanFetchKey_def parseReceiptFetchKey_def
        parse_prefixed_id_def Let_def HasPrefix_iff)
qed

theorem run_fetch_key_roundtrip_witness: "parseRunFetchKey (runFetchKey 9223372036854775807) = Some 9223372036854775807"
  using run_fetch_key_roundtrip[of 9223372036854775807] by simp

text \<open>The timestamp that the history prints is the one it sorts by: a time in whole seconds, up to
  the year 9999, is read back from its text.\<close>

theorem history_timestamp_roundtrip:
  assumes "0 \<le> t" "t mod 1000000000 = 0" "fst (year_and_day (t div 1000000000 div 86400)) \<le> 9999"
    "hi_UpdatedAt item = historyTimestamp t"
  shows "historyItemSortTime item = t"
proof (cases "t = 0")
  case False
  have "length (format_RFC3339 t) = 20 \<and> TrimSpace (format_RFC3339 t) \<noteq> ''''"
  proof -
    have p: "parse_RFC3339 (format_RFC3339 t) = Some t" by (rule RFC3339_roundtrip[OF assms(1-3)])
    then have "length (format_RFC3339 t) = 20" "is_digit (format_RFC3339 t ! 0)"
      "format_RFC3339 t ! 19 = CHR ''Z''"
      by (auto simp: parse_RFC3339_def split: if_splits)
    moreover from this have ne: "format_RFC3339 t \<noteq> []" by auto
    moreover have "ascii_graph (hd (format_RFC3339 t))" "ascii_graph (last (format_RFC3339 t))"
      using calculation class_graph(3) unfolding hd_conv_nth[OF ne] last_conv_nth[OF ne]
      by (simp_all add: ascii_graph_def)
    moreover from TrimSpace_graph[OF ne this] have "TrimSpace (format_RFC3339 t) = format_RFC3339 t" .
    ultimately show ?thesis by auto
  qed
  then show ?thesis
    using False assms(4) RFC3339_roundtrip[OF assms(1-3)]
    by (simp add: historyItemSortTime_def historyTimestamp_def)
qed (use assms(4) in \<open>simp add: historyItemSortTime_def historyTimestamp_def\<close>)

theorem history_timestamp_roundtrip_witness:
  "historyTimestamp (unixTime 1700000000) = ''2023-11-14T22:13:20Z'' \<and>
   historyItemSortTime (blank_item\<lparr>hi_UpdatedAt := historyTimestamp (unixTime 1700000000)\<rparr>) =
     unixTime 1700000000"
proof -
  have "historyTimestamp (unixTime 1700000000) = ''2023-11-14T22:13:20Z''"
    "fst (year_and_day (unixTime 1700000000 div 1000000000 div 86400)) \<le> 9999"
    by code_simp+
  then show ?thesis
    using history_timestamp_roundtrip[of "unixTime 1700000000"
      "blank_item\<lparr>hi_UpdatedAt := historyTimestamp (unixTime 1700000000)\<rparr>"]
    by (simp add: unixTime_def)
qed

section \<open>History\<close>

lemma by_time_sorted: "sorted_wrt (\<lambda>a b. historyItemSortTime b \<le> historyItemSortTime a) (by_time items)"
proof -
  have "sorted (map (\<lambda>i. (- historyItemSortTime i, hi_Key i)) (by_time items))"
    unfolding by_time_def by (rule sorted_sort_key)
  then have "sorted_wrt (\<lambda>a b. (- historyItemSortTime a, hi_Key a) \<le> (- historyItemSortTime b, hi_Key b)) (by_time items)"
    by (simp add: sorted_wrt_map)
  then show ?thesis by (rule sorted_wrt_mono_rel[rotated]) (auto simp: less_eq_prod_def)
qed

lemma historyItems_all:
  assumes "historyItems p HistoryEntityAll scope kind query limit unbounded s = (Inr items, s')"
  obtains xs where "items = (if \<not> unbounded \<and> limit > 0 \<and> int (length xs) > limit then take (nat limit) xs else xs)"
    "sorted_wrt (\<lambda>a b. historyItemSortTime b \<le> historyItemSortTime a) xs"
proof -
  have "HistoryEntityAll \<noteq> HistoryEntityWork" "HistoryEntityAll \<noteq> HistoryEntityReceipt"
    "HistoryEntityAll \<noteq> HistoryEntityRun"
    by (simp_all add: HistoryEntityAll_def HistoryEntityWork_def HistoryEntityReceipt_def HistoryEntityRun_def)
  then obtain ys where "items = (if \<not> unbounded \<and> limit > 0 \<and> int (length (by_time ys)) > limit
      then take (nat limit) (by_time ys) else by_time ys)"
    using assms unfolding historyItems_def bind_svc_def ret_svc_def Let_def
    by (auto split: prod.splits sum.splits)
  then show thesis using that by_time_sorted by blast
qed

text \<open>A search over all of the history returns the newest items first and, unless it is
  unbounded, at most the requested number and never more than 100; it reports the number of items
  it returns and writes nothing.\<close>

theorem history_all_ordered:
  assumes "HistorySearch u payload s = (Inr res, s')"
    "normalizeHistoryEntity (hp_Entity payload) = HistoryEntityAll"
  shows "sorted_wrt (\<lambda>a b. historyItemSortTime b \<le> historyItemSortTime a) (hsr_Items res) \<and>
    hsr_Count res = int (length (hsr_Items res)) \<and>
    (\<not> effectiveUnbounded u (hp_Unbounded payload) \<longrightarrow>
      int (length (hsr_Items res)) \<le> hsr_Limit res \<and> hsr_Limit res \<le> 100 \<and>
      (0 < hp_Limit payload \<longrightarrow> hsr_Limit res \<le> hp_Limit payload)) \<and>
    tables s' = tables s"
proof -
  let ?u = "effectiveUnbounded u (hp_Unbounded payload)"
  let ?l = "normalizeHistorySearchLimit (hp_Limit payload) ?u"
  obtain items where run: "historyItems (TrimSpace (hp_ProjectID payload)) HistoryEntityAll
      (normalizeHistoryScope (hp_Scope payload)) (TrimSpace (hp_Kind payload)) (TrimSpace (hp_Query payload))
      ?l ?u s = (Inr items, s')" and
    res: "hsr_Items res = items" "hsr_Count res = int (length items)" "hsr_Limit res = ?l"
    using assms unfolding HistorySearch_def bind_svc_def ret_svc_def Let_def
    by (auto split: prod.splits sum.splits)
  obtain xs where xs: "items = (if \<not> ?u \<and> ?l > 0 \<and> int (length xs) > ?l then take (nat ?l) xs else xs)"
    "sorted_wrt (\<lambda>a b. historyItemSortTime b \<le> historyItemSortTime a) xs"
    using run by (rule historyItems_all)
  have "sorted_wrt (\<lambda>a b. historyItemSortTime b \<le> historyItemSortTime a) items"
    using xs by (auto intro: sorted_wrt_take)
  moreover have "\<not> ?u \<Longrightarrow> 0 < ?l \<and> ?l \<le> 100 \<and> (0 < hp_Limit payload \<longrightarrow> ?l \<le> hp_Limit payload)"
    by (auto simp: normalizeHistorySearchLimit_def)
  moreover have "\<not> ?u \<Longrightarrow> int (length items) \<le> ?l" using xs(1) calculation(2) by auto
  ultimately show ?thesis using res keepsD[OF unchanged.keeps_HistorySearch assms(1)] by simp
qed

text \<open>The runs that the history lists.\<close>

lemma runs_listed:
  assumes "listRunHistoryItems p query limit unbounded s = (Inr items, s')" "i \<in> set items" "db_faults s = []"
  obtains run where "s' = s" "run \<in> set (db_runs s)" "nr_project_id run = TrimSpace p" "TrimSpace p \<noteq> ''''"
    "0 < nr_run_id run" "i = run_item_of (run_summary_of s run)"
proof -
  have "TrimSpace p \<noteq> ''''"
    using assms(1) by (auto simp: listRunHistoryItems_def call_repo_def ListRunHistory_def Let_def fail_db_def)
  moreover have "set (limited d b l xs) \<subseteq> set xs" for d b l and xs :: "run_row list"
    by (auto simp: limited_def dest: in_set_takeD)
  ultimately show thesis
    using assms that
    by (fastforce simp: listRunHistoryItems_def call_repo_def ListRunHistory_def Let_def bind_db_def get_db_def
        db_call_no_faults ret_svc_def run_rows_def run_summary_of_def)
qed

lemma find_run:
  assumes "wf_logs s" "run \<in> set (db_runs s)"
  shows "find (\<lambda>r. nr_project_id r = nr_project_id run \<and> nr_run_id r = nr_run_id run) (db_runs s) = Some run"
proof -
  have "r = run" if "r \<in> set (db_runs s)" "nr_run_id r = nr_run_id run" for r
    using assms that unfolding wf_logs_def sorted_wrt_iff_nth_less in_set_conv_nth
    by (metis less_irrefl linorder_neqE_nat)
  moreover have "find (\<lambda>r. nr_project_id r = nr_project_id run \<and> nr_run_id r = nr_run_id run) (db_runs s) \<noteq> None"
    using assms(2) by (auto simp: find_None_iff)
  ultimately show ?thesis by (auto simp: find_Some_iff in_set_conv_nth)
qed

lemma fetch_run:
  assumes "wf_logs s" "db_faults s = []" "run \<in> set (db_runs s)" "nr_project_id run = TrimSpace p" "TrimSpace p \<noteq> ''''"
    "0 < nr_run_id run" "nr_run_id run \<le> 9223372036854775807"
  shows "\<exists>item. fetch_key env p (runFetchKey (nr_run_id run)) s = (Inr (Some item), s) \<and>
    fi_Type item = ''run'' \<and> fi_Summary item = hi_Summary (run_item_of (run_summary_of s run)) \<and>
    fi_Status item = hi_Status (run_item_of (run_summary_of s run))"
proof -
  have keys: "parseRunFetchKey (runFetchKey (nr_run_id run)) = Some (nr_run_id run)"
    by (rule run_key_roundtrip[OF assms(6,7)])
  have "\<exists>t. TrimSpace (runFetchKey (nr_run_id run)) = CHR ''r'' # CHR ''u'' # t"
    using keys by (auto simp: parseRunFetchKey_def Let_def HasPrefix_iff split: if_splits)
  then have other: "parseTaskFetchKey (runFetchKey (nr_run_id run)) = None"
    "parsePlanFetchKey (runFetchKey (nr_run_id run)) = None" "parseReceiptFetchKey (runFetchKey (nr_run_id run)) = None"
    by (auto simp: parseTaskFetchKey_def parsePlanFetchKey_def parseReceiptFetchKey_def
        parse_prefixed_id_def Let_def HasPrefix_iff)
  have look: "LookupRunHistory \<lparr> ulq_ProjectID = p, ulq_RunID = nr_run_id run \<rparr> s = (Inr (run_summary_of s run), s)"
    using find_run[OF assms(1,3)] assms(2,4-6)
    by (simp add: LookupRunHistory_def Let_def bind_db_def get_db_def ret_db_def db_call_no_faults)
  show ?thesis
    using keys other look assms(6)
    by (simp add: fetch_key_def fetchRunItem_def fetch_call_def found_def Let_def run_item_of_def run_summary_of_def)
qed


section \<open>Examples\<close>

definition read_sample :: db where
  "read_sample = snd (SaveRunReceiptSummary ''x'' sample_summary sample_db)"

definition env_sample :: fetch_env where
  "env_sample = \<lparr> fe_sha = (\<lambda>n b. take n b), fe_root = ''/repo'', fe_read = (\<lambda>_. FileMissing) \<rparr>"

definition fetch_sample :: FetchPayload where
  "fetch_sample = \<lparr> fp_ProjectID = ''proj'', fp_Keys = Some [''run:7'', '' '', ''run:7''],
     fp_ReceiptID = '''', fp_ExpectedVersions = [] \<rparr>"

definition history_sample :: "string \<Rightarrow> HistorySearchPayload" where
  "history_sample entity = \<lparr> hp_ProjectID = ''proj'', hp_Entity = entity, hp_Query = '''', hp_Scope = '''',
     hp_Kind = '''', hp_Limit = 5, hp_Unbounded = None \<rparr>"

theorem fetch_accounts_for_keys_witness:
  "\<exists>res s'. Fetch env_sample fetch_sample read_sample = (Inr res, s') \<and>
     mset (map fi_Key (fr_Items res)) + mset (elems (fr_NotFound res)) =
       mset (elems (fetchPayloadKeys fetch_sample)) \<and> elems (fr_NotFound res) = [''run:7'']"
proof -
  have "case Fetch env_sample fetch_sample read_sample of (Inl _, _) \<Rightarrow> False
    | (Inr res, _) \<Rightarrow> elems (fr_NotFound res) = [''run:7'']"
    by code_simp
  then obtain res s' where "Fetch env_sample fetch_sample read_sample = (Inr res, s')"
    "elems (fr_NotFound res) = [''run:7'']"
    by (auto split: prod.splits sum.splits)
  then show ?thesis using fetch_accounts_for_keys by blast
qed

theorem history_all_ordered_witness:
  "\<exists>res s'. HistorySearch False (history_sample ''all'') db_empty = (Inr res, s') \<and>
     int (length (hsr_Items res)) \<le> hsr_Limit res"
proof -
  have "case HistorySearch False (history_sample ''all'') db_empty of (Inl _, _) \<Rightarrow> False
    | (Inr res, _) \<Rightarrow> hsr_Items res = []"
    by code_simp
  then obtain res s' where run: "HistorySearch False (history_sample ''all'') db_empty = (Inr res, s')"
    "hsr_Items res = []"
    by (auto split: prod.splits sum.splits)
  moreover have "normalizeHistoryEntity (hp_Entity (history_sample ''all'')) = HistoryEntityAll"
    "\<not> effectiveUnbounded False (hp_Unbounded (history_sample ''all''))"
    by code_simp+
  ultimately show ?thesis using history_all_ordered[OF run(1)] by blast
qed


end
