(* ===== verification/Index_Properties.thy ===== *)
theory Index_Properties
  imports Store_Properties Sqlite_History "HOL-Library.Sublist"
begin

text \<open>
  What the pointer index and the lists of the store promise: the effect of a sync on the index, and
  the outcome of listing plans and of searching them.
\<close>

section \<open>A sync\<close>

lemma sync_normal:
  assumes "NormalizeSyncApplyInput input = Inr n"
  shows "distinct (map sp_Path (sai_Paths n))"
    "\<forall>e \<in> set (filter (\<lambda>e. \<not> sp_Deleted e) (sai_Paths n)). sp_ContentHash e \<noteq> ''''"
  using sync_input_normal[OF assms] by auto

lemma synced_steps:
  assumes "distinct (map sp_Path es)"
  shows "fold refreshed (filter (\<lambda>e. \<not> sp_Deleted e) es)
      (staled (\<lambda>path. full \<and> path \<notin> sp_Path ` set (filter (\<lambda>e. \<not> sp_Deleted e) es))
        (staled (\<lambda>path. path \<in> sp_Path ` set (filter sp_Deleted es)) x)) =
    (case x of (path, stale, hash) \<Rightarrow>
      case present_hash es path of
        Some h \<Rightarrow> (path, False, Some h)
      | None \<Rightarrow> (path, stale \<or> full \<or> path \<in> sp_Path ` set (filter sp_Deleted es), hash))"
proof (cases x)
  case (fields path stale hash)
  have "distinct (map sp_Path (filter (\<lambda>e. \<not> sp_Deleted e) es))"
    using assms by (rule distinct_map_filter)
  moreover have "present_hash es path = None \<longleftrightarrow> path \<notin> sp_Path ` set (filter (\<lambda>e. \<not> sp_Deleted e) es)"
    by (simp add: present_hash_def map_of_eq_None_iff image_image)
  ultimately show ?thesis
    by (auto simp: fields staled_def fold_refreshed present_hash_def[symmetric] split: option.split)
qed

lemma stale_step:
  assumes "update_pointers msg p (\<lambda>row. \<not> pt_is_stale row \<and> gone (pt_path row)) mark_stale s = (Inr n, s')"
  shows "pointer_at s' q k = map_option (if q = p then staled gone else id) (pointer_at s q k)"
    "db_candidates s' = db_candidates s" "pointer_paths s' q = pointer_paths s q"
  using update_pointers_at[OF assms mark_stale_state] pointer_paths_update[OF assms]
  by (simp_all add: mark_stale_def)

lemma stale_if:
  assumes "(if b then update_pointers msg p (\<lambda>row. \<not> pt_is_stale row \<and> gone (pt_path row)) mark_stale
      else ret_db 0) s = (Inr n, s')"
  shows "pointer_at s' q k = map_option (if q = p then staled (\<lambda>path. b \<and> gone path) else id) (pointer_at s q k)"
    "db_candidates s' = db_candidates s" "pointer_paths s' q = pointer_paths s q"
proof -
  have "pointer_at s' q k = map_option (if q = p then staled (\<lambda>path. b \<and> gone path) else id) (pointer_at s q k) \<and>
      db_candidates s' = db_candidates s \<and> pointer_paths s' q = pointer_paths s q" for q k
  proof (cases b)
    case True
    then show ?thesis using assms stale_step[of msg p gone s n s'] by simp
  next
    case False
    have "staled (\<lambda>_. False) = id" by (auto simp: staled_def)
    then show ?thesis using assms False by (simp add: ret_db_def option.map_id)
  qed
  then show "pointer_at s' q k = map_option (if q = p then staled (\<lambda>path. b \<and> gone path) else id) (pointer_at s q k)"
    "db_candidates s' = db_candidates s" "pointer_paths s' q = pointer_paths s q"
    by blast+
qed

lemma apply_sync_body_steps:
  assumes "apply_sync_body n s = (Inr res, s')"
  obtains a t1 b t2 c t3 d where
    "(if map sp_Path (filter sp_Deleted (sai_Paths n)) \<noteq> [] then
        update_pointers ''mark deleted pointers stale'' (sai_ProjectID n)
          (\<lambda>row. \<not> pt_is_stale row \<and> pt_path row \<in> set (map sp_Path (filter sp_Deleted (sai_Paths n)))) mark_stale
      else ret_db 0) s = (Inr a, t1)"
    "(if sai_Mode n = ''full'' then
        update_pointers ''mark missing pointers stale'' (sai_ProjectID n)
          (\<lambda>row. \<not> pt_is_stale row \<and>
            pt_path row \<notin> set (map sp_Path (filter (\<lambda>e. \<not> sp_Deleted e) (sai_Paths n)))) mark_stale
      else ret_db 0) t1 = (Inr b, t2)"
    "each_db (refresh_pointers (sai_ProjectID n)) (filter (\<lambda>e. \<not> sp_Deleted e) (sai_Paths n)) t2 = (Inr c, t3)"
    "(if sai_InsertNewCandidates n
      then each_db (insert_candidate (sai_ProjectID n)) (filter (\<lambda>e. \<not> sp_Deleted e) (sai_Paths n))
      else ret_db 0) t3 = (Inr d, s')"
  using assms unfolding apply_sync_body_def Let_def bind_db_def[abs_def] ret_db_def[abs_def]
  by (auto split: prod.splits sum.splits)

lemma apply_sync_body_at:
  assumes run: "apply_sync_body n s = (Inr res, s')" and n: "NormalizeSyncApplyInput input = Inr n"
  shows "pointer_at s' p k =
      map_option (if p = sai_ProjectID n then synced n else id) (pointer_at s p k) \<and>
    map_of (db_candidates s') (p, path) =
      (if sai_InsertNewCandidates n \<and> p = sai_ProjectID n \<and> path \<notin> pointer_paths s p \<and>
          map_of (db_candidates s) (p, path) = None
       then present_hash (sai_Paths n) path else map_of (db_candidates s) (p, path))"
proof -
  let ?P = "sai_ProjectID n" and ?es = "sai_Paths n"
  let ?present = "filter (\<lambda>e. \<not> sp_Deleted e) ?es"
  let ?del = "staled (\<lambda>path. path \<in> sp_Path ` set (filter sp_Deleted ?es))"
  let ?mis = "staled (\<lambda>path. sai_Mode n = ''full'' \<and> path \<notin> sp_Path ` set ?present)"
  obtain a t1 b t2 c t3 d where
    s1: "(if map sp_Path (filter sp_Deleted ?es) \<noteq> [] then
        update_pointers ''mark deleted pointers stale'' ?P
          (\<lambda>row. \<not> pt_is_stale row \<and> pt_path row \<in> set (map sp_Path (filter sp_Deleted ?es))) mark_stale
      else ret_db 0) s = (Inr a, t1)" and
    s2: "(if sai_Mode n = ''full'' then
        update_pointers ''mark missing pointers stale'' ?P
          (\<lambda>row. \<not> pt_is_stale row \<and> pt_path row \<notin> set (map sp_Path ?present)) mark_stale
      else ret_db 0) t1 = (Inr b, t2)" and
    s3: "each_db (refresh_pointers ?P) ?present t2 = (Inr c, t3)" and
    s4: "(if sai_InsertNewCandidates n then each_db (insert_candidate ?P) ?present
      else ret_db 0) t3 = (Inr d, s')"
    by (rule apply_sync_body_steps[OF run])
  have dels: "(\<lambda>path. map sp_Path (filter sp_Deleted ?es) \<noteq> [] \<and> path \<in> set (map sp_Path (filter sp_Deleted ?es))) =
      (\<lambda>path. path \<in> sp_Path ` set (filter sp_Deleted ?es))"
    by (auto simp: fun_eq_iff filter_empty_conv)
  note p1 = stale_if[where gone = "\<lambda>path. path \<in> set (map sp_Path (filter sp_Deleted ?es))", OF s1, unfolded dels]
  note p2 = stale_if[where gone = "\<lambda>path. path \<notin> set (map sp_Path ?present)", OF s2, unfolded set_map]
  note p3 = refresh_all_at[OF s3 sync_normal(2)[OF n]] pointer_paths_refresh_all[OF s3]
  have p4: "db_pointers s' = db_pointers t3"
    "map_of (db_candidates s') (p, path) =
      (if sai_InsertNewCandidates n \<and> p = ?P \<and> path \<notin> pointer_paths t3 p \<and>
          map_of (db_candidates t3) (p, path) = None
       then present_hash ?es path else map_of (db_candidates t3) (p, path))"
    using s4 insert_candidates_ok[of ?P ?present t3 d s' p path]
    by (auto simp: ret_db_def present_hash_def split: if_splits)
  have "map_option (fold refreshed ?present) (map_option ?mis (map_option ?del x)) = map_option (synced n) x" for x
    by (cases x) (simp_all add: synced_steps[OF sync_normal(1)[OF n]] synced_def split: prod.split del: set_filter)
  then have "pointer_at t3 p k = map_option (if p = ?P then synced n else id) (pointer_at s p k)"
    using p1(1)[of p k] p2(1)[of p k] p3(1)[of p k] by (cases "p = ?P") (simp_all add: option.map_id0)
  note at = this
  show ?thesis
    unfolding pointers_cong(1)[OF p4(1)] at p4(2) p3(2,3) p2(2,3) p1(2,3) by (rule conjI refl)+
qed


definition pointer_sample :: "string \<Rightarrow> bool \<Rightarrow> pointer_row" where
  "pointer_sample path stale =
     \<lparr> pt_path = path, pt_anchor = '''', pt_kind = ''code'', pt_label = path, pt_description = '''',
       pt_tags = None, pt_is_rule = False, pt_is_stale = stale,
       pt_stale_at = (if stale then Some 1 else None), pt_content_hash = Some ''old'',
       pt_updated_at = 1 \<rparr>"

definition index_sample :: db where
  "index_sample = db_empty\<lparr>db_pointers :=
     [((''p'', ''k1''), pointer_sample ''a.go'' True), ((''p'', ''k2''), pointer_sample ''b.go'' False),
      ((''p'', ''k3''), pointer_sample ''c.go'' False), ((''q'', ''k1''), pointer_sample ''b.go'' False)]\<rparr>"

definition sync_sample :: SyncApplyInput where
  "sync_sample = \<lparr> sai_ProjectID = ''p'', sai_Mode = ''changed'', sai_InsertNewCandidates = True,
     sai_Paths = [\<lparr> sp_Path = ''a.go'', sp_ContentHash = ''h1'', sp_Deleted = False \<rparr>,
       \<lparr> sp_Path = ''b.go'', sp_ContentHash = '''', sp_Deleted = True \<rparr>,
       \<lparr> sp_Path = ''new.go'', sp_ContentHash = ''h2'', sp_Deleted = False \<rparr>] \<rparr>"

lemma sync_sample_runs:
  "\<exists>res. fst (ApplySync sync_sample index_sample) = Inr res \<and> sar_Updated res = 1 \<and>
     sar_DeletedMarkedStale res = 1 \<and> sar_NewCandidates res = 1 \<and> sar_MarkedStale res = 0"
  "NormalizeSyncApplyInput sync_sample = Inr sync_sample"
proof -
  have "case fst (ApplySync sync_sample index_sample) of Inl _ \<Rightarrow> False
    | Inr res \<Rightarrow> sar_Updated res = 1 \<and> sar_DeletedMarkedStale res = 1 \<and>
        sar_NewCandidates res = 1 \<and> sar_MarkedStale res = 0"
    by code_simp
  then show "\<exists>res. fst (ApplySync sync_sample index_sample) = Inr res \<and> sar_Updated res = 1 \<and>
     sar_DeletedMarkedStale res = 1 \<and> sar_NewCandidates res = 1 \<and> sar_MarkedStale res = 0"
    by (simp split: sum.splits)
  show "NormalizeSyncApplyInput sync_sample = Inr sync_sample" by code_simp
qed


section \<open>Lists\<close>

text \<open>An escaped text matches itself, up to the case of ASCII letters.\<close>

lemma sql_like_Nil [simp]: "sql_like [] s \<longleftrightarrow> s = []"
  by (simp add: sql_like.simps)

lemma sql_like_any [simp]: "sql_like (CHR ''%'' # q) s \<longleftrightarrow> (\<exists>u v. s = u @ v \<and> sql_like q v)"
proof -
  have "sql_like (CHR ''%'' # q) s \<longleftrightarrow> (\<exists>n \<le> length s. sql_like q (drop n s))"
    by (subst sql_like.simps) (auto simp: list_ex_iff le_less)
  also have "\<dots> \<longleftrightarrow> (\<exists>u v. s = u @ v \<and> sql_like q v)"
  proof
    assume "\<exists>n \<le> length s. sql_like q (drop n s)"
    then show "\<exists>u v. s = u @ v \<and> sql_like q v" using append_take_drop_id by metis
  next
    assume "\<exists>u v. s = u @ v \<and> sql_like q v"
    then obtain u v where "s = u @ v" "sql_like q v" by blast
    then show "\<exists>n \<le> length s. sql_like q (drop n s)" by (intro exI[of _ "length u"]) simp
  qed
  finally show ?thesis .
qed

lemma sql_like_literal:
  "sql_like (CHR 0x5C # c # q) s \<longleftrightarrow> (\<exists>x s'. s = x # s' \<and> lower_char x = lower_char c \<and> sql_like q s')"
  "c \<notin> {CHR 0x5C, CHR ''%'', CHR ''_''} \<Longrightarrow>
     sql_like (c # q) s \<longleftrightarrow> (\<exists>x s'. s = x # s' \<and> lower_char x = lower_char c \<and> sql_like q s')"
  by (subst sql_like.simps, cases s, simp_all)+

lemma sql_like_escaped:
  "sql_like (like_escape t @ q) s \<longleftrightarrow> (\<exists>u v. s = u @ v \<and> map lower_char u = map lower_char t \<and> sql_like q v)"
proof (induction t arbitrary: s)
  case (Cons c t)
  have "sql_like (like_escape (c # t) @ q) s \<longleftrightarrow>
      (\<exists>x s'. s = x # s' \<and> lower_char x = lower_char c \<and> sql_like (like_escape t @ q) s')"
    by (simp add: sql_like_literal)
  also have "\<dots> \<longleftrightarrow> (\<exists>x u v. s = x # u @ v \<and> lower_char x = lower_char c \<and>
      map lower_char u = map lower_char t \<and> sql_like q v)"
    unfolding Cons.IH by blast
  also have "\<dots> \<longleftrightarrow> (\<exists>w v. s = w @ v \<and> map lower_char w = map lower_char (c # t) \<and> sql_like q v)"
  proof
    assume "\<exists>x u v. s = x # u @ v \<and> lower_char x = lower_char c \<and>
      map lower_char u = map lower_char t \<and> sql_like q v"
    then obtain x u v where "s = (x # u) @ v" "map lower_char (x # u) = map lower_char (c # t)" "sql_like q v"
      by auto
    then show "\<exists>w v. s = w @ v \<and> map lower_char w = map lower_char (c # t) \<and> sql_like q v" by blast
  next
    assume "\<exists>w v. s = w @ v \<and> map lower_char w = map lower_char (c # t) \<and> sql_like q v"
    then obtain x u v where "s = x # u @ v" "lower_char x = lower_char c"
      "map lower_char u = map lower_char t" "sql_like q v"
      by (auto simp: map_eq_Cons_conv)
    then show "\<exists>x u v. s = x # u @ v \<and> lower_char x = lower_char c \<and>
      map lower_char u = map lower_char t \<and> sql_like q v" by blast
  qed
  finally show ?case .
qed simp

lemma sql_like_contains: "sql_like (''%'' @ like_escape t @ ''%'') s \<longleftrightarrow> sublist (map lower_char t) (map lower_char s)"
proof
  assume "sql_like (''%'' @ like_escape t @ ''%'') s"
  then obtain u m v where "s = u @ m @ v" "map lower_char m = map lower_char t"
    by (auto simp: sql_like_escaped)
  then show "sublist (map lower_char t) (map lower_char s)" by (metis map_append sublist_appendI)
next
  assume "sublist (map lower_char t) (map lower_char s)"
  then obtain p q where "map lower_char s = p @ map lower_char t @ q" unfolding sublist_def by blast
  then obtain u r where "s = u @ r" "map lower_char r = map lower_char t @ q"
    using map_eq_append_conv[of lower_char s p "map lower_char t @ q"] by metis
  moreover from this(2) obtain m v where "r = m @ v" "map lower_char m = map lower_char t"
    using map_eq_append_conv[of lower_char r "map lower_char t" q] by metis
  ultimately have split: "s = u @ m @ v" "map lower_char m = map lower_char t" by simp_all
  have "sql_like (like_escape t @ ''%'') (m @ v)" unfolding sql_like_escaped using split(2) by auto
  then show "sql_like (''%'' @ like_escape t @ ''%'') s" using split(1) by auto
qed



text \<open>The row of a plan that was returned with an empty receipt id has NULL in this column.\<close>

lemma upserted_without_receipt:
  assumes "UpsertWorkPlan input s = (Inr res, s')" "wp_ReceiptID (wpr_Plan res) = ''''"
  obtains row where "map_of (db_plans s') (TrimSpace (wpi_ProjectID input), TrimSpace (wpi_PlanKey input)) = Some row"
    "pr_receipt_id row = None" "TrimSpace (wpi_ProjectID input) \<noteq> ''''"
  using assms(1)
proof (cases rule: UpsertWorkPlan_cases)
  case (ok res')
  let ?p = "TrimSpace (wpi_ProjectID input)" and ?k = "TrimSpace (wpi_PlanKey input)"
  let ?m = "NormalizeWorkPlanMode (wpi_Mode input)"
  have "map_of (db_plans s') (?p, ?k) = Some (final_plan_row (tables s) ?p ?k ?m input)"
    using upserted_db_plan[of "tables s" ?p ?k ?m input "(?p, ?k)"] tables_sel(1)[of s']
    unfolding ok(4) by simp
  moreover obtain row where row: "map_of (db_plans s') (?p, ?k) = Some row"
      "wpr_Plan res = (plan_of_row ?p ?k row)\<lparr>wp_Tasks := view_tasks s' ?p ?k\<rparr>"
    using ok(1,5) by (auto simp: plan_view_def)
  ultimately have "row = final_plan_row (tables s) ?p ?k ?m input" by simp
  then have "pr_receipt_id row = None \<or> (\<exists>r. pr_receipt_id row = Some r \<and> TrimSpace r \<noteq> '''')"
    by (auto simp: final_plan_row_def next_plan_row_def Let_def TrimSpace_idem)
  then have "pr_receipt_id row = None"
    using row(2) assms(2) by (auto simp: plan_of_row_def Let_def)
  then show ?thesis using that row(1) ok(2) by blast
qed simp_all

text \<open>A plan that has no receipt blocks the listing of its project: after an upsert that
  returned a plan with an empty receipt id, every unbounded unfiltered listing of the plans of this
  project fails, because the column is NULL.\<close>

theorem plan_without_receipt_unlistable:
  assumes "UpsertWorkPlan input s = (Inr res, s')" "wp_ReceiptID (wpr_Plan res) = ''''"
    "db_faults s' = []" "TrimSpace (wlq_ProjectID q) = TrimSpace (wpi_ProjectID input)"
    "NormalizeWorkPlanListScope (wlq_Scope q) = ''all''" "TrimSpace (wlq_Query q) = ''''"
    "TrimSpace (wlq_Kind q) = ''''" "wlq_Unbounded q"
  shows "fst (ListWorkPlans q s') = Inl (ErrDB ''scan work plan summary'')"
proof -
  let ?p = "TrimSpace (wpi_ProjectID input)" and ?k = "TrimSpace (wpi_PlanKey input)"
  obtain row where row: "map_of (db_plans s') (?p, ?k) = Some row" "pr_receipt_id row = None" "?p \<noteq> ''''"
    using upserted_without_receipt[OF assms(1,2)] .
  have mem: "((?p, ?k), row) \<in> set (db_plans s')" using row(1) by (rule map_of_SomeD)
  have "(?k, row) \<in> set (work_plan_rows q ?p s')"
    using assms(5-8) mem
    by (force simp: work_plan_rows_def Let_def limited_def WorkPlanListSearchPattern_def
        plan_status_in_scope_def)
  then have bad: "list_ex (\<lambda>(_, row). pr_receipt_id row = None) (work_plan_rows q ?p s')"
    using row(2) by (auto simp: list_ex_iff)
  show ?thesis
    using bad row(3) assms(3,4)
    by (simp add: ListWorkPlans_def Let_def bind_db_def get_db_def fail_db_def db_call_no_faults)
qed

lemma orphan_sample_runs:
  obtains res s' where "UpsertWorkPlan (sample_input\<lparr>wpi_ReceiptID := ''''\<rparr>) db_empty = (Inr res, s')"
    "wp_ReceiptID (wpr_Plan res) = ''''" "db_faults s' = []"
proof -
  have "case UpsertWorkPlan (sample_input\<lparr>wpi_ReceiptID := ''''\<rparr>) db_empty of (Inl _, _) \<Rightarrow> False
    | (Inr res, s') \<Rightarrow> wp_ReceiptID (wpr_Plan res) = '''' \<and> db_faults s' = []"
    by code_simp
  then show ?thesis using that by (auto split: prod.splits sum.splits)
qed

theorem plan_without_receipt_unlistable_witness:
  "\<exists>res s'. UpsertWorkPlan (sample_input\<lparr>wpi_ReceiptID := ''''\<rparr>) db_empty = (Inr res, s') \<and>
     fst (ListWorkPlans \<lparr> wlq_ProjectID = ''proj'', wlq_Scope = ''all'', wlq_Query = '''', wlq_Kind = '''',
       wlq_Limit = 0, wlq_Unbounded = True \<rparr> s') = Inl (ErrDB ''scan work plan summary'')"
proof (rule orphan_sample_runs)
  fix res s' assume run: "UpsertWorkPlan (sample_input\<lparr>wpi_ReceiptID := ''''\<rparr>) db_empty = (Inr res, s')"
    and out: "wp_ReceiptID (wpr_Plan res) = ''''" "db_faults s' = []"
  have "NormalizeWorkPlanListScope ''all'' = ''all''" by code_simp
  then show ?thesis
    using run plan_without_receipt_unlistable[OF run out, of "\<lparr> wlq_ProjectID = ''proj'', wlq_Scope = ''all'',
      wlq_Query = '''', wlq_Kind = '''', wlq_Limit = 0, wlq_Unbounded = True \<rparr>"]
    by (simp add: sample_input_def)
qed

end
