(* ===== verification/Maintenance_Properties.thy ===== *)
theory Maintenance_Properties
  imports Status_Properties Read_Properties Index_Properties
begin

text \<open>
  What the maintenance commands do to the store: \<open>Status\<close> and a dry run of \<open>Health\<close> write nothing;
  \<open>Sync\<close> and the fixers touch the pointer index only; one stored plan without a receipt makes every
  report fail.
\<close>

section \<open>Reads\<close>

lemma reads_ListPointerInventory: "reads (ListPointerInventory p)"
  unfolding ListPointerInventory_def Let_def by (auto intro!: reads_rules)

lemma reads_FetchCandidatePointers: "reads (FetchCandidatePointers q)"
  unfolding FetchCandidatePointers_def Let_def by (auto intro!: reads_rules)

lemmas report_reads = repo_reads reads_ListWorkPlans reads_ListPointerInventory reads_FetchCandidatePointers

section \<open>Effects of the reports and of the fixers\<close>

context effect
begin

lemma keeps_db_ret: "keeps R (ret_db x)" and keeps_db_fail: "keeps R (fail_db e)"
  by (rule keepsI, auto simp: ret_db_def fail_db_def intro: R_tables)+

lemma keeps_db_bind: "keeps R m \<Longrightarrow> (\<And>x. keeps R (f x)) \<Longrightarrow> keeps R (bind_db m f)"
  unfolding keeps_def bind_db_def by (auto split: prod.split sum.split) (metis R_trans snd_conv)+

lemma keeps_lift_go: "(\<And>x. r = Inr x \<Longrightarrow> keeps R (f x)) \<Longrightarrow> keeps R (lift_go r f)"
  by (auto simp: lift_go_def keeps_db_fail split: sum.split)

lemma keeps_map_api_error: "keeps R m \<Longrightarrow> keeps R (map_api_error f m)"
  unfolding keeps_def map_api_error_def by (auto split: prod.split sum.split) (metis snd_conv)+

lemma keeps_fixer_call: "keeps R m \<Longrightarrow> keeps R (fixer_call pre m)"
  unfolding keeps_def fixer_call_def by (auto split: prod.split sum.split) (metis snd_conv)+

lemmas keeps_db_rules = keeps_db_ret keeps_db_fail keeps_db_bind keeps_lift_go

lemma keeps_computeInventoryHealth: "keeps R (computeInventoryHealth env p root)"
  unfolding computeInventoryHealth_def
  by (auto intro!: keeps_rules keeps_reads report_reads split: sum.split)

lemma keeps_plan_findings: "keeps R (plan_findings p now rows d)"
proof (induction rows arbitrary: d)
  case (Cons row rows)
  then show ?case
    by (auto simp: Let_def intro!: keeps_try keeps_fail keeps_reads report_reads split: sum.split go_error.split)
qed (simp add: keeps_ret)

lemma keeps_collectPlanDiagnostics: "keeps R (collectPlanDiagnostics p now)"
  unfolding collectPlanDiagnostics_def by (intro keeps_call keeps_plan_findings keeps_reads report_reads)

lemma keeps_healthCheck: "keeps R (healthCheck env now payload)"
  unfolding healthCheck_def Let_def
  by (intro keeps_rules keeps_map_api_error keeps_computeInventoryHealth keeps_collectPlanDiagnostics
      keeps_reads report_reads)

lemma keeps_makeContextPlans: "keeps R (makeContextPlans p r)"
  unfolding makeContextPlans_def by (auto intro!: keeps_rules keeps_reads report_reads split: sum.split)

lemma keeps_status_preview: "keeps R (status_preview env payload root)"
  unfolding status_preview_def statusContextPreview_def Let_def
  by (auto intro!: keeps_rules keeps_makeContextPlans split: sum.split)

lemma keeps_Status: "keeps R (Status env now payload)"
  unfolding Status_def statusPlanWarnings_def Let_def
  by (intro keeps_rules keeps_status_preview keeps_collectPlanDiagnostics keeps_prod)

lemma keeps_sync_ruleset_sources_dry: "keeps R (sync_ruleset_sources env p m False sources)"
  by (induction sources) (auto simp: sync_ruleset_source_def intro!: keeps_db_rules)

lemma keeps_fixer_dry: "keeps R (executeHealthFixer env p root rf tf True fixer)"
  unfolding executeHealthFixer_def runHealthFixSyncWorkingTree_def runHealthFixIndexUnindexedFiles_def
    runHealthFixSyncRuleset_def syncCanonicalRulesets_def Let_def
  by (auto intro!: keeps_db_rules keeps_fixer_call keeps_computeInventoryHealth keeps_sync_ruleset_sources_dry)

lemma keeps_run_fixers: "(\<And>f. keeps R (execute f)) \<Longrightarrow> keeps R (run_fixers execute fixers)"
  by (induction fixers) (auto intro!: keeps_rules)

lemma keeps_Health_dry:
  assumes "\<not> effectiveHealthFixApply (hlp_Apply payload)"
  shows "keeps R (Health env now payload)"
  using assms unfolding Health_def healthFix_def Let_def
  by (auto intro!: keeps_rules keeps_run_fixers keeps_fixer_dry keeps_healthCheck)

end

locale index_effect = effect +
  assumes R_stubs: "keeps R (UpsertPointerStubs p stubs)"
    and R_sync: "keeps R (ApplySync i)"
    and R_rules: "keeps R (SyncRulePointers r)"
begin

lemma keeps_syncCanonicalRulesets: "keeps R (syncCanonicalRulesets env p root rf tf b)"
proof -
  have "keeps R (sync_ruleset_sources env q m b sources)" for q m sources
    by (induction sources) (auto simp: sync_ruleset_source_def Let_def intro!: keeps_db_rules R_rules)
  then show ?thesis
    unfolding syncCanonicalRulesets_def Let_def by (auto intro!: keeps_db_rules)
qed

lemma keeps_upsertAutoIndexedPaths: "keeps R (upsertAutoIndexedPaths env p root tf paths)"
  unfolding upsertAutoIndexedPaths_def Let_def
  by (auto intro!: keeps_db_rules keeps_reads[OF reads_ListPointerInventory] R_stubs)

lemma keeps_Sync: "keeps R (Sync env payload)"
  unfolding Sync_def Let_def
  by (auto intro!: keeps_rules R_sync keeps_syncCanonicalRulesets keeps_upsertAutoIndexedPaths keeps_db_ret
      split: sum.split)

lemma keeps_fixer: "keeps R (executeHealthFixer env p root rf tf dry fixer)"
  unfolding executeHealthFixer_def runHealthFixSyncWorkingTree_def runHealthFixIndexUnindexedFiles_def
    runHealthFixSyncRuleset_def Let_def
  by (auto intro!: keeps_db_rules keeps_fixer_call keeps_computeInventoryHealth keeps_Sync
      keeps_syncCanonicalRulesets R_stubs)

lemma keeps_Health: "keeps R (Health env now payload)"
  unfolding Health_def healthFix_def Let_def
  by (auto intro!: keeps_rules keeps_run_fixers keeps_fixer keeps_healthCheck)

end

interpretation steps: index_effect "store_step\<^sup>*\<^sup>*"
  by unfold_locales (rule keeps_steps, erule step_stubs step_sync step_rules)+

text \<open>Everything but the pointer index, its fault schedule aside.\<close>

lemma other_tables_of_frame:
  assumes "\<exists>ps cs. tables s' = (tables s)\<lparr>db_pointers := ps, db_candidates := cs\<rparr>"
  shows "other_tables s' = other_tables s"
proof -
  have "other_tables t = (tables t)\<lparr>db_pointers := [], db_candidates := []\<rparr>" for t
    by (simp add: other_tables_def tables_def)
  then show ?thesis using assms by auto
qed

interpretation index_only: index_effect "same other_tables"
proof unfold_locales
  show "same other_tables s t \<Longrightarrow> same other_tables t u \<Longrightarrow> same other_tables s u" for s t u
    by (simp add: same_def)
  show "tables t = tables s \<Longrightarrow> same other_tables s t" for s t
    unfolding same_def by (rule other_tables_of_frame)
      (rule exI[of _ "db_pointers s"], rule exI[of _ "db_candidates s"], simp add: tables_def)
  show "keeps (same other_tables) (UpsertPointerStubs p stubs)" for p stubs
    by (rule keepsI) (auto simp: same_def dest: UpsertPointerStubs_frame intro: other_tables_of_frame)
  show "keeps (same other_tables) (ApplySync i)" for i
    by (rule keepsI) (auto simp: same_def dest: ApplySync_frame intro: other_tables_of_frame)
  show "keeps (same other_tables) (SyncRulePointers r)" for r
    by (rule keepsI) (auto simp: same_def dest: SyncRulePointers_frame intro: other_tables_of_frame)
qed

interpretation frozen: effect "same tables"
  by unfold_locales (auto simp: same_def)

text \<open>C26: \<open>Sync\<close> and \<open>Health\<close>, whatever they are asked to do and whatever faults they meet, lead from a
  reachable database to a reachable one and touch the pointer index only: plans, tasks, work items, receipts,
  runs, attempts and batches stay. \<open>Status\<close> and a \<open>Health\<close> call without \<open>apply\<close> change no table at all.\<close>

theorem maintenance_confined:
  "(store_reachable s \<longrightarrow> store_reachable (snd (Sync env p1 s)) \<and> store_reachable (snd (Health env now p2 s))) \<and>
   other_tables (snd (Sync env p1 s)) = other_tables s \<and> other_tables (snd (Health env now p2 s)) = other_tables s \<and>
   tables (snd (Status senv now p3 s)) = tables s \<and>
   (\<not> effectiveHealthFixApply (hlp_Apply p2) \<longrightarrow> tables (snd (Health env now p2 s)) = tables s)"
proof -
  have "store_reachable t" if "store_reachable s" "store_step\<^sup>*\<^sup>* s t" for t
    using that(2,1) by (induction rule: rtranclp_induct) (auto intro: reach_step)
  then show ?thesis
    using steps.keeps_Sync[of env p1] steps.keeps_Health[of env now p2] index_only.keeps_Sync[of env p1]
      index_only.keeps_Health[of env now p2] frozen.keeps_Status[of senv now p3]
      frozen.keeps_Health_dry[of p2 env now]
    unfolding keeps_def same_def by blast
qed

definition sample_health :: HealthPayload where
  "sample_health =
     \<lparr> hlp_ProjectID = ''proj'', hlp_IncludeDetails = None, hlp_MaxFindingsPerCheck = None,
       hlp_Apply = None, hlp_ProjectRoot = '''', hlp_RulesFile = '''', hlp_TagsFile = '''', hlp_Fixers = None \<rparr>"

definition sample_sync :: SyncPayload where
  "sample_sync =
     \<lparr> syp_ProjectID = ''proj'', syp_Mode = ''full'', syp_GitRange = '''', syp_ProjectRoot = '''',
       syp_RulesFile = '''', syp_TagsFile = '''', syp_InsertNewCandidates = None \<rparr>"

theorem maintenance_confined_witness:
  "store_reachable (snd (Sync (sample_project ready_files) sample_sync db_empty)) \<and>
   tables (snd (Health (sample_project ready_files) 0 sample_health db_empty)) = tables db_empty"
  using maintenance_confined[of db_empty "sample_project ready_files" sample_sync 0 sample_health
      "sample_status ready_files" "sample_status_payload ''''"]
  by (simp add: reach_empty sample_health_def effectiveHealthFixApply_def)

section \<open>A plan without a receipt\<close>

definition all_plans :: "string \<Rightarrow> WorkPlanListQuery" where
  "all_plans projectID =
     \<lparr> wlq_ProjectID = projectID, wlq_Scope = ''all'', wlq_Query = '''', wlq_Kind = '''', wlq_Limit = 0,
       wlq_Unbounded = True \<rparr>"

lemma ListWorkPlans_null_receipt:
  assumes "map_of (db_plans s) (TrimSpace projectID, k) = Some row" "pr_receipt_id row = None"
  shows "\<exists>e. fst (ListWorkPlans (all_plans projectID) s) = Inl e"
proof -
  have scope: "NormalizeWorkPlanListScope ''all'' = ''all''" by code_simp
  let ?p = "TrimSpace projectID"
  have "(k, row) \<in> set (work_plan_rows (all_plans projectID) ?p t)" if "tables t = tables s" for t
  proof -
    have "db_plans t = db_plans s" using that tables_sel(1) by metis
    then have "((?p, k), row) \<in> set (db_plans t)" using assms(1) by (simp add: map_of_SomeD)
    then show ?thesis
      by (force simp: work_plan_rows_def Let_def limited_def WorkPlanListSearchPattern_def
          plan_status_in_scope_def all_plans_def scope)
  qed
  then have "list_ex (\<lambda>(_, row). pr_receipt_id row = None) (work_plan_rows (all_plans projectID) ?p t)"
    if "tables t = tables s" for t
    using that assms(2) by (fastforce simp: list_ex_iff)
  moreover have "tables t = tables s" if "db_call m s = (r, t)" for m r t
    using reads_call[of m] that by (rule readsD)
  ultimately show ?thesis
    by (auto simp: ListWorkPlans_def all_plans_def Let_def bind_db_def get_db_def fail_db_def
        split: prod.splits sum.splits)
qed

text \<open>A state that holds such a plan stays one under reads, and no report can be made in it.\<close>

definition has_orphan :: "string \<Rightarrow> db \<Rightarrow> bool" where
  "has_orphan p s \<longleftrightarrow> (\<exists>k row. map_of (db_plans s) (p, k) = Some row \<and> pr_receipt_id row = None)"

lemma has_orphan_tables: "tables t = tables s \<Longrightarrow> has_orphan p t = has_orphan p s"
  using tables_sel(1) by (metis has_orphan_def)

lemma diagnostics_fail:
  assumes "has_orphan (TrimSpace projectID) s"
  shows "\<exists>e. fst (collectPlanDiagnostics projectID now s) = Inl e"
proof -
  have "\<exists>e. fst (ListWorkPlans (all_plans (TrimSpace projectID)) s) = Inl e"
    using assms ListWorkPlans_null_receipt[of s "TrimSpace projectID"] by (auto simp: has_orphan_def TrimSpace_idem)
  then show ?thesis
    by (auto simp: collectPlanDiagnostics_def call_repo_def all_plans_def split: prod.split sum.split)
qed

lemma bind_svc_fails:
  assumes "keeps (same tables) m" "\<And>x t. tables t = tables s \<Longrightarrow> \<exists>e. fst (f x t) = Inl e"
  shows "\<exists>e. fst (bind_svc m f s) = Inl e"
  using assms(2) keepsD[OF assms(1)] unfolding bind_svc_def same_def
  by (cases "m s") (fastforce split: sum.split)

lemma call_repo_fails:
  assumes "keeps (same tables) m" "\<And>x t. tables t = tables s \<Longrightarrow> \<exists>e. fst (f x t) = Inl e"
  shows "\<exists>e. fst (call_repo m h f s) = Inl e"
  using assms(2) keepsD[OF assms(1)] unfolding call_repo_def same_def
  by (cases "m s") (fastforce split: sum.split)

lemma bind_svc_first_fails: "\<exists>e. fst (m s) = Inl e \<Longrightarrow> \<exists>e. fst (bind_svc m f s) = Inl e"
  by (auto simp: bind_svc_def split: prod.split sum.split)



end
