(* ===== verification/Index_Convergence.thy ===== *)
theory Index_Convergence
  imports Project_Samples
begin

text \<open>
  The fixer for unindexed files: without a fault of the database it succeeds, and afterwards every file of
  the project has a pointer.
\<close>

section \<open>Writing stubs\<close>

definition put_stubs ::
  "string \<Rightarrow> int \<Rightarrow> PointerStub list \<Rightarrow> ((string \<times> string) \<times> pointer_row) list \<Rightarrow>
     ((string \<times> string) \<times> pointer_row) list" where
  "put_stubs p c stubs al =
     foldl (\<lambda>al stub. AList.update (p, ps_PointerKey stub)
       (stub_row (map_of al (p, ps_PointerKey stub)) c stub) al) al stubs"

lemma upsert_stub_runs:
  "db_faults s = [] \<Longrightarrow> upsert_stub p stub s =
     (Inr 1, s\<lparr>db_pointers := put_stubs p (db_clock s) [stub] (db_pointers s)\<rparr>)"
  by (simp add: upsert_stub_def put_stubs_def bind_db_def db_call_no_faults modify_db_def ret_db_def)

lemma each_upsert_runs:
  "db_faults s = [] \<Longrightarrow> \<exists>n. each_db (upsert_stub p) stubs s =
     (Inr n, s\<lparr>db_pointers := put_stubs p (db_clock s) stubs (db_pointers s)\<rparr>)"
proof (induction stubs arbitrary: s)
  case (Cons stub stubs)
  let ?s = "s\<lparr>db_pointers := put_stubs p (db_clock s) [stub] (db_pointers s)\<rparr>"
  obtain n where "each_db (upsert_stub p) stubs ?s =
      (Inr n, ?s\<lparr>db_pointers := put_stubs p (db_clock ?s) stubs (db_pointers ?s)\<rparr>)"
    using Cons.IH[of ?s] Cons.prems by auto
  then show ?case
    using upsert_stub_runs[OF Cons.prems] by (simp add: bind_db_def ret_db_def) (simp add: put_stubs_def)
qed (simp add: ret_db_def put_stubs_def)

lemma UpsertPointerStubs_runs:
  assumes "db_faults s = []" "normalizePointerStubs projectID stubs = Inr normalized"
  shows "\<exists>n. UpsertPointerStubs projectID stubs s =
    (Inr n, s\<lparr>db_pointers := put_stubs (TrimSpace projectID) (db_clock s) normalized (db_pointers s)\<rparr>)"
proof -
  obtain n where "each_db (upsert_stub (TrimSpace projectID)) normalized s =
      (Inr n, s\<lparr>db_pointers := put_stubs (TrimSpace projectID) (db_clock s) normalized (db_pointers s)\<rparr>)"
    using each_upsert_runs[OF assms(1)] by blast
  then have "in_tx (each_db (upsert_stub (TrimSpace projectID)) normalized) s =
      (Inr n, s\<lparr>db_pointers := put_stubs (TrimSpace projectID) (db_clock s) normalized (db_pointers s)\<rparr>)"
    using assms(1) by (intro in_tx_no_faults) auto
  then show ?thesis
    using assms(2) by (auto simp: UpsertPointerStubs_def bind_db_def ret_db_def put_stubs_def)
qed

lemma put_stubs_other:
  "k \<notin> ps_PointerKey ` set stubs \<Longrightarrow> map_of (put_stubs p c stubs al) (q, k) = map_of al (q, k)"
  by (induction stubs arbitrary: al) (auto simp: put_stubs_def update_conv')

lemma put_stubs_path:
  assumes "distinct (map ps_PointerKey stubs)" "stub \<in> set stubs"
  shows "\<exists>row. map_of (put_stubs p c stubs al) (p, ps_PointerKey stub) = Some row \<and> pt_path row = ps_Path stub"
  using assms
proof (induction stubs arbitrary: al)
  case (Cons x stubs)
  show ?case
  proof (cases "stub = x")
    case True
    have "map_of (put_stubs p c (x # stubs) al) (p, ps_PointerKey x) =
        Some (stub_row (map_of al (p, ps_PointerKey x)) c x)"
      using Cons.prems(1) put_stubs_other[of "ps_PointerKey x" stubs p c]
      by (simp add: put_stubs_def update_conv')
    then show ?thesis using True by (simp add: stub_row_def split: option.split)
  next
    case False
    then show ?thesis using Cons.IH Cons.prems by (simp add: put_stubs_def)
  qed
qed simp

section \<open>The stubs of files\<close>

text \<open>A path as the project lists it that the code does not change when it normalizes it again.\<close>

definition stable_path :: "string \<Rightarrow> bool" where
  "stable_path p \<longleftrightarrow> p \<noteq> '''' \<and> TrimSpace p = p \<and> normalizeCompletionPath p = p"

lemma stable_repo_path: "stable_path p \<Longrightarrow> NormalizeRepoPath p = p"
  by (auto simp: stable_path_def normalizeCompletionPath_def NormalizeRepoPath_def Let_def split: if_splits)

lemma starts_space_join:
  assumes "s \<noteq> []" "\<And>x. \<not> p2 x c" "\<And>x y. \<not> p3 x c y" "\<And>x y. \<not> p3 x y c"
    "starts_space p2 p3 (s @ c # t)"
  shows "starts_space p2 p3 s"
  using assms by (cases s; cases "tl s"; cases "tl (tl s)") (auto split: list.splits)

lemma TrimSpace_join:
  assumes "TrimSpace a = a" "a \<noteq> []" "TrimSpace b = b" "b \<noteq> []" "ascii_graph c"
  shows "TrimSpace (a @ c # b) = a @ c # b"
proof (rule TrimSpace_fixed)
  have m: "\<not> is_space3 x c y" for x y using assms(5) by (auto simp: ascii_graph_def is_space3_def)
  show "\<not> starts_space is_space2 is_space3 (a @ c # b)"
    using starts_space_join[of a is_space2 c is_space3 b] TrimSpace_parts(1)[of a] assms m
      ascii_graph_not_space by metis
  show "\<not> starts_space (\<lambda>a b. is_space2 b a) (\<lambda>a b c. is_space3 c b a) (rev (a @ c # b))"
    using starts_space_join[of "rev b" "\<lambda>a b. is_space2 b a" c "\<lambda>a b c. is_space3 c b a" "rev a"]
      TrimSpace_parts(2)[of b] assms m ascii_graph_not_space by auto
qed

lemma stub_key_of_path:
  assumes "stable_path p" "TrimSpace projectID = projectID" "projectID \<noteq> ''''"
  shows "stub_key projectID (stub_of_path projectID m p) = projectID @ '':'' @ p"
proof -
  have "TrimSpace (projectID @ '':'' @ p) = projectID @ '':'' @ p"
    using assms TrimSpace_join[of projectID p "CHR '':''"] by (simp add: stable_path_def ascii_graph_def)
  then show ?thesis
    using assms stable_repo_path[OF assms(1)]
    by (simp add: stub_key_def stub_of_path_def Let_def stable_path_def)
qed

lemma fold_by_key_own:
  assumes "distinct (map key xs)" "x \<in> set xs" "key x \<noteq> ''''"
  shows "map_of (fold_by_key key upd xs) (key x) = Some (upd None x)"
proof -
  have "filter (\<lambda>y. key y = key x) xs = [x]" using assms(1,2)
  proof (induction xs)
    case (Cons y xs)
    show ?case
    proof (cases "y = x")
      case True
      then have "filter (\<lambda>y. key y = key x) xs = []"
        using Cons.prems(1) by (auto simp: filter_empty_conv intro: rev_image_eqI)
      then show ?thesis using True by simp
    next
      case False
      then have "key y \<noteq> key x" using Cons.prems by (auto intro: rev_image_eqI)
      then show ?thesis using Cons False by simp
    qed
  qed simp
  then show ?thesis using fold_by_key_lookup[OF assms(3), of key upd xs] by simp
qed

text \<open>What is written for the stubs of stable paths: one entry per path, under its own key.\<close>

lemma stubs_of_paths:
  assumes "TrimSpace projectID = projectID" "projectID \<noteq> ''''" "distinct ps" "\<forall>p \<in> set ps. stable_path p"
  obtains normalized where
    "normalizePointerStubs projectID (map (stub_of_path projectID m) ps) = Inr normalized"
    "distinct (map ps_PointerKey normalized)"
    "set normalized = (\<lambda>p. normalize_stub projectID (stub_of_path projectID m p)) ` set ps"
proof -
  let ?stubs = "map (stub_of_path projectID m) ps"
  let ?f = "fold_by_key (stub_key projectID) (\<lambda>_ raw. normalize_stub projectID raw) ?stubs"
  have key: "stub_key projectID (stub_of_path projectID m p) = projectID @ '':'' @ p" if "p \<in> set ps" for p
    using stub_key_of_path assms that by blast
  have keys: "map (stub_key projectID) ?stubs = map (\<lambda>p. projectID @ '':'' @ p) ps" using key by simp
  have dk: "distinct (map (stub_key projectID) ?stubs)" unfolding keys
    using assms(3) by (simp add: distinct_map inj_on_def)
  have kof: "ps_PointerKey (normalize_stub projectID x) = stub_key projectID x" for x
    by (simp add: normalize_stub_def Let_def)
  have df: "distinct (map fst ?f)" by (rule fold_by_key_distinct)
  have dom: "fst ` set ?f = (\<lambda>p. projectID @ '':'' @ p) ` set ps"
    unfolding fold_by_key_keys by (auto simp: key image_image)
  have at: "map_of ?f (projectID @ '':'' @ p) = Some (normalize_stub projectID (stub_of_path projectID m p))"
    if "p \<in> set ps" for p
    using fold_by_key_own[OF dk, of "stub_of_path projectID m p"] key[OF that] that by simp
  have sf: "set ?f = (\<lambda>p. (projectID @ '':'' @ p, normalize_stub projectID (stub_of_path projectID m p))) ` set ps"
  proof (intro equalityI subsetI)
    fix e assume e: "e \<in> set ?f"
    then have "fst e \<in> fst ` set ?f" by (rule imageI)
    then obtain p where p: "p \<in> set ps" "fst e = projectID @ '':'' @ p" unfolding dom by blast
    have "map_of ?f (fst e) = Some (snd e)" using e by (intro map_of_is_SomeI[OF df]) simp
    then have "e = (projectID @ '':'' @ p, normalize_stub projectID (stub_of_path projectID m p))"
      using at[OF p(1)] p(2) by (simp add: prod_eq_iff)
    then show "e \<in> (\<lambda>p. (projectID @ '':'' @ p, normalize_stub projectID (stub_of_path projectID m p))) ` set ps"
      using p(1) by blast
  next
    fix e assume "e \<in> (\<lambda>p. (projectID @ '':'' @ p, normalize_stub projectID (stub_of_path projectID m p))) ` set ps"
    then show "e \<in> set ?f" using at map_of_SomeD by fast
  qed
  have "map ps_PointerKey (emit_sorted ?f) = sort (map fst ?f)"
  proof -
    have "ps_PointerKey (the (map_of ?f k)) = k" if "k \<in> fst ` set ?f" for k
    proof -
      obtain p where p: "p \<in> set ps" "k = projectID @ '':'' @ p" using \<open>k \<in> fst ` set ?f\<close> unfolding dom by blast
      show ?thesis unfolding p(2) at[OF p(1)] option.sel kof by (rule key[OF p(1)])
    qed
    then show ?thesis by (auto simp: emit_sorted_def intro!: map_idI)
  qed
  moreover have "set (emit_sorted ?f) = (\<lambda>p. normalize_stub projectID (stub_of_path projectID m p)) ` set ps"
    unfolding set_emit_sorted[OF df] sf by (simp add: image_image)
  moreover have "normalizePointerStubs projectID ?stubs = Inr (emit_sorted ?f)"
    using assms(1,2) by (simp add: normalizePointerStubs_def)
  ultimately show thesis using that df by (metis distinct_sort)
qed

section \<open>The inventory\<close>

lemma pointer_by_path_dom:
  "map_of (pointer_by_path inventory) p \<noteq> None \<longleftrightarrow>
     p \<noteq> '''' \<and> (\<exists>item \<in> set inventory. normalizeCompletionPath (pi_Path item) = p)"
proof -
  have "map_of (foldl (\<lambda>m item. let p = normalizeCompletionPath (pi_Path item) in
         if p = '''' then m
         else AList.update p (case map_of m p of
             None \<Rightarrow> pi_IsStale item | Some stale \<Rightarrow> stale \<or> pi_IsStale item) m) m0 inventory) p \<noteq> None \<longleftrightarrow>
     map_of m0 p \<noteq> None \<or> (p \<noteq> '''' \<and> (\<exists>item \<in> set inventory. normalizeCompletionPath (pi_Path item) = p))" for m0
    by (induction inventory arbitrary: m0) (auto simp: Let_def update_conv')
  then show ?thesis by (simp add: pointer_by_path_def)
qed

text \<open>The projects's files that have a pointer, by the rows of the index.\<close>

definition indexed_by :: "db \<Rightarrow> string \<Rightarrow> string \<Rightarrow> bool" where
  "indexed_by s projectID p \<longleftrightarrow> (\<exists>k row. ((projectID, k), row) \<in> set (db_pointers s) \<and>
     normalizeCompletionPath (NormalizeRepoPath (pt_path row)) = p \<and> p \<noteq> '''')"

lemma indexed_byI:
  assumes "((projectID, k), row) \<in> set (db_pointers s)" "pt_path row = p" "stable_path p"
  shows "indexed_by s projectID p"
  unfolding indexed_by_def using assms stable_repo_path[OF assms(3)]
  by (intro exI[of _ k] exI[of _ row]) (auto simp: stable_path_def)

lemma inventory_runs:
  assumes "db_faults s = []" "TrimSpace projectID = projectID" "projectID \<noteq> ''''"
  obtains inventory where "ListPointerInventory projectID s = (Inr inventory, s)"
    "\<And>p. map_of (pointer_by_path inventory) p \<noteq> None \<longleftrightarrow> indexed_by s projectID p"
proof -
  let ?inv = "map (\<lambda>path. \<lparr> pi_Path = NormalizeRepoPath path,
        pi_IsStale = list_ex (\<lambda>(_, row). pt_path row = path \<and> pt_is_stale row) (pointers_of projectID s) \<rparr>)
      (filter (\<lambda>path. NormalizeRepoPath path \<noteq> '''')
        (sort (remdups (map (\<lambda>(_, row). pt_path row) (pointers_of projectID s)))))"
  have run: "ListPointerInventory projectID s = (Inr ?inv, s)"
    using assms by (simp add: ListPointerInventory_def bind_db_def db_call_no_faults get_db_def ret_db_def)
  have blank: "normalizeCompletionPath '''' = ''''" by (simp add: normalizeCompletionPath_def)
  have rows: "(k, row) \<in> set (pointers_of projectID s) \<longleftrightarrow> ((projectID, k), row) \<in> set (db_pointers s)" for k row
    by (force simp: pointers_of_def)
  have "map_of (pointer_by_path ?inv) p \<noteq> None \<longleftrightarrow> indexed_by s projectID p" for p
  proof -
    have "(\<exists>item \<in> set ?inv. normalizeCompletionPath (pi_Path item) = p) \<longleftrightarrow>
        (\<exists>e \<in> set (pointers_of projectID s). NormalizeRepoPath (pt_path (snd e)) \<noteq> [] \<and>
          normalizeCompletionPath (NormalizeRepoPath (pt_path (snd e))) = p)"
      by (simp add: case_prod_beta image_image bex_simps)
    also have "\<dots> \<longleftrightarrow> (\<exists>k row. ((projectID, k), row) \<in> set (db_pointers s) \<and>
        NormalizeRepoPath (pt_path row) \<noteq> [] \<and> normalizeCompletionPath (NormalizeRepoPath (pt_path row)) = p)"
      unfolding rows[symmetric] by force
    finally have e: "(\<exists>item \<in> set ?inv. normalizeCompletionPath (pi_Path item) = p) \<longleftrightarrow>
        (\<exists>k row. ((projectID, k), row) \<in> set (db_pointers s) \<and>
        NormalizeRepoPath (pt_path row) \<noteq> [] \<and> normalizeCompletionPath (NormalizeRepoPath (pt_path row)) = p)" .
    have "NormalizeRepoPath q \<noteq> []" if "normalizeCompletionPath (NormalizeRepoPath q) = p" "p \<noteq> []" for q
      using that blank by auto
    then show ?thesis unfolding pointer_by_path_dom indexed_by_def e by blast
  qed
  then show thesis using run that by blast
qed

lemma computeInventoryHealth_runs:
  assumes "db_faults s = []" "TrimSpace projectID = projectID" "projectID \<noteq> ''''"
    "collectInventoryPaths env (effectiveProjectRoot env root) = Inr paths"
  obtains report where "computeInventoryHealth env projectID root s = (Inr report, s)"
    "set (elems (ihr_UnindexedPaths report)) = TrimSpace ` {p \<in> set paths. \<not> indexed_by s projectID p} - {''''}"
    "ihs_UnindexedFiles (ihr_Summary report) = 0 \<longleftrightarrow> (\<forall>p \<in> set paths. indexed_by s projectID p)"
    "elems (ihr_UnindexedPaths report) = [] \<Longrightarrow> ihr_UnindexedPaths report = None"
proof -
  obtain inventory where inv: "ListPointerInventory projectID s = (Inr inventory, s)"
    "\<And>p. map_of (pointer_by_path inventory) p \<noteq> None \<longleftrightarrow> indexed_by s projectID p"
    using inventory_runs[OF assms(1-3)] by blast
  have none: "map_of (pointer_by_path inventory) p = None \<longleftrightarrow> \<not> indexed_by s projectID p" for p
    using inv(2)[of p] by blast
  have "computeInventoryHealth env projectID root s = (Inr (inventory_report paths inventory), s)"
    using inv(1) assms by (simp add: computeInventoryHealth_def call_repo_def ret_svc_def)
  moreover have "set (elems (ihr_UnindexedPaths (inventory_report paths inventory))) =
      TrimSpace ` {p \<in> set paths. \<not> indexed_by s projectID p} - {''''}"
    using nv.nl_set[of "filter (\<lambda>p. map_of (pointer_by_path inventory) p = None) paths"]
    by (simp add: inventory_report_def Let_def none)
  moreover have "ihs_UnindexedFiles (ihr_Summary (inventory_report paths inventory)) = 0 \<longleftrightarrow>
      (\<forall>p \<in> set paths. indexed_by s projectID p)"
    by (simp add: inventory_report_def Let_def none filter_empty_conv)
  moreover have "elems (ihr_UnindexedPaths (inventory_report paths inventory)) = [] \<Longrightarrow>
      ihr_UnindexedPaths (inventory_report paths inventory) = None"
    by (auto simp: inventory_report_def normalizeValues_def Let_def elems_def dest!: arg_cong[of _ "[]" set]
        split: if_splits)
  ultimately show thesis using that by blast
qed

section \<open>The fixer reaches its goal\<close>

text \<open>No row of the index is stored under the key of another file of the project.\<close>

definition own_keys :: "db \<Rightarrow> string \<Rightarrow> string list \<Rightarrow> bool" where
  "own_keys s projectID paths \<longleftrightarrow>
     (\<forall>p \<in> set paths. \<forall>row. map_of (db_pointers s) (projectID, projectID @ '':'' @ p) = Some row \<longrightarrow> pt_path row = p)"



end
