(* ===== verification/Sync_Properties.thy ===== *)
theory Sync_Properties
  imports Maintenance_Properties Index_Convergence
begin

text \<open>
  \<open>Sync\<close> and the fixers: the rules of a source become exactly those of its file, a changed path that git
  lists but has no blob makes the call fail, and the fixer for unindexed files reaches its goal.
\<close>

section \<open>Rules of a source\<close>

text \<open>C11: after a successful sync of the rules of a source, the rule pointers of this source are exactly the
  normalized rules that were given, each with the row that the rule denotes; rules of the source that are not
  listed are gone, and every other pointer of any project and every candidate is what it was.\<close>

theorem rules_of_source_exact:
  assumes "SyncRulePointers input s = (Inr res, s')" "store_reachable s"
  shows "\<exists>n. normalizeRulePointerSyncInput input = Inr n \<and>
    (\<forall>q k. map_of (db_pointers s') (q, k) = ruled n s q k) \<and> db_candidates s' = db_candidates s \<and>
    {k. \<exists>row. map_of (db_pointers s') (rpi_ProjectID n, k) = Some row \<and> pt_is_rule row \<and>
        pt_path row = rpi_SourcePath n} = set (map rup_PointerKey (rpi_Pointers n))"
proof -
  obtain n where n: "normalizeRulePointerSyncInput input = Inr n"
    "\<And>q k. map_of (db_pointers s') (q, k) = ruled n s q k" "db_candidates s' = db_candidates s"
    using SyncRulePointers_at[OF assms(1)] reachable_wf_index[OF assms(2)] by metis
  have key: "rule_at n k = None \<longleftrightarrow> k \<notin> set (map rup_PointerKey (rpi_Pointers n))" for k
    by (simp add: rule_at_def map_of_eq_None_iff image_image)
  have row: "pt_is_rule (rule_row src c rule)" "pt_path (rule_row src c rule) = src" for src c rule
    by (simp_all add: rule_row_def)
  have "(\<exists>row. ruled n s (rpi_ProjectID n) k = Some row \<and> pt_is_rule row \<and> pt_path row = rpi_SourcePath n) \<longleftrightarrow>
      k \<in> set (map rup_PointerKey (rpi_Pointers n))" for k
    using key[of k] by (cases "rule_at n k") (auto simp: ruled_def row split: option.splits if_splits)
  then show ?thesis using n by auto
qed

theorem rules_of_source_exact_witness:
  "\<exists>res s'. SyncRulePointers \<lparr> rpi_ProjectID = ''proj'', rpi_SourcePath = ''r.yaml'',
      rpi_Pointers = toCoreRulePointers [sample_rule\<lparr>crp_SourcePath := ''r.yaml''\<rparr>] \<rparr> db_empty = (Inr res, s') \<and>
    (\<exists>n :: RulePointerSyncInput. {k. \<exists>row. map_of (db_pointers s') (rpi_ProjectID n, k) = Some row \<and> pt_is_rule row \<and>
        pt_path row = rpi_SourcePath n} = set (map rup_PointerKey (rpi_Pointers n)) \<and> rpi_Pointers n \<noteq> [])"
proof -
  let ?input = "\<lparr> rpi_ProjectID = ''proj'', rpi_SourcePath = ''r.yaml'',
      rpi_Pointers = toCoreRulePointers [sample_rule\<lparr>crp_SourcePath := ''r.yaml''\<rparr>] \<rparr>"
  have "case SyncRulePointers ?input db_empty of (Inl _, _) \<Rightarrow> False | _ \<Rightarrow> True" by code_simp
  then obtain res s' where run: "SyncRulePointers ?input db_empty = (Inr res, s')"
    by (auto split: prod.splits sum.splits)
  have "case normalizeRulePointerSyncInput ?input of Inl _ \<Rightarrow> False | Inr n \<Rightarrow> rpi_Pointers n \<noteq> []" by code_simp
  then obtain n where n: "normalizeRulePointerSyncInput ?input = Inr n" "rpi_Pointers n \<noteq> []"
    by (auto split: sum.splits)
  obtain n' where n': "normalizeRulePointerSyncInput ?input = Inr n'"
    "{k. \<exists>row. map_of (db_pointers s') (rpi_ProjectID n', k) = Some row \<and> pt_is_rule row \<and>
      pt_path row = rpi_SourcePath n'} = set (map rup_PointerKey (rpi_Pointers n'))"
    using rules_of_source_exact[OF run reach_empty] by blast
  then have "n' = n" using n(1) by simp
  then have "{k. \<exists>row. map_of (db_pointers s') (rpi_ProjectID n, k) = Some row \<and> pt_is_rule row \<and>
      pt_path row = rpi_SourcePath n} = set (map rup_PointerKey (rpi_Pointers n)) \<and> rpi_Pointers n \<noteq> []"
    using n(2) n'(2) by simp
  then have "\<exists>n :: RulePointerSyncInput. {k. \<exists>row. map_of (db_pointers s') (rpi_ProjectID n, k) = Some row \<and> pt_is_rule row \<and>
      pt_path row = rpi_SourcePath n} = set (map rup_PointerKey (rpi_Pointers n)) \<and> rpi_Pointers n \<noteq> []"
    by (rule exI[of _ n])
  with run show ?thesis by (intro exI[of _ res] exI[of _ s'] conjI)
qed

section \<open>A path without a blob\<close>

lemma hash_of_update: "hash_of (AList.update k v m) p = (if p = k then v else hash_of m p)"
  by (simp add: hash_of_def update_conv')

lemma copy_hashes_none:
  "TrimSpace (hash_of dst p) = '''' \<Longrightarrow> \<forall>v. (p, v) \<in> set src \<longrightarrow> TrimSpace v = '''' \<Longrightarrow>
     TrimSpace (hash_of (copy_hashes dst src) p) = ''''"
  unfolding copy_hashes_def
  by (induction src arbitrary: dst) (auto simp: hash_of_update)

lemma with_hashes_missing:
  assumes "r \<in> set rs" "\<not> sp_Deleted r" "TrimSpace (hash_of m (sp_Path r)) = ''''"
  shows "\<exists>e. with_hashes operation msg m rs = Inl (operation, e)"
  using assms(1)
proof (induction rs)
  case (Cons x rs)
  show ?case
  proof (cases "\<not> sp_Deleted x \<and> TrimSpace (hash_of m (sp_Path x)) = ''''")
    case False
    then have "r \<in> set rs" using Cons.prems assms(2,3) by auto
    with Cons.IH False show ?thesis by (auto simp: Let_def)
  qed (auto simp: Let_def)
qed simp

text \<open>No lookup of hashes at any commit knows the path.\<close>

definition no_blob :: "project_env \<Rightarrow> string \<Rightarrow> string \<Rightarrow> bool" where
  "no_blob env root p \<longleftrightarrow>
     (\<forall>ref paths hashes v. lookupHashesForRef env root ref paths = Inr hashes \<longrightarrow>
        (p, v) \<in> set hashes \<longrightarrow> TrimSpace v = '''')"

lemma no_blob_hash:
  assumes "no_blob env root p" "lookupHashesForRef env root ref paths = Inr hashes"
  shows "TrimSpace (hash_of hashes p) = ''''" "\<forall>v. (p, v) \<in> set hashes \<longrightarrow> TrimSpace v = ''''"
proof -
  show all: "\<forall>v. (p, v) \<in> set hashes \<longrightarrow> TrimSpace v = ''''" using assms by (auto simp: no_blob_def)
  show "TrimSpace (hash_of hashes p) = ''''"
    using all by (auto simp: hash_of_def TrimSpace_Nil split: option.split dest: map_of_SomeD)
qed

lemma resolve_no_blob:
  assumes "no_blob env root p" "resolveContentHashes env root ref paths = Inr hashes"
  shows "TrimSpace (hash_of hashes p) = ''''"
  using assms no_blob_hash[OF assms(1)]
  by (auto simp: resolveContentHashes_def Let_def bind_res_Inr_iff hash_of_def[of "[]"] TrimSpace_Nil
      split: if_splits sum.splits intro!: copy_hashes_none)

text \<open>C28: in mode \<open>changed\<close>, one changed path that is not deleted and for which \<open>git ls-tree\<close> prints no blob
  makes the whole call fail before anything is written. That is so for a submodule, which git lists as a
  commit, and for a file whose name git prints in quotes, which the parser reads as another path.\<close>

theorem unhashed_path_fails_sync:
  assumes "normalizeSyncMode (syp_Mode payload) = ''changed''"
    "root = effectiveProjectRoot env (syp_ProjectRoot payload)"
    "pj_git env root [''diff'', ''--name-status'', ''--find-renames'',
       normalizeSyncGitRange ''changed'' (syp_GitRange payload)] = Inr out"
    "parseChangedNameStatus out = Inr paths" "r \<in> set paths" "\<not> sp_Deleted r"
    "no_blob env root (sp_Path r)"
  shows "\<exists>e. Sync env payload s = (Inl (syncInternalError ''git_ls_tree'' e), s)"
proof -
  have "\<exists>e. collectSyncPaths env ''changed'' (normalizeSyncGitRange ''changed'' (syp_GitRange payload)) root =
      Inl (''git_ls_tree'', e)"
    using assms(3,4,5) with_hashes_missing[OF assms(5,6)] resolve_no_blob[OF assms(7)]
    by (auto simp: collectSyncPaths_def collectChangedSyncPaths_def wrapSyncOperationError_def bind_res_Inr_iff
        split: sum.split)
  then show ?thesis using assms(1,2) by (auto simp: Sync_def Let_def fail_svc_def)
qed

text \<open>What git prints for a changed submodule, and for a changed file named \<open>caf\<close> with an accented
  letter (the bytes 303 and 251 in octal) while \<open>core.quotePath\<close> has its default.\<close>

definition git_project :: "string \<Rightarrow> string \<Rightarrow> project_env" where
  "git_project diff tree = (sample_project ready_files)
     \<lparr>pj_git := (\<lambda>_ args. if hd args = ''diff'' then Inr diff else Inr tree)\<rparr>"

definition submodule_project :: project_env where
  "submodule_project = git_project (''M'' @ [tab] @ ''sub'' @ newline) (''160000 commit abc'' @ [tab] @ ''sub'' @ newline)"

definition quoted_project :: project_env where
  "quoted_project = git_project (''M'' @ [tab, CHR 0x22] @ ''caf'' @ [CHR 0x5C] @ ''303'' @ [CHR 0x5C] @
     ''251.txt'' @ [CHR 0x22] @ newline) ''''"

lemma git_project_no_blob:
  assumes "parseLsTreeHashes tree = Inr []"
  shows "no_blob (git_project diff tree) root p"
  using assms by (auto simp: no_blob_def lookupHashesForRef_def git_project_def)

theorem unhashed_path_fails_sync_witness:
  "(\<exists>e. Sync submodule_project (sample_sync\<lparr>syp_Mode := ''''\<rparr>) db_empty =
      (Inl (syncInternalError ''git_ls_tree'' e), db_empty)) \<and>
   (\<exists>e. Sync quoted_project (sample_sync\<lparr>syp_Mode := ''''\<rparr>) db_empty =
      (Inl (syncInternalError ''git_ls_tree'' e), db_empty))"
proof -
  have mode: "normalizeSyncMode '''' = ''changed''" by code_simp
  have git: "pj_git (git_project diff tree) root [''diff'', ''--name-status'', ''--find-renames'', rng] = Inr diff"
    for diff tree root rng by (simp add: git_project_def)
  have "parseChangedNameStatus (''M'' @ [tab] @ ''sub'' @ newline) =
      Inr [\<lparr> sp_Path = ''sub'', sp_ContentHash = '''', sp_Deleted = False \<rparr>]"
    "parseLsTreeHashes (''160000 commit abc'' @ [tab] @ ''sub'' @ newline) = Inr []" by code_simp+
  then have "\<exists>e. Sync submodule_project (sample_sync\<lparr>syp_Mode := ''''\<rparr>) db_empty =
      (Inl (syncInternalError ''git_ls_tree'' e), db_empty)"
    unfolding submodule_project_def
    by (intro unhashed_path_fails_sync[OF _ refl git]) (auto simp: sample_sync_def mode intro: git_project_no_blob)
  moreover have "parseChangedNameStatus (''M'' @ [tab, CHR 0x22] @ ''caf'' @ [CHR 0x5C] @ ''303'' @ [CHR 0x5C] @
      ''251.txt'' @ [CHR 0x22] @ newline) =
      Inr [\<lparr> sp_Path = CHR 0x22 # ''caf/303/251.txt'' @ [CHR 0x22], sp_ContentHash = '''', sp_Deleted = False \<rparr>]"
    "parseLsTreeHashes '''' = Inr []" by code_simp+
  then have "\<exists>e. Sync quoted_project (sample_sync\<lparr>syp_Mode := ''''\<rparr>) db_empty =
      (Inl (syncInternalError ''git_ls_tree'' e), db_empty)"
    unfolding quoted_project_def
    by (intro unhashed_path_fails_sync[OF _ refl git]) (auto simp: sample_sync_def mode intro: git_project_no_blob)
  ultimately show ?thesis ..
qed

end
