(* ===== verification/Go_Files.thy ===== *)
theory Go_Files
  imports Go_Strings
begin

text \<open>
  The file system below package \<open>os\<close>: a map from canonical paths to files, directories and symbolic
  links, the resolution of a path as the kernel does it, and the calls that the program makes. Every
  call consumes one entry of a fault schedule: it runs, it fails (a write after some of its bytes), or
  the process dies there. Directories have no mode, files no owner. A hard link is a second copy of the
  node, which is exact as long as neither is changed afterwards.
\<close>

section \<open>Nodes and paths\<close>

type_synonym fpath = "string list"

datatype node = FileNode string nat | DirNode | LinkNode string

datatype fault = Fine | Fails nat | Crashes nat

record files =
  fs_nodes :: "(fpath \<times> node) list"
  fs_cwd :: fpath
  fs_random :: nat
  fs_faults :: "fault list"

definition node_at :: "files \<Rightarrow> fpath \<Rightarrow> node option" where
  "node_at s p = (if p = [] then Some DirNode else map_of (fs_nodes s) p)"

definition put_node :: "fpath \<Rightarrow> node \<Rightarrow> files \<Rightarrow> files" where
  "put_node p n s = s\<lparr>fs_nodes := AList.update p n (fs_nodes s)\<rparr>"

definition del_node :: "fpath \<Rightarrow> files \<Rightarrow> files" where
  "del_node p s = s\<lparr>fs_nodes := AList.delete p (fs_nodes s)\<rparr>"

definition path_comps :: "string \<Rightarrow> string list" where
  "path_comps p = filter (\<lambda>w. w \<noteq> '''' \<and> w \<noteq> ''.'') (split_on (CHR ''/'') p)"

text \<open>Where a path leads: to a node, to a name that is free in an existing directory, or nowhere.\<close>

datatype lookup = Found fpath node | Absent fpath | NoParent | NotADir | TooManyLinks

function (sequential) namei ::
  "(fpath \<Rightarrow> node option) \<Rightarrow> bool \<Rightarrow> nat \<Rightarrow> fpath \<Rightarrow> string list \<Rightarrow> lookup" where
  "namei nd follow hops cur [] = Found cur DirNode"
| "namei nd follow hops cur (c # rest) =
     (if c = ''..'' then namei nd follow hops (butlast cur) rest
      else case nd (cur @ [c]) of
        None \<Rightarrow> (if rest = [] then Absent (cur @ [c]) else NoParent)
      | Some (FileNode x m) \<Rightarrow> (if rest = [] then Found (cur @ [c]) (FileNode x m) else NotADir)
      | Some DirNode \<Rightarrow> namei nd follow hops (cur @ [c]) rest
      | Some (LinkNode t) \<Rightarrow>
          (if rest = [] \<and> \<not> follow then Found (cur @ [c]) (LinkNode t)
           else if hops = 0 then TooManyLinks
           else namei nd follow (hops - 1) (if HasPrefix t ''/'' then [] else cur) (path_comps t @ rest)))"
  by pat_completeness auto
termination
  by (relation "measures [\<lambda>(nd, follow, hops, cur, cs). hops, \<lambda>(nd, follow, hops, cur, cs). length cs]") auto

definition lookup_path :: "files \<Rightarrow> bool \<Rightarrow> string \<Rightarrow> lookup" where
  "lookup_path s follow p =
     namei (node_at s) follow 40 (if HasPrefix p ''/'' then [] else fs_cwd s) (path_comps p)"

section \<open>Calls\<close>

datatype os_error = ErrNotExist string | ErrExist string | ErrOther string

primrec os_error_text :: "os_error \<Rightarrow> string" where
  "os_error_text (ErrNotExist msg) = msg"
| "os_error_text (ErrExist msg) = msg"
| "os_error_text (ErrOther msg) = msg"

text \<open>\<open>fmt.Errorf("...: %w", err)\<close>: the kind of the error is kept.\<close>

primrec wrap_os :: "string \<Rightarrow> os_error \<Rightarrow> os_error" where
  "wrap_os pre (ErrNotExist msg) = ErrNotExist (pre @ msg)"
| "wrap_os pre (ErrExist msg) = ErrExist (pre @ msg)"
| "wrap_os pre (ErrOther msg) = ErrOther (pre @ msg)"

datatype 'a outcome = Crashed | Failed os_error | Done 'a

type_synonym 'a fs_op = "files \<Rightarrow> 'a outcome \<times> files"

definition ret_fs :: "'a \<Rightarrow> 'a fs_op" where
  "ret_fs x s = (Done x, s)"

definition fail_fs :: "os_error \<Rightarrow> 'a fs_op" where
  "fail_fs e s = (Failed e, s)"

text \<open>A call whose error the caller looks at; a crash ends everything.\<close>

definition try_fs :: "'a fs_op \<Rightarrow> (os_error + 'a \<Rightarrow> 'b fs_op) \<Rightarrow> 'b fs_op" where
  "try_fs m f s = (case m s of
     (Crashed, s') \<Rightarrow> (Crashed, s')
   | (Failed e, s') \<Rightarrow> f (Inl e) s'
   | (Done x, s') \<Rightarrow> f (Inr x) s')"

definition bind_fs :: "'a fs_op \<Rightarrow> ('a \<Rightarrow> 'b fs_op) \<Rightarrow> 'b fs_op" where
  "bind_fs m f = try_fs m (\<lambda>r. case r of Inl e \<Rightarrow> fail_fs e | Inr x \<Rightarrow> f x)"

definition wrap_fs :: "string \<Rightarrow> 'a fs_op \<Rightarrow> 'a fs_op" where
  "wrap_fs pre m = try_fs m (\<lambda>r. case r of Inl e \<Rightarrow> fail_fs (wrap_os pre e) | Inr x \<Rightarrow> ret_fs x)"

text \<open>A deferred call, whose own error is ignored.\<close>

definition defer_fs :: "'a fs_op \<Rightarrow> 'b fs_op \<Rightarrow> 'a fs_op" where
  "defer_fs m d s = (case m s of
     (Crashed, s') \<Rightarrow> (Crashed, s')
   | (r, s') \<Rightarrow> (case d s' of (Crashed, s'') \<Rightarrow> (Crashed, s'') | (_, s'') \<Rightarrow> (r, s'')))"

definition next_fault :: "files \<Rightarrow> fault \<times> files" where
  "next_fault s = (case fs_faults s of [] \<Rightarrow> (Fine, s) | f # fs \<Rightarrow> (f, s\<lparr>fs_faults := fs\<rparr>))"

definition syscall :: "string \<Rightarrow> (files \<Rightarrow> (os_error + 'a) \<times> files) \<Rightarrow> 'a fs_op" where
  "syscall name act s =
     (case next_fault s of
        (Fine, s') \<Rightarrow> (case act s' of (Inl e, s'') \<Rightarrow> (Failed e, s'') | (Inr x, s'') \<Rightarrow> (Done x, s''))
      | (Fails _, s') \<Rightarrow> (Failed (ErrOther (name @ '': input/output error'')), s')
      | (Crashes _, s') \<Rightarrow> (Crashed, s'))"

definition lookup_error :: "string \<Rightarrow> lookup \<Rightarrow> os_error" where
  "lookup_error name l =
     (case l of
        Found _ _ \<Rightarrow> ErrExist (name @ '': file exists'')
      | Absent _ \<Rightarrow> ErrNotExist (name @ '': no such file or directory'')
      | NoParent \<Rightarrow> ErrNotExist (name @ '': no such file or directory'')
      | NotADir \<Rightarrow> ErrOther (name @ '': not a directory'')
      | TooManyLinks \<Rightarrow> ErrOther (name @ '': too many levels of symbolic links''))"

definition find_node :: "string \<Rightarrow> bool \<Rightarrow> string \<Rightarrow> (fpath \<times> node) fs_op" where
  "find_node verb follow p =
     (let name = verb @ '' '' @ p in
      syscall name (\<lambda>s. case lookup_path s follow p of
        Found q n \<Rightarrow> (Inr (q, n), s) | l \<Rightarrow> (Inl (lookup_error name l), s)))"

definition os_Stat :: "string \<Rightarrow> node fs_op" where
  "os_Stat p = bind_fs (find_node ''stat'' True p) (\<lambda>(_, n). ret_fs n)"

definition os_Lstat :: "string \<Rightarrow> node fs_op" where
  "os_Lstat p = bind_fs (find_node ''lstat'' False p) (\<lambda>(_, n). ret_fs n)"

definition os_Readlink :: "string \<Rightarrow> string fs_op" where
  "os_Readlink p = bind_fs (find_node ''readlink'' False p) (\<lambda>(_, n). case n of
     LinkNode t \<Rightarrow> ret_fs t | _ \<Rightarrow> fail_fs (ErrOther (''readlink '' @ p @ '': invalid argument'')))"

definition os_ReadFile :: "string \<Rightarrow> string fs_op" where
  "os_ReadFile p = bind_fs (find_node ''open'' True p) (\<lambda>(_, n). case n of
     FileNode x _ \<Rightarrow> ret_fs x | _ \<Rightarrow> fail_fs (ErrOther (''read '' @ p @ '': is a directory'')))"

definition os_Mkdir :: "string \<Rightarrow> unit fs_op" where
  "os_Mkdir p =
     (let name = ''mkdir '' @ p in
      syscall name (\<lambda>s. case lookup_path s False p of
        Absent q \<Rightarrow> (Inr (), put_node q DirNode s) | l \<Rightarrow> (Inl (lookup_error name l), s)))"

definition os_Chmod :: "string \<Rightarrow> nat \<Rightarrow> unit fs_op" where
  "os_Chmod p mode =
     (let name = ''chmod '' @ p in
      syscall name (\<lambda>s. case lookup_path s True p of
        Found q (FileNode x _) \<Rightarrow> (Inr (), put_node q (FileNode x (mode mod 512)) s)
      | Found q _ \<Rightarrow> (Inr (), s)
      | l \<Rightarrow> (Inl (lookup_error name l), s)))"

text \<open>A path and its parents, the longest first; \<open>os.MkdirAll\<close> goes up to the first directory that is
  there and then down.\<close>

definition parent_chain :: "string \<Rightarrow> string list" where
  "parent_chain p =
     (let segs = path_segs p;
          rooted = HasPrefix p ''/'' in
      if segs = [] then [path_Clean p]
      else map (\<lambda>n. (if rooted then ''/'' else '''') @ join ''/'' (take n segs))
        (rev [1 ..< Suc (length segs)]))"

fun mkdir_chain :: "string list \<Rightarrow> unit fs_op" where
  "mkdir_chain [] = ret_fs ()"
| "mkdir_chain (p # parents) = try_fs (os_Stat p) (\<lambda>r. case r of
     Inr DirNode \<Rightarrow> ret_fs ()
   | Inr _ \<Rightarrow> fail_fs (ErrOther (''mkdir '' @ p @ '': not a directory''))
   | Inl _ \<Rightarrow> bind_fs (mkdir_chain parents) (\<lambda>_.
       try_fs (os_Mkdir p) (\<lambda>r. case r of
         Inr _ \<Rightarrow> ret_fs ()
       | Inl e \<Rightarrow> try_fs (os_Lstat p) (\<lambda>r. case r of Inr DirNode \<Rightarrow> ret_fs () | _ \<Rightarrow> fail_fs e))))"

definition os_MkdirAll :: "string \<Rightarrow> unit fs_op" where
  "os_MkdirAll p = mkdir_chain (parent_chain p)"

section \<open>Temporary files\<close>

text \<open>\<open>os.CreateTemp\<close> tries names until one is free. The result is the name and the file itself,
  which the open handle refers to.\<close>

definition temp_name :: "string \<Rightarrow> string \<Rightarrow> nat \<Rightarrow> string" where
  "temp_name dir pre n = dir @ ''/'' @ pre @ itoa_nat n"

definition os_CreateTemp :: "string \<Rightarrow> string \<Rightarrow> (string \<times> fpath) fs_op" where
  "os_CreateTemp dir pre =
     (let name = ''open '' @ dir @ ''/'' @ pre in
      syscall name (\<lambda>s.
        let taken = (\<lambda>n. case lookup_path s False (temp_name dir pre n) of Found _ _ \<Rightarrow> True | _ \<Rightarrow> False) in
        case find (\<lambda>n. \<not> taken n) [fs_random s ..< fs_random s + Suc (length (fs_nodes s))] of
          None \<Rightarrow> (Inl (ErrExist (name @ '': file exists'')), s)
        | Some n \<Rightarrow> (case lookup_path s False (temp_name dir pre n) of
            Absent q \<Rightarrow> (Inr (temp_name dir pre n, q), (put_node q (FileNode '''' 384) s)\<lparr>fs_random := Suc n\<rparr>)
          | l \<Rightarrow> (Inl (lookup_error name l), s))))"

definition handle_Chmod :: "fpath \<Rightarrow> nat \<Rightarrow> unit fs_op" where
  "handle_Chmod q mode = syscall ''chmod'' (\<lambda>s. (Inr (), case node_at s q of
     Some (FileNode x _) \<Rightarrow> put_node q (FileNode x (mode mod 512)) s | _ \<Rightarrow> s))"

definition write_bytes :: "fpath \<Rightarrow> string \<Rightarrow> files \<Rightarrow> files" where
  "write_bytes q data s = (case node_at s q of
     Some (FileNode x m) \<Rightarrow> put_node q (FileNode (x @ data) m) s | _ \<Rightarrow> s)"

text \<open>A write that fails, or during which the process dies, has written some prefix of the data.\<close>

definition handle_Write :: "fpath \<Rightarrow> string \<Rightarrow> unit fs_op" where
  "handle_Write q data s =
     (case next_fault s of
        (Fine, s') \<Rightarrow> (Done (), write_bytes q data s')
      | (Fails k, s') \<Rightarrow> (Failed (ErrOther ''write: input/output error''), write_bytes q (take k data) s')
      | (Crashes k, s') \<Rightarrow> (Crashed, write_bytes q (take k data) s'))"

definition handle_Close :: "unit fs_op" where
  "handle_Close = syscall ''close'' (\<lambda>s. (Inr (), s))"

definition rename_node :: "string \<Rightarrow> string \<Rightarrow> string \<Rightarrow> files \<Rightarrow> (os_error + unit) \<times> files" where
  "rename_node name old new s =
     (case lookup_path s False old of
        Found qo n \<Rightarrow> (case lookup_path s False new of
            Found qn DirNode \<Rightarrow> (Inl (ErrExist (name @ '': file exists'')), s)
          | Found qn _ \<Rightarrow> (Inr (), if qn = qo then s else put_node qn n (del_node qo s))
          | Absent qn \<Rightarrow> (Inr (), put_node qn n (del_node qo s))
          | l \<Rightarrow> (Inl (lookup_error name l), s))
      | l \<Rightarrow> (Inl (lookup_error name l), s))"

definition os_Rename :: "string \<Rightarrow> string \<Rightarrow> unit fs_op" where
  "os_Rename old new =
     (let name = ''rename '' @ old @ '' '' @ new in syscall name (rename_node name old new))"

definition link_node :: "string \<Rightarrow> string \<Rightarrow> string \<Rightarrow> files \<Rightarrow> (os_error + unit) \<times> files" where
  "link_node name old new s =
     (case lookup_path s False old of
        Found qo n \<Rightarrow> (case lookup_path s False new of
            Absent qn \<Rightarrow> (Inr (), put_node qn n s)
          | l \<Rightarrow> (Inl (lookup_error name l), s))
      | l \<Rightarrow> (Inl (lookup_error name l), s))"

definition os_Link :: "string \<Rightarrow> string \<Rightarrow> unit fs_op" where
  "os_Link old new =
     (let name = ''link '' @ old @ '' '' @ new in syscall name (link_node name old new))"

definition os_Remove :: "string \<Rightarrow> unit fs_op" where
  "os_Remove p =
     (let name = ''remove '' @ p in
      syscall name (\<lambda>s. case lookup_path s False p of
        Found q DirNode \<Rightarrow> (Inl (ErrOther (name @ '': directory not empty'')), s)
      | Found q _ \<Rightarrow> (Inr (), del_node q s)
      | l \<Rightarrow> (Inl (lookup_error name l), s)))"

lemmas fs_defs = ret_fs_def fail_fs_def try_fs_def bind_fs_def wrap_fs_def defer_fs_def syscall_def

end
