(* ===== verification/Fs_Write.thy ===== *)
theory Fs_Write
  imports Go_Files
begin

text \<open>
  \<open>internal/fswrite/fswrite.go\<close>: writes that replace a file as a whole, through a temporary file in
  its directory, and that follow symbolic links to the file that they name.
\<close>

definition maxSymlinkHops :: nat where "maxSymlinkHops = 40"

text \<open>The loop of \<open>resolveSymlinks\<close>, which looks at one link per round.\<close>

fun resolve_links :: "nat \<Rightarrow> string \<Rightarrow> string fs_op" where
  "resolve_links 0 resolved = fail_fs (ErrOther ''too many levels of symbolic links'')"
| "resolve_links (Suc hops) resolved = try_fs (os_Lstat resolved) (\<lambda>r. case r of
     Inl (ErrNotExist _) \<Rightarrow> ret_fs resolved
   | Inl e \<Rightarrow> fail_fs e
   | Inr (LinkNode _) \<Rightarrow> bind_fs (os_Readlink resolved) (\<lambda>next.
       resolve_links hops
         (if filepath_IsAbs next then next else filepath_Join (path_Dir resolved) next))
   | Inr _ \<Rightarrow> ret_fs resolved)"

definition resolveSymlinks :: "string \<Rightarrow> string fs_op" where
  "resolveSymlinks p = resolve_links maxSymlinkHops p"

text \<open>The temporary file with its mode and content, closed; \<open>target\<close> names it in the errors.\<close>

definition fill_temp :: "string \<Rightarrow> fpath \<Rightarrow> nat \<Rightarrow> string \<Rightarrow> unit fs_op" where
  "fill_temp target q mode data =
     (let step = (\<lambda>verb m rest. try_fs m (\<lambda>r. case r of
            Inl e \<Rightarrow> try_fs handle_Close (\<lambda>_. fail_fs (wrap_os (''fswrite: '' @ verb @ '' temp for '' @ target @ '': '') e))
          | Inr _ \<Rightarrow> rest)) in
      step ''chmod'' (handle_Chmod q mode)
        (step ''write'' (handle_Write q data)
          (wrap_fs (''fswrite: close temp for '' @ target @ '': '') handle_Close)))"

text \<open>What both writers do in the directory of the target: \<open>finish\<close> moves the filled temporary file
  into place, and the deferred call removes it if it is still there.\<close>

definition with_temp ::
  "string \<Rightarrow> nat \<Rightarrow> string \<Rightarrow> (string \<Rightarrow> unit fs_op) \<Rightarrow> unit fs_op" where
  "with_temp target mode data finish =
     (let dir = path_Dir target in
      bind_fs (wrap_fs (''fswrite: create dir for '' @ target @ '': '') (os_MkdirAll dir)) (\<lambda>_.
      bind_fs (wrap_fs (''fswrite: create temp for '' @ target @ '': '')
          (os_CreateTemp dir (path_Base target @ ''.tmp-''))) (\<lambda>(tmpName, q).
      defer_fs (bind_fs (fill_temp target q mode data) (\<lambda>_. finish tmpName)) (os_Remove tmpName))))"

definition node_mode :: "node \<Rightarrow> nat" where
  "node_mode n = (case n of FileNode _ m \<Rightarrow> m | _ \<Rightarrow> 493)"

definition Atomic :: "string \<Rightarrow> string \<Rightarrow> nat \<Rightarrow> unit fs_op" where
  "Atomic p data defaultMode =
     bind_fs (wrap_fs (''fswrite: resolve '' @ p @ '': '') (resolveSymlinks p)) (\<lambda>target.
     try_fs (os_Stat target) (\<lambda>fi.
     let mode = (case fi of Inl _ \<Rightarrow> defaultMode | Inr n \<Rightarrow> node_mode n) in
     with_temp target mode data (\<lambda>tmpName.
       wrap_fs (''fswrite: replace '' @ target @ '': '') (os_Rename tmpName target))))"

definition AtomicNew :: "string \<Rightarrow> string \<Rightarrow> nat \<Rightarrow> unit fs_op" where
  "AtomicNew p data mode =
     bind_fs (wrap_fs (''fswrite: resolve '' @ p @ '': '') (resolveSymlinks p)) (\<lambda>target.
     try_fs (os_Lstat target) (\<lambda>fi. case fi of
       Inr _ \<Rightarrow> fail_fs (ErrExist (''fswrite: create '' @ target @ '': file already exists''))
     | Inl _ \<Rightarrow> with_temp target mode data (\<lambda>tmpName.
         try_fs (os_Link tmpName target) (\<lambda>r. case r of
           Inr _ \<Rightarrow> ret_fs ()
         | Inl (ErrExist _) \<Rightarrow> fail_fs (ErrExist (''fswrite: create '' @ target @ '': file already exists''))
         | Inl e \<Rightarrow> fail_fs (wrap_os (''fswrite: link '' @ target @ '': '') e)))))"

end
