(* ===== verification/Work_Space.thy ===== *)
theory Work_Space
  imports Fs_Write Go_Runes
begin

text \<open>
  The files of \<open>internal/workspace/workspace.go\<close>: the dotenv format and the lines of \<open>.gitignore\<close>.
  The scanner of a dotenv file is exact on lines of less than 64 KiB.
\<close>

section \<open>Quoted text\<close>

text \<open>\<open>strconv.Unquote\<close> of a text in double quotes.\<close>

definition hex_value :: "char \<Rightarrow> nat option" where
  "hex_value c =
     (if is_digit c then Some (byte c - 48)
      else if CHR ''a'' \<le> c \<and> c \<le> CHR ''f'' then Some (byte c - 87)
      else if CHR ''A'' \<le> c \<and> c \<le> CHR ''F'' then Some (byte c - 55) else None)"

fun read_digits :: "(char \<Rightarrow> nat option) \<Rightarrow> nat \<Rightarrow> nat \<Rightarrow> nat \<Rightarrow> string \<Rightarrow> (nat \<times> string) option" where
  "read_digits digit base 0 v s = Some (v, s)"
| "read_digits digit base (Suc k) v [] = None"
| "read_digits digit base (Suc k) v (c # s) =
     (case digit c of None \<Rightarrow> None | Some d \<Rightarrow> read_digits digit base k (base * v + d) s)"

definition octal_digit :: "char \<Rightarrow> nat option" where
  "octal_digit c = (if CHR ''0'' \<le> c \<and> c \<le> CHR ''7'' then Some (byte c - 48) else None)"

definition encode_rune :: "nat \<Rightarrow> string" where
  "encode_rune r =
     (let cont = (\<lambda>n. char_of (128 + n mod 64)) in
      if r < 128 then [char_of r]
      else if r < 2048 then [char_of (192 + r div 64), cont r]
      else if r < 65536 then [char_of (224 + r div 4096), cont (r div 64), cont r]
      else [char_of (240 + r div 262144), cont (r div 4096), cont (r div 64), cont r])"

definition valid_rune :: "nat \<Rightarrow> bool" where
  "valid_rune r \<longleftrightarrow> r < 0xD800 \<or> 0xE000 \<le> r \<and> r \<le> 0x10FFFF"

text \<open>What follows a backslash: the bytes it stands for and the rest.\<close>

definition unquote_escape :: "string \<Rightarrow> (string \<times> string) option" where
  "unquote_escape s =
     (case s of
        [] \<Rightarrow> None
      | c # t \<Rightarrow>
          (let rune = (\<lambda>n. case read_digits hex_value 16 n 0 t of
                 Some (v, u) \<Rightarrow> if valid_rune v then Some (encode_rune v, u) else None | None \<Rightarrow> None) in
           case map_of (zip ''abfnrtv'' [7, 8, 12, 10, 13, 9, 11 :: nat]) c of
             Some b \<Rightarrow> Some ([char_of b], t)
           | None \<Rightarrow>
               if c = CHR 0x5C \<or> c = CHR 0x22 then Some ([c], t)
               else if c = CHR ''x'' then map_option (\<lambda>(v, u). ([char_of v], u)) (read_digits hex_value 16 2 0 t)
               else if c = CHR ''u'' then rune 4
               else if c = CHR ''U'' then rune 8
               else (case read_digits octal_digit 8 3 0 s of
                  Some (v, u) \<Rightarrow> if v < 256 then Some ([char_of v], u) else None | None \<Rightarrow> None)))"

function unquote_chars :: "string \<Rightarrow> string option" where
  "unquote_chars s =
     (case s of
        [] \<Rightarrow> Some []
      | c # t \<Rightarrow>
          if c = CHR 0x22 \<or> c = CHR 0x0A then None
          else if 0x80 \<le> byte c then
            (if valid_width s = 0
             then map_option (append [CHR 0xEF, CHR 0xBF, CHR 0xBD]) (unquote_chars t)
             else map_option (append (take (valid_width s) s)) (unquote_chars (drop (valid_width s) s)))
          else if c \<noteq> CHR 0x5C then map_option (Cons c) (unquote_chars t)
          else (case unquote_escape t of
              None \<Rightarrow> None
            | Some (out, rest) \<Rightarrow>
                if length rest < length s then map_option (append out) (unquote_chars rest) else None))"
  by auto
termination by (relation "measure length") auto

declare unquote_chars.simps [simp del]

definition Unquote :: "string \<Rightarrow> string option" where
  "Unquote s =
     (if 2 \<le> length s \<and> hd s = CHR 0x22 \<and> last s = CHR 0x22 then unquote_chars (butlast (tl s)) else None)"

section \<open>Dotenv\<close>

definition validDotEnvKey :: "string \<Rightarrow> bool" where
  "validDotEnvKey key \<longleftrightarrow> key \<noteq> '''' \<and> list_all (\<lambda>r. r = CHR ''_'' \<or> is_alnum r) key \<and> \<not> is_digit (hd key)"

definition parseDotEnvAssignment :: "string \<Rightarrow> (string \<times> string) option" where
  "parseDotEnvAssignment line =
     (case index_of (CHR ''='') line of
        None \<Rightarrow> None
      | Some index \<Rightarrow>
          (let key = TrimSpace (take index line);
               raw = TrimSpace (drop (Suc index) line);
               inner = butlast (tl raw);
               quoted = (\<lambda>q. 2 \<le> length raw \<and> hd raw = q \<and> last raw = q) in
           if index = 0 \<or> \<not> validDotEnvKey key then None
           else Some (key,
             if quoted (CHR 0x22) then (case Unquote raw of Some v \<Rightarrow> v | None \<Rightarrow> inner)
             else if quoted (CHR 0x27) then inner else raw)))"

text \<open>The lines that \<open>bufio.Scanner\<close> yields: the text after the last newline counts when it is not
  empty. A carriage return at the end of a line is white space for the caller.\<close>

definition scan_lines :: "string \<Rightarrow> string list" where
  "scan_lines s = (let ls = split_on (CHR 0x0A) s in if last ls = '''' then butlast ls else ls)"

definition dotenv_line :: "string \<Rightarrow> (string \<times> string) option" where
  "dotenv_line raw =
     (let line = TrimSpace raw in
      if line = '''' \<or> HasPrefix line ''#'' then None
      else parseDotEnvAssignment
        (if HasPrefix line ''export '' then TrimSpace (drop 7 line) else line))"

definition ParseDotEnv :: "string \<Rightarrow> (string \<times> string) list" where
  "ParseDotEnv raw =
     foldl (\<lambda>parsed line. case dotenv_line line of
         None \<Rightarrow> parsed | Some (key, v) \<Rightarrow> AList.update key v parsed) [] (scan_lines raw)"

section \<open>Lines of a file\<close>

definition normalizeUniqueLines :: "string list \<Rightarrow> string list" where
  "normalizeUniqueLines ls = norm_unique TrimSpace [] ls"

text \<open>The new content: what was there, ended by a newline, and the lines that it does not have.\<close>

definition end_line :: "string \<Rightarrow> string" where
  "end_line raw = (if raw \<noteq> '''' \<and> last raw \<noteq> CHR 0x0A then raw @ [CHR 0x0A] else raw)"

definition missing_lines :: "string \<Rightarrow> string list \<Rightarrow> string list" where
  "missing_lines existing ls =
     filter (\<lambda>l. l \<notin> TrimSpace ` set (split_on (CHR 0x0A) existing)) ls"

definition add_lines :: "string \<Rightarrow> string list \<Rightarrow> string" where
  "add_lines existing ls = end_line existing @ concat (map (\<lambda>l. l @ [CHR 0x0A]) ls)"

text \<open>A read of a file that may be missing.\<close>

definition read_or_empty :: "string \<Rightarrow> string fs_op" where
  "read_or_empty p = try_fs (os_ReadFile p) (\<lambda>r. case r of
     Inr x \<Rightarrow> ret_fs x | Inl (ErrNotExist _) \<Rightarrow> ret_fs '''' | Inl e \<Rightarrow> fail_fs e)"

definition appendUniqueLines :: "string \<Rightarrow> string list \<Rightarrow> unit fs_op" where
  "appendUniqueLines p ls =
     (let normalizedLines = normalizeUniqueLines ls in
      if normalizedLines = [] then ret_fs ()
      else bind_fs (read_or_empty p) (\<lambda>existingRaw.
        let missing = missing_lines existingRaw normalizedLines in
        if missing = [] then ret_fs ()
        else bind_fs (os_MkdirAll (path_Dir p)) (\<lambda>_.
          bind_fs (read_or_empty p) (\<lambda>existing. Atomic p (add_lines existing missing) 420))))"

definition ws_normalizeRelativePath :: "string \<Rightarrow> string" where
  "ws_normalizeRelativePath raw =
     (let trimmed = TrimSpace raw; cleaned = path_Clean trimmed in
      if trimmed = '''' \<or> cleaned = ''.'' then '''' else cleaned)"

definition SQLiteGitIgnoreEntries :: "string \<Rightarrow> string list" where
  "SQLiteGitIgnoreEntries relativePath =
     (let normalized = ws_normalizeRelativePath relativePath in
      if normalized = '''' then [] else [normalized, normalized @ ''-shm'', normalized @ ''-wal''])"

definition EnsureGitIgnoreContains :: "string \<Rightarrow> string list \<Rightarrow> unit fs_op" where
  "EnsureGitIgnoreContains rootPath entries =
     (let root = TrimSpace rootPath in
      if root = '''' then ret_fs () else appendUniqueLines (filepath_Join root ''.gitignore'') entries)"

end
