(* ===== verification/Fs_Frames.thy ===== *)
theory Fs_Frames
  imports Work_Space
begin

text \<open>
  What the calls of the file system change: a call keeps every node that is there, except at the places
  that it names. The frame of an operation is composed of the frames of its calls.
\<close>

section \<open>Frames\<close>

text \<open>\<open>kept W s s'\<close>: outside \<open>W\<close>, what was there is there. No call changes the working directory.\<close>

definition kept :: "fpath set \<Rightarrow> files \<Rightarrow> files \<Rightarrow> bool" where
  "kept W s s' \<longleftrightarrow> fs_cwd s' = fs_cwd s \<and> (\<forall>q n. q \<notin> W \<longrightarrow> node_at s q = Some n \<longrightarrow> node_at s' q = Some n)"

named_theorems kept_intros \<open>frames of file system operations\<close>

lemma kept_refl [simp, kept_intros]: "kept W s s"
  by (simp add: kept_def)

lemma kept_trans: "kept W s s' \<Longrightarrow> kept W s' s'' \<Longrightarrow> kept W s s''"
  by (auto simp: kept_def)

lemma kept_mono: "kept V s s' \<Longrightarrow> V \<subseteq> W \<Longrightarrow> kept W s s'"
  by (auto simp: kept_def)

lemma kept_new: "kept {q} s s' \<Longrightarrow> node_at s q = None \<Longrightarrow> kept {} s s'"
  unfolding kept_def by (metis singletonD option.distinct(1))

lemma kept_drop: "kept (insert q W) s s' \<Longrightarrow> node_at s q = None \<Longrightarrow> kept W s s'"
  unfolding kept_def by (metis insertE option.distinct(1))

text \<open>An operation that keeps everything outside \<open>W\<close> whatever happens to it.\<close>

definition keeps_fs :: "fpath set \<Rightarrow> 'a fs_op \<Rightarrow> bool" where
  "keeps_fs W m \<longleftrightarrow> (\<forall>s. kept W s (snd (m s)))"

lemma keeps_fsD: "keeps_fs W m \<Longrightarrow> m s = (r, s') \<Longrightarrow> kept W s s'"
  by (metis keeps_fs_def snd_conv)

lemma keeps_fs_mono: "keeps_fs V m \<Longrightarrow> V \<subseteq> W \<Longrightarrow> keeps_fs W m"
  by (auto simp: keeps_fs_def intro: kept_mono)

lemma fs_keeps_ret [kept_intros]: "keeps_fs W (ret_fs x)"
  by (simp add: keeps_fs_def ret_fs_def)

lemma fs_keeps_fail [kept_intros]: "keeps_fs W (fail_fs e)"
  by (simp add: keeps_fs_def fail_fs_def)

lemma fs_keeps_try [kept_intros]:
  assumes "keeps_fs W m" "\<And>r. keeps_fs W (f r)"
  shows "keeps_fs W (try_fs m f)"
  unfolding keeps_fs_def
proof
  fix s
  obtain r s1 where m: "m s = (r, s1)" by force
  have "kept W s s1" by (rule keeps_fsD[OF assms(1) m])
  moreover have "kept W s1 (snd (f x s1))" for x using assms(2) by (simp add: keeps_fs_def)
  ultimately show "kept W s (snd (try_fs m f s))"
    using m by (cases r) (auto simp: try_fs_def intro: kept_trans)
qed

lemma fs_keeps_bind [kept_intros]:
  assumes "keeps_fs W m" "\<And>x. keeps_fs W (f x)"
  shows "keeps_fs W (bind_fs m f)"
  unfolding bind_fs_def by (intro fs_keeps_try assms) (auto split: sum.split intro: assms fs_keeps_fail)

lemma keeps_wrap [kept_intros]: "keeps_fs W m \<Longrightarrow> keeps_fs W (wrap_fs pre m)"
  unfolding wrap_fs_def by (intro fs_keeps_try) (auto split: sum.split intro: fs_keeps_fail fs_keeps_ret)

lemma keeps_defer [kept_intros]:
  assumes "keeps_fs W m" "keeps_fs W d"
  shows "keeps_fs W (defer_fs m d)"
  unfolding keeps_fs_def
proof
  fix s
  obtain r s1 where m: "m s = (r, s1)" by force
  obtain r' s2 where d: "d s1 = (r', s2)" by force
  have "kept W s s1" "kept W s s2"
    using keeps_fsD[OF assms(1) m] keeps_fsD[OF assms(2) d] by (auto intro: kept_trans)
  then show "kept W s (snd (defer_fs m d s))"
    using m d by (cases r; cases r') (auto simp: defer_fs_def)
qed

text \<open>Composed operations, by what their first part did.\<close>

lemma runs:
  "m s = (Done x, s1) \<Longrightarrow> try_fs m f s = f (Inr x) s1"
  "m s = (Failed e, s1) \<Longrightarrow> try_fs m f s = f (Inl e) s1"
  "m s = (Crashed, s1) \<Longrightarrow> try_fs m f s = (Crashed, s1)"
  "m s = (Done x, s1) \<Longrightarrow> bind_fs m g s = g x s1"
  "m s = (Failed e, s1) \<Longrightarrow> bind_fs m g s = (Failed e, s1)"
  "m s = (Crashed, s1) \<Longrightarrow> bind_fs m g s = (Crashed, s1)"
  "m s = (Done x, s1) \<Longrightarrow> wrap_fs pre m s = (Done x, s1)"
  "m s = (Failed e, s1) \<Longrightarrow> wrap_fs pre m s = (Failed (wrap_os pre e), s1)"
  "m s = (Crashed, s1) \<Longrightarrow> wrap_fs pre m s = (Crashed, s1)"
  by (simp_all add: fs_defs)

lemma defer_cases:
  assumes "defer_fs m d s = (r, s')" "m s = (r1, s1)"
  shows "r = r1 \<and> (s' = s1 \<and> r1 = Crashed \<or> s' = snd (d s1)) \<or> r = Crashed \<and> s' = snd (d s1)"
  using assms by (cases r1; cases "d s1"; cases "fst (d s1)") (auto simp: defer_fs_def)

section \<open>Nodes\<close>

lemma node_at_faults [simp]: "node_at (s\<lparr>fs_faults := fs\<rparr>) = node_at s" "node_at (s\<lparr>fs_random := k\<rparr>) = node_at s"
  by (auto simp: node_at_def)

lemma node_at_put: "p \<noteq> [] \<Longrightarrow> node_at (put_node p n s) q = (if q = p then Some n else node_at s q)"
  by (auto simp: node_at_def put_node_def update_conv')

lemma node_at_del: "p \<noteq> [] \<Longrightarrow> node_at (del_node p s) q = (if q = p then None else node_at s q)"
  by (auto simp: node_at_def del_node_def delete_conv')

lemma node_at_del_Nil: "node_at (del_node [] s) q = node_at s q"
  by (auto simp: node_at_def del_node_def delete_conv')

lemma kept_put: "kept {p} s (put_node p n s)"
  by (auto simp: kept_def node_at_def put_node_def update_conv')

lemma kept_del: "kept {p} s (del_node p s)"
  by (auto simp: kept_def node_at_def del_node_def delete_conv')

lemma kept_put_new: "node_at s p = None \<Longrightarrow> kept {} s (put_node p n s)"
  by (rule kept_new[OF kept_put])

lemma kept_faults:
  "node_at s1 = node_at s \<Longrightarrow> fs_cwd s1 = fs_cwd s \<Longrightarrow> node_at s2 = node_at s' \<Longrightarrow> fs_cwd s2 = fs_cwd s' \<Longrightarrow>
     kept W s1 s2 = kept W s s'"
  by (simp add: kept_def)

lemma next_fault_nodes: "next_fault s = (f, s') \<Longrightarrow> node_at s' = node_at s \<and> fs_cwd s' = fs_cwd s \<and>
    fs_nodes s' = fs_nodes s \<and> fs_random s' = fs_random s"
  by (auto simp: next_fault_def split: list.splits)

lemma lookup_path_next: "next_fault s = (f, s') \<Longrightarrow> lookup_path s' = lookup_path s"
  using next_fault_nodes[of s] by (intro ext) (simp add: lookup_path_def)

lemma kept_syscall:
  assumes "\<And>u. node_at u = node_at s \<Longrightarrow> fs_cwd u = fs_cwd s \<Longrightarrow> kept W u (snd (act u))"
  shows "kept W s (snd (syscall name act s))"
proof -
  obtain f s1 where f: "next_fault s = (f, s1)" by force
  have same: "node_at s1 = node_at s" "fs_cwd s1 = fs_cwd s" using next_fault_nodes[OF f] by simp_all
  have "kept W s (snd (act s1))" using assms[OF same] same by (simp add: kept_def)
  moreover have "kept W s s1" using same by (simp add: kept_def)
  ultimately show ?thesis
    using f by (cases f; cases "act s1"; cases "fst (act s1)") (auto simp: syscall_def)
qed

lemma keeps_syscall: "(\<And>s. kept W s (snd (act s))) \<Longrightarrow> keeps_fs W (syscall name act)"
  unfolding keeps_fs_def by (blast intro: kept_syscall)

text \<open>What a call that was not stopped did.\<close>

lemma syscall_Done:
  assumes "syscall name act s = (Done x, s')"
  obtains s1 where "act s1 = (Inr x, s')" "node_at s1 = node_at s" "fs_cwd s1 = fs_cwd s"
    "fs_nodes s1 = fs_nodes s" "fs_random s1 = fs_random s" "lookup_path s1 = lookup_path s"
    "fs_faults s = [] \<Longrightarrow> s1 = s"
proof -
  obtain f s1 where f: "next_fault s = (f, s1)" by force
  have "act s1 = (Inr x, s')" using assms f
    by (cases f) (auto simp: syscall_def split: prod.splits sum.splits)
  moreover have "fs_faults s = [] \<Longrightarrow> s1 = s" using f by (simp add: next_fault_def)
  ultimately show ?thesis using that next_fault_nodes[OF f] lookup_path_next[OF f] by blast
qed

lemma syscall_state:
  assumes "syscall name act s = (r, s')"
  obtains (stopped) "node_at s' = node_at s" "fs_cwd s' = fs_cwd s" "\<And>x. r \<noteq> Done x"
  | (ran) u y where "node_at u = node_at s" "fs_cwd u = fs_cwd s" "act u = (y, s')" "\<And>x. r = Done x \<Longrightarrow> y = Inr x"
proof -
  obtain f u where f: "next_fault s = (f, u)" by force
  then have u: "node_at u = node_at s" "fs_cwd u = fs_cwd s" using next_fault_nodes[OF f] by simp_all
  show ?thesis
  proof (cases f)
    case Fine
    then show ?thesis using assms f ran[OF u]
      by (cases "act u"; cases "fst (act u)") (auto simp: syscall_def)
  qed (use assms f u stopped in \<open>auto simp: syscall_def\<close>)
qed

lemma syscall_fine:
  "fs_faults s = [] \<Longrightarrow> syscall name act s =
    (case act s of (Inl e, s') \<Rightarrow> (Failed e, s') | (Inr x, s') \<Rightarrow> (Done x, s'))"
  by (simp add: syscall_def next_fault_def)

section \<open>Resolution of paths\<close>

lemma namei_Absent: "namei nd follow h cur cs = Absent q \<Longrightarrow> nd q = None \<and> q \<noteq> []"
  by (induction nd follow h cur cs rule: namei.induct) (auto split: if_splits option.splits node.splits)

lemma namei_Found:
  "namei nd follow h cur cs = Found q n \<Longrightarrow> n \<noteq> DirNode \<Longrightarrow> nd q = Some n \<and> q \<noteq> []"
  by (induction nd follow h cur cs rule: namei.induct) (auto split: if_splits option.splits node.splits)

lemma lookup_Absent: "lookup_path s follow p = Absent q \<Longrightarrow> node_at s q = None \<and> q \<noteq> []"
  unfolding lookup_path_def by (rule namei_Absent)

lemma lookup_Found: "lookup_path s follow p = Found q n \<Longrightarrow> n \<noteq> DirNode \<Longrightarrow> node_at s q = Some n \<and> q \<noteq> []"
  unfolding lookup_path_def by (rule namei_Found)

text \<open>A free name stays the name of the same place while the rest of the file system is kept or
  turned into plain files.\<close>

lemma namei_Absent_later:
  assumes "namei nd follow h cur cs = Absent q" "\<not> follow"
    "\<And>p n. nd p = Some n \<Longrightarrow> nd' p = Some n \<or> (\<exists>x m. nd' p = Some (FileNode x m))"
  shows "namei nd' follow h cur cs =
    (case nd' q of None \<Rightarrow> Absent q | Some n \<Rightarrow> Found q n) \<or> namei nd' follow h cur cs = NotADir"
  using assms
proof (induction nd follow h cur cs rule: namei.induct)
  case (2 nd follow h cur c rest)
  consider (up) "c = ''..''" | (none) "c \<noteq> ''..''" "nd (cur @ [c]) = None"
    | (there) n where "c \<noteq> ''..''" "nd (cur @ [c]) = Some n" by (cases "nd (cur @ [c])") auto
  then show ?case
  proof cases
    case up
    then show ?thesis using 2 by simp
  next
    case none
    then show ?thesis using 2(4,5) by (auto split: if_splits option.splits node.splits)
  next
    case there
    have "rest \<noteq> []" using 2(4,5) there by (auto split: node.splits if_splits)
    moreover have "nd' (cur @ [c]) = Some n \<or> (\<exists>x m. nd' (cur @ [c]) = Some (FileNode x m))"
      using 2(6)[OF there(2)] .
    ultimately consider "nd' (cur @ [c]) = Some n" | x m where "nd' (cur @ [c]) = Some (FileNode x m)" "rest \<noteq> []"
      by blast
    then show ?thesis
    proof cases
      case 1
      then show ?thesis using 2 there \<open>rest \<noteq> []\<close> by (cases n) (simp_all split: if_splits)
    next
      case 2
      then show ?thesis using there by simp
    qed
  qed
qed simp

text \<open>\<open>names s tmp q\<close>: from \<open>s\<close> on the name leads to \<open>q\<close> or nowhere, as long as nothing but plain files
  takes the place of what is there.\<close>

definition degraded :: "files \<Rightarrow> files \<Rightarrow> bool" where
  "degraded s u \<longleftrightarrow> fs_cwd u = fs_cwd s \<and>
     (\<forall>p n. node_at s p = Some n \<longrightarrow> node_at u p = Some n \<or> (\<exists>x m. node_at u p = Some (FileNode x m)))"

definition names :: "files \<Rightarrow> string \<Rightarrow> fpath \<Rightarrow> bool" where
  "names s tmp q \<longleftrightarrow> (\<forall>u. degraded s u \<longrightarrow>
     lookup_path u False tmp = (case node_at u q of None \<Rightarrow> Absent q | Some n \<Rightarrow> Found q n) \<or>
     lookup_path u False tmp = NotADir)"

lemma kept_degraded: "kept {} s u \<Longrightarrow> degraded s u"
  by (auto simp: kept_def degraded_def)

lemma degraded_same: "degraded s u \<Longrightarrow> node_at v = node_at u \<Longrightarrow> fs_cwd v = fs_cwd u \<Longrightarrow> degraded s v"
  by (simp add: degraded_def)

lemma Absent_names:
  assumes "lookup_path v False tmp = Absent q" "node_at v = node_at s" "fs_cwd v = fs_cwd s"
  shows "names s tmp q"
  unfolding names_def degraded_def
proof (intro allI impI)
  fix u
  assume u: "fs_cwd u = fs_cwd s \<and>
     (\<forall>p n. node_at s p = Some n \<longrightarrow> node_at u p = Some n \<or> (\<exists>x m. node_at u p = Some (FileNode x m)))"
  then have cwd: "fs_cwd u = fs_cwd v" using assms(3) by simp
  show "lookup_path u False tmp = (case node_at u q of None \<Rightarrow> Absent q | Some n \<Rightarrow> Found q n) \<or>
      lookup_path u False tmp = NotADir"
    unfolding lookup_path_def cwd
    by (rule namei_Absent_later[OF assms(1)[unfolded lookup_path_def]]) (use u assms(2) in simp_all)
qed

lemma names_remove:
  assumes "names s tmp q" "degraded s u"
  shows "kept {q} u (snd (os_Remove tmp u))"
proof -
  have "lookup_path v False tmp = (case node_at v q of None \<Rightarrow> Absent q | Some n \<Rightarrow> Found q n) \<or>
      lookup_path v False tmp = NotADir" if "node_at v = node_at u" "fs_cwd v = fs_cwd u" for v
    using assms degraded_same[OF assms(2) that] by (simp add: names_def)
  then show ?thesis
    unfolding os_Remove_def Let_def
    by (intro kept_syscall) (fastforce split: option.split node.split intro: kept_del)
qed

section \<open>Frames of the calls\<close>

lemma keeps_find_node [kept_intros]: "keeps_fs W (find_node verb follow p)"
  unfolding find_node_def Let_def by (rule keeps_syscall) (auto split: lookup.split)

lemma fs_keeps_reads [kept_intros]:
  "keeps_fs W (os_Stat p)" "keeps_fs W (os_Lstat p)" "keeps_fs W (os_Readlink p)" "keeps_fs W (os_ReadFile p)"
  unfolding os_Stat_def os_Lstat_def os_Readlink_def os_ReadFile_def
  by (auto split: prod.split node.split intro!: kept_intros)

lemma keeps_Close [kept_intros]: "keeps_fs W handle_Close"
  unfolding handle_Close_def by (rule keeps_syscall) simp

lemma keeps_Mkdir [kept_intros]: "keeps_fs W (os_Mkdir p)"
  unfolding os_Mkdir_def Let_def
  by (rule keeps_syscall) (auto split: lookup.split dest: lookup_Absent intro: kept_mono[OF kept_put_new])

lemma keeps_mkdir_chain: "keeps_fs W (mkdir_chain ps)"
  by (induction ps) (auto split: sum.split node.split intro!: kept_intros)

lemma keeps_MkdirAll [kept_intros]: "keeps_fs W (os_MkdirAll p)"
  unfolding os_MkdirAll_def by (rule keeps_mkdir_chain)

lemma keeps_resolve_links: "keeps_fs W (resolve_links hops p)"
  by (induction hops arbitrary: p) (auto split: sum.split node.split os_error.split intro!: kept_intros)

lemma keeps_resolveSymlinks [kept_intros]: "keeps_fs W (resolveSymlinks p)"
  unfolding resolveSymlinks_def by (rule keeps_resolve_links)

lemma keeps_handle [kept_intros]: "keeps_fs {q} (handle_Chmod q mode)" "keeps_fs {q} (handle_Write q data)"
proof -
  show "keeps_fs {q} (handle_Chmod q mode)"
    unfolding handle_Chmod_def by (rule keeps_syscall) (auto split: option.split node.split intro: kept_put)
  have "kept {q} s (write_bytes q x u)" if "node_at u = node_at s" "fs_cwd u = fs_cwd s" for s u x
    using kept_put[of q u] that
    by (auto simp: write_bytes_def kept_def split: option.split node.split)
  then show "keeps_fs {q} (handle_Write q data)"
    unfolding keeps_fs_def handle_Write_def
    by (auto dest: next_fault_nodes split: prod.split fault.split)
qed

lemma keeps_fill_temp: "keeps_fs {q} (fill_temp target q mode data)"
  unfolding fill_temp_def Let_def by (auto split: sum.split intro!: kept_intros)

lemma keeps_CreateTemp [kept_intros]: "keeps_fs W (os_CreateTemp dir pre)"
proof -
  have "kept W s (put_node q n s\<lparr>fs_random := k\<rparr>)" if "lookup_path s False p = Absent q" for s q n k p
    using kept_put_new[OF lookup_Absent[OF that, THEN conjunct1], of n] by (auto simp: kept_def)
  then show ?thesis
    unfolding os_CreateTemp_def Let_def
    by (intro keeps_syscall) (auto split: option.split lookup.split)
qed

lemma CreateTemp_Done:
  assumes "os_CreateTemp dir pre s = (Done (tmp, q), s')"
  shows "node_at s q = None" "q \<noteq> []" "node_at s' q = Some (FileNode '''' 384)"
    "\<exists>u. node_at u = node_at s \<and> fs_cwd u = fs_cwd s \<and> lookup_path u False tmp = Absent q"
proof -
  have "\<exists>u. node_at u = node_at s \<and> fs_cwd u = fs_cwd s \<and> lookup_path u False tmp = Absent q \<and>
      (\<exists>k. s' = put_node q (FileNode '''' 384) u\<lparr>fs_random := k\<rparr>)"
    using assms unfolding os_CreateTemp_def Let_def
    by (elim syscall_Done) (simp split: option.splits lookup.splits prod.splits, metis)
  then obtain u where u: "node_at u = node_at s" "fs_cwd u = fs_cwd s"
    "lookup_path u False tmp = Absent q" "\<exists>k. s' = put_node q (FileNode '''' 384) u\<lparr>fs_random := k\<rparr>"
    by blast
  then have q: "node_at u q = None" "q \<noteq> []" using lookup_Absent by blast+
  with u show "node_at s q = None" "q \<noteq> []" "node_at s' q = Some (FileNode '''' 384)"
    by (auto simp: node_at_put)
  show "\<exists>u. node_at u = node_at s \<and> fs_cwd u = fs_cwd s \<and> lookup_path u False tmp = Absent q"
    using u by blast
qed

section \<open>Temporary files\<close>

lemma fill_temp_Done:
  assumes "fill_temp target q mode data s = (Done (), s')" "node_at s q = Some (FileNode '''' m)" "q \<noteq> []"
  shows "node_at s' q = Some (FileNode data (mode mod 512))"
proof -
  obtain s1 s2 where s: "handle_Chmod q mode s = (Done (), s1)" "handle_Write q data s1 = (Done (), s2)"
    "handle_Close s2 = (Done (), s')"
    using assms(1) by (auto simp: fill_temp_def Let_def try_fs_def wrap_fs_def fail_fs_def ret_fs_def
      split: prod.splits outcome.splits)
  have "node_at s1 q = Some (FileNode '''' (mode mod 512))"
    using s(1) assms(2,3) unfolding handle_Chmod_def by (elim syscall_Done) (auto simp: node_at_put)
  then have "node_at s2 q = Some (FileNode data (mode mod 512))"
    using s(2) assms(3) by (auto simp: handle_Write_def write_bytes_def node_at_put
      dest!: next_fault_nodes split: prod.splits fault.splits)
  then show ?thesis using s(3) unfolding handle_Close_def by (elim syscall_Done) simp
qed

text \<open>A write by way of a temporary file stops early, with every node kept, or fills the file at a new
  place and goes on to move it; what it does there is all that can touch what was there before.\<close>

lemma with_temp_cases:
  assumes "with_temp target mode data finish s = (r, s')"
  obtains (early) "kept {} s s'" "r \<noteq> Done ()"
  | (late) s0 s1 tmp q r3 s3 where "kept {} s s0" "kept {} s0 s1" "node_at s0 q = None" "q \<noteq> []"
      "node_at s1 q = Some (FileNode data (mode mod 512))" "finish tmp s1 = (r3, s3)"
      "r = r3 \<or> r = Crashed" "s' = s3 \<or> s' = snd (os_Remove tmp s3)"
      "names s0 tmp q"
proof -
  let ?dir = "path_Dir target" and ?pre = "path_Base target @ ''.tmp-''"
  obtain r0 s0 where mk: "os_MkdirAll ?dir s = (r0, s0)" by force
  have k0: "kept {} s s0" by (rule keeps_fsD[OF keeps_MkdirAll mk])
  obtain r1 s1 where ct: "os_CreateTemp ?dir ?pre s0 = (r1, s1)" by force
  have k1: "kept {} s s1" by (rule kept_trans[OF k0 keeps_fsD[OF keeps_CreateTemp ct]])
  consider (stop) "\<And>x. r0 \<noteq> Done x" | (stop_temp) u where "r0 = Done u" "\<And>x. r1 \<noteq> Done x"
    | (go) u tmp q where "r0 = Done u" "r1 = Done (tmp, q)" by (metis surj_pair)
  then show ?thesis
  proof cases
    case stop
    have "s' = s0 \<and> r \<noteq> Done ()" using assms mk stop by (cases r0) (auto simp: with_temp_def Let_def runs)
    then show ?thesis using k0 early by simp
  next
    case stop_temp
    have "s' = s1 \<and> r \<noteq> Done ()" using assms mk ct stop_temp by (cases r1) (auto simp: with_temp_def Let_def runs)
    then show ?thesis using k1 early by simp
  next
    case go
    from CreateTemp_Done[OF ct[unfolded go]] obtain v where q: "node_at s0 q = None" "q \<noteq> []"
      "node_at s1 q = Some (FileNode '''' 384)" and v: "node_at v = node_at s0" "fs_cwd v = fs_cwd s0"
      "lookup_path v False tmp = Absent q" by blast
    obtain r2 s2 where fill: "fill_temp target q mode data s1 = (r2, s2)" by force
    have "kept {q} s0 s2"
      by (rule kept_trans[OF keeps_fsD[OF keeps_CreateTemp ct] keeps_fsD[OF keeps_fill_temp fill]])
    then have k2: "kept {} s0 s2" by (rule kept_new[OF _ q(1)])
    have rem: "names s0 tmp q" by (rule Absent_names[OF v(3,1,2)])
    have run: "defer_fs (bind_fs (fill_temp target q mode data) (\<lambda>_. finish tmp)) (os_Remove tmp) s1 = (r, s')"
      using assms mk ct go by (simp add: with_temp_def Let_def runs)
    show ?thesis
    proof (cases r2)
      case (Done w)
      obtain r3 s3 where fin: "finish tmp s2 = (r3, s3)" by force
      then have body: "bind_fs (fill_temp target q mode data) (\<lambda>_. finish tmp) s1 = (r3, s3)"
        using fill Done by (simp add: runs)
      have "node_at s2 q = Some (FileNode data (mode mod 512))"
        by (rule fill_temp_Done[OF _ q(3,2)]) (use fill Done in simp)
      then show ?thesis using defer_cases[OF run body] by (intro late[OF k0 k2 q(1,2) _ fin _ _ rem]) auto
    next
      case Crashed
      then have "r = Crashed \<and> s' = s2" using run fill by (simp add: defer_fs_def runs)
      then show ?thesis using early kept_trans[OF k0 k2] by simp
    next
      case (Failed e)
      then have body: "bind_fs (fill_temp target q mode data) (\<lambda>_. finish tmp) s1 = (Failed e, s2)"
        using fill by (simp add: runs)
      then have r: "r \<noteq> Done ()" "s' = snd (os_Remove tmp s2)" using defer_cases[OF run body] by auto
      have "kept {q} s2 s'" unfolding r(2) by (rule names_remove[OF rem kept_degraded[OF k2]])
      then have "kept {q} s0 s'" by (rule kept_trans[OF kept_mono[OF k2], rotated]) simp
      then show ?thesis using r(1) early kept_trans[OF k0 kept_new[OF _ q(1)]] by blast
    qed
  qed
qed

end
