(* ===== verification/Fs_Plain.thy ===== *)
theory Fs_Plain
  imports Fs_Frames
begin

text \<open>
  Absolute paths without links, on a file system where no call fails: where they lead, what their
  directory and last name are, and what the calls of the writers do there.
\<close>

section \<open>Plain paths\<close>

definition abs_path :: "fpath \<Rightarrow> string" where
  "abs_path cs = CHR ''/'' # join ''/'' cs"

text \<open>The directories above the place are there, and the place itself is no link.\<close>

definition reached :: "files \<Rightarrow> fpath \<Rightarrow> bool" where
  "reached s cs \<longleftrightarrow> cs \<noteq> [] \<and> list_all plain_seg cs \<and>
     (\<forall>k. 0 < k \<longrightarrow> k < length cs \<longrightarrow> node_at s (take k cs) = Some DirNode) \<and>
     (\<forall>t. node_at s cs \<noteq> Some (LinkNode t))"

lemma abs_path_rooted [simp]: "HasPrefix (abs_path cs) ''/''"
  by (simp add: abs_path_def)

lemma plain_stack: "list_all plain_seg ws \<Longrightarrow> clean_stack rooted ws"
  by (induction ws) (auto simp: plain_seg_def)

lemma plain_no_slash: "list_all plain_seg cs \<Longrightarrow> w \<in> set cs \<Longrightarrow> CHR ''/'' \<notin> set w \<and> w \<noteq> ''''"
  by (auto simp: list_all_iff plain_seg_def)

lemma path_comps_split:
  assumes "list_all plain_seg cs" "cs \<noteq> []"
  shows "path_comps (abs_path cs) = cs"
proof -
  have "split_on (CHR ''/'') (join ''/'' cs) = cs"
    using split_join[OF assms(2)] plain_no_slash[OF assms(1)] by simp
  moreover have "filter (\<lambda>w. w \<noteq> '''' \<and> w \<noteq> ''.'') cs = cs"
    using assms(1) by (auto simp: list_all_iff plain_seg_def intro: filter_True)
  ultimately show ?thesis by (simp add: path_comps_def abs_path_def)
qed

lemma namei_plain:
  assumes "list_all plain_seg cs" "cs \<noteq> []"
    "\<And>k. 0 < k \<Longrightarrow> k < length cs \<Longrightarrow> nd (cur @ take k cs) = Some DirNode"
    "\<And>t. nd (cur @ cs) \<noteq> Some (LinkNode t)"
  shows "namei nd follow h cur cs =
    (case nd (cur @ cs) of None \<Rightarrow> Absent (cur @ cs) | Some n \<Rightarrow> Found (cur @ cs) n)"
  using assms
proof (induction cs arbitrary: cur)
  case (Cons c cs)
  have c: "c \<noteq> ''..''" using Cons.prems(1) by (simp add: plain_seg_def)
  show ?case
  proof (cases "cs = []")
    case True
    then show ?thesis
      using c Cons.prems(4) by (auto split: option.split node.split)
  next
    case False
    then have "nd (cur @ [c]) = Some DirNode" using Cons.prems(3)[of 1] by simp
    moreover have "namei nd follow h (cur @ [c]) cs =
        (case nd ((cur @ [c]) @ cs) of None \<Rightarrow> Absent ((cur @ [c]) @ cs) | Some n \<Rightarrow> Found ((cur @ [c]) @ cs) n)"
    proof (rule Cons.IH)
      fix k :: nat
      assume "0 < k" "k < length cs"
      then show "nd ((cur @ [c]) @ take k cs) = Some DirNode" using Cons.prems(3)[of "Suc k"] by simp
    qed (use Cons.prems False in auto)
    ultimately show ?thesis using c by (simp split: option.split)
  qed
qed simp

lemma reached_comps:
  assumes "reached s cs" "HasPrefix p ''/''" "path_comps p = cs"
  shows "lookup_path s follow p = (case node_at s cs of None \<Rightarrow> Absent cs | Some n \<Rightarrow> Found cs n)"
  using namei_plain[of cs "node_at s" "[]"] assms
  by (simp add: lookup_path_def reached_def split: option.split)

lemma lookup_reached:
  "reached s cs \<Longrightarrow> lookup_path s follow (abs_path cs) = (case node_at s cs of None \<Rightarrow> Absent cs | Some n \<Rightarrow> Found cs n)"
  by (rule reached_comps) (auto simp: reached_def path_comps_split)

section \<open>Directory and last name\<close>

lemma join_snoc: "ws \<noteq> [] \<Longrightarrow> join sep (ws @ [w]) = join sep ws @ sep @ w"
proof (induction ws)
  case (Cons v ws)
  then show ?case by (cases "ws = []") (simp_all add: join_Cons)
qed simp

lemma abs_path_snoc: "abs_path (ds @ [b]) = (if ds = [] then ''/'' else abs_path ds @ ''/'') @ b"
  by (simp add: abs_path_def join_snoc)

lemma drop_last_name:
  "CHR ''/'' \<notin> set b \<Longrightarrow> dropWhile (\<lambda>c. c \<noteq> CHR ''/'') (rev (x @ CHR ''/'' # b)) = CHR ''/'' # rev x"
proof -
  assume "CHR ''/'' \<notin> set b"
  then have "dropWhile (\<lambda>c. c \<noteq> CHR ''/'') (rev b @ (CHR ''/'' # rev x)) =
      dropWhile (\<lambda>c. c \<noteq> CHR ''/'') (CHR ''/'' # rev x)"
    by (intro dropWhile_append2) auto
  then show ?thesis by simp
qed

lemma path_Dir_plain:
  assumes "list_all plain_seg (ds @ [b])"
  shows "path_Dir (abs_path (ds @ [b])) = abs_path ds"
proof -
  have b: "CHR ''/'' \<notin> set b" using assms by (simp add: plain_seg_def)
  have st: "clean_stack True (rev ds)" using assms by (intro plain_stack) (simp add: list_all_iff)
  show ?thesis
  proof (cases "ds = []")
    case True
    then show ?thesis using drop_last_name[OF b, of "[]"]
      by (simp add: path_Dir_def abs_path_def path_Clean_def path_segs_def clean_step_def)
  next
    case False
    have "rev (dropWhile (\<lambda>c. c \<noteq> CHR ''/'') (rev (abs_path (ds @ [b])))) = abs_path ds @ ''/''"
      using drop_last_name[OF b, of "abs_path ds"] False by (simp add: abs_path_snoc)
    moreover have "path_Clean (abs_path ds @ ''/'') = abs_path ds"
    proof -
      have mem: "\<forall>w \<in> set (ds @ [[]]). CHR ''/'' \<notin> set w" using assms by (auto simp: list_all_iff plain_seg_def)
      have "split_on (CHR ''/'') (join ''/'' (ds @ [[]])) = ds @ [[]]" by (rule split_join[OF _ mem]) simp
      then have "split_on (CHR ''/'') (abs_path ds @ ''/'') = [] # ds @ [[]]"
        using False by (simp add: abs_path_def join_snoc)
      then have "path_segs (abs_path ds @ ''/'') = ds"
        using foldl_clean_rev[OF st] by (simp add: path_segs_def clean_step_def abs_path_def)
      then show ?thesis by (simp add: path_Clean_def abs_path_def)
    qed
    ultimately show ?thesis by (simp add: path_Dir_def)
  qed
qed

lemma path_Base_plain:
  assumes "list_all plain_seg (ds @ [b])"
  shows "path_Base (abs_path (ds @ [b])) = b"
proof -
  have b: "CHR ''/'' \<notin> set b" "b \<noteq> []" using assms by (auto simp: plain_seg_def)
  let ?p = "abs_path (ds @ [b])"
  obtain x where x: "?p = x @ CHR ''/'' # b"
  proof
    show "?p = (if ds = [] then [] else abs_path ds) @ CHR ''/'' # b" by (simp add: abs_path_snoc)
  qed
  have "last ?p = last b" "?p \<noteq> []" using x b(2) by auto
  moreover have "last b \<noteq> CHR ''/''" using b by (metis last_in_set)
  ultimately have "rev (dropWhile (\<lambda>c. c = CHR ''/'') (rev ?p)) = ?p"
    by (cases ?p rule: rev_cases) auto
  moreover have "split_on (CHR ''/'') ?p = [] # ds @ [b]"
  proof -
    have "split_on (CHR ''/'') (join ''/'' (ds @ [b])) = ds @ [b]"
      by (rule split_join) (use assms in \<open>auto simp: list_all_iff plain_seg_def\<close>)
    then show ?thesis by (simp add: abs_path_def)
  qed
  ultimately show ?thesis using \<open>?p \<noteq> []\<close> by (simp add: path_Base_def Let_def)
qed

lemma itoa_nat_no_slash: "CHR ''/'' \<notin> set (itoa_nat n)"
proof (induction n rule: itoa_nat.induct)
  case (1 n)
  have "CHR ''/'' \<noteq> digit_char k" if "k < 10" for k
  proof
    assume "CHR ''/'' = digit_char k"
    then have "of_char (CHR ''/'') = (of_char (digit_char k) :: nat)" by simp
    then show False using that by (simp add: digit_char_def)
  qed
  then show ?case using 1 by (subst itoa_nat.simps) simp
qed

lemma path_comps_temp:
  assumes "list_all plain_seg (ds @ [b])"
  shows "path_comps (temp_name (abs_path ds) (b @ ''.tmp-'') n) = ds @ [b @ ''.tmp-'' @ itoa_nat n]"
proof -
  let ?t = "b @ ''.tmp-'' @ itoa_nat n"
  have digits: "CHR ''/'' \<notin> set (itoa_nat n)" by (rule itoa_nat_no_slash)
  have plain: "list_all plain_seg (ds @ [?t])"
    using assms digits by (auto simp: plain_seg_def)
  show ?thesis
  proof (cases "ds = []")
    case True
    then show ?thesis using path_comps_split[OF plain] by (simp add: temp_name_def abs_path_def path_comps_def)
  next
    case False
    have "temp_name (abs_path ds) (b @ ''.tmp-'') n = abs_path (ds @ [?t])"
      using False by (simp add: temp_name_def abs_path_snoc)
    then show ?thesis using path_comps_split[OF plain] by simp
  qed
qed

section \<open>Calls that succeed\<close>

text \<open>The same files with the same working directory; no call fails.\<close>

definition healthy :: "files \<Rightarrow> bool" where
  "healthy s \<longleftrightarrow> fs_faults s = []"

lemma find_node_reached:
  assumes "healthy s" "reached s cs"
  shows "find_node verb follow (abs_path cs) s = (case node_at s cs of
      None \<Rightarrow> (Failed (ErrNotExist (verb @ '' '' @ abs_path cs @ '': no such file or directory'')), s)
    | Some n \<Rightarrow> (Done (cs, n), s))"
  using assms lookup_reached[OF assms(2), of follow]
  by (simp add: find_node_def Let_def syscall_fine healthy_def lookup_error_def split: option.split)

lemma reads_reached:
  assumes "healthy s" "reached s cs"
  shows "os_Lstat (abs_path cs) s = (case node_at s cs of
      None \<Rightarrow> (Failed (ErrNotExist (''lstat '' @ abs_path cs @ '': no such file or directory'')), s)
    | Some n \<Rightarrow> (Done n, s))"
    "os_Stat (abs_path cs) s = (case node_at s cs of
      None \<Rightarrow> (Failed (ErrNotExist (''stat '' @ abs_path cs @ '': no such file or directory'')), s)
    | Some n \<Rightarrow> (Done n, s))"
  using find_node_reached[OF assms]
  by (simp_all add: os_Lstat_def os_Stat_def fs_defs split: option.split)

lemma resolve_reached:
  assumes "healthy s" "reached s cs"
  shows "resolveSymlinks (abs_path cs) s = (Done (abs_path cs), s)"
proof -
  have hops: "maxSymlinkHops = Suc 39" by (simp add: maxSymlinkHops_def)
  have "\<And>t. node_at s cs \<noteq> Some (LinkNode t)" using assms(2) by (simp add: reached_def)
  then show ?thesis
    unfolding resolveSymlinks_def hops resolve_links.simps
    using reads_reached(1)[OF assms]
    by (cases "node_at s cs"; cases "the (node_at s cs)") (auto simp: try_fs_def ret_fs_def)
qed

lemma reached_parent: "reached s (ds @ [b]) \<Longrightarrow> ds \<noteq> [] \<Longrightarrow> reached s ds \<and> node_at s ds = Some DirNode"
proof -
  assume r: "reached s (ds @ [b])" and ds: "ds \<noteq> []"
  have take: "node_at s (take k ds) = Some DirNode" if "0 < k" "k \<le> length ds" for k
  proof -
    have "k < length (ds @ [b])" "take k (ds @ [b]) = take k ds" using that by simp_all
    then show ?thesis using r that(1) unfolding reached_def by metis
  qed
  then have "node_at s ds = Some DirNode" using ds by (metis length_greater_0_conv order_refl take_all)
  then show ?thesis using r ds take by (auto simp: reached_def)
qed

lemma MkdirAll_there:
  assumes "healthy s" "reached s (ds @ [b])"
  shows "os_MkdirAll (abs_path ds) s = (Done (), s)"
proof -
  have segs: "path_segs (abs_path ds) = ds"
    unfolding abs_path_def
    by (rule path_segs_join_rooted, rule plain_stack) (use assms(2) in \<open>simp add: reached_def list_all_iff\<close>)
  have hd: "\<exists>ps. parent_chain (abs_path ds) = abs_path ds # ps"
  proof (cases "ds = []")
    case True
    then show ?thesis using segs by (simp add: parent_chain_def Let_def path_Clean_def abs_path_def)
  next
    case False
    have "[1 ..< Suc (length ds)] = [1 ..< length ds] @ [length ds]"
      using False by (simp add: Suc_leI)
    then show ?thesis using segs False by (simp add: parent_chain_def Let_def abs_path_def)
  qed
  have "os_Stat (abs_path ds) s = (Done DirNode, s)"
  proof (cases "ds = []")
    case True
    have "path_comps (abs_path []) = []" by (simp add: path_comps_def abs_path_def)
    then have "lookup_path s True (abs_path []) = Found [] DirNode" by (simp add: lookup_path_def)
    then show ?thesis
      using True assms(1) by (simp add: os_Stat_def find_node_def Let_def syscall_fine healthy_def fs_defs(3,4) ret_fs_def)
  next
    case False
    then show ?thesis using reads_reached(2)[OF assms(1)] reached_parent[OF assms(2)] by simp
  qed
  then show ?thesis using hd by (auto simp: os_MkdirAll_def runs ret_fs_def)
qed

text \<open>The name of the temporary file is free, and its place is next to the file.\<close>

definition temp_place :: "files \<Rightarrow> fpath \<Rightarrow> fpath" where
  "temp_place s cs = butlast cs @ [last cs @ ''.tmp-'' @ itoa_nat (fs_random s)]"

lemma reached_put: "q \<noteq> [] \<Longrightarrow> node_at s q = None \<Longrightarrow> reached s cs \<Longrightarrow> reached (put_node q (FileNode x m) s) cs"
  by (auto simp: reached_def node_at_put)

lemma temp_reached:
  assumes "reached s (ds @ [b])"
  shows "list_all plain_seg (temp_place s (ds @ [b]))"
  using assms itoa_nat_no_slash by (auto simp: reached_def temp_place_def plain_seg_def)

lemma CreateTemp_there:
  assumes "healthy s" "reached s (ds @ [b])" "node_at s (temp_place s (ds @ [b])) = None"
  shows "os_CreateTemp (abs_path ds) (b @ ''.tmp-'') s =
    (Done (temp_name (abs_path ds) (b @ ''.tmp-'') (fs_random s), temp_place s (ds @ [b])),
     (put_node (temp_place s (ds @ [b])) (FileNode '''' 384) s)\<lparr>fs_random := Suc (fs_random s)\<rparr>)"
proof -
  let ?q = "temp_place s (ds @ [b])" and ?name = "temp_name (abs_path ds) (b @ ''.tmp-'')"
  have comps: "path_comps (?name (fs_random s)) = ?q"
    using path_comps_temp[of ds b] assms(2) by (simp add: reached_def temp_place_def)
  have len: "k < length ?q \<longleftrightarrow> k < length (ds @ [b])" for k by (simp add: temp_place_def)
  have tk: "take k ?q = take k (ds @ [b])" if "k < length (ds @ [b])" for k
    using that by (simp add: temp_place_def)
  have "reached s ?q"
    using assms(2,3) temp_reached[OF assms(2)] tk unfolding reached_def len
    by (auto simp: temp_place_def)
  moreover have "HasPrefix (?name (fs_random s)) ''/''" by (simp add: temp_name_def abs_path_def)
  ultimately have l: "lookup_path s False (?name (fs_random s)) = Absent ?q"
    using reached_comps[OF _ _ comps] assms(3) by simp
  obtain ns where r: "[fs_random s ..< fs_random s + Suc (length (fs_nodes s))] = fs_random s # ns"
    using upt_conv_Cons[of "fs_random s" "fs_random s + Suc (length (fs_nodes s))"] by simp
  then have r': "[fs_random s ..< fs_random s + length (fs_nodes s)] @ [fs_random s + length (fs_nodes s)] =
      fs_random s # ns" by simp
  show ?thesis
    using assms(1) unfolding os_CreateTemp_def Let_def
    by (simp add: l syscall_fine healthy_def r')
qed

section \<open>A write on a healthy file system\<close>

lemma node_at_temp_put [simp]: "node_at (s\<lparr>fs_random := k\<rparr>) = node_at s" "healthy (s\<lparr>fs_random := k\<rparr>) = healthy s"
  "healthy (put_node q n s) = healthy s" "healthy (del_node q s) = healthy s"
  by (auto simp: node_at_def healthy_def put_node_def del_node_def)

lemma fill_temp_there:
  assumes "healthy s" "node_at s q = Some (FileNode '''' m0)" "q \<noteq> []"
  obtains s' where "fill_temp target q mode data s = (Done (), s')" "healthy s'"
    "\<And>p. node_at s' p = (if p = q then Some (FileNode data (mode mod 512)) else node_at s p)" "fs_cwd s' = fs_cwd s"
proof -
  define s1 where "s1 = put_node q (FileNode '''' (mode mod 512)) s"
  define s2 where "s2 = put_node q (FileNode data (mode mod 512)) s1"
  have h: "healthy s1" "healthy s2" using assms(1) by (simp_all add: s1_def s2_def)
  have "handle_Chmod q mode s = (Done (), s1)"
    using assms by (simp add: handle_Chmod_def syscall_fine healthy_def s1_def)
  moreover have "handle_Write q data s1 = (Done (), s2)"
    using h(1) assms(3)
    by (simp add: handle_Write_def next_fault_def healthy_def write_bytes_def s2_def node_at_put[of q] s1_def)
  moreover have "handle_Close s2 = (Done (), s2)"
    using h(2) by (simp add: handle_Close_def syscall_fine healthy_def)
  ultimately have "fill_temp target q mode data s = (Done (), s2)" by (simp add: fill_temp_def Let_def runs)
  moreover have "\<And>p. node_at s2 p = (if p = q then Some (FileNode data (mode mod 512)) else node_at s p)"
    "fs_cwd s2 = fs_cwd s"
    using assms(3) by (simp_all add: s2_def s1_def node_at_put) (simp add: put_node_def)
  ultimately show ?thesis using that h(2) by blast
qed

lemma reached_same: "node_at s' = node_at s \<Longrightarrow> reached s' cs = reached s cs"
  by (simp add: reached_def)

lemma Atomic_there:
  assumes "healthy s" "reached s (ds @ [b])" "node_at s (temp_place s (ds @ [b])) = None"
    "node_at s (ds @ [b]) \<noteq> Some DirNode"
  obtains s' where "Atomic (abs_path (ds @ [b])) data mode s = (Done (), s')" "healthy s'"
    "\<And>p. node_at s' p = (if p = ds @ [b]
       then Some (FileNode data ((case node_at s (ds @ [b]) of None \<Rightarrow> mode | Some n \<Rightarrow> node_mode n) mod 512))
       else node_at s p)"
proof -
  let ?cs = "ds @ [b]" and ?q = "temp_place s (ds @ [b])"
  let ?tmp = "temp_name (abs_path ds) (b @ ''.tmp-'') (fs_random s)"
  define md where "md = (case node_at s ?cs of None \<Rightarrow> mode | Some n \<Rightarrow> node_mode n)"
  have plain: "list_all plain_seg ?cs" using assms(2) by (simp add: reached_def)
  define s1 where "s1 = (put_node ?q (FileNode '''' 384) s)\<lparr>fs_random := Suc (fs_random s)\<rparr>"
  have q: "?q \<noteq> []" "?q \<noteq> ?cs" by (simp_all add: temp_place_def)
  have n1: "node_at s1 p = (if p = ?q then Some (FileNode '''' 384) else node_at s p)" for p
    using q(1) by (simp add: s1_def node_at_put)
  have h1: "healthy s1" using assms(1) by (simp add: s1_def)
  obtain s2 where fill: "fill_temp (abs_path ?cs) ?q md data s1 = (Done (), s2)" and h2: "healthy s2"
    and n2: "\<And>p. node_at s2 p = (if p = ?q then Some (FileNode data (md mod 512)) else node_at s1 p)"
  proof -
    have "node_at s1 ?q = Some (FileNode '''' 384)" using n1[of ?q] by simp
    from fill_temp_there[OF h1 this q(1), of "abs_path ?cs" md data] show ?thesis using that by blast
  qed
  have n2': "node_at s2 p = (if p = ?q then Some (FileNode data (md mod 512)) else node_at s p)" for p
    using n1 n2 by simp
  have tk: "take k ?q = take k ?cs" if "k < length ?cs" for k using that by (simp add: temp_place_def)
  have off: "take k ?cs \<noteq> ?q" if "k < length ?cs" for k
  proof
    assume "take k ?cs = ?q"
    then have "length (take k ?cs) = length ?q" by simp
    then show False using that by (simp add: temp_place_def)
  qed
  have off': "take k ds \<noteq> ?cs" for k
  proof
    assume "take k ds = ?cs"
    then have "length (take k ds) = length ?cs" by simp
    then show False by simp
  qed
  have r2: "reached s2 ?cs" "reached s2 ?q"
    using assms(2) q tk off temp_reached[OF assms(2)] unfolding reached_def n2'
    by (auto simp: temp_place_def)
  have comps: "path_comps ?tmp = ?q" "HasPrefix ?tmp ''/''"
    using path_comps_temp[OF plain] by (simp_all add: temp_place_def temp_name_def abs_path_def)
  have tmp2: "lookup_path s2 False ?tmp = Found ?q (FileNode data (md mod 512))"
    using reached_comps[OF r2(2) comps(2,1)] by (simp add: n2')
  define s3 where "s3 = put_node ?cs (FileNode data (md mod 512)) (del_node ?q s2)"
  have "node_at s2 ?cs = node_at s ?cs" using q(2) by (simp add: n2')
  then have move: "os_Rename ?tmp (abs_path ?cs) s2 = (Done (), s3)"
    using h2 assms(2,4) q(2) tmp2 lookup_reached[OF r2(1), of False]
    by (auto simp: os_Rename_def Let_def syscall_fine healthy_def rename_node_def s3_def reached_def
      split: option.split node.split)
  have n3: "node_at s3 p = (if p = ?cs then Some (FileNode data (md mod 512)) else if p = ?q then None else node_at s p)" for p
    using q by (simp add: s3_def node_at_put node_at_del n2')
  have h3: "healthy s3" using h2 by (simp add: s3_def)
  have r3: "reached s3 ?q"
    using assms(2) q tk off off' temp_reached[OF assms(2)] unfolding reached_def n3
    by (auto simp: temp_place_def)
  have gone: "snd (os_Remove ?tmp s3) = s3" "fst (os_Remove ?tmp s3) \<noteq> Crashed"
    using h3 reached_comps[OF r3 comps(2,1), of False] q(2)
    by (simp_all add: os_Remove_def Let_def syscall_fine healthy_def n3)
  have body: "bind_fs (fill_temp (abs_path ?cs) ?q md data) (\<lambda>_. wrap_fs pre (os_Rename ?tmp (abs_path ?cs))) s1 =
      (Done (), s3)" for pre
    using fill move by (simp add: runs)
  have "defer_fs (bind_fs (fill_temp (abs_path ?cs) ?q md data) (\<lambda>_. wrap_fs pre (os_Rename ?tmp (abs_path ?cs))))
      (os_Remove ?tmp) s1 = (Done (), s3)" for pre
    using body[of pre] gone by (cases "os_Remove ?tmp s3"; cases "fst (os_Remove ?tmp s3)") (simp_all add: defer_fs_def)
  then have "with_temp (abs_path ?cs) md data (\<lambda>tmp. wrap_fs pre (os_Rename tmp (abs_path ?cs))) s = (Done (), s3)" for pre
    using MkdirAll_there[OF assms(1,2)] CreateTemp_there[OF assms(1,2,3)] path_Dir_plain[OF plain] path_Base_plain[OF plain]
    by (simp add: with_temp_def Let_def runs s1_def)
  then have "Atomic (abs_path ?cs) data mode s = (Done (), s3)"
    using resolve_reached[OF assms(1,2)] reads_reached(2)[OF assms(1,2)]
    by (cases "node_at s ?cs") (simp_all add: Atomic_def runs Let_def md_def)
  moreover have "node_at s3 p = (if p = ?cs then Some (FileNode data (md mod 512)) else node_at s p)" for p
    using n3 assms(3) by simp
  ultimately show ?thesis using that h3 unfolding md_def by blast
qed

end
