(* ===== verification/Fs_Properties.thy ===== *)
theory Fs_Properties
  imports Fs_Plain
begin

text \<open>
  What the writers of \<open>fswrite.go\<close> promise: whatever call fails and wherever the process dies, at most
  one existing file changes, and as a whole; and what a write on a healthy file system does. Links are
  resolved by name, not as the kernel does it, so a link inside a linked directory is missed.
\<close>

section \<open>Moving the temporary file\<close>

lemma rename_node_result:
  assumes "rename_node name tmp target u = (y, s')" "lookup_path u False tmp = Found q n" "node_at u q \<noteq> None"
  shows "s' = u \<or> (\<exists>t. t \<noteq> [] \<and> t \<noteq> q \<and> s' = put_node t n (del_node q u))"
proof (cases "lookup_path u False target")
  case (Found t k)
  then show ?thesis using assms(1,2) lookup_Found[OF Found]
    by (cases k) (auto simp: rename_node_def split: if_splits)
next
  case (Absent t)
  then have "node_at u t = None" "t \<noteq> []" using lookup_Absent by blast+
  moreover from this have "t \<noteq> q" using assms(3) by auto
  ultimately show ?thesis using assms(1,2) Absent by (auto simp: rename_node_def)
qed (use assms(1,2) in \<open>auto simp: rename_node_def\<close>)

lemma link_node_frame: "kept {} u (snd (link_node name tmp target u))"
  by (auto simp: link_node_def split: lookup.split dest: lookup_Absent intro: kept_put_new)

lemma rename_temp:
  assumes "os_Rename tmp target s1 = (r, s')" "names s0 tmp q" "kept {} s0 s1" "q \<noteq> []"
    "node_at s1 q = Some (FileNode data m)"
  shows "\<exists>t. t \<noteq> [] \<and> kept {q, t} s1 s' \<and> (node_at s' t = node_at s1 t \<or> node_at s' t = Some (FileNode data m))"
  using assms(1) unfolding os_Rename_def Let_def
proof (cases rule: syscall_state)
  case stopped
  then show ?thesis by (intro exI[of _ q]) (auto simp: kept_def assms(4))
next
  case (ran u y)
  have "degraded s0 u" using degraded_same[OF kept_degraded[OF assms(3)] ran(1,2)] .
  then consider "lookup_path u False tmp = NotADir" | "lookup_path u False tmp = Found q (FileNode data m)"
    using assms(2,5) ran(1) by (fastforce simp: names_def)
  then show ?thesis
  proof cases
    case 1
    then have "s' = u" using ran(3) by (simp add: rename_node_def)
    then show ?thesis using ran(1,2) by (intro exI[of _ q]) (auto simp: kept_def assms(4))
  next
    case 2
    have "node_at u q \<noteq> None" using assms(5) ran(1) by simp
    from rename_node_result[OF ran(3) 2 this] consider (same) "s' = u"
      | (moved) t where "t \<noteq> []" "t \<noteq> q" "s' = put_node t (FileNode data m) (del_node q u)" by blast
    then show ?thesis
    proof cases
      case same
      then show ?thesis using ran(1,2) by (intro exI[of _ q]) (auto simp: kept_def assms(4))
    next
      case moved
      have "fs_cwd s' = fs_cwd s1" using moved(3) ran(2) by (simp add: put_node_def del_node_def)
      then show ?thesis
        using moved ran(1) assms(4) by (intro exI[of _ t]) (auto simp: kept_def node_at_put node_at_del)
    qed
  qed
qed

lemma link_temp:
  assumes "os_Link tmp target s1 = (r, s')" "names s0 tmp q" "kept {} s0 s1"
    "node_at s1 q = Some (FileNode data m)"
  shows "kept {} s1 s'" "r = Done () \<Longrightarrow> \<exists>t. node_at s1 t = None \<and> node_at s' t = Some (FileNode data m)"
proof -
  show "kept {} s1 s'"
    using assms(1) unfolding os_Link_def Let_def by (rule keeps_fsD[OF keeps_syscall[OF link_node_frame]])
  assume "r = Done ()"
  show "\<exists>t. node_at s1 t = None \<and> node_at s' t = Some (FileNode data m)"
    using assms(1) unfolding os_Link_def Let_def
  proof (cases rule: syscall_state)
    case (ran u y)
    have "degraded s0 u" using degraded_same[OF kept_degraded[OF assms(3)] ran(1,2)] .
    then have "lookup_path u False tmp = NotADir \<or> lookup_path u False tmp = Found q (FileNode data m)"
      using assms(2,4) ran(1) by (fastforce simp: names_def)
    then obtain t where "lookup_path u False target = Absent t" "s' = put_node t (FileNode data m) u"
      using ran(3,4) \<open>r = Done ()\<close> by (auto simp: link_node_def split: lookup.splits)
    then show ?thesis using lookup_Absent ran(1) by (metis node_at_put)
  qed (use \<open>r = Done ()\<close> in simp)
qed

section \<open>Every existing file is the old one or the new one\<close>

text \<open>\<open>whole data s s'\<close>: at most one existing node has changed, and into a file with all of the data.\<close>

definition whole :: "string \<Rightarrow> files \<Rightarrow> files \<Rightarrow> bool" where
  "whole data s s' \<longleftrightarrow> (\<exists>t. kept {t} s s' \<and>
     (node_at s t = None \<or> node_at s' t = node_at s t \<or> (\<exists>m. node_at s' t = Some (FileNode data m))))"

lemma kept_whole: "kept {} s s' \<Longrightarrow> whole data s s'"
  unfolding whole_def kept_def by (metis empty_iff not_None_eq)

lemma whole_after:
  assumes "kept {} s u" "whole data u s'"
  shows "whole data s s'"
proof -
  obtain t where t: "kept {t} u s'"
    "node_at u t = None \<or> node_at s' t = node_at u t \<or> (\<exists>m. node_at s' t = Some (FileNode data m))"
    using assms(2) by (auto simp: whole_def)
  have "kept {t} s s'" by (rule kept_trans[OF kept_mono[OF assms(1)] t(1)]) simp
  moreover have "node_at s t = None \<or> node_at u t = node_at s t"
    using assms(1) by (cases "node_at s t") (auto simp: kept_def)
  ultimately show ?thesis using t(2) by (auto simp: whole_def)
qed

lemma wrap_state: "wrap_fs pre m s = (r, s') \<Longrightarrow> \<exists>r'. m s = (r', s') \<and> (\<forall>x. r = Done x \<longrightarrow> r' = Done x)"
  by (cases "m s"; cases "fst (m s)") (auto simp: runs)

lemma replace_whole:
  assumes "with_temp target mode data (\<lambda>tmp. wrap_fs pre (os_Rename tmp target)) s = (r, s')"
  shows "whole data s s'"
  using assms
proof (cases rule: with_temp_cases)
  case early
  then show ?thesis by (intro kept_whole)
next
  case (late s0 s1 tmp q r3 s3)
  obtain r' where "os_Rename tmp target s1 = (r', s3)" using wrap_state[OF late(6)] by blast
  from rename_temp[OF this late(9,2,4,5)] obtain t where t: "kept {q, t} s1 s3"
    "node_at s3 t = node_at s1 t \<or> node_at s3 t = Some (FileNode data (mode mod 512))" by blast
  have "degraded s0 s3"
  proof -
    have "\<exists>n'. node_at s3 p = Some n' \<and> (n' = n \<or> (\<exists>x m. n' = FileNode x m))" if "node_at s0 p = Some n" for p n
    proof (cases "p = t")
      case True
      then show ?thesis using t that late(2) by (auto simp: kept_def)
    next
      case False
      moreover have "p \<noteq> q" using that late(3) by auto
      ultimately show ?thesis using t that late(2) by (auto simp: kept_def)
    qed
    moreover have "fs_cwd s3 = fs_cwd s0" using t late(2) by (simp add: kept_def)
    ultimately show ?thesis unfolding degraded_def by blast
  qed
  then have rem: "kept {q} s3 s'" using names_remove[OF late(9)] late(8) by auto
  have "kept {q, t} s0 s'"
    by (rule kept_trans[OF kept_mono[OF late(2)] kept_trans[OF t(1) kept_mono[OF rem]]]) auto
  then have "kept {t} s0 s'" by (rule kept_drop[OF _ late(3)])
  moreover have "node_at s' t = Some n \<or> (\<exists>m. node_at s' t = Some (FileNode data m))"
    if "node_at s0 t = Some n" for n
  proof -
    have "t \<noteq> q" using that late(3) by auto
    moreover have "node_at s1 t = Some n" using that late(2) by (simp add: kept_def)
    ultimately show ?thesis using t(2) rem by (auto simp: kept_def)
  qed
  ultimately have "whole data s0 s'" unfolding whole_def by (metis not_None_eq)
  then show ?thesis by (rule whole_after[OF late(1)])
qed

lemma Atomic_whole: "Atomic p data mode s = (r, s') \<Longrightarrow> whole data s s'"
proof -
  assume run: "Atomic p data mode s = (r, s')"
  obtain r1 s1 where res: "resolveSymlinks p s = (r1, s1)" by force
  have k1: "kept {} s s1" by (rule keeps_fsD[OF keeps_resolveSymlinks res])
  show "whole data s s'"
  proof (cases r1)
    case (Done target)
    obtain r2 s2 where st: "os_Stat target s1 = (r2, s2)" by force
    have k2: "kept {} s s2" by (rule kept_trans[OF k1 keeps_fsD[OF fs_keeps_reads(1) st]])
    show ?thesis
    proof (cases r2)
      case Crashed
      then show ?thesis using run res st Done k2 by (simp add: Atomic_def runs kept_whole)
    next
      case (Failed e)
      then have "whole data s2 s'"
        using run res st Done by (intro replace_whole) (auto simp: Atomic_def runs Let_def)
      then show ?thesis by (rule whole_after[OF k2])
    next
      case Done2: (Done n)
      then have "whole data s2 s'"
        using run res st Done by (intro replace_whole) (auto simp: Atomic_def runs Let_def)
      then show ?thesis by (rule whole_after[OF k2])
    qed
  qed (use run res k1 in \<open>auto simp: Atomic_def runs intro: kept_whole\<close>)
qed

lemma create_frame:
  assumes "with_temp target mode data (\<lambda>tmp. try_fs (os_Link tmp target) fin) s = (r, s')"
    "\<And>x u. snd (fin x u) = u" "\<And>e u. fst (fin (Inl e) u) \<noteq> Done ()"
  shows "kept {} s s' \<and>
    (r = Done () \<longrightarrow> (\<exists>t. node_at s t = None \<and> node_at s' t = Some (FileNode data (mode mod 512))))"
  using assms(1)
proof (cases rule: with_temp_cases)
  case early
  then show ?thesis by simp
next
  case (late s0 s1 tmp q r3 s3)
  obtain r' u where link0: "os_Link tmp target s1 = (r', u)" by force
  have fin: "\<exists>x. fin x u = (r3, s3) \<and> (r' = Done () \<or> (\<exists>e. x = Inl e))" if "r' \<noteq> Crashed"
    using late(6) link0 that by (cases r') (auto simp: runs)
  have "s3 = u \<and> (r3 = Done () \<longrightarrow> r' = Done ())"
  proof (cases r')
    case Crashed
    then show ?thesis using late(6) link0 by (simp add: runs)
  qed (use fin assms(2,3) in \<open>metis fst_conv snd_conv outcome.distinct\<close>)+
  then have link: "os_Link tmp target s1 = (r', s3)" and r': "r3 = Done () \<Longrightarrow> r' = Done ()"
    using link0 by auto
  have k3: "kept {} s1 s3" by (rule link_temp(1)[OF link late(9,2,5)])
  have "kept {} s0 s3" by (rule kept_trans[OF late(2) k3])
  then have rem: "kept {q} s3 s'" using names_remove[OF late(9) kept_degraded] late(8) by auto
  have k: "kept {} s0 s'"
    by (rule kept_new[OF kept_trans[OF kept_mono[OF \<open>kept {} s0 s3\<close>] rem] late(3)]) simp
  have "\<exists>t. node_at s t = None \<and> node_at s' t = Some (FileNode data (mode mod 512))" if "r = Done ()"
  proof -
    obtain t where t: "node_at s1 t = None" "node_at s3 t = Some (FileNode data (mode mod 512))"
      using link_temp(2)[OF link late(9,2,5)] r' late(7) \<open>r = Done ()\<close> by auto
    have "node_at s t = None" using t(1) kept_trans[OF late(1,2)] by (cases "node_at s t") (auto simp: kept_def)
    moreover have "t \<noteq> q" using t(1) late(5) by auto
    ultimately show ?thesis using t(2) rem by (auto simp: kept_def)
  qed
  then show ?thesis using kept_trans[OF late(1) k] by blast
qed

lemma AtomicNew_frame:
  assumes run: "AtomicNew p data mode s = (r, s')"
  shows "kept {} s s' \<and>
    (r = Done () \<longrightarrow> (\<exists>t. node_at s t = None \<and> node_at s' t = Some (FileNode data (mode mod 512))))"
proof -
  obtain r1 s1 where res: "resolveSymlinks p s = (r1, s1)" by force
  have k1: "kept {} s s1" by (rule keeps_fsD[OF keeps_resolveSymlinks res])
  show ?thesis
  proof (cases r1)
    case (Done target)
    obtain r2 s2 where st: "os_Lstat target s1 = (r2, s2)" by force
    have k2: "kept {} s s2" by (rule kept_trans[OF k1 keeps_fsD[OF fs_keeps_reads(2) st]])
    show ?thesis
    proof (cases r2)
      case (Failed e)
      obtain fin where fin: "with_temp target mode data (\<lambda>tmp. try_fs (os_Link tmp target) fin) s2 = (r, s')"
        "\<And>x u. snd (fin x u) = u" "\<And>e u. fst (fin (Inl e) u) \<noteq> Done ()"
        using run res st Done Failed
        by (force simp: AtomicNew_def runs fail_fs_def ret_fs_def split: sum.split os_error.split)
      show ?thesis using create_frame[OF fin] k2 by (auto simp: kept_def) (metis not_None_eq)
    qed (use run res st k2 Done in \<open>auto simp: AtomicNew_def runs fail_fs_def\<close>)
  qed (use run res k1 in \<open>auto simp: AtomicNew_def runs\<close>)
qed

section \<open>Properties\<close>

text \<open>C20: 
  Whatever calls fail, wherever the process dies and wherever links lead: a write changes at most one
  node that was there, and that one into a file with all of the data; a write of a new file changes
  nothing that was there.
\<close>

theorem atomic_all_or_nothing:
  "whole data s (snd (Atomic p data mode s)) \<and> kept {} s (snd (AtomicNew p data mode s))"
proof
  show "whole data s (snd (Atomic p data mode s))"
    by (cases "Atomic p data mode s") (simp add: Atomic_whole)
  show "kept {} s (snd (AtomicNew p data mode s))"
    using AtomicNew_frame by (cases "AtomicNew p data mode s") simp
qed

text \<open>C21: 
  On a healthy file system a write to a plain path whose directory is there succeeds: the file then has
  exactly the data, with the mode it had or else the default one, and every other node, the temporary
  file included, is as before.
\<close>

theorem atomic_replaces:
  assumes "healthy s" "reached s (ds @ [b])" "node_at s (ds @ [b]) \<noteq> Some DirNode"
    "node_at s (temp_place s (ds @ [b])) = None"
  shows "\<exists>s'. Atomic (abs_path (ds @ [b])) data mode s = (Done (), s') \<and>
    node_at s' = (node_at s)(ds @ [b] \<mapsto>
      FileNode data ((case node_at s (ds @ [b]) of None \<Rightarrow> mode | Some n \<Rightarrow> node_mode n) mod 512))"
  using Atomic_there[OF assms(1,2,4,3), of data mode] by (fastforce simp: fun_eq_iff)

definition sample_files :: files where
  "sample_files = \<lparr>fs_nodes =
     [([''p''], DirNode), ([''p'', ''docs''], LinkNode ''/e/sub''),
      ([''e''], DirNode), ([''e'', ''sub''], DirNode), ([''e'', ''sub'', ''F''], LinkNode ''../F''),
      ([''e'', ''F''], FileNode ''old'' 420)],
     fs_cwd = [''p''], fs_random = 7, fs_faults = []\<rparr>"

theorem atomic_replaces_witness:
  "\<exists>s'. Atomic ''/e/F'' ''new'' 384 sample_files = (Done (), s') \<and>
    node_at s' = (node_at sample_files)([''e'', ''F''] \<mapsto> FileNode ''new'' 420)"
proof -
  have "reached sample_files ([''e''] @ [''F''])"
    by (auto simp: reached_def sample_files_def node_at_def plain_seg_def less_Suc_eq)
  moreover have "node_at sample_files (temp_place sample_files ([''e''] @ [''F''])) = None" by code_simp
  moreover have "healthy sample_files" by code_simp
  moreover have "node_at sample_files [''e'', ''F''] = Some (FileNode ''old'' 420)" by code_simp
  ultimately show ?thesis
    using atomic_replaces[of sample_files "[''e'']" "''F''" "''new''" 384]
    by (simp add: abs_path_def node_mode_def)
qed


end
