(* ===== verification/Pg_Plans.thy ===== *)
theory Pg_Plans
  imports Sqlite_Store
begin

text \<open>
  Work items and work plans in \<open>internal/adapters/postgres/repository.go\<close> and \<open>queries.go\<close>. The
  migrations build tables with the columns that the SQLite schema has, so the state is the same
  record; a time column holds microseconds since 1970, \<open>NOW()\<close> reads the clock of the server, an
  array column holds a list. Texts compare byte by byte and \<open>LOWER\<close> folds ASCII letters, as in a
  database of collation C; texts are valid UTF-8 without NUL, which the server would refuse.
\<close>

section \<open>Columns and parameters\<close>

text \<open>A \<open>TIMESTAMPTZ\<close> read into a \<open>time.Time\<close>, and a \<open>time.Time\<close> sent to the server.\<close>

definition pg_time :: "int \<Rightarrow> int" where
  "pg_time us = (62135596800 * 1000000 + us) * 1000"

definition pg_micros :: "int \<Rightarrow> int" where
  "pg_micros t = t div 1000 - 62135596800 * 1000000"

text \<open>A statement has at most 65535 parameters, an \<open>INTEGER\<close> column 32 bits: the driver refuses more.\<close>

definition pg_exec :: "string \<Rightarrow> nat \<Rightarrow> unit db_op" where
  "pg_exec msg params =
     (if 65535 < int params then fail_db (ErrDB (msg @ '': extended protocol limited to 65535 parameters''))
      else db_call msg)"

definition fits_int4 :: "int \<Rightarrow> bool" where
  "fits_int4 i \<longleftrightarrow> - (2 ^ 31) \<le> i \<and> i < 2 ^ 31"

definition pg_nonNilStringList :: "string slice \<Rightarrow> string slice" where
  "pg_nonNilStringList vs = (if elems vs = [] then Some [] else vs)"

definition pg_nonNilStringListPreserveOrder :: "string slice \<Rightarrow> string slice" where
  "pg_nonNilStringListPreserveOrder vs = (if elems vs = [] then Some [] else vs)"

section \<open>Work items of a receipt\<close>

text \<open>The items to write, and the one statement that writes them: nothing is written when the receipt
  is missing.\<close>

definition buildUpsertWorkItemsQuery ::
  "WorkItemsUpsertInput \<Rightarrow> (string \<times> string \<times> (string \<times> string) list) go_result" where
  "buildUpsertWorkItemsQuery input =
     (let projectID = TrimSpace (wui_ProjectID input);
          receiptID = TrimSpace (wui_ReceiptID input) in
      if projectID = '''' then Inl (GoErr ''project_id is required'')
      else if receiptID = '''' then Inl (GoErr ''receipt_id is required'')
      else bind_res (NormalizeWorkItems (wui_Items input)) (\<lambda>items.
        if items = [] then Inl (GoErr ''work items are required'')
        else Inr (projectID, receiptID,
          map (\<lambda>item. (wi_ItemKey item, StorageWorkItemStatus (wi_Status item))) items)))"

definition pg_UpsertWorkItems :: "WorkItemsUpsertInput \<Rightarrow> nat db_op" where
  "pg_UpsertWorkItems input =
     (case buildUpsertWorkItemsQuery input of
        Inl e \<Rightarrow> fail_db e
      | Inr (projectID, receiptID, rows) \<Rightarrow>
          bind_db (pg_exec ''upsert work items'' (2 + 2 * length rows)) (\<lambda>_.
          bind_db (get_db (\<lambda>s. map_of (db_receipts s) receiptID)) (\<lambda>r.
          case r of
            None \<Rightarrow> fail_db (ErrDB ''upsert work items: violates foreign key constraint'')
          | Some _ \<Rightarrow>
              bind_db (modify_db (\<lambda>s. s\<lparr>db_items :=
                foldl (\<lambda>al (k, status). AList.update (projectID, receiptID, k)
                    \<lparr> ir_status = status, ir_updated_at = db_clock s \<rparr> al) (db_items s) rows\<rparr>))
              (\<lambda>_. ret_db (length rows)))))"

definition buildListWorkItemsQuery :: "FetchLookupQuery \<Rightarrow> (string \<times> string) go_result" where
  "buildListWorkItemsQuery input =
     (let projectID = TrimSpace (flq_ProjectID input);
          receiptID = TrimSpace (flq_ReceiptID input) in
      if projectID = '''' then Inl (GoErr ''project_id is required'')
      else if receiptID = '''' then Inl (GoErr ''receipt_id is required'')
      else Inr (projectID, receiptID))"

definition pg_item_of_row :: "string \<times> item_row \<Rightarrow> WorkItem" where
  "pg_item_of_row = (\<lambda>(k, row).
     WorkItem_zero\<lparr>wi_ItemKey := NormalizeRepoPath k,
       wi_Status := NormalizeWorkItemStatus (ir_status row),
       wi_UpdatedAt := pg_time (ir_updated_at row)\<rparr>)"

definition pg_ListWorkItems :: "FetchLookupQuery \<Rightarrow> WorkItem list db_op" where
  "pg_ListWorkItems input =
     (case buildListWorkItemsQuery input of
        Inl e \<Rightarrow> fail_db e
      | Inr (projectID, receiptID) \<Rightarrow>
          bind_db (db_call ''query work items'') (\<lambda>_.
          get_db (\<lambda>s. filter (\<lambda>item. wi_ItemKey item \<noteq> '''')
            (map pg_item_of_row (sort_key fst
              (map (\<lambda>((_, _, k), row). (k, row))
                (filter (\<lambda>((p, r, _), _). p = projectID \<and> r = receiptID) (db_items s))))))))"

section \<open>Work plans\<close>

definition upsertWorkPlanRowTx :: "WorkPlan \<Rightarrow> unit db_op" where
  "upsertWorkPlanRowTx plan =
     (let receiptValue = (if TrimSpace (wp_ReceiptID plan) \<noteq> '''' then Some (TrimSpace (wp_ReceiptID plan)) else None);
          stages = wp_Stages plan in
      bind_db (db_call ''upsert work plan'') (\<lambda>_.
        modify_db (\<lambda>s. s\<lparr>db_plans :=
          AList.update (TrimSpace (wp_ProjectID plan), TrimSpace (wp_PlanKey plan))
            \<lparr> pr_plan =
                \<lparr> wp_ProjectID = TrimSpace (wp_ProjectID plan), wp_PlanKey = TrimSpace (wp_PlanKey plan),
                  wp_ReceiptID = TrimSpace (wp_ReceiptID plan), wp_Title = TrimSpace (wp_Title plan),
                  wp_Objective = TrimSpace (wp_Objective plan), wp_Kind = ToLower (TrimSpace (wp_Kind plan)),
                  wp_ParentPlanKey = TrimSpace (wp_ParentPlanKey plan),
                  wp_Status = StorageWorkItemStatus (wp_Status plan),
                  wp_Stages = \<lparr> wps_SpecOutline = StorageWorkItemStatus (wps_SpecOutline stages),
                    wps_RefinedSpec = StorageWorkItemStatus (wps_RefinedSpec stages),
                    wps_ImplementationPlan = StorageWorkItemStatus (wps_ImplementationPlan stages) \<rparr>,
                  wp_InScope = pg_nonNilStringList (wp_InScope plan),
                  wp_OutOfScope = pg_nonNilStringList (wp_OutOfScope plan),
                  wp_DiscoveredPaths = pg_nonNilStringList (wp_DiscoveredPaths plan),
                  wp_Constraints = pg_nonNilStringList (wp_Constraints plan),
                  wp_References = pg_nonNilStringList (wp_References plan),
                  wp_ExternalRefs = pg_nonNilStringList (wp_ExternalRefs plan),
                  wp_Tasks = [], wp_UpdatedAt = 0 \<rparr>,
              pr_receipt_id = receiptValue, pr_updated_at = db_clock s \<rparr>
            (db_plans s)\<rparr>)))"

definition pg_plan_of_row :: "string \<Rightarrow> string \<Rightarrow> plan_row \<Rightarrow> WorkPlan" where
  "pg_plan_of_row projectID planKey row =
     (let p = pr_plan row in
      \<lparr> wp_ProjectID = projectID, wp_PlanKey = planKey,
        wp_ReceiptID = TrimSpace (case pr_receipt_id row of None \<Rightarrow> '''' | Some r \<Rightarrow> r),
        wp_Title = TrimSpace (wp_Title p), wp_Objective = TrimSpace (wp_Objective p),
        wp_Kind = TrimSpace (wp_Kind p), wp_ParentPlanKey = TrimSpace (wp_ParentPlanKey p),
        wp_Status = NormalizeWorkItemStatus (wp_Status p),
        wp_Stages = NormalizeWorkPlanStages (wp_Stages p),
        wp_InScope = NormalizeStringList (wp_InScope p),
        wp_OutOfScope = NormalizeStringList (wp_OutOfScope p),
        wp_DiscoveredPaths = NormalizeStringList (wp_DiscoveredPaths p),
        wp_Constraints = NormalizeStringList (wp_Constraints p),
        wp_References = NormalizeStringList (wp_References p),
        wp_ExternalRefs = NormalizeStringList (wp_ExternalRefs p),
        wp_Tasks = [], wp_UpdatedAt = pg_time (pr_updated_at row) \<rparr>)"

text \<open>The two readers of a plan row, in a transaction and outside, run the same statement.\<close>

definition lookupWorkPlanRowTx :: "string \<Rightarrow> string \<Rightarrow> WorkPlan option db_op" where
  "lookupWorkPlanRowTx projectID planKey =
     bind_db (db_call ''query work plan'') (\<lambda>_.
       get_db (\<lambda>s. map_option (pg_plan_of_row projectID planKey) (map_of (db_plans s) (projectID, planKey))))"

definition pg_lookupWorkPlanRow :: "string \<Rightarrow> string \<Rightarrow> WorkPlan option db_op" where
  "pg_lookupWorkPlanRow projectID planKey =
     bind_db (db_call ''query work plan'') (\<lambda>_.
       get_db (\<lambda>s. map_option (pg_plan_of_row projectID planKey) (map_of (db_plans s) (projectID, planKey))))"

definition pg_task_of_row :: "string \<times> task_row \<Rightarrow> WorkItem" where
  "pg_task_of_row = (\<lambda>(k, row). let t = tr_task row in
     \<lparr> wi_ItemKey = TrimSpace k, wi_Summary = TrimSpace (wi_Summary t),
       wi_Status = NormalizeWorkItemStatus (wi_Status t),
       wi_ParentTaskKey = TrimSpace (wi_ParentTaskKey t), wi_ParentTaskKeyClear = False,
       wi_DependsOn = NormalizeStringList (wi_DependsOn t),
       wi_AcceptanceCriteria = NormalizeStringList (wi_AcceptanceCriteria t),
       wi_References = NormalizeStringList (wi_References t),
       wi_ExternalRefs = NormalizeStringList (wi_ExternalRefs t),
       wi_BlockedReason = TrimSpace (wi_BlockedReason t), wi_Outcome = TrimSpace (wi_Outcome t),
       wi_Evidence = NormalizeStringList (wi_Evidence t), wi_UpdatedAt = pg_time (tr_updated_at row) \<rparr>)"

definition pg_task_rows :: "string \<Rightarrow> string \<Rightarrow> db \<Rightarrow> (string \<times> task_row) list" where
  "pg_task_rows projectID planKey s =
     sort_key fst (map (\<lambda>((_, _, k), row). (k, row))
       (filter (\<lambda>((p, k, _), _). p = projectID \<and> k = planKey) (db_tasks s)))"

definition listWorkPlanTasksTx :: "string \<Rightarrow> string \<Rightarrow> WorkItem list db_op" where
  "listWorkPlanTasksTx projectID planKey =
     bind_db (db_call ''query work plan tasks'') (\<lambda>_.
       get_db (\<lambda>s. filter (\<lambda>item. wi_ItemKey item \<noteq> '''') (map pg_task_of_row (pg_task_rows projectID planKey s))))"

definition pg_listWorkPlanTasks :: "string \<Rightarrow> string \<Rightarrow> WorkItem list db_op" where
  "pg_listWorkPlanTasks projectID planKey =
     bind_db (db_call ''query work plan tasks'') (\<lambda>_.
       get_db (\<lambda>s. filter (\<lambda>item. wi_ItemKey item \<noteq> '''') (map pg_task_of_row (pg_task_rows projectID planKey s))))"

text \<open>The statements of \<open>UpsertWorkPlan\<close>: the delete of a replaced plan's tasks, the upsert of one
  task, whose foreign key asks for the plan, and the update of the derived status.\<close>

definition pg_delete_tasks :: "string \<Rightarrow> string \<Rightarrow> nat db_op" where
  "pg_delete_tasks projectID planKey =
     bind_db (db_call ''delete work plan tasks'') (\<lambda>_.
     bind_db (get_db (\<lambda>s. length (filter (\<lambda>((p, k, _), _). p = projectID \<and> k = planKey) (db_tasks s)))) (\<lambda>n.
     bind_db (modify_db (\<lambda>s. s\<lparr>db_tasks :=
         filter (\<lambda>((p, k, _), _). \<not> (p = projectID \<and> k = planKey)) (db_tasks s)\<rparr>)) (\<lambda>_.
     ret_db n)))"

definition pg_upsert_task :: "string \<Rightarrow> string \<Rightarrow> WorkItem \<Rightarrow> nat db_op" where
  "pg_upsert_task projectID planKey task =
     bind_db (db_call ''upsert work plan task'') (\<lambda>_.
     bind_db (get_db (\<lambda>s. map_of (db_plans s) (projectID, planKey))) (\<lambda>plan.
     case plan of
       None \<Rightarrow> fail_db (ErrDB ''upsert work plan task: violates foreign key constraint'')
     | Some _ \<Rightarrow>
         bind_db (modify_db (\<lambda>s. s\<lparr>db_tasks :=
           AList.update (projectID, planKey, wi_ItemKey task)
             \<lparr> tr_task =
                 \<lparr> wi_ItemKey = wi_ItemKey task, wi_Summary = TrimSpace (wi_Summary task),
                   wi_Status = StorageWorkItemStatus (wi_Status task),
                   wi_ParentTaskKey = TrimSpace (wi_ParentTaskKey task), wi_ParentTaskKeyClear = False,
                   wi_DependsOn = pg_nonNilStringList (wi_DependsOn task),
                   wi_AcceptanceCriteria = pg_nonNilStringList (wi_AcceptanceCriteria task),
                   wi_References = pg_nonNilStringList (wi_References task),
                   wi_ExternalRefs = pg_nonNilStringList (wi_ExternalRefs task),
                   wi_BlockedReason = TrimSpace (wi_BlockedReason task),
                   wi_Outcome = TrimSpace (wi_Outcome task),
                   wi_Evidence = pg_nonNilStringList (wi_Evidence task), wi_UpdatedAt = 0 \<rparr>,
               tr_updated_at = db_clock s \<rparr>
             (db_tasks s)\<rparr>))
         (\<lambda>_. ret_db 1)))"

definition pg_update_plan_status :: "string \<Rightarrow> string \<Rightarrow> string \<Rightarrow> unit db_op" where
  "pg_update_plan_status projectID planKey status =
     bind_db (db_call ''update work plan status'') (\<lambda>_.
       modify_db (\<lambda>s. s\<lparr>db_plans := AList.map_entry (projectID, planKey)
         (\<lambda>row. row\<lparr>pr_plan := (pr_plan row)\<lparr>wp_Status := status\<rparr>, pr_updated_at := db_clock s\<rparr>) (db_plans s)\<rparr>))"

definition pg_LookupWorkPlan :: "WorkPlanLookupQuery \<Rightarrow> WorkPlan db_op" where
  "pg_LookupWorkPlan input =
     (let projectID = TrimSpace (wpq_ProjectID input);
          planKey0 = TrimSpace (wpq_PlanKey input);
          receiptID = TrimSpace (wpq_ReceiptID input) in
      if projectID = '''' then fail_db (GoErr ''project_id is required'')
      else if planKey0 = '''' \<and> receiptID = '''' then fail_db (GoErr ''plan_key or receipt_id is required'')
      else bind_db
        (if planKey0 = '''' then bind_db (db_call ''query work plan key by receipt'') (\<lambda>_.
           bind_db (get_db (\<lambda>s. sort_key (\<lambda>(k, row). (- pr_updated_at row, k))
               (map (\<lambda>((_, k), row). (k, row))
                 (filter (\<lambda>((p, _), row). p = projectID \<and> pr_receipt_id row = Some receiptID) (db_plans s)))))
             (\<lambda>rows. case rows of [] \<Rightarrow> fail_db ErrWorkPlanNotFound | (k, _) # _ \<Rightarrow> ret_db k))
         else ret_db planKey0) (\<lambda>planKey.
        bind_db (pg_lookupWorkPlanRow projectID planKey) (\<lambda>looked.
        case looked of
          None \<Rightarrow> fail_db ErrWorkPlanNotFound
        | Some plan \<Rightarrow>
            bind_db (pg_listWorkPlanTasks projectID planKey) (\<lambda>tasks. ret_db (plan\<lparr>wp_Tasks := tasks\<rparr>)))))"

definition pg_upsert_plan_tx :: "string \<Rightarrow> string \<Rightarrow> WorkPlanMode \<Rightarrow> WorkPlanUpsertInput \<Rightarrow> nat db_op" where
  "pg_upsert_plan_tx projectID planKey mode input =
     bind_db (lookupWorkPlanRowTx projectID planKey) (\<lambda>looked.
     let current0 = (case looked of None \<Rightarrow> WorkPlan_zero | Some p \<Rightarrow> p) in
     bind_db
       (if looked \<noteq> None \<and> mode = WorkPlanModeMerge \<and> wpi_Tasks input \<noteq> []
        then bind_db (listWorkPlanTasksTx projectID planKey) (\<lambda>ts. ret_db (current0\<lparr>wp_Tasks := ts\<rparr>))
        else ret_db current0) (\<lambda>current.
     bind_db (upsertWorkPlanRowTx (BuildNextWorkPlanState current (looked \<noteq> None) input mode)) (\<lambda>_.
     let normalizedTasks = MergeIncomingWorkPlanTasks (wp_Tasks current) (wpi_Tasks input) mode in
     bind_db (if mode = WorkPlanModeReplace then pg_delete_tasks projectID planKey else ret_db 0) (\<lambda>deleted.
     bind_db (each_db (pg_upsert_task projectID planKey) normalizedTasks) (\<lambda>written.
     bind_db
       (if TrimSpace (wpi_Status input) = ''''
        then bind_db (listWorkPlanTasksTx projectID planKey) (\<lambda>tasks.
          pg_update_plan_status projectID planKey (StorageWorkItemStatus (DerivePlanStatus tasks)))
        else ret_db ()) (\<lambda>_.
     ret_db (deleted + written)))))))"

definition pg_UpsertWorkPlan :: "WorkPlanUpsertInput \<Rightarrow> WorkPlanUpsertResult db_op" where
  "pg_UpsertWorkPlan input =
     (let projectID = TrimSpace (wpi_ProjectID input); planKey = TrimSpace (wpi_PlanKey input) in
      if projectID = '''' then fail_db (GoErr ''project_id is required'')
      else if planKey = '''' then fail_db (GoErr ''plan_key is required'')
      else bind_db (in_tx (pg_upsert_plan_tx projectID planKey (NormalizeWorkPlanMode (wpi_Mode input)) input)) (\<lambda>updated.
        bind_db (pg_LookupWorkPlan \<lparr> wpq_ProjectID = projectID, wpq_PlanKey = planKey, wpq_ReceiptID = '''' \<rparr>)
          (\<lambda>plan. ret_db \<lparr> wpr_Plan = plan, wpr_Updated = int updated \<rparr>)))"

end
