(* ===== verification/Pg_Receipts.thy ===== *)
theory Pg_Receipts
  imports Pg_Plans
begin

text \<open>
  Receipts, runs, review attempts and verification batches in
  \<open>internal/adapters/postgres/repository.go\<close>. \<open>time.Now()\<close> and the random receipt id are arguments.
  A \<open>BIGSERIAL\<close> counter is part of the tables here, so a failed insert does not skip a number.
\<close>

section \<open>Receipt scopes\<close>

definition pg_UpsertReceiptScope :: "ReceiptScope \<Rightarrow> unit db_op" where
  "pg_UpsertReceiptScope input =
     (case NormalizeReceiptScope input of
        Inl e \<Rightarrow> fail_db e
      | Inr n \<Rightarrow>
          bind_db (db_call ''upsert receipt scope'') (\<lambda>_.
            modify_db (\<lambda>s. s\<lparr>db_receipts :=
              AList.update (nsc_ReceiptID n)
                \<lparr> rr_project_id = nsc_ProjectID n, rr_task_text = nsc_TaskText n, rr_phase = nsc_Phase n,
                  rr_resolved_tags = pg_nonNilStringList (nsc_ResolvedTags n),
                  rr_pointer_keys = pg_nonNilStringList (nsc_PointerKeys n),
                  rr_initial_scope_paths = pg_nonNilStringList (nsc_InitialScopePaths n),
                  rr_baseline_captured = nsc_BaselineCaptured n, rr_baseline_paths = nsc_BaselinePaths n,
                  rr_actor = nsc_Actor n,
                  rr_created_at = (case map_of (db_receipts s) (nsc_ReceiptID n) of
                    None \<Rightarrow> db_clock s | Some row \<Rightarrow> rr_created_at row) \<rparr>
                (db_receipts s)\<rparr>)))"

definition buildFetchReceiptScopeQuery :: "ReceiptScopeQuery \<Rightarrow> (string \<times> string) go_result" where
  "buildFetchReceiptScopeQuery input =
     (let projectID = TrimSpace (rsq_ProjectID input); receiptID = TrimSpace (rsq_ReceiptID input) in
      if projectID = '''' then Inl (GoErr ''project_id is required'')
      else if receiptID = '''' then Inl (GoErr ''receipt_id is required'')
      else Inr (projectID, receiptID))"

text \<open>The row of a receipt of the project.\<close>

definition pg_receipt :: "string \<Rightarrow> string \<Rightarrow> db \<Rightarrow> receipt_row option" where
  "pg_receipt projectID receiptID s =
     (case map_of (db_receipts s) receiptID of
        None \<Rightarrow> None
      | Some row \<Rightarrow> if rr_project_id row = projectID then Some row else None)"

definition pg_FetchReceiptScope :: "ReceiptScopeQuery \<Rightarrow> ReceiptScope db_op" where
  "pg_FetchReceiptScope input =
     (case buildFetchReceiptScopeQuery input of
        Inl e \<Rightarrow> fail_db e
      | Inr (projectID, receiptID) \<Rightarrow>
          bind_db (db_call ''query receipt scope'') (\<lambda>_.
          bind_db (get_db (pg_receipt projectID receiptID)) (\<lambda>r.
          case r of
            None \<Rightarrow> fail_db ErrReceiptScopeNotFound
          | Some row \<Rightarrow> ret_db
              \<lparr> rs_ProjectID = TrimSpace (rsq_ProjectID input), rs_ReceiptID = receiptID,
                rs_TaskText = TrimSpace (rr_task_text row), rs_Phase = TrimSpace (rr_phase row),
                rs_ResolvedTags = NormalizeStringList (rr_resolved_tags row),
                rs_PointerKeys = NormalizeStringList (rr_pointer_keys row),
                rs_InitialScopePaths = NormalizeStringList (rr_initial_scope_paths row),
                rs_BaselineCaptured = rr_baseline_captured row,
                rs_BaselinePaths = NormalizeSyncPathList (rr_baseline_paths row),
                rs_Actor = rr_actor row \<rparr>)))"

section \<open>Runs\<close>

definition pg_save_run_tx :: "NormalizedRunSummary \<Rightarrow> int db_op" where
  "pg_save_run_tx n =
     bind_db (db_call ''upsert receipt summary'') (\<lambda>_.
     bind_db (modify_db (\<lambda>s. s\<lparr>db_receipts :=
       AList.update (nrs_ReceiptID n)
         ((case map_of (db_receipts s) (nrs_ReceiptID n) of
             Some row \<Rightarrow> row
           | None \<Rightarrow> \<lparr> rr_project_id = '''', rr_task_text = '''', rr_phase = '''',
               rr_resolved_tags = Some [], rr_pointer_keys = Some [], rr_initial_scope_paths = Some [],
               rr_baseline_captured = False, rr_baseline_paths = [], rr_actor = Actor_zero,
               rr_created_at = db_clock s \<rparr>)
          \<lparr>rr_project_id := nrs_ProjectID n, rr_task_text := nrs_TaskText n, rr_phase := nrs_Phase n,
           rr_resolved_tags := pg_nonNilStringList (nrs_ResolvedTags n),
           rr_pointer_keys := pg_nonNilStringList (nrs_PointerKeys n)\<rparr>)
         (db_receipts s)\<rparr>)) (\<lambda>_.
     bind_db (db_call ''insert run summary'') (\<lambda>_.
     bind_db (get_db db_next_run) (\<lambda>runID.
     bind_db (modify_db (\<lambda>s. s\<lparr>db_next_run := runID + 1,
       db_runs := db_runs s @
         [\<lparr> nr_run_id = runID, nr_project_id = nrs_ProjectID n, nr_request_id = nrs_RequestID n,
            nr_receipt_id = nrs_ReceiptID n, nr_status = nrs_Status n,
            nr_files_changed = pg_nonNilStringList (nrs_FilesChanged n),
            nr_dod_issues = nrs_DefinitionOfDoneIssues n, nr_outcome = nrs_Outcome n,
            nr_actor = nrs_Actor n, nr_vcs = nrs_VCS n, nr_created_at = db_clock s \<rparr>]\<rparr>)) (\<lambda>_.
     ret_db runID)))))"

definition pg_SaveRunReceiptSummary :: "string \<Rightarrow> RunReceiptSummary \<Rightarrow> RunReceiptIDs db_op" where
  "pg_SaveRunReceiptSummary freshID input =
     (case NormalizeRunReceiptSummary input of
        Inl e \<Rightarrow> fail_db e
      | Inr n0 \<Rightarrow>
          (let n = (if nrs_ReceiptID n0 = '''' then n0\<lparr>nrs_ReceiptID := freshID\<rparr> else n0) in
           bind_db (in_tx (pg_save_run_tx n)) (\<lambda>runID.
             ret_db \<lparr> rri_RunID = runID, rri_ReceiptID = nrs_ReceiptID n \<rparr>)))"

text \<open>The lateral join: the last run of a receipt.\<close>

definition pg_last_run :: "string \<Rightarrow> string \<Rightarrow> db \<Rightarrow> run_row option" where
  "pg_last_run projectID receiptID s =
     (case sort_key (\<lambda>r. (- nr_created_at r, - nr_run_id r))
             (filter (\<lambda>r. nr_project_id r = projectID \<and> nr_receipt_id r = receiptID) (db_runs s)) of
        [] \<Rightarrow> None | r # _ \<Rightarrow> Some r)"

definition buildLookupFetchStateQuery :: "FetchLookupQuery \<Rightarrow> (string \<times> string) go_result" where
  "buildLookupFetchStateQuery input =
     (let projectID = TrimSpace (flq_ProjectID input); receiptID = TrimSpace (flq_ReceiptID input) in
      if projectID = '''' then Inl (GoErr ''project_id is required'')
      else if receiptID = '''' then Inl (GoErr ''receipt_id is required'')
      else Inr (projectID, receiptID))"

definition pg_LookupFetchState :: "FetchLookupQuery \<Rightarrow> FetchLookup db_op" where
  "pg_LookupFetchState input =
     (case buildLookupFetchStateQuery input of
        Inl e \<Rightarrow> fail_db e
      | Inr (projectID, receiptID) \<Rightarrow>
          bind_db (db_call ''query fetch lookup'') (\<lambda>_.
          bind_db (get_db (\<lambda>s. (pg_receipt projectID receiptID s, pg_last_run projectID receiptID s)))
          (\<lambda>(r, run).
          case r of
            None \<Rightarrow> fail_db ErrFetchLookupNotFound
          | Some row \<Rightarrow>
              bind_db (pg_ListWorkItems input) (\<lambda>workItems. ret_db
                \<lparr> fl_ProjectID = TrimSpace (flq_ProjectID input), fl_ReceiptID = receiptID,
                  fl_RunID = (case run of None \<Rightarrow> 0 | Some r \<Rightarrow> nr_run_id r),
                  fl_RunStatus = TrimSpace (case run of None \<Rightarrow> '''' | Some r \<Rightarrow> nr_status r),
                  fl_PlanStatus = DerivePlanStatus workItems, fl_WorkItems = workItems,
                  fl_UpdatedAt = pg_time (case run of None \<Rightarrow> rr_created_at row
                                          | Some r \<Rightarrow> nr_created_at r) \<rparr>))))"

section \<open>Review attempts\<close>

definition pg_SaveReviewAttempt :: "int \<Rightarrow> ReviewAttempt \<Rightarrow> int db_op" where
  "pg_SaveReviewAttempt now input =
     (case NormalizeReviewAttempt now input of
        Inl e \<Rightarrow> fail_db e
      | Inr n \<Rightarrow>
          if \<not> list_all fits_int4 (nra_TimeoutSec n # (case nra_ExitCode n of None \<Rightarrow> [] | Some c \<Rightarrow> [c]))
          then fail_db (ErrDB ''insert review attempt: unable to encode for int4'')
          else bind_db (db_call ''insert review attempt'') (\<lambda>_.
          bind_db (get_db (\<lambda>s. (map_of (db_receipts s) (nra_ReceiptID n), db_next_attempt s)))
          (\<lambda>(r, attemptID).
          case r of
            None \<Rightarrow> fail_db (ErrDB ''insert review attempt: violates foreign key constraint'')
          | Some _ \<Rightarrow>
              bind_db (modify_db (\<lambda>s. s\<lparr>db_next_attempt := attemptID + 1,
                db_attempts := db_attempts s @
                  [\<lparr> ar_attempt_id = attemptID, ar_attempt = n, ar_created_sec = pg_micros (nra_CreatedAt n) \<rparr>]\<rparr>))
              (\<lambda>_. ret_db attemptID))))"

definition pg_normalizeStringListPreserveOrder :: "string slice \<Rightarrow> string slice" where
  "pg_normalizeStringListPreserveOrder values = NormalizeStringListPreserveOrder values"

definition pg_attempt_of_row :: "attempt_row \<Rightarrow> ReviewAttempt" where
  "pg_attempt_of_row row =
     (let n = ar_attempt row in
      \<lparr> ra_AttemptID = ar_attempt_id row, ra_ProjectID = TrimSpace (nra_ProjectID n),
        ra_ReceiptID = TrimSpace (nra_ReceiptID n), ra_PlanKey = TrimSpace (nra_PlanKey n),
        ra_ReviewKey = TrimSpace (nra_ReviewKey n), ra_Summary = TrimSpace (nra_Summary n),
        ra_Fingerprint = TrimSpace (nra_Fingerprint n), ra_Status = TrimSpace (nra_Status n),
        ra_Passed = nra_Passed n, ra_Outcome = TrimSpace (nra_Outcome n),
        ra_WorkflowSourcePath = TrimSpace (nra_WorkflowSourcePath n),
        ra_CommandArgv = pg_normalizeStringListPreserveOrder (pg_nonNilStringListPreserveOrder (nra_CommandArgv n)),
        ra_CommandCWD = TrimSpace (nra_CommandCWD n), ra_TimeoutSec = nra_TimeoutSec n,
        ra_ExitCode = nra_ExitCode n, ra_TimedOut = nra_TimedOut n,
        ra_StdoutExcerpt = TrimSpace (nra_StdoutExcerpt n), ra_StderrExcerpt = TrimSpace (nra_StderrExcerpt n),
        ra_CreatedAt = pg_time (ar_created_sec row), ra_Actor = nra_Actor n \<rparr>)"

definition pg_ListReviewAttempts :: "ReviewAttemptListQuery \<Rightarrow> ReviewAttempt list db_op" where
  "pg_ListReviewAttempts input =
     (let projectID = TrimSpace (ralq_ProjectID input);
          receiptID = TrimSpace (ralq_ReceiptID input);
          reviewKey = TrimSpace (ralq_ReviewKey input) in
      if projectID = '''' then fail_db (GoErr ''project_id is required'')
      else if receiptID = '''' then fail_db (GoErr ''receipt_id is required'')
      else if reviewKey = '''' then fail_db (GoErr ''review_key is required'')
      else bind_db (db_call ''query review attempts'') (\<lambda>_.
        get_db (\<lambda>s. map pg_attempt_of_row (sort_key (\<lambda>r. (ar_created_sec r, ar_attempt_id r))
          (filter (\<lambda>r. nra_ProjectID (ar_attempt r) = projectID \<and>
             nra_ReceiptID (ar_attempt r) = receiptID \<and> nra_ReviewKey (ar_attempt r) = reviewKey)
           (db_attempts s))))))"

section \<open>Verification batches\<close>

definition result_ints :: "VerificationTestRun \<Rightarrow> int list" where
  "result_ints r = [vtr_TimeoutSec r, vtr_ExpectedExitCode r, vtr_DurationMS r] @
     (case vtr_ExitCode r of None \<Rightarrow> [] | Some c \<Rightarrow> [c])"

definition pg_insert_result :: "VerificationTestRun \<Rightarrow> nat db_op" where
  "pg_insert_result r =
     (let msg = ''insert verification result '' @ vtr_TestID r in
      if \<not> list_all fits_int4 (result_ints r) then fail_db (ErrDB (msg @ '': unable to encode for int4''))
      else bind_db (db_call msg) (\<lambda>_. ret_db 1))"

definition pg_save_batch_tx :: "NormalizedVerificationBatch \<Rightarrow> unit db_op" where
  "pg_save_batch_tx n =
     bind_db (db_call ''insert verification batch'') (\<lambda>_.
     bind_db (get_db (\<lambda>s. map_of (db_batches s) (nvb_BatchRunID n))) (\<lambda>old.
     case old of
       Some _ \<Rightarrow> fail_db (ErrDB ''insert verification batch: violates unique constraint'')
     | None \<Rightarrow>
         bind_db (each_db pg_insert_result (nvb_Results n)) (\<lambda>_.
           modify_db (\<lambda>s. s\<lparr>db_batches := (nvb_BatchRunID n, \<lparr> br_batch = n \<rparr>) # db_batches s\<rparr>))))"

definition pg_SaveVerificationBatch :: "(nat \<Rightarrow> int) \<Rightarrow> VerificationBatch \<Rightarrow> unit db_op" where
  "pg_SaveVerificationBatch clock input =
     (case NormalizeVerificationBatch clock input of
        Inl e \<Rightarrow> fail_db e
      | Inr n \<Rightarrow> in_tx (pg_save_batch_tx n))"

end
