(* ===== verification/Pg_Pointers.thy ===== *)
theory Pg_Pointers
  imports Pg_Receipts Sqlite_Rules
begin

text \<open>
  The pointer index in \<open>internal/adapters/postgres\<close>: \<open>repository.go\<close>, \<open>queries.go\<close> and
  \<open>repository_rules.go\<close>. A sync is four statements over lists of paths, which the query builders
  normalize once more; the input and result types of a rule sync are those of the storage interface.
\<close>

section \<open>Reads\<close>

text \<open>The conditions of \<open>buildCandidatePointersQuery\<close>; the bound time is sent in microseconds.\<close>

definition pg_candidate_selected :: "StaleFilter \<Rightarrow> pointer_row \<Rightarrow> bool" where
  "pg_candidate_selected flt row \<longleftrightarrow>
     (\<not> sf_AllowStale flt \<longrightarrow> \<not> pt_is_stale row) \<and>
     (case sf_StaleBefore flt of
        None \<Rightarrow> True
      | Some before \<Rightarrow> \<not> pt_is_stale row \<or>
          (case pt_stale_at row of None \<Rightarrow> False | Some at \<Rightarrow> at \<le> pg_micros before))"

definition pg_candidate_of_row :: "string \<Rightarrow> pointer_row \<Rightarrow> CandidatePointer" where
  "pg_candidate_of_row key row =
     \<lparr> cp_Key = key, cp_Path = pt_path row, cp_Anchor = pt_anchor row, cp_Kind = pt_kind row,
       cp_Label = pt_label row, cp_Description = pt_description row, cp_Tags = pt_tags row,
       cp_IsRule = pt_is_rule row, cp_IsStale = pt_is_stale row, cp_UpdatedAt = pg_time (pt_updated_at row) \<rparr>"

definition pg_pointers_of :: "string \<Rightarrow> db \<Rightarrow> (string \<times> pointer_row) list" where
  "pg_pointers_of projectID s =
     map (\<lambda>((p, k), row). (k, row)) (filter (\<lambda>((p, k), row). p = projectID) (db_pointers s))"

definition pg_FetchCandidatePointers :: "CandidatePointerQuery \<Rightarrow> CandidatePointer list db_op" where
  "pg_FetchCandidatePointers input =
     (let projectID = TrimSpace (cpq_ProjectID input) in
      if projectID = '''' then fail_db (GoErr ''project_id is required'')
      else bind_db (db_call ''query candidate pointers'') (\<lambda>_.
        bind_db (get_db (\<lambda>s. sort_key fst
          (filter (\<lambda>(k, row). pg_candidate_selected (cpq_StaleFilter input) row) (pg_pointers_of projectID s))))
        (\<lambda>rows. ret_db (SortAndLimitCandidatePointers
          (map (\<lambda>(k, row). pg_candidate_of_row k row) rows) input 32))))"

definition pg_ListPointerInventory :: "string \<Rightarrow> PointerInventory list db_op" where
  "pg_ListPointerInventory rawProjectID =
     (let projectID = TrimSpace rawProjectID in
      if projectID = '''' then fail_db (GoErr ''project_id is required'')
      else bind_db (db_call ''query pointer inventory'') (\<lambda>_.
        bind_db (get_db (pg_pointers_of projectID)) (\<lambda>rows.
        ret_db (filter (\<lambda>row. pi_Path row \<noteq> '''')
          (map (\<lambda>path. \<lparr> pi_Path = NormalizeRepoPath path,
              pi_IsStale = list_ex (\<lambda>(k, row). pt_path row = path \<and> pt_is_stale row) rows \<rparr>)
            (sort (remdups (map (\<lambda>(k, row). pt_path row) rows))))))))"

definition buildLookupPointerByKeyQuery :: "PointerLookupQuery \<Rightarrow> (string \<times> string) go_result" where
  "buildLookupPointerByKeyQuery input =
     (let projectID = TrimSpace (plq_ProjectID input); pointerKey = TrimSpace (plq_PointerKey input) in
      if projectID = '''' then Inl (GoErr ''project_id is required'')
      else if pointerKey = '''' then Inl (GoErr ''pointer_key is required'')
      else Inr (projectID, pointerKey))"

definition pg_LookupPointerByKey :: "PointerLookupQuery \<Rightarrow> CandidatePointer db_op" where
  "pg_LookupPointerByKey input =
     (case buildLookupPointerByKeyQuery input of
        Inl e \<Rightarrow> fail_db e
      | Inr (projectID, pointerKey) \<Rightarrow>
          bind_db (db_call ''query pointer lookup'') (\<lambda>_.
          bind_db (get_db (\<lambda>s. case map_of (db_pointers s) (projectID, pointerKey) of
              None \<Rightarrow> None | Some row \<Rightarrow> if pt_is_stale row then None else Some row)) (\<lambda>found.
          case found of
            None \<Rightarrow> fail_db ErrPointerLookupNotFound
          | Some row \<Rightarrow> ret_db
              \<lparr> cp_Key = TrimSpace pointerKey, cp_Path = NormalizeRepoPath (pt_path row),
                cp_Anchor = TrimSpace (pt_anchor row), cp_Kind = TrimSpace (pt_kind row),
                cp_Label = TrimSpace (pt_label row), cp_Description = TrimSpace (pt_description row),
                cp_Tags = NormalizeStringList (pt_tags row), cp_IsRule = pt_is_rule row,
                cp_IsStale = pt_is_stale row, cp_UpdatedAt = pg_time (pt_updated_at row) \<rparr>)))"

section \<open>Stubs\<close>

definition pg_normalizePointerStubKind :: "string \<Rightarrow> string" where
  "pg_normalizePointerStubKind raw =
     (let kind = ToLower (TrimSpace raw) in
      if kind = ''rule'' \<or> kind = ''doc'' \<or> kind = ''test'' \<or> kind = ''command'' then kind else ''code'')"

text \<open>One entry of the loop: nothing for a blank path.\<close>

definition pg_normalize_stub :: "string \<Rightarrow> PointerStub \<Rightarrow> PointerStub option" where
  "pg_normalize_stub projectID raw =
     (let normalizedPath = NormalizeRepoPath (ps_Path raw) in
      if normalizedPath = '''' then None
      else let key0 = TrimSpace (ps_PointerKey raw);
          pointerKey = (if key0 = '''' then projectID @ '':'' @ normalizedPath else key0);
          kind = pg_normalizePointerStubKind (ps_Kind raw);
          label0 = TrimSpace (ps_Label raw);
          label1 = (if label0 = '''' then TrimSpace (path_Base normalizedPath) else label0);
          label = (if label0 = '''' \<and> label1 \<in> set ['''', ''.'', ''/''] then normalizedPath else label1);
          description = TrimSpace (ps_Description raw);
          tags = NormalizeStringList (ps_Tags raw) in
        Some \<lparr> ps_PointerKey = pointerKey, ps_Path = normalizedPath, ps_Kind = kind, ps_Label = label,
          ps_Description = (if description = ''''
            then ''Auto-indexed pointer stub. Curate label, description, and tags.'' else description),
          ps_Tags = (if elems tags = [] then Some [''auto-indexed'', kind] else tags) \<rparr>)"

definition pg_normalizePointerStubs :: "string \<Rightarrow> PointerStub list \<Rightarrow> PointerStub list go_result" where
  "pg_normalizePointerStubs rawProjectID stubs =
     (let projectID = TrimSpace rawProjectID in
      if projectID = '''' then Inl (GoErr ''project_id is required'')
      else let stubByKey = foldl (\<lambda>m raw. case pg_normalize_stub projectID raw of
              None \<Rightarrow> m | Some stub \<Rightarrow> AList.update (ps_PointerKey stub) stub m) [] stubs in
        Inr (map snd (sort_key fst stubByKey)))"

definition pg_upsert_stub :: "string \<Rightarrow> PointerStub \<Rightarrow> nat db_op" where
  "pg_upsert_stub projectID stub =
     bind_db (db_call ''upsert pointer stubs'') (\<lambda>_.
     bind_db (modify_db (\<lambda>s. s\<lparr>db_pointers :=
       AList.update (projectID, ps_PointerKey stub)
         (case map_of (db_pointers s) (projectID, ps_PointerKey stub) of
            None \<Rightarrow> \<lparr> pt_path = ps_Path stub, pt_anchor = '''', pt_kind = ps_Kind stub,
              pt_label = ps_Label stub, pt_description = ps_Description stub,
              pt_tags = pg_nonNilStringList (ps_Tags stub),
              pt_is_rule = (ToLower (ps_Kind stub) = ''rule''), pt_is_stale = False, pt_stale_at = None,
              pt_content_hash = None, pt_updated_at = db_clock s \<rparr>
          | Some row \<Rightarrow> row\<lparr>pt_path := ps_Path stub, pt_anchor := '''', pt_is_stale := False,
              pt_stale_at := None, pt_updated_at := db_clock s\<rparr>)
         (db_pointers s)\<rparr>)) (\<lambda>_. ret_db 1))"

definition pg_UpsertPointerStubs :: "string \<Rightarrow> PointerStub list \<Rightarrow> int db_op" where
  "pg_UpsertPointerStubs projectID stubs =
     (case pg_normalizePointerStubs projectID stubs of
        Inl e \<Rightarrow> fail_db e
      | Inr normalized \<Rightarrow>
          if normalized = [] then ret_db 0
          else bind_db (in_tx (each_db (pg_upsert_stub (TrimSpace projectID)) normalized)) (\<lambda>n. ret_db (int n)))"

section \<open>Sync\<close>

definition pg_normalizeSyncPaths :: "string list \<Rightarrow> string list" where
  "pg_normalizeSyncPaths paths = sort (norm_unique NormalizeRepoPath [] paths)"

text \<open>The rows of a \<open>VALUES\<close> list; an entry with a hash keeps its place in the map.\<close>

fun pg_sync_rows :: "bool \<Rightarrow> (string \<times> SyncPath) list \<Rightarrow> SyncPath list \<Rightarrow> (string \<times> SyncPath) list go_result" where
  "pg_sync_rows requireHash byPath [] = Inr byPath"
| "pg_sync_rows requireHash byPath (raw # rest) =
     (let normalizedPath = NormalizeRepoPath (sp_Path raw); contentHash = TrimSpace (sp_ContentHash raw) in
      if normalizedPath = '''' then Inl (GoErr ''path is required'')
      else if sp_Deleted raw then pg_sync_rows requireHash byPath rest
      else if requireHash \<and> contentHash = ''''
      then Inl (GoErr (''content_hash is required for path '' @ go_quote normalizedPath))
      else pg_sync_rows requireHash
        (case map_of byPath normalizedPath of
           Some current \<Rightarrow> (if sp_ContentHash current \<noteq> '''' then byPath
             else AList.update normalizedPath
               \<lparr> sp_Path = normalizedPath, sp_ContentHash = contentHash, sp_Deleted = False \<rparr> byPath)
         | None \<Rightarrow> AList.update normalizedPath
             \<lparr> sp_Path = normalizedPath, sp_ContentHash = contentHash, sp_Deleted = False \<rparr> byPath) rest)"

definition normalizeSyncPathRows :: "SyncPath list \<Rightarrow> bool \<Rightarrow> SyncPath list go_result" where
  "normalizeSyncPathRows paths requireHash =
     bind_res (pg_sync_rows requireHash [] paths) (\<lambda>byPath. Inr (map snd (sort_key fst byPath)))"

text \<open>An \<open>UPDATE awm_pointers\<close> of the rows of the project that a condition selects.\<close>

definition pg_update_pointers ::
  "string \<Rightarrow> nat \<Rightarrow> string \<Rightarrow> (pointer_row \<Rightarrow> bool) \<Rightarrow> (int \<Rightarrow> pointer_row \<Rightarrow> pointer_row) \<Rightarrow> nat db_op" where
  "pg_update_pointers msg params projectID sel f =
     bind_db (pg_exec msg params) (\<lambda>_.
     bind_db (get_db (\<lambda>s. length (filter (\<lambda>((p, k), row). p = projectID \<and> sel row) (db_pointers s)))) (\<lambda>n.
     bind_db (modify_db (\<lambda>s. s\<lparr>db_pointers :=
       map (\<lambda>((p, k), row). ((p, k), if p = projectID \<and> sel row then f (db_clock s) row else row))
         (db_pointers s)\<rparr>)) (\<lambda>_. ret_db n)))"

definition pg_set_stale :: "int \<Rightarrow> pointer_row \<Rightarrow> pointer_row" where
  "pg_set_stale now row = row\<lparr>pt_is_stale := True, pt_stale_at := Some now, pt_updated_at := now\<rparr>"

definition pg_mark_deleted :: "string \<Rightarrow> string list \<Rightarrow> nat db_op" where
  "pg_mark_deleted projectID deletedPaths =
     (let normalizedPaths = pg_normalizeSyncPaths deletedPaths in
      if normalizedPaths = [] then fail_db (GoErr ''deleted paths are required'')
      else pg_update_pointers ''mark deleted pointers stale'' 2 projectID
        (\<lambda>row. pt_path row \<in> set normalizedPaths \<and> \<not> pt_is_stale row) pg_set_stale)"

definition pg_mark_missing :: "string \<Rightarrow> string list \<Rightarrow> nat db_op" where
  "pg_mark_missing projectID presentPaths =
     (let normalizedPaths = pg_normalizeSyncPaths presentPaths in
      if normalizedPaths = [] then
        pg_update_pointers ''mark missing pointers stale'' 1 projectID (\<lambda>row. \<not> pt_is_stale row) pg_set_stale
      else pg_update_pointers ''mark missing pointers stale'' 2 projectID
        (\<lambda>row. \<not> pt_is_stale row \<and> pt_path row \<notin> set normalizedPaths) pg_set_stale)"

text \<open>Two parameters per path and one for the project.\<close>

definition pg_refresh :: "string \<Rightarrow> SyncPath list \<Rightarrow> nat db_op" where
  "pg_refresh projectID paths =
     (case normalizeSyncPathRows paths True of
        Inl e \<Rightarrow> fail_db e
      | Inr rows \<Rightarrow>
          if rows = [] then fail_db (GoErr ''paths are required'')
          else let sync = map_of (map (\<lambda>r. (sp_Path r, sp_ContentHash r)) rows) in
            pg_update_pointers ''refresh pointers'' (1 + 2 * length rows) projectID
              (\<lambda>row. case sync (pt_path row) of
                 None \<Rightarrow> False | Some h \<Rightarrow> pt_is_stale row \<or> pt_content_hash row \<noteq> Some h)
              (\<lambda>now row. row\<lparr>pt_content_hash := sync (pt_path row), pt_is_stale := False,
                 pt_stale_at := None, pt_updated_at := now\<rparr>))"

definition pg_insert_candidates :: "string \<Rightarrow> SyncPath list \<Rightarrow> nat db_op" where
  "pg_insert_candidates projectID paths =
     (case normalizeSyncPathRows paths True of
        Inl e \<Rightarrow> fail_db e
      | Inr rows \<Rightarrow>
          if rows = [] then fail_db (GoErr ''paths are required'')
          else bind_db (pg_exec ''insert pointer candidates'' (1 + 2 * length rows)) (\<lambda>_.
            bind_db (get_db (\<lambda>s. filter (\<lambda>r.
                \<not> list_ex (\<lambda>((p, k), row). p = projectID \<and> pt_path row = sp_Path r) (db_pointers s) \<and>
                map_of (db_candidates s) (projectID, sp_Path r) = None) rows)) (\<lambda>missing.
            bind_db (modify_db (\<lambda>s. s\<lparr>db_candidates :=
                rev (map (\<lambda>r. ((projectID, sp_Path r), sp_ContentHash r)) missing) @ db_candidates s\<rparr>))
              (\<lambda>_. ret_db (length missing)))))"

definition pg_sync_tx :: "SyncApplyInput \<Rightarrow> SyncApplyResult db_op" where
  "pg_sync_tx n =
     (let projectID = sai_ProjectID n;
          deletedPaths = map sp_Path (filter sp_Deleted (sai_Paths n));
          presentRows = filter (\<lambda>e. \<not> sp_Deleted e) (sai_Paths n);
          presentPaths = map sp_Path presentRows in
      bind_db (if deletedPaths \<noteq> [] then pg_mark_deleted projectID deletedPaths else ret_db 0) (\<lambda>deleted.
      bind_db (if sai_Mode n = ''full'' then pg_mark_missing projectID presentPaths else ret_db 0) (\<lambda>missing.
      bind_db (if presentRows \<noteq> [] then pg_refresh projectID presentRows else ret_db 0) (\<lambda>updated.
      bind_db (if presentRows \<noteq> [] \<and> sai_InsertNewCandidates n
          then pg_insert_candidates projectID presentRows else ret_db 0) (\<lambda>inserted.
      ret_db \<lparr> sar_Updated = int updated, sar_MarkedStale = int missing,
               sar_NewCandidates = int inserted, sar_DeletedMarkedStale = int deleted \<rparr>)))))"

definition pg_ApplySync :: "SyncApplyInput \<Rightarrow> SyncApplyResult db_op" where
  "pg_ApplySync input =
     (case NormalizeSyncApplyInput input of Inl e \<Rightarrow> fail_db e | Inr n \<Rightarrow> in_tx (pg_sync_tx n))"

section \<open>Rules\<close>

definition pg_normalizeRulePointerEnforcement :: "string \<Rightarrow> string" where
  "pg_normalizeRulePointerEnforcement raw = (if ToLower (TrimSpace raw) = ''soft'' then ''soft'' else ''hard'')"

definition pg_normalizeRulePointerTags :: "string slice \<Rightarrow> string \<Rightarrow> string slice" where
  "pg_normalizeRulePointerTags tags enforcement =
     NormalizeStringList (Some (elems tags @ [''rule'', ''canonical-rule''] @
       [if enforcement = ''soft'' then ''enforcement-soft'' else ''enforcement-hard'']))"

definition pg_ruleIDFromPointerKey :: "string \<Rightarrow> string" where
  "pg_ruleIDFromPointerKey pointerKey =
     (let key = TrimSpace pointerKey; suffix = rev (takeWhile (\<lambda>c. c \<noteq> CHR ''#'') (rev key)) in
      if CHR ''#'' \<notin> set key \<or> suffix = '''' then '''' else TrimSpace suffix)"

definition pg_normalize_rule :: "string \<Rightarrow> string \<Rightarrow> RulePointer \<Rightarrow> RulePointer go_result" where
  "pg_normalize_rule projectID sourcePath raw =
     (let ruleID0 = TrimSpace (rup_RuleID raw);
          ruleID = (if ruleID0 = '''' then pg_ruleIDFromPointerKey (rup_PointerKey raw) else ruleID0);
          key0 = TrimSpace (rup_PointerKey raw);
          pointerKey = (if key0 = '''' then projectID @ '':'' @ sourcePath @ ''#'' @ ruleID else key0);
          summary = TrimSpace (rup_Summary raw);
          content = TrimSpace (rup_Content raw);
          enforcement = pg_normalizeRulePointerEnforcement (rup_Enforcement raw) in
      if ruleID = '''' then Inl (GoErr ''rule_id is required'')
      else if summary = '''' then Inl (GoErr (''summary is required for pointer '' @ go_quote pointerKey))
      else Inr \<lparr> rup_PointerKey = pointerKey, rup_SourcePath = sourcePath, rup_RuleID = ruleID,
        rup_Summary = summary, rup_Content = (if content = '''' then summary else content),
        rup_Enforcement = enforcement, rup_Tags = pg_normalizeRulePointerTags (rup_Tags raw) enforcement \<rparr>)"

definition pg_normalizeRulePointerSyncInput :: "RulePointerSyncInput \<Rightarrow> RulePointerSyncInput go_result" where
  "pg_normalizeRulePointerSyncInput input =
     (let projectID = TrimSpace (rpi_ProjectID input); sourcePath = NormalizeRepoPath (rpi_SourcePath input) in
      if projectID = '''' then Inl (GoErr ''project_id is required'')
      else if sourcePath = '''' then Inl (GoErr ''source_path is required'')
      else bind_res (map_res (pg_normalize_rule projectID sourcePath) (rpi_Pointers input)) (\<lambda>rules.
        let byKey = foldl (\<lambda>m rule. AList.update (rup_PointerKey rule) rule m) [] rules in
        Inr \<lparr> rpi_ProjectID = projectID, rpi_SourcePath = sourcePath,
              rpi_Pointers = map snd (sort_key fst byKey) \<rparr>))"

definition pg_upsert_rule :: "string \<Rightarrow> string \<Rightarrow> RulePointer \<Rightarrow> nat db_op" where
  "pg_upsert_rule projectID sourcePath rule =
     bind_db (db_call ''upsert rule pointers'') (\<lambda>_.
     bind_db (modify_db (\<lambda>s. s\<lparr>db_pointers :=
       AList.update (projectID, rup_PointerKey rule)
         \<lparr> pt_path = sourcePath, pt_anchor = '''', pt_kind = ''rule'', pt_label = rup_Summary rule,
           pt_description = rup_Content rule, pt_tags = pg_nonNilStringList (rup_Tags rule),
           pt_is_rule = True, pt_is_stale = False, pt_stale_at = None, pt_content_hash = None,
           pt_updated_at = db_clock s \<rparr>
         (db_pointers s)\<rparr>)) (\<lambda>_. ret_db 1))"

text \<open>Without rules every rule of the source goes, else those whose keys are not listed.\<close>

definition pg_delete_rules :: "string \<Rightarrow> string \<Rightarrow> string list \<Rightarrow> nat db_op" where
  "pg_delete_rules projectID sourcePath activeKeys =
     (let gone = (if activeKeys = []
            then (\<lambda>((p, k), row). p = projectID \<and> pt_path row = sourcePath \<and> pt_is_rule row)
            else (\<lambda>((p, k), row). p = projectID \<and> pt_path row = sourcePath \<and> pt_is_rule row \<and>
                    k \<notin> set activeKeys)) in
      bind_db (db_call ''delete missing rule pointers'') (\<lambda>_.
      bind_db (get_db (\<lambda>s. length (filter gone (db_pointers s)))) (\<lambda>n.
      bind_db (modify_db (\<lambda>s. s\<lparr>db_pointers := filter (\<lambda>e. \<not> gone e) (db_pointers s)\<rparr>)) (\<lambda>_. ret_db n))))"

definition pg_sync_rules_tx :: "RulePointerSyncInput \<Rightarrow> RulePointerSyncResult db_op" where
  "pg_sync_rules_tx n =
     bind_db (each_db (pg_upsert_rule (rpi_ProjectID n) (rpi_SourcePath n)) (rpi_Pointers n)) (\<lambda>upserted.
     bind_db (pg_delete_rules (rpi_ProjectID n) (rpi_SourcePath n) (map rup_PointerKey (rpi_Pointers n))) (\<lambda>deleted.
     ret_db \<lparr> rpr_Upserted = int upserted, rpr_MarkedStale = int deleted \<rparr>))"

definition pg_SyncRulePointers :: "RulePointerSyncInput \<Rightarrow> RulePointerSyncResult db_op" where
  "pg_SyncRulePointers input =
     (case pg_normalizeRulePointerSyncInput input of Inl e \<Rightarrow> fail_db e | Inr n \<Rightarrow> in_tx (pg_sync_rules_tx n))"

end
