(* ===== verification/Pg_History.thy ===== *)
theory Pg_History
  imports Pg_Receipts Go_Runes
begin

text \<open>
  The lists of \<open>internal/adapters/postgres/repository.go\<close>: \<open>ListWorkPlans\<close>, \<open>ListReceiptHistory\<close>,
  \<open>ListRunHistory\<close> and \<open>LookupRunHistory\<close>. The search compares lowered columns with the pattern, in
  the runs also the text of the \<open>jsonb\<close> summary, as the server prints it.
\<close>

section \<open>Searching\<close>

definition pg_lower :: "string \<Rightarrow> string" where
  "pg_lower s = map lower_char s"

text \<open>\<open>LIKE p ESCAPE '\'\<close>: \<open>%\<close> is any text, \<open>_\<close> one character, a backslash makes the next
  character literal; case matters.\<close>

function pg_like :: "string \<Rightarrow> string \<Rightarrow> bool" where
  "pg_like p s =
     (case p of
        [] \<Rightarrow> s = []
      | c # q \<Rightarrow>
          (if c = CHR 0x5C then (case (q, s) of (e # q', x # t) \<Rightarrow> x = e \<and> pg_like q' t | _ \<Rightarrow> False)
           else if c = CHR ''%'' then list_ex (\<lambda>n. pg_like q (drop n s)) [0..<Suc (length s)]
           else case s of
               [] \<Rightarrow> False
             | x # t \<Rightarrow>
                 (if c = CHR ''_''
                  then pg_like q (if byte x < 0xC0 then t
                                  else dropWhile (\<lambda>y. 0x80 \<le> byte y \<and> byte y < 0xC0) t)
                  else x = c \<and> pg_like q t)))"
  by auto
termination by (relation "measure (\<lambda>(p, s). length p)") auto

declare pg_like.simps [simp del]

definition pg_hit :: "string \<Rightarrow> string list \<Rightarrow> bool" where
  "pg_hit searchPattern columns \<longleftrightarrow> list_ex (\<lambda>col. pg_like searchPattern (pg_lower col)) columns"

text \<open>The limit that a query asks for, with its default and its maximum.\<close>

definition pg_limited :: "int \<Rightarrow> bool \<Rightarrow> int \<Rightarrow> 'a list \<Rightarrow> 'a list" where
  "pg_limited dflt unbounded limit0 rows =
     (let limit1 = (if \<not> unbounded \<and> limit0 \<le> 0 then dflt else limit0);
          limit = (if \<not> unbounded \<and> limit1 > 100 then 100 else limit1) in
      if unbounded then rows else take (nat limit) rows)"

section \<open>Work plans\<close>

definition pg_plan_tasks :: "string \<Rightarrow> string \<Rightarrow> db \<Rightarrow> (string \<times> task_row) list" where
  "pg_plan_tasks projectID planKey s =
     map (\<lambda>((p, k, t), row). (t, row)) (filter (\<lambda>((p, k, t), row). p = projectID \<and> k = planKey) (db_tasks s))"

definition pg_plan_selected :: "WorkPlanListQuery \<Rightarrow> string \<Rightarrow> db \<Rightarrow> string \<times> plan_row \<Rightarrow> bool" where
  "pg_plan_selected input projectID s = (\<lambda>(planKey, row).
     let plan = pr_plan row;
         scope = NormalizeWorkPlanListScope (wlq_Scope input);
         searchPattern = WorkPlanListSearchPattern (wlq_Query input);
         trimmedKind = TrimSpace (wlq_Kind input) in
     (if scope = ''current'' then wp_Status plan = ''pending'' \<or> wp_Status plan = ''in_progress''
      else if scope = ''deferred'' then wp_Status plan = ''blocked''
      else if scope = ''completed'' then wp_Status plan = ''complete'' \<or> wp_Status plan = ''superseded''
      else True) \<and>
     (trimmedKind = '''' \<or> wp_Kind plan = trimmedKind) \<and>
     (searchPattern = '''' \<or>
      pg_hit searchPattern [planKey, (case pr_receipt_id row of None \<Rightarrow> '''' | Some r \<Rightarrow> r), wp_Title plan,
        wp_Objective plan, wp_Kind plan, wp_ParentPlanKey plan] \<or>
      list_ex (\<lambda>(k, t). pg_hit searchPattern
          [k, wi_Summary (tr_task t), wi_Outcome (tr_task t), wi_BlockedReason (tr_task t)])
        (pg_plan_tasks projectID planKey s)))"

definition pg_plan_summary :: "db \<Rightarrow> string \<Rightarrow> string \<times> plan_row \<Rightarrow> WorkPlanSummary" where
  "pg_plan_summary s projectID = (\<lambda>(k, row).
     let planKey = TrimSpace k; plan = pr_plan row;
         tasks = pg_plan_tasks projectID k s;
         count = (\<lambda>status. int (length (filter (\<lambda>(_, t). wi_Status (tr_task t) = status) tasks)));
         normalizedStatus = NormalizeWorkItemStatus (wp_Status plan);
         summary0 = TrimSpace (wp_Title plan);
         summary1 = (if summary0 = '''' then TrimSpace (wp_Objective plan) else summary0);
         summary2 = (if summary1 = '''' then ''Plan '' @ planKey @ '' is '' @ normalizedStatus else summary1) in
     \<lparr> wsm_ReceiptID = TrimSpace (case pr_receipt_id row of None \<Rightarrow> '''' | Some r \<Rightarrow> r),
       wsm_Title = TrimSpace (wp_Title plan), wsm_Objective = TrimSpace (wp_Objective plan),
       wsm_PlanKey = planKey,
       wsm_Summary = (if length tasks > 0 then summary2 @ '' ('' @ itoa_nat (length tasks) @ '' tasks)''
                      else summary2),
       wsm_Status = normalizedStatus, wsm_Kind = TrimSpace (wp_Kind plan),
       wsm_ParentPlanKey = TrimSpace (wp_ParentPlanKey plan), wsm_ActiveTaskKeys = None,
       wsm_TaskCountTotal = int (length tasks), wsm_TaskCountPending = count ''pending'',
       wsm_TaskCountInProgress = count ''in_progress'', wsm_TaskCountBlocked = count ''blocked'',
       wsm_TaskCountComplete = count ''complete'', wsm_UpdatedAt = pg_time (pr_updated_at row) \<rparr>)"

definition pg_workPlanSummaryKeys :: "WorkPlanSummary list \<Rightarrow> string list" where
  "pg_workPlanSummaryKeys rows = filter (\<lambda>k. k \<noteq> '''') (map (\<lambda>row. TrimSpace (wsm_PlanKey row)) rows)"

definition pg_active_rows :: "string \<Rightarrow> string list \<Rightarrow> db \<Rightarrow> (string \<times> string) list" where
  "pg_active_rows projectID planKeys s =
     map (\<lambda>((p, k, t), row). (k, t))
       (sort_key (\<lambda>((p, k, t), row). (k,
            if wi_Status (tr_task row) = ''blocked'' then 0 :: nat
            else if wi_Status (tr_task row) = ''in_progress'' then 1
            else if wi_Status (tr_task row) = ''pending'' then 2 else 3, t))
         (filter (\<lambda>((p, k, t), row). p = projectID \<and> k \<in> set planKeys \<and>
             wi_Status (tr_task row) \<noteq> ''complete'' \<and> wi_Status (tr_task row) \<noteq> ''superseded'') (db_tasks s)))"

definition pg_listActiveWorkPlanTaskKeys :: "string \<Rightarrow> string list \<Rightarrow> (string \<Rightarrow> string list) db_op" where
  "pg_listActiveWorkPlanTaskKeys projectID planKeys =
     (if planKeys = [] then ret_db (\<lambda>_. [])
      else bind_db (db_call ''query active work plan task keys'') (\<lambda>_.
        get_db (\<lambda>s planKey. map snd (filter (\<lambda>(k, t). k = planKey \<and> t \<noteq> '''')
          (map (\<lambda>(k, t). (TrimSpace k, TrimSpace t)) (pg_active_rows projectID planKeys s))))))"

text \<open>A NULL \<open>receipt_id\<close> cannot be scanned into the string of the code.\<close>

definition pg_ListWorkPlans :: "WorkPlanListQuery \<Rightarrow> WorkPlanSummary list db_op" where
  "pg_ListWorkPlans input =
     (let projectID = TrimSpace (wlq_ProjectID input) in
      if projectID = '''' then fail_db (GoErr ''project_id is required'')
      else bind_db (db_call ''query work plans'') (\<lambda>_.
        bind_db (get_db (\<lambda>s.
            (pg_limited 8 (wlq_Unbounded input) (wlq_Limit input)
               (sort_key (\<lambda>(k, row). (- pr_updated_at row, k))
                 (filter (pg_plan_selected input projectID s)
                   (map (\<lambda>((p, k), row). (k, row)) (filter (\<lambda>((p, k), row). p = projectID) (db_plans s))))),
             pg_plan_summary s projectID))) (\<lambda>(rows, summary).
        if list_ex (\<lambda>(_, row). pr_receipt_id row = None) rows then fail_db (ErrDB ''scan work plan summary'')
        else let out = map summary (filter (\<lambda>(k, _). TrimSpace k \<noteq> '''') rows) in
          if out = [] then ret_db []
          else bind_db (pg_listActiveWorkPlanTaskKeys projectID (pg_workPlanSummaryKeys out)) (\<lambda>active.
            ret_db (map (\<lambda>w. w\<lparr>wsm_ActiveTaskKeys :=
              (case active (wsm_PlanKey w) of [] \<Rightarrow> None | ks \<Rightarrow> Some ks)\<rparr>) out)))))"

section \<open>Receipts and runs\<close>

text \<open>A text inside \<open>jsonb\<close> output: quotes, backslashes and control bytes are escaped.\<close>

definition pg_json_byte :: "char \<Rightarrow> string" where
  "pg_json_byte c =
     (if c = CHR 0x5C \<or> c = CHR 0x22 then [CHR 0x5C, c]
      else if c = CHR 0x08 then [CHR 0x5C, CHR ''b'']
      else if c = CHR 0x0C then [CHR 0x5C, CHR ''f'']
      else if c = CHR 0x0A then [CHR 0x5C, CHR ''n'']
      else if c = CHR 0x0D then [CHR 0x5C, CHR ''r'']
      else if c = CHR 0x09 then [CHR 0x5C, CHR ''t'']
      else if byte c < 0x20
        then [CHR 0x5C, CHR ''u'', CHR ''0'', CHR ''0'', hex_digit (byte c div 16), hex_digit (byte c mod 16)]
      else [c])"

definition pg_json_string :: "string \<Rightarrow> string" where
  "pg_json_string s = CHR 0x22 # concat (map pg_json_byte s) @ [CHR 0x22]"

definition pg_json_list :: "string list \<Rightarrow> string" where
  "pg_json_list xs = ''['' @ join '', '' (map pg_json_string xs) @ '']''"

text \<open>The summary of a run: \<open>jsonb\<close> orders keys by their length and then by their bytes.\<close>

definition pg_summary_text :: "run_row \<Rightarrow> string" where
  "pg_summary_text run =
     (let field = (\<lambda>k v. pg_json_string k @ '': '' @ v) in
      ''{'' @ join '', ''
        ([field ''status'' (pg_json_string (nr_status run))] @
         (if nr_outcome run = '''' then [] else [field ''outcome'' (pg_json_string (nr_outcome run))]) @
         (if nr_request_id run = '''' then [] else [field ''request_id'' (pg_json_string (nr_request_id run))]) @
         (if elems (nr_files_changed run) = [] then []
          else [field ''files_changed'' (pg_json_list (elems (nr_files_changed run)))]) @
         (if elems (nr_dod_issues run) = [] then []
          else [field ''definition_of_done_issues'' (pg_json_list (elems (nr_dod_issues run)))])) @ ''}'')"

definition pg_run_columns :: "run_row \<Rightarrow> string list" where
  "pg_run_columns run =
     [nr_request_id run, nr_status run, nr_outcome run, join '' '' (elems (nr_files_changed run)), pg_summary_text run]"

definition pg_receipt_updated :: "string \<Rightarrow> db \<Rightarrow> string \<Rightarrow> receipt_row \<Rightarrow> int" where
  "pg_receipt_updated projectID s receiptID row =
     (case pg_last_run projectID receiptID s of None \<Rightarrow> rr_created_at row | Some run \<Rightarrow> nr_created_at run)"

definition pg_receipt_rows :: "ReceiptHistoryListQuery \<Rightarrow> string \<Rightarrow> db \<Rightarrow> (string \<times> receipt_row) list" where
  "pg_receipt_rows input projectID s =
     (let searchPattern = WorkPlanListSearchPattern (rhq_Query input) in
      pg_limited 20 (rhq_Unbounded input) (rhq_Limit input)
        (sort_key (\<lambda>(receiptID, row). (- pg_receipt_updated projectID s receiptID row, receiptID))
          (filter (\<lambda>(receiptID, row). rr_project_id row = projectID \<and>
             (searchPattern = '''' \<or> pg_hit searchPattern [receiptID, rr_task_text row, rr_phase row] \<or>
              list_ex (\<lambda>run. nr_project_id run = projectID \<and> nr_receipt_id run = receiptID \<and>
                pg_hit searchPattern (pg_run_columns run)) (db_runs s))) (db_receipts s))))"

definition pg_receipt_summary :: "string \<Rightarrow> db \<Rightarrow> string \<times> receipt_row \<Rightarrow> ReceiptHistorySummary" where
  "pg_receipt_summary projectID s = (\<lambda>(receiptID, row).
     let run = pg_last_run projectID receiptID s in
     \<lparr> rhs_ReceiptID = TrimSpace receiptID, rhs_TaskText = TrimSpace (rr_task_text row),
       rhs_Phase = TrimSpace (rr_phase row),
       rhs_LatestRequestID = TrimSpace (case run of None \<Rightarrow> '''' | Some r \<Rightarrow> nr_request_id r),
       rhs_LatestStatus = TrimSpace (case run of None \<Rightarrow> '''' | Some r \<Rightarrow> nr_status r),
       rhs_UpdatedAt = pg_time (pg_receipt_updated projectID s receiptID row) \<rparr>)"

definition pg_ListReceiptHistory :: "ReceiptHistoryListQuery \<Rightarrow> ReceiptHistorySummary list db_op" where
  "pg_ListReceiptHistory input =
     (let projectID = TrimSpace (rhq_ProjectID input) in
      if projectID = '''' then fail_db (GoErr ''project_id is required'')
      else bind_db (db_call ''query receipt history'') (\<lambda>_.
        get_db (\<lambda>s. filter (\<lambda>row. rhs_ReceiptID row \<noteq> '''')
          (map (pg_receipt_summary projectID s) (pg_receipt_rows input projectID s)))))"

definition pg_receipt_of_run :: "db \<Rightarrow> run_row \<Rightarrow> string \<times> string" where
  "pg_receipt_of_run s run =
     (case pg_receipt (nr_project_id run) (nr_receipt_id run) s of
        Some row \<Rightarrow> (rr_task_text row, rr_phase row) | None \<Rightarrow> ('''', ''''))"

definition pg_run_summary :: "db \<Rightarrow> run_row \<Rightarrow> RunHistorySummary" where
  "pg_run_summary s run =
     \<lparr> uhs_RunID = nr_run_id run, uhs_ReceiptID = TrimSpace (nr_receipt_id run),
       uhs_RequestID = TrimSpace (nr_request_id run),
       uhs_TaskText = TrimSpace (fst (pg_receipt_of_run s run)),
       uhs_Phase = TrimSpace (snd (pg_receipt_of_run s run)), uhs_Status = TrimSpace (nr_status run),
       uhs_FilesChanged = NormalizeStringList (nr_files_changed run),
       uhs_Outcome = TrimSpace (nr_outcome run), uhs_UpdatedAt = pg_time (nr_created_at run),
       uhs_Actor = nr_actor run, uhs_VCS = nr_vcs run \<rparr>"

definition pg_run_rows :: "RunHistoryListQuery \<Rightarrow> string \<Rightarrow> db \<Rightarrow> run_row list" where
  "pg_run_rows input projectID s =
     (let searchPattern = WorkPlanListSearchPattern (unq_Query input) in
      pg_limited 20 (unq_Unbounded input) (unq_Limit input)
        (sort_key (\<lambda>run. (- nr_created_at run, - nr_run_id run))
          (filter (\<lambda>run. nr_project_id run = projectID \<and>
             (searchPattern = '''' \<or> pg_hit searchPattern (pg_run_columns run @
               [fst (pg_receipt_of_run s run), snd (pg_receipt_of_run s run), nr_receipt_id run]))) (db_runs s))))"

definition pg_ListRunHistory :: "RunHistoryListQuery \<Rightarrow> RunHistorySummary list db_op" where
  "pg_ListRunHistory input =
     (let projectID = TrimSpace (unq_ProjectID input) in
      if projectID = '''' then fail_db (GoErr ''project_id is required'')
      else bind_db (db_call ''query run history'') (\<lambda>_.
        get_db (\<lambda>s. filter (\<lambda>row. 0 < uhs_RunID row)
          (map (pg_run_summary s) (pg_run_rows input projectID s)))))"

definition pg_LookupRunHistory :: "RunHistoryLookupQuery \<Rightarrow> RunHistorySummary db_op" where
  "pg_LookupRunHistory input =
     (let projectID = TrimSpace (ulq_ProjectID input) in
      if projectID = '''' then fail_db (GoErr ''project_id is required'')
      else if ulq_RunID input \<le> 0 then fail_db (GoErr ''run_id must be positive'')
      else bind_db (db_call ''query run history lookup'') (\<lambda>_.
        bind_db (get_db (\<lambda>s. map_option (pg_run_summary s)
          (find (\<lambda>r. nr_project_id r = projectID \<and> nr_run_id r = ulq_RunID input) (db_runs s)))) (\<lambda>found.
        case found of None \<Rightarrow> fail_db ErrFetchLookupNotFound | Some row \<Rightarrow> ret_db row)))"

end
