(* ===== verification/Pg_Sim.thy ===== *)
theory Pg_Sim
  imports Pg_Pointers Pg_History Sqlite_History
begin

text \<open>
  The correspondence of the two adapters: the Postgres tables that stand for SQLite tables, and the
  simulation of an operation by an operation, with a rule for each way of composing them. It is stated
  without failing calls and for times in whole seconds, which is what SQLite keeps.
\<close>

section \<open>Corresponding tables\<close>

definition scale :: "int \<Rightarrow> int" where "scale t = 1000000 * t"

definition on_rows :: "('a \<Rightarrow> 'b) \<Rightarrow> ('k \<times> 'a) list \<Rightarrow> ('k \<times> 'b) list" where
  "on_rows f al = map (\<lambda>(k, v). (k, f v)) al"

definition pg_plan :: "plan_row \<Rightarrow> plan_row" where
  "pg_plan row = row\<lparr>pr_updated_at := scale (pr_updated_at row)\<rparr>"

definition pg_task :: "task_row \<Rightarrow> task_row" where
  "pg_task row = row\<lparr>tr_updated_at := scale (tr_updated_at row)\<rparr>"

definition pg_item :: "item_row \<Rightarrow> item_row" where
  "pg_item row = row\<lparr>ir_updated_at := scale (ir_updated_at row)\<rparr>"

definition pg_scope :: "receipt_row \<Rightarrow> receipt_row" where
  "pg_scope row = row\<lparr>rr_resolved_tags := nonNilStringList (rr_resolved_tags row),
     rr_pointer_keys := nonNilStringList (rr_pointer_keys row),
     rr_initial_scope_paths := nonNilStringList (rr_initial_scope_paths row),
     rr_created_at := scale (rr_created_at row)\<rparr>"

definition pg_run :: "run_row \<Rightarrow> run_row" where
  "pg_run row = row\<lparr>nr_created_at := scale (nr_created_at row)\<rparr>"

definition pg_attempt :: "attempt_row \<Rightarrow> attempt_row" where
  "pg_attempt row = row\<lparr>ar_created_sec := scale (ar_created_sec row)\<rparr>"

definition pg_pointer :: "pointer_row \<Rightarrow> pointer_row" where
  "pg_pointer row = row\<lparr>pt_stale_at := map_option scale (pt_stale_at row),
     pt_updated_at := scale (pt_updated_at row)\<rparr>"

definition pg_of :: "db \<Rightarrow> db" where
  "pg_of s = s\<lparr>db_plans := on_rows pg_plan (db_plans s), db_tasks := on_rows pg_task (db_tasks s),
     db_items := on_rows pg_item (db_items s), db_receipts := on_rows pg_scope (db_receipts s),
     db_runs := map pg_run (db_runs s), db_attempts := map pg_attempt (db_attempts s),
     db_pointers := on_rows pg_pointer (db_pointers s), db_clock := scale (db_clock s)\<rparr>"

lemma pg_of_sel [simp]:
  "db_plans (pg_of s) = on_rows pg_plan (db_plans s)" "db_tasks (pg_of s) = on_rows pg_task (db_tasks s)"
  "db_items (pg_of s) = on_rows pg_item (db_items s)" "db_receipts (pg_of s) = on_rows pg_scope (db_receipts s)"
  "db_runs (pg_of s) = map pg_run (db_runs s)" "db_attempts (pg_of s) = map pg_attempt (db_attempts s)"
  "db_pointers (pg_of s) = on_rows pg_pointer (db_pointers s)" "db_clock (pg_of s) = scale (db_clock s)"
  "db_batches (pg_of s) = db_batches s" "db_candidates (pg_of s) = db_candidates s"
  "db_next_run (pg_of s) = db_next_run s" "db_next_attempt (pg_of s) = db_next_attempt s"
  "db_faults (pg_of s) = db_faults s"
  by (simp_all add: pg_of_def)

lemma pg_row_sel [simp]:
  "pr_plan (pg_plan r) = pr_plan r" "pr_receipt_id (pg_plan r) = pr_receipt_id r"
  "pr_updated_at (pg_plan r) = scale (pr_updated_at r)"
  "tr_task (pg_task t) = tr_task t" "tr_updated_at (pg_task t) = scale (tr_updated_at t)"
  "ir_status (pg_item i) = ir_status i" "ir_updated_at (pg_item i) = scale (ir_updated_at i)"
  by (simp_all add: pg_plan_def pg_task_def pg_item_def)

lemma pg_scope_sel [simp]:
  "rr_project_id (pg_scope r) = rr_project_id r" "rr_task_text (pg_scope r) = rr_task_text r"
  "rr_phase (pg_scope r) = rr_phase r" "rr_created_at (pg_scope r) = scale (rr_created_at r)"
  "rr_resolved_tags (pg_scope r) = nonNilStringList (rr_resolved_tags r)"
  "rr_pointer_keys (pg_scope r) = nonNilStringList (rr_pointer_keys r)"
  "rr_initial_scope_paths (pg_scope r) = nonNilStringList (rr_initial_scope_paths r)"
  "rr_baseline_captured (pg_scope r) = rr_baseline_captured r"
  "rr_baseline_paths (pg_scope r) = rr_baseline_paths r" "rr_actor (pg_scope r) = rr_actor r"
  by (simp_all add: pg_scope_def)

lemma pg_run_sel [simp]:
  "nr_run_id (pg_run r) = nr_run_id r" "nr_project_id (pg_run r) = nr_project_id r"
  "nr_request_id (pg_run r) = nr_request_id r" "nr_receipt_id (pg_run r) = nr_receipt_id r"
  "nr_status (pg_run r) = nr_status r" "nr_files_changed (pg_run r) = nr_files_changed r"
  "nr_dod_issues (pg_run r) = nr_dod_issues r" "nr_outcome (pg_run r) = nr_outcome r"
  "nr_actor (pg_run r) = nr_actor r" "nr_vcs (pg_run r) = nr_vcs r"
  "nr_created_at (pg_run r) = scale (nr_created_at r)"
  by (simp_all add: pg_run_def)

lemma pg_attempt_sel [simp]:
  "ar_attempt_id (pg_attempt a) = ar_attempt_id a" "ar_attempt (pg_attempt a) = ar_attempt a"
  "ar_created_sec (pg_attempt a) = scale (ar_created_sec a)"
  by (simp_all add: pg_attempt_def)

lemma pg_pointer_sel [simp]:
  "pt_path (pg_pointer r) = pt_path r" "pt_anchor (pg_pointer r) = pt_anchor r"
  "pt_kind (pg_pointer r) = pt_kind r" "pt_label (pg_pointer r) = pt_label r"
  "pt_description (pg_pointer r) = pt_description r" "pt_tags (pg_pointer r) = pt_tags r"
  "pt_is_rule (pg_pointer r) = pt_is_rule r" "pt_is_stale (pg_pointer r) = pt_is_stale r"
  "pt_stale_at (pg_pointer r) = map_option scale (pt_stale_at r)"
  "pt_content_hash (pg_pointer r) = pt_content_hash r" "pt_updated_at (pg_pointer r) = scale (pt_updated_at r)"
  by (simp_all add: pg_pointer_def)

lemma scale_less [simp]: "scale a \<le> scale b \<longleftrightarrow> a \<le> b" "- scale a \<le> - scale b \<longleftrightarrow> - a \<le> - b"
  "scale a = scale b \<longleftrightarrow> a = b" "scale a < scale b \<longleftrightarrow> a < b"
  by (auto simp: scale_def)

lemma pg_time_scale: "0 \<le> t \<Longrightarrow> pg_time (scale t) = unixTime t"
  by (simp add: pg_time_def scale_def unixTime_def)

section \<open>Tables as lists\<close>

lemma map_of_on_rows [simp]: "map_of (on_rows f al) k = map_option f (map_of al k)"
  by (induction al) (auto simp: on_rows_def)

lemma on_rows_update: "AList.update k (f v) (on_rows f al) = on_rows f (AList.update k v al)"
  by (induction al) (auto simp: on_rows_def)

lemma on_rows_map_entry:
  assumes "\<And>v. g (f v) = f (h v)"
  shows "AList.map_entry k g (on_rows f al) = on_rows f (AList.map_entry k h al)"
  using assms by (induction al) (auto simp: on_rows_def)

lemma filter_on_rows:
  "filter P (on_rows f al) = on_rows f (filter (\<lambda>(k, v). P (k, f v)) al)"
  by (induction al) (auto simp: on_rows_def)

lemma map_on_rows: "map g (on_rows f al) = map (\<lambda>(k, v). g (k, f v)) al"
  by (auto simp: on_rows_def)

text \<open>A sort by keys that compare alike.\<close>

lemma sort_key_map:
  assumes "\<And>x y. x \<in> set xs \<Longrightarrow> y \<in> set xs \<Longrightarrow> (f (h x) \<le> f (h y)) = (g x \<le> g y)"
  shows "sort_key f (map h xs) = map h (sort_key g xs)"
  using assms
proof (induction xs)
  case (Cons x xs)
  have ins: "insort_key f (h x) (map h ys) = map h (insort_key g x ys)" if "set ys \<subseteq> set xs" for ys
    using that Cons.prems by (induction ys) auto
  show ?case using Cons ins[of "sort_key g xs"] by simp
qed simp

section \<open>The invariant\<close>

text \<open>What the correspondence needs of the SQLite tables: no call fails, no time before 1970, lists that
  are read as they were written.\<close>

definition plain_pointer :: "pointer_row \<Rightarrow> bool" where
  "plain_pointer row \<longleftrightarrow> 0 \<le> pt_updated_at row \<and> (\<forall>t. pt_stale_at row = Some t \<longrightarrow> 0 \<le> t) \<and>
     NormalizeStringList (pt_tags row) = pt_tags row \<and> elems (pt_tags row) \<noteq> []"

definition plain_plan :: "plan_row \<Rightarrow> bool" where
  "plain_plan row \<longleftrightarrow> 0 \<le> pr_updated_at row \<and> (let p = pr_plan row in
     list_all norm_list [wp_InScope p, wp_OutOfScope p, wp_DiscoveredPaths p, wp_Constraints p,
       wp_References p, wp_ExternalRefs p])"

definition plain_task :: "task_row \<Rightarrow> bool" where
  "plain_task row \<longleftrightarrow> 0 \<le> tr_updated_at row \<and> (let t = tr_task row in
     list_all norm_list [wi_DependsOn t, wi_AcceptanceCriteria t, wi_References t, wi_ExternalRefs t,
       wi_Evidence t])"

definition plain_db :: "db \<Rightarrow> bool" where
  "plain_db s \<longleftrightarrow> db_faults s = [] \<and> 0 \<le> db_clock s \<and>
     (\<forall>row \<in> snd ` set (db_plans s). plain_plan row) \<and>
     (\<forall>row \<in> snd ` set (db_tasks s). plain_task row) \<and>
     (\<forall>row \<in> snd ` set (db_items s). 0 \<le> ir_updated_at row) \<and>
     (\<forall>row \<in> snd ` set (db_receipts s). 0 \<le> rr_created_at row) \<and>
     (\<forall>row \<in> set (db_runs s). 0 \<le> nr_created_at row) \<and>
     (\<forall>row \<in> snd ` set (db_pointers s). plain_pointer row) \<and>
     distinct (map fst (db_pointers s))"

lemma plain_dbD:
  assumes "plain_db s"
  shows "db_faults s = []" "0 \<le> db_clock s"
    "map_of (db_plans s) pk = Some prow \<Longrightarrow> plain_plan prow"
    "x \<in> set (db_plans s) \<Longrightarrow> plain_plan (snd x)" "y \<in> set (db_tasks s) \<Longrightarrow> plain_task (snd y)"
    "i \<in> set (db_items s) \<Longrightarrow> 0 \<le> ir_updated_at (snd i)"
    "z \<in> set (db_receipts s) \<Longrightarrow> 0 \<le> rr_created_at (snd z)"
    "map_of (db_receipts s) rk = Some rrow \<Longrightarrow> 0 \<le> rr_created_at rrow"
    "r \<in> set (db_runs s) \<Longrightarrow> 0 \<le> nr_created_at r" "q \<in> set (db_pointers s) \<Longrightarrow> plain_pointer (snd q)"
    "map_of (db_pointers s) qk = Some qrow \<Longrightarrow> plain_pointer qrow"
    "distinct (map fst (db_pointers s))"
proof -
  have ok: "db_faults s = []" "0 \<le> db_clock s" "\<forall>x \<in> set (db_plans s). plain_plan (snd x)"
    "\<forall>x \<in> set (db_tasks s). plain_task (snd x)" "\<forall>x \<in> set (db_items s). 0 \<le> ir_updated_at (snd x)"
    "\<forall>x \<in> set (db_receipts s). 0 \<le> rr_created_at (snd x)" "\<forall>x \<in> set (db_runs s). 0 \<le> nr_created_at x"
    "\<forall>x \<in> set (db_pointers s). plain_pointer (snd x)" "distinct (map fst (db_pointers s))"
    using assms by (auto simp: plain_db_def)
  show "db_faults s = []" "0 \<le> db_clock s" "distinct (map fst (db_pointers s))" using ok by blast+
  show "x \<in> set (db_plans s) \<Longrightarrow> plain_plan (snd x)" "y \<in> set (db_tasks s) \<Longrightarrow> plain_task (snd y)"
    "i \<in> set (db_items s) \<Longrightarrow> 0 \<le> ir_updated_at (snd i)" "z \<in> set (db_receipts s) \<Longrightarrow> 0 \<le> rr_created_at (snd z)"
    "r \<in> set (db_runs s) \<Longrightarrow> 0 \<le> nr_created_at r" "q \<in> set (db_pointers s) \<Longrightarrow> plain_pointer (snd q)"
    using ok by blast+
  show "map_of (db_plans s) pk = Some prow \<Longrightarrow> plain_plan prow"
    "map_of (db_receipts s) rk = Some rrow \<Longrightarrow> 0 \<le> rr_created_at rrow"
    "map_of (db_pointers s) qk = Some qrow \<Longrightarrow> plain_pointer qrow"
    using ok map_of_SomeD snd_conv by metis+
qed

lemma set_update_snd: "x \<in> snd ` set (AList.update k v al) \<Longrightarrow> x = v \<or> x \<in> snd ` set al"
  by (induction al) (auto split: if_splits)

lemma set_map_entry_snd: "x \<in> snd ` set (AList.map_entry k h al) \<Longrightarrow> (\<exists>v. x = h v \<and> v \<in> snd ` set al) \<or> x \<in> snd ` set al"
  by (induction al) (auto split: if_splits)

lemma all_update:
  "\<forall>row \<in> snd ` set al. P row \<Longrightarrow> P v \<Longrightarrow> \<forall>row \<in> snd ` set (AList.update k v al). P row"
  by (intro ballI) (drule set_update_snd, auto)

lemma all_map_entry:
  "\<forall>row \<in> snd ` set al. P row \<Longrightarrow> (\<And>v. P v \<Longrightarrow> P (h v)) \<Longrightarrow> \<forall>row \<in> snd ` set (AList.map_entry k h al). P row"
  by (intro ballI) (drule set_map_entry_snd, auto)

lemma plain_update:
  assumes "plain_db s"
  shows "plain_plan prow \<Longrightarrow> plain_db (s\<lparr>db_plans := AList.update pk prow (db_plans s)\<rparr>)"
    "plain_task trow \<Longrightarrow> plain_db (s\<lparr>db_tasks := AList.update tk trow (db_tasks s)\<rparr>)"
    "0 \<le> ir_updated_at irow \<Longrightarrow> plain_db (s\<lparr>db_items := AList.update ik irow (db_items s)\<rparr>)"
    "0 \<le> rr_created_at rrow \<Longrightarrow> plain_db (s\<lparr>db_receipts := AList.update rk rrow (db_receipts s)\<rparr>)"
    "plain_pointer qrow \<Longrightarrow> plain_db (s\<lparr>db_pointers := AList.update qk qrow (db_pointers s)\<rparr>)"
proof -
  note d = assms[unfolded plain_db_def]
  have ok: "\<forall>row \<in> snd ` set (db_plans s). plain_plan row" "\<forall>row \<in> snd ` set (db_tasks s). plain_task row"
    "\<forall>row \<in> snd ` set (db_items s). 0 \<le> ir_updated_at row" "\<forall>row \<in> snd ` set (db_receipts s). 0 \<le> rr_created_at row"
    "\<forall>row \<in> snd ` set (db_pointers s). plain_pointer row"
    by (insert d, (elim conjE, assumption)+)
  show "plain_db (s\<lparr>db_plans := AList.update pk prow (db_plans s)\<rparr>)" if "plain_plan prow"
  proof -
    have "\<forall>row \<in> snd ` set (AList.update pk prow (db_plans s)). plain_plan row"
      by (rule all_update[OF ok(1) that])
    then show ?thesis using d unfolding plain_db_def by simp
  qed
  show "plain_db (s\<lparr>db_tasks := AList.update tk trow (db_tasks s)\<rparr>)" if "plain_task trow"
  proof -
    have "\<forall>row \<in> snd ` set (AList.update tk trow (db_tasks s)). plain_task row"
      by (rule all_update[OF ok(2) that])
    then show ?thesis using d unfolding plain_db_def by simp
  qed
  show "plain_db (s\<lparr>db_items := AList.update ik irow (db_items s)\<rparr>)" if "0 \<le> ir_updated_at irow"
  proof -
    have "\<forall>row \<in> snd ` set (AList.update ik irow (db_items s)). (\<lambda>r. 0 \<le> ir_updated_at r) row"
      by (rule all_update[OF ok(3) that])
    then show ?thesis using d unfolding plain_db_def by simp
  qed
  show "plain_db (s\<lparr>db_receipts := AList.update rk rrow (db_receipts s)\<rparr>)" if "0 \<le> rr_created_at rrow"
  proof -
    have "\<forall>row \<in> snd ` set (AList.update rk rrow (db_receipts s)). (\<lambda>r. 0 \<le> rr_created_at r) row"
      by (rule all_update[OF ok(4) that])
    then show ?thesis using d unfolding plain_db_def by simp
  qed
  show "plain_db (s\<lparr>db_pointers := AList.update qk qrow (db_pointers s)\<rparr>)" if "plain_pointer qrow"
  proof -
    have "\<forall>row \<in> snd ` set (AList.update qk qrow (db_pointers s)). plain_pointer row"
      by (rule all_update[OF ok(5) that])
    then show ?thesis using d distinct_update[of "db_pointers s" qk qrow] unfolding plain_db_def by simp
  qed
qed

section \<open>Simulation\<close>

text \<open>Errors of the driver differ in their text only.\<close>

definition same_error :: "go_error \<Rightarrow> go_error \<Rightarrow> bool" where
  "same_error e e' \<longleftrightarrow> e = e' \<or> (\<exists>m m'. e = ErrDB m \<and> e' = ErrDB m')"

fun same_result :: "('a \<Rightarrow> 'b \<Rightarrow> bool) \<Rightarrow> 'a go_result \<Rightarrow> 'b go_result \<Rightarrow> bool" where
  "same_result R (Inr x) (Inr y) = R x y"
| "same_result R (Inl e) (Inl e') = same_error e e'"
| "same_result R _ _ = False"

text \<open>\<open>sim R m m'\<close>: from corresponding tables, \<open>m'\<close> on Postgres answers as \<open>m\<close> on SQLite does, and the
  tables correspond again.\<close>

definition sim :: "('a \<Rightarrow> 'b \<Rightarrow> bool) \<Rightarrow> 'a db_op \<Rightarrow> 'b db_op \<Rightarrow> bool" where
  "sim R m m' \<longleftrightarrow> (\<forall>s. plain_db s \<longrightarrow> plain_db (snd (m s)) \<and>
     snd (m' (pg_of s)) = pg_of (snd (m s)) \<and> same_result R (fst (m s)) (fst (m' (pg_of s))))"

named_theorems sim_intros \<open>rules of the simulation\<close>

lemma simI:
  assumes "\<And>s. plain_db s \<Longrightarrow> \<exists>r r' s1. m s = (r, s1) \<and> m' (pg_of s) = (r', pg_of s1) \<and> plain_db s1 \<and> same_result R r r'"
  shows "sim R m m'"
  unfolding sim_def using assms by (metis fst_conv snd_conv)

lemma simE:
  assumes "sim R m m'" "plain_db s"
  obtains r r' s1 where "m s = (r, s1)" "m' (pg_of s) = (r', pg_of s1)" "plain_db s1" "same_result R r r'"
  using assms unfolding sim_def by (metis prod.collapse)

lemma sim_ret [sim_intros]: "R x y \<Longrightarrow> sim R (ret_db x) (ret_db y)"
  by (simp add: sim_def ret_db_def)

lemma sim_fail [sim_intros]: "same_error e e' \<Longrightarrow> sim R (fail_db e) (fail_db e')"
  by (simp add: sim_def fail_db_def)

lemma same_error_simps [simp]: "same_error e e" "same_error (ErrDB m) (ErrDB m')"
  by (simp_all add: same_error_def)

lemma sim_call [sim_intros]: "sim (\<lambda>_ _. True) (db_call m) (db_call m')"
  by (auto simp: sim_def db_call_def plain_dbD(1))

lemma sim_exec [sim_intros]: "n \<le> 65535 \<Longrightarrow> sim (\<lambda>_ _. True) (db_call m) (pg_exec m' n)"
  using sim_call by (simp add: pg_exec_def)

lemma sim_get: "(\<And>s. plain_db s \<Longrightarrow> R (f s) (g (pg_of s))) \<Longrightarrow> sim R (get_db f) (get_db g)"
  by (simp add: sim_def get_db_def)

lemma sim_modify:
  "(\<And>s. plain_db s \<Longrightarrow> plain_db (f s) \<and> g (pg_of s) = pg_of (f s)) \<Longrightarrow> sim (\<lambda>_ _. True) (modify_db f) (modify_db g)"
  by (simp add: sim_def modify_db_def)

lemma sim_bind:
  assumes "sim Q m m'" "\<And>x y. Q x y \<Longrightarrow> sim R (f x) (g y)"
  shows "sim R (bind_db m f) (bind_db m' g)"
proof (rule simI)
  fix s assume s: "plain_db s"
  obtain r r' s1 where m: "m s = (r, s1)" "m' (pg_of s) = (r', pg_of s1)" "plain_db s1" "same_result Q r r'"
    by (rule simE[OF assms(1) s])
  show "\<exists>r r' s1. bind_db m f s = (r, s1) \<and> bind_db m' g (pg_of s) = (r', pg_of s1) \<and> plain_db s1 \<and> same_result R r r'"
  proof (cases "\<exists>x y. r = Inr x \<and> r' = Inr y \<and> Q x y")
    case True
    then obtain x y where xy: "r = Inr x" "r' = Inr y" "Q x y" by blast
    obtain q q' s2 where "f x s1 = (q, s2)" "g y (pg_of s1) = (q', pg_of s2)" "plain_db s2" "same_result R q q'"
      by (rule simE[OF assms(2)[OF xy(3)] m(3)])
    then show ?thesis using m xy by (simp add: bind_db_def)
  next
    case False
    then obtain e e' where "r = Inl e" "r' = Inl e'" "same_error e e'"
      using m(4) by (cases r; cases r') auto
    then show ?thesis using m by (simp add: bind_db_def)
  qed
qed

lemma sim_bind_call [sim_intros]:
  "sim R f g \<Longrightarrow> sim R (bind_db (db_call m) (\<lambda>_. f)) (bind_db (db_call m') (\<lambda>_. g))"
  by (rule sim_bind[OF sim_call])

lemma sim_bind_exec [sim_intros]:
  "n \<le> 65535 \<Longrightarrow> sim R f g \<Longrightarrow> sim R (bind_db (db_call m) (\<lambda>_. f)) (bind_db (pg_exec m' n) (\<lambda>_. g))"
  by (rule sim_bind[OF sim_exec])

lemma sim_if: "(b \<Longrightarrow> sim R m m') \<Longrightarrow> sim R n n' \<Longrightarrow> sim R (if b then m else n) (if b then m' else n')"
  by simp

lemma sim_if_right: "(b \<Longrightarrow> sim R m n) \<Longrightarrow> (\<not> b \<Longrightarrow> sim R m n') \<Longrightarrow> sim R m (if b then n else n')"
  by simp

lemma sim_weaken: "sim Q m m' \<Longrightarrow> (\<And>x y. Q x y \<Longrightarrow> R x y) \<Longrightarrow> sim R m m'"
proof -
  assume "sim Q m m'" and QR: "\<And>x y. Q x y \<Longrightarrow> R x y"
  moreover have "same_result Q r r' \<Longrightarrow> same_result R r r'" for r r' using QR by (cases r; cases r') auto
  ultimately show ?thesis unfolding sim_def by blast
qed

lemma in_tx_fails:
  "db_faults s = [] \<Longrightarrow> m s = (Inl e, s1) \<Longrightarrow> db_faults s1 = [] \<Longrightarrow> in_tx m s = (Inl e, s)"
  by (simp add: in_tx_def bind_db_def db_call_def)

lemma sim_in_tx [sim_intros]:
  assumes "sim R m m'"
  shows "sim R (in_tx m) (in_tx m')"
proof (rule simI)
  fix s assume s: "plain_db s"
  obtain r r' s1 where m: "m s = (r, s1)" "m' (pg_of s) = (r', pg_of s1)" "plain_db s1" "same_result R r r'"
    by (rule simE[OF assms s])
  have nf: "db_faults s = []" "db_faults s1 = []" using plain_dbD(1) s m(3) by blast+
  show "\<exists>r r' s1. in_tx m s = (r, s1) \<and> in_tx m' (pg_of s) = (r', pg_of s1) \<and> plain_db s1 \<and> same_result R r r'"
  proof (cases "\<exists>x y. r = Inr x \<and> r' = Inr y")
    case True
    then show ?thesis using m nf by (auto simp: in_tx_def bind_db_def db_call_def ret_db_def)
  next
    case False
    then obtain e e' where e: "r = Inl e" "r' = Inl e'" "same_error e e'"
      using m(4) by (cases r; cases r') auto
    have "in_tx m s = (Inl e, s)" "in_tx m' (pg_of s) = (Inl e', pg_of s)"
      using in_tx_fails[of s m e s1] in_tx_fails[of "pg_of s" m' e' "pg_of s1"] m(1,2) e nf by simp_all
    then show ?thesis using s e(3) by simp
  qed
qed

lemma sim_each:
  assumes "\<And>x. x \<in> set xs \<Longrightarrow> sim (=) (f x) (g x)"
  shows "sim (=) (each_db f xs) (each_db g xs)"
  using assms by (induction xs) (auto intro!: sim_bind[of "(=)"] sim_ret)

lemma sim_result: "sim R m m' \<Longrightarrow> plain_db s \<Longrightarrow> same_result R (fst (m s)) (fst (m' (pg_of s)))"
  by (simp add: sim_def)

end
