(* ===== verification/Pg_Agree_Plans.thy ===== *)
theory Pg_Agree_Plans
  imports Pg_Sim
begin

text \<open>
  Work items, work plans, receipts, runs, attempts and batches: each operation on Postgres simulates
  the one on SQLite.
\<close>

section \<open>Rows\<close>

lemma nonNil_eq [simp]: "pg_nonNilStringList = nonNilStringList" "pg_nonNilStringListPreserveOrder = nonNilStringList"
  by (auto simp: fun_eq_iff pg_nonNilStringList_def pg_nonNilStringListPreserveOrder_def nonNilStringList_def)

text \<open>Reading a normalized list once or twice is the same.\<close>

lemma norm_list_twice:
  assumes "norm_list l"
  shows "NormalizeStringList (NormalizeStringList l) = NormalizeStringList l"
proof (cases "elems l = []")
  case True
  then show ?thesis by (simp add: NormalizeStringList_def)
next
  case False
  have "elems (NormalizeStringList l) = elems l" by (rule norm_list_fixed[OF assms])
  then have "NormalizeStringList (NormalizeStringList l) = Some (sort (norm_unique TrimSpace [] (elems l)))"
    using False by (simp add: NormalizeStringList_def)
  then show ?thesis using False by (simp add: NormalizeStringList_def)
qed

lemma plan_of_row_agree: "plain_plan row \<Longrightarrow> pg_plan_of_row p k (pg_plan row) = plan_of_row p k row"
  by (cases "pr_receipt_id row")
     (simp_all add: pg_plan_of_row_def plan_of_row_def Let_def plain_plan_def decodeStringList_def
       norm_list_twice pg_time_scale)

lemma task_of_row_agree: "plain_task row \<Longrightarrow> pg_task_of_row (k, pg_task row) = task_of_row (k, row)"
  by (simp add: pg_task_of_row_def task_of_row_def Let_def plain_task_def decodeStringList_def
      norm_list_twice pg_time_scale)

lemma filter_triples:
  "map (\<lambda>((_, _, k), row). (k, row)) (filter (\<lambda>((p, k, _), _). P p k) (on_rows f al)) =
   map (map_prod id f) (map (\<lambda>((_, _, k), row). (k, row)) (filter (\<lambda>((p, k, _), _). P p k) al))"
  by (induction al) (auto simp: on_rows_def)

lemma sort_key_fst: "sort_key fst (map (map_prod id f) xs) = map (map_prod id f) (sort_key fst xs)"
  by (rule sort_key_map) simp

lemma view_tasks_agree:
  assumes "plain_db s"
  shows "filter (\<lambda>item. wi_ItemKey item \<noteq> '''') (map pg_task_of_row (pg_task_rows p k (pg_of s))) = view_tasks s p k"
proof -
  have rows: "pg_task_rows p k (pg_of s) = map (map_prod id pg_task) (task_rows_of p k s)"
    unfolding pg_task_rows_def task_rows_of_def pg_of_sel filter_triples sort_key_fst by (rule refl)
  have plain: "plain_task row" if "(t, row) \<in> set (task_rows_of p k s)" for t row
    using that plain_dbD(5)[OF assms] by (auto simp: task_rows_of_def)
  have key: "wi_ItemKey (pg_task_of_row (t, row)) = TrimSpace t" "wi_ItemKey (task_of_row (t, row)) = TrimSpace t" for t row
    by (simp_all add: pg_task_of_row_def task_of_row_def Let_def)
  have "filter (\<lambda>item. wi_ItemKey item \<noteq> '''') (map pg_task_of_row (map (map_prod id pg_task) xs)) =
      map task_of_row (filter (\<lambda>(t, _). TrimSpace t \<noteq> '''') xs)"
    if "set xs \<subseteq> set (task_rows_of p k s)" for xs
    using that by (induction xs) (auto simp: key task_of_row_agree plain)
  then show ?thesis unfolding rows view_tasks_def by simp
qed

section \<open>Work items\<close>

lemma put_items_on_rows:
  "foldl (\<lambda>al (k, st). AList.update (p, r, k) \<lparr> ir_status = st, ir_updated_at = scale c \<rparr> al) (on_rows pg_item al)
     (map (\<lambda>i. (wi_ItemKey i, StorageWorkItemStatus (wi_Status i))) items) =
   on_rows pg_item (put_items p r c items al)"
proof (induction items arbitrary: al)
  case (Cons i items)
  have "AList.update k \<lparr> ir_status = st, ir_updated_at = scale c \<rparr> (on_rows pg_item al) =
      on_rows pg_item (AList.update k \<lparr> ir_status = st, ir_updated_at = c \<rparr> al)" for k st
    using on_rows_update[of k pg_item "\<lparr> ir_status = st, ir_updated_at = c \<rparr>" al] by (simp add: pg_item_def)
  then show ?case using Cons by (simp add: put_items_def)
qed (simp add: put_items_def)

lemma NormalizeWorkItems_length:
  assumes "NormalizeWorkItems raws = Inr items"
  shows "length items \<le> length raws"
proof -
  have items: "items = nwi.emitted raws" using assms by (auto simp: NormalizeWorkItems_def nwi.emitted_def split: if_splits)
  have "length items = card (wi_ItemKey ` set items)"
    using nwi.emitted_keys_distinct[of raws] distinct_card[of "map wi_ItemKey items"] items by simp
  also have "\<dots> \<le> card ((\<lambda>raw. NormalizeRepoPath (wi_ItemKey raw)) ` set raws)"
    using nwi.emitted_key_set[of raws] items by (intro card_mono) auto
  also have "\<dots> \<le> length raws" using card_image_le[of "set raws"] card_length[of raws] by (meson List.finite_set le_trans)
  finally show ?thesis .
qed

lemma plain_put_items:
  assumes "plain_db s"
  shows "plain_db (s\<lparr>db_items := put_items p r (db_clock s) items (db_items s)\<rparr>)"
proof -
  have "0 \<le> ir_updated_at row"
    if "row \<in> snd ` set (put_items p r (db_clock s) items (db_items s))" for row
    using that
  proof (induction items arbitrary: row rule: rev_induct)
    case Nil
    then show ?case using plain_dbD(6)[OF assms] by (auto simp: put_items_def)
  next
    case (snoc i items)
    show ?case
      using set_update_snd[OF snoc.prems[unfolded put_items_def foldl_append foldl.simps, folded put_items_def]]
        snoc.IH plain_dbD(2)[OF assms] by auto
  qed
  then show ?thesis using assms by (simp add: plain_db_def)
qed

lemma sim_UpsertWorkItems:
  assumes "length (wui_Items input) \<le> 32766"
  shows "sim (=) (UpsertWorkItems input) (pg_UpsertWorkItems input)"
proof (rule simI)
  fix s assume s: "plain_db s"
  let ?p = "TrimSpace (wui_ProjectID input)" and ?r = "TrimSpace (wui_ReceiptID input)"
  show "\<exists>r r' s1. UpsertWorkItems input s = (r, s1) \<and> pg_UpsertWorkItems input (pg_of s) = (r', pg_of s1) \<and>
      plain_db s1 \<and> same_result (=) r r'"
  proof (cases "?p = '''' \<or> ?r = ''''")
    case True
    then show ?thesis
      using s by (auto simp: UpsertWorkItems_def pg_UpsertWorkItems_def buildUpsertWorkItemsQuery_def Let_def fail_db_def)
  next
    case False
    show ?thesis
    proof (cases "NormalizeWorkItems (wui_Items input)")
      case (Inl e)
      then show ?thesis
        using s False by (simp add: UpsertWorkItems_def pg_UpsertWorkItems_def buildUpsertWorkItemsQuery_def Let_def
            fail_db_def)
    next
      case (Inr items)
      show ?thesis
      proof (cases "items = []")
        case True
        then show ?thesis
          using s False Inr by (simp add: UpsertWorkItems_def pg_UpsertWorkItems_def buildUpsertWorkItemsQuery_def
              Let_def fail_db_def)
      next
        case items: False
        have nf: "db_faults s = []" "db_faults (pg_of s) = []" using plain_dbD(1)[OF s] by simp_all
        have few: "2 + 2 * length items \<le> 65535" using NormalizeWorkItems_length[OF Inr] assms by simp
        have sq: "UpsertWorkItems input s = in_tx (each_db (upsert_item_row ?p ?r) items) s"
          using False Inr items by (simp add: UpsertWorkItems_def Let_def)
        have pg: "pg_UpsertWorkItems input (pg_of s) = (case map_of (db_receipts s) ?r of
            None \<Rightarrow> (Inl (ErrDB ''upsert work items: violates foreign key constraint''), pg_of s)
          | Some _ \<Rightarrow> (Inr (length items), (pg_of s)\<lparr>db_items :=
              on_rows pg_item (put_items ?p ?r (db_clock s) items (db_items s))\<rparr>))"
          using False Inr items few nf(2) put_items_on_rows[of ?p ?r "db_clock s" "db_items s" items]
          by (simp add: pg_UpsertWorkItems_def buildUpsertWorkItemsQuery_def Let_def pg_exec_def
              db_op_defs split: option.split)
        show ?thesis
        proof (cases "map_of (db_receipts s) ?r")
          case None
          have "upsert_item_row ?p ?r (hd items) s = (Inl (ErrDB ''upsert work item: FOREIGN KEY constraint failed''), s)"
            using None nf by (simp add: upsert_item_row_def db_op_defs)
          then have "each_db (upsert_item_row ?p ?r) items s =
              (Inl (ErrDB ''upsert work item: FOREIGN KEY constraint failed''), s)"
            using items by (cases items) (simp_all add: bind_db_def)
          then have "in_tx (each_db (upsert_item_row ?p ?r) items) s =
              (Inl (ErrDB ''upsert work item: FOREIGN KEY constraint failed''), s)"
            by (rule in_tx_fails[where m = "each_db (upsert_item_row ?p ?r) items", OF nf(1) _ nf(1)])
          then show ?thesis using sq pg None s by simp
        next
          case (Some row)
          let ?s' = "s\<lparr>db_items := put_items ?p ?r (db_clock s) items (db_items s)\<rparr>"
          have "each_db (upsert_item_row ?p ?r) items s = (Inr (length items), ?s')"
            using each_upsert_item_eval[OF nf(1), of ?r ?p items] Some by simp
          then have "UpsertWorkItems input s = (Inr (length items), ?s')"
            using sq nf(1) by (simp add: in_tx_no_faults)
          moreover have "pg_of ?s' = (pg_of s)\<lparr>db_items := on_rows pg_item (db_items ?s')\<rparr>" by (simp add: pg_of_def)
          ultimately show ?thesis using pg Some plain_put_items[OF s] by simp
        qed
      qed
    qed
  qed
qed

lemma item_rows_agree:
  assumes "plain_db s"
  shows "filter (\<lambda>item. wi_ItemKey item \<noteq> '''')
      (map pg_item_of_row (sort_key fst (map (\<lambda>((_, _, k), row). (k, row))
        (filter (\<lambda>((p, r, _), _). p = p0 \<and> r = r0) (db_items (pg_of s)))))) =
    map item_of_row (filter (\<lambda>(k, _). NormalizeRepoPath k \<noteq> '''') (item_rows_of p0 r0 s))"
proof -
  have plain: "0 \<le> ir_updated_at row" if "(t, row) \<in> set (item_rows_of p0 r0 s)" for t row
    using that plain_dbD(6)[OF assms] by (auto simp: item_rows_of_def)
  have key: "wi_ItemKey (pg_item_of_row (t, row)) = NormalizeRepoPath t" for t row
    by (simp add: pg_item_of_row_def)
  have "filter (\<lambda>item. wi_ItemKey item \<noteq> '''') (map pg_item_of_row (map (map_prod id pg_item) xs)) =
      map item_of_row (filter (\<lambda>(t, _). NormalizeRepoPath t \<noteq> '''') xs)"
    if "set xs \<subseteq> set (item_rows_of p0 r0 s)" for xs
    using that
    by (induction xs) (auto simp: key plain pg_item_of_row_def item_of_row_def pg_time_scale)
  then show ?thesis unfolding item_rows_of_def pg_of_sel filter_triples sort_key_fst by blast
qed

lemma sim_ListWorkItems: "sim (=) (ListWorkItems input) (pg_ListWorkItems input)"
  unfolding ListWorkItems_def pg_ListWorkItems_def buildListWorkItemsQuery_def Let_def
  by (auto intro!: sim_intros sim_get simp: item_rows_agree[symmetric] simp del: pg_of_sel)


section \<open>Work plans\<close>

text \<open>The lists of a plan that is read are normalized ones, and those of the state built from it; the
  discovered paths are when normalizing a path leaves no white space around it.\<close>

definition norm_plan :: "WorkPlan \<Rightarrow> bool" where
  "norm_plan p \<longleftrightarrow> list_all norm_list [wp_InScope p, wp_OutOfScope p, wp_DiscoveredPaths p, wp_Constraints p,
     wp_References p, wp_ExternalRefs p]"

definition trim_paths :: "string list \<Rightarrow> bool" where
  "trim_paths ps \<longleftrightarrow> list_all (\<lambda>p. TrimSpace (NormalizeRepoPath p) = NormalizeRepoPath p) ps"

lemma norm_list_paths:
  assumes "trim_paths (elems vs)"
  shows "norm_list (NormalizeRepoPathList vs)"
proof -
  have "elems (NormalizeRepoPathList vs) = elems (NormalizeRepoPathList (Some (elems vs)))"
    by (simp add: NormalizeRepoPathList_def)
  then show ?thesis
    using assms nrpl.nl_sorted[of "elems vs"] nrpl.nl_distinct[of "elems vs"] nrpl.nl_set[of "elems vs"]
    by (auto simp: norm_list_def list_all_iff trim_paths_def)
qed

lemma norm_plan_zero [simp]: "norm_plan WorkPlan_zero"
  by (simp add: norm_plan_def)

lemma norm_plan_tasks [simp]: "norm_plan (p\<lparr>wp_Tasks := ts\<rparr>) = norm_plan p"
  by (simp add: norm_plan_def)

lemma norm_plan_read: "norm_plan (plan_of_row p k row)"
  by (simp add: norm_plan_def plan_of_row_def Let_def)

lemma norm_plan_next:
  assumes "norm_plan current" "trim_paths (elems (wpi_DiscoveredPaths input))"
  shows "norm_plan (BuildNextWorkPlanState current there input mode)"
  using assms norm_list_paths[OF assms(2)]
  by (cases "there \<and> mode \<noteq> WorkPlanModeReplace")
     (simp_all add: norm_plan_def BuildNextWorkPlanState_def Let_def pending_plan_def)

lemma plain_stored_plan: "0 \<le> t \<Longrightarrow> norm_plan p \<Longrightarrow>
    plain_plan \<lparr> pr_plan = stored_plan p, pr_receipt_id = r, pr_updated_at = t \<rparr>"
  by (simp add: plain_plan_def norm_plan_def stored_plan_def Let_def)

lemma plain_stored_task: "0 \<le> t \<Longrightarrow> wf_task i \<Longrightarrow> plain_task \<lparr> tr_task = stored_task i, tr_updated_at = t \<rparr>"
  by (simp add: plain_task_def stored_task_def wf_task_def Let_def)

lemma sim_lookupWorkPlanRow:
  "sim (\<lambda>x y. x = y \<and> (\<forall>p. x = Some p \<longrightarrow> norm_plan p)) (lookupWorkPlanRow p k) (lookupWorkPlanRowTx p k)"
  unfolding lookupWorkPlanRow_def lookupWorkPlanRowTx_def
proof (rule sim_bind_call, rule sim_get)
  fix s assume s: "plain_db s"
  show "map_option (plan_of_row p k) (map_of (db_plans s) (p, k)) =
      map_option (pg_plan_of_row p k) (map_of (db_plans (pg_of s)) (p, k)) \<and>
    (\<forall>q. map_option (plan_of_row p k) (map_of (db_plans s) (p, k)) = Some q \<longrightarrow> norm_plan q)"
    using plain_dbD(3)[OF s] by (cases "map_of (db_plans s) (p, k)") (auto simp: plan_of_row_agree norm_plan_read)
qed

lemma pg_lookup_same [simp]: "pg_lookupWorkPlanRow = lookupWorkPlanRowTx" "pg_listWorkPlanTasks = listWorkPlanTasksTx"
  by (simp_all add: fun_eq_iff pg_lookupWorkPlanRow_def lookupWorkPlanRowTx_def pg_listWorkPlanTasks_def
      listWorkPlanTasksTx_def)

lemma sim_listWorkPlanTasks: "sim (=) (listWorkPlanTasks p k) (listWorkPlanTasksTx p k)"
  unfolding listWorkPlanTasks_def listWorkPlanTasksTx_def
  by (rule sim_bind_call, rule sim_get) (simp only: view_tasks_agree view_tasks_def)

lemma sim_LookupWorkPlan: "sim (=) (LookupWorkPlan input) (pg_LookupWorkPlan input)"
proof -
  let ?p = "TrimSpace (wpq_ProjectID input)" and ?r = "TrimSpace (wpq_ReceiptID input)"
  have rows: "sort_key (\<lambda>(k, row). (- pr_updated_at row, k)) (map (\<lambda>((_, k), row). (k, row))
        (filter (\<lambda>((p, _), row). p = p0 \<and> pr_receipt_id row = Some r) (on_rows pg_plan al))) =
      map (map_prod id pg_plan) (sort_key (\<lambda>(k, row). (- pr_updated_at row, k)) (map (\<lambda>((_, k), row). (k, row))
        (filter (\<lambda>((p, _), row). p = p0 \<and> pr_receipt_id row = Some r) al)))" for p0 r al
  proof -
    have "map (\<lambda>((_, k), row). (k, row)) (filter (\<lambda>((p, _), row). p = p0 \<and> pr_receipt_id row = Some r) (on_rows pg_plan al)) =
        map (map_prod id pg_plan) (map (\<lambda>((_, k), row). (k, row))
          (filter (\<lambda>((p, _), row). p = p0 \<and> pr_receipt_id row = Some r) al))"
      by (induction al) (auto simp: on_rows_def)
    then show ?thesis by (simp only:) (rule sort_key_map, auto simp: less_eq_prod_def)
  qed
  have key: "sim (=) (bind_db (get_db (\<lambda>s. sort_key (\<lambda>(k, row). (- pr_updated_at row, k))
        (map (\<lambda>((_, k), row). (k, row)) (filter (\<lambda>((p, _), row). p = ?p \<and> pr_receipt_id row = Some ?r) (db_plans s)))))
      (\<lambda>rows. case rows of [] \<Rightarrow> fail_db ErrWorkPlanNotFound | (k, _) # _ \<Rightarrow> ret_db k))
    (bind_db (get_db (\<lambda>s. sort_key (\<lambda>(k, row). (- pr_updated_at row, k))
        (map (\<lambda>((_, k), row). (k, row)) (filter (\<lambda>((p, _), row). p = ?p \<and> pr_receipt_id row = Some ?r) (db_plans s)))))
      (\<lambda>rows. case rows of [] \<Rightarrow> fail_db ErrWorkPlanNotFound | (k, _) # _ \<Rightarrow> ret_db k))"
    by (rule sim_bind[of "\<lambda>xs ys. ys = map (map_prod id pg_plan) xs"], rule sim_get)
       (auto simp: rows split: list.split intro!: sim_ret sim_fail)
  show ?thesis
    unfolding LookupWorkPlan_def pg_LookupWorkPlan_def Let_def pg_lookup_same
    by (auto intro!: sim_intros key sim_bind[of "(=)"] sim_listWorkPlanTasks
        sim_bind[OF sim_lookupWorkPlanRow] split: option.split)
qed


lemma upsertWorkPlanRowTx_same: "upsertWorkPlanRowTx plan = upsertWorkPlanRow plan"
  by (simp add: upsertWorkPlanRow_def upsertWorkPlanRowTx_def stored_plan_def Let_def)

lemma sim_upsertWorkPlanRow:
  assumes "norm_plan plan"
  shows "sim (\<lambda>_ _. True) (upsertWorkPlanRow plan) (upsertWorkPlanRowTx plan)"
  unfolding upsertWorkPlanRowTx_same unfolding upsertWorkPlanRow_def
proof (rule sim_bind_call, rule sim_modify, rule conjI)
  fix s assume s: "plain_db s"
  define r where "r = (if TrimSpace (wp_ReceiptID plan) \<noteq> '''' then Some (TrimSpace (wp_ReceiptID plan)) else None)"
  let ?k = "(TrimSpace (wp_ProjectID plan), TrimSpace (wp_PlanKey plan))"
  let ?row = "\<lambda>t. \<lparr> pr_plan = stored_plan plan, pr_receipt_id = r, pr_updated_at = t \<rparr>"
  have "plain_plan (?row (db_clock s))" by (rule plain_stored_plan[OF plain_dbD(2)[OF s] assms])
  then show "plain_db (s\<lparr>db_plans := AList.update ?k \<lparr> pr_plan = stored_plan plan, pr_receipt_id =
      (if TrimSpace (wp_ReceiptID plan) \<noteq> '''' then Some (TrimSpace (wp_ReceiptID plan)) else None),
      pr_updated_at = db_clock s \<rparr> (db_plans s)\<rparr>)"
    unfolding r_def[symmetric] by (rule plain_update(1)[OF s])
  have "AList.update ?k (?row (scale (db_clock s))) (on_rows pg_plan (db_plans s)) =
      on_rows pg_plan (AList.update ?k (?row (db_clock s)) (db_plans s))"
    using on_rows_update[of ?k pg_plan "?row (db_clock s)" "db_plans s"] by (simp add: pg_plan_def)
  then show "(pg_of s)\<lparr>db_plans := AList.update ?k \<lparr> pr_plan = stored_plan plan, pr_receipt_id =
      (if TrimSpace (wp_ReceiptID plan) \<noteq> '''' then Some (TrimSpace (wp_ReceiptID plan)) else None),
      pr_updated_at = db_clock (pg_of s) \<rparr> (db_plans (pg_of s))\<rparr> =
    pg_of (s\<lparr>db_plans := AList.update ?k \<lparr> pr_plan = stored_plan plan, pr_receipt_id =
      (if TrimSpace (wp_ReceiptID plan) \<noteq> '''' then Some (TrimSpace (wp_ReceiptID plan)) else None),
      pr_updated_at = db_clock s \<rparr> (db_plans s)\<rparr>)"
    unfolding r_def[symmetric] pg_of_sel by (simp add: pg_of_def)
qed

lemma sim_upsert_task:
  assumes "wf_task t"
  shows "sim (=) (upsert_task_row p k t) (pg_upsert_task p k t)"
proof -
  have stored: "\<lparr> wi_ItemKey = wi_ItemKey t, wi_Summary = TrimSpace (wi_Summary t),
      wi_Status = StorageWorkItemStatus (wi_Status t), wi_ParentTaskKey = TrimSpace (wi_ParentTaskKey t),
      wi_ParentTaskKeyClear = False, wi_DependsOn = pg_nonNilStringList (wi_DependsOn t),
      wi_AcceptanceCriteria = pg_nonNilStringList (wi_AcceptanceCriteria t),
      wi_References = pg_nonNilStringList (wi_References t), wi_ExternalRefs = pg_nonNilStringList (wi_ExternalRefs t),
      wi_BlockedReason = TrimSpace (wi_BlockedReason t), wi_Outcome = TrimSpace (wi_Outcome t),
      wi_Evidence = pg_nonNilStringList (wi_Evidence t), wi_UpdatedAt = 0 \<rparr> = stored_task t"
    by (simp add: stored_task_def)
  have put: "sim (\<lambda>_ _. True)
      (modify_db (\<lambda>s. s\<lparr>db_tasks := AList.update key \<lparr> tr_task = stored_task t, tr_updated_at = db_clock s \<rparr> (db_tasks s)\<rparr>))
      (modify_db (\<lambda>s. s\<lparr>db_tasks := AList.update key \<lparr> tr_task = stored_task t, tr_updated_at = db_clock s \<rparr> (db_tasks s)\<rparr>))"
    for key
  proof (rule sim_modify, rule conjI)
    fix s assume s: "plain_db s"
    let ?row = "\<lparr> tr_task = stored_task t, tr_updated_at = db_clock s \<rparr>"
    have "plain_task ?row" by (rule plain_stored_task[OF plain_dbD(2)[OF s] assms])
    then show "plain_db (s\<lparr>db_tasks := AList.update key ?row (db_tasks s)\<rparr>)" by (rule plain_update(2)[OF s])
    have "AList.update key \<lparr> tr_task = stored_task t, tr_updated_at = scale (db_clock s) \<rparr> (on_rows pg_task (db_tasks s)) =
        on_rows pg_task (AList.update key ?row (db_tasks s))"
      using on_rows_update[of key pg_task ?row "db_tasks s"] by (simp add: pg_task_def)
    then show "(pg_of s)\<lparr>db_tasks := AList.update key
        \<lparr> tr_task = stored_task t, tr_updated_at = db_clock (pg_of s) \<rparr> (db_tasks (pg_of s))\<rparr> =
      pg_of (s\<lparr>db_tasks := AList.update key ?row (db_tasks s)\<rparr>)" unfolding pg_of_sel by (simp add: pg_of_def)
  qed
  show ?thesis
    unfolding upsert_task_row_def pg_upsert_task_def stored
    by (rule sim_bind_call, rule sim_bind[of "\<lambda>x y. (x = None) = (y = None)"], rule sim_get)
       (auto intro!: sim_intros sim_bind[OF put] split: option.split)
qed

lemma length_sort_rows: "length (task_rows_of p k s) = length (filter (\<lambda>((p', k', _), _). p' = p \<and> k' = k) (db_tasks s))"
  by (simp add: task_rows_of_def)

lemma filter_tasks_on_rows:
  "filter (\<lambda>((p, k, _), _). P p k) (on_rows f al) = on_rows f (filter (\<lambda>((p, k, _), _). P p k) al)"
  by (induction al) (auto simp: on_rows_def)

lemma length_on_rows [simp]: "length (on_rows f al) = length al"
  by (simp add: on_rows_def)

lemma sim_delete_tasks: "sim (=) (delete_plan_tasks p k) (pg_delete_tasks p k)"
  unfolding delete_plan_tasks_def pg_delete_tasks_def length_sort_rows
proof (rule sim_bind_call, rule sim_bind[of "(=)"], rule sim_get)
  show "length (filter (\<lambda>((p', k', _), _). p' = p \<and> k' = k) (db_tasks s)) =
      length (filter (\<lambda>((p', k', _), _). p' = p \<and> k' = k) (db_tasks (pg_of s)))" for s
    unfolding pg_of_sel filter_tasks_on_rows by simp
next
  fix x y :: nat assume "x = y"
  have "plain_db (s\<lparr>db_tasks := filter (\<lambda>((p', k', _), _). \<not> (p' = p \<and> k' = k)) (db_tasks s)\<rparr>) \<and>
      (pg_of s)\<lparr>db_tasks := filter (\<lambda>((p', k', _), _). \<not> (p' = p \<and> k' = k)) (db_tasks (pg_of s))\<rparr> =
      pg_of (s\<lparr>db_tasks := filter (\<lambda>((p', k', _), _). \<not> (p' = p \<and> k' = k)) (db_tasks s)\<rparr>)"
    if "plain_db s" for s
    using that unfolding pg_of_sel filter_tasks_on_rows by (auto simp: plain_db_def pg_of_def)
  then show "sim (=) (bind_db (modify_db (\<lambda>s. s\<lparr>db_tasks := filter (\<lambda>((p', k', _), _). \<not> (p' = p \<and> k' = k)) (db_tasks s)\<rparr>)) (\<lambda>_. ret_db x))
      (bind_db (modify_db (\<lambda>s. s\<lparr>db_tasks := filter (\<lambda>((p', k', _), _). \<not> (p' = p \<and> k' = k)) (db_tasks s)\<rparr>)) (\<lambda>_. ret_db y))"
    using \<open>x = y\<close> by (intro sim_bind[OF sim_modify] sim_ret) auto
qed

lemma sim_update_plan_status: "sim (\<lambda>_ _. True) (update_plan_status p k st) (pg_update_plan_status p k st)"
  unfolding update_plan_status_def pg_update_plan_status_def
proof (rule sim_bind_call, rule sim_modify, rule conjI)
  fix s assume s: "plain_db s"
  let ?h = "\<lambda>row. row\<lparr>pr_plan := (pr_plan row)\<lparr>wp_Status := st\<rparr>, pr_updated_at := db_clock s\<rparr>"
  have "plain_plan row \<Longrightarrow> plain_plan (?h row)" for row
    using plain_dbD(2)[OF s] by (simp add: plain_plan_def Let_def)
  then have "\<forall>row \<in> snd ` set (AList.map_entry (p, k) ?h (db_plans s)). plain_plan row"
    using s by (intro all_map_entry) (auto simp: plain_db_def)
  then show "plain_db (s\<lparr>db_plans := AList.map_entry (p, k) ?h (db_plans s)\<rparr>)" using s by (simp add: plain_db_def)
  show "(pg_of s)\<lparr>db_plans := AList.map_entry (p, k)
      (\<lambda>row. row\<lparr>pr_plan := (pr_plan row)\<lparr>wp_Status := st\<rparr>, pr_updated_at := db_clock (pg_of s)\<rparr>) (db_plans (pg_of s))\<rparr> =
    pg_of (s\<lparr>db_plans := AList.map_entry (p, k) ?h (db_plans s)\<rparr>)"
    unfolding pg_of_sel by (subst on_rows_map_entry[where h = ?h]) (simp_all add: pg_of_def pg_plan_def)
qed

lemma sim_upsert_plan_tx:
  assumes "trim_paths (elems (wpi_DiscoveredPaths input))"
  shows "sim (=) (upsert_plan_body p k mode input) (pg_upsert_plan_tx p k mode input)"
  unfolding upsert_plan_body_def pg_upsert_plan_tx_def Let_def
proof (rule sim_bind[OF sim_lookupWorkPlanRow], elim conjE)
  fix looked looked' assume eq: "looked = looked'" and np: "\<forall>q. looked = Some q \<longrightarrow> norm_plan q"
  let ?c0 = "case looked of None \<Rightarrow> WorkPlan_zero | Some q \<Rightarrow> q"
  have c0: "norm_plan ?c0" using np by (simp split: option.split)
  have cur: "sim (\<lambda>x y. x = y \<and> norm_plan x)
      (if looked \<noteq> None \<and> mode = WorkPlanModeMerge \<and> wpi_Tasks input \<noteq> []
       then bind_db (listWorkPlanTasks p k) (\<lambda>ts. ret_db (?c0\<lparr>wp_Tasks := ts\<rparr>)) else ret_db ?c0)
      (if looked' \<noteq> None \<and> mode = WorkPlanModeMerge \<and> wpi_Tasks input \<noteq> []
       then bind_db (listWorkPlanTasksTx p k) (\<lambda>ts. ret_db ((case looked' of None \<Rightarrow> WorkPlan_zero | Some q \<Rightarrow> q)\<lparr>wp_Tasks := ts\<rparr>))
       else ret_db (case looked' of None \<Rightarrow> WorkPlan_zero | Some q \<Rightarrow> q))"
    using c0 eq by (auto intro!: sim_bind[OF sim_listWorkPlanTasks] sim_ret)
  have rest: "sim (=)
      (bind_db (upsertWorkPlanRow (BuildNextWorkPlanState c (looked \<noteq> None) input mode)) (\<lambda>_.
        bind_db (if mode = WorkPlanModeReplace then delete_plan_tasks p k else ret_db 0) (\<lambda>deleted.
        bind_db (each_db (upsert_task_row p k) (MergeIncomingWorkPlanTasks (wp_Tasks c) (wpi_Tasks input) mode)) (\<lambda>written.
        bind_db (if TrimSpace (wpi_Status input) = '''' then bind_db (listWorkPlanTasks p k) (\<lambda>tasks.
            update_plan_status p k (StorageWorkItemStatus (DerivePlanStatus tasks))) else ret_db ())
          (\<lambda>_. ret_db (deleted + written))))))
      (bind_db (upsertWorkPlanRowTx (BuildNextWorkPlanState c (looked \<noteq> None) input mode)) (\<lambda>_.
        bind_db (if mode = WorkPlanModeReplace then pg_delete_tasks p k else ret_db 0) (\<lambda>deleted.
        bind_db (each_db (pg_upsert_task p k) (MergeIncomingWorkPlanTasks (wp_Tasks c) (wpi_Tasks input) mode)) (\<lambda>written.
        bind_db (if TrimSpace (wpi_Status input) = '''' then bind_db (listWorkPlanTasksTx p k) (\<lambda>tasks.
            pg_update_plan_status p k (StorageWorkItemStatus (DerivePlanStatus tasks))) else ret_db ())
          (\<lambda>_. ret_db (deleted + written))))))" if "norm_plan c" for c
  proof (rule sim_bind[OF sim_upsertWorkPlanRow[OF norm_plan_next[OF that assms]]], rule sim_bind[of "(=)"])
    show "sim (=) (if mode = WorkPlanModeReplace then delete_plan_tasks p k else ret_db 0)
        (if mode = WorkPlanModeReplace then pg_delete_tasks p k else ret_db 0)"
      by (auto intro: sim_delete_tasks sim_ret)
  next
    fix d d' :: nat assume d: "d = d'"
    show "sim (=) (bind_db (each_db (upsert_task_row p k) (MergeIncomingWorkPlanTasks (wp_Tasks c) (wpi_Tasks input) mode)) (\<lambda>written.
        bind_db (if TrimSpace (wpi_Status input) = '''' then bind_db (listWorkPlanTasks p k) (\<lambda>tasks.
            update_plan_status p k (StorageWorkItemStatus (DerivePlanStatus tasks))) else ret_db ())
          (\<lambda>_. ret_db (d + written))))
      (bind_db (each_db (pg_upsert_task p k) (MergeIncomingWorkPlanTasks (wp_Tasks c) (wpi_Tasks input) mode)) (\<lambda>written.
        bind_db (if TrimSpace (wpi_Status input) = '''' then bind_db (listWorkPlanTasksTx p k) (\<lambda>tasks.
            pg_update_plan_status p k (StorageWorkItemStatus (DerivePlanStatus tasks))) else ret_db ())
          (\<lambda>_. ret_db (d' + written))))"
      using d by (intro sim_bind[OF sim_each[OF sim_upsert_task[OF MergeIncoming_wf]]]
          sim_bind[of "\<lambda>_ _. True"]) (auto intro!: sim_bind[OF sim_listWorkPlanTasks] sim_update_plan_status sim_ret)
  qed
  show "sim (=) (bind_db (if looked \<noteq> None \<and> mode = WorkPlanModeMerge \<and> wpi_Tasks input \<noteq> []
       then bind_db (listWorkPlanTasks p k) (\<lambda>ts. ret_db (?c0\<lparr>wp_Tasks := ts\<rparr>)) else ret_db ?c0) (\<lambda>current.
      bind_db (upsertWorkPlanRow (BuildNextWorkPlanState current (looked \<noteq> None) input mode)) (\<lambda>_.
        bind_db (if mode = WorkPlanModeReplace then delete_plan_tasks p k else ret_db 0) (\<lambda>deleted.
        bind_db (each_db (upsert_task_row p k) (MergeIncomingWorkPlanTasks (wp_Tasks current) (wpi_Tasks input) mode)) (\<lambda>written.
        bind_db (if TrimSpace (wpi_Status input) = '''' then bind_db (listWorkPlanTasks p k) (\<lambda>tasks.
            update_plan_status p k (StorageWorkItemStatus (DerivePlanStatus tasks))) else ret_db ())
          (\<lambda>_. ret_db (deleted + written)))))))
    (bind_db (if looked' \<noteq> None \<and> mode = WorkPlanModeMerge \<and> wpi_Tasks input \<noteq> []
       then bind_db (listWorkPlanTasksTx p k) (\<lambda>ts. ret_db ((case looked' of None \<Rightarrow> WorkPlan_zero | Some q \<Rightarrow> q)\<lparr>wp_Tasks := ts\<rparr>))
       else ret_db (case looked' of None \<Rightarrow> WorkPlan_zero | Some q \<Rightarrow> q)) (\<lambda>current.
      bind_db (upsertWorkPlanRowTx (BuildNextWorkPlanState current (looked' \<noteq> None) input mode)) (\<lambda>_.
        bind_db (if mode = WorkPlanModeReplace then pg_delete_tasks p k else ret_db 0) (\<lambda>deleted.
        bind_db (each_db (pg_upsert_task p k) (MergeIncomingWorkPlanTasks (wp_Tasks current) (wpi_Tasks input) mode)) (\<lambda>written.
        bind_db (if TrimSpace (wpi_Status input) = '''' then bind_db (listWorkPlanTasksTx p k) (\<lambda>tasks.
            pg_update_plan_status p k (StorageWorkItemStatus (DerivePlanStatus tasks))) else ret_db ())
          (\<lambda>_. ret_db (deleted + written)))))))"
    using rest eq by (intro sim_bind[OF cur]) auto
qed

lemma sim_UpsertWorkPlan:
  assumes "trim_paths (elems (wpi_DiscoveredPaths input))"
  shows "sim (=) (UpsertWorkPlan input) (pg_UpsertWorkPlan input)"
  unfolding UpsertWorkPlan_def pg_UpsertWorkPlan_def Let_def
  by (auto intro!: sim_intros sim_bind[OF sim_in_tx[OF sim_upsert_plan_tx[OF assms]]]
      sim_bind[OF sim_LookupWorkPlan])


end
