(* ===== verification/Pg_Agree_Receipts.thy ===== *)
theory Pg_Agree_Receipts
  imports Pg_Agree_Plans
begin

text \<open>
  Receipts, runs, review attempts and verification batches: each operation on Postgres simulates the
  one on SQLite.
\<close>

section \<open>Receipts\<close>

lemma nonNil_twice [simp]: "nonNilStringList (nonNilStringList l) = nonNilStringList l"
  by (simp add: nonNilStringList_def)

lemma sim_put_receipt:
  assumes "\<And>old t. g (map_option pg_scope old) (scale t) = pg_scope (f old t)"
    "\<And>old t. 0 \<le> t \<Longrightarrow> (\<And>row. old = Some row \<Longrightarrow> 0 \<le> rr_created_at row) \<Longrightarrow> 0 \<le> rr_created_at (f old t)"
  shows "sim (\<lambda>_ _. True)
    (modify_db (\<lambda>s. s\<lparr>db_receipts := AList.update k (f (map_of (db_receipts s) k) (db_clock s)) (db_receipts s)\<rparr>))
    (modify_db (\<lambda>s. s\<lparr>db_receipts := AList.update k (g (map_of (db_receipts s) k) (db_clock s)) (db_receipts s)\<rparr>))"
proof (rule sim_modify, rule conjI)
  fix s assume s: "plain_db s"
  let ?row = "f (map_of (db_receipts s) k) (db_clock s)"
  have "0 \<le> rr_created_at ?row"
    by (rule assms(2)[OF plain_dbD(2)[OF s]]) (rule plain_dbD(8)[OF s])
  then show "plain_db (s\<lparr>db_receipts := AList.update k ?row (db_receipts s)\<rparr>)" by (rule plain_update(4)[OF s])
  have "AList.update k (g (map_option pg_scope (map_of (db_receipts s) k)) (scale (db_clock s))) (on_rows pg_scope (db_receipts s)) =
      on_rows pg_scope (AList.update k ?row (db_receipts s))"
    unfolding assms(1) on_rows_update by (rule refl)
  then show "(pg_of s)\<lparr>db_receipts := AList.update k (g (map_of (db_receipts (pg_of s)) k) (db_clock (pg_of s)))
      (db_receipts (pg_of s))\<rparr> = pg_of (s\<lparr>db_receipts := AList.update k ?row (db_receipts s)\<rparr>)"
    unfolding pg_of_sel map_of_on_rows by (simp add: pg_of_def)
qed

definition pg_scope_row :: "receipt_row option \<Rightarrow> int \<Rightarrow> NormalizedReceiptScope \<Rightarrow> receipt_row" where
  "pg_scope_row old now n =
     \<lparr> rr_project_id = nsc_ProjectID n, rr_task_text = nsc_TaskText n, rr_phase = nsc_Phase n,
       rr_resolved_tags = pg_nonNilStringList (nsc_ResolvedTags n),
       rr_pointer_keys = pg_nonNilStringList (nsc_PointerKeys n),
       rr_initial_scope_paths = pg_nonNilStringList (nsc_InitialScopePaths n),
       rr_baseline_captured = nsc_BaselineCaptured n, rr_baseline_paths = nsc_BaselinePaths n,
       rr_actor = nsc_Actor n,
       rr_created_at = (case old of None \<Rightarrow> now | Some row \<Rightarrow> rr_created_at row) \<rparr>"

lemma sim_UpsertReceiptScope: "sim (=) (UpsertReceiptScope input) (pg_UpsertReceiptScope input)"
proof (cases "NormalizeReceiptScope input")
  case (Inl e)
  then show ?thesis by (simp add: UpsertReceiptScope_def pg_UpsertReceiptScope_def sim_fail)
next
  case (Inr n)
  have "sim (\<lambda>_ _. True) (modify_db (\<lambda>s. s\<lparr>db_receipts := AList.update (nsc_ReceiptID n)
        (scope_row (map_of (db_receipts s) (nsc_ReceiptID n)) (db_clock s) n) (db_receipts s)\<rparr>))
      (modify_db (\<lambda>s. s\<lparr>db_receipts := AList.update (nsc_ReceiptID n)
        (pg_scope_row (map_of (db_receipts s) (nsc_ReceiptID n)) (db_clock s) n) (db_receipts s)\<rparr>))"
    by (rule sim_put_receipt[of "\<lambda>old t. pg_scope_row old t n" "\<lambda>old t. scope_row old t n"])
       (auto simp: pg_scope_row_def scope_row_def pg_scope_def split: option.split)
  then have "sim (=) (modify_db (\<lambda>s. s\<lparr>db_receipts := AList.update (nsc_ReceiptID n)
        (scope_row (map_of (db_receipts s) (nsc_ReceiptID n)) (db_clock s) n) (db_receipts s)\<rparr>))
      (modify_db (\<lambda>s. s\<lparr>db_receipts := AList.update (nsc_ReceiptID n)
        (pg_scope_row (map_of (db_receipts s) (nsc_ReceiptID n)) (db_clock s) n) (db_receipts s)\<rparr>))"
    by (rule sim_weaken) simp
  from sim_bind_call[OF this] show ?thesis
    by (simp add: UpsertReceiptScope_def pg_UpsertReceiptScope_def Inr pg_scope_row_def)
qed

lemma pg_receipt_agree:
  "pg_receipt p r (pg_of s) = map_option pg_scope (pg_receipt p r s)"
  by (simp add: pg_receipt_def split: option.split)

lemma sim_FetchReceiptScope: "sim (=) (FetchReceiptScope input) (pg_FetchReceiptScope input)"
proof -
  let ?p = "TrimSpace (rsq_ProjectID input)" and ?r = "TrimSpace (rsq_ReceiptID input)"
  have "sim (=) (bind_db (get_db (\<lambda>s. map_of (db_receipts s) ?r)) (\<lambda>r. case r of
            None \<Rightarrow> fail_db ErrReceiptScopeNotFound
          | Some row \<Rightarrow> (if rr_project_id row = ?p then ret_db (scope_of_row ?p ?r row)
               else fail_db ErrReceiptScopeNotFound)))
      (bind_db (get_db (pg_receipt ?p ?r)) (\<lambda>r. case r of
            None \<Rightarrow> fail_db ErrReceiptScopeNotFound
          | Some row \<Rightarrow> ret_db
              \<lparr> rs_ProjectID = ?p, rs_ReceiptID = ?r,
                rs_TaskText = TrimSpace (rr_task_text row), rs_Phase = TrimSpace (rr_phase row),
                rs_ResolvedTags = NormalizeStringList (rr_resolved_tags row),
                rs_PointerKeys = NormalizeStringList (rr_pointer_keys row),
                rs_InitialScopePaths = NormalizeStringList (rr_initial_scope_paths row),
                rs_BaselineCaptured = rr_baseline_captured row,
                rs_BaselinePaths = NormalizeSyncPathList (rr_baseline_paths row),
                rs_Actor = rr_actor row \<rparr>))"
    by (rule sim_bind[of "\<lambda>x y. y = (case x of Some row \<Rightarrow> if rr_project_id row = ?p then Some (pg_scope row) else None
          | None \<Rightarrow> None)"], rule sim_get)
       (auto simp: pg_receipt_def scope_of_row_def decodeStringList_def decodeSyncPathList_def
         intro!: sim_ret sim_fail split: option.splits if_splits)
  then show ?thesis
    unfolding FetchReceiptScope_def pg_FetchReceiptScope_def buildFetchReceiptScopeQuery_def Let_def
    by (auto intro!: sim_intros)
qed

section \<open>Runs\<close>

definition pg_run_receipt_row :: "receipt_row option \<Rightarrow> int \<Rightarrow> NormalizedRunSummary \<Rightarrow> receipt_row" where
  "pg_run_receipt_row old now n =
     (case old of
         Some row \<Rightarrow> row
       | None \<Rightarrow> \<lparr> rr_project_id = '''', rr_task_text = '''', rr_phase = '''',
           rr_resolved_tags = Some [], rr_pointer_keys = Some [], rr_initial_scope_paths = Some [],
           rr_baseline_captured = False, rr_baseline_paths = [], rr_actor = Actor_zero,
           rr_created_at = now \<rparr>)
      \<lparr>rr_project_id := nrs_ProjectID n, rr_task_text := nrs_TaskText n, rr_phase := nrs_Phase n,
       rr_resolved_tags := pg_nonNilStringList (nrs_ResolvedTags n),
       rr_pointer_keys := pg_nonNilStringList (nrs_PointerKeys n)\<rparr>"

definition run_row_for :: "NormalizedRunSummary \<Rightarrow> int \<Rightarrow> int \<Rightarrow> run_row" where
  "run_row_for n runID t =
     \<lparr> nr_run_id = runID, nr_project_id = nrs_ProjectID n, nr_request_id = nrs_RequestID n,
       nr_receipt_id = nrs_ReceiptID n, nr_status = nrs_Status n,
       nr_files_changed = nonNilStringList (nrs_FilesChanged n),
       nr_dod_issues = nrs_DefinitionOfDoneIssues n, nr_outcome = nrs_Outcome n,
       nr_actor = nrs_Actor n, nr_vcs = nrs_VCS n, nr_created_at = t \<rparr>"

lemma sim_add_run:
  "sim (\<lambda>_ _. True)
     (modify_db (\<lambda>s. s\<lparr>db_next_run := i + 1, db_runs := db_runs s @ [run_row_for n i (db_clock s)]\<rparr>))
     (modify_db (\<lambda>s. s\<lparr>db_next_run := i + 1, db_runs := db_runs s @ [run_row_for n i (db_clock s)]\<rparr>))"
proof (rule sim_modify, rule conjI)
  fix s assume s: "plain_db s"
  have "pg_run (run_row_for n i t) = run_row_for n i (scale t)" for t by (simp add: pg_run_def run_row_for_def)
  then show "(pg_of s)\<lparr>db_next_run := i + 1, db_runs := db_runs (pg_of s) @ [run_row_for n i (db_clock (pg_of s))]\<rparr> =
      pg_of (s\<lparr>db_next_run := i + 1, db_runs := db_runs s @ [run_row_for n i (db_clock s)]\<rparr>)"
    unfolding pg_of_sel by (simp add: pg_of_def)
  show "plain_db (s\<lparr>db_next_run := i + 1, db_runs := db_runs s @ [run_row_for n i (db_clock s)]\<rparr>)"
    using s plain_dbD(2)[OF s] by (simp add: plain_db_def run_row_for_def)
qed

lemma sim_save_run: "sim (=) (save_run_body n) (pg_save_run_tx n)"
proof -
  have put: "sim (\<lambda>_ _. True) (modify_db (\<lambda>s. s\<lparr>db_receipts := AList.update (nrs_ReceiptID n)
        (run_receipt_row (map_of (db_receipts s) (nrs_ReceiptID n)) (db_clock s) n) (db_receipts s)\<rparr>))
      (modify_db (\<lambda>s. s\<lparr>db_receipts := AList.update (nrs_ReceiptID n)
        (pg_run_receipt_row (map_of (db_receipts s) (nrs_ReceiptID n)) (db_clock s) n) (db_receipts s)\<rparr>))"
    by (rule sim_put_receipt[of "\<lambda>old t. pg_run_receipt_row old t n" "\<lambda>old t. run_receipt_row old t n"])
       (auto simp: pg_run_receipt_row_def run_receipt_row_def pg_scope_def nonNilStringList_def[of "Some []"] Let_def
         split: option.split)
  show ?thesis
    unfolding save_run_body_def pg_save_run_tx_def nonNil_eq pg_run_receipt_row_def[symmetric, unfolded nonNil_eq]
      run_row_for_def[symmetric]
    by (rule sim_bind_call, rule sim_bind[OF put], rule sim_bind_call, rule sim_bind[of "(=)"], rule sim_get)
       (auto intro!: sim_bind[OF sim_add_run] sim_ret)
qed

lemma sim_SaveRunReceiptSummary: "sim (=) (SaveRunReceiptSummary fresh input) (pg_SaveRunReceiptSummary fresh input)"
  unfolding SaveRunReceiptSummary_def pg_SaveRunReceiptSummary_def Let_def
  by (auto intro!: sim_intros sim_bind[OF sim_in_tx[OF sim_save_run]] split: sum.split)

lemma last_run_agree: "pg_last_run p r (pg_of s) = map_option pg_run (latest_run p r s)"
proof -
  have "filter (\<lambda>r'. nr_project_id r' = p \<and> nr_receipt_id r' = r) (map pg_run xs) =
      map pg_run (filter (\<lambda>r'. nr_project_id r' = p \<and> nr_receipt_id r' = r) xs)" for xs
    by (induction xs) auto
  moreover have "sort_key (\<lambda>r. (- nr_created_at r, - nr_run_id r)) (map pg_run xs) =
      map pg_run (sort_key (\<lambda>r. (- nr_created_at r, - nr_run_id r)) xs)" for xs
    by (rule sort_key_map) (auto simp: less_eq_prod_def)
  ultimately show ?thesis by (simp add: pg_last_run_def latest_run_def split: list.split)
qed

lemma latest_run_plain: "plain_db s \<Longrightarrow> latest_run p r s = Some run \<Longrightarrow> 0 \<le> nr_created_at run"
proof -
  assume s: "plain_db s" and l: "latest_run p r s = Some run"
  from l obtain rest where "sort_key (\<lambda>r. (- nr_created_at r, - nr_run_id r))
      (filter (\<lambda>r'. nr_project_id r' = p \<and> nr_receipt_id r' = r) (db_runs s)) = run # rest"
    by (auto simp: latest_run_def split: list.splits)
  then have "run \<in> set (sort_key (\<lambda>r. (- nr_created_at r, - nr_run_id r))
      (filter (\<lambda>r'. nr_project_id r' = p \<and> nr_receipt_id r' = r) (db_runs s)))" by simp
  then show ?thesis using plain_dbD(9)[OF s] by simp
qed

lemma sim_LookupFetchState: "sim (=) (LookupFetchState input) (pg_LookupFetchState input)"
proof -
  let ?p = "TrimSpace (flq_ProjectID input)" and ?r = "TrimSpace (flq_ReceiptID input)"
  let ?q = "\<lparr> flq_ProjectID = ?p, flq_ReceiptID = ?r \<rparr>"
  have items: "sim (=) (ListWorkItems ?q) (pg_ListWorkItems input)"
    using sim_ListWorkItems[of ?q] by (simp add: pg_ListWorkItems_def buildListWorkItemsQuery_def Let_def)
  let ?R = "\<lambda>(r, run) (r', run'). r' = (case r of Some row \<Rightarrow> if rr_project_id row = ?p then Some (pg_scope row) else None
      | None \<Rightarrow> None) \<and> run' = map_option pg_run run \<and> (\<forall>row. r = Some row \<longrightarrow> 0 \<le> rr_created_at row) \<and>
      (\<forall>row. run = Some row \<longrightarrow> 0 \<le> nr_created_at row)"
  have body: "sim (=) (bind_db (get_db (\<lambda>s. (map_of (db_receipts s) ?r, latest_run ?p ?r s))) (\<lambda>(r, run). case r of
            None \<Rightarrow> fail_db ErrFetchLookupNotFound
          | Some row \<Rightarrow>
              (if rr_project_id row \<noteq> ?p then fail_db ErrFetchLookupNotFound
               else bind_db (ListWorkItems ?q) (\<lambda>workItems. ret_db
                   \<lparr> fl_ProjectID = ?p, fl_ReceiptID = ?r,
                     fl_RunID = (case run of None \<Rightarrow> 0 | Some r \<Rightarrow> nr_run_id r),
                     fl_RunStatus = (case run of None \<Rightarrow> '''' | Some r \<Rightarrow> TrimSpace (nr_status r)),
                     fl_PlanStatus = DerivePlanStatus workItems, fl_WorkItems = workItems,
                     fl_UpdatedAt = unixTime (case run of None \<Rightarrow> rr_created_at row | Some r \<Rightarrow> nr_created_at r) \<rparr>))))
      (bind_db (get_db (\<lambda>s. (pg_receipt ?p ?r s, pg_last_run ?p ?r s))) (\<lambda>(r, run). case r of
            None \<Rightarrow> fail_db ErrFetchLookupNotFound
          | Some row \<Rightarrow>
              bind_db (pg_ListWorkItems input) (\<lambda>workItems. ret_db
                \<lparr> fl_ProjectID = ?p, fl_ReceiptID = ?r,
                  fl_RunID = (case run of None \<Rightarrow> 0 | Some r \<Rightarrow> nr_run_id r),
                  fl_RunStatus = TrimSpace (case run of None \<Rightarrow> '''' | Some r \<Rightarrow> nr_status r),
                  fl_PlanStatus = DerivePlanStatus workItems, fl_WorkItems = workItems,
                  fl_UpdatedAt = pg_time (case run of None \<Rightarrow> rr_created_at row | Some r \<Rightarrow> nr_created_at r) \<rparr>)))"
  proof (rule sim_bind[of ?R], rule sim_get)
    fix s assume s: "plain_db s"
    show "?R (map_of (db_receipts s) ?r, latest_run ?p ?r s) (pg_receipt ?p ?r (pg_of s), pg_last_run ?p ?r (pg_of s))"
      using plain_dbD(8)[OF s] latest_run_plain[OF s]
      by (auto simp: last_run_agree pg_receipt_def split: option.split)
  next
    fix x :: "receipt_row option \<times> run_row option" and y assume "?R x y"
    then show "sim (=) (case x of (r, run) \<Rightarrow> case r of None \<Rightarrow> fail_db ErrFetchLookupNotFound
          | Some row \<Rightarrow>
              (if rr_project_id row \<noteq> ?p then fail_db ErrFetchLookupNotFound
               else bind_db (ListWorkItems ?q) (\<lambda>workItems. ret_db
                   \<lparr> fl_ProjectID = ?p, fl_ReceiptID = ?r,
                     fl_RunID = (case run of None \<Rightarrow> 0 | Some r \<Rightarrow> nr_run_id r),
                     fl_RunStatus = (case run of None \<Rightarrow> '''' | Some r \<Rightarrow> TrimSpace (nr_status r)),
                     fl_PlanStatus = DerivePlanStatus workItems, fl_WorkItems = workItems,
                     fl_UpdatedAt = unixTime (case run of None \<Rightarrow> rr_created_at row | Some r \<Rightarrow> nr_created_at r) \<rparr>)))
      (case y of (r, run) \<Rightarrow> case r of None \<Rightarrow> fail_db ErrFetchLookupNotFound
          | Some row \<Rightarrow>
              bind_db (pg_ListWorkItems input) (\<lambda>workItems. ret_db
                \<lparr> fl_ProjectID = ?p, fl_ReceiptID = ?r,
                  fl_RunID = (case run of None \<Rightarrow> 0 | Some r \<Rightarrow> nr_run_id r),
                  fl_RunStatus = TrimSpace (case run of None \<Rightarrow> '''' | Some r \<Rightarrow> nr_status r),
                  fl_PlanStatus = DerivePlanStatus workItems, fl_WorkItems = workItems,
                  fl_UpdatedAt = pg_time (case run of None \<Rightarrow> rr_created_at row | Some r \<Rightarrow> nr_created_at r) \<rparr>))"
      by (cases x) (auto intro!: sim_fail sim_bind[OF items] sim_ret simp: pg_time_scale split: option.splits if_splits)
  qed
  from body show ?thesis
    unfolding LookupFetchState_def pg_LookupFetchState_def buildLookupFetchStateQuery_def Let_def
    by (auto intro!: sim_intros)
qed

section \<open>Review attempts\<close>

text \<open>An attempt that both adapters store alike: created at a whole second, numbers of 32 bits.\<close>

definition attempt_ok :: "int \<Rightarrow> ReviewAttempt \<Rightarrow> bool" where
  "attempt_ok now input \<longleftrightarrow> fits_int4 (ra_TimeoutSec input) \<and>
     1000000000 dvd (if ra_CreatedAt input = 0 then now else ra_CreatedAt input)"

lemma micros_seconds: "1000000000 dvd t \<Longrightarrow> pg_micros t = scale (unixSeconds t)"
  by (auto simp: pg_micros_def scale_def unixSeconds_def elim!: dvdE)

lemma sim_SaveReviewAttempt:
  assumes "attempt_ok now input"
  shows "sim (=) (SaveReviewAttempt now input) (pg_SaveReviewAttempt now input)"
proof (cases "NormalizeReviewAttempt now input")
  case (Inl e)
  then show ?thesis by (simp add: SaveReviewAttempt_def pg_SaveReviewAttempt_def sim_fail)
next
  case (Inr n)
  have created: "nra_CreatedAt n = (if ra_CreatedAt input = 0 then now else ra_CreatedAt input)"
    using Inr by (auto simp: NormalizeReviewAttempt_def Let_def split: if_splits option.splits)
  then have t: "pg_micros (nra_CreatedAt n) = scale (unixSeconds (nra_CreatedAt n))"
    using assms micros_seconds by (simp add: attempt_ok_def)
  have fits: "list_all fits_int4 (nra_TimeoutSec n # (case nra_ExitCode n of None \<Rightarrow> [] | Some c \<Rightarrow> [c]))"
    using NormalizeReviewAttempt_Inr[OF Inr] assms
    by (auto simp: attempt_ok_def fits_int4_def split: option.split)
  have add: "sim (\<lambda>_ _. True)
      (modify_db (\<lambda>s. s\<lparr>db_next_attempt := i + 1, db_attempts := db_attempts s @
        [\<lparr> ar_attempt_id = i, ar_attempt = n, ar_created_sec = unixSeconds (nra_CreatedAt n) \<rparr>]\<rparr>))
      (modify_db (\<lambda>s. s\<lparr>db_next_attempt := i + 1, db_attempts := db_attempts s @
        [\<lparr> ar_attempt_id = i, ar_attempt = n, ar_created_sec = pg_micros (nra_CreatedAt n) \<rparr>]\<rparr>))" for i
    by (rule sim_modify) (auto simp: t plain_db_def pg_of_def pg_attempt_def)
  show ?thesis
    unfolding SaveReviewAttempt_def pg_SaveReviewAttempt_def Inr sum.case if_not_P[OF not_not[THEN iffD2, OF fits]]
    by (rule sim_bind_call, rule sim_bind[of "\<lambda>(r, i) (r', i'). (r = None) = (r' = None) \<and> i = i'"], rule sim_get)
       (auto intro!: sim_fail sim_bind[OF add] sim_ret split: option.splits prod.splits)
qed

lemma PreserveOrder_twice [simp]:
  "NormalizeStringListPreserveOrder (NormalizeStringListPreserveOrder l) = NormalizeStringListPreserveOrder l"
proof -
  have "filter (\<lambda>t. t \<noteq> '''') (map TrimSpace (filter (\<lambda>t. t \<noteq> '''') (map TrimSpace xs))) =
      filter (\<lambda>t. t \<noteq> '''') (map TrimSpace xs)" for xs
    by (induction xs) auto
  then show ?thesis by (simp add: NormalizeStringListPreserveOrder_def Let_def)
qed

lemma attempt_of_row_agree: "pg_attempt_of_row (pg_attempt row) = attempt_of_row row"
  by (simp add: pg_attempt_of_row_def attempt_of_row_def Let_def pg_normalizeStringListPreserveOrder_def
      decodeStringListPreserveOrder_def pg_time_def scale_def time_of_unix_def)

lemma sim_ListReviewAttempts: "sim (=) (ListReviewAttempts input) (pg_ListReviewAttempts input)"
proof -
  let ?P = "\<lambda>r. nra_ProjectID (ar_attempt r) = TrimSpace (ralq_ProjectID input) \<and>
      nra_ReceiptID (ar_attempt r) = TrimSpace (ralq_ReceiptID input) \<and>
      nra_ReviewKey (ar_attempt r) = TrimSpace (ralq_ReviewKey input)"
  have rows: "map pg_attempt_of_row (sort_key (\<lambda>r. (ar_created_sec r, ar_attempt_id r)) (filter ?P (map pg_attempt xs))) =
      map attempt_of_row (sort_key (\<lambda>r. (ar_created_sec r, ar_attempt_id r)) (filter ?P xs))" for xs
  proof -
    have "filter ?P (map pg_attempt xs) = map pg_attempt (filter ?P xs)" by (induction xs) auto
    moreover have "sort_key (\<lambda>r. (ar_created_sec r, ar_attempt_id r)) (map pg_attempt ys) =
        map pg_attempt (sort_key (\<lambda>r. (ar_created_sec r, ar_attempt_id r)) ys)" for ys
      by (rule sort_key_map) (auto simp: less_eq_prod_def)
    ultimately show ?thesis by (simp add: attempt_of_row_agree)
  qed
  have "sim (=) (get_db (\<lambda>s. map attempt_of_row (attempt_rows_of (TrimSpace (ralq_ProjectID input))
        (TrimSpace (ralq_ReceiptID input)) (TrimSpace (ralq_ReviewKey input)) s)))
      (get_db (\<lambda>s. map pg_attempt_of_row (sort_key (\<lambda>r. (ar_created_sec r, ar_attempt_id r)) (filter ?P (db_attempts s)))))"
    by (rule sim_get) (simp only: pg_of_sel rows attempt_rows_of_def)
  then show ?thesis
    unfolding ListReviewAttempts_def pg_ListReviewAttempts_def Let_def by (auto intro!: sim_intros)
qed

section \<open>Verification batches\<close>

definition batch_ok :: "(nat \<Rightarrow> int) \<Rightarrow> VerificationBatch \<Rightarrow> bool" where
  "batch_ok clock input \<longleftrightarrow> (case NormalizeVerificationBatch clock input of
     Inl _ \<Rightarrow> True | Inr n \<Rightarrow> list_all (\<lambda>r. list_all fits_int4 (result_ints r)) (nvb_Results n))"

lemma sim_SaveVerificationBatch:
  assumes "batch_ok clock input"
  shows "sim (=) (SaveVerificationBatch clock input) (pg_SaveVerificationBatch clock input)"
proof (cases "NormalizeVerificationBatch clock input")
  case (Inl e)
  then show ?thesis by (simp add: SaveVerificationBatch_def pg_SaveVerificationBatch_def sim_fail)
next
  case (Inr n)
  then have fits: "list_all (\<lambda>r. list_all fits_int4 (result_ints r)) (nvb_Results n)"
    using assms by (simp add: batch_ok_def)
  have one: "sim (=) (bind_db (db_call (''insert verification result '' @ vtr_TestID r)) (\<lambda>_. ret_db 1)) (pg_insert_result r)"
    if "r \<in> set (nvb_Results n)" for r
    using fits that by (auto simp: pg_insert_result_def Let_def list_all_iff intro!: sim_intros)
  have add: "sim (=) (modify_db (\<lambda>s. s\<lparr>db_batches := b # db_batches s\<rparr>)) (modify_db (\<lambda>s. s\<lparr>db_batches := b # db_batches s\<rparr>))" for b
    by (rule sim_weaken[OF sim_modify]) (auto simp: plain_db_def pg_of_def)
  have "sim (=) (save_batch_body n) (pg_save_batch_tx n)"
    unfolding save_batch_body_def pg_save_batch_tx_def insert_results_def
  proof (rule sim_bind_call, rule sim_bind[of "(=)"], rule sim_get)
    show "map_of (db_batches s) (nvb_BatchRunID n) = map_of (db_batches (pg_of s)) (nvb_BatchRunID n)" for s by simp
  next
    fix x y :: "batch_row option" assume xy: "x = y"
    show "sim (=) (case x of None \<Rightarrow> bind_db (each_db (\<lambda>r. bind_db (db_call (''insert verification result '' @ vtr_TestID r)) (\<lambda>_. ret_db 1)) (nvb_Results n))
          (\<lambda>_. modify_db (\<lambda>s. s\<lparr>db_batches := (nvb_BatchRunID n, \<lparr> br_batch = n \<rparr>) # db_batches s\<rparr>))
        | Some _ \<Rightarrow> fail_db (ErrDB ''insert verification batch: UNIQUE constraint failed''))
      (case y of None \<Rightarrow> bind_db (each_db pg_insert_result (nvb_Results n))
          (\<lambda>_. modify_db (\<lambda>s. s\<lparr>db_batches := (nvb_BatchRunID n, \<lparr> br_batch = n \<rparr>) # db_batches s\<rparr>))
        | Some _ \<Rightarrow> fail_db (ErrDB ''insert verification batch: violates unique constraint''))"
    proof (cases x)
      case None
      show ?thesis
        unfolding xy[symmetric] None option.case by (rule sim_bind[OF sim_each[OF one]]) (assumption, rule add)
    next
      case (Some row)
      show ?thesis unfolding xy[symmetric] Some option.case by (rule sim_fail) simp
    qed
  qed
  then show ?thesis by (simp add: SaveVerificationBatch_def pg_SaveVerificationBatch_def Inr sim_in_tx)
qed

end
