(* ===== verification/Pg_Agree_Pointers.thy ===== *)
theory Pg_Agree_Pointers
  imports Pg_Agree_Receipts Domain_Properties "HOL-Library.Multiset"
begin

text \<open>
  The pointer index: each operation on Postgres simulates the one on SQLite, a sync in one statement
  per step the row by row loop.
\<close>

section \<open>Reads\<close>

lemma pg_pointers_of_agree: "pg_pointers_of p (pg_of s) = map (map_prod id pg_pointer) (pointers_of p s)"
proof -
  have "map (\<lambda>((p, k), row). (k, row)) (filter (\<lambda>((q, k), row). q = p) (on_rows pg_pointer al)) =
      map (map_prod id pg_pointer) (map (\<lambda>((p, k), row). (k, row)) (filter (\<lambda>((q, k), row). q = p) al))" for al
    by (induction al) (auto simp: on_rows_def)
  then show ?thesis by (simp add: pg_pointers_of_def pointers_of_def)
qed

lemma plain_pointers_of: "plain_db s \<Longrightarrow> (k, row) \<in> set (pointers_of p s) \<Longrightarrow> plain_pointer row"
  using plain_dbD(10)[of s] by (fastforce simp: pointers_of_def)

lemma distinct_pointers_of: "plain_db s \<Longrightarrow> distinct (map fst (pointers_of p s))"
proof -
  have "distinct (map fst al) \<Longrightarrow> distinct (map fst (map (\<lambda>((p, k), row). (k, row)) (filter (\<lambda>((q, k), row). q = p) al)))"
    for al :: "((string \<times> string) \<times> pointer_row) list"
    by (induction al) (auto simp: image_iff)
  then show "plain_db s \<Longrightarrow> distinct (map fst (pointers_of p s))" using plain_dbD(12) by (simp add: pointers_of_def)
qed

lemma before_micros: "(62135596800 + t) * 1000000000 \<le> b \<longleftrightarrow> scale t \<le> pg_micros b"
proof -
  have "(62135596800 + t) * 1000000 \<le> b div 1000 \<longleftrightarrow> (62135596800 + t) * 1000000 * 1000 \<le> b"
    using zdiv_mono1[of "(62135596800 + t) * 1000000 * 1000" b 1000] by linarith
  then show ?thesis by (simp add: scale_def pg_micros_def algebra_simps)
qed

lemma candidate_selected_agree:
  "plain_pointer row \<Longrightarrow> pg_candidate_selected flt (pg_pointer row) =
     matchesStaleFilter (pt_is_stale row) (map_option unixTime (pt_stale_at row)) flt"
  by (cases "pt_stale_at row"; cases "sf_StaleBefore flt")
     (auto simp: pg_candidate_selected_def matchesStaleFilter_def unixTime_def plain_pointer_def not_less before_micros[symmetric])

lemma candidate_of_row_agree: "plain_pointer row \<Longrightarrow> pg_candidate_of_row k (pg_pointer row) = candidate_of_row k row"
  by (simp add: pg_candidate_of_row_def candidate_of_row_def decodeStringList_def plain_pointer_def pg_time_scale)

text \<open>Rows sorted by key first and then by path and key: no two have the same key.\<close>

lemma SortAndLimit_sorted:
  assumes "distinct (map fst rows)"
  shows "SortAndLimitCandidatePointers (map (\<lambda>(k, row). candidate_of_row k row) (sort_key fst rows)) input d =
    SortAndLimitCandidatePointers (map (\<lambda>(k, row). candidate_of_row k row) rows) input d"
proof -
  let ?c = "map (\<lambda>(k, row). candidate_of_row k row)" and ?f = "\<lambda>c. (TrimSpace (cp_Path c), cp_Key c)"
  have key: "map cp_Key (?c rows) = map fst rows" by (simp add: candidate_of_row_def case_prod_beta)
  have "inj_on ?f (set (?c rows))"
    using assms unfolding key[symmetric] distinct_map by (auto simp: inj_on_def)
  moreover have m: "mset (?c (sort_key fst rows)) = mset (?c rows)" by (simp only: mset_map mset_sort)
  ultimately have "sort_key ?f (?c (sort_key fst rows)) = sort_key ?f (?c rows)"
    using sort_key_inj_key_eq[of "?c (sort_key fst rows)" "sort_key ?f (?c rows)" ?f] mset_eq_setD[OF m]
    by (simp del: mset_map)
  moreover have "(?c (sort_key fst rows) = []) = (?c rows = [])"
    by (metis (no_types, lifting) length_0_conv length_map length_sort)
  ultimately show ?thesis by (simp add: SortAndLimitCandidatePointers_def)
qed

lemma sim_FetchCandidatePointers: "sim (=) (FetchCandidatePointers input) (pg_FetchCandidatePointers input)"
proof -
  let ?p = "TrimSpace (cpq_ProjectID input)"
  let ?sq = "filter (\<lambda>(k :: string, row). matchesStaleFilter (pt_is_stale row) (map_option unixTime (pt_stale_at row)) (cpq_StaleFilter input))"
  let ?pg = "filter (\<lambda>(k :: string, row). pg_candidate_selected (cpq_StaleFilter input) row)"
  have rows: "map (\<lambda>(k, row). pg_candidate_of_row k row) (sort_key fst (?pg (map (map_prod id pg_pointer) xs))) =
      map (\<lambda>(k, row). candidate_of_row k row) (sort_key fst (?sq xs))"
    if "\<forall>(k, row) \<in> set xs. plain_pointer row" for xs :: "(string \<times> pointer_row) list"
  proof -
    have "?pg (map (map_prod id pg_pointer) xs) = map (map_prod id pg_pointer) (?sq xs)"
      using that by (induction xs) (auto simp: candidate_selected_agree)
    moreover have "map (\<lambda>(k, row). pg_candidate_of_row k row) (map (map_prod id pg_pointer) ys) =
        map (\<lambda>(k, row). candidate_of_row k row) ys" if "\<forall>(k, row) \<in> set ys. plain_pointer row" for ys
      using that by (induction ys) (auto simp: candidate_of_row_agree)
    ultimately show ?thesis using that by (simp only: sort_key_fst) (auto simp del: map_map)
  qed
  let ?R = "\<lambda>xs ys. (\<forall>(k, row) \<in> set xs. plain_pointer row) \<and> distinct (map fst xs) \<and>
      ys = sort_key fst (?pg (map (map_prod id pg_pointer) xs))"
  have "sim (=) (bind_db (get_db (pointers_of ?p)) (\<lambda>rows. ret_db (SortAndLimitCandidatePointers
          (map (\<lambda>(k, row). candidate_of_row k row) (?sq rows)) input 32)))
      (bind_db (get_db (\<lambda>s. sort_key fst (?pg (pg_pointers_of ?p s)))) (\<lambda>rows. ret_db (SortAndLimitCandidatePointers
          (map (\<lambda>(k, row). pg_candidate_of_row k row) rows) input 32)))"
  proof (rule sim_bind[of ?R], rule sim_get)
    show "?R (pointers_of ?p s) (sort_key fst (?pg (pg_pointers_of ?p (pg_of s))))" if "plain_db s" for s
      using plain_pointers_of[OF that] distinct_pointers_of[OF that] by (auto simp: pg_pointers_of_agree)
  next
    fix xs ys assume R: "?R xs ys"
    then have d: "distinct (map fst (?sq xs))" by (auto intro: distinct_map_filter)
    show "sim (=) (ret_db (SortAndLimitCandidatePointers (map (\<lambda>(k, row). candidate_of_row k row) (?sq xs)) input 32))
        (ret_db (SortAndLimitCandidatePointers (map (\<lambda>(k, row). pg_candidate_of_row k row) ys) input 32))"
      using R rows[of xs] SortAndLimit_sorted[OF d] by (auto intro!: sim_ret)
  qed
  then show ?thesis
    unfolding FetchCandidatePointers_def pg_FetchCandidatePointers_def Let_def by (auto intro!: sim_intros)
qed

lemma sim_ListPointerInventory: "sim (=) (ListPointerInventory p) (pg_ListPointerInventory p)"
proof -
  let ?inv = "\<lambda>rows path. \<lparr> pi_Path = NormalizeRepoPath path,
      pi_IsStale = list_ex (\<lambda>(_, row). pt_path row = path \<and> pt_is_stale row) rows \<rparr>"
  have swap: "filter (\<lambda>row. pi_Path row \<noteq> '''') (map (?inv rows) ps) = map (?inv rows) (filter (\<lambda>path. NormalizeRepoPath path \<noteq> '''') ps)"
    for rows ps by (induction ps) auto
  have paths: "map (\<lambda>(_, row). pt_path row) (map (map_prod id pg_pointer) xs) = map (\<lambda>(_, row). pt_path row) xs" for xs
    by (induction xs) auto
  have stale: "list_ex (\<lambda>(_, row). pt_path row = path \<and> pt_is_stale row) (map (map_prod id pg_pointer) xs) =
      list_ex (\<lambda>(_, row). pt_path row = path \<and> pt_is_stale row) xs" for path xs
    by (induction xs) auto
  have "sim (=) (bind_db (get_db (pointers_of q)) (\<lambda>rows. ret_db (map (?inv rows)
          (filter (\<lambda>path. NormalizeRepoPath path \<noteq> '''') (sort (remdups (map (\<lambda>(_, row). pt_path row) rows)))))))
      (bind_db (get_db (pg_pointers_of q)) (\<lambda>rows. ret_db (filter (\<lambda>row. pi_Path row \<noteq> '''')
          (map (?inv rows) (sort (remdups (map (\<lambda>(_, row). pt_path row) rows)))))))" for q
    by (rule sim_bind[of "\<lambda>xs ys. ys = map (map_prod id pg_pointer) xs"], rule sim_get)
       (simp_all only: pg_pointers_of_agree swap paths stale sim_ret)
  from this[of "TrimSpace p"] show ?thesis
    unfolding ListPointerInventory_def pg_ListPointerInventory_def Let_def by (auto intro!: sim_intros)
qed

lemma sim_LookupPointerByKey: "sim (=) (LookupPointerByKey input) (pg_LookupPointerByKey input)"
proof -
  have "sim (=) (bind_db (get_db (\<lambda>s. map_of (db_pointers s) (p, k))) (\<lambda>found. case found of
          None \<Rightarrow> fail_db ErrPointerLookupNotFound
        | Some row \<Rightarrow> (if pt_is_stale row then fail_db ErrPointerLookupNotFound
             else let c = candidate_of_row k row in
               ret_db (c\<lparr>cp_Key := TrimSpace (cp_Key c), cp_Path := NormalizeRepoPath (cp_Path c),
                 cp_Anchor := TrimSpace (cp_Anchor c), cp_Kind := TrimSpace (cp_Kind c),
                 cp_Label := TrimSpace (cp_Label c), cp_Description := TrimSpace (cp_Description c),
                 cp_Tags := NormalizeStringList (cp_Tags c)\<rparr>))))
      (bind_db (get_db (\<lambda>s. case map_of (db_pointers s) (p, k) of
              None \<Rightarrow> None | Some row \<Rightarrow> if pt_is_stale row then None else Some row)) (\<lambda>found. case found of
            None \<Rightarrow> fail_db ErrPointerLookupNotFound
          | Some row \<Rightarrow> ret_db
              \<lparr> cp_Key = TrimSpace k, cp_Path = NormalizeRepoPath (pt_path row),
                cp_Anchor = TrimSpace (pt_anchor row), cp_Kind = TrimSpace (pt_kind row),
                cp_Label = TrimSpace (pt_label row), cp_Description = TrimSpace (pt_description row),
                cp_Tags = NormalizeStringList (pt_tags row), cp_IsRule = pt_is_rule row,
                cp_IsStale = pt_is_stale row, cp_UpdatedAt = pg_time (pt_updated_at row) \<rparr>))" for p k
    by (rule sim_bind[of "\<lambda>x y. (\<forall>row. x = Some row \<longrightarrow> plain_pointer row) \<and>
          y = (case x of None \<Rightarrow> None | Some row \<Rightarrow> if pt_is_stale row then None else Some (pg_pointer row))"], rule sim_get)
       (auto simp: candidate_of_row_def Let_def decodeStringList_def plain_pointer_def pg_time_scale
         dest: plain_dbD(11) intro!: sim_ret sim_fail split: option.splits if_splits)
  then show ?thesis
    unfolding LookupPointerByKey_def pg_LookupPointerByKey_def buildLookupPointerByKeyQuery_def Let_def
    by (cases "TrimSpace (plq_ProjectID input) = ''''"; cases "TrimSpace (plq_PointerKey input) = ''''")
       (simp_all only: if_True if_False sum.case prod.case sim_fail same_error_simps simp_thms sim_bind_call)
qed

section \<open>Stubs\<close>

lemma sort_emitted:
  assumes "distinct (map fst m)"
  shows "map snd (sort_key fst m) = emit_sorted m"
proof -
  have "sort_key (\<lambda>k. k) (map fst m) = map fst (sort_key fst m)" by (rule sort_key_map) simp
  moreover have "map (\<lambda>e. the (map_of m (fst e))) (sort_key fst m) = map snd (sort_key fst m)"
    using assms by (intro map_cong) (auto simp: map_of_is_SomeI)
  ultimately show ?thesis by (simp add: emit_sorted_def comp_def)
qed

lemma foldl_cong_step: "(\<And>m x. f m x = g m x) \<Longrightarrow> foldl f m xs = foldl g m xs"
  by (induction xs arbitrary: m) auto

lemma stub_kind_same: "pg_normalizePointerStubKind k = normalizePointerStubKind k"
  by (simp add: pg_normalizePointerStubKind_def normalizePointerStubKind_def Let_def)

lemma normalize_stub_same:
  "pg_normalize_stub p raw = (if NormalizeRepoPath (ps_Path raw) = '''' then None else Some (normalize_stub p raw))"
  by (simp add: pg_normalize_stub_def normalize_stub_def stub_kind_same Let_def stub_key_def)

lemma stub_key_blank: "stub_key p raw = '''' \<longleftrightarrow> NormalizeRepoPath (ps_Path raw) = ''''"
  by (simp add: stub_key_def Let_def)

lemma stubs_same: "pg_normalizePointerStubs p stubs = normalizePointerStubs p stubs"
proof -
  have key: "ps_PointerKey (normalize_stub q raw) = stub_key q raw" for q raw
    by (simp add: normalize_stub_def Let_def)
  have "foldl (\<lambda>m raw. case pg_normalize_stub q raw of None \<Rightarrow> m | Some stub \<Rightarrow> AList.update (ps_PointerKey stub) stub m) [] stubs =
      fold_by_key (stub_key q) (\<lambda>_ raw. normalize_stub q raw) stubs" for q
    unfolding fold_by_key_def by (rule foldl_cong_step) (simp add: normalize_stub_same stub_key_blank key)
  then show ?thesis
    by (simp add: pg_normalizePointerStubs_def normalizePointerStubs_def Let_def sort_emitted fold_by_key_distinct)
qed

lemma sim_put_pointer:
  assumes "\<And>old t. g (map_option pg_pointer old) (scale t) = pg_pointer (f old t)"
    "\<And>old t. 0 \<le> t \<Longrightarrow> (\<And>row. old = Some row \<Longrightarrow> plain_pointer row) \<Longrightarrow> plain_pointer (f old t)"
  shows "sim (\<lambda>_ _. True)
    (modify_db (\<lambda>s. s\<lparr>db_pointers := AList.update k (f (map_of (db_pointers s) k) (db_clock s)) (db_pointers s)\<rparr>))
    (modify_db (\<lambda>s. s\<lparr>db_pointers := AList.update k (g (map_of (db_pointers s) k) (db_clock s)) (db_pointers s)\<rparr>))"
proof (rule sim_modify, rule conjI)
  fix s assume s: "plain_db s"
  let ?row = "f (map_of (db_pointers s) k) (db_clock s)"
  have "plain_pointer ?row"
    by (rule assms(2)[OF plain_dbD(2)[OF s]]) (rule plain_dbD(11)[OF s])
  then show "plain_db (s\<lparr>db_pointers := AList.update k ?row (db_pointers s)\<rparr>)" by (rule plain_update(5)[OF s])
  have "AList.update k (g (map_option pg_pointer (map_of (db_pointers s) k)) (scale (db_clock s))) (on_rows pg_pointer (db_pointers s)) =
      on_rows pg_pointer (AList.update k ?row (db_pointers s))"
    unfolding assms(1) on_rows_update by (rule refl)
  then show "(pg_of s)\<lparr>db_pointers := AList.update k (g (map_of (db_pointers (pg_of s)) k) (db_clock (pg_of s)))
      (db_pointers (pg_of s))\<rparr> = pg_of (s\<lparr>db_pointers := AList.update k ?row (db_pointers s)\<rparr>)"
    unfolding pg_of_sel map_of_on_rows by (simp add: pg_of_def)
qed

definition tags_ok :: "string slice \<Rightarrow> bool" where
  "tags_ok tags \<longleftrightarrow> NormalizeStringList tags = tags \<and> elems tags \<noteq> []"

definition stub_ok :: "PointerStub \<Rightarrow> bool" where
  "stub_ok stub \<longleftrightarrow> tags_ok (ps_Tags stub) \<and> ps_Kind stub \<in> set [''rule'', ''doc'', ''test'', ''command'', ''code'']"

lemma auto_tags:
  "list_all (\<lambda>kind. tags_ok (Some [''auto-indexed'', kind])) [''rule'', ''doc'', ''test'', ''command'', ''code'']"
  by code_simp

lemma lower_kinds:
  "list_all (\<lambda>kind. ToLower kind = kind) [''rule'', ''doc'', ''test'', ''command'', ''code'']"
  by code_simp

lemma normalized_stub_ok: "stub_ok (normalize_stub p raw)"
proof -
  let ?t = "NormalizeStringList (ps_Tags raw)"
  have kind: "normalizePointerStubKind (ps_Kind raw) \<in> set [''rule'', ''doc'', ''test'', ''command'', ''code'']"
    unfolding normalizePointerStubKind_def Let_def by (simp split: if_split)
  have "NormalizeStringList ?t = ?t" if "elems ?t \<noteq> []"
    using that NormalizeStringList_Some_idem[of "ps_Tags raw"] by (cases ?t; cases "elems ?t") auto
  then have "tags_ok (if elems ?t = [] then Some [''auto-indexed'', normalizePointerStubKind (ps_Kind raw)] else ?t)"
    using auto_tags kind by (auto simp only: tags_ok_def list_all_iff split: if_split)
  then show ?thesis using kind by (simp add: stub_ok_def normalize_stub_def Let_def)
qed

lemma normalized_stubs_ok:
  assumes "normalizePointerStubs p stubs = Inr ns" "stub \<in> set ns"
  shows "stub_ok stub"
proof -
  let ?key = "stub_key (TrimSpace p)" and ?upd = "\<lambda>_ raw. normalize_stub (TrimSpace p) raw"
  have "stub \<in> snd ` set (fold_by_key ?key ?upd stubs)"
    using assms by (auto simp: normalizePointerStubs_def Let_def set_emit_sorted[OF fold_by_key_distinct] split: if_splits)
  moreover have "stub_ok x" if "x \<in> snd ` set (fold_by_key ?key ?upd xs)" for x xs
    using that
  proof (induction xs rule: rev_induct)
    case (snoc y ys)
    then show ?case
      using set_update_snd[of x "?key y" "normalize_stub (TrimSpace p) y" "fold_by_key ?key ?upd ys"] normalized_stub_ok
      by (cases "?key y = ''''") (auto simp: fold_by_key_snoc Let_def)
  qed simp
  ultimately show ?thesis by blast
qed

definition pg_stub_row :: "pointer_row option \<Rightarrow> int \<Rightarrow> PointerStub \<Rightarrow> pointer_row" where
  "pg_stub_row old now stub =
     (case old of
            None \<Rightarrow> \<lparr> pt_path = ps_Path stub, pt_anchor = '''', pt_kind = ps_Kind stub,
              pt_label = ps_Label stub, pt_description = ps_Description stub,
              pt_tags = pg_nonNilStringList (ps_Tags stub),
              pt_is_rule = (ToLower (ps_Kind stub) = ''rule''), pt_is_stale = False, pt_stale_at = None,
              pt_content_hash = None, pt_updated_at = now \<rparr>
          | Some row \<Rightarrow> row\<lparr>pt_path := ps_Path stub, pt_anchor := '''', pt_is_stale := False,
              pt_stale_at := None, pt_updated_at := now\<rparr>)"

lemma sim_upsert_stub:
  assumes "stub_ok stub"
  shows "sim (=) (upsert_stub p stub) (pg_upsert_stub p stub)"
proof -
  have tags: "nonNilStringList (ps_Tags stub) = ps_Tags stub" "elems (ps_Tags stub) \<noteq> []"
    "NormalizeStringList (ps_Tags stub) = ps_Tags stub"
    using assms by (auto simp: stub_ok_def tags_ok_def nonNilStringList_def)
  have kind: "ToLower (ps_Kind stub) = ps_Kind stub"
    using assms lower_kinds by (simp only: stub_ok_def list_all_iff)
  have put: "sim (\<lambda>_ _. True)
      (modify_db (\<lambda>s. s\<lparr>db_pointers := AList.update (p, ps_PointerKey stub)
        (stub_row (map_of (db_pointers s) (p, ps_PointerKey stub)) (db_clock s) stub) (db_pointers s)\<rparr>))
      (modify_db (\<lambda>s. s\<lparr>db_pointers := AList.update (p, ps_PointerKey stub)
        (pg_stub_row (map_of (db_pointers s) (p, ps_PointerKey stub)) (db_clock s) stub) (db_pointers s)\<rparr>))"
    by (rule sim_put_pointer[of "\<lambda>old t. pg_stub_row old t stub" "\<lambda>old t. stub_row old t stub"])
       (auto simp: pg_stub_row_def stub_row_def pg_pointer_def plain_pointer_def tags kind split: option.split)
  show ?thesis
    unfolding upsert_stub_def pg_upsert_stub_def pg_stub_row_def[symmetric]
    by (auto intro!: sim_intros sim_bind[OF put])
qed

lemma sim_UpsertPointerStubs: "sim (=) (UpsertPointerStubs p stubs) (pg_UpsertPointerStubs p stubs)"
proof (cases "normalizePointerStubs p stubs")
  case (Inl e)
  then show ?thesis by (simp add: UpsertPointerStubs_def pg_UpsertPointerStubs_def stubs_same sim_fail)
next
  case (Inr ns)
  note each = sim_in_tx[OF sim_each[OF sim_upsert_stub[OF normalized_stubs_ok[OF Inr]]]]
  show ?thesis
    unfolding UpsertPointerStubs_def pg_UpsertPointerStubs_def stubs_same Inr sum.case
    by (auto intro!: sim_ret sim_bind[OF each])
qed

end
