(* ===== verification/Pg_Agree_Sync.thy ===== *)
theory Pg_Agree_Sync
  imports Pg_Agree_Pointers
begin

text \<open>
  A sync of the pointer index and a sync of the rules of a source on the two adapters. SQLite refreshes
  and inserts row by row, Postgres in one statement each: the paths of a normalized input are distinct.
\<close>

section \<open>Updates\<close>

lemma sim_eq_on: "(\<And>s. plain_db s \<Longrightarrow> m0 s = m s) \<Longrightarrow> sim R m m' \<Longrightarrow> sim R m0 m'"
  by (simp add: sim_def)

definition upd_rows ::
  "string \<Rightarrow> (pointer_row \<Rightarrow> bool) \<Rightarrow> (pointer_row \<Rightarrow> pointer_row) \<Rightarrow>
     ((string \<times> string) \<times> pointer_row) list \<Rightarrow> ((string \<times> string) \<times> pointer_row) list" where
  "upd_rows p sel f al = map (\<lambda>((q, k), row). ((q, k), if q = p \<and> sel row then f row else row)) al"

definition count_rows :: "string \<Rightarrow> (pointer_row \<Rightarrow> bool) \<Rightarrow> ((string \<times> string) \<times> pointer_row) list \<Rightarrow> nat" where
  "count_rows p sel al = length (filter (\<lambda>((q, k), row). q = p \<and> sel row) al)"

lemma update_pointers_eval:
  assumes "db_faults s = []"
  shows "update_pointers msg p sel f s =
    (Inr (count_rows p sel (db_pointers s)), s\<lparr>db_pointers := upd_rows p sel (f (db_clock s)) (db_pointers s)\<rparr>)"
  using assms by (simp add: update_pointers_def db_op_defs count_rows_def upd_rows_def)

lemma pg_update_pointers_eval:
  assumes "db_faults s = []" "params \<le> 65535"
  shows "pg_update_pointers msg params p sel f s =
    (Inr (count_rows p sel (db_pointers s)), s\<lparr>db_pointers := upd_rows p sel (f (db_clock s)) (db_pointers s)\<rparr>)"
  using assms by (simp add: pg_update_pointers_def pg_exec_def db_op_defs count_rows_def upd_rows_def)

lemma upd_rows_keys: "map fst (upd_rows p sel f al) = map fst al"
  by (induction al) (auto simp: upd_rows_def)

lemma plain_upd_rows:
  assumes "plain_db s" "\<And>row. plain_pointer row \<Longrightarrow> sel row \<Longrightarrow> plain_pointer (f row)"
  shows "plain_db (s\<lparr>db_pointers := upd_rows p sel f (db_pointers s)\<rparr>)"
proof -
  have "\<forall>row \<in> snd ` set (upd_rows p sel f (db_pointers s)). plain_pointer row"
    using assms(2) plain_dbD(10)[OF assms(1)] by (fastforce simp: upd_rows_def)
  moreover have "distinct (map fst (upd_rows p sel f (db_pointers s)))"
    unfolding upd_rows_keys by (rule plain_dbD(12)[OF assms(1)])
  ultimately show ?thesis using assms(1) by (simp add: plain_db_def)
qed

lemma upd_rows_agree:
  assumes "\<And>row. sel' (pg_pointer row) = sel row" "\<And>row. f' (pg_pointer row) = pg_pointer (f row)"
  shows "upd_rows p sel' f' (on_rows pg_pointer al) = on_rows pg_pointer (upd_rows p sel f al)"
    "count_rows p sel' (on_rows pg_pointer al) = count_rows p sel al"
  using assms by (induction al) (auto simp: upd_rows_def on_rows_def count_rows_def)

lemma sim_update_pointers:
  assumes "params \<le> 65535" "\<And>row. sel' (pg_pointer row) = sel row"
    "\<And>t row. f' (scale t) (pg_pointer row) = pg_pointer (f t row)"
    "\<And>t row. 0 \<le> t \<Longrightarrow> plain_pointer row \<Longrightarrow> plain_pointer (f t row)"
  shows "sim (=) (update_pointers msg p sel f) (pg_update_pointers msg' params p sel' f')"
proof (rule simI)
  fix s assume s: "plain_db s"
  let ?s1 = "s\<lparr>db_pointers := upd_rows p sel (f (db_clock s)) (db_pointers s)\<rparr>"
  have nf: "db_faults s = []" "db_faults (pg_of s) = []" using plain_dbD(1)[OF s] by simp_all
  have agree: "upd_rows p sel' (f' (scale (db_clock s))) (on_rows pg_pointer (db_pointers s)) =
      on_rows pg_pointer (upd_rows p sel (f (db_clock s)) (db_pointers s))"
    "count_rows p sel' (on_rows pg_pointer (db_pointers s)) = count_rows p sel (db_pointers s)"
    using upd_rows_agree[where sel' = sel' and sel = sel and f' = "f' (scale (db_clock s))" and f = "f (db_clock s)"]
      assms(2,3) by simp_all
  have "pg_update_pointers msg' params p sel' f' (pg_of s) = (Inr (count_rows p sel (db_pointers s)), pg_of ?s1)"
    unfolding pg_update_pointers_eval[OF nf(2) assms(1)] pg_of_sel agree by (simp add: pg_of_def)
  moreover have "plain_db ?s1" by (rule plain_upd_rows[OF s]) (rule assms(4)[OF plain_dbD(2)[OF s]])
  ultimately show "\<exists>r r' s1. update_pointers msg p sel f s = (r, s1) \<and>
      pg_update_pointers msg' params p sel' f' (pg_of s) = (r', pg_of s1) \<and> plain_db s1 \<and> same_result (=) r r'"
    using update_pointers_eval[OF nf(1)] by simp
qed

lemma upd_rows_twice:
  assumes "\<And>row. sel1 row \<Longrightarrow> \<not> sel2 row \<and> \<not> sel2 (f1 row)" "\<And>row. sel row \<longleftrightarrow> sel1 row \<or> sel2 row"
    "\<And>row. sel1 row \<Longrightarrow> f row = f1 row" "\<And>row. sel2 row \<Longrightarrow> f row = f2 row"
  shows "upd_rows p sel2 f2 (upd_rows p sel1 f1 al) = upd_rows p sel f al"
    "count_rows p sel1 al + count_rows p sel2 (upd_rows p sel1 f1 al) = count_rows p sel al"
proof -
  have row: "(let row' = if q = p \<and> sel1 row then f1 row else row in if q = p \<and> sel2 row' then f2 row' else row') =
      (if q = p \<and> sel row then f row else row)"
    "(q = p \<and> sel2 (if q = p \<and> sel1 row then f1 row else row)) = (q = p \<and> sel row \<and> \<not> sel1 row)" for q row
    using assms by (cases "sel1 row"; cases "sel2 row"; simp)+
  show "upd_rows p sel2 f2 (upd_rows p sel1 f1 al) = upd_rows p sel f al"
    using row(1)[unfolded Let_def] by (induction al) (auto simp: upd_rows_def)
  show "count_rows p sel1 al + count_rows p sel2 (upd_rows p sel1 f1 al) = count_rows p sel al"
  proof (induction al)
    case (Cons e al)
    obtain q k row where e: "e = ((q, k), row)" by (metis prod.collapse)
    show ?case using Cons assms(2)[of row] row(2)[of q row] unfolding e
      by (cases "q = p"; cases "sel1 row") (simp_all add: count_rows_def upd_rows_def)
  qed (simp add: count_rows_def upd_rows_def)
qed

section \<open>The refresh\<close>

definition row_hash_of :: "SyncPath list \<Rightarrow> string \<Rightarrow> string option" where
  "row_hash_of rows = map_of (map (\<lambda>r. (sp_Path r, sp_ContentHash r)) rows)"

definition refresh_sel :: "SyncPath list \<Rightarrow> pointer_row \<Rightarrow> bool" where
  "refresh_sel rows row = (case row_hash_of rows (pt_path row) of
     None \<Rightarrow> False | Some h \<Rightarrow> pt_is_stale row \<or> pt_content_hash row \<noteq> Some h)"

definition refresh_row :: "SyncPath list \<Rightarrow> int \<Rightarrow> pointer_row \<Rightarrow> pointer_row" where
  "refresh_row rows now row = row\<lparr>pt_content_hash := row_hash_of rows (pt_path row), pt_is_stale := False,
     pt_stale_at := None, pt_updated_at := now\<rparr>"

lemma refresh_rows_eval:
  assumes "distinct (map sp_Path rows)" "\<forall>r \<in> set rows. sp_ContentHash r \<noteq> ''''" "db_faults s = []"
  shows "each_db (refresh_pointers p) rows s = update_pointers msg p (refresh_sel rows) (refresh_row rows) s"
  using assms
proof (induction rows arbitrary: s)
  case Nil
  have "upd_rows p (refresh_sel []) f al = al" "count_rows p (refresh_sel []) al = 0" for f al
    by (induction al) (auto simp: upd_rows_def count_rows_def refresh_sel_def row_hash_of_def)
  then show ?case unfolding update_pointers_eval[OF Nil(3)] by (simp add: ret_db_def)
next
  case (Cons e rows)
  let ?f1 = "\<lambda>row. row\<lparr>pt_content_hash := Some (sp_ContentHash e), pt_is_stale := False,
      pt_stale_at := None, pt_updated_at := db_clock s\<rparr>"
  let ?s1 = "s\<lparr>db_pointers := upd_rows p (needs_refresh e) ?f1 (db_pointers s)\<rparr>"
  have notin: "row_hash_of rows (sp_Path e) = None" using Cons.prems(1) by (simp add: row_hash_of_def map_of_eq_None_iff image_image)
  have hash: "sp_ContentHash e \<noteq> ''''" using Cons.prems(2) by simp
  have hc: "row_hash_of (e # rows) path = (if path = sp_Path e then Some (sp_ContentHash e) else row_hash_of rows path)" for path
    by (simp add: row_hash_of_def)
  have needs: "needs_refresh e row \<longleftrightarrow> pt_path row = sp_Path e \<and>
      (pt_is_stale row \<or> pt_content_hash row \<noteq> Some (sp_ContentHash e))" for row
    using hash by (cases "pt_content_hash row") (auto simp: needs_refresh_def)
  have twice: "upd_rows p (refresh_sel rows) (refresh_row rows (db_clock s)) (upd_rows p (needs_refresh e) ?f1 al) =
      upd_rows p (refresh_sel (e # rows)) (refresh_row (e # rows) (db_clock s)) al"
    "count_rows p (needs_refresh e) al + count_rows p (refresh_sel rows) (upd_rows p (needs_refresh e) ?f1 al) =
      count_rows p (refresh_sel (e # rows)) al" for al
    by (rule upd_rows_twice; use notin in \<open>auto simp: needs refresh_sel_def refresh_row_def hc split: option.splits\<close>)+
  have first: "refresh_pointers p e s = (Inr (count_rows p (needs_refresh e) (db_pointers s)), ?s1)"
    unfolding refresh_pointers_def by (rule update_pointers_eval) (rule Cons.prems(3))
  have rest: "each_db (refresh_pointers p) rows ?s1 =
      (Inr (count_rows p (refresh_sel rows) (db_pointers ?s1)),
       ?s1\<lparr>db_pointers := upd_rows p (refresh_sel rows) (refresh_row rows (db_clock ?s1)) (db_pointers ?s1)\<rparr>)"
    using Cons.IH[of ?s1] Cons.prems update_pointers_eval[of ?s1] by simp
  show ?case
    using first rest twice[of "db_pointers s"] update_pointers_eval[OF Cons.prems(3)]
    by (simp add: bind_db_def ret_db_def)
qed

section \<open>The candidates\<close>

definition new_candidates :: "string \<Rightarrow> SyncPath list \<Rightarrow> db \<Rightarrow> SyncPath list" where
  "new_candidates p rows s = filter (\<lambda>r.
     \<not> list_ex (\<lambda>((q, k), row). q = p \<and> pt_path row = sp_Path r) (db_pointers s) \<and>
     map_of (db_candidates s) (p, sp_Path r) = None) rows"

definition add_candidates :: "string \<Rightarrow> SyncPath list \<Rightarrow> db \<Rightarrow> db" where
  "add_candidates p rows s = s\<lparr>db_candidates :=
     rev (map (\<lambda>r. ((p, sp_Path r), sp_ContentHash r)) rows) @ db_candidates s\<rparr>"

lemma insert_candidates_eval:
  assumes "distinct (map sp_Path rows)" "db_faults s = []"
  shows "each_db (insert_candidate p) rows s =
    (Inr (length (new_candidates p rows s)), add_candidates p (new_candidates p rows s) s)"
  using assms
proof (induction rows arbitrary: s)
  case Nil
  then show ?case by (simp add: ret_db_def new_candidates_def add_candidates_def)
next
  case (Cons e rows)
  show ?case
  proof (cases "list_ex (\<lambda>((q, k), row). q = p \<and> pt_path row = sp_Path e) (db_pointers s) \<or>
      map_of (db_candidates s) (p, sp_Path e) \<noteq> None")
    case True
    then have "insert_candidate p e s = (Inr 0, s)"
      using Cons.prems(2) by (simp add: insert_candidate_def db_op_defs)
    moreover have "new_candidates p (e # rows) s = new_candidates p rows s"
      using True by (auto simp: new_candidates_def)
    ultimately show ?thesis using Cons.IH[of s] Cons.prems by (simp add: bind_db_def ret_db_def)
  next
    case False
    let ?s1 = "s\<lparr>db_candidates := ((p, sp_Path e), sp_ContentHash e) # db_candidates s\<rparr>"
    have "insert_candidate p e s = (Inr 1, ?s1)"
      using Cons.prems(2) False by (simp add: insert_candidate_def db_op_defs)
    moreover have "new_candidates p rows ?s1 = new_candidates p rows s"
      unfolding new_candidates_def using Cons.prems(1) by (intro filter_cong) (force simp: image_iff)+
    moreover have "new_candidates p (e # rows) s = e # new_candidates p rows s"
      using False by (auto simp: new_candidates_def)
    ultimately show ?thesis
      using Cons.IH[of ?s1] Cons.prems by (simp add: bind_db_def ret_db_def add_candidates_def)
  qed
qed

section \<open>The rows of a statement\<close>

definition row_ok :: "SyncPath \<Rightarrow> bool" where
  "row_ok r \<longleftrightarrow> NormalizeRepoPath (sp_Path r) = sp_Path r \<and> sp_Path r \<noteq> '''' \<and> sp_ContentHash r \<noteq> '''' \<and>
     TrimSpace (sp_ContentHash r) = sp_ContentHash r \<and> \<not> sp_Deleted r"

lemma update_new_key: "k \<notin> fst ` set al \<Longrightarrow> AList.update k v al = al @ [(k, v)]"
  by (induction al) auto

lemma pg_sync_rows_id:
  assumes "list_all row_ok rows" "distinct (map fst m @ map sp_Path rows)"
  shows "pg_sync_rows True m rows = Inr (m @ map (\<lambda>r. (sp_Path r, r)) rows)"
  using assms
proof (induction rows arbitrary: m)
  case (Cons r rows)
  have "\<lparr> sp_Path = sp_Path r, sp_ContentHash = sp_ContentHash r, sp_Deleted = False \<rparr> = r"
    using Cons.prems(1) by (simp add: row_ok_def)
  moreover have "sp_Path r \<notin> fst ` set m" "map_of m (sp_Path r) = None"
    using Cons.prems(2) by (auto simp: map_of_eq_None_iff)
  ultimately show ?case
    using Cons.prems Cons.IH[of "m @ [(sp_Path r, r)]"]
    by (cases r) (simp add: row_ok_def update_new_key Let_def)
qed simp

lemma sync_rows_same:
  assumes "list_all row_ok rows" "distinct (map sp_Path rows)" "sorted (map sp_Path rows)"
  shows "normalizeSyncPathRows rows True = Inr rows"
proof -
  have "sort_key fst (map (\<lambda>r. (sp_Path r, r)) rows) = map (\<lambda>r. (sp_Path r, r)) rows"
    using assms(3) by (intro sort_key_id_if_sorted) (simp add: comp_def)
  then show ?thesis
    using assms pg_sync_rows_id[of rows "[]"] by (simp add: normalizeSyncPathRows_def comp_def)
qed

lemma sync_paths_same:
  assumes "\<forall>path \<in> set paths. NormalizeRepoPath path = path \<and> path \<noteq> ''''"
  shows "set (pg_normalizeSyncPaths paths) = set paths"
proof -
  have "pg_normalizeSyncPaths paths = elems (NormalizeRepoPathList (Some paths))"
    by (simp add: pg_normalizeSyncPaths_def NormalizeRepoPathList_def)
  then have "set (pg_normalizeSyncPaths paths) = NormalizeRepoPath ` set paths - {''''}" by (simp only: nrpl.nl_set)
  also have "\<dots> = set paths" using assms by force
  finally show ?thesis .
qed


section \<open>The sync\<close>

lemma sync_apply_paths_trimmed:
  assumes "sync_apply_paths m raws = Inr m'" "\<forall>e \<in> snd ` set m. TrimSpace (sp_ContentHash e) = sp_ContentHash e"
  shows "\<forall>e \<in> snd ` set m'. TrimSpace (sp_ContentHash e) = sp_ContentHash e"
  using assms
proof (induction raws arbitrary: m)
  case (Cons raw raws)
  have put: "\<forall>e \<in> snd ` set (AList.update k v m). TrimSpace (sp_ContentHash e) = sp_ContentHash e"
    if "TrimSpace (sp_ContentHash v) = sp_ContentHash v" for k v
    by (rule all_update[OF Cons.prems(2) that])
  show ?case
    using Cons.IH[OF _ Cons.prems(2)] Cons.IH[OF _ put] Cons.prems(1)
    by (auto simp: Let_def split: if_splits option.splits)
qed simp

definition sync_ok :: "SyncApplyInput \<Rightarrow> bool" where
  "sync_ok input \<longleftrightarrow> trim_paths (map sp_Path (sai_Paths input)) \<and> length (sai_Paths input) \<le> 32767"

lemma normalized_sync:
  assumes "NormalizeSyncApplyInput input = Inr n" "sync_ok input"
  defines "present \<equiv> filter (\<lambda>e. \<not> sp_Deleted e) (sai_Paths n)"
  shows "list_all row_ok present" "distinct (map sp_Path present)" "sorted (map sp_Path present)"
    "length present \<le> 32767"
    "\<forall>path \<in> set (map sp_Path (sai_Paths n)). NormalizeRepoPath path = path \<and> path \<noteq> ''''"
proof -
  note nf = sync_input_normal[OF assms(1)]
  have fixed: "NormalizeRepoPath path = path \<and> path \<noteq> ''''" if "path \<in> sp_Path ` set (sai_Paths n)" for path
  proof -
    obtain raw where raw: "raw \<in> set (sai_Paths input)" "path = NormalizeRepoPath (sp_Path raw)" "path \<noteq> ''''"
    proof -
      have "path \<in> sync_key ` set (sai_Paths input) - {''''}" using nf \<open>path \<in> sp_Path ` set (sai_Paths n)\<close> by (elim conjE) (simp only:)
      then show ?thesis by (auto simp: sync_key_def intro: that)
    qed
    then have "TrimSpace path = path" using assms(2) by (auto simp: sync_ok_def trim_paths_def list_all_iff)
    then show ?thesis using raw NormalizeRepoPath_refix[of "sp_Path raw"] by simp
  qed
  then show "\<forall>path \<in> set (map sp_Path (sai_Paths n)). NormalizeRepoPath path = path \<and> path \<noteq> ''''" by simp
  obtain m where m: "sync_apply_paths [] (sai_Paths input) = Inr m" "sai_Paths n = emit_sorted m"
    using assms(1) by (auto simp: NormalizeSyncApplyInput_def Let_def bind_res_Inr_iff split: if_splits)
  have d: "distinct (map fst m)" using sync_apply_paths_ok[OF m(1)] by (simp add: sync_map_ok_def)
  have trimmed: "\<forall>e \<in> set (sai_Paths n). TrimSpace (sp_ContentHash e) = sp_ContentHash e"
    using sync_apply_paths_trimmed[OF m(1)] unfolding m(2) set_emit_sorted[OF d] by simp
  have hash: "\<forall>e \<in> set (sai_Paths n). \<not> sp_Deleted e \<longrightarrow> sp_ContentHash e \<noteq> ''''" using nf by blast
  show "list_all row_ok present" using fixed trimmed hash by (auto simp: list_all_iff row_ok_def present_def)
  show "distinct (map sp_Path present)" "sorted (map sp_Path present)"
    using nf unfolding present_def by (auto intro: distinct_map_filter sorted_filter)
  have "length (sai_Paths n) = card (sp_Path ` set (sai_Paths n))"
    using nf distinct_card[of "map sp_Path (sai_Paths n)"] by simp
  also have "\<dots> \<le> card (sync_key ` set (sai_Paths input))" using nf by (intro card_mono) auto
  also have "\<dots> \<le> length (sai_Paths input)"
    using card_image_le[of "set (sai_Paths input)"] card_length[of "sai_Paths input"] by (meson List.finite_set le_trans)
  also have "\<dots> \<le> 32767" using assms(2) by (simp add: sync_ok_def)
  finally show "length present \<le> 32767"
    unfolding present_def using length_filter_le[of _ "sai_Paths n"] by (meson le_trans)
qed

lemma plain_mark_stale: "0 \<le> t \<Longrightarrow> plain_pointer row \<Longrightarrow> plain_pointer (mark_stale t row)"
  by (simp add: plain_pointer_def mark_stale_def)

lemma set_stale_agree: "pg_set_stale (scale t) (pg_pointer row) = pg_pointer (mark_stale t row)"
  by (simp add: pg_set_stale_def mark_stale_def pg_pointer_def)

lemma sim_mark_deleted:
  assumes "\<forall>path \<in> set paths. NormalizeRepoPath path = path \<and> path \<noteq> ''''" "paths \<noteq> []"
  shows "sim (=) (update_pointers msg p (\<lambda>row. \<not> pt_is_stale row \<and> pt_path row \<in> set paths) mark_stale)
    (pg_mark_deleted p paths)"
proof -
  note same = sync_paths_same[OF assms(1)]
  then have "pg_normalizeSyncPaths paths \<noteq> []" using assms(2) by auto
  then show ?thesis
    unfolding pg_mark_deleted_def Let_def
    by simp (rule sim_update_pointers; auto simp: same set_stale_agree plain_mark_stale)
qed

lemma sim_mark_missing:
  assumes "\<forall>path \<in> set paths. NormalizeRepoPath path = path \<and> path \<noteq> ''''"
  shows "sim (=) (update_pointers msg p (\<lambda>row. \<not> pt_is_stale row \<and> pt_path row \<notin> set paths) mark_stale)
    (pg_mark_missing p paths)"
proof -
  note same = sync_paths_same[OF assms]
  then have nil: "pg_normalizeSyncPaths paths = [] \<longleftrightarrow> set paths = {}" by auto
  show ?thesis
    unfolding pg_mark_missing_def Let_def
    by (rule sim_if_right; rule sim_update_pointers; use nil in \<open>auto simp: same set_stale_agree plain_mark_stale\<close>)
qed

lemma sim_refresh:
  assumes "list_all row_ok rows" "distinct (map sp_Path rows)" "sorted (map sp_Path rows)" "length rows \<le> 32767"
  shows "sim (=) (each_db (refresh_pointers p) rows) (if rows \<noteq> [] then pg_refresh p rows else ret_db 0)"
proof (cases "rows = []")
  case False
  have hashes: "\<forall>r \<in> set rows. sp_ContentHash r \<noteq> ''''" using assms(1) by (simp add: list_all_iff row_ok_def)
  have "sim (=) (update_pointers ''refresh pointers'' p (refresh_sel rows) (refresh_row rows)) (pg_refresh p rows)"
    unfolding pg_refresh_def sync_rows_same[OF assms(1-3)] row_hash_of_def[symmetric] Let_def using False assms(4)
    by simp (rule sim_update_pointers; auto simp: refresh_sel_def refresh_row_def pg_pointer_def plain_pointer_def split: option.split)
  then show ?thesis
    using False sim_eq_on[OF refresh_rows_eval[OF assms(2) hashes plain_dbD(1)]] by simp
qed (auto intro: sim_ret)

lemma sim_insert_candidates:
  assumes "list_all row_ok rows" "distinct (map sp_Path rows)" "sorted (map sp_Path rows)" "length rows \<le> 32767"
  shows "sim (=) (each_db (insert_candidate p) rows) (if rows \<noteq> [] then pg_insert_candidates p rows else ret_db 0)"
proof (cases "rows = []")
  case False
  show ?thesis
  proof (rule simI)
    fix s assume s: "plain_db s"
    have nf: "db_faults s = []" by (rule plain_dbD(1)[OF s])
    have few: "\<not> 65535 < int (1 + 2 * length rows)" using assms(4) by simp
    have present: "list_ex (\<lambda>((q, k), row). q = p \<and> pt_path row = path) (on_rows pg_pointer al) =
        list_ex (\<lambda>((q, k), row). q = p \<and> pt_path row = path) al" for path al
      by (induction al) (auto simp: on_rows_def)
    have new: "filter (\<lambda>r. \<not> list_ex (\<lambda>((q, k), row). q = p \<and> pt_path row = sp_Path r) (db_pointers (pg_of s)) \<and>
        map_of (db_candidates (pg_of s)) (p, sp_Path r) = None) rows = new_candidates p rows s"
      unfolding pg_of_sel present new_candidates_def by (rule refl)
    have "pg_insert_candidates p rows (pg_of s) =
        (Inr (length (new_candidates p rows s)), add_candidates p (new_candidates p rows s) (pg_of s))"
      unfolding pg_insert_candidates_def sync_rows_same[OF assms(1-3)] sum.case pg_exec_def if_not_P[OF few] if_not_P[OF False]
      using nf by (simp add: db_op_defs new[unfolded pg_of_sel] add_candidates_def)
    moreover have "add_candidates p xs (pg_of s) = pg_of (add_candidates p xs s)" for xs
      by (simp add: add_candidates_def pg_of_def)
    moreover have "plain_db (add_candidates p xs s)" for xs using s by (simp add: add_candidates_def plain_db_def)
    ultimately show "\<exists>r r' s1. each_db (insert_candidate p) rows s = (r, s1) \<and>
        (if rows \<noteq> [] then pg_insert_candidates p rows else ret_db 0) (pg_of s) = (r', pg_of s1) \<and> plain_db s1 \<and> same_result (=) r r'"
      using insert_candidates_eval[OF assms(2) nf] False by simp
  qed
qed (auto intro: sim_ret)

lemma sim_apply_sync:
  assumes "NormalizeSyncApplyInput input = Inr n" "sync_ok input"
  shows "sim (=) (apply_sync_body n) (pg_sync_tx n)"
proof -
  note ok = normalized_sync[OF assms]
  let ?del = "map sp_Path (filter sp_Deleted (sai_Paths n))" and ?rows = "filter (\<lambda>e. \<not> sp_Deleted e) (sai_Paths n)"
  have del: "\<forall>path \<in> set ?del. NormalizeRepoPath path = path \<and> path \<noteq> ''''" using ok(5) by auto
  have pre: "\<forall>path \<in> set (map sp_Path ?rows). NormalizeRepoPath path = path \<and> path \<noteq> ''''" using ok(5) by auto
  have 1: "sim (=) (if ?del \<noteq> [] then update_pointers ''mark deleted pointers stale'' (sai_ProjectID n)
             (\<lambda>row. \<not> pt_is_stale row \<and> pt_path row \<in> set ?del) mark_stale else ret_db 0)
      (if ?del \<noteq> [] then pg_mark_deleted (sai_ProjectID n) ?del else ret_db 0)"
    by (rule sim_if) (rule sim_mark_deleted[OF del], assumption, rule sim_ret, rule refl)
  have 2: "sim (=) (if sai_Mode n = ''full'' then update_pointers ''mark missing pointers stale'' (sai_ProjectID n)
             (\<lambda>row. \<not> pt_is_stale row \<and> pt_path row \<notin> set (map sp_Path ?rows)) mark_stale else ret_db 0)
      (if sai_Mode n = ''full'' then pg_mark_missing (sai_ProjectID n) (map sp_Path ?rows) else ret_db 0)"
    by (rule sim_if) (rule sim_mark_missing[OF pre], rule sim_ret, rule refl)
  have 3: "sim (=) (each_db (refresh_pointers (sai_ProjectID n)) ?rows)
      (if ?rows \<noteq> [] then pg_refresh (sai_ProjectID n) ?rows else ret_db 0)"
    by (rule sim_refresh[OF ok(1-4)])
  have 4: "sim (=) (if sai_InsertNewCandidates n then each_db (insert_candidate (sai_ProjectID n)) ?rows else ret_db 0)
      (if ?rows \<noteq> [] \<and> sai_InsertNewCandidates n then pg_insert_candidates (sai_ProjectID n) ?rows else ret_db 0)"
    using sim_insert_candidates[OF ok(1-4), of "sai_ProjectID n"] sim_ret[of "(=)" 0 0]
    by (cases "sai_InsertNewCandidates n") simp_all
  show ?thesis
    unfolding apply_sync_body_def pg_sync_tx_def Let_def
    by (rule sim_bind[OF 1], rule sim_bind[OF 2], rule sim_bind[OF 3], rule sim_bind[OF 4], rule sim_ret) simp
qed

lemma sim_ApplySync:
  assumes "sync_ok input"
  shows "sim (=) (ApplySync input) (pg_ApplySync input)"
  unfolding ApplySync_def pg_ApplySync_def
  by (cases "NormalizeSyncApplyInput input") (simp_all add: sim_fail sim_in_tx[OF sim_apply_sync[OF _ assms]])


section \<open>Rules\<close>

lemma normalize_rule_same: "pg_normalize_rule = normalize_rule"
  by (simp add: fun_eq_iff pg_normalize_rule_def normalize_rule_def Let_def pg_ruleIDFromPointerKey_def ruleIDFromPointerKey_def
      pg_normalizeRulePointerEnforcement_def normalizeRulePointerEnforcement_def pg_normalizeRulePointerTags_def
      normalizeRulePointerTags_def)

lemma map_res_all:
  assumes "map_res f xs = Inr ys" "\<And>x y. f x = Inr y \<Longrightarrow> P y"
  shows "list_all P ys"
  using assms by (induction xs arbitrary: ys) (auto simp: bind_res_Inr_iff)

lemma normalized_rule:
  assumes "normalize_rule p src raw = Inr rule"
  shows "rup_PointerKey rule \<noteq> '''' \<and> tags_ok (rup_Tags rule)"
proof -
  let ?t = "\<lambda>e. normalizeRulePointerTags (rup_Tags raw) e"
  have tags: "tags_ok (?t e)" for e
  proof -
    let ?vs = "Some (elems (rup_Tags raw) @ [''rule'', ''canonical-rule'',
        if e = ''soft'' then ''enforcement-soft'' else ''enforcement-hard''])"
    have "TrimSpace ''rule'' = ''rule''" by code_simp
    then have "''rule'' \<in> set (elems (NormalizeStringList ?vs))"
      unfolding set_NormalizeStringList by (force simp: image_iff)
    then have "elems (NormalizeStringList ?vs) \<noteq> []" by auto
    moreover from this have "NormalizeStringList (NormalizeStringList ?vs) = NormalizeStringList ?vs"
      using NormalizeStringList_Some_idem[of ?vs]
      by (cases "NormalizeStringList ?vs"; cases "elems (NormalizeStringList ?vs)") auto
    ultimately show ?thesis by (simp add: tags_ok_def normalizeRulePointerTags_def)
  qed
  show ?thesis using assms tags by (auto simp: normalize_rule_def Let_def split: if_splits)
qed

lemma rules_same: "pg_normalizeRulePointerSyncInput input = normalizeRulePointerSyncInput input"
proof -
  have fold: "map snd (sort_key fst (foldl (\<lambda>m rule. AList.update (rup_PointerKey rule) rule m) [] rules)) =
      emit_sorted (fold_by_key rup_PointerKey (\<lambda>_ rule. rule) rules)"
    if "list_all (\<lambda>rule. rup_PointerKey rule \<noteq> '''') rules" for rules
  proof -
    have "foldl (\<lambda>m rule. AList.update (rup_PointerKey rule) rule m) m rules =
        foldl (\<lambda>m rule. if rup_PointerKey rule = '''' then m else AList.update (rup_PointerKey rule) rule m) m rules" for m
      using that by (induction rules arbitrary: m) auto
    then have "foldl (\<lambda>m rule. AList.update (rup_PointerKey rule) rule m) [] rules =
        fold_by_key rup_PointerKey (\<lambda>_ rule. rule) rules" unfolding fold_by_key_def by blast
    then show ?thesis by (simp only: sort_emitted[OF fold_by_key_distinct])
  qed
  show ?thesis
  proof (cases "map_res (normalize_rule (TrimSpace (rpi_ProjectID input)) (NormalizeRepoPath (rpi_SourcePath input))) (rpi_Pointers input)")
    case (Inl e)
    then show ?thesis
      by (simp add: pg_normalizeRulePointerSyncInput_def normalizeRulePointerSyncInput_def Let_def normalize_rule_same cong: if_cong)
  next
    case (Inr rules)
    have "list_all (\<lambda>rule. rup_PointerKey rule \<noteq> '''') rules"
      by (rule map_res_all[OF Inr]) (simp add: normalized_rule)
    from fold[OF this] show ?thesis
      by (simp add: pg_normalizeRulePointerSyncInput_def normalizeRulePointerSyncInput_def Let_def normalize_rule_same Inr cong: if_cong)
  qed
qed

lemma normalized_rules_ok:
  assumes "normalizeRulePointerSyncInput input = Inr n" "rule \<in> set (rpi_Pointers n)"
  shows "tags_ok (rup_Tags rule)"
proof -
  obtain rules where rules: "map_res (normalize_rule (rpi_ProjectID n) (rpi_SourcePath n)) (rpi_Pointers input) = Inr rules"
    "rpi_Pointers n = emit_sorted (fold_by_key rup_PointerKey (\<lambda>_ rule. rule) rules)"
    using assms(1) by (auto simp: normalizeRulePointerSyncInput_def Let_def bind_res_Inr_iff split: if_splits)
  have all: "list_all (\<lambda>rule. tags_ok (rup_Tags rule)) rules"
    by (rule map_res_all[OF rules(1)]) (simp add: normalized_rule)
  have "x \<in> snd ` set (fold_by_key rup_PointerKey (\<lambda>_ rule. rule) rs) \<Longrightarrow> x \<in> set rs" for x :: RulePointer and rs
  proof (induction rs rule: rev_induct)
    case (snoc r rs)
    then show ?case
      using set_update_snd[of x "rup_PointerKey r" r "fold_by_key rup_PointerKey (\<lambda>_ rule. rule) rs"]
      by (cases "rup_PointerKey r = ''''") (auto simp: fold_by_key_snoc Let_def)
  qed simp
  then show ?thesis
    using assms(2) all unfolding rules(2) set_emit_sorted[OF fold_by_key_distinct] by (auto simp: list_all_iff)
qed

lemma sim_upsert_rule:
  assumes "tags_ok (rup_Tags rule)"
  shows "sim (=) (upsert_rule p src rule) (pg_upsert_rule p src rule)"
proof -
  have tags: "nonNilStringList (rup_Tags rule) = rup_Tags rule" "elems (rup_Tags rule) \<noteq> []"
    "NormalizeStringList (rup_Tags rule) = rup_Tags rule"
    using assms by (auto simp: tags_ok_def nonNilStringList_def)
  have put: "sim (\<lambda>_ _. True)
      (modify_db (\<lambda>s. s\<lparr>db_pointers := AList.update (p, rup_PointerKey rule) (rule_row src (db_clock s) rule) (db_pointers s)\<rparr>))
      (modify_db (\<lambda>s. s\<lparr>db_pointers := AList.update (p, rup_PointerKey rule) (rule_row src (db_clock s) rule) (db_pointers s)\<rparr>))"
    by (rule sim_put_pointer[of "\<lambda>_ t. rule_row src t rule" "\<lambda>_ t. rule_row src t rule"])
       (auto simp: rule_row_def pg_pointer_def plain_pointer_def tags)
  show ?thesis
    unfolding upsert_rule_def pg_upsert_rule_def nonNil_eq rule_row_def[symmetric]
    by (auto intro!: sim_intros sim_bind[OF put])
qed

lemma delete_rules_same: "pg_delete_rules p src keys =
   bind_db (db_call ''delete missing rule pointers'') (\<lambda>_.
     bind_db (get_db (\<lambda>s. length (filter (missing_rule p src keys) (db_pointers s)))) (\<lambda>n.
     bind_db (modify_db (\<lambda>s. s\<lparr>db_pointers := filter (\<lambda>e. \<not> missing_rule p src keys e) (db_pointers s)\<rparr>)) (\<lambda>_. ret_db n)))"
proof -
  have "(if keys = [] then (\<lambda>((q, k), row). q = p \<and> pt_path row = src \<and> pt_is_rule row)
      else (\<lambda>((q, k), row). q = p \<and> pt_path row = src \<and> pt_is_rule row \<and> k \<notin> set keys)) = missing_rule p src keys"
    by (auto simp: missing_rule_def fun_eq_iff)
  then show ?thesis by (simp only: pg_delete_rules_def Let_def)
qed

lemma sim_delete_rules: "sim (=) (delete_missing_rules p src keys) (pg_delete_rules p src keys)"
proof -
  have same: "filter (missing_rule p src keys) (on_rows pg_pointer al) = on_rows pg_pointer (filter (missing_rule p src keys) al)"
    "filter (\<lambda>e. \<not> missing_rule p src keys e) (on_rows pg_pointer al) =
      on_rows pg_pointer (filter (\<lambda>e. \<not> missing_rule p src keys e) al)" for al
    by (induction al) (auto simp: on_rows_def missing_rule_def)
  have del: "sim (\<lambda>_ _. True)
      (modify_db (\<lambda>s. s\<lparr>db_pointers := filter (\<lambda>e. \<not> missing_rule p src keys e) (db_pointers s)\<rparr>))
      (modify_db (\<lambda>s. s\<lparr>db_pointers := filter (\<lambda>e. \<not> missing_rule p src keys e) (db_pointers s)\<rparr>))"
  proof (rule sim_modify, rule conjI)
    fix s assume s: "plain_db s"
    have "distinct (map fst (filter (\<lambda>e. \<not> missing_rule p src keys e) (db_pointers s)))"
      by (rule distinct_map_filter[OF plain_dbD(12)[OF s]])
    then show "plain_db (s\<lparr>db_pointers := filter (\<lambda>e. \<not> missing_rule p src keys e) (db_pointers s)\<rparr>)"
      using s by (auto simp: plain_db_def)
    show "(pg_of s)\<lparr>db_pointers := filter (\<lambda>e. \<not> missing_rule p src keys e) (db_pointers (pg_of s))\<rparr> =
        pg_of (s\<lparr>db_pointers := filter (\<lambda>e. \<not> missing_rule p src keys e) (db_pointers s)\<rparr>)"
      unfolding pg_of_sel same by (simp add: pg_of_def)
  qed
  show ?thesis
    unfolding delete_missing_rules_def delete_rules_same
  proof (rule sim_bind_call, rule sim_bind[of "(=)"], rule sim_get)
    show "length (filter (missing_rule p src keys) (db_pointers s)) = length (filter (missing_rule p src keys) (db_pointers (pg_of s)))" for s
      unfolding pg_of_sel same by simp
  next
    fix x y :: nat assume "x = y"
    then show "sim (=) (bind_db (modify_db (\<lambda>s. s\<lparr>db_pointers := filter (\<lambda>e. \<not> missing_rule p src keys e) (db_pointers s)\<rparr>)) (\<lambda>_. ret_db x))
        (bind_db (modify_db (\<lambda>s. s\<lparr>db_pointers := filter (\<lambda>e. \<not> missing_rule p src keys e) (db_pointers s)\<rparr>)) (\<lambda>_. ret_db y))"
      by (intro sim_bind[OF del] sim_ret)
  qed
qed

lemma sim_SyncRulePointers: "sim (=) (SyncRulePointers input) (pg_SyncRulePointers input)"
proof (cases "normalizeRulePointerSyncInput input")
  case (Inl e)
  then show ?thesis by (simp add: SyncRulePointers_def pg_SyncRulePointers_def rules_same sim_fail)
next
  case (Inr n)
  have "sim (=) (sync_rules_body n) (pg_sync_rules_tx n)"
    unfolding sync_rules_body_def pg_sync_rules_tx_def
    by (rule sim_bind[OF sim_each[OF sim_upsert_rule[OF normalized_rules_ok[OF Inr]]]], assumption,
        rule sim_bind[OF sim_delete_rules], rule sim_ret) simp
  then show ?thesis by (simp add: SyncRulePointers_def pg_SyncRulePointers_def rules_same Inr sim_in_tx)
qed

end
