(* ===== verification/Pg_Agree_History.thy ===== *)
theory Pg_Agree_History
  imports Pg_Agree_Receipts
begin

text \<open>
  The lists on the two adapters. The search of the plans agrees; the searches of receipts and runs read
  other columns, so they agree without a query.
\<close>

section \<open>Searching\<close>

definition lowered :: "string \<Rightarrow> bool" where
  "lowered s \<longleftrightarrow> (\<forall>c \<in> set s. lower_char c = c)"

lemma lowered_simps [simp]: "lowered []" "lowered (c # s) \<longleftrightarrow> lower_char c = c \<and> lowered s"
  "lowered (map lower_char t)" "lowered (s @ t) \<longleftrightarrow> lowered s \<and> lowered t"
  by (auto simp: lowered_def)

lemma lowered_drop: "lowered s \<Longrightarrow> lowered (drop n s)" "lowered s \<Longrightarrow> lowered (dropWhile P s)"
  by (auto simp: lowered_def dest: in_set_dropD set_dropWhileD)

lemma lowered_literals [simp]: "lower_char (CHR 0x5C) = CHR 0x5C" "lower_char (CHR ''%'') = CHR ''%''"
  "lower_char (CHR ''i'') = CHR ''i''" "lower_char (CHR ''k'') = CHR ''k''"
  by code_simp+

lemma lowered_ToLower: "lowered (ToLower s)"
  by (induction s rule: ToLower.induct) auto

lemma lowered_pattern: "lowered (WorkPlanListSearchPattern q)"
proof -
  have "lowered t \<Longrightarrow> lowered (like_escape t)" for t by (induction t) auto
  then show ?thesis using lowered_ToLower by (simp add: WorkPlanListSearchPattern_def Let_def)
qed

lemma like_agree: "lowered p \<Longrightarrow> lowered s \<Longrightarrow> pg_like p s = sql_like p s"
proof (induction p s rule: sql_like.induct)
  case (1 p s)
  note IH = "1.IH" and low = "1.prems"
  note unf = pg_like.simps[of p s] sql_like.simps[of p s]
  show ?case
  proof (cases p)
    case Nil
    then show ?thesis unfolding unf by simp
  next
    case (Cons c q)
    then have q: "lowered q" "lower_char c = c" using low(1) by simp_all
    consider (esc) "c = CHR 0x5C" | (any) "c = CHR ''%''" | (one) "c \<noteq> CHR 0x5C" "c \<noteq> CHR ''%''" by blast
    then show ?thesis
    proof cases
      case esc
      show ?thesis
      proof (cases q)
        case q': (Cons e q')
        show ?thesis
        proof (cases s)
          case s: (Cons x t)
          have "pg_like q' t = sql_like q' t" using IH(1)[OF Cons esc] q q' s low(2) by simp
          then show ?thesis
            unfolding unf using q q' s low(2) esc Cons by simp
        qed (unfold unf, use Cons esc q' in simp)
      qed (unfold unf, use Cons esc in simp)
    next
      case any
      have eq: "pg_like q (drop n s) = sql_like q (drop n s)" if "n \<le> length s" for n
        using IH(2)[OF Cons _ any, of n] any q lowered_drop(1)[OF low(2)] that by (auto simp: le_less)
      then show ?thesis unfolding unf using Cons any eq[of "length s"] by (auto simp: list_ex_iff)
    next
      case one
      show ?thesis
      proof (cases s)
        case s: (Cons x t)
        let ?t = "if byte x < 0xC0 then t else dropWhile (\<lambda>y. 0x80 \<le> byte y \<and> byte y < 0xC0) t"
        have t: "lowered t" "lowered ?t" "lower_char x = x" using low(2) s lowered_drop(2)[of t] by simp_all
        show ?thesis
        proof (cases "c = CHR ''_''")
          case True
          have "pg_like q ?t = sql_like q ?t" by (rule IH(3)[OF Cons one s True q(1) t(2)])
          then show ?thesis unfolding unf unfolding Cons s list.case using one True by (simp only: if_False if_True simp_thms)
        next
          case False
          have "pg_like q t = sql_like q t" by (rule IH(4)[OF Cons one s False q(1) t(1)])
          then show ?thesis unfolding unf unfolding Cons s list.case using one False q(2) t(3) by (simp only: if_False simp_thms)
        qed
      qed (unfold unf, use Cons one in simp)
    qed
  qed
qed

lemma hit_agree: "pg_hit (WorkPlanListSearchPattern q) cols = search_hit (WorkPlanListSearchPattern q) cols"
  by (simp add: pg_hit_def search_hit_def pg_lower_def sql_lower_def like_agree lowered_pattern)

lemma limited_agree: "0 < dflt \<Longrightarrow> dflt \<le> 100 \<Longrightarrow> pg_limited dflt u l rows = limited dflt u l rows"
  by (simp add: pg_limited_def limited_def Let_def)

lemma limited_map: "limited d u l (map f rows) = map f (limited d u l rows)"
  by (simp add: limited_def take_map)

lemma set_limited: "set (limited d u l rows) \<subseteq> set rows"
  by (auto simp: limited_def dest: in_set_takeD)

section \<open>Receipts and runs without a query\<close>

lemma blank_pattern: "TrimSpace q = '''' \<Longrightarrow> WorkPlanListSearchPattern q = ''''"
  by (simp add: WorkPlanListSearchPattern_def)

lemma receipt_updated_agree: "pg_receipt_updated p (pg_of s) r (pg_scope row) = scale (receipt_updated_at p s r row)"
  by (simp add: pg_receipt_updated_def receipt_updated_at_def last_run_agree split: option.split)

lemma receipt_updated_plain: "plain_db s \<Longrightarrow> 0 \<le> rr_created_at row \<Longrightarrow> 0 \<le> receipt_updated_at p s r row"
  using latest_run_plain[of s p r] by (simp add: receipt_updated_at_def split: option.split)

lemma receipt_summary_agree:
  assumes "plain_db s" "0 \<le> rr_created_at row"
  shows "pg_receipt_summary p (pg_of s) (r, pg_scope row) = receipt_summary_of p s (r, row)"
  using receipt_updated_plain[OF assms]
  by (simp add: pg_receipt_summary_def receipt_summary_of_def Let_def last_run_agree receipt_updated_agree pg_time_scale
      split: option.split)

lemma sim_ListReceiptHistory:
  assumes "TrimSpace (rhq_Query input) = ''''"
  shows "sim (=) (ListReceiptHistory input) (pg_ListReceiptHistory input)"
proof -
  let ?p = "TrimSpace (rhq_ProjectID input)"
  have rows: "pg_receipt_rows input ?p (pg_of s) = on_rows pg_scope (receipt_rows input ?p s)" for s
  proof -
    have f: "filter (\<lambda>(r, row). rr_project_id row = ?p) (on_rows pg_scope al) =
        map (map_prod id pg_scope) (filter (\<lambda>(r, row). rr_project_id row = ?p) al)" for al
      by (induction al) (auto simp: on_rows_def)
    have srt: "sort_key (\<lambda>(r, row). (- pg_receipt_updated ?p (pg_of s) r row, r)) (map (map_prod id pg_scope) al) =
        map (map_prod id pg_scope) (sort_key (\<lambda>(r, row). (- receipt_updated_at ?p s r row, r)) al)" for al
      by (rule sort_key_map) (auto simp: receipt_updated_agree less_eq_prod_def)
    have rows: "map (map_prod id pg_scope) al = on_rows pg_scope al" for al by (auto simp: on_rows_def)
    show ?thesis
      using assms by (simp only: pg_receipt_rows_def receipt_rows_def Let_def blank_pattern pg_of_sel simp_thms
          f srt limited_agree[of 20] limited_map) (simp only: rows)
  qed
  have "sim (=) (get_db (\<lambda>s. map (receipt_summary_of ?p s)
          (filter (\<lambda>(receiptID, _). TrimSpace receiptID \<noteq> '''') (receipt_rows input ?p s))))
      (get_db (\<lambda>s. filter (\<lambda>row. rhs_ReceiptID row \<noteq> '''') (map (pg_receipt_summary ?p s) (pg_receipt_rows input ?p s))))"
  proof (rule sim_get)
    fix s assume s: "plain_db s"
    have "set (receipt_rows input ?p s) \<subseteq> set (db_receipts s)"
      using set_limited by (fastforce simp: receipt_rows_def Let_def)
    then have plain: "\<forall>(r, row) \<in> set (receipt_rows input ?p s). 0 \<le> rr_created_at row" using plain_dbD(7)[OF s] by fastforce
    have "map (receipt_summary_of ?p s) (filter (\<lambda>(receiptID, _). TrimSpace receiptID \<noteq> '''') al) =
        filter (\<lambda>row. rhs_ReceiptID row \<noteq> '''') (map (pg_receipt_summary ?p (pg_of s)) (on_rows pg_scope al))"
      if "\<forall>(r, row) \<in> set al. 0 \<le> rr_created_at row" for al
      using that by (induction al)
        (auto simp: on_rows_def receipt_summary_agree[OF s], auto simp: receipt_summary_of_def Let_def)
    then show "map (receipt_summary_of ?p s) (filter (\<lambda>(receiptID, _). TrimSpace receiptID \<noteq> '''') (receipt_rows input ?p s)) =
        filter (\<lambda>row. rhs_ReceiptID row \<noteq> '''') (map (pg_receipt_summary ?p (pg_of s)) (pg_receipt_rows input ?p (pg_of s)))"
      using plain rows by simp
  qed
  then show ?thesis
    unfolding ListReceiptHistory_def pg_ListReceiptHistory_def Let_def by (auto intro!: sim_intros)
qed

lemma receipt_of_run_agree: "pg_receipt_of_run (pg_of s) (pg_run run) = receipt_of_run s run"
  by (simp add: pg_receipt_of_run_def receipt_of_run_def pg_receipt_def split: option.split)

lemma run_summary_agree:
  "0 \<le> nr_created_at run \<Longrightarrow> pg_run_summary (pg_of s) (pg_run run) = run_summary_of s run"
  by (simp add: pg_run_summary_def run_summary_of_def receipt_of_run_agree decodeStringList_def pg_time_scale)

lemma sim_ListRunHistory:
  assumes "TrimSpace (unq_Query input) = ''''"
  shows "sim (=) (ListRunHistory input) (pg_ListRunHistory input)"
proof -
  let ?p = "TrimSpace (unq_ProjectID input)"
  have f: "filter (\<lambda>run. nr_project_id run = ?p) (map pg_run xs) = map pg_run (filter (\<lambda>run. nr_project_id run = ?p) xs)" for xs
    by (induction xs) auto
  have srt: "sort_key (\<lambda>run. (- nr_created_at run, - nr_run_id run)) (map pg_run xs) =
      map pg_run (sort_key (\<lambda>run. (- nr_created_at run, - nr_run_id run)) xs)" for xs
    by (rule sort_key_map) (auto simp: less_eq_prod_def)
  have rows: "pg_run_rows input ?p (pg_of s) = map pg_run (run_rows input ?p s)" for s
    using assms by (simp only: pg_run_rows_def run_rows_def Let_def blank_pattern pg_of_sel simp_thms f srt
        limited_agree[of 20] limited_map)
  have "sim (=) (get_db (\<lambda>s. filter (\<lambda>row. \<not> uhs_RunID row \<le> 0) (map (run_summary_of s) (run_rows input ?p s))))
      (get_db (\<lambda>s. filter (\<lambda>row. 0 < uhs_RunID row) (map (pg_run_summary s) (pg_run_rows input ?p s))))"
  proof (rule sim_get)
    fix s assume s: "plain_db s"
    have "set (run_rows input ?p s) \<subseteq> set (db_runs s)"
      using set_limited by (fastforce simp: run_rows_def Let_def)
    then have "\<forall>run \<in> set (run_rows input ?p s). 0 \<le> nr_created_at run" using plain_dbD(9)[OF s] by blast
    then have "map (pg_run_summary (pg_of s)) (map pg_run (run_rows input ?p s)) = map (run_summary_of s) (run_rows input ?p s)"
      by (simp add: run_summary_agree)
    then show "filter (\<lambda>row. \<not> uhs_RunID row \<le> 0) (map (run_summary_of s) (run_rows input ?p s)) =
        filter (\<lambda>row. 0 < uhs_RunID row) (map (pg_run_summary (pg_of s)) (pg_run_rows input ?p (pg_of s)))"
      unfolding rows by (simp only: not_le)
  qed
  then show ?thesis
    unfolding ListRunHistory_def pg_ListRunHistory_def Let_def by (auto intro!: sim_intros)
qed

lemma sim_LookupRunHistory: "sim (=) (LookupRunHistory input) (pg_LookupRunHistory input)"
proof -
  let ?p = "TrimSpace (ulq_ProjectID input)"
  let ?P = "\<lambda>r. nr_project_id r = ?p \<and> nr_run_id r = ulq_RunID input"
  have find: "find ?P (map pg_run xs) = map_option pg_run (find ?P xs)" for xs by (induction xs) auto
  have "sim (=) (bind_db (get_db (\<lambda>s. (find ?P (db_runs s), s))) (\<lambda>(found, s). case found of
          None \<Rightarrow> fail_db ErrFetchLookupNotFound | Some run \<Rightarrow> ret_db (run_summary_of s run)))
      (bind_db (get_db (\<lambda>s. map_option (pg_run_summary s) (find ?P (db_runs s)))) (\<lambda>found. case found of
          None \<Rightarrow> fail_db ErrFetchLookupNotFound | Some row \<Rightarrow> ret_db row))"
  proof (rule sim_bind[of "\<lambda>(x, s) y. y = map_option (run_summary_of s) x"], rule sim_get)
    fix s assume s: "plain_db s"
    show "(\<lambda>(x, s) y. y = map_option (run_summary_of s) x) (find ?P (db_runs s), s)
        (map_option (pg_run_summary (pg_of s)) (find ?P (db_runs (pg_of s))))"
    proof (cases "find ?P (db_runs s)")
      case (Some run)
      then have "run \<in> set (db_runs s)" by (auto simp: find_Some_iff)
      then show ?thesis using Some plain_dbD(9)[OF s] by (simp add: find run_summary_agree)
    qed (simp add: find)
  qed (auto intro!: sim_ret sim_fail split: option.split)
  then show ?thesis
    unfolding LookupRunHistory_def pg_LookupRunHistory_def Let_def by (auto intro!: sim_intros)
qed


section \<open>Work plans\<close>

lemma plan_tasks_agree: "pg_plan_tasks p k (pg_of s) = map (map_prod id pg_task) (tasks_of_plan p k s)"
proof -
  have "map (\<lambda>((p, k, t), row). (t, row)) (filter (\<lambda>((q, l, t), row). q = p \<and> l = k) (on_rows pg_task al)) =
      map (map_prod id pg_task) (map (\<lambda>((p, k, t), row). (t, row)) (filter (\<lambda>((q, l, t), row). q = p \<and> l = k) al))" for al
    by (induction al) (auto simp: on_rows_def)
  then show ?thesis by (simp add: pg_plan_tasks_def tasks_of_plan_def)
qed

definition plan_selected :: "WorkPlanListQuery \<Rightarrow> string \<Rightarrow> db \<Rightarrow> string \<times> plan_row \<Rightarrow> bool" where
  "plan_selected input p s = (\<lambda>(planKey, row).
     plan_status_in_scope (NormalizeWorkPlanListScope (wlq_Scope input)) (wp_Status (pr_plan row)) \<and>
     (TrimSpace (wlq_Kind input) = '''' \<or> wp_Kind (pr_plan row) = TrimSpace (wlq_Kind input)) \<and>
     (WorkPlanListSearchPattern (wlq_Query input) = '''' \<or>
      plan_search_hit (WorkPlanListSearchPattern (wlq_Query input)) p planKey row
        (map snd (tasks_of_plan p planKey s)) (map fst (tasks_of_plan p planKey s))))"

lemma plan_selected_agree:
  "pg_plan_selected input p (pg_of s) (k, pg_plan row) = plan_selected input p s (k, row)"
proof -
  let ?q = "WorkPlanListSearchPattern (wlq_Query input)"
  have tasks: "list_ex (\<lambda>(k, t). search_hit ?q [k, wi_Summary (tr_task t), wi_Outcome (tr_task t), wi_BlockedReason (tr_task t)])
      (map (map_prod id pg_task) xs) =
    list_ex (\<lambda>(k, t). search_hit ?q [k, wi_Summary (tr_task t), wi_Outcome (tr_task t), wi_BlockedReason (tr_task t)]) xs" for xs
    by (induction xs) auto
  show ?thesis
    by (simp only: pg_plan_selected_def plan_selected_def plan_search_hit_def prod.case Let_def hit_agree plan_tasks_agree tasks
        zip_map_fst_snd pg_row_sel plan_status_in_scope_def) (simp add: eq_commute)
qed

lemma work_plan_rows_alt: "work_plan_rows input p s = limited 8 (wlq_Unbounded input) (wlq_Limit input)
    (sort_key (\<lambda>(k, row). (- pr_updated_at row, k)) (filter (plan_selected input p s)
      (map (\<lambda>((p, k), row). (k, row)) (filter (\<lambda>((q, k), row). q = p) (db_plans s)))))"
  by (simp only: work_plan_rows_def plan_selected_def Let_def)

lemma plan_rows_agree:
  "pg_limited 8 (wlq_Unbounded input) (wlq_Limit input) (sort_key (\<lambda>(k, row). (- pr_updated_at row, k))
     (filter (pg_plan_selected input p (pg_of s))
       (map (\<lambda>((p, k), row). (k, row)) (filter (\<lambda>((q, k), row). q = p) (db_plans (pg_of s)))))) =
   map (map_prod id pg_plan) (work_plan_rows input p s)"
proof -
  have own: "map (\<lambda>((p, k), row). (k, row)) (filter (\<lambda>((q, k), row). q = p) (on_rows pg_plan al)) =
      map (map_prod id pg_plan) (map (\<lambda>((p, k), row). (k, row)) (filter (\<lambda>((q, k), row). q = p) al))" for al
    by (induction al) (auto simp: on_rows_def)
  have sel: "filter (pg_plan_selected input p (pg_of s)) (map (map_prod id pg_plan) xs) =
      map (map_prod id pg_plan) (filter (plan_selected input p s) xs)" for xs
    by (induction xs) (auto simp: plan_selected_agree)
  have srt: "sort_key (\<lambda>(k, row). (- pr_updated_at row, k)) (map (map_prod id pg_plan) xs) =
      map (map_prod id pg_plan) (sort_key (\<lambda>(k, row). (- pr_updated_at row, k)) xs)" for xs
    by (rule sort_key_map) (auto simp: less_eq_prod_def)
  show ?thesis
    unfolding pg_of_sel own sel srt work_plan_rows_alt limited_map[symmetric] by (rule limited_agree) simp_all
qed

lemma plan_summary_agree:
  assumes "0 \<le> pr_updated_at row"
  shows "pg_plan_summary (pg_of s) p (k, pg_plan row) = plan_summary_of s p (k, row)"
proof -
  have count: "length (filter (\<lambda>(_, t). wi_Status (tr_task t) = st) (map (map_prod id pg_task) xs)) =
      length (filter (\<lambda>(_, t). wi_Status (tr_task t) = st) xs)" for st and xs :: "(string \<times> task_row) list"
    by (induction xs) auto
  show ?thesis
    using assms by (simp only: pg_plan_summary_def plan_summary_of_def prod.case Let_def plan_tasks_agree count
        count_status_def pg_row_sel length_map pg_time_scale)
qed

lemma active_keys_agree:
  "map snd (filter (\<lambda>(k, t). k = planKey \<and> t \<noteq> '''')
     (map (\<lambda>(k, t). (TrimSpace k, TrimSpace t)) (pg_active_rows p planKeys (pg_of s)))) =
   active_task_keys s p planKeys planKey"
proof -
  let ?key = "\<lambda>((p, k, t), row). (k, active_rank (wi_Status (tr_task row)), t)"
  let ?open = "\<lambda>((q, k, t), row). q = p \<and> k \<in> set planKeys \<and>
      wi_Status (tr_task row) \<noteq> ''complete'' \<and> wi_Status (tr_task row) \<noteq> ''superseded''"
  let ?of = "\<lambda>((p, k, t), row :: task_row). TrimSpace k = planKey"
  have f: "filter ?open (on_rows pg_task al) = on_rows pg_task (filter ?open al)" for al
    by (induction al) (auto simp: on_rows_def)
  have srt: "sort_key ?key (on_rows pg_task al) = on_rows pg_task (sort_key ?key al)" for al
    unfolding on_rows_def by (rule sort_key_map) auto
  have rows: "pg_active_rows p planKeys (pg_of s) =
      map (\<lambda>((p, k, t), row). (k, t)) (on_rows pg_task (sort_key ?key (filter ?open (db_tasks s))))"
    by (simp only: pg_active_rows_def active_rank_def[symmetric] pg_of_sel f srt)
  have pick: "map snd (filter (\<lambda>(k, t). k = planKey \<and> t \<noteq> '''') (map (\<lambda>(k, t). (TrimSpace k, TrimSpace t))
      (map (\<lambda>((p, k, t), row). (k, t)) (on_rows pg_task al)))) =
    filter (\<lambda>t. t \<noteq> '''') (map (\<lambda>((p, k, t), row). TrimSpace t) (filter ?of al))" for al
    by (induction al) (auto simp: on_rows_def)
  have both: "filter ?of (filter ?open al) = filter (\<lambda>((q, k, t), row). q = p \<and> k \<in> set planKeys \<and> TrimSpace k = planKey \<and>
      wi_Status (tr_task row) \<notin> set [''complete'', ''superseded'']) al" for al
    by (induction al) auto
  show ?thesis unfolding rows pick filter_sort both active_task_keys_def by (rule refl)
qed

lemma sim_active_keys: "sim (=) (listActiveWorkPlanTaskKeys p ks) (pg_listActiveWorkPlanTaskKeys p ks)"
  unfolding listActiveWorkPlanTaskKeys_def pg_listActiveWorkPlanTaskKeys_def
  by (rule sim_if, rule sim_ret, rule refl, rule sim_bind_call, rule sim_get) (simp add: fun_eq_iff active_keys_agree)

lemma summary_keys:
  "pg_workPlanSummaryKeys (map (plan_summary_of s p) (filter (\<lambda>(k, _). TrimSpace k \<noteq> '''') rows)) =
     map wsm_PlanKey (map (plan_summary_of s p) (filter (\<lambda>(k, _). TrimSpace k \<noteq> '''') rows))"
  by (induction rows) (auto simp: pg_workPlanSummaryKeys_def plan_summary_of_def Let_def)

lemma sim_ListWorkPlans: "sim (=) (ListWorkPlans input) (pg_ListWorkPlans input)"
proof -
  let ?p = "TrimSpace (wlq_ProjectID input)"
  let ?R = "\<lambda>(rows, s :: db) (rows', summary). rows' = map (map_prod id pg_plan) rows \<and>
      (\<forall>(k, row) \<in> set rows. summary (k, pg_plan row) = plan_summary_of s ?p (k, row))"
  have rest: "sim (=) (if list_ex (\<lambda>(_, row). pr_receipt_id row = None) rows then fail_db (ErrDB ''scan work plan summary'')
        else let out = map (plan_summary_of s ?p) (filter (\<lambda>(k, _). TrimSpace k \<noteq> '''') rows) in
          if out = [] then ret_db []
          else bind_db (listActiveWorkPlanTaskKeys ?p (map wsm_PlanKey out)) (\<lambda>active.
            ret_db (map (\<lambda>w. let ks = active (wsm_PlanKey w) in w\<lparr>wsm_ActiveTaskKeys := (if ks = [] then None else Some ks)\<rparr>) out)))
      (if list_ex (\<lambda>(_, row). pr_receipt_id row = None) rows' then fail_db (ErrDB ''scan work plan summary'')
        else let out = map summary (filter (\<lambda>(k, _). TrimSpace k \<noteq> '''') rows') in
          if out = [] then ret_db []
          else bind_db (pg_listActiveWorkPlanTaskKeys ?p (pg_workPlanSummaryKeys out)) (\<lambda>active.
            ret_db (map (\<lambda>w. w\<lparr>wsm_ActiveTaskKeys := (case active (wsm_PlanKey w) of [] \<Rightarrow> None | ks \<Rightarrow> Some ks)\<rparr>) out)))"
    if R: "?R (rows, s) (rows', summary)" for rows s rows' summary
  proof -
    have none: "list_ex (\<lambda>(_, row). pr_receipt_id row = None) (map (map_prod id pg_plan) xs) =
        list_ex (\<lambda>(_, row). pr_receipt_id row = None) xs" for xs :: "(string \<times> plan_row) list"
      by (induction xs) auto
    have out: "map summary (filter (\<lambda>(k, _). TrimSpace k \<noteq> '''') (map (map_prod id pg_plan) xs)) =
        map (plan_summary_of s ?p) (filter (\<lambda>(k, _). TrimSpace k \<noteq> '''') xs)" if "set xs \<subseteq> set rows" for xs
      using that R by (induction xs) auto
    have act: "(case ks of [] \<Rightarrow> None | k # ks' \<Rightarrow> Some (k # ks')) = (if ks = [] then None else Some ks)" for ks :: "string list"
      by (cases ks) auto
    have rows': "rows' = map (map_prod id pg_plan) rows" using R by simp
    show ?thesis
      unfolding rows' none out[OF subset_refl] Let_def summary_keys act
      by (rule sim_if, rule sim_fail, simp, rule sim_if, rule sim_ret, rule refl, rule sim_bind[OF sim_active_keys], rule sim_ret) simp
  qed
  have body: "sim (=) (bind_db (get_db (\<lambda>s. (work_plan_rows input ?p s, s))) (\<lambda>(rows, s).
        if list_ex (\<lambda>(_, row). pr_receipt_id row = None) rows then fail_db (ErrDB ''scan work plan summary'')
        else let out = map (plan_summary_of s ?p) (filter (\<lambda>(k, _). TrimSpace k \<noteq> '''') rows) in
          if out = [] then ret_db []
          else bind_db (listActiveWorkPlanTaskKeys ?p (map wsm_PlanKey out)) (\<lambda>active.
            ret_db (map (\<lambda>w. let ks = active (wsm_PlanKey w) in w\<lparr>wsm_ActiveTaskKeys := (if ks = [] then None else Some ks)\<rparr>) out))))
      (bind_db (get_db (\<lambda>s. (pg_limited 8 (wlq_Unbounded input) (wlq_Limit input)
               (sort_key (\<lambda>(k, row). (- pr_updated_at row, k)) (filter (pg_plan_selected input ?p s)
                   (map (\<lambda>((p, k), row). (k, row)) (filter (\<lambda>((p, k), row). p = ?p) (db_plans s))))),
             pg_plan_summary s ?p))) (\<lambda>(rows, summary).
        if list_ex (\<lambda>(_, row). pr_receipt_id row = None) rows then fail_db (ErrDB ''scan work plan summary'')
        else let out = map summary (filter (\<lambda>(k, _). TrimSpace k \<noteq> '''') rows) in
          if out = [] then ret_db []
          else bind_db (pg_listActiveWorkPlanTaskKeys ?p (pg_workPlanSummaryKeys out)) (\<lambda>active.
            ret_db (map (\<lambda>w. w\<lparr>wsm_ActiveTaskKeys := (case active (wsm_PlanKey w) of [] \<Rightarrow> None | ks \<Rightarrow> Some ks)\<rparr>) out))))"
  proof (rule sim_bind[of ?R], rule sim_get)
    fix s assume s: "plain_db s"
    have "set (work_plan_rows input ?p s) \<subseteq> set (map (\<lambda>((p, k), row). (k, row)) (filter (\<lambda>((q, k), row). q = ?p) (db_plans s)))"
      unfolding work_plan_rows_alt using set_limited by fastforce
    then have "0 \<le> pr_updated_at row" if "(k, row) \<in> set (work_plan_rows input ?p s)" for k row
      using that plain_dbD(4)[OF s] by (fastforce simp: plain_plan_def)
    then show "?R (work_plan_rows input ?p s, s) (pg_limited 8 (wlq_Unbounded input) (wlq_Limit input)
         (sort_key (\<lambda>(k, row). (- pr_updated_at row, k)) (filter (pg_plan_selected input ?p (pg_of s))
           (map (\<lambda>((p, k), row). (k, row)) (filter (\<lambda>((p, k), row). p = ?p) (db_plans (pg_of s)))))),
       pg_plan_summary (pg_of s) ?p)"
      unfolding plan_rows_agree by (auto simp: plan_summary_agree)
  next
    fix x :: "(string \<times> plan_row) list \<times> db" and y assume R: "?R x y"
    obtain rows s rows' summary where x: "x = (rows, s)" and y: "y = (rows', summary)" by (metis prod.exhaust)
    show "sim (=) (case x of (rows, s) \<Rightarrow>
        if list_ex (\<lambda>(_, row). pr_receipt_id row = None) rows then fail_db (ErrDB ''scan work plan summary'')
        else let out = map (plan_summary_of s ?p) (filter (\<lambda>(k, _). TrimSpace k \<noteq> '''') rows) in
          if out = [] then ret_db []
          else bind_db (listActiveWorkPlanTaskKeys ?p (map wsm_PlanKey out)) (\<lambda>active.
            ret_db (map (\<lambda>w. let ks = active (wsm_PlanKey w) in w\<lparr>wsm_ActiveTaskKeys := (if ks = [] then None else Some ks)\<rparr>) out)))
      (case y of (rows, summary) \<Rightarrow>
        if list_ex (\<lambda>(_, row). pr_receipt_id row = None) rows then fail_db (ErrDB ''scan work plan summary'')
        else let out = map summary (filter (\<lambda>(k, _). TrimSpace k \<noteq> '''') rows) in
          if out = [] then ret_db []
          else bind_db (pg_listActiveWorkPlanTaskKeys ?p (pg_workPlanSummaryKeys out)) (\<lambda>active.
            ret_db (map (\<lambda>w. w\<lparr>wsm_ActiveTaskKeys := (case active (wsm_PlanKey w) of [] \<Rightarrow> None | ks \<Rightarrow> Some ks)\<rparr>) out)))"
      unfolding x y prod.case by (rule rest[OF R[unfolded x y]])
  qed
  show ?thesis
    unfolding ListWorkPlans_def pg_ListWorkPlans_def
    by (simp only: Let_def[of "TrimSpace (wlq_ProjectID input)"], rule sim_if, rule sim_fail, simp, rule sim_bind_call, rule body)
qed

end
