(* ===== verification/Pg_Properties.thy ===== *)
theory Pg_Properties
  imports Pg_Agree_Sync Pg_Agree_History
begin

text \<open>
  The storage interface of \<open>core/repository.go\<close> as a type of calls and answers, and what holds of the
  two adapters behind it: where they agree, and where they do not.
\<close>

section \<open>Calls of the storage interface\<close>

text \<open>The receipt id, the time and the clock that the adapters read are arguments of the call.\<close>

datatype store_call =
    CallFetchCandidatePointers CandidatePointerQuery
  | CallListPointerInventory string
  | CallUpsertPointerStubs string "PointerStub list"
  | CallUpsertReceiptScope ReceiptScope
  | CallFetchReceiptScope ReceiptScopeQuery
  | CallLookupFetchState FetchLookupQuery
  | CallLookupPointerByKey PointerLookupQuery
  | CallSaveRunReceiptSummary string RunReceiptSummary
  | CallSaveReviewAttempt int ReviewAttempt
  | CallListReviewAttempts ReviewAttemptListQuery
  | CallUpsertWorkItems WorkItemsUpsertInput
  | CallListWorkItems FetchLookupQuery
  | CallApplySync SyncApplyInput
  | CallSyncRulePointers RulePointerSyncInput
  | CallUpsertWorkPlan WorkPlanUpsertInput
  | CallLookupWorkPlan WorkPlanLookupQuery
  | CallListWorkPlans WorkPlanListQuery
  | CallListReceiptHistory ReceiptHistoryListQuery
  | CallListRunHistory RunHistoryListQuery
  | CallLookupRunHistory RunHistoryLookupQuery
  | CallSaveVerificationBatch "nat \<Rightarrow> int" VerificationBatch

datatype store_answer =
    Candidates "CandidatePointer list" | Inventory "PointerInventory list" | Pointer CandidatePointer
  | Number int | Stored | Scope ReceiptScope | FetchState FetchLookup | RunIDs RunReceiptIDs
  | Attempts "ReviewAttempt list" | Items "WorkItem list" | Synced SyncApplyResult
  | RulesSynced RulePointerSyncResult | PlanUpserted WorkPlanUpsertResult | Plan WorkPlan
  | Plans "WorkPlanSummary list" | Receipts "ReceiptHistorySummary list" | Runs "RunHistorySummary list"
  | Run RunHistorySummary

definition map_db :: "('a \<Rightarrow> 'b) \<Rightarrow> 'a db_op \<Rightarrow> 'b db_op" where
  "map_db f m = bind_db m (\<lambda>x. ret_db (f x))"

fun on_sqlite :: "store_call \<Rightarrow> store_answer db_op" where
  "on_sqlite (CallFetchCandidatePointers q) = map_db Candidates (FetchCandidatePointers q)"
| "on_sqlite (CallListPointerInventory p) = map_db Inventory (ListPointerInventory p)"
| "on_sqlite (CallUpsertPointerStubs p stubs) = map_db Number (UpsertPointerStubs p stubs)"
| "on_sqlite (CallUpsertReceiptScope scope) = map_db (\<lambda>_. Stored) (UpsertReceiptScope scope)"
| "on_sqlite (CallFetchReceiptScope q) = map_db Scope (FetchReceiptScope q)"
| "on_sqlite (CallLookupFetchState q) = map_db FetchState (LookupFetchState q)"
| "on_sqlite (CallLookupPointerByKey q) = map_db Pointer (LookupPointerByKey q)"
| "on_sqlite (CallSaveRunReceiptSummary fresh r) = map_db RunIDs (SaveRunReceiptSummary fresh r)"
| "on_sqlite (CallSaveReviewAttempt now a) = map_db Number (SaveReviewAttempt now a)"
| "on_sqlite (CallListReviewAttempts q) = map_db Attempts (ListReviewAttempts q)"
| "on_sqlite (CallUpsertWorkItems input) = map_db (\<lambda>n. Number (int n)) (UpsertWorkItems input)"
| "on_sqlite (CallListWorkItems q) = map_db Items (ListWorkItems q)"
| "on_sqlite (CallApplySync input) = map_db Synced (ApplySync input)"
| "on_sqlite (CallSyncRulePointers input) = map_db RulesSynced (SyncRulePointers input)"
| "on_sqlite (CallUpsertWorkPlan input) = map_db PlanUpserted (UpsertWorkPlan input)"
| "on_sqlite (CallLookupWorkPlan q) = map_db Plan (LookupWorkPlan q)"
| "on_sqlite (CallListWorkPlans q) = map_db Plans (ListWorkPlans q)"
| "on_sqlite (CallListReceiptHistory q) = map_db Receipts (ListReceiptHistory q)"
| "on_sqlite (CallListRunHistory q) = map_db Runs (ListRunHistory q)"
| "on_sqlite (CallLookupRunHistory q) = map_db Run (LookupRunHistory q)"
| "on_sqlite (CallSaveVerificationBatch clock b) = map_db (\<lambda>_. Stored) (SaveVerificationBatch clock b)"

fun on_postgres :: "store_call \<Rightarrow> store_answer db_op" where
  "on_postgres (CallFetchCandidatePointers q) = map_db Candidates (pg_FetchCandidatePointers q)"
| "on_postgres (CallListPointerInventory p) = map_db Inventory (pg_ListPointerInventory p)"
| "on_postgres (CallUpsertPointerStubs p stubs) = map_db Number (pg_UpsertPointerStubs p stubs)"
| "on_postgres (CallUpsertReceiptScope scope) = map_db (\<lambda>_. Stored) (pg_UpsertReceiptScope scope)"
| "on_postgres (CallFetchReceiptScope q) = map_db Scope (pg_FetchReceiptScope q)"
| "on_postgres (CallLookupFetchState q) = map_db FetchState (pg_LookupFetchState q)"
| "on_postgres (CallLookupPointerByKey q) = map_db Pointer (pg_LookupPointerByKey q)"
| "on_postgres (CallSaveRunReceiptSummary fresh r) = map_db RunIDs (pg_SaveRunReceiptSummary fresh r)"
| "on_postgres (CallSaveReviewAttempt now a) = map_db Number (pg_SaveReviewAttempt now a)"
| "on_postgres (CallListReviewAttempts q) = map_db Attempts (pg_ListReviewAttempts q)"
| "on_postgres (CallUpsertWorkItems input) = map_db (\<lambda>n. Number (int n)) (pg_UpsertWorkItems input)"
| "on_postgres (CallListWorkItems q) = map_db Items (pg_ListWorkItems q)"
| "on_postgres (CallApplySync input) = map_db Synced (pg_ApplySync input)"
| "on_postgres (CallSyncRulePointers input) = map_db RulesSynced (pg_SyncRulePointers input)"
| "on_postgres (CallUpsertWorkPlan input) = map_db PlanUpserted (pg_UpsertWorkPlan input)"
| "on_postgres (CallLookupWorkPlan q) = map_db Plan (pg_LookupWorkPlan q)"
| "on_postgres (CallListWorkPlans q) = map_db Plans (pg_ListWorkPlans q)"
| "on_postgres (CallListReceiptHistory q) = map_db Receipts (pg_ListReceiptHistory q)"
| "on_postgres (CallListRunHistory q) = map_db Runs (pg_ListRunHistory q)"
| "on_postgres (CallLookupRunHistory q) = map_db Run (pg_LookupRunHistory q)"
| "on_postgres (CallSaveVerificationBatch clock b) = map_db (\<lambda>_. Stored) (pg_SaveVerificationBatch clock b)"

text \<open>The calls on which the adapters agree: paths without white space at their ends once normalized,
  statements within the parameter limit, numbers of 32 bits, whole seconds, no search in the histories.\<close>

fun call_ok :: "store_call \<Rightarrow> bool" where
  "call_ok (CallUpsertWorkItems input) = (length (wui_Items input) \<le> 32766)"
| "call_ok (CallUpsertWorkPlan input) = trim_paths (elems (wpi_DiscoveredPaths input))"
| "call_ok (CallSaveReviewAttempt now a) = attempt_ok now a"
| "call_ok (CallSaveVerificationBatch clock b) = batch_ok clock b"
| "call_ok (CallApplySync input) = sync_ok input"
| "call_ok (CallListReceiptHistory q) = (TrimSpace (rhq_Query q) = '''')"
| "call_ok (CallListRunHistory q) = (TrimSpace (unq_Query q) = '''')"
| "call_ok _ = True"

text \<open>A session: before each call the clock of the database advances by some seconds.\<close>

fun session :: "int \<Rightarrow> (store_call \<Rightarrow> store_answer db_op) \<Rightarrow> (nat \<times> store_call) list \<Rightarrow> db \<Rightarrow> store_answer go_result list" where
  "session unit adapter [] s = []"
| "session unit adapter ((d, c) # cs) s =
     (let (r, s') = adapter c (s\<lparr>db_clock := db_clock s + unit * int d\<rparr>) in r # session unit adapter cs s')"

section \<open>Agreement\<close>

lemma sim_map_db: "sim (=) m m' \<Longrightarrow> sim (=) (map_db f m) (map_db f m')"
  unfolding map_db_def by (rule sim_bind[of "(=)"]) (auto intro: sim_ret)

lemma sim_call_ok:
  assumes "call_ok c"
  shows "sim (=) (on_sqlite c) (on_postgres c)"
  using assms
  by (cases c) (simp_all add: sim_map_db sim_FetchCandidatePointers sim_ListPointerInventory sim_UpsertPointerStubs
    sim_UpsertReceiptScope sim_FetchReceiptScope sim_LookupFetchState sim_LookupPointerByKey sim_SaveRunReceiptSummary
    sim_SaveReviewAttempt sim_ListReviewAttempts sim_UpsertWorkItems sim_ListWorkItems sim_ApplySync
    sim_SyncRulePointers sim_UpsertWorkPlan sim_LookupWorkPlan sim_ListWorkPlans sim_ListReceiptHistory
    sim_ListRunHistory sim_LookupRunHistory sim_SaveVerificationBatch)

lemma plain_tick: "plain_db s \<Longrightarrow> plain_db (s\<lparr>db_clock := db_clock s + 1 * int d\<rparr>)"
  by (simp add: plain_db_def)

lemma pg_tick: "(pg_of s)\<lparr>db_clock := db_clock (pg_of s) + 1000000 * int d\<rparr> = pg_of (s\<lparr>db_clock := db_clock s + 1 * int d\<rparr>)"
  by (simp add: pg_of_def scale_def algebra_simps)

lemma session_agrees:
  assumes "plain_db s" "list_all (\<lambda>(d, c). call_ok c) calls"
  shows "list_all2 (same_result (=)) (session 1 on_sqlite calls s) (session 1000000 on_postgres calls (pg_of s))"
  using assms
proof (induction calls arbitrary: s)
  case (Cons dc calls)
  obtain d c where dc: "dc = (d, c)" by (rule prod.exhaust)
  let ?s = "s\<lparr>db_clock := db_clock s + 1 * int d\<rparr>"
  have ok: "call_ok c" "list_all (\<lambda>(d, c). call_ok c) calls" using Cons.prems(2) dc by simp_all
  obtain r r' s1 where one: "on_sqlite c ?s = (r, s1)" "on_postgres c (pg_of ?s) = (r', pg_of s1)" "plain_db s1"
      "same_result (=) r r'"
    by (rule simE[OF sim_call_ok[OF ok(1)] plain_tick[OF Cons.prems(1)]])
  show ?case
    unfolding dc session.simps pg_tick one(1,2) Let_def prod.case
    using one(4) Cons.IH[OF one(3) ok(2)] by simp
qed simp

lemma plain_db_empty: "plain_db db_empty"
  by (simp add: plain_db_def db_empty_def)

lemma pg_of_empty: "pg_of db_empty = db_empty"
  by (simp add: pg_of_def db_empty_def on_rows_def scale_def)


definition sample_calls :: "(nat \<times> store_call) list" where
  "sample_calls =
     [(3, CallUpsertWorkItems \<lparr> wui_ProjectID = ''p'', wui_ReceiptID = ''r1'',
         wui_Items = [WorkItem_zero\<lparr>wi_ItemKey := ''a.go''\<rparr>] \<rparr>),
      (1, CallUpsertReceiptScope (\<lparr> rs_ProjectID = '' p'', rs_ReceiptID = ''r1'', rs_TaskText = ''fix'',
         rs_Phase = ''execute'', rs_ResolvedTags = Some [''b'', ''a''], rs_PointerKeys = None,
         rs_InitialScopePaths = Some [''./x''], rs_BaselineCaptured = False, rs_BaselinePaths = [],
         rs_Actor = Actor_zero \<rparr>)),
      (2, CallUpsertWorkItems \<lparr> wui_ProjectID = ''p'', wui_ReceiptID = ''r1'',
         wui_Items = [WorkItem_zero\<lparr>wi_ItemKey := ''b.go'', wi_Status := ''done''\<rparr>,
           WorkItem_zero\<lparr>wi_ItemKey := ''./a.go''\<rparr>] \<rparr>),
      (0, CallListWorkItems \<lparr> flq_ProjectID = ''p'', flq_ReceiptID = ''r1'' \<rparr>)]"



section \<open>Where they differ\<close>

text \<open>A receipt of a project with one run; no text of them has the word \<open>status\<close>.\<close>

definition history_calls :: "(nat \<times> store_call) list" where
  "history_calls =
     [(1, CallSaveRunReceiptSummary ''''
        \<lparr> rrs_ProjectID = ''p'', rrs_RequestID = '''', rrs_ReceiptID = ''r1'', rrs_TaskText = ''parser'',
          rrs_Phase = '''', rrs_Status = '''', rrs_ResolvedTags = None, rrs_PointerKeys = None,
          rrs_FilesChanged = None, rrs_DefinitionOfDoneIssues = None, rrs_Outcome = '''',
          rrs_Actor = Actor_zero, rrs_VCS = \<lparr> vcs_Sha = '''', vcs_Branch = '''' \<rparr> \<rparr>),
      (0, CallListReceiptHistory \<lparr> rhq_ProjectID = ''p'', rhq_Query = ''status'', rhq_Limit = 0, rhq_Unbounded = True \<rparr>)]"



section \<open>The parameter limit\<close>

text \<open>A sync of rows that are normal already: a sorted list of distinct paths with their hashes.\<close>

definition changed_rows :: "string \<Rightarrow> SyncPath list \<Rightarrow> SyncApplyInput" where
  "changed_rows p rows = \<lparr> sai_ProjectID = p, sai_Mode = ''changed'', sai_InsertNewCandidates = False, sai_Paths = rows \<rparr>"

lemma sync_apply_rows:
  assumes "list_all row_ok rows" "distinct (map fst m @ map sp_Path rows)"
  shows "sync_apply_paths m rows = Inr (m @ map (\<lambda>r. (sp_Path r, r)) rows)"
  using assms
proof (induction rows arbitrary: m)
  case (Cons r rows)
  have "sp_Path r \<notin> fst ` set m" using Cons.prems(2) by auto
  then show ?case
    using Cons.prems Cons.IH[of "m @ [(sp_Path r, r)]"]
    by (cases r) (simp add: row_ok_def update_new_key Let_def)
qed simp

lemma normal_rows:
  assumes "list_all row_ok rows" "distinct (map sp_Path rows)" "sorted (map sp_Path rows)"
    "TrimSpace p = p" "p \<noteq> ''''"
  shows "NormalizeSyncApplyInput (changed_rows p rows) = Inr (changed_rows p rows)"
proof -
  let ?m = "map (\<lambda>r. (sp_Path r, r)) rows"
  have "sync_apply_paths [] rows = Inr ?m" using sync_apply_rows[OF assms(1), of "[]"] assms(2) by simp
  moreover have "emit_sorted ?m = rows"
  proof -
    have "sort_key fst ?m = ?m" using assms(3) by (intro sort_key_id_if_sorted) (simp add: comp_def)
    moreover have "distinct (map fst ?m)" using assms(2) by (simp add: comp_def)
    ultimately show ?thesis using sort_emitted[of ?m] by (simp add: comp_def)
  qed
  moreover have "TrimSpace ''changed'' = ''changed''" by code_simp
  ultimately show ?thesis using assms(4,5) by (simp add: NormalizeSyncApplyInput_def changed_rows_def Let_def)
qed

lemma rows_present:
  assumes "list_all row_ok rows"
  shows "filter sp_Deleted rows = []" "filter (\<lambda>e. \<not> sp_Deleted e) rows = rows"
  using assms by (induction rows) (auto simp: row_ok_def)

lemma sqlite_takes_rows:
  assumes "list_all row_ok rows" "distinct (map sp_Path rows)" "db_faults s = []"
  shows "\<exists>res s'. in_tx (apply_sync_body (changed_rows p rows)) s = (Inr res, s')"
proof -
  have hashes: "\<forall>r \<in> set rows. sp_ContentHash r \<noteq> ''''" using assms(1) by (simp add: list_all_iff row_ok_def)
  obtain n s1 where "each_db (refresh_pointers p) rows s = (Inr n, s1)" "db_faults s1 = []"
    using refresh_rows_eval[OF assms(2) hashes assms(3)] update_pointers_eval[OF assms(3)] assms(3) by simp
  then obtain res s2 where body: "apply_sync_body (changed_rows p rows) s = (Inr res, s2)" "db_faults s2 = []"
    using rows_present[OF assms(1)] by (simp add: apply_sync_body_def changed_rows_def Let_def bind_db_def ret_db_def)
  show ?thesis by (intro exI) (rule in_tx_no_faults[where body = "apply_sync_body (changed_rows p rows)", OF assms(3) body])
qed

lemma postgres_refuses_rows:
  assumes "list_all row_ok rows" "distinct (map sp_Path rows)" "sorted (map sp_Path rows)"
    "32767 < length rows" "db_faults s = []"
  shows "\<exists>m. in_tx (pg_sync_tx (changed_rows p rows)) s = (Inl (ErrDB m), s)"
proof -
  have many: "65535 < int (1 + 2 * length rows)" "rows \<noteq> []" using assms(4) by auto
  have "\<exists>m. pg_refresh p rows s = (Inl (ErrDB m), s)"
    unfolding pg_refresh_def sync_rows_same[OF assms(1-3)] sum.case Let_def pg_update_pointers_def pg_exec_def
      if_P[OF many(1)] if_not_P[OF many(2)] by (simp add: bind_db_def fail_db_def)
  then obtain m where "pg_sync_tx (changed_rows p rows) s = (Inl (ErrDB m), s)"
    using rows_present[OF assms(1)] many(2) by (auto simp: pg_sync_tx_def changed_rows_def Let_def bind_db_def ret_db_def)
  then have "in_tx (pg_sync_tx (changed_rows p rows)) s = (Inl (ErrDB m), s)"
    by (rule in_tx_fails[where m = "pg_sync_tx (changed_rows p rows)", OF assms(5) _ assms(5)])
  then show ?thesis by blast
qed


definition many_rows :: "nat \<Rightarrow> SyncPath list" where
  "many_rows n = map (\<lambda>k. \<lparr> sp_Path = replicate (Suc k) (CHR ''a''), sp_ContentHash = ''h'', sp_Deleted = False \<rparr>) [0..<n]"

lemma many_paths: "NormalizeRepoPath (replicate (Suc k) (CHR ''a'')) = replicate (Suc k) (CHR ''a'')"
proof -
  let ?p = "replicate (Suc k) (CHR ''a'')"
  have "TrimSpace ?p = ?p" by (rule TrimSpace_all_graph) (simp add: list_all_iff ascii_graph_def)
  moreover have "ReplaceByte (CHR 0x5C) (CHR ''/'') ?p = ?p" by (rule ReplaceByte_absent) auto
  moreover have "path_segs ?p = [?p]" "\<not> HasPrefix ?p ''/''"
    by (simp_all add: path_segs_def split_on_plain clean_step_def)
  then have "path_Clean ?p = ?p" by (simp add: path_Clean_def del: replicate.simps)
  moreover have "?p \<noteq> ''.''" by simp
  ultimately show ?thesis by (simp add: NormalizeRepoPath_def Let_def del: replicate.simps)
qed

lemma many_rows_ok: "list_all row_ok (many_rows n)"
proof -
  have "TrimSpace ''h'' = ''h''" by code_simp
  then show ?thesis using many_paths by (auto simp: many_rows_def row_ok_def list_all_iff simp del: replicate.simps)
qed

lemma replicate_less: "i < j \<Longrightarrow> replicate i (CHR ''a'') < replicate j (CHR ''a'')"
proof (induction i arbitrary: j)
  case 0
  then show ?case by (cases j) auto
next
  case (Suc i)
  then show ?case by (cases j) auto
qed

lemma many_rows_sorted: "sorted (map sp_Path (many_rows n))" "distinct (map sp_Path (many_rows n))"
proof -
  have "sorted_wrt (<) (map sp_Path (many_rows n))"
    by (auto simp: many_rows_def sorted_wrt_iff_nth_less intro!: replicate_less simp del: replicate.simps)
  then show "sorted (map sp_Path (many_rows n))" "distinct (map sp_Path (many_rows n))"
    by (simp_all add: strict_sorted_iff)
qed


end
