(* ===== verification/Spec2Isabelle.thy ===== *)
theory Spec2Isabelle
  imports Gate_Properties Contract_Properties Sync_Properties Fs_Properties Pg_Properties
begin

text \<open>
  A verification development for the agent workflow manager (awm), a Go program that gives coding
  agents receipts, plans, checks and closeouts over a project. The development models the program
  below \<open>src/internal\<close> as functions on explicit states and proves what makes it correct.

  \<^bold>\<open>The program and its theories.\<close> A request arrives as JSON, is decoded and validated
  (\<open>contracts/v1\<close>), and is handled by the service (\<open>service/backend\<close>), which reads the files of the
  project, runs git and configured commands, and calls the repository (\<open>core\<close>). The repository is
  an adapter over a database (\<open>adapters/sqlite\<close> or \<open>adapters/postgres\<close>), whose writes pass through
  the normalizers of \<open>storage/domain\<close>. Files are written through \<open>fswrite\<close>.

    \<^item> Library: \<open>AWM_Prelude\<close> (slices, results, the two loop shapes of the normalizers as locales
      \<open>first_wins\<close> and \<open>keyed_fold\<close>), \<open>Go_Strings\<close>, \<open>Go_Runes\<close> and \<open>Go_Time\<close> (what the program uses of
      \<open>strings\<close>, \<open>path\<close>, \<open>strconv\<close>, \<open>unicode/utf8\<close>, \<open>encoding/json\<close> and \<open>time\<close>).
    \<^item> Data: \<open>Core_Types\<close> (\<open>core/repository.go\<close>), \<open>Contract_Types\<close> and \<open>Contract_Payloads\<close>
      (\<open>contracts/v1/types.go\<close>).
    \<^item> Domain: \<open>Domain_Norm\<close> and \<open>Domain_Plan\<close> (\<open>storage/domain/domain.go\<close>).
    \<^item> Store (\<open>adapters/sqlite\<close>): \<open>Sqlite_Store\<close> has the tables as one record \<open>db\<close>, transactions and a
      schedule of driver faults; \<open>Sqlite_Plans\<close>, \<open>Sqlite_Receipts\<close>, \<open>Sqlite_Pointers\<close>, \<open>Sqlite_Rules\<close> and
      \<open>Sqlite_History\<close> have the operations, each a function from \<open>db\<close> to a result and a \<open>db\<close>.
      \<open>Store_Steps\<close> has the step relation \<open>store_step\<close> of all writes, reachability and the invariant.
    \<^item> Store (\<open>adapters/postgres\<close>): \<open>Pg_Plans\<close>, \<open>Pg_Receipts\<close>, \<open>Pg_Pointers\<close> and \<open>Pg_History\<close> have the
      operations of the second adapter with their own statements, over the same record \<open>db\<close>: a time
      column holds microseconds, the serial ids are counters of the tables, a statement has at most
      65535 parameters, an integer column 32 bits. The collation is C, texts are valid UTF-8 without
      NUL. \<open>Pg_Sim\<close> has the simulation relation between operations of the two adapters and its rules;
      \<open>Pg_Agree_Plans\<close>, \<open>Pg_Agree_Receipts\<close>, \<open>Pg_Agree_Pointers\<close>, \<open>Pg_Agree_Sync\<close> and
      \<open>Pg_Agree_History\<close> apply them to each operation.
    \<^item> Files: \<open>Go_Files\<close> has a file system (directories, files, symbolic links), the calls of package
      \<open>os\<close> on it and a schedule by which a call fails or the process dies; \<open>Fs_Write\<close> the atomic writes
      of \<open>fswrite/fswrite.go\<close>; \<open>Work_Space\<close> the dotenv parser and the lines of the gitignore file
      (\<open>workspace/workspace.go\<close>). \<open>Fs_Frames\<close> and \<open>Fs_Plain\<close> have what the calls change and what they do
      on plain paths. A crash is one of the process: what was written stays. A hard link is a copy of
      the file, which suffices because the writer removes the other name.
    \<^item> Service (\<open>service/backend\<close>): \<open>Backend_Common\<close> (shared helpers), \<open>Backend_Context\<close> and
      \<open>Backend_Open\<close> (context), \<open>Backend_Work\<close>, \<open>Backend_Scope\<close>, \<open>Backend_Select\<close>, \<open>Backend_Verify\<close>,
      \<open>Backend_Review\<close>, \<open>Backend_Completion\<close> (done), \<open>Backend_Fetch\<close>, \<open>Backend_History\<close>,
      \<open>Backend_Project\<close> (roots, sources of tags and rules), \<open>Backend_Sync\<close>, \<open>Backend_Health\<close>,
      \<open>Backend_Status\<close>. A service operation has type \<open>svc\<close>: it threads the database and ends in a
      result or an \<open>APIError\<close>.
    \<^item> Contract: \<open>Contract_Validate\<close> (\<open>validate.go\<close>, \<open>command_catalog.go\<close>), \<open>Project_Id\<close>
      (\<open>projectid.go\<close>).
    \<^item> Templates: \<open>Boot_Catalog\<close> (the catalog part of \<open>bootstrap/templates.go\<close>).

  \<^bold>\<open>What the theorems show.\<close>

    \<^item> \<open>Domain_Properties\<close>: deduplication and merge of tasks, the status derived for a plan.
    \<^item> \<open>Store_Properties\<close>, \<open>Index_Properties\<close>: every reachable database is well-formed; an upsert of a
      plan or of work items refines an update of an abstract map and is atomic under any faults; logs
      are append-only; a sync of the pointer index refines its specification; searches find what
      they say.
    \<^item> \<open>Service_Effects\<close>, \<open>Service_Properties\<close>: every service call leads from a reachable database to a
      reachable one (a locale of effects, interpreted on the step relation and on the frames);
      confinement of paths, keys that read back, what \<open>Work\<close> closes, refuses and cannot do.
    \<^item> \<open>Closeout_Properties\<close>, \<open>Gate_Properties\<close>: what \<open>Verify\<close>, \<open>Review\<close> and \<open>Done\<close> record, accept and
      refuse, up to the theorem that an accepted strict closeout is clean.
    \<^item> \<open>Read_Properties\<close>, \<open>Contract_Properties\<close>: reads change nothing, account for each key and are
      ordered; validated requests resolve in the service.
    \<^item> \<open>Maintenance_Properties\<close>, \<open>Index_Convergence\<close>, \<open>Sync_Properties\<close>, \<open>Status_Properties\<close>: \<open>Sync\<close> and
      \<open>Health\<close> touch the pointer index only, \<open>Status\<close> touches nothing; the fixer for unindexed files
      reaches a state without unindexed files; the rules of a source become exactly those of its
      file; what \<open>Status\<close> vouches for when it calls a project ready, and what it misses.
    \<^item> \<open>Fs_Properties\<close>: an atomic write leaves each file as it was or with all of the new data,
      whatever fails; on a healthy file system it does what it says; where its resolution of links
      differs from the kernel's.
    \<^item> \<open>Pg_Properties\<close>: the storage interface of \<open>core/repository.go\<close> as a type of calls; a session of any
      such calls, within the bounds that both databases accept, gets the same answers from the two
      adapters; where they differ (search in histories, the parameter limit of a sync).
    \<^item> Each property with a hypothesis is followed by a witness, which applies it to a concrete
      database, project or request; \<open>Project_Samples\<close> has the project that the examples share.

  \<^bold>\<open>Parameters.\<close> What is not in the sources is an argument: the YAML decoders and the JSON reader,
  SHA-256, running a process, the output of git, the files and directories of the project, the
  embedded templates, the current time, the environment variable for unbounded results. A Go map
  that a loop visits is the list of its entries in the order of the visit. Nothing is assumed about
  the parameters unless a theorem says so.

  \<^bold>\<open>Bounds.\<close> Every definition is total, without fuel. Loops of the source that are not over a list are
  structural recursions over what they consume (the bytes of a text, the segments of a path, the
  entries of a directory). The search for a free rule id tries the suffixes up to the number of used
  ids plus two, which is enough by the pigeonhole principle: \<open>rule_id_search_ends\<close> shows that the
  loop of the source leaves within that bound. Go's integers are unbounded here; the
  code does no arithmetic near their bounds.

  \<^bold>\<open>Exactness.\<close> Strings are lists of bytes. \<open>TrimSpace\<close> and \<open>Fields\<close> are exact on every byte list;
  \<open>ToLower\<close> and SQL's \<open>LIKE\<close> are exact on texts whose letters with case are ASCII. Times are nanoseconds
  since the zero time; the parser of RFC 3339 is exact on the texts that the formatter prints. The
  percentage of the inventory report, which is computed in floating point, is left out, and so is
  the cancellation of a call by its context. A nil receiver or a nil repository does not occur.

  \<^bold>\<open>Not modelled.\<close> Opening the databases, their pragmas, pools and migrations, and SQLite's own limit of
  placeholders in a statement; the command line, MCP and HTTP front ends; process configuration and
  logging; \<open>Init\<close> with its scaffold and the application of templates; \<open>Export\<close>, which renders what the
  other reads return.
\<close>

end
